(* ===== verification/Hermes_Prelude.thy ===== *)
theory Hermes_Prelude
  imports Complex_Main "HOL-Library.Char_ord" "HOL-Library.List_Lexorder"
    "HOL-Library.Product_Lexorder" "HOL-Library.Sublist" "HOL-Library.AList" "HOL-Library.Multiset"
begin

text \<open>
  The prelude of the development: the Python values and library routines that every
  component of the program shares.  Texts are lists of code points below 256 (the type
  \<^typ>\<open>string\<close>); case mapping is modelled on ASCII letters.  An aware UTC
  datetime is its number of microseconds since the epoch, so comparison and subtraction
  are those of integers.  A float is the rational number it stands for, and
  \<open>round(x, k)\<close> is decimal rounding, half to even.  A raised exception is the left
  value of a sum.
\<close>

named_theorems py_simps \<open>unfolding rules for the Python library routines\<close>
named_theorems order_simps \<open>facts on canonical (sorted, duplicate-free) lists\<close>

type_synonym uuid = string
type_synonym instant = int
type_synonym 'v dict = "(string \<times> 'v) list"

text \<open>The exceptions of the program that carry no structure of their own.\<close>

datatype py_error =
    ValueError string
  | TypeError string
  | KeyError string
  | RuntimeError string

type_synonym 'a result = "py_error + 'a"

subsection \<open>Texts\<close>

definition code :: "char \<Rightarrow> int" where
  "code c = of_char c"

text \<open>\<open>str.isspace\<close> and the class \<open>\s\<close> on code points below 256.\<close>

definition is_space :: "char \<Rightarrow> bool" where
  "is_space c = (let n = code c in
     (9 \<le> n \<and> n \<le> 13) \<or> (28 \<le> n \<and> n \<le> 32) \<or> n = 133 \<or> n = 160)"

definition is_digit :: "char \<Rightarrow> bool" where
  "is_digit c = (48 \<le> code c \<and> code c \<le> 57)"

definition is_upper :: "char \<Rightarrow> bool" where
  "is_upper c = (65 \<le> code c \<and> code c \<le> 90)"

definition is_lower :: "char \<Rightarrow> bool" where
  "is_lower c = (97 \<le> code c \<and> code c \<le> 122)"

definition is_alpha :: "char \<Rightarrow> bool" where
  "is_alpha c = (is_upper c \<or> is_lower c)"

definition is_hex :: "char \<Rightarrow> bool" where
  "is_hex c = (is_digit c \<or> (65 \<le> code c \<and> code c \<le> 70) \<or> (97 \<le> code c \<and> code c \<le> 102))"

text \<open>The class \<open>\w\<close>: letters, digits, underscore and the alphanumeric code points
  from 128 to 255.\<close>

definition is_word :: "char \<Rightarrow> bool" where
  "is_word c = (is_alpha c \<or> is_digit c \<or> code c = 95 \<or>
     code c \<in> set [170, 178, 179, 181, 185, 186, 188, 189, 190] \<or>
     (192 \<le> code c \<and> code c \<noteq> 215 \<and> code c \<noteq> 247))"

definition lower_char :: "char \<Rightarrow> char" where
  "lower_char c = (if is_upper c then char_of (code c + 32) else c)"

definition upper_char :: "char \<Rightarrow> char" where
  "upper_char c = (if is_lower c then char_of (code c - 32) else c)"

definition lower :: "string \<Rightarrow> string" where
  "lower s = map lower_char s"

definition upper :: "string \<Rightarrow> string" where
  "upper s = map upper_char s"

definition lstrip_by :: "(char \<Rightarrow> bool) \<Rightarrow> string \<Rightarrow> string" where
  "lstrip_by p s = dropWhile p s"

definition rstrip_by :: "(char \<Rightarrow> bool) \<Rightarrow> string \<Rightarrow> string" where
  "rstrip_by p s = rev (dropWhile p (rev s))"

definition strip :: "string \<Rightarrow> string" where
  "strip s = rstrip_by is_space (lstrip_by is_space s)"

text \<open>\<open>s.split(d)\<close> for a one-character separator, and \<open>sep.join(xs)\<close>.\<close>

fun split_on :: "char \<Rightarrow> string \<Rightarrow> string list" where
  "split_on d [] = [[]]"
| "split_on d (c # cs) =
     (if c = d then [] # split_on d cs
      else (case split_on d cs of [] \<Rightarrow> [[c]] | w # ws \<Rightarrow> (c # w) # ws))"

fun join :: "string \<Rightarrow> string list \<Rightarrow> string" where
  "join sep [] = []"
| "join sep [x] = x"
| "join sep (x # y # ys) = x @ sep @ join sep (y # ys)"

text \<open>\<open>old in s\<close>, and \<open>s.replace(old, new)\<close> for a non-empty \<open>old\<close>.\<close>

definition contains :: "string \<Rightarrow> string \<Rightarrow> bool" where
  "contains sub s = sublist sub s"

fun replace_from :: "nat \<Rightarrow> string \<Rightarrow> string \<Rightarrow> string \<Rightarrow> string" where
  "replace_from k old new [] = []"
| "replace_from (Suc k) old new (c # cs) = replace_from k old new cs"
| "replace_from 0 old new (c # cs) =
     (if prefix old (c # cs) then new @ replace_from (length old - 1) old new cs
      else c # replace_from 0 old new cs)"

definition replace :: "string \<Rightarrow> string \<Rightarrow> string \<Rightarrow> string" where
  "replace old new s = (if old = [] then s else replace_from 0 old new s)"

definition remove_prefix :: "string \<Rightarrow> string \<Rightarrow> string" where
  "remove_prefix p s = (if prefix p s then drop (length p) s else s)"

definition remove_suffix :: "string \<Rightarrow> string \<Rightarrow> string" where
  "remove_suffix p s = (if p \<noteq> [] \<and> suffix p s then take (length s - length p) s else s)"

text \<open>\<open>s or t\<close> on texts.\<close>

definition or_else :: "string \<Rightarrow> string \<Rightarrow> string" where
  "or_else s t = (if s = [] then t else s)"

text \<open>\<open>str\<close> of a non-negative and of any integer.\<close>

function nat_str :: "int \<Rightarrow> string" where
  "nat_str n = (if n < 10 then [char_of (48 + n)]
                else nat_str (n div 10) @ [char_of (48 + n mod 10)])"
  by pat_completeness auto
termination by (relation "measure nat") auto

declare nat_str.simps [simp del]

definition int_str :: "int \<Rightarrow> string" where
  "int_str i = (if i < 0 then ''-'' @ nat_str (- i) else nat_str i)"

subsection \<open>Lists and dictionaries\<close>

text \<open>\<open>dict.fromkeys(xs)\<close>: the first occurrence of each element, in order.\<close>

fun dedup :: "'a list \<Rightarrow> 'a list" where
  "dedup [] = []"
| "dedup (x # xs) = x # removeAll x (dedup xs)"

text \<open>\<open>sorted(set(xs))\<close>.\<close>

definition sorted_unique :: "'a::linorder list \<Rightarrow> 'a list" where
  "sorted_unique xs = sort (remdups xs)"

text \<open>A dict keeps its insertion order: storing an existing key keeps its place.\<close>

definition dict_get :: "string \<Rightarrow> 'v dict \<Rightarrow> 'v option" where
  "dict_get k d = map_of d k"

definition dict_set :: "string \<Rightarrow> 'v \<Rightarrow> 'v dict \<Rightarrow> 'v dict" where
  "dict_set k v d = AList.update k v d"

definition dict_setdefault :: "string \<Rightarrow> 'v \<Rightarrow> 'v dict \<Rightarrow> 'v dict" where
  "dict_setdefault k v d = (case map_of d k of None \<Rightarrow> d @ [(k, v)] | Some _ \<Rightarrow> d)"

definition dict_has :: "string \<Rightarrow> 'v dict \<Rightarrow> bool" where
  "dict_has k d = (k \<in> set (map fst d))"

subsection \<open>Errors as values\<close>

definition rbind :: "'e + 'a \<Rightarrow> ('a \<Rightarrow> 'e + 'b) \<Rightarrow> 'e + 'b" where
  "rbind r f = (case r of Inl e \<Rightarrow> Inl e | Inr x \<Rightarrow> f x)"

definition require :: "bool \<Rightarrow> 'e \<Rightarrow> 'e + unit" where
  "require b e = (if b then Inr () else Inl e)"

definition ok :: "'e + 'a \<Rightarrow> bool" where
  "ok r = (case r of Inl _ \<Rightarrow> False | Inr _ \<Rightarrow> True)"

text \<open>Re-raising every error as one.\<close>

definition relabel :: "'f \<Rightarrow> 'e + 'a \<Rightarrow> 'f + 'a" where
  "relabel f r = (case r of Inl _ \<Rightarrow> Inl f | Inr x \<Rightarrow> Inr x)"

fun traverse :: "('a \<Rightarrow> 'e + 'b) \<Rightarrow> 'a list \<Rightarrow> 'e + 'b list" where
  "traverse f [] = Inr []"
| "traverse f (x # xs) = rbind (f x) (\<lambda>y. rbind (traverse f xs) (\<lambda>ys. Inr (y # ys)))"

subsection \<open>Numbers\<close>

definition clamp :: "rat \<Rightarrow> rat \<Rightarrow> rat \<Rightarrow> rat" where
  "clamp lo hi x = max lo (min hi x)"

definition round_half_even :: "rat \<Rightarrow> int" where
  "round_half_even x = (let f = \<lfloor>x\<rfloor>; d = x - of_int f in
     if d < 1 / 2 then f else if 1 / 2 < d then f + 1
     else if even f then f else f + 1)"

definition round_to :: "nat \<Rightarrow> rat \<Rightarrow> rat" where
  "round_to k x = of_int (round_half_even (x * 10 ^ k)) / 10 ^ k"

definition seconds :: "rat \<Rightarrow> instant" where
  "seconds s = round_half_even (s * 1000000)"

text \<open>\<open>(a - b).total_seconds()\<close> for two instants.\<close>

definition total_seconds :: "instant \<Rightarrow> instant \<Rightarrow> rat" where
  "total_seconds a b = of_int (a - b) / 1000000"


section \<open>Facts on texts\<close>

lemma code_char_of: "0 \<le> n \<Longrightarrow> n < 256 \<Longrightarrow> code (char_of n) = n"
  by (simp add: code_def)

lemma code_less: "0 \<le> code c \<and> code c < 256"
  by (cases c) (simp add: code_def)

lemma code_eq: "code c = code d \<longleftrightarrow> c = d"
  by (simp add: code_def)

lemma code_lower_char: "code (lower_char c) = (if is_upper c then code c + 32 else code c)"
  by (auto simp: lower_char_def is_upper_def code_char_of)

text \<open>Case mapping moves letters to letters only.\<close>

lemma lower_char_caseless:
  assumes "\<not> is_lower d" "\<not> is_upper d"
  shows "lower_char c = d \<longleftrightarrow> c = d"
proof (cases "is_upper c")
  case True
  then have "is_lower (lower_char c)"
    by (auto simp: is_lower_def is_upper_def lower_char_def code_char_of)
  with True assms show ?thesis by auto
qed (simp add: lower_char_def)

lemma lower_char_idem [simp]: "lower_char (lower_char c) = lower_char c"
  by (auto simp: lower_char_def is_upper_def code_char_of)

lemma lower_idem [simp]: "lower (lower s) = lower s"
  by (simp add: lower_def)

lemma length_lower [simp]: "length (lower s) = length s"
  by (simp add: lower_def)

lemma upper_char_idem [simp]: "upper_char (upper_char c) = upper_char c"
  by (auto simp: upper_char_def is_lower_def code_char_of)

lemma upper_idem [simp]: "upper (upper s) = upper s"
  by (simp add: upper_def)

lemma length_upper [simp]: "length (upper s) = length s"
  by (simp add: upper_def)

lemma is_space_lower_char [simp]: "is_space (lower_char c) = is_space c"
  by (auto simp: is_space_def lower_char_def is_upper_def code_char_of Let_def)

lemma is_space_upper_char [simp]: "is_space (upper_char c) = is_space c"
  by (auto simp: is_space_def upper_char_def is_lower_def code_char_of Let_def)

lemma map_dropWhile_same:
  "(\<And>c. p (f c) = p c) \<Longrightarrow> dropWhile p (map f s) = map f (dropWhile p s)"
  by (induction s) auto

lemma strip_map:
  assumes "\<And>c. is_space (f c) = is_space c"
  shows "strip (map f s) = map f (strip s)"
  using assms by (simp add: strip_def rstrip_by_def lstrip_by_def rev_map map_dropWhile_same)

lemma strip_lower: "strip (lower s) = lower (strip s)"
  by (simp add: lower_def strip_map)

lemma strip_upper: "strip (upper s) = upper (strip s)"
  by (simp add: upper_def strip_map)

lemma dropWhile_fixed: "s = [] \<or> \<not> p (hd s) \<Longrightarrow> dropWhile p s = s"
  by (cases s) auto

lemma rstrip_by_last: "rstrip_by p s = [] \<or> \<not> p (last (rstrip_by p s))"
proof (cases "dropWhile p (rev s) = []")
  case True
  then show ?thesis by (simp add: rstrip_by_def)
next
  case False
  then have "\<not> p (hd (dropWhile p (rev s)))" by (rule hd_dropWhile)
  with False show ?thesis by (simp add: rstrip_by_def last_rev)
qed

lemma rstrip_by_idem [simp]: "rstrip_by p (rstrip_by p s) = rstrip_by p s"
  using rstrip_by_last [of p s]
  by (simp add: rstrip_by_def [of p "rstrip_by p s"] dropWhile_fixed hd_rev)

lemma rstrip_by_prefix: "\<exists>t. s = rstrip_by p s @ t \<and> (\<forall>c \<in> set t. p c)"
proof -
  have "rev s = takeWhile p (rev s) @ dropWhile p (rev s)" by simp
  then have "s = rev (dropWhile p (rev s)) @ rev (takeWhile p (rev s))"
    by (metis rev_append rev_rev_ident)
  moreover have "\<forall>c \<in> set (rev (takeWhile p (rev s))). p c"
    by (auto dest: set_takeWhileD)
  ultimately show ?thesis by (auto simp: rstrip_by_def)
qed

lemma rstrip_by_hd: "rstrip_by p s \<noteq> [] \<Longrightarrow> hd (rstrip_by p s) = hd s"
  using rstrip_by_prefix [of s p] by (metis hd_append2)

lemma strip_hd: "strip s = [] \<or> \<not> is_space (hd (strip s))"
proof (cases "strip s = []")
  case False
  then have ne: "rstrip_by is_space (dropWhile is_space s) \<noteq> []"
    by (simp add: strip_def lstrip_by_def)
  then have "dropWhile is_space s \<noteq> []" by (metis dropWhile.simps(1) rev.simps(1) rstrip_by_def)
  then have "\<not> is_space (hd (dropWhile is_space s))" by (rule hd_dropWhile)
  with ne show ?thesis by (simp add: strip_def lstrip_by_def rstrip_by_hd)
qed simp

lemma strip_idem [simp]: "strip (strip s) = strip s"
proof -
  have "dropWhile is_space (strip s) = strip s"
    using strip_hd by (rule dropWhile_fixed)
  then show ?thesis by (simp add: strip_def [of "strip s"] lstrip_by_def) (simp add: strip_def)
qed

lemma set_strip: "set (strip s) \<subseteq> set s"
  unfolding strip_def rstrip_by_def lstrip_by_def
  by (metis set_dropWhileD set_rev subsetI)

lemma strip_ends: "s \<noteq> [] \<Longrightarrow> \<not> is_space (hd s) \<Longrightarrow> \<not> is_space (last s) \<Longrightarrow> strip s = s"
proof -
  assume s: "s \<noteq> []" "\<not> is_space (hd s)" "\<not> is_space (last s)"
  have "dropWhile is_space s = s" using s by (intro dropWhile_fixed) simp
  moreover have "dropWhile is_space (rev s) = rev s" using s by (intro dropWhile_fixed) (simp add: hd_rev)
  ultimately show "strip s = s" by (simp add: strip_def lstrip_by_def rstrip_by_def)
qed

lemma strip_last: "strip s = [] \<or> \<not> is_space (last (strip s))"
  unfolding strip_def using rstrip_by_last by metis

lemma strip_spaceless: "\<forall>c \<in> set s. \<not> is_space c \<Longrightarrow> strip s = s"
proof -
  assume a: "\<forall>c \<in> set s. \<not> is_space c"
  then have "dropWhile is_space s = s" "dropWhile is_space (rev s) = rev s"
    by (simp_all add: dropWhile_eq_self_iff hd_rev, metis last_in_set)
  then show ?thesis by (simp add: strip_def rstrip_by_def lstrip_by_def)
qed

lemma rstrip_by_map:
  "(\<And>c. p (f c) = p c) \<Longrightarrow> rstrip_by p (map f s) = map f (rstrip_by p s)"
  by (simp add: rstrip_by_def rev_map map_dropWhile_same)

lemma split_on_not_Nil [simp]: "split_on d s \<noteq> []"
  by (induction s) (auto split: list.splits)

lemma join_Cons: "ws \<noteq> [] \<Longrightarrow> join sep (w # ws) = w @ sep @ join sep ws"
  by (cases ws) auto

lemma join_split_on: "join [d] (split_on d s) = s"
proof (induction s)
  case Nil
  show ?case by simp
next
  case (Cons c cs)
  show ?case
  proof (cases "c = d")
    case True
    with Cons show ?thesis by (simp add: join_Cons)
  next
    case False
    obtain w ws where w: "split_on d cs = w # ws" by (cases "split_on d cs") auto
    with False Cons show ?thesis by (cases ws) auto
  qed
qed

lemma split_on_free: "w \<in> set (split_on d s) \<Longrightarrow> d \<notin> set w"
proof (induction s arbitrary: w)
  case (Cons c cs)
  then show ?case by (cases "split_on d cs") (auto split: if_splits)
qed simp

lemma split_on_clean: "d \<notin> set s \<Longrightarrow> split_on d s = [s]"
  by (induction s) auto

lemma split_on_append: "d \<notin> set w \<Longrightarrow> split_on d (w @ d # s) = w # split_on d s"
  by (induction w) auto

lemma split_on_join: "ws \<noteq> [] \<Longrightarrow> \<forall>w \<in> set ws. d \<notin> set w \<Longrightarrow> split_on d (join [d] ws) = ws"
proof (induction ws)
  case (Cons w ws)
  then show ?case by (cases ws) (simp_all add: split_on_clean split_on_append)
qed simp

lemma replace_absent: "\<not> sublist old s \<Longrightarrow> replace_from 0 old new s = s"
proof (induction s)
  case (Cons c cs)
  then show ?case by (auto simp: sublist_Cons_right)
qed simp

section \<open>Facts on lists and dictionaries\<close>

lemma set_dedup [simp]: "set (dedup xs) = set xs"
  by (induction xs) auto

lemma distinct_dedup [simp]: "distinct (dedup xs)"
  by (induction xs) (auto simp: distinct_removeAll)

lemma dedup_distinct: "distinct xs \<Longrightarrow> dedup xs = xs"
  by (induction xs) (auto simp: removeAll_id)

lemma dedup_idem [simp]: "dedup (dedup xs) = dedup xs"
  by (rule dedup_distinct) simp

lemma subseq_removeAll: "subseq (removeAll x xs) xs"
  by (induction xs) auto

lemma subseq_dedup: "subseq (dedup xs) xs"
proof (induction xs)
  case (Cons x xs)
  then show ?case
    by (auto intro: subseq_order.trans [OF subseq_removeAll])
qed simp

lemma dedup_Nil_iff [simp]: "dedup xs = [] \<longleftrightarrow> xs = []"
  by (cases xs) auto

lemma length_dedup_le: "length (dedup xs) \<le> length xs"
  using subseq_dedup by (rule list_emb_length)

lemma set_sorted_unique [simp, order_simps]: "set (sorted_unique xs) = set xs"
  by (simp add: sorted_unique_def)

lemma sorted_sorted_unique [simp, order_simps]: "sorted (sorted_unique xs)"
  by (simp add: sorted_unique_def)

lemma distinct_sorted_unique [simp, order_simps]: "distinct (sorted_unique xs)"
  by (simp add: sorted_unique_def)

text \<open>A canonical list is determined by its elements, whatever order they came in.\<close>

lemma sorted_unique_cong: "set xs = set ys \<Longrightarrow> sorted_unique xs = sorted_unique ys"
  by (rule sorted_distinct_set_unique) simp_all

lemma sorted_unique_Nil_iff [simp]: "sorted_unique xs = [] \<longleftrightarrow> xs = []"
  by (metis set_sorted_unique set_empty)

lemma sorted_unique_idem [simp]: "sorted_unique (sorted_unique xs) = sorted_unique xs"
  by (rule sorted_unique_cong) simp

text \<open>With distinct keys, \<open>sorted(xs, key=f)\<close> depends on the elements only.\<close>

lemma map_sort_key: "map f (sort_key f xs) = sort (map f xs)"
  by (rule properties_for_sort [symmetric]) (simp_all add: mset_map)

lemma sort_key_unique:
  assumes "mset xs = mset ys" "inj_on f (set ys)"
  shows "sort_key f xs = sort_key f ys"
proof -
  have "sort (map f xs) = sort (map f ys)"
    using assms(1) by (intro properties_for_sort) (simp_all add: mset_map)
  then have "map f (sort_key f xs) = map f (sort_key f ys)" by (simp add: map_sort_key)
  moreover have "set xs = set ys" using assms(1) by (rule mset_eq_setD)
  ultimately show ?thesis using assms(2) by (intro map_inj_on [of f]) auto
qed

lemma dict_get_set: "dict_get k (dict_set k' v d) = (if k = k' then Some v else dict_get k d)"
  by (simp add: dict_get_def dict_set_def update_conv')

lemma dict_get_setdefault:
  "dict_get k (dict_setdefault k' v d) =
     (if k = k' \<and> dict_get k d = None then Some v else dict_get k d)"
  by (auto simp: dict_get_def dict_setdefault_def map_add_def split: option.splits)

lemma dict_has_get: "dict_has k d \<longleftrightarrow> dict_get k d \<noteq> None"
  by (auto simp: dict_has_def dict_get_def map_of_eq_None_iff)

lemma map_of_filter_value:
  "distinct (map fst d) \<Longrightarrow> map_of (filter (\<lambda>(k, v). P v) d) k =
     (case map_of d k of None \<Rightarrow> None | Some v \<Rightarrow> if P v then Some v else None)"
  by (induction d) (auto simp: map_of_eq_None_iff image_iff split: option.splits)

lemma distinct_dict_set: "distinct (map fst d) \<Longrightarrow> distinct (map fst (dict_set k v d))"
  by (simp add: dict_set_def distinct_update)

text \<open>\<open>{f(x): x for x in xs}\<close>: the last value of a key wins, at the place of the first.\<close>

definition keyed :: "('a \<Rightarrow> 'k) \<Rightarrow> 'a list \<Rightarrow> ('k \<times> 'a) list" where
  "keyed f xs = foldl (\<lambda>d x. AList.update (f x) x d) [] xs"

lemma keyed_snoc: "keyed f (xs @ [x]) = AList.update (f x) x (keyed f xs)"
  by (simp add: keyed_def)

lemma keyed_Nil [simp]: "keyed f [] = []"
  by (simp add: keyed_def)

lemma keyed_distinct: "distinct (map fst (keyed f xs))"
  by (induction xs rule: rev_induct) (simp_all add: keyed_snoc distinct_update)

lemma keyed_keys: "fst ` set (keyed f xs) = f ` set xs"
  by (induction xs rule: rev_induct) (simp_all add: keyed_snoc dom_update)

lemma keyed_lookup: "map_of (keyed f xs) k = Some x \<Longrightarrow> x \<in> set xs \<and> f x = k"
proof (induction xs rule: rev_induct)
  case (snoc y xs)
  then show ?case by (cases "k = f y") (simp_all add: keyed_snoc update_conv')
qed simp

lemma keyed_entry: "(k, x) \<in> set (keyed f xs) \<Longrightarrow> x \<in> set xs \<and> f x = k"
  by (rule keyed_lookup, rule map_of_is_SomeI [OF keyed_distinct])

lemma keyed_values: "map f (map snd (keyed f xs)) = map fst (keyed f xs)"
  unfolding map_map by (rule map_cong [OF refl]) (auto dest: keyed_entry)

lemma keyed_values_set:
  "distinct (map f (map snd (keyed f xs)))" "f ` set (map snd (keyed f xs)) = f ` set xs"
  "set (map snd (keyed f xs)) \<subseteq> set xs"
proof -
  show "distinct (map f (map snd (keyed f xs)))" unfolding keyed_values by (rule keyed_distinct)
  have "set (map f (map snd (keyed f xs))) = set (map fst (keyed f xs))" by (simp only: keyed_values)
  then show "f ` set (map snd (keyed f xs)) = f ` set xs" using keyed_keys [of f xs] by (simp add: image_image)
  show "set (map snd (keyed f xs)) \<subseteq> set xs" by (auto dest: keyed_entry)
qed

lemma keyed_values_inj:
  assumes "inj_on f (set xs)"
  shows "set (map snd (keyed f xs)) = set xs" "distinct (map snd (keyed f xs))"
proof -
  show "set (map snd (keyed f xs)) = set xs"
    using keyed_values_set(2,3) [of f xs] assms by (auto simp: inj_on_def image_def set_eq_iff subset_iff) blast
  show "distinct (map snd (keyed f xs))"
    using keyed_values_set(1) [of f xs] by (simp only: distinct_map [of f])
qed

lemma foldl_invariant:
  "P s \<Longrightarrow> (\<And>s x. x \<in> set xs \<Longrightarrow> P s \<Longrightarrow> P (f s x)) \<Longrightarrow> P (foldl f s xs)"
  by (induction xs arbitrary: s) auto

section \<open>Facts on results\<close>

lemma rbind_simps [simp]: "rbind (Inl e) f = Inl e" "rbind (Inr x) f = f x"
  by (simp_all add: rbind_def)

lemma rbind_Inr_iff: "rbind r f = Inr y \<longleftrightarrow> (\<exists>x. r = Inr x \<and> f x = Inr y)"
  by (cases r) simp_all

lemma rbind_Inl_iff:
  "rbind r f = Inl e \<longleftrightarrow> r = Inl e \<or> (\<exists>x. r = Inr x \<and> f x = Inl e)"
  by (cases r) auto

lemma require_simps [simp]: "require True e = Inr ()" "require False e = Inl e"
  by (simp_all add: require_def)

lemma require_Inr_iff [simp]: "require b e = Inr u \<longleftrightarrow> b"
  by (cases b) simp_all

lemma require_Inl_iff [simp]: "require b e = Inl e' \<longleftrightarrow> \<not> b \<and> e' = e"
  by (cases b) auto

lemma relabel_Inr_iff [simp]: "relabel f r = Inr x \<longleftrightarrow> r = Inr x"
  by (cases r) (simp_all add: relabel_def)

lemma ok_simps [simp]: "ok (Inl e) = False" "ok (Inr x) = True"
  by (simp_all add: ok_def)

lemma ok_iff: "ok r \<longleftrightarrow> (\<exists>x. r = Inr x)"
  by (cases r) auto

lemma traverse_Inr_iff:
  "traverse f xs = Inr ys \<longleftrightarrow> list_all2 (\<lambda>x y. f x = Inr y) xs ys"
proof (induction xs arbitrary: ys)
  case Nil
  then show ?case by auto
next
  case (Cons x xs)
  then show ?case by (cases ys) (auto simp: rbind_Inr_iff)
qed

lemma traverse_length: "traverse f xs = Inr ys \<Longrightarrow> length ys = length xs"
  by (simp add: traverse_Inr_iff list_all2_lengthD)

lemma traverse_map: "(\<And>x. x \<in> set xs \<Longrightarrow> f x = Inr (g x)) \<Longrightarrow> traverse f xs = Inr (map g xs)"
  by (induction xs) auto

section \<open>Facts on numbers\<close>

lemma clamp_bounds: "lo \<le> hi \<Longrightarrow> lo \<le> clamp lo hi x \<and> clamp lo hi x \<le> hi"
  by (simp add: clamp_def)

lemma clamp_id: "lo \<le> x \<Longrightarrow> x \<le> hi \<Longrightarrow> clamp lo hi x = x"
  by (simp add: clamp_def)

lemma clamp_mono: "x \<le> y \<Longrightarrow> clamp lo hi x \<le> clamp lo hi y"
  by (auto simp: clamp_def max_def min_def)

lemma round_half_even_near: "\<bar>of_int (round_half_even x) - x\<bar> \<le> 1 / 2"
proof -
  have "of_int \<lfloor>x\<rfloor> \<le> x" "x < of_int \<lfloor>x\<rfloor> + 1" by linarith+
  then show ?thesis by (auto simp: round_half_even_def Let_def)
qed

lemma round_half_even_of_int [simp]: "round_half_even (of_int i) = i"
  by (simp add: round_half_even_def)

lemma round_half_even_mono:
  assumes "x \<le> y"
  shows "round_half_even x \<le> round_half_even y"
proof (rule ccontr)
  assume "\<not> ?thesis"
  then have lt: "round_half_even y + 1 \<le> round_half_even x" by simp
  have nx: "of_int (round_half_even x) - x \<le> 1 / 2"
    using round_half_even_near [of x] by linarith
  have ny: "y - of_int (round_half_even y) \<le> 1 / 2"
    using round_half_even_near [of y] by linarith
  have "(of_int (round_half_even y) :: rat) + 1 \<le> of_int (round_half_even x)"
    using lt by (metis of_int_1 of_int_add of_int_le_iff)
  with nx ny assms have "x = y" by linarith
  with lt show False by simp
qed

lemma round_to_near: "\<bar>round_to k x - x\<bar> \<le> 1 / 2 / 10 ^ k"
proof -
  have p: "(0::rat) < 10 ^ k" by simp
  have "round_to k x - x = (of_int (round_half_even (x * 10 ^ k)) - x * 10 ^ k) / 10 ^ k"
    by (simp add: round_to_def diff_divide_distrib)
  then have "\<bar>round_to k x - x\<bar> = \<bar>of_int (round_half_even (x * 10 ^ k)) - x * 10 ^ k\<bar> / 10 ^ k"
    by (simp add: abs_divide)
  also have "\<dots> \<le> (1 / 2) / 10 ^ k"
    using round_half_even_near p by (intro divide_right_mono) auto
  finally show ?thesis .
qed

lemma round_to_mono: "x \<le> y \<Longrightarrow> round_to k x \<le> round_to k y"
  by (simp add: round_to_def divide_right_mono round_half_even_mono mult_right_mono)

text \<open>A decimal with \<open>k\<close> places is a fixed point of \<open>round(x, k)\<close>.\<close>

definition decimal :: "nat \<Rightarrow> rat \<Rightarrow> bool" where
  "decimal k x = (\<exists>i. x = of_int i / 10 ^ k)"

lemma round_to_decimal: "decimal k x \<Longrightarrow> round_to k x = x"
  by (auto simp: decimal_def round_to_def)

lemma decimal_round_to [simp]: "decimal k (round_to k x)"
  by (auto simp: decimal_def round_to_def)

lemma round_to_idem [simp]: "round_to k (round_to k x) = round_to k x"
  by (simp add: round_to_decimal)

lemma decimal_add: "decimal k x \<Longrightarrow> decimal k y \<Longrightarrow> decimal k (x + y)"
  unfolding decimal_def by (metis add_divide_distrib of_int_add)

lemma decimal_0 [simp]: "decimal k 0"
  unfolding decimal_def by (rule exI [of _ 0]) simp

lemma decimal_sum_list: "(\<And>x. x \<in> set xs \<Longrightarrow> decimal k x) \<Longrightarrow> decimal k (sum_list xs)"
  by (induction xs) (auto intro: decimal_add)

lemma round_to_between:
  assumes "decimal k lo" "decimal k hi" "lo \<le> x" "x \<le> hi"
  shows "lo \<le> round_to k x \<and> round_to k x \<le> hi"
  using round_to_mono [OF assms(3), of k] round_to_mono [OF assms(4), of k]
  by (simp add: round_to_decimal assms)

end
