(* ===== verification/Vocabulary.thy ===== *)
theory Vocabulary
  imports Hermes_Prelude
begin

text \<open>
  The controlled vocabularies of \<^verbatim>\<open>models/contracts.py\<close>: one datatype per
  \<^verbatim>\<open>StrEnum\<close>, the text of each member, and its members in declaration order.  The
  interface \<open>str_enum\<close> is what the contracts rely on: a member is determined by its text.
\<close>

text \<open>\<open>Enum(text)\<close>: \<open>None\<close> is \<open>ValueError\<close>.\<close>

definition parse_enum :: "('e \<Rightarrow> string) \<Rightarrow> 'e list \<Rightarrow> string \<Rightarrow> 'e option" where
  "parse_enum label members s = List.find (\<lambda>e. label e = s) members"

locale str_enum =
  fixes label :: "'e \<Rightarrow> string"
    and members :: "'e list"
  assumes complete: "e \<in> set members"
    and values_distinct: "distinct (map label members)"
begin

lemma value_inj: "label e = label f \<longleftrightarrow> e = f"
  using complete values_distinct by (metis distinct_map inj_onD)

lemma parse_value [simp]: "parse_enum label members (label e) = Some e"
proof -
  obtain f where f: "List.find (\<lambda>d. label d = label e) members = Some f"
    using complete [of e] by (cases "List.find (\<lambda>d. label d = label e) members")
      (auto simp: find_None_iff)
  then have "label f = label e" by (auto simp: find_Some_iff)
  with f show ?thesis by (simp add: parse_enum_def value_inj)
qed

lemma parse_Some: "parse_enum label members s = Some e \<longleftrightarrow> s = label e"
proof
  assume "parse_enum label members s = Some e"
  then show "s = label e" by (auto simp: parse_enum_def find_Some_iff)
qed simp

lemma parse_None: "parse_enum label members s = None \<longleftrightarrow> (\<forall>e. s \<noteq> label e)"
  by (metis parse_Some option.distinct(1) option.exhaust)

end

section \<open>The vocabularies\<close>

datatype source_type =
    ST_RSS | ST_ATOM | ST_JSON | ST_HTML | ST_PDF

fun source_type_value :: "source_type \<Rightarrow> string" where
  "source_type_value ST_RSS = ''rss''"
| "source_type_value ST_ATOM = ''atom''"
| "source_type_value ST_JSON = ''json''"
| "source_type_value ST_HTML = ''html''"
| "source_type_value ST_PDF = ''pdf''"

definition source_type_members :: "source_type list" where
  "source_type_members = [ST_RSS, ST_ATOM, ST_JSON, ST_HTML, ST_PDF]"

datatype http_method =
    GET | POST

fun http_method_value :: "http_method \<Rightarrow> string" where
  "http_method_value GET = ''GET''"
| "http_method_value POST = ''POST''"

definition http_method_members :: "http_method list" where
  "http_method_members = [GET, POST]"

datatype body_encoding =
    BE_NONE | BE_JSON | BE_FORM | BE_TEXT

fun body_encoding_value :: "body_encoding \<Rightarrow> string" where
  "body_encoding_value BE_NONE = ''none''"
| "body_encoding_value BE_JSON = ''json''"
| "body_encoding_value BE_FORM = ''form''"
| "body_encoding_value BE_TEXT = ''text''"

definition body_encoding_members :: "body_encoding list" where
  "body_encoding_members = [BE_NONE, BE_JSON, BE_FORM, BE_TEXT]"

datatype parser_adapter =
    PA_JSON | PA_RSS | PA_ATOM | PA_HTML | PA_PDF

fun parser_adapter_value :: "parser_adapter \<Rightarrow> string" where
  "parser_adapter_value PA_JSON = ''json''"
| "parser_adapter_value PA_RSS = ''rss''"
| "parser_adapter_value PA_ATOM = ''atom''"
| "parser_adapter_value PA_HTML = ''html''"
| "parser_adapter_value PA_PDF = ''pdf''"

definition parser_adapter_members :: "parser_adapter list" where
  "parser_adapter_members = [PA_JSON, PA_RSS, PA_ATOM, PA_HTML, PA_PDF]"

datatype source_category =
    CAT_VULNERABILITIES | CAT_CERT_ADVISORIES | CAT_THREAT_RESEARCH |
  CAT_INCIDENT_RESPONSE | CAT_VENDOR_ADVISORIES | CAT_DETECTION_ENGINEERING |
  CAT_TACTICAL_IOCS | CAT_NEWS

fun source_category_value :: "source_category \<Rightarrow> string" where
  "source_category_value CAT_VULNERABILITIES = ''vulnerabilities''"
| "source_category_value CAT_CERT_ADVISORIES = ''cert_advisories''"
| "source_category_value CAT_THREAT_RESEARCH = ''threat_research''"
| "source_category_value CAT_INCIDENT_RESPONSE = ''incident_response''"
| "source_category_value CAT_VENDOR_ADVISORIES = ''vendor_advisories''"
| "source_category_value CAT_DETECTION_ENGINEERING = ''detection_engineering''"
| "source_category_value CAT_TACTICAL_IOCS = ''tactical_iocs''"
| "source_category_value CAT_NEWS = ''news''"

definition source_category_members :: "source_category list" where
  "source_category_members = [CAT_VULNERABILITIES, CAT_CERT_ADVISORIES,
     CAT_THREAT_RESEARCH, CAT_INCIDENT_RESPONSE, CAT_VENDOR_ADVISORIES,
     CAT_DETECTION_ENGINEERING, CAT_TACTICAL_IOCS, CAT_NEWS]"

datatype reliability_classification =
    REL_AUTHORITATIVE | REL_PRIMARY_RESEARCH | REL_INCIDENT_RESPONSE |
  REL_GENERAL_NEWS

fun reliability_classification_value :: "reliability_classification \<Rightarrow> string" where
  "reliability_classification_value REL_AUTHORITATIVE = ''authoritative''"
| "reliability_classification_value REL_PRIMARY_RESEARCH = ''primary_research''"
| "reliability_classification_value REL_INCIDENT_RESPONSE = ''incident_response''"
| "reliability_classification_value REL_GENERAL_NEWS = ''general_news''"

definition reliability_classification_members :: "reliability_classification list" where
  "reliability_classification_members = [REL_AUTHORITATIVE, REL_PRIMARY_RESEARCH,
     REL_INCIDENT_RESPONSE, REL_GENERAL_NEWS]"

datatype indicator_type =
    IT_IPV4 | IT_IPV6 | IT_DOMAIN | IT_URL | IT_EMAIL | IT_MD5 | IT_SHA1 |
  IT_SHA256 | IT_CVE | IT_REGISTRY_PATH | IT_FILE_PATH

fun indicator_type_value :: "indicator_type \<Rightarrow> string" where
  "indicator_type_value IT_IPV4 = ''ipv4''"
| "indicator_type_value IT_IPV6 = ''ipv6''"
| "indicator_type_value IT_DOMAIN = ''domain''"
| "indicator_type_value IT_URL = ''url''"
| "indicator_type_value IT_EMAIL = ''email''"
| "indicator_type_value IT_MD5 = ''md5''"
| "indicator_type_value IT_SHA1 = ''sha1''"
| "indicator_type_value IT_SHA256 = ''sha256''"
| "indicator_type_value IT_CVE = ''cve''"
| "indicator_type_value IT_REGISTRY_PATH = ''registry_path''"
| "indicator_type_value IT_FILE_PATH = ''file_path''"

definition indicator_type_members :: "indicator_type list" where
  "indicator_type_members = [IT_IPV4, IT_IPV6, IT_DOMAIN, IT_URL, IT_EMAIL, IT_MD5,
     IT_SHA1, IT_SHA256, IT_CVE, IT_REGISTRY_PATH, IT_FILE_PATH]"

datatype indicator_validation_state =
    IV_VALIDATED | IV_INVALID | IV_SUPPRESSED

fun indicator_validation_state_value :: "indicator_validation_state \<Rightarrow> string" where
  "indicator_validation_state_value IV_VALIDATED = ''validated''"
| "indicator_validation_state_value IV_INVALID = ''invalid''"
| "indicator_validation_state_value IV_SUPPRESSED = ''suppressed''"

definition indicator_validation_state_members :: "indicator_validation_state list" where
  "indicator_validation_state_members = [IV_VALIDATED, IV_INVALID, IV_SUPPRESSED]"

datatype severity =
    INFO | LOW | MEDIUM | HIGH | CRITICAL

fun severity_value :: "severity \<Rightarrow> string" where
  "severity_value INFO = ''info''"
| "severity_value LOW = ''low''"
| "severity_value MEDIUM = ''medium''"
| "severity_value HIGH = ''high''"
| "severity_value CRITICAL = ''critical''"

definition severity_members :: "severity list" where
  "severity_members = [INFO, LOW, MEDIUM, HIGH, CRITICAL]"

datatype document_type =
    DOC_ARTICLE | DOC_ADVISORY | DOC_BULLETIN | DOC_UNKNOWN

fun document_type_value :: "document_type \<Rightarrow> string" where
  "document_type_value DOC_ARTICLE = ''article''"
| "document_type_value DOC_ADVISORY = ''advisory''"
| "document_type_value DOC_BULLETIN = ''bulletin''"
| "document_type_value DOC_UNKNOWN = ''unknown''"

definition document_type_members :: "document_type list" where
  "document_type_members = [DOC_ARTICLE, DOC_ADVISORY, DOC_BULLETIN, DOC_UNKNOWN]"

datatype entity_type =
    ET_INDICATOR | ET_VULNERABILITY | ET_PRODUCT | ET_ACTOR | ET_MALWARE |
  ET_TOOL | ET_CAMPAIGN | ET_INFRASTRUCTURE | ET_TECHNIQUE | ET_REPORT

fun entity_type_value :: "entity_type \<Rightarrow> string" where
  "entity_type_value ET_INDICATOR = ''indicator''"
| "entity_type_value ET_VULNERABILITY = ''vulnerability''"
| "entity_type_value ET_PRODUCT = ''product''"
| "entity_type_value ET_ACTOR = ''actor''"
| "entity_type_value ET_MALWARE = ''malware''"
| "entity_type_value ET_TOOL = ''tool''"
| "entity_type_value ET_CAMPAIGN = ''campaign''"
| "entity_type_value ET_INFRASTRUCTURE = ''infrastructure''"
| "entity_type_value ET_TECHNIQUE = ''technique''"
| "entity_type_value ET_REPORT = ''report''"

definition entity_type_members :: "entity_type list" where
  "entity_type_members = [ET_INDICATOR, ET_VULNERABILITY, ET_PRODUCT, ET_ACTOR,
     ET_MALWARE, ET_TOOL, ET_CAMPAIGN, ET_INFRASTRUCTURE, ET_TECHNIQUE, ET_REPORT]"

datatype enrichment_status =
    ES_SUCCESS | ES_PARTIAL | ES_DEGRADED | ES_UNAVAILABLE | ES_STALE |
  ES_FAILED | ES_DISABLED

fun enrichment_status_value :: "enrichment_status \<Rightarrow> string" where
  "enrichment_status_value ES_SUCCESS = ''success''"
| "enrichment_status_value ES_PARTIAL = ''partial''"
| "enrichment_status_value ES_DEGRADED = ''degraded''"
| "enrichment_status_value ES_UNAVAILABLE = ''unavailable''"
| "enrichment_status_value ES_STALE = ''stale''"
| "enrichment_status_value ES_FAILED = ''failed''"
| "enrichment_status_value ES_DISABLED = ''disabled''"

definition enrichment_status_members :: "enrichment_status list" where
  "enrichment_status_members = [ES_SUCCESS, ES_PARTIAL, ES_DEGRADED, ES_UNAVAILABLE,
     ES_STALE, ES_FAILED, ES_DISABLED]"

datatype relationship_origin =
    RO_DETERMINISTIC | RO_SOURCED_ASSERTION | RO_MODEL_INFERENCE

fun relationship_origin_value :: "relationship_origin \<Rightarrow> string" where
  "relationship_origin_value RO_DETERMINISTIC = ''deterministic''"
| "relationship_origin_value RO_SOURCED_ASSERTION = ''sourced_assertion''"
| "relationship_origin_value RO_MODEL_INFERENCE = ''model_inference''"

definition relationship_origin_members :: "relationship_origin list" where
  "relationship_origin_members = [RO_DETERMINISTIC, RO_SOURCED_ASSERTION,
     RO_MODEL_INFERENCE]"

datatype exploitation_state =
    XS_UNKNOWN | XS_NOT_OBSERVED | XS_KNOWN_EXPLOITED | XS_ACTIVELY_EXPLOITED

fun exploitation_state_value :: "exploitation_state \<Rightarrow> string" where
  "exploitation_state_value XS_UNKNOWN = ''unknown''"
| "exploitation_state_value XS_NOT_OBSERVED = ''not_observed''"
| "exploitation_state_value XS_KNOWN_EXPLOITED = ''known_exploited''"
| "exploitation_state_value XS_ACTIVELY_EXPLOITED = ''actively_exploited''"

definition exploitation_state_members :: "exploitation_state list" where
  "exploitation_state_members = [XS_UNKNOWN, XS_NOT_OBSERVED, XS_KNOWN_EXPLOITED,
     XS_ACTIVELY_EXPLOITED]"

datatype review_state =
    RV_PROPOSED | RV_REVIEWED | RV_REJECTED

fun review_state_value :: "review_state \<Rightarrow> string" where
  "review_state_value RV_PROPOSED = ''proposed''"
| "review_state_value RV_REVIEWED = ''reviewed''"
| "review_state_value RV_REJECTED = ''rejected''"

definition review_state_members :: "review_state list" where
  "review_state_members = [RV_PROPOSED, RV_REVIEWED, RV_REJECTED]"

datatype report_state =
    RP_DRAFT | RP_VALIDATED | RP_APPROVED | RP_PUBLISHED | RP_SUPERSEDED |
  RP_REJECTED

fun report_state_value :: "report_state \<Rightarrow> string" where
  "report_state_value RP_DRAFT = ''draft''"
| "report_state_value RP_VALIDATED = ''validated''"
| "report_state_value RP_APPROVED = ''approved''"
| "report_state_value RP_PUBLISHED = ''published''"
| "report_state_value RP_SUPERSEDED = ''superseded''"
| "report_state_value RP_REJECTED = ''rejected''"

definition report_state_members :: "report_state list" where
  "report_state_members = [RP_DRAFT, RP_VALIDATED, RP_APPROVED, RP_PUBLISHED,
     RP_SUPERSEDED, RP_REJECTED]"

datatype detection_type =
    DX_SIGMA | DX_YARA | DX_SPL | DX_KQL

fun detection_type_value :: "detection_type \<Rightarrow> string" where
  "detection_type_value DX_SIGMA = ''sigma''"
| "detection_type_value DX_YARA = ''yara''"
| "detection_type_value DX_SPL = ''spl''"
| "detection_type_value DX_KQL = ''kql''"

definition detection_type_members :: "detection_type list" where
  "detection_type_members = [DX_SIGMA, DX_YARA, DX_SPL, DX_KQL]"

datatype run_status =
    RS_SCHEDULED | RS_RUNNING | RS_COMPLETED | RS_FAILED | RS_SKIPPED

fun run_status_value :: "run_status \<Rightarrow> string" where
  "run_status_value RS_SCHEDULED = ''scheduled''"
| "run_status_value RS_RUNNING = ''running''"
| "run_status_value RS_COMPLETED = ''completed''"
| "run_status_value RS_FAILED = ''failed''"
| "run_status_value RS_SKIPPED = ''skipped''"

definition run_status_members :: "run_status list" where
  "run_status_members = [RS_SCHEDULED, RS_RUNNING, RS_COMPLETED, RS_FAILED, RS_SKIPPED]"

datatype operational_severity =
    OS_INFO | OS_WARNING | OS_ERROR

fun operational_severity_value :: "operational_severity \<Rightarrow> string" where
  "operational_severity_value OS_INFO = ''info''"
| "operational_severity_value OS_WARNING = ''warning''"
| "operational_severity_value OS_ERROR = ''error''"

definition operational_severity_members :: "operational_severity list" where
  "operational_severity_members = [OS_INFO, OS_WARNING, OS_ERROR]"

datatype cache_state =
    CS_MISS | CS_HIT | CS_NOT_MODIFIED | CS_NOT_APPLICABLE

fun cache_state_value :: "cache_state \<Rightarrow> string" where
  "cache_state_value CS_MISS = ''miss''"
| "cache_state_value CS_HIT = ''hit''"
| "cache_state_value CS_NOT_MODIFIED = ''not_modified''"
| "cache_state_value CS_NOT_APPLICABLE = ''not_applicable''"

definition cache_state_members :: "cache_state list" where
  "cache_state_members = [CS_MISS, CS_HIT, CS_NOT_MODIFIED, CS_NOT_APPLICABLE]"

datatype provider_error_classification =
    PE_TIMEOUT | PE_RATE_LIMIT | PE_RETRYABLE_HTTP | PE_HTTP_ERROR |
  PE_AUTHENTICATION | PE_MALFORMED_PAYLOAD | PE_SCHEMA_DRIFT |
  PE_INVALID_REQUEST | PE_DISABLED | PE_UNAVAILABLE

fun provider_error_classification_value :: "provider_error_classification \<Rightarrow> string" where
  "provider_error_classification_value PE_TIMEOUT = ''timeout''"
| "provider_error_classification_value PE_RATE_LIMIT = ''rate_limit''"
| "provider_error_classification_value PE_RETRYABLE_HTTP = ''retryable_http''"
| "provider_error_classification_value PE_HTTP_ERROR = ''http_error''"
| "provider_error_classification_value PE_AUTHENTICATION = ''authentication''"
| "provider_error_classification_value PE_MALFORMED_PAYLOAD = ''malformed_payload''"
| "provider_error_classification_value PE_SCHEMA_DRIFT = ''schema_drift''"
| "provider_error_classification_value PE_INVALID_REQUEST = ''invalid_request''"
| "provider_error_classification_value PE_DISABLED = ''disabled''"
| "provider_error_classification_value PE_UNAVAILABLE = ''unavailable''"

definition provider_error_classification_members :: "provider_error_classification list" where
  "provider_error_classification_members = [PE_TIMEOUT, PE_RATE_LIMIT,
     PE_RETRYABLE_HTTP, PE_HTTP_ERROR, PE_AUTHENTICATION, PE_MALFORMED_PAYLOAD,
     PE_SCHEMA_DRIFT, PE_INVALID_REQUEST, PE_DISABLED, PE_UNAVAILABLE]"

section \<open>Every vocabulary is a text enumeration\<close>

interpretation source_type: str_enum source_type_value source_type_members
proof
  show "e \<in> set source_type_members" for e by (cases e) (simp_all add: source_type_members_def)
  show "distinct (map source_type_value source_type_members)" by code_simp
qed

interpretation http_method: str_enum http_method_value http_method_members
proof
  show "e \<in> set http_method_members" for e by (cases e) (simp_all add: http_method_members_def)
  show "distinct (map http_method_value http_method_members)" by code_simp
qed

interpretation body_encoding: str_enum body_encoding_value body_encoding_members
proof
  show "e \<in> set body_encoding_members" for e by (cases e) (simp_all add: body_encoding_members_def)
  show "distinct (map body_encoding_value body_encoding_members)" by code_simp
qed

interpretation parser_adapter: str_enum parser_adapter_value parser_adapter_members
proof
  show "e \<in> set parser_adapter_members" for e by (cases e) (simp_all add: parser_adapter_members_def)
  show "distinct (map parser_adapter_value parser_adapter_members)" by code_simp
qed

interpretation source_category: str_enum source_category_value source_category_members
proof
  show "e \<in> set source_category_members" for e by (cases e) (simp_all add: source_category_members_def)
  show "distinct (map source_category_value source_category_members)" by code_simp
qed

interpretation reliability_classification: str_enum reliability_classification_value reliability_classification_members
proof
  show "e \<in> set reliability_classification_members" for e by (cases e) (simp_all add: reliability_classification_members_def)
  show "distinct (map reliability_classification_value reliability_classification_members)" by code_simp
qed

interpretation indicator_type: str_enum indicator_type_value indicator_type_members
proof
  show "e \<in> set indicator_type_members" for e by (cases e) (simp_all add: indicator_type_members_def)
  show "distinct (map indicator_type_value indicator_type_members)" by code_simp
qed

interpretation indicator_validation_state: str_enum indicator_validation_state_value indicator_validation_state_members
proof
  show "e \<in> set indicator_validation_state_members" for e by (cases e) (simp_all add: indicator_validation_state_members_def)
  show "distinct (map indicator_validation_state_value indicator_validation_state_members)" by code_simp
qed

interpretation severity: str_enum severity_value severity_members
proof
  show "e \<in> set severity_members" for e by (cases e) (simp_all add: severity_members_def)
  show "distinct (map severity_value severity_members)" by code_simp
qed

interpretation document_type: str_enum document_type_value document_type_members
proof
  show "e \<in> set document_type_members" for e by (cases e) (simp_all add: document_type_members_def)
  show "distinct (map document_type_value document_type_members)" by code_simp
qed

interpretation entity_type: str_enum entity_type_value entity_type_members
proof
  show "e \<in> set entity_type_members" for e by (cases e) (simp_all add: entity_type_members_def)
  show "distinct (map entity_type_value entity_type_members)" by code_simp
qed

interpretation enrichment_status: str_enum enrichment_status_value enrichment_status_members
proof
  show "e \<in> set enrichment_status_members" for e by (cases e) (simp_all add: enrichment_status_members_def)
  show "distinct (map enrichment_status_value enrichment_status_members)" by code_simp
qed

interpretation relationship_origin: str_enum relationship_origin_value relationship_origin_members
proof
  show "e \<in> set relationship_origin_members" for e by (cases e) (simp_all add: relationship_origin_members_def)
  show "distinct (map relationship_origin_value relationship_origin_members)" by code_simp
qed

interpretation exploitation_state: str_enum exploitation_state_value exploitation_state_members
proof
  show "e \<in> set exploitation_state_members" for e by (cases e) (simp_all add: exploitation_state_members_def)
  show "distinct (map exploitation_state_value exploitation_state_members)" by code_simp
qed

interpretation review_state: str_enum review_state_value review_state_members
proof
  show "e \<in> set review_state_members" for e by (cases e) (simp_all add: review_state_members_def)
  show "distinct (map review_state_value review_state_members)" by code_simp
qed

interpretation report_state: str_enum report_state_value report_state_members
proof
  show "e \<in> set report_state_members" for e by (cases e) (simp_all add: report_state_members_def)
  show "distinct (map report_state_value report_state_members)" by code_simp
qed

interpretation detection_type: str_enum detection_type_value detection_type_members
proof
  show "e \<in> set detection_type_members" for e by (cases e) (simp_all add: detection_type_members_def)
  show "distinct (map detection_type_value detection_type_members)" by code_simp
qed

interpretation run_status: str_enum run_status_value run_status_members
proof
  show "e \<in> set run_status_members" for e by (cases e) (simp_all add: run_status_members_def)
  show "distinct (map run_status_value run_status_members)" by code_simp
qed

interpretation operational_severity: str_enum operational_severity_value operational_severity_members
proof
  show "e \<in> set operational_severity_members" for e by (cases e) (simp_all add: operational_severity_members_def)
  show "distinct (map operational_severity_value operational_severity_members)" by code_simp
qed

interpretation cache_state: str_enum cache_state_value cache_state_members
proof
  show "e \<in> set cache_state_members" for e by (cases e) (simp_all add: cache_state_members_def)
  show "distinct (map cache_state_value cache_state_members)" by code_simp
qed

interpretation provider_error_classification: str_enum provider_error_classification_value provider_error_classification_members
proof
  show "e \<in> set provider_error_classification_members" for e by (cases e) (simp_all add: provider_error_classification_members_def)
  show "distinct (map provider_error_classification_value provider_error_classification_members)" by code_simp
qed

end
