(* ===== verification/Py_Values.thy ===== *)
theory Py_Values
  imports Hermes_Prelude
begin

text \<open>
  The dynamic values the program receives from JSON payloads (\<^verbatim>\<open>json.loads\<close>) and the
  builtins it applies to them: truth value, \<open>str\<close>, \<open>repr\<close>, \<open>float\<close> and
  \<open>dict.get\<close>.  A JSON number with a fraction is the rational it denotes.
\<close>

datatype json =
    JNull
  | JBool bool
  | JInt int
  | JFloat rat
  | JStr string
  | JList "json list"
  | JObj "(string \<times> json) list"

section \<open>Type tests, truth and lookup\<close>

fun truthy :: "json \<Rightarrow> bool" where
  "truthy JNull = False"
| "truthy (JBool b) = b"
| "truthy (JInt i) = (i \<noteq> 0)"
| "truthy (JFloat q) = (q \<noteq> 0)"
| "truthy (JStr s) = (s \<noteq> [])"
| "truthy (JList xs) = (xs \<noteq> [])"
| "truthy (JObj d) = (d \<noteq> [])"

fun as_str :: "json \<Rightarrow> string option" where
  "as_str (JStr s) = Some s"
| "as_str _ = None"

fun as_list :: "json \<Rightarrow> json list option" where
  "as_list (JList xs) = Some xs"
| "as_list _ = None"

fun as_obj :: "json \<Rightarrow> json dict option" where
  "as_obj (JObj d) = Some d"
| "as_obj _ = None"

text \<open>\<open>d.get(k)\<close> (a missing key is \<open>None\<close>), \<open>d.get(k, default)\<close> and the chain
  \<open>x or y or z\<close>.\<close>

definition jget :: "string \<Rightarrow> json dict \<Rightarrow> json" where
  "jget k d = (case dict_get k d of None \<Rightarrow> JNull | Some v \<Rightarrow> v)"

definition jget_default :: "string \<Rightarrow> json \<Rightarrow> json dict \<Rightarrow> json" where
  "jget_default k v d = (case dict_get k d of None \<Rightarrow> v | Some w \<Rightarrow> w)"

definition py_or :: "json \<Rightarrow> json \<Rightarrow> json" where
  "py_or x y = (if truthy x then x else y)"

section \<open>Rendering\<close>

text \<open>A finite decimal fraction in Python's notation (no exponent form).\<close>

fun decimal_places :: "nat \<Rightarrow> rat \<Rightarrow> nat" where
  "decimal_places 0 q = 0"
| "decimal_places (Suc n) q =
     (if q = of_int \<lfloor>q\<rfloor> then 0 else Suc (decimal_places n (q * 10)))"

fun pad_left :: "nat \<Rightarrow> string \<Rightarrow> string" where
  "pad_left n s = replicate (n - length s) (CHR ''0'') @ s"

definition float_str :: "rat \<Rightarrow> string" where
  "float_str q =
     (let a = \<bar>q\<bar>; k = decimal_places 20 a; whole = \<lfloor>a\<rfloor>;
          frac = \<lfloor>(a - of_int \<lfloor>a\<rfloor>) * 10 ^ k\<rfloor>
      in (if q < 0 then ''-'' else '''') @ nat_str whole @ ''.'' @
         (if k = 0 then ''0'' else pad_left k (nat_str frac)))"

definition quote_char :: "string \<Rightarrow> char" where
  "quote_char s = (if CHR 0x27 \<in> set s \<and> CHR 0x22 \<notin> set s then CHR 0x22 else CHR 0x27)"

definition hex_digit :: "int \<Rightarrow> char" where
  "hex_digit n = (if n < 10 then char_of (48 + n) else char_of (87 + n))"

definition repr_char :: "char \<Rightarrow> char \<Rightarrow> string" where
  "repr_char q c =
     (let n = code c in
      if c = q \<or> n = 92 then [CHR 0x5C, c]
      else if n = 10 then [CHR 0x5C, CHR ''n'']
      else if n = 13 then [CHR 0x5C, CHR ''r'']
      else if n = 9 then [CHR 0x5C, CHR ''t'']
      else if n < 32 \<or> (127 \<le> n \<and> n \<le> 160) \<or> n = 173
      then [CHR 0x5C, CHR ''x'', hex_digit (n div 16), hex_digit (n mod 16)]
      else [c])"

definition repr_str :: "string \<Rightarrow> string" where
  "repr_str s = (let q = quote_char s in [q] @ concat (map (repr_char q) s) @ [q])"

fun py_repr :: "json \<Rightarrow> string" where
  "py_repr JNull = ''None''"
| "py_repr (JBool b) = (if b then ''True'' else ''False'')"
| "py_repr (JInt i) = int_str i"
| "py_repr (JFloat q) = float_str q"
| "py_repr (JStr s) = repr_str s"
| "py_repr (JList xs) = ''['' @ join '', '' (map py_repr xs) @ '']''"
| "py_repr (JObj d) =
     ''{'' @ join '', '' (map (\<lambda>(k, v). repr_str k @ '': '' @ py_repr v) d) @ ''}''"

fun py_str :: "json \<Rightarrow> string" where
  "py_str (JStr s) = s"
| "py_str v = py_repr v"

section \<open>float()\<close>

datatype pyfloat = Fin rat | PosInf | NegInf | NaN

text \<open>A digit part: digits, with single underscores between digits.\<close>

fun digit_part :: "string \<Rightarrow> int \<Rightarrow> (int \<times> string) option" where
  "digit_part [] acc = Some (acc, [])"
| "digit_part (c # cs) acc =
     (if is_digit c then digit_part cs (acc * 10 + (code c - 48))
      else if c = CHR ''_''
      then (case cs of d # _ \<Rightarrow> if is_digit d then digit_part cs acc else None | [] \<Rightarrow> None)
      else Some (acc, c # cs))"

definition digits_at :: "string \<Rightarrow> (int \<times> nat \<times> string) option" where
  "digits_at s = (case s of
       c # _ \<Rightarrow> if is_digit c
         then (case digit_part s 0 of None \<Rightarrow> None
               | Some (n, rest) \<Rightarrow>
                   Some (n, length (filter is_digit (take (length s - length rest) s)), rest))
         else None
     | [] \<Rightarrow> None)"

definition sign_at :: "string \<Rightarrow> rat \<times> string" where
  "sign_at s = (case s of c # cs \<Rightarrow>
       if c = CHR ''-'' then (- 1, cs) else if c = CHR ''+'' then (1, cs) else (1, s)
     | [] \<Rightarrow> (1, s))"

definition exponent_at :: "string \<Rightarrow> (int \<times> string) option" where
  "exponent_at s = (case s of [] \<Rightarrow> Some (0, [])
     | c # cs \<Rightarrow> if c = CHR ''e'' \<or> c = CHR ''E''
         then (let (sg, r) = sign_at cs in
               case digits_at r of None \<Rightarrow> None
               | Some (n, _, rest) \<Rightarrow> Some (if sg < 0 then - n else n, rest))
         else Some (0, s))"

definition pow10 :: "int \<Rightarrow> rat" where
  "pow10 e = (if 0 \<le> e then 10 ^ nat e else 1 / 10 ^ nat (- e))"

definition parse_unsigned :: "string \<Rightarrow> rat option" where
  "parse_unsigned s =
     (let mantissa = (case digits_at s of
          Some (n, _, rest) \<Rightarrow>
            (case rest of c # r \<Rightarrow>
               if c = CHR ''.''
               then (case digits_at r of
                       Some (f, k, rest') \<Rightarrow> Some (of_int n + of_int f / 10 ^ k, rest')
                     | None \<Rightarrow> Some (of_int n, r))
               else Some (of_int n, rest)
             | [] \<Rightarrow> Some (of_int n, []))
        | None \<Rightarrow>
            (case s of c # r \<Rightarrow>
               if c = CHR ''.''
               then map_option (\<lambda>(f, k, rest'). (of_int f / 10 ^ k, rest')) (digits_at r)
               else None
             | [] \<Rightarrow> None))
      in case mantissa of None \<Rightarrow> None
         | Some (m, rest) \<Rightarrow>
             (case exponent_at rest of
                Some (e, []) \<Rightarrow> Some (m * pow10 e)
              | _ \<Rightarrow> None))"

text \<open>\<open>float(s)\<close> for a text: \<open>None\<close> is \<open>ValueError\<close>.\<close>

definition float_of_str :: "string \<Rightarrow> pyfloat option" where
  "float_of_str s =
     (let (sg, body) = sign_at (strip s); w = lower body in
      if w = ''inf'' \<or> w = ''infinity'' then Some (if sg < 0 then NegInf else PosInf)
      else if w = ''nan'' then Some NaN
      else map_option (\<lambda>q. Fin (sg * q)) (parse_unsigned body))"

text \<open>\<open>float(v)\<close> for a JSON value: \<open>None\<close> is \<open>TypeError\<close> or \<open>ValueError\<close>.\<close>

fun float_of :: "json \<Rightarrow> pyfloat option" where
  "float_of (JBool b) = Some (Fin (if b then 1 else 0))"
| "float_of (JInt i) = Some (Fin (of_int i))"
| "float_of (JFloat q) = Some (Fin q)"
| "float_of (JStr s) = float_of_str s"
| "float_of _ = None"

text \<open>\<open>lo <= x <= hi\<close> for finite bounds, and \<open>max(0.0, x)\<close> as an upper-bounded delay.\<close>

fun in_range :: "rat \<Rightarrow> rat \<Rightarrow> pyfloat \<Rightarrow> bool" where
  "in_range lo hi (Fin q) = (lo \<le> q \<and> q \<le> hi)"
| "in_range lo hi _ = False"

section \<open>Facts\<close>

lemma jget_set: "jget k (dict_set k' v d) = (if k = k' then v else jget k d)"
  by (simp add: jget_def dict_get_set)

lemma truthy_JNull_or [simp]: "py_or JNull y = y"
  by (simp add: py_or_def)

lemma in_range_Fin: "in_range lo hi x \<longleftrightarrow> (\<exists>q. x = Fin q \<and> lo \<le> q \<and> q \<le> hi)"
  by (cases x) auto

lemma as_str_Some [simp]: "as_str v = Some s \<longleftrightarrow> v = JStr s"
  by (cases v) auto

lemma as_list_Some [simp]: "as_list v = Some xs \<longleftrightarrow> v = JList xs"
  by (cases v) auto

lemma as_obj_Some [simp]: "as_obj v = Some d \<longleftrightarrow> v = JObj d"
  by (cases v) auto

lemma pow10_pos: "0 < pow10 e"
  by (simp add: pow10_def)

end
