(* ===== verification/Py_Regex.thy ===== *)
theory Py_Regex
  imports Hermes_Prelude
begin

text \<open>
  Python's \<^verbatim>\<open>re\<close> as the program uses it: a backtracking matcher that tries the
  alternatives in order and repeats greedily, with groups, one-character look-behind,
  look-ahead, word boundaries and the anchors.  \<open>mt r s\<close> lists the states reached from
  \<open>s\<close> in the order the engine would try them, so the head of the list is its match.
  A state is the text already consumed (reversed), the text ahead, and the groups set.
\<close>

datatype re =
    Eps
  | Chr "char \<Rightarrow> bool"
  | Seq re re
  | Alt re re
  | Rep nat "nat option" re
  | Lazy re
  | Behind "char \<Rightarrow> bool"
  | NotBehind "char \<Rightarrow> bool"
  | Ahead re
  | NotAhead re
  | AtEnd
  | Grp nat re

type_synonym st = "string \<times> string \<times> (nat \<times> string) list"

section \<open>The matcher\<close>

fun step_char :: "(char \<Rightarrow> bool) \<Rightarrow> st \<Rightarrow> st list" where
  "step_char p (b, c # cs, g) = (if p c then [(c # b, cs, g)] else [])"
| "step_char p (b, [], g) = []"

text \<open>\<open>r{lo,hi}\<close> tries another repetition first; a repetition that consumes nothing
  is not repeated.  The fuel bounds the number of repetitions.\<close>

fun greedy :: "(st \<Rightarrow> st list) \<Rightarrow> nat \<Rightarrow> nat option \<Rightarrow> nat \<Rightarrow> st \<Rightarrow> st list" where
  "greedy f lo hi 0 s = (if lo = 0 then [s] else [])"
| "greedy f lo hi (Suc k) s =
     (if hi = Some 0 then (if lo = 0 then [s] else [])
      else concat (map (\<lambda>t. if lo = 0 \<and> fst t = fst s then []
                            else greedy f (lo - 1) (map_option (\<lambda>h. h - 1) hi) k t) (f s))
           @ (if lo = 0 then [s] else []))"

text \<open>\<open>r*?\<close> tries to stop first.\<close>

fun lazily :: "(st \<Rightarrow> st list) \<Rightarrow> nat \<Rightarrow> st \<Rightarrow> st list" where
  "lazily f 0 s = [s]"
| "lazily f (Suc k) s =
     s # concat (map (\<lambda>t. if fst t = fst s then [] else lazily f k t) (f s))"

definition behind :: "(char \<Rightarrow> bool) \<Rightarrow> string \<Rightarrow> bool" where
  "behind p b = (case b of [] \<Rightarrow> False | c # _ \<Rightarrow> p c)"

fun mt :: "re \<Rightarrow> st \<Rightarrow> st list" where
  "mt Eps s = [s]"
| "mt (Chr p) s = step_char p s"
| "mt (Seq r1 r2) s = concat (map (mt r2) (mt r1 s))"
| "mt (Alt r1 r2) s = mt r1 s @ mt r2 s"
| "mt (Rep lo hi r) s = greedy (mt r) lo hi (lo + length (fst (snd s))) s"
| "mt (Lazy r) s = lazily (mt r) (length (fst (snd s))) s"
| "mt (Behind p) s = (if behind p (fst s) then [s] else [])"
| "mt (NotBehind p) s = (if behind p (fst s) then [] else [s])"
| "mt (Ahead r) s = (if mt r s = [] then [] else [s])"
| "mt (NotAhead r) s = (if mt r s = [] then [s] else [])"
| "mt AtEnd s = (if fst (snd s) = [] then [s] else [])"
| "mt (Grp n r) s =
     map (\<lambda>(b, a, g). (b, a, (n, rev (take (length b - length (fst s)) b)) # g)) (mt r s)"

section \<open>Building expressions\<close>

fun lit :: "string \<Rightarrow> re" where
  "lit [] = Eps"
| "lit [c] = Chr (\<lambda>d. d = c)"
| "lit (c # d # cs) = Seq (Chr (\<lambda>x. x = c)) (lit (d # cs))"

text \<open>A literal under \<^verbatim>\<open>(?i)\<close>.\<close>

definition ilit :: "string \<Rightarrow> re" where
  "ilit s = foldr (\<lambda>c r. Seq (Chr (\<lambda>d. lower_char d = lower_char c)) r) s Eps"

definition alts :: "re list \<Rightarrow> re" where
  "alts rs = (case rs of [] \<Rightarrow> Chr (\<lambda>_. False) | r # rest \<Rightarrow> foldl Alt r rest)"

definition seqs :: "re list \<Rightarrow> re" where
  "seqs rs = foldr Seq rs Eps"

abbreviation star :: "re \<Rightarrow> re" where "star r \<equiv> Rep 0 None r"
abbreviation plus1 :: "re \<Rightarrow> re" where "plus1 r \<equiv> Rep 1 None r"
abbreviation opt :: "re \<Rightarrow> re" where "opt r \<equiv> Rep 0 (Some 1) r"
abbreviation times :: "nat \<Rightarrow> re \<Rightarrow> re" where "times n r \<equiv> Rep n (Some n) r"

definition one_of :: "string \<Rightarrow> char \<Rightarrow> bool" where
  "one_of cs c = (c \<in> set cs)"

section \<open>Matching, searching and substitution\<close>

definition fullmatch :: "re \<Rightarrow> string \<Rightarrow> bool" where
  "fullmatch r s = list_ex (\<lambda>(b, a, g). a = []) (mt r ([], s, []))"

record found =
  fd_start :: nat
  fd_end :: nat
  fd_text :: string
  fd_groups :: "(nat \<times> string) list"

definition group :: "nat \<Rightarrow> found \<Rightarrow> string option" where
  "group n m = map_of (fd_groups m) n"

definition match_at :: "re \<Rightarrow> string \<Rightarrow> string \<Rightarrow> found option" where
  "match_at r b a = (case mt r (b, a, []) of [] \<Rightarrow> None
     | (b', a', g) # _ \<Rightarrow>
         (let n = length a - length a' in
          Some \<lparr>fd_start = length b, fd_end = length b + n, fd_text = take n a,
                fd_groups = g\<rparr>))"

text \<open>\<open>re.finditer\<close>: after a match the search resumes at its end.  The argument
  \<open>skip\<close> counts the characters of the last match still to be passed; the program uses no
  expression that matches the empty text.\<close>

fun find_from :: "re \<Rightarrow> nat \<Rightarrow> string \<Rightarrow> string \<Rightarrow> found list" where
  "find_from r skip b [] = []"
| "find_from r (Suc k) b (c # cs) = find_from r k (c # b) cs"
| "find_from r 0 b (c # cs) =
     (case match_at r b (c # cs) of
        None \<Rightarrow> find_from r 0 (c # b) cs
      | Some m \<Rightarrow> m # find_from r (fd_end m - fd_start m - 1) (c # b) cs)"

definition finditer :: "re \<Rightarrow> string \<Rightarrow> found list" where
  "finditer r s = find_from r 0 [] s"

definition search :: "re \<Rightarrow> string \<Rightarrow> found option" where
  "search r s = (case finditer r s of [] \<Rightarrow> None | m # _ \<Rightarrow> Some m)"

definition matches_somewhere :: "re \<Rightarrow> string \<Rightarrow> bool" where
  "matches_somewhere r s = (search r s \<noteq> None)"

text \<open>\<open>re.sub(r, new, s)\<close>.\<close>

fun sub_from :: "re \<Rightarrow> string \<Rightarrow> nat \<Rightarrow> string \<Rightarrow> string \<Rightarrow> string" where
  "sub_from r new skip b [] = []"
| "sub_from r new (Suc k) b (c # cs) = sub_from r new k (c # b) cs"
| "sub_from r new 0 b (c # cs) =
     (case match_at r b (c # cs) of
        None \<Rightarrow> c # sub_from r new 0 (c # b) cs
      | Some m \<Rightarrow> new @ sub_from r new (fd_end m - fd_start m - 1) (c # b) cs)"

definition sub :: "re \<Rightarrow> string \<Rightarrow> string \<Rightarrow> string" where
  "sub r new s = sub_from r new 0 [] s"

section \<open>The language an expression can consume\<close>

text \<open>An over-approximation by forgetting the assertions: whatever a match consumes is in
  \<open>lang\<close>.\<close>

fun lang :: "re \<Rightarrow> string set" where
  "lang Eps = {[]}"
| "lang (Chr p) = {[c] |c. p c}"
| "lang (Seq r1 r2) = {u @ v |u v. u \<in> lang r1 \<and> v \<in> lang r2}"
| "lang (Alt r1 r2) = lang r1 \<union> lang r2"
| "lang (Rep lo hi r) = {concat ws |ws. set ws \<subseteq> lang r \<and> lo \<le> length ws \<and>
     (case hi of None \<Rightarrow> True | Some h \<Rightarrow> length ws \<le> h)}"
| "lang (Lazy r) = {concat ws |ws. set ws \<subseteq> lang r}"
| "lang (Grp n r) = lang r"
| "lang _ = {[]}"

abbreviation hi_ok :: "nat option \<Rightarrow> nat \<Rightarrow> bool" where
  "hi_ok hi n \<equiv> (case hi of None \<Rightarrow> True | Some h \<Rightarrow> n \<le> h)"

definition consumes :: "string set \<Rightarrow> st \<Rightarrow> st \<Rightarrow> bool" where
  "consumes L s t = (\<exists>w. fst (snd s) = w @ fst (snd t) \<and> fst t = rev w @ fst s \<and> w \<in> L)"

lemma consumes_refl: "[] \<in> L \<Longrightarrow> consumes L s s"
  by (simp add: consumes_def)

lemma greedy_sound:
  assumes "\<And>s t. t \<in> set (f s) \<Longrightarrow> consumes L s t"
    and "t \<in> set (greedy f lo hi k s)"
  shows "consumes {concat ws |ws. set ws \<subseteq> L \<and> lo \<le> length ws \<and> hi_ok hi (length ws)} s t"
  using assms(2)
proof (induction k arbitrary: lo hi s)
  case 0
  then show ?case by (auto split: if_splits option.splits intro!: consumes_refl exI [of _ "[]"])
next
  case (Suc k)
  show ?case
  proof (cases "lo = 0 \<and> t = s")
    case True
    then show ?thesis by (auto split: option.splits intro!: consumes_refl exI [of _ "[]"])
  next
    case False
    with Suc.prems obtain u where u: "u \<in> set (f s)" "hi \<noteq> Some 0"
      "t \<in> set (greedy f (lo - 1) (map_option (\<lambda>h. h - 1) hi) k u)"
      by (auto split: if_splits)
    from assms(1) [OF u(1)] obtain v where v:
      "fst (snd s) = v @ fst (snd u)" "fst u = rev v @ fst s" "v \<in> L"
      by (auto simp: consumes_def)
    from Suc.IH [OF u(3)] obtain ws where ws:
      "fst (snd u) = concat ws @ fst (snd t)" "fst t = rev (concat ws) @ fst u"
      "set ws \<subseteq> L" "lo - 1 \<le> length ws" "hi_ok (map_option (\<lambda>h. h - 1) hi) (length ws)"
      by (auto simp: consumes_def)
    have "hi_ok hi (length (v # ws))" using ws(5) u(2) by (auto split: option.splits)
    moreover have "lo \<le> length (v # ws)" using ws(4) by simp
    ultimately show ?thesis
      using u v ws by (auto simp: consumes_def intro!: exI [of _ "v # ws"])
  qed
qed

lemma lazily_sound:
  assumes "\<And>s t. t \<in> set (f s) \<Longrightarrow> consumes L s t"
    and "t \<in> set (lazily f k s)"
  shows "consumes {concat ws |ws. set ws \<subseteq> L} s t"
  using assms(2)
proof (induction k arbitrary: s)
  case 0
  then show ?case by (auto intro!: consumes_refl exI [of _ "[]"])
next
  case (Suc k)
  show ?case
  proof (cases "t = s")
    case True
    then show ?thesis by (auto intro!: consumes_refl exI [of _ "[]"])
  next
    case False
    with Suc.prems obtain u where u: "u \<in> set (f s)" "t \<in> set (lazily f k u)"
      by (auto split: if_splits)
    from assms(1) [OF u(1)] obtain v where
      v: "fst (snd s) = v @ fst (snd u)" "fst u = rev v @ fst s" "v \<in> L"
      by (auto simp: consumes_def)
    from Suc.IH [OF u(2)] obtain ws where
      "fst (snd u) = concat ws @ fst (snd t)" "fst t = rev (concat ws) @ fst u" "set ws \<subseteq> L"
      by (auto simp: consumes_def)
    with v show ?thesis by (auto simp: consumes_def intro!: exI [of _ "v # ws"])
  qed
qed

lemma step_char_sound: "t \<in> set (step_char p s) \<Longrightarrow> consumes {[c] |c. p c} s t"
  by (cases "(p, s)" rule: step_char.cases) (auto simp: consumes_def split: if_splits)

lemma consumes_mono: "consumes L s t \<Longrightarrow> L \<subseteq> M \<Longrightarrow> consumes M s t"
  by (auto simp: consumes_def)

lemma consumes_trans:
  "consumes L s t \<Longrightarrow> consumes M t u \<Longrightarrow> consumes {v @ w |v w. v \<in> L \<and> w \<in> M} s u"
  unfolding consumes_def by (clarsimp, metis)

lemma mt_sound: "t \<in> set (mt r s) \<Longrightarrow> consumes (lang r) s t"
proof (induction r arbitrary: s t)
  case (Chr p)
  then show ?case using step_char_sound by auto
next
  case (Seq r1 r2)
  then obtain u where u: "u \<in> set (mt r1 s)" "t \<in> set (mt r2 u)" by auto
  show ?case using consumes_trans [OF Seq.IH(1) [OF u(1)] Seq.IH(2) [OF u(2)]] by simp
next
  case (Alt r1 r2)
  then have "t \<in> set (mt r1 s) \<or> t \<in> set (mt r2 s)" by simp
  then show ?case
  proof
    assume "t \<in> set (mt r1 s)"
    from Alt.IH(1) [OF this] show ?thesis by (rule consumes_mono) simp
  next
    assume "t \<in> set (mt r2 s)"
    from Alt.IH(2) [OF this] show ?thesis by (rule consumes_mono) simp
  qed
next
  case (Rep lo hi r)
  show ?case using greedy_sound [where f = "mt r", OF Rep.IH] Rep.prems by simp
next
  case (Lazy r)
  show ?case using lazily_sound [where f = "mt r", OF Lazy.IH] Lazy.prems by simp
next
  case (Grp n r)
  from Grp.prems obtain b a g where u: "(b, a, g) \<in> set (mt r s)" "fst t = b" "fst (snd t) = a"
    by auto
  show ?case using Grp.IH [OF u(1)] u(2,3) by (simp add: consumes_def)
qed (auto simp: consumes_def split: if_splits)

lemma fullmatch_lang: "fullmatch r s \<Longrightarrow> s \<in> lang r"
  by (auto simp: fullmatch_def list_ex_iff consumes_def dest!: mt_sound)

text \<open>Every character a match consumes satisfies one of the expression's classes.\<close>

fun alphabet :: "re \<Rightarrow> char \<Rightarrow> bool" where
  "alphabet (Chr p) c = p c"
| "alphabet (Seq r1 r2) c = (alphabet r1 c \<or> alphabet r2 c)"
| "alphabet (Alt r1 r2) c = (alphabet r1 c \<or> alphabet r2 c)"
| "alphabet (Rep lo hi r) c = alphabet r c"
| "alphabet (Lazy r) c = alphabet r c"
| "alphabet (Grp n r) c = alphabet r c"
| "alphabet _ c = False"

lemma lang_alphabet: "w \<in> lang r \<Longrightarrow> c \<in> set w \<Longrightarrow> alphabet r c"
  by (induction r arbitrary: w) (auto, blast+)

lemma fullmatch_alphabet: "fullmatch r s \<Longrightarrow> c \<in> set s \<Longrightarrow> alphabet r c"
  using fullmatch_lang lang_alphabet by blast

text \<open>A match is a piece of the text, at its own offsets.\<close>

definition spans :: "string \<Rightarrow> found \<Rightarrow> bool" where
  "spans s m = (fd_start m \<le> fd_end m \<and> fd_end m \<le> length s \<and>
     fd_text m = take (fd_end m - fd_start m) (drop (fd_start m) s))"

lemma match_at_spans: "match_at r b a = Some m \<Longrightarrow>
    spans (rev b @ a) m \<and> fd_start m = length b \<and> fd_text m \<in> lang r"
proof -
  assume m: "match_at r b a = Some m"
  then obtain b' a' g ts where mt: "mt r (b, a, []) = (b', a', g) # ts"
    by (auto simp: match_at_def split: list.splits)
  then have "consumes (lang r) (b, a, []) (b', a', g)" using mt_sound by (metis list.set_intros(1))
  then obtain w where w: "a = w @ a'" "w \<in> lang r" by (auto simp: consumes_def)
  with m mt show ?thesis by (auto simp: match_at_def spans_def)
qed

lemma find_from_spans:
  "m \<in> set (find_from r k b a) \<Longrightarrow>
     spans (rev b @ a) m \<and> length b + min k (length a) \<le> fd_start m \<and> fd_text m \<in> lang r"
proof (induction r k b a rule: find_from.induct)
  case (3 r b c cs)
  show ?case
  proof (cases "match_at r b (c # cs)")
    case None
    with 3 show ?thesis by auto
  next
    case (Some m')
    with 3 match_at_spans [OF Some] show ?thesis by auto
  qed
qed auto

lemma finditer_spans: "m \<in> set (finditer r s) \<Longrightarrow> spans s m \<and> fd_text m \<in> lang r"
  using find_from_spans [of m r 0 "[]" s] by (simp add: finditer_def)

text \<open>Matches come in order and do not overlap.\<close>

lemma find_from_ordered:
  assumes "[] \<notin> lang r"
  shows "sorted_wrt (\<lambda>m n. fd_end m \<le> fd_start n) (find_from r k b a)"
proof (induction r k b a rule: find_from.induct)
  case (3 r b c cs)
  show ?case
  proof (cases "match_at r b (c # cs)")
    case None
    with 3 show ?thesis by auto
  next
    case (Some m)
    note sp = match_at_spans [OF Some]
    have "fd_end m \<le> fd_start n"
      if n: "n \<in> set (find_from r (fd_end m - fd_start m - 1) (c # b) cs)" for n
      using find_from_spans [OF n] sp by (auto simp: spans_def min_def split: if_splits)
    with 3 Some show ?thesis by auto
  qed
qed auto

section \<open>Matching is invariant under case mapping\<close>

text \<open>When no class of an expression distinguishes a character from its image under
  \<open>f\<close>, matching commutes with mapping \<open>f\<close> over the text.\<close>

fun blind :: "(char \<Rightarrow> char) \<Rightarrow> re \<Rightarrow> bool" where
  "blind f (Chr p) = (\<forall>c. p (f c) = p c)"
| "blind f (Seq r1 r2) = (blind f r1 \<and> blind f r2)"
| "blind f (Alt r1 r2) = (blind f r1 \<and> blind f r2)"
| "blind f (Rep lo hi r) = blind f r"
| "blind f Eps = True"
| "blind f AtEnd = True"
| "blind f _ = False"

definition map_st :: "(char \<Rightarrow> char) \<Rightarrow> st \<Rightarrow> st" where
  "map_st f s = (case s of (b, a, g) \<Rightarrow> (map f b, map f a, g))"

lemma greedy_map:
  assumes f: "\<And>s. h (map_st f s) = map (map_st f) (h s)"
    and same: "\<And>s t. t \<in> set (h s) \<Longrightarrow> \<exists>w. fst t = w @ fst s"
  shows "greedy h lo hi k (map_st f s) = map (map_st f) (greedy h lo hi k s)"
proof (induction k arbitrary: lo hi s)
  case (Suc k)
  have eq: "(fst (map_st f t) = fst (map_st f s)) = (fst t = fst s)" if t: "t \<in> set (h s)" for t
  proof -
    obtain w where "fst t = w @ fst s" using same [OF t] by blast
    then show ?thesis by (cases t; cases s) (auto simp: map_st_def)
  qed
  show ?case
    by (auto simp: f map_concat comp_def Suc eq intro!: arg_cong [where f = concat])
qed auto

lemma mt_extends: "t \<in> set (mt r s) \<Longrightarrow> \<exists>w. fst t = w @ fst s"
  using mt_sound [of t r s] unfolding consumes_def by metis

lemma mt_map: "blind f r \<Longrightarrow> mt r (map_st f s) = map (map_st f) (mt r s)"
proof (induction r arbitrary: s)
  case (Chr p)
  then show ?case
    by (cases "(p, s)" rule: step_char.cases) (auto simp: map_st_def)
next
  case (Seq r1 r2)
  then show ?case by (simp add: map_concat comp_def)
next
  case (Rep lo hi r)
  have "mt r (map_st f s) = map (map_st f) (mt r s)" for s using Rep by simp
  then have "greedy (mt r) lo hi k (map_st f s) = map (map_st f) (greedy (mt r) lo hi k s)" for k
    by (rule greedy_map) (rule mt_extends)
  then show ?case by (cases s) (simp add: map_st_def)
qed (auto simp: map_st_def split: prod.splits)

lemma fullmatch_map: "blind f r \<Longrightarrow> fullmatch r (map f s) = fullmatch r s"
  using mt_map [of f r "([], s, [])"]
  by (simp add: fullmatch_def map_st_def list_ex_iff case_prod_unfold image_iff)

end
