(* ===== verification/Py_Net.thy ===== *)
theory Py_Net
  imports Py_Regex
begin

text \<open>
  What the program uses of Python's \<^verbatim>\<open>ipaddress\<close> and \<^verbatim>\<open>urllib.parse\<close>: parsing and
  printing of addresses, the address classes, and splitting a URL.  Addresses are their
  integer values.
\<close>

section \<open>Small text helpers\<close>

text \<open>\<open>s.partition(c)\<close>: the head, whether the separator was found, and the tail.\<close>

fun partition_at :: "char \<Rightarrow> string \<Rightarrow> string \<times> bool \<times> string" where
  "partition_at d [] = ([], False, [])"
| "partition_at d (c # cs) = (if c = d then ([], True, cs)
     else (case partition_at d cs of (a, f, b) \<Rightarrow> (c # a, f, b)))"

text \<open>\<open>s.rpartition(c)\<close>; without a separator the whole text is the last part.\<close>

definition rpartition_at :: "char \<Rightarrow> string \<Rightarrow> string \<times> bool \<times> string" where
  "rpartition_at d s = (case partition_at d (rev s) of
     (a, True, b) \<Rightarrow> (rev b, True, rev a) | (a, False, b) \<Rightarrow> ([], False, s))"

definition parse_nat :: "string \<Rightarrow> int" where
  "parse_nat s = foldl (\<lambda>n c. n * 10 + (code c - 48)) 0 s"

definition hex_value :: "char \<Rightarrow> int" where
  "hex_value c = (if is_digit c then code c - 48
     else if is_upper c then code c - 55 else code c - 87)"

definition parse_hex :: "string \<Rightarrow> int" where
  "parse_hex s = foldl (\<lambda>n c. n * 16 + hex_value c) 0 s"

function hex_str :: "int \<Rightarrow> string" where
  "hex_str n = (if n < 16 then [if n < 10 then char_of (48 + n) else char_of (87 + n)]
     else hex_str (n div 16)
       @ [if n mod 16 < 10 then char_of (48 + n mod 16) else char_of (87 + n mod 16)])"
  by pat_completeness auto
termination by (relation "measure nat") auto

declare hex_str.simps [simp del]

section \<open>IP addresses\<close>

datatype ip = V4 int | V6 int "string option"

definition parse_octet :: "string \<Rightarrow> int option" where
  "parse_octet s =
     (if s = [] \<or> \<not> list_all is_digit s \<or> 3 < length s
         \<or> (s \<noteq> ''0'' \<and> hd s = CHR ''0'') \<or> 255 < parse_nat s
      then None else Some (parse_nat s))"

definition parse_ipv4 :: "string \<Rightarrow> int option" where
  "parse_ipv4 s = (case map parse_octet (split_on (CHR ''.'') s) of
     [Some a, Some b, Some c, Some d] \<Rightarrow> Some (((a * 256 + b) * 256 + c) * 256 + d)
   | _ \<Rightarrow> None)"

definition parse_hextet :: "string \<Rightarrow> int option" where
  "parse_hextet s = (if s = [] \<or> \<not> list_all is_hex s \<or> 4 < length s
     then None else Some (parse_hex s))"

definition hextets :: "string list \<Rightarrow> int option" where
  "hextets ps = foldl (\<lambda>acc p. case acc of None \<Rightarrow> None
     | Some n \<Rightarrow> map_option (\<lambda>h. n * 65536 + h) (parse_hextet p)) (Some 0) ps"

text \<open>The parts of an address, an embedded IPv4 tail replaced by two parts.\<close>

definition ipv6_parts :: "string \<Rightarrow> string list option" where
  "ipv6_parts s = (let ps = split_on (CHR '':'') s in
     if length ps < 3 then None
     else if CHR ''.'' \<in> set (last ps)
     then map_option (\<lambda>n. butlast ps @ [hex_str (n div 65536), hex_str (n mod 65536)])
            (parse_ipv4 (last ps))
     else Some ps)"

definition skips :: "string list \<Rightarrow> nat list" where
  "skips ps = filter (\<lambda>i. 0 < i \<and> i < length ps - 1 \<and> ps ! i = []) [0..<length ps]"

definition parse_ipv6_int :: "string \<Rightarrow> int option" where
  "parse_ipv6_int s = (case ipv6_parts s of None \<Rightarrow> None | Some ps \<Rightarrow>
     if 9 < length ps then None
     else (case skips ps of
         [] \<Rightarrow> if length ps = 8 then hextets ps else None
       | [i] \<Rightarrow>
           (let hi = (if hd ps = [] then i - 1 else i);
                lo = (if last ps = [] then length ps - i - 2 else length ps - i - 1)
            in if hd ps = [] \<and> 0 < hi \<or> last ps = [] \<and> 0 < lo \<or> 8 < hi + lo + 1 then None
               else (case (hextets (take hi ps), hextets (drop (length ps - lo) ps)) of
                   (Some a, Some b) \<Rightarrow> Some (a * 65536 ^ (8 - hi) + b)
                 | _ \<Rightarrow> None))
       | _ \<Rightarrow> None))"

definition ip_address :: "string \<Rightarrow> ip option" where
  "ip_address s =
     (if CHR ''/'' \<in> set s then None
      else case parse_ipv4 s of Some n \<Rightarrow> Some (V4 n)
      | None \<Rightarrow> (case partition_at (CHR ''%'') s of
           (a, scoped, z) \<Rightarrow>
             if scoped \<and> (z = [] \<or> CHR ''%'' \<in> set z) then None
             else map_option (\<lambda>n. V6 n (if scoped then Some z else None)) (parse_ipv6_int a)))"

definition ipv4_str :: "int \<Rightarrow> string" where
  "ipv4_str n = join ''.'' (map nat_str
     [n div 16777216 mod 256, n div 65536 mod 256, n div 256 mod 256, n mod 256])"

text \<open>The first longest run of zero hextets, as start and length.\<close>

fun zero_run :: "int list \<Rightarrow> nat \<Rightarrow> nat \<times> nat \<Rightarrow> nat \<times> nat \<Rightarrow> nat \<times> nat" where
  "zero_run [] i cur best = best"
| "zero_run (h # hs) i (cs, cl) (bs, bl) =
     (if h = 0
      then (let cs' = (if cl = 0 then i else cs); cl' = cl + 1 in
            zero_run hs (i + 1) (cs', cl') (if bl < cl' then (cs', cl') else (bs, bl)))
      else zero_run hs (i + 1) (0, 0) (bs, bl))"

definition ipv6_str :: "int \<Rightarrow> string" where
  "ipv6_str n = (let hs = map (\<lambda>k. n div 65536 ^ (7 - k) mod 65536) [0..<8];
       ss = map hex_str hs; (b, l) = zero_run hs 0 (0, 0) (0, 0)
     in if 1 < l
        then join '':'' ((if b = 0 then [[]] else []) @ take b ss @ [[]] @
               drop (b + l) ss @ (if b + l = 8 then [[]] else []))
        else join '':'' ss)"

fun ip_str :: "ip \<Rightarrow> string" where
  "ip_str (V4 n) = ipv4_str n"
| "ip_str (V6 n None) = ipv6_str n"
| "ip_str (V6 n (Some z)) = ipv6_str n @ ''%'' @ z"

definition in_net :: "nat \<Rightarrow> int \<Rightarrow> int \<times> nat \<Rightarrow> bool" where
  "in_net w a net = (case net of (b, p) \<Rightarrow> a div 2 ^ (w - p) = b div 2 ^ (w - p))"

definition quad :: "int \<Rightarrow> int \<Rightarrow> int \<Rightarrow> int \<Rightarrow> int" where
  "quad a b c d = ((a * 256 + b) * 256 + c) * 256 + d"

text \<open>\<open>top16 [h0, h1, \<dots>]\<close> is the address whose leading hextets are given.\<close>

definition top16 :: "int list \<Rightarrow> int" where
  "top16 hs = foldl (\<lambda>n h. n * 65536 + h) 0 hs * 65536 ^ (8 - length hs)"

definition v4_private_nets :: "(int \<times> nat) list" where
  "v4_private_nets = [(quad 0 0 0 0, 8), (quad 10 0 0 0, 8), (quad 127 0 0 0, 8),
     (quad 169 254 0 0, 16), (quad 172 16 0 0, 12), (quad 192 0 0 0, 24),
     (quad 192 0 0 170, 31), (quad 192 0 2 0, 24), (quad 192 168 0 0, 16),
     (quad 198 18 0 0, 15), (quad 198 51 100 0, 24), (quad 203 0 113 0, 24),
     (quad 240 0 0 0, 4), (quad 255 255 255 255, 32)]"

definition v4_private_exceptions :: "(int \<times> nat) list" where
  "v4_private_exceptions = [(quad 192 0 0 9, 32), (quad 192 0 0 10, 32)]"

definition v6_private_nets :: "(int \<times> nat) list" where
  "v6_private_nets = [(1, 128), (0, 128), (top16 [0, 0, 0, 0, 0, 0xffff], 96),
     (top16 [0x64, 0xff9b, 1], 48), (top16 [0x100], 64), (top16 [0x2001], 23),
     (top16 [0x2001, 0xdb8], 32), (top16 [0x2002], 16), (top16 [0xfc00], 7),
     (top16 [0xfe80], 10)]"

definition v6_private_exceptions :: "(int \<times> nat) list" where
  "v6_private_exceptions = [(top16 [0x2001, 1] + 1, 128), (top16 [0x2001, 1] + 2, 128),
     (top16 [0x2001, 3], 32), (top16 [0x2001, 4, 0x112], 48), (top16 [0x2001, 0x20], 28),
     (top16 [0x2001, 0x30], 28)]"

definition v6_reserved_nets :: "(int \<times> nat) list" where
  "v6_reserved_nets = [(0, 8), (top16 [0x100], 8), (top16 [0x200], 7), (top16 [0x400], 6),
     (top16 [0x800], 5), (top16 [0x1000], 4), (top16 [0x4000], 3), (top16 [0x6000], 3),
     (top16 [0x8000], 3), (top16 [0xa000], 3), (top16 [0xc000], 3), (top16 [0xe000], 4),
     (top16 [0xf000], 5), (top16 [0xf800], 6), (top16 [0xfe00], 9)]"

definition v4_private :: "int \<Rightarrow> bool" where
  "v4_private n = (list_ex (in_net 32 n) v4_private_nets \<and>
     \<not> list_ex (in_net 32 n) v4_private_exceptions)"

fun is_private :: "ip \<Rightarrow> bool" where
  "is_private (V4 n) = v4_private n"
| "is_private (V6 n z) =
     (if n div 2 ^ 32 = 0xffff then v4_private (n mod 2 ^ 32)
      else list_ex (in_net 128 n) v6_private_nets \<and>
           \<not> list_ex (in_net 128 n) v6_private_exceptions)"

fun is_unspecified :: "ip \<Rightarrow> bool" where
  "is_unspecified (V4 n) = (n = 0)"
| "is_unspecified (V6 n z) = (n = 0)"

fun is_loopback :: "ip \<Rightarrow> bool" where
  "is_loopback (V4 n) = in_net 32 n (quad 127 0 0 0, 8)"
| "is_loopback (V6 n z) = (n = 1)"

fun is_multicast :: "ip \<Rightarrow> bool" where
  "is_multicast (V4 n) = in_net 32 n (quad 224 0 0 0, 4)"
| "is_multicast (V6 n z) = in_net 128 n (top16 [0xff00], 8)"

fun is_link_local :: "ip \<Rightarrow> bool" where
  "is_link_local (V4 n) = in_net 32 n (quad 169 254 0 0, 16)"
| "is_link_local (V6 n z) = in_net 128 n (top16 [0xfe80], 10)"

fun is_reserved :: "ip \<Rightarrow> bool" where
  "is_reserved (V4 n) = in_net 32 n (quad 240 0 0 0, 4)"
| "is_reserved (V6 n z) = list_ex (in_net 128 n) v6_reserved_nets"

fun ip_version :: "ip \<Rightarrow> nat" where
  "ip_version (V4 n) = 4"
| "ip_version (V6 n z) = 6"

section \<open>URLs\<close>

record split_url =
  su_scheme :: string
  su_netloc :: string
  su_path :: string
  su_query :: string
  su_fragment :: string

definition is_scheme_char :: "char \<Rightarrow> bool" where
  "is_scheme_char c = (is_alpha c \<or> is_digit c \<or> c \<in> set ''+-.'')"

definition split_scheme :: "string \<Rightarrow> string \<times> string" where
  "split_scheme url = (case partition_at (CHR '':'') url of
     (s, True, rest) \<Rightarrow> if s \<noteq> [] \<and> is_alpha (hd s) \<and> list_all is_scheme_char s
                      then (lower s, rest) else ([], url)
   | (s, False, rest) \<Rightarrow> ([], url))"

definition bracketed_host_ok :: "string \<Rightarrow> bool" where
  "bracketed_host_ok h =
     (if prefix ''v'' h
      then fullmatch (seqs [lit ''v'', plus1 (Chr is_hex), lit ''.'',
                            plus1 (Chr (\<lambda>c. code c \<noteq> 10))]) h
      else (case ip_address h of Some (V6 _ _) \<Rightarrow> True | _ \<Rightarrow> False))"

definition netloc_ok :: "string \<Rightarrow> bool" where
  "netloc_ok n =
     (let ob = CHR ''['' \<in> set n; cb = CHR '']'' \<in> set n in
      if ob \<noteq> cb then False
      else if ob then bracketed_host_ok
             (fst (partition_at (CHR '']'') (snd (snd (partition_at (CHR ''['') n)))))
      else True)"

text \<open>\<open>urlsplit\<close>; \<open>None\<close> is \<open>ValueError\<close>.\<close>

definition urlsplit :: "string \<Rightarrow> split_url option" where
  "urlsplit raw =
     (let url = filter (\<lambda>c. code c \<notin> {9, 10, 13}) (dropWhile (\<lambda>c. code c \<le> 32) raw);
          (scheme, rest) = split_scheme url;
          delim = (\<lambda>c. c \<in> set ''/?#'');
          (netloc, rest) = (if prefix ''//'' rest
             then (takeWhile (\<lambda>c. \<not> delim c) (drop 2 rest), dropWhile (\<lambda>c. \<not> delim c) (drop 2 rest))
             else ([], rest))
      in if \<not> netloc_ok netloc then None
         else (let (rest, _, fragment) = partition_at (CHR ''#'') rest;
                   (path, _, query) = partition_at (CHR ''?'') rest
               in Some \<lparr>su_scheme = scheme, su_netloc = netloc, su_path = path,
                        su_query = query, su_fragment = fragment\<rparr>))"

definition url_has_userinfo :: "split_url \<Rightarrow> bool" where
  "url_has_userinfo u = (CHR ''@'' \<in> set (su_netloc u))"

definition url_hostinfo :: "split_url \<Rightarrow> string \<times> string" where
  "url_hostinfo u =
     (let (_, _, h) = rpartition_at (CHR ''@'') (su_netloc u);
          (_, open_br, bracketed) = partition_at (CHR ''['') h
      in if open_br
         then (let (host, _, rest) = partition_at (CHR '']'') bracketed;
                   (_, _, port) = partition_at (CHR '':'') rest in (host, port))
         else (let (host, _, port) = partition_at (CHR '':'') h in (host, port)))"

definition url_hostname :: "split_url \<Rightarrow> string option" where
  "url_hostname u =
     (let h = fst (url_hostinfo u) in
      if h = [] then None
      else (case partition_at (CHR ''%'') h of
              (a, f, z) \<Rightarrow> Some (lower a @ (if f then ''%'' else []) @ z)))"

text \<open>The port property: \<open>None\<close> is \<open>ValueError\<close>, \<open>Some None\<close> an absent port.\<close>

definition url_port :: "split_url \<Rightarrow> int option option" where
  "url_port u =
     (let p = snd (url_hostinfo u) in
      if p = [] then Some None
      else if list_all is_digit p \<and> parse_nat p \<le> 65535 then Some (Some (parse_nat p))
      else None)"

text \<open>\<open>urlunsplit\<close> for a result with a network location.\<close>

definition urlunsplit :: "split_url \<Rightarrow> string" where
  "urlunsplit u =
     (let path = su_path u;
          url = (if su_netloc u \<noteq> [] \<or> prefix ''//'' path
                 then ''//'' @ su_netloc u @
                      (if path \<noteq> [] \<and> hd path \<noteq> CHR ''/'' then CHR ''/'' # path else path)
                 else path);
          url = (if su_scheme u \<noteq> [] then su_scheme u @ '':'' @ url else url);
          url = (if su_query u \<noteq> [] then url @ ''?'' @ su_query u else url)
      in if su_fragment u \<noteq> [] then url @ ''#'' @ su_fragment u else url)"

section \<open>Facts\<close>

lemma partition_at_spec:
  "partition_at d s = (a, f, b) \<Longrightarrow>
     d \<notin> set a \<and> s = (if f then a @ d # b else a) \<and> (\<not> f \<longrightarrow> b = [])"
  by (induction s arbitrary: a f b) (auto split: if_splits prod.splits)

lemma partition_at_free: "d \<notin> set s \<Longrightarrow> partition_at d s = (s, False, [])"
  by (induction s) auto

lemma partition_at_append: "d \<notin> set a \<Longrightarrow> partition_at d (a @ d # b) = (a, True, b)"
  by (induction a) auto

lemma parse_octet_range: "parse_octet s = Some n \<Longrightarrow> n < 256"
  by (auto simp: parse_octet_def split: if_splits)

lemma parse_ipv4_range: "parse_ipv4 s = Some n \<Longrightarrow> n < 2 ^ 32"
  by (auto simp: parse_ipv4_def split: list.splits option.splits dest!: parse_octet_range)

end
