(* ===== verification/Contracts.thy ===== *)
theory Contracts
  imports Vocabulary Py_Values Py_Net
begin

text \<open>
  The validators and normalisers of \<^verbatim>\<open>models/contracts.py\<close> that every component relies
  on: identifiers (CVE, hash, domain, ATT\&CK, indicator values), request pairs, media
  types, the retry policy, the source request, the source configuration and the registry.
  A contract is a record; its construction is a function that applies the field
  constraints and validators in order and raises \<open>ValueError\<close>.  Text fields are stripped
  first (\<^verbatim>\<open>str_strip_whitespace\<close>).
\<close>

section \<open>Field constraints\<close>

definition nonblank :: "string \<Rightarrow> string result" where
  "nonblank s = (if strip s = [] then Inl (ValueError ''min_length'') else Inr (strip s))"

definition check :: "bool \<Rightarrow> string \<Rightarrow> unit result" where
  "check b msg = require b (ValueError msg)"

definition bounded_text :: "int \<Rightarrow> string \<Rightarrow> string result" where
  "bounded_text n s = rbind (nonblank s) (\<lambda>t.
     if int (length t) \<le> n then Inr t else Inl (ValueError ''max_length''))"

section \<open>Identifier normalisers\<close>

definition cve_re :: re where
  "cve_re = seqs [lit ''CVE-'', times 4 (Chr is_digit), lit ''-'', Rep 4 None (Chr is_digit)]"

definition normalize_cve_id :: "string \<Rightarrow> string result" where
  "normalize_cve_id value =
     (let normalized = upper (strip value) in
      if fullmatch cve_re normalized then Inr normalized
      else Inl (ValueError ''must match CVE-YYYY-NNNN''))"

definition lower_hex :: "char \<Rightarrow> bool" where
  "lower_hex c = (is_digit c \<or> (97 \<le> code c \<and> code c \<le> 102))"

definition normalize_hash :: "nat \<Rightarrow> string \<Rightarrow> string result" where
  "normalize_hash expected_length value =
     (let normalized = lower (strip value) in
      if length normalized \<noteq> expected_length
         \<or> \<not> fullmatch (plus1 (Chr lower_hex)) normalized
      then Inl (ValueError ''must be hexadecimal characters'')
      else Inr normalized)"

definition ldh :: "char \<Rightarrow> bool" where
  "ldh c = (is_lower c \<or> is_digit c \<or> c = CHR ''-'')"

definition alnum_lower :: "char \<Rightarrow> bool" where
  "alnum_lower c = (is_lower c \<or> is_digit c)"

definition domain_re :: re where
  "domain_re = seqs
     [Ahead (Seq (Rep 1 (Some 253) (Chr (\<lambda>c. code c \<noteq> 10))) AtEnd),
      plus1 (seqs [Chr alnum_lower,
                   opt (Seq (Rep 0 (Some 61) (Chr ldh)) (Chr alnum_lower)), lit ''.'']),
      Rep 2 (Some 63) (Chr is_lower)]"

definition rstrip_dots :: "string \<Rightarrow> string" where
  "rstrip_dots s = rstrip_by (\<lambda>c. c = CHR ''.'') s"

definition normalize_domain :: "string \<Rightarrow> string result" where
  "normalize_domain value =
     (let normalized = rstrip_dots (lower (strip value)) in
      if 253 < length normalized \<or> \<not> fullmatch domain_re normalized
      then Inl (ValueError ''must be a valid fully qualified domain name'')
      else Inr normalized)"

definition attack_re :: re where
  "attack_re = seqs [lit ''T'', times 4 (Chr is_digit),
     opt (Seq (lit ''.'') (times 3 (Chr is_digit)))]"

definition normalize_attack_id :: "string \<Rightarrow> string result" where
  "normalize_attack_id value =
     (let normalized = upper (strip value) in
      if fullmatch attack_re normalized then Inr normalized
      else Inl (ValueError ''must match ATT&CK technique form T1234 or T1234.001''))"

text \<open>\<open>any_http_url\<close> is the URL type of pydantic: the validated, normalised text, or
  \<open>None\<close> when validation fails.\<close>

definition validate_http_url :: "string \<Rightarrow> string result" where
  "validate_http_url value = (case urlsplit value of
       None \<Rightarrow> Inl (ValueError ''Invalid IPv6 URL'')
     | Some parsed \<Rightarrow> if url_has_userinfo parsed
         then Inl (ValueError ''URL must not contain credentials'') else Inr value)"

definition http_url :: "(string \<Rightarrow> string option) \<Rightarrow> string \<Rightarrow> string result" where
  "http_url any_http_url value = (case any_http_url value of
       None \<Rightarrow> Inl (ValueError ''url'') | Some u \<Rightarrow> validate_http_url u)"

definition email_re :: re where
  "email_re = (let p = plus1 (Chr (\<lambda>c. \<not> is_space c \<and> c \<noteq> CHR ''@'')) in
     seqs [p, lit ''@'', p, lit ''.'', p])"

definition normalize_address :: "nat \<Rightarrow> string \<Rightarrow> string result" where
  "normalize_address version candidate = (case ip_address candidate of
       None \<Rightarrow> Inl (ValueError ''does not appear to be an IPv4 or IPv6 address'')
     | Some address \<Rightarrow> if ip_version address \<noteq> version
         then Inl (ValueError ''must be an address of the stated version'')
         else Inr (ip_str address))"

fun normalize_indicator_value ::
  "(string \<Rightarrow> string option) \<Rightarrow> indicator_type \<Rightarrow> string \<Rightarrow> string result" where
  "normalize_indicator_value any_http_url t value =
     (let candidate = strip value in
      case t of
        IT_IPV4 \<Rightarrow> normalize_address 4 candidate
      | IT_IPV6 \<Rightarrow> normalize_address 6 candidate
      | IT_DOMAIN \<Rightarrow> normalize_domain candidate
      | IT_URL \<Rightarrow> http_url any_http_url candidate
      | IT_EMAIL \<Rightarrow> (if fullmatch email_re candidate then Inr (lower candidate)
                   else Inl (ValueError ''must be a valid email-like indicator''))
      | IT_MD5 \<Rightarrow> normalize_hash 32 candidate
      | IT_SHA1 \<Rightarrow> normalize_hash 40 candidate
      | IT_SHA256 \<Rightarrow> normalize_hash 64 candidate
      | IT_CVE \<Rightarrow> normalize_cve_id candidate
      | _ \<Rightarrow> (if candidate = [] \<or> CHR 0x00 \<in> set candidate
             then Inl (ValueError ''path indicator must be non-empty and NUL-free'')
             else Inr candidate))"

declare normalize_indicator_value.simps [simp del]

section \<open>Request pairs and media types\<close>

fun pair_of :: "json \<Rightarrow> (string \<times> string) result" where
  "pair_of (JList [name, item]) =
     (case name of
        JStr n \<Rightarrow> if strip n = [] then Inl (ValueError ''request names must be non-empty strings'')
          else (case item of JStr i \<Rightarrow> Inr (strip n, i)
                | _ \<Rightarrow> Inl (TypeError ''request values must be strings''))
      | _ \<Rightarrow> Inl (ValueError ''request names must be non-empty strings''))"
| "pair_of _ = Inl (TypeError ''each request pair must contain a name and value'')"

fun pairs :: "json \<Rightarrow> (string \<times> string) list result" where
  "pairs (JObj d) = traverse pair_of (map (\<lambda>(k, v). JList [JStr k, v]) d)"
| "pairs (JList xs) = traverse pair_of xs"
| "pairs _ = Inl (TypeError ''must be a mapping or sequence of name/value pairs'')"

definition media_char :: "char \<Rightarrow> bool" where
  "media_char c = (is_lower c \<or> is_digit c \<or> c \<in> set ''!#$&^_.+-'')"

definition media_type_re :: re where
  "media_type_re = seqs [plus1 (Chr media_char), lit ''/'',
     plus1 (Chr (\<lambda>c. media_char c \<or> c = CHR ''*''))]"

definition media_type :: "string \<Rightarrow> string result" where
  "media_type value =
     (let normalized = lower (strip (fst (partition_at (CHR '';'') value))) in
      if fullmatch media_type_re normalized then Inr normalized
      else Inl (ValueError ''must be a valid media type''))"

section \<open>Retry policy and source request\<close>

record retry_policy =
  rp_max_retries :: int
  rp_retryable_status_codes :: "int list"
  rp_retry_on_timeout :: bool
  rp_retry_on_connection_error :: bool
  rp_backoff_seconds :: rat
  rp_max_delay_seconds :: rat
  rp_jitter_seconds :: rat

definition default_retry_policy :: retry_policy where
  "default_retry_policy = \<lparr>rp_max_retries = 3,
     rp_retryable_status_codes = [408, 425, 429, 500, 502, 503, 504],
     rp_retry_on_timeout = True, rp_retry_on_connection_error = True,
     rp_backoff_seconds = 1 / 2, rp_max_delay_seconds = 30, rp_jitter_seconds = 1 / 4\<rparr>"

definition validate_status_codes :: "int list \<Rightarrow> int list result" where
  "validate_status_codes value =
     (if list_ex (\<lambda>status. status < 400 \<or> 599 < status) value
      then Inl (ValueError ''retryable status codes must be HTTP error statuses'')
      else Inr (sorted_unique value))"

definition RetryPolicy :: "retry_policy \<Rightarrow> retry_policy result" where
  "RetryPolicy p =
     rbind (check (0 \<le> rp_max_retries p \<and> rp_max_retries p \<le> 8) ''max_retries'') (\<lambda>_.
     rbind (validate_status_codes (rp_retryable_status_codes p)) (\<lambda>codes.
     rbind (check (0 \<le> rp_backoff_seconds p \<and> rp_backoff_seconds p \<le> 60) ''backoff_seconds'') (\<lambda>_.
     rbind (check (0 < rp_max_delay_seconds p \<and> rp_max_delay_seconds p \<le> 300)
              ''max_delay_seconds'') (\<lambda>_.
     rbind (check (0 \<le> rp_jitter_seconds p \<and> rp_jitter_seconds p \<le> 30) ''jitter_seconds'') (\<lambda>_.
       Inr (p\<lparr>rp_retryable_status_codes := codes\<rparr>))))))"

text \<open>\<open>body = None\<close> in the source is \<open>JNull\<close> here.\<close>

record source_request =
  rq_method :: http_method
  rq_url_params :: "(string \<times> string) list"
  rq_headers :: "(string \<times> string) list"
  rq_body :: json
  rq_body_encoding :: body_encoding
  rq_expected_content_types :: "string list"
  rq_parser_adapter :: "parser_adapter option"
  rq_retry_policy :: retry_policy

definition default_source_request :: source_request where
  "default_source_request = \<lparr>rq_method = GET, rq_url_params = [], rq_headers = [],
     rq_body = JNull, rq_body_encoding = BE_NONE, rq_expected_content_types = [],
     rq_parser_adapter = None, rq_retry_policy = default_retry_policy\<rparr>"

definition normalize_method :: "string \<Rightarrow> http_method option" where
  "normalize_method value = parse_enum http_method_value http_method_members (upper value)"

definition validate_content_types :: "string list \<Rightarrow> string list result" where
  "validate_content_types value = rbind (traverse media_type value) (\<lambda>ts. Inr (dedup ts))"

definition validate_body :: "source_request \<Rightarrow> source_request result" where
  "validate_body r =
     (if rq_body r = JNull \<and> rq_body_encoding r \<noteq> BE_NONE
      then Inl (ValueError ''body_encoding requires a body'')
      else if rq_body r \<noteq> JNull \<and> rq_body_encoding r = BE_NONE
      then Inl (ValueError ''body_encoding must be set when body is provided'')
      else if rq_method r = GET \<and> rq_body r \<noteq> JNull
      then Inl (ValueError ''GET source requests must not contain a body'')
      else Inr r)"

definition SourceRequest :: "source_request \<Rightarrow> source_request result" where
  "SourceRequest r =
     rbind (validate_content_types (rq_expected_content_types r)) (\<lambda>types.
     rbind (RetryPolicy (rq_retry_policy r)) (\<lambda>policy.
       validate_body (r\<lparr>rq_url_params := map (map_prod strip strip) (rq_url_params r),
         rq_headers := map (map_prod strip strip) (rq_headers r),
         rq_expected_content_types := types, rq_retry_policy := policy\<rparr>)))"

section \<open>Source configuration\<close>

record source_config =
  cf_source_id :: string
  cf_name :: string
  cf_source_type :: source_type
  cf_url :: string
  cf_category :: source_category
  cf_enabled :: bool
  cf_polling_interval_seconds :: int
  cf_timeout_seconds :: rat
  cf_max_response_bytes :: int
  cf_reliability :: reliability_classification
  cf_tags :: "string list"
  cf_request :: source_request
  cf_adapter_settings :: "json dict"

definition request_fields :: "string list" where
  "request_fields = [''method'', ''url_params'', ''query_params'', ''headers'', ''body'',
     ''body_encoding'', ''expected_content_types'', ''parser_adapter'', ''retry_policy'']"

definition dict_pop :: "string \<Rightarrow> 'v dict \<Rightarrow> 'v dict" where
  "dict_pop k d = filter (\<lambda>(k', v). k' \<noteq> k) d"

definition move_fields :: "string list \<Rightarrow> json dict \<times> json dict \<Rightarrow> json dict \<times> json dict" where
  "move_fields fs dr = foldl (\<lambda>(data, request) f.
     if dict_has f data \<and> \<not> dict_has f request
     then (dict_pop f data, dict_set f (jget f data) request) else (data, request)) dr fs"

definition copy_fields :: "string list \<Rightarrow> json dict \<Rightarrow> json dict \<Rightarrow> json dict" where
  "copy_fields fs settings request = foldl (\<lambda>request f.
     if dict_has f settings \<and> \<not> dict_has f request
     then dict_set f (jget f settings) request else request) request fs"

text \<open>The legacy shape: request fields at the top level or among the adapter settings are
  gathered into the request object.\<close>

definition normalize_request_shape :: "json \<Rightarrow> json" where
  "normalize_request_shape value = (case value of
     JObj data \<Rightarrow>
       (let request = (case jget ''request'' data of JObj r \<Rightarrow> r | _ \<Rightarrow> []);
            (data, request) = move_fields request_fields (data, request);
            request = (case jget ''adapter_settings'' data of
                JObj settings \<Rightarrow> copy_fields request_fields settings request
              | _ \<Rightarrow> request)
        in JObj (dict_set ''request'' (JObj request) data))
   | _ \<Rightarrow> value)"

fun adapter_of :: "source_type \<Rightarrow> parser_adapter" where
  "adapter_of ST_JSON = PA_JSON"
| "adapter_of ST_RSS = PA_RSS"
| "adapter_of ST_ATOM = PA_ATOM"
| "adapter_of ST_HTML = PA_HTML"
| "adapter_of ST_PDF = PA_PDF"

fun expected_types_of :: "parser_adapter \<Rightarrow> string list" where
  "expected_types_of PA_JSON = [''application/json'', ''application/*+json'']"
| "expected_types_of PA_RSS = [''application/rss+xml'', ''application/xml'', ''text/xml'']"
| "expected_types_of PA_ATOM = [''application/atom+xml'', ''application/xml'', ''text/xml'']"
| "expected_types_of PA_HTML = [''text/html'', ''application/xhtml+xml'']"
| "expected_types_of PA_PDF = [''application/pdf'']"

definition strip_dashes :: "string \<Rightarrow> string" where
  "strip_dashes s = rstrip_by (\<lambda>c. c = CHR ''-'') (lstrip_by (\<lambda>c. c = CHR ''-'') s)"

definition slug_of :: "string \<Rightarrow> string" where
  "slug_of name =
     strip_dashes (sub (plus1 (Chr (\<lambda>c. \<not> (is_lower c \<or> is_digit c)))) ''-'' (lower name))"

definition derive_source_id :: "source_config \<Rightarrow> source_config" where
  "derive_source_id c =
     (let request = cf_request c;
          parser = (case rq_parser_adapter request of None \<Rightarrow> adapter_of (cf_source_type c)
                    | Some p \<Rightarrow> p);
          expected = (if rq_expected_content_types request = [] then expected_types_of parser
                      else rq_expected_content_types request);
          c = c\<lparr>cf_request := request\<lparr>rq_parser_adapter := Some parser,
                                       rq_expected_content_types := expected\<rparr>\<rparr>
      in if cf_source_id c \<noteq> [] then c
         else (let slug = slug_of (cf_name c) in
               c\<lparr>cf_source_id := (if slug = [] then ''source'' else slug)\<rparr>))"

definition SourceConfig ::
  "(string \<Rightarrow> string option) \<Rightarrow> source_config \<Rightarrow> source_config result" where
  "SourceConfig any_http_url c =
     rbind (bounded_text 200 (cf_name c)) (\<lambda>name.
     rbind (http_url any_http_url (strip (cf_url c))) (\<lambda>url.
     rbind (check (60 \<le> cf_polling_interval_seconds c) ''polling_interval_seconds'') (\<lambda>_.
     rbind (check (0 < cf_timeout_seconds c \<and> cf_timeout_seconds c \<le> 300) ''timeout_seconds'') (\<lambda>_.
     rbind (check (0 < cf_max_response_bytes c \<and> cf_max_response_bytes c \<le> 104857600)
              ''max_response_bytes'') (\<lambda>_.
     rbind (SourceRequest (cf_request c)) (\<lambda>request.
       Inr (derive_source_id (c\<lparr>cf_source_id := strip (cf_source_id c), cf_name := name,
              cf_url := url, cf_tags := sorted_unique (map strip (cf_tags c)),
              cf_request := request\<rparr>))))))))"

text \<open>\<open>SourceRegistry\<close>: unique identifiers, ordered by identifier.\<close>

definition validate_unique_sources :: "source_config list \<Rightarrow> source_config list result" where
  "validate_unique_sources sources =
     (if \<not> distinct (map cf_source_id sources)
      then Inl (ValueError ''source_id values must be unique'')
      else Inr (sort_key cf_source_id sources))"

definition SourceRegistry :: "source_config list \<Rightarrow> source_config list result" where
  "SourceRegistry sources =
     rbind (check (sources \<noteq> []) ''sources'') (\<lambda>_. validate_unique_sources sources)"

end
