(* ===== verification/Contract_Facts.thy ===== *)
theory Contract_Facts
  imports Contracts
begin

text \<open>
  What the contracts of \<^verbatim>\<open>models/contracts.py\<close> guarantee.  The interface
  \<open>normaliser\<close> is the contract of an identifier normaliser: its results are canonical,
  so two inputs denote the same identifier exactly when their normal forms are equal.
\<close>

section \<open>Normalisers\<close>

locale normaliser =
  fixes norm :: "string \<Rightarrow> string result"
  assumes canonical: "norm v = Inr w \<Longrightarrow> norm w = Inr w"
begin

definition accepts :: "string \<Rightarrow> bool" where
  "accepts v = ok (norm v)"

lemma twice: "rbind (norm v) norm = norm v"
  by (cases "norm v") (auto simp: canonical)

lemma same_identifier: "norm v = Inr w \<Longrightarrow> norm u = Inr w \<longleftrightarrow> norm u = norm v"
  by auto

lemma fixed_points: "norm w = Inr w \<longleftrightarrow> (\<exists>v. norm v = Inr w)"
  using canonical by blast

end

lemma cve_canonical: "normalize_cve_id v = Inr w \<Longrightarrow> normalize_cve_id w = Inr w"
  by (auto simp: normalize_cve_id_def Let_def strip_upper split: if_splits)

lemma attack_canonical: "normalize_attack_id v = Inr w \<Longrightarrow> normalize_attack_id w = Inr w"
  by (auto simp: normalize_attack_id_def Let_def strip_upper split: if_splits)

lemma hash_canonical: "normalize_hash n v = Inr w \<Longrightarrow> normalize_hash n w = Inr w"
  by (auto simp: normalize_hash_def Let_def strip_lower split: if_splits)

lemma rstrip_dots_lower: "rstrip_dots (lower s) = lower (rstrip_dots s)"
proof -
  have "lower_char c = CHR ''.'' \<longleftrightarrow> c = CHR ''.''" for c
    by (rule lower_char_caseless) (simp_all add: is_lower_def is_upper_def code_def)
  then show ?thesis unfolding rstrip_dots_def lower_def by (rule rstrip_by_map)
qed

lemma domain_alphabet: "alphabet domain_re c \<Longrightarrow> \<not> is_space c"
  by (auto simp: domain_re_def seqs_def ldh_def alnum_lower_def is_lower_def is_digit_def
      is_space_def code_def Let_def)

lemma domain_canonical:
  assumes "normalize_domain v = Inr w"
  shows "normalize_domain w = Inr w"
proof -
  from assms have m: "fullmatch domain_re w" "length w \<le> 253"
    and w: "w = rstrip_dots (lower (strip v))"
    by (auto simp: normalize_domain_def Let_def split: if_splits)
  have "strip w = w"
    using fullmatch_alphabet [OF m(1)] domain_alphabet by (blast intro: strip_spaceless)
  moreover have "lower w = w" using w by (simp add: rstrip_dots_lower)
  moreover have "rstrip_dots w = w" using w by (simp add: rstrip_dots_def)
  ultimately show ?thesis using m by (simp add: normalize_domain_def Let_def)
qed

lemma media_type_canonical:
  assumes "media_type v = Inr w"
  shows "media_type w = Inr w"
proof -
  from assms have m: "fullmatch media_type_re w"
    and w: "w = lower (strip (fst (partition_at (CHR '';'') v)))"
    by (auto simp: media_type_def Let_def split: if_splits)
  have al: "alphabet media_type_re c \<Longrightarrow> \<not> is_space c \<and> c \<noteq> CHR '';''" for c
    by (auto simp: media_type_re_def seqs_def media_char_def is_lower_def is_digit_def
        is_space_def code_def Let_def)
  have "CHR '';'' \<notin> set w" using fullmatch_alphabet [OF m] al by blast
  then show ?thesis using m w
    by (simp add: media_type_def Let_def partition_at_free strip_lower)
qed

interpretation cve: normaliser normalize_cve_id
  by unfold_locales (rule cve_canonical)

interpretation attack: normaliser normalize_attack_id
  by unfold_locales (rule attack_canonical)

interpretation hash: normaliser "normalize_hash n" for n
  by unfold_locales (rule hash_canonical)

interpretation domain: normaliser normalize_domain
  by unfold_locales (rule domain_canonical)

interpretation media: normaliser media_type
  by unfold_locales (rule media_type_canonical)

section \<open>IPv4 addresses print and parse back\<close>

lemma octet_roundtrip:
  assumes "0 \<le> k" "k < 256"
  shows "parse_octet (nat_str k) = Some k \<and> CHR ''.'' \<notin> set (nat_str k) \<and>
     CHR ''/'' \<notin> set (nat_str k) \<and> \<not> list_ex is_space (nat_str k)"
proof -
  have "list_all (\<lambda>k. parse_octet (nat_str k) = Some k \<and> CHR ''.'' \<notin> set (nat_str k) \<and>
     CHR ''/'' \<notin> set (nat_str k) \<and> \<not> list_ex is_space (nat_str k)) [0..255]" by code_simp
  moreover have "k \<in> set [0..255]" using assms by simp
  ultimately show ?thesis unfolding list_all_iff by blast
qed

lemma set_join: "set (join sep ws) \<subseteq> \<Union> (set ` set ws) \<union> set sep"
  by (induction sep ws rule: join.induct) auto

lemma split_quad:
  assumes "ks \<noteq> []" "\<forall>k \<in> set ks. 0 \<le> k \<and> k < 256"
  shows "split_on (CHR ''.'') (join ''.'' (map nat_str ks)) = map nat_str ks"
  using assms octet_roundtrip by (intro split_on_join) auto

definition quads :: "int \<Rightarrow> int list" where
  "quads n = [n div 16777216 mod 256, n div 65536 mod 256, n div 256 mod 256, n mod 256]"

lemma quads_range: "quads n \<noteq> [] \<and> (\<forall>k \<in> set (quads n). 0 \<le> k \<and> k < 256)"
  by (simp add: quads_def)

lemma ipv4_str_quads: "ipv4_str n = join ''.'' (map nat_str (quads n))"
  by (simp add: ipv4_str_def quads_def)

lemma horner256:
  "256 * x1 + m0 = n \<Longrightarrow> 256 * x2 + m1 = x1 \<Longrightarrow> 256 * x3 + m2 = x2 \<Longrightarrow>
     ((x3 * 256 + m2) * 256 + m1) * 256 + m0 = (n::int)"
  by simp

lemma quads_value:
  assumes "0 \<le> n" "n < 2 ^ 32" "quads n = [a, b, c, d]"
  shows "((a * 256 + b) * 256 + c) * 256 + d = n"
proof -
  define x1 x2 x3 where x: "x1 = n div 256" "x2 = x1 div 256" "x3 = x2 div 256"
  have top: "x3 mod 256 = x3"
    unfolding x using assms(1,2) by (intro mod_pos_pos_trivial) (simp_all add: pos_imp_zdiv_nonneg_iff)
  have "n div 65536 = x2" "n div 16777216 = x3"
    unfolding x by (simp_all add: zdiv_zmult2_eq [symmetric])
  with assms(3) top x(1) have abcd: "a = x3" "b = x2 mod 256" "c = x1 mod 256" "d = n mod 256"
    by (simp_all add: quads_def)
  have "256 * x1 + n mod 256 = n" "256 * x2 + x1 mod 256 = x1" "256 * x3 + x2 mod 256 = x2"
    unfolding x by simp_all
  then show ?thesis unfolding abcd by (rule horner256)
qed

lemma ipv4_roundtrip:
  assumes "0 \<le> n" "n < 2 ^ 32"
  shows "parse_ipv4 (ipv4_str n) = Some n"
proof -
  obtain a b c d where q: "quads n = [a, b, c, d]" by (simp add: quads_def)
  have "map parse_octet (map nat_str (quads n)) = map Some (quads n)"
    using octet_roundtrip quads_range by auto
  then show ?thesis
    using quads_value [OF assms q] split_quad [of "quads n"] quads_range [of n]
    by (simp add: parse_ipv4_def ipv4_str_quads q)
qed

lemma ipv4_address_roundtrip:
  assumes "0 \<le> n" "n < 2 ^ 32"
  shows "ip_address (strip (ipv4_str n)) = Some (V4 n)"
proof -
  let ?ws = "map nat_str (quads n)"
  have w: "\<forall>w \<in> set ?ws. CHR ''/'' \<notin> set w \<and> \<not> list_ex is_space w"
    using octet_roundtrip quads_range by auto
  have s: "set (ipv4_str n) \<subseteq> \<Union> (set ` set ?ws) \<union> {CHR ''.''}"
    unfolding ipv4_str_quads using set_join [of "''.''" ?ws] by simp
  have dot: "\<not> is_space (CHR ''.'')" by code_simp
  have "\<not> is_space c \<and> c \<noteq> CHR ''/''" if "c \<in> set (ipv4_str n)" for c
    using subsetD [OF s that] w dot by (auto simp: list_ex_iff)
  then have "strip (ipv4_str n) = ipv4_str n" "CHR ''/'' \<notin> set (ipv4_str n)"
    by (auto intro: strip_spaceless)
  then show ?thesis using ipv4_roundtrip [OF assms] by (simp add: ip_address_def)
qed

lemma parse_octet_nonneg: "parse_octet s = Some k \<Longrightarrow> 0 \<le> k"
proof -
  assume "parse_octet s = Some k"
  then have d: "list_all is_digit s" "k = parse_nat s"
    by (auto simp: parse_octet_def split: if_splits)
  have "0 \<le> a \<Longrightarrow> 0 \<le> foldl (\<lambda>n c. n * 10 + (code c - 48)) a s" for a
    using d(1) by (induction s arbitrary: a) (auto simp: is_digit_def)
  then show ?thesis using d(2) by (simp add: parse_nat_def)
qed

lemma parse_ipv4_nonneg: "parse_ipv4 s = Some n \<Longrightarrow> 0 \<le> n"
  by (auto simp: parse_ipv4_def split: list.splits option.splits dest!: parse_octet_nonneg)

lemma address4_canonical:
  assumes "normalize_address 4 (strip v) = Inr w"
  shows "normalize_address 4 (strip w) = Inr w"
proof -
  from assms obtain n where n: "ip_address (strip v) = Some (V4 n)" "w = ipv4_str n"
    by (auto simp: normalize_address_def split: option.splits if_splits ip.splits elim: ip_version.elims)
  then have "parse_ipv4 (strip v) = Some n"
    by (auto simp: ip_address_def split: if_splits option.splits prod.splits)
  then have "0 \<le> n" "n < 2 ^ 32" using parse_ipv4_range parse_ipv4_nonneg by auto
  then show ?thesis using ipv4_address_roundtrip n(2) by (simp add: normalize_address_def)
qed

section \<open>Indicator values\<close>

lemma blind_email: "blind lower_char email_re"
proof -
  have "lower_char c = CHR ''@'' \<longleftrightarrow> c = CHR ''@''" "lower_char c = CHR ''.'' \<longleftrightarrow> c = CHR ''.''" for c
    by (rule lower_char_caseless; simp add: is_lower_def is_upper_def code_def)+
  then show ?thesis by (simp add: email_re_def seqs_def Let_def)
qed

text \<open>The part of \<^verbatim>\<open>AnyHttpUrl\<close> the contracts rely on: its normal form is a fixed
  point and carries no surrounding space.\<close>

definition url_stable :: "(string \<Rightarrow> string option) \<Rightarrow> bool" where
  "url_stable f = (\<forall>v w. f v = Some w \<longrightarrow> f w = Some w \<and> strip w = w)"

lemma http_url_canonical:
  assumes "url_stable f" "http_url f v = Inr w"
  shows "http_url f w = Inr w \<and> strip w = w"
proof -
  from assms(2) have fv: "f v = Some w" and vw: "validate_http_url w = Inr w"
    by (auto simp: http_url_def validate_http_url_def split: option.splits if_splits)
  from assms(1) fv have "f w = Some w" "strip w = w" unfolding url_stable_def by blast+
  with vw show ?thesis by (simp add: http_url_def)
qed

text \<open>Indicator normalisation is canonical: for every indicator type except IPv6, a value
  that \<open>normalize_indicator_value\<close> returns is accepted again and returned unchanged, so
  equal normalised values are the program's notion of the same indicator.\<close>

theorem indicator_value_canonical:
  assumes "url_stable any_http_url" "t \<noteq> IT_IPV6"
    and "normalize_indicator_value any_http_url t v = Inr w"
  shows "normalize_indicator_value any_http_url t w = Inr w"
proof (cases t)
  case IT_IPV4
  with assms show ?thesis
    using address4_canonical by (simp add: normalize_indicator_value.simps Let_def)
next
  case IT_DOMAIN
  with assms(3) have d: "normalize_domain (strip v) = Inr w"
    by (simp add: normalize_indicator_value.simps Let_def)
  then have "fullmatch domain_re w" by (auto simp: normalize_domain_def Let_def split: if_splits)
  then have "strip w = w" using fullmatch_alphabet domain_alphabet
    by (blast intro: strip_spaceless)
  with IT_DOMAIN domain.canonical [OF d] show ?thesis
    by (simp add: normalize_indicator_value.simps Let_def)
next
  case IT_URL
  with assms http_url_canonical [OF assms(1)] show ?thesis
    by (simp add: normalize_indicator_value.simps Let_def)
next
  case IT_EMAIL
  with assms(3) have "fullmatch email_re (strip v)" "w = lower (strip v)"
    by (auto simp: normalize_indicator_value.simps Let_def split: if_splits)
  then show ?thesis using IT_EMAIL fullmatch_map [OF blind_email, of "strip v"]
    by (simp add: normalize_indicator_value.simps Let_def strip_lower) (simp add: lower_def)
next
  case IT_CVE
  with assms(3) have "normalize_cve_id v = Inr w"
    by (simp add: normalize_indicator_value.simps normalize_cve_id_def)
  with IT_CVE cve.canonical show ?thesis
    by (simp add: normalize_indicator_value.simps normalize_cve_id_def)
qed (use assms hash.canonical in
      \<open>auto simp: normalize_indicator_value.simps normalize_hash_def Let_def strip_lower
         split: if_splits\<close>)

definition plain_url :: "string \<Rightarrow> string option" where
  "plain_url s = (if prefix ''https://'' (strip s) then Some (strip s) else None)"

lemma plain_url_stable: "url_stable plain_url"
  by (auto simp: url_stable_def plain_url_def)

theorem indicator_value_canonical_witness:
  "normalize_indicator_value plain_url IT_DOMAIN '' Evil.Example.COM. '' = Inr ''evil.example.com'' \<and>
   normalize_indicator_value plain_url IT_DOMAIN ''evil.example.com'' = Inr ''evil.example.com''"
proof -
  have "normalize_indicator_value plain_url IT_DOMAIN '' Evil.Example.COM. '' = Inr ''evil.example.com''"
    by code_simp
  from indicator_value_canonical [OF plain_url_stable _ this] this show ?thesis by simp
qed

section \<open>The registry\<close>

text \<open>A registry is deterministic: whatever order the configured sources come in, it is
  accepted for the same inputs, and the accepted registry is the same list, strictly ordered
  by source identifier.\<close>

theorem registry_order_independent:
  assumes "mset xs = mset ys" and "SourceRegistry xs = Inr rs"
  shows "SourceRegistry ys = Inr rs \<and> sorted_wrt (<) (map cf_source_id rs) \<and> mset rs = mset xs"
proof -
  from assms(2) have d: "distinct (map cf_source_id xs)" "xs \<noteq> []" and rs: "rs = sort_key cf_source_id xs"
    by (auto simp: SourceRegistry_def validate_unique_sources_def check_def rbind_Inr_iff
        split: if_splits)
  have dy: "distinct (map cf_source_id ys)" "ys \<noteq> []"
    using d mset_eq_imp_distinct_iff [of "map cf_source_id xs" "map cf_source_id ys"] assms(1)
    by auto
  have inj: "inj_on cf_source_id (set xs)" using d(1) by (simp add: distinct_map)
  have "sort_key cf_source_id ys = sort_key cf_source_id xs"
    using assms(1) inj by (intro sort_key_unique) (auto dest: mset_eq_setD)
  then have "SourceRegistry ys = Inr rs" using dy rs
    by (simp add: SourceRegistry_def validate_unique_sources_def check_def)
  moreover have "sorted_wrt (<) (map cf_source_id rs)"
    using d(1) by (simp add: rs strict_sorted_iff distinct_map)
  ultimately show ?thesis using rs by simp
qed

definition demo_source :: "string \<Rightarrow> source_config" where
  "demo_source i = \<lparr>cf_source_id = i, cf_name = i, cf_source_type = ST_JSON,
     cf_url = ''https://x.test'', cf_category = CAT_NEWS, cf_enabled = True,
     cf_polling_interval_seconds = 60, cf_timeout_seconds = 30, cf_max_response_bytes = 100,
     cf_reliability = REL_GENERAL_NEWS, cf_tags = [], cf_request = default_source_request,
     cf_adapter_settings = []\<rparr>"

theorem registry_order_independent_witness:
  "SourceRegistry [demo_source ''a'', demo_source ''b''] =
     Inr [demo_source ''a'', demo_source ''b'']"
proof -
  have "SourceRegistry [demo_source ''b'', demo_source ''a'']
      = Inr [demo_source ''a'', demo_source ''b'']"
    by (simp add: SourceRegistry_def validate_unique_sources_def check_def demo_source_def
        sort_key_def)
  from registry_order_independent [OF _ this, of "[demo_source ''a'', demo_source ''b'']"]
  show ?thesis by (simp add: add_mset_commute)
qed

end
