(* ===== verification/Scoring.thy ===== *)
theory Scoring
  imports Contracts
begin

text \<open>
  \<^verbatim>\<open>enrichment/scoring.py\<close> and the score contracts of
  \<^verbatim>\<open>models/contracts.py\<close>: the weighted, explainable priority score of a public
  vulnerability.  The contracts' field constraints and validators are the checks of
  \<open>ScoreComponent\<close> and \<open>PriorityScore\<close>, which raise \<open>ValueError\<close>; the property
  lemmas show that scoring never trips them and what the score means.
\<close>

record score_inputs =
  si_known_exploited :: "bool option"
  si_cvss_score :: "rat option"
  si_epss_score :: "rat option"
  si_published_at :: "instant option"
  si_modified_at :: "instant option"
  si_affected_product_significance :: rat
  si_source_reliability :: rat
  si_independent_corroboration :: int
  si_evidence_ids :: "uuid list"

record score_component =
  sc_name :: string
  sc_value :: rat
  sc_maximum :: rat
  sc_rationale :: string
  sc_evidence_ids :: "uuid list"

record priority_score =
  ps_score_version :: string
  ps_score :: rat
  ps_severity :: severity
  ps_confidence :: rat
  ps_components :: "score_component list"
  ps_evidence_ids :: "uuid list"

section \<open>Contracts\<close>

definition ScoreComponent :: "score_component \<Rightarrow> score_component result" where
  "ScoreComponent c =
     rbind (nonblank (sc_name c)) (\<lambda>name.
     rbind (require (0 \<le> sc_value c) (ValueError ''value'')) (\<lambda>_.
     rbind (require (0 < sc_maximum c) (ValueError ''maximum'')) (\<lambda>_.
     rbind (nonblank (sc_rationale c)) (\<lambda>rationale.
       Inr (c\<lparr>sc_name := name, sc_rationale := rationale\<rparr>)))))"

definition reproduce_score :: "priority_score \<Rightarrow> priority_score result" where
  "reproduce_score p =
     (let total = round_to 4 (sum_list (map sc_value (ps_components p))) in
      if round_to 4 (ps_score p) \<noteq> total
      then Inl (ValueError ''score must equal the sum of component values'')
      else if list_ex (\<lambda>c. sc_maximum c < sc_value c) (ps_components p)
      then Inl (ValueError ''component value cannot exceed its maximum'')
      else Inr p)"

definition PriorityScore :: "priority_score \<Rightarrow> priority_score result" where
  "PriorityScore p =
     rbind (nonblank (ps_score_version p)) (\<lambda>version.
     rbind (require (0 \<le> ps_score p \<and> ps_score p \<le> 100) (ValueError ''score'')) (\<lambda>_.
     rbind (require (0 \<le> ps_confidence p \<and> ps_confidence p \<le> 1)
              (ValueError ''confidence'')) (\<lambda>_.
     rbind (require (ps_components p \<noteq> []) (ValueError ''components'')) (\<lambda>_.
       reproduce_score (p\<lparr>ps_score_version := version\<rparr>)))))"

section \<open>The score\<close>

definition bounded :: "rat \<Rightarrow> rat \<Rightarrow> rat" where
  "bounded value maximum = max 0 (min maximum value)"

definition severity_of :: "rat option \<Rightarrow> severity" where
  "severity_of cvss = (case cvss of None \<Rightarrow> INFO
     | Some s \<Rightarrow> if 9 \<le> s then CRITICAL
               else if 7 \<le> s then HIGH
               else if 4 \<le> s then MEDIUM
               else if 0 < s then LOW
               else INFO)"

definition recency_factor :: "instant option \<Rightarrow> instant option \<Rightarrow> instant \<Rightarrow> rat" where
  "recency_factor published modified now =
     (case (case modified of None \<Rightarrow> published | Some m \<Rightarrow> Some m) of
        None \<Rightarrow> 0
      | Some timestamp \<Rightarrow>
          (let age_days = max 0 (total_seconds now timestamp / 86400)
           in max 0 (1 - age_days / 365)))"

definition score_values :: "score_inputs \<Rightarrow> instant \<Rightarrow> (string \<times> rat \<times> rat \<times> string) list" where
  "score_values i current = [
     (''exploitation_state'', (if si_known_exploited i = Some True then 25 else 0), 25,
      ''CISA or equivalent evidence marks exploitation.''),
     (''cvss'', bounded (case_option 0 id (si_cvss_score i) / 10 * 20) 20, 20,
      ''Normalized CVSS base score.''),
     (''epss'', bounded (case_option 0 id (si_epss_score i)) 1 * 20, 20,
      ''EPSS probability from the provider response.''),
     (''recency'', recency_factor (si_published_at i) (si_modified_at i) current * 10, 10,
      ''Publication or modification recency.''),
     (''affected_product_significance'',
      bounded (si_affected_product_significance i) 1 * 10, 10,
      ''Evidence-backed affected-product significance.''),
     (''source_reliability'', bounded (si_source_reliability i) 1 * (15 / 2), 15 / 2,
      ''Reliability of supporting public sources.''),
     (''independent_corroboration'',
      bounded (of_int (si_independent_corroboration i) / 3) 1 * (15 / 2), 15 / 2,
      ''Independent corroborating public sources.'')]"

definition score_confidence :: "score_inputs \<Rightarrow> rat" where
  "score_confidence i = min 1 (max 0
     (bounded (si_source_reliability i) 1 * (4 / 10)
      + bounded (of_int (si_independent_corroboration i) / 3) 1 * (3 / 10)
      + (if si_known_exploited i \<noteq> None then 1 else 1 / 4) * (3 / 10)))"

definition calculate_priority_score ::
  "score_inputs \<Rightarrow> instant option \<Rightarrow> instant \<Rightarrow> string \<Rightarrow> priority_score result" where
  "calculate_priority_score i now clock version =
     (let current = (case now of None \<Rightarrow> clock | Some t \<Rightarrow> t) in
      rbind (traverse (\<lambda>(name, value, maximum, rationale).
               ScoreComponent \<lparr>sc_name = name, sc_value = round_to 4 value,
                 sc_maximum = maximum, sc_rationale = rationale,
                 sc_evidence_ids = si_evidence_ids i\<rparr>) (score_values i current))
        (\<lambda>components. PriorityScore
           \<lparr>ps_score_version = version,
            ps_score = round_to 4 (sum_list (map sc_value components)),
            ps_severity = severity_of (si_cvss_score i),
            ps_confidence = score_confidence i,
            ps_components = components,
            ps_evidence_ids = si_evidence_ids i\<rparr>))"

section \<open>Bounds of the parts\<close>

lemma bounded_range: "0 \<le> maximum \<Longrightarrow> 0 \<le> bounded v maximum \<and> bounded v maximum \<le> maximum"
  by (simp add: bounded_def)

lemma bounded_mono: "x \<le> y \<Longrightarrow> bounded x m \<le> bounded y m"
  by (auto simp: bounded_def max_def min_def)

lemma recency_factor_range:
  "0 \<le> recency_factor p m now \<and> recency_factor p m now \<le> 1"
  by (auto simp: recency_factor_def Let_def split: option.splits)

lemma score_confidence_range: "0 \<le> score_confidence i \<and> score_confidence i \<le> 1"
  by (simp add: score_confidence_def)

lemma score_values_range:
  "(name, value, maximum, rationale) \<in> set (score_values i current) \<Longrightarrow>
     0 \<le> value \<and> value \<le> maximum \<and> maximum \<in> {25, 20, 10, 15 / 2}"
  using bounded_range [of 20 "case_option 0 id (si_cvss_score i) / 10 * 20"]
    bounded_range [of 1 "case_option 0 id (si_epss_score i)"]
    bounded_range [of 1 "si_affected_product_significance i"]
    bounded_range [of 1 "si_source_reliability i"]
    bounded_range [of 1 "of_int (si_independent_corroboration i) / 3"]
    recency_factor_range [of "si_published_at i" "si_modified_at i" current]
  by (auto simp: score_values_def)

section \<open>Scoring never trips a contract\<close>

text \<open>The components as the code builds them, once rounded to four places.\<close>

definition rounded_component :: "uuid list \<Rightarrow> string \<times> rat \<times> rat \<times> string \<Rightarrow> score_component" where
  "rounded_component ids = (\<lambda>(name, value, maximum, rationale).
     \<lparr>sc_name = name, sc_value = round_to 4 value, sc_maximum = maximum,
      sc_rationale = rationale, sc_evidence_ids = ids\<rparr>)"

lemma score_labels:
  assumes "(name, value, maximum, rationale) \<in> set (score_values i current)"
  shows "nonblank name = Inr name \<and> nonblank rationale = Inr rationale"
proof -
  let ?ls = "map (\<lambda>(n, v, m, r). (n, r)) (score_values i current)"
  have "(name, rationale) \<in> set ?ls" using assms by force
  moreover have "list_all (\<lambda>(n, r). nonblank n = Inr n \<and> nonblank r = Inr r) ?ls"
    unfolding score_values_def list.map prod.case by code_simp
  ultimately show ?thesis by (auto simp: list_all_iff)
qed

lemma decimal_maxima: "m \<in> {25, 20, 10, 15 / 2} \<Longrightarrow> decimal 4 m"
proof -
  have "(25::rat) = of_int 250000 / 10 ^ 4" "(20::rat) = of_int 200000 / 10 ^ 4"
    "(10::rat) = of_int 100000 / 10 ^ 4" "(15 / 2::rat) = of_int 75000 / 10 ^ 4"
    by simp_all
  then show "m \<in> {25, 20, 10, 15 / 2} \<Longrightarrow> decimal 4 m"
    unfolding decimal_def by (metis empty_iff insert_iff)
qed

lemma rounded_value_range:
  assumes "(name, value, maximum, rationale) \<in> set (score_values i current)"
  shows "0 \<le> round_to 4 value \<and> round_to 4 value \<le> maximum \<and> 0 < maximum"
proof -
  from score_values_range [OF assms] have r: "0 \<le> value" "value \<le> maximum"
    and m: "maximum \<in> {25, 20, 10, 15 / 2}" by auto
  then show ?thesis
    using round_to_between [OF decimal_0 decimal_maxima [OF m] r] by auto
qed

lemma traverse_components:
  "traverse (\<lambda>(name, value, maximum, rationale).
      ScoreComponent \<lparr>sc_name = name, sc_value = round_to 4 value,
        sc_maximum = maximum, sc_rationale = rationale, sc_evidence_ids = ids\<rparr>)
    (score_values i current)
   = Inr (map (rounded_component ids) (score_values i current))"
proof (rule traverse_map)
  fix x assume x: "x \<in> set (score_values i current)"
  obtain n v m r where [simp]: "x = (n, v, m, r)" by (cases x)
  show "(case x of (name, value, maximum, rationale) \<Rightarrow>
      ScoreComponent \<lparr>sc_name = name, sc_value = round_to 4 value,
        sc_maximum = maximum, sc_rationale = rationale, sc_evidence_ids = ids\<rparr>)
      = Inr (rounded_component ids x)"
    using score_labels [of n v m r] rounded_value_range [of n v m r] x
    by (simp add: ScoreComponent_def rounded_component_def)
qed

abbreviation total_score :: "score_inputs \<Rightarrow> instant \<Rightarrow> rat" where
  "total_score i current \<equiv> (\<Sum>(n, v, m, r) \<leftarrow> score_values i current. round_to 4 v)"

lemma sum_rounded:
  "sum_list (map sc_value (map (rounded_component ids) (score_values i c))) = total_score i c"
  by (simp add: rounded_component_def comp_def case_prod_unfold)

lemma decimal_total: "decimal 4 (total_score i current)"
  by (rule decimal_sum_list) auto

lemma total_score_range: "0 \<le> total_score i current \<and> total_score i current \<le> 100"
proof
  show "0 \<le> total_score i current"
    by (rule sum_list_nonneg) (auto dest: rounded_value_range)
  have "total_score i current \<le> (\<Sum>(n, v, m, r) \<leftarrow> score_values i current. m)"
    by (rule sum_list_mono) (auto dest: rounded_value_range)
  also have "\<dots> = 100" by (simp add: score_values_def)
  finally show "total_score i current \<le> 100" .
qed

definition scored :: "score_inputs \<Rightarrow> instant \<Rightarrow> string \<Rightarrow> priority_score" where
  "scored i current version =
     \<lparr>ps_score_version = strip version, ps_score = total_score i current,
      ps_severity = severity_of (si_cvss_score i), ps_confidence = score_confidence i,
      ps_components = map (rounded_component (si_evidence_ids i)) (score_values i current),
      ps_evidence_ids = si_evidence_ids i\<rparr>"

lemma PriorityScore_scored:
  assumes "strip version \<noteq> []"
  shows "PriorityScore (scored i current version\<lparr>ps_score_version := version\<rparr>)
    = Inr (scored i current version)"
proof -
  have le: "\<not> list_ex (\<lambda>c. sc_maximum c < sc_value c)
      (map (rounded_component (si_evidence_ids i)) (score_values i current))"
    by (auto simp: list_ex_iff rounded_component_def not_less dest: rounded_value_range)
  have ne: "score_values i current \<noteq> []" by (simp add: score_values_def)
  show ?thesis
    using assms le ne total_score_range [of i current] score_confidence_range [of i]
      round_to_decimal [OF decimal_total [of i current]]
      sum_rounded [of "si_evidence_ids i" i current]
    by (simp add: PriorityScore_def scored_def nonblank_def reproduce_score_def Let_def)
qed

lemma calculate_priority_score_scored:
  assumes "strip version \<noteq> []"
  shows "calculate_priority_score i now clock version
    = Inr (scored i (case now of None \<Rightarrow> clock | Some t \<Rightarrow> t) version)"
proof -
  have "calculate_priority_score i now clock version
      = PriorityScore (scored i (case now of None \<Rightarrow> clock | Some t \<Rightarrow> t) version
          \<lparr>ps_score_version := version\<rparr>)"
    using sum_rounded [of "si_evidence_ids i" i "case now of None \<Rightarrow> clock | Some t \<Rightarrow> t"]
      round_to_decimal [OF decimal_total]
    by (simp add: calculate_priority_score_def traverse_components scored_def Let_def)
  then show ?thesis by (simp add: PriorityScore_scored [OF assms])
qed

text \<open>Scoring is total and explainable: for any inputs and a version label that is not
  blank, \<open>calculate_priority_score\<close> returns a score (no contract rejects it), the score is
  exactly the sum of its stored components, lies in [0, 100], and every component lies
  between zero and its maximum.\<close>

theorem priority_score_explained:
  assumes "strip version \<noteq> []"
  shows "\<exists>p. calculate_priority_score i now clock version = Inr p \<and>
     ps_score p = sum_list (map sc_value (ps_components p)) \<and>
     0 \<le> ps_score p \<and> ps_score p \<le> 100 \<and>
     0 \<le> ps_confidence p \<and> ps_confidence p \<le> 1 \<and>
     (\<forall>c \<in> set (ps_components p). 0 \<le> sc_value c \<and> sc_value c \<le> sc_maximum c)"
  unfolding calculate_priority_score_scored [OF assms] scored_def
  using total_score_range score_confidence_range
  by (auto simp: rounded_component_def comp_def case_prod_unfold intro!: exI
        dest: rounded_value_range)

definition demo_inputs :: score_inputs where
  "demo_inputs = \<lparr>si_known_exploited = Some True, si_cvss_score = Some (98 / 10),
     si_epss_score = Some (94 / 100), si_published_at = None,
     si_modified_at = Some 1700000000000000, si_affected_product_significance = 0,
     si_source_reliability = 1, si_independent_corroboration = 2,
     si_evidence_ids = [''e1'']\<rparr>"

theorem priority_score_explained_witness:
  "\<exists>p. calculate_priority_score demo_inputs None 1700000000000000 ''phase5-v1'' = Inr p \<and>
     ps_score p = sum_list (map sc_value (ps_components p)) \<and>
     0 \<le> ps_score p \<and> ps_score p \<le> 100"
proof -
  have "strip ''phase5-v1'' \<noteq> []" by code_simp
  from priority_score_explained [OF this, of demo_inputs None 1700000000000000]
  show ?thesis by blast
qed

section \<open>Evidence only raises the score\<close>

definition opt_le :: "rat option \<Rightarrow> rat option \<Rightarrow> bool" where
  "opt_le x y = (case_option 0 id x \<le> (case_option 0 id y :: rat))"

text \<open>\<open>j\<close> has at least the evidence of \<open>i\<close>, field by field.\<close>

definition evidence_le :: "score_inputs \<Rightarrow> score_inputs \<Rightarrow> bool" where
  "evidence_le i j =
     ((si_known_exploited i = Some True \<longrightarrow> si_known_exploited j = Some True) \<and>
      opt_le (si_cvss_score i) (si_cvss_score j) \<and>
      opt_le (si_epss_score i) (si_epss_score j) \<and>
      si_published_at i = si_published_at j \<and> si_modified_at i = si_modified_at j \<and>
      si_affected_product_significance i \<le> si_affected_product_significance j \<and>
      si_source_reliability i \<le> si_source_reliability j \<and>
      si_independent_corroboration i \<le> si_independent_corroboration j)"

lemma total_score_mono: "evidence_le i j \<Longrightarrow> total_score i c \<le> total_score j c"
  unfolding evidence_le_def opt_le_def score_values_def
  by (auto intro!: add_mono round_to_mono mult_right_mono bounded_mono divide_right_mono)

text \<open>C38. Scoring is monotone in the evidence: when every input of one assessment is at least
  that of another (a missing value counting as zero) and the timestamps agree, its score is
  at least the other's, so adding evidence never lowers a priority.\<close>

theorem priority_score_monotone:
  assumes "evidence_le i j" and "strip version \<noteq> []"
  shows "\<exists>p q. calculate_priority_score i now clock version = Inr p \<and>
     calculate_priority_score j now clock version = Inr q \<and> ps_score p \<le> ps_score q"
  unfolding calculate_priority_score_scored [OF assms(2)] scored_def
  using total_score_mono [OF assms(1)] by simp

theorem priority_score_monotone_witness:
  "\<exists>p q. calculate_priority_score (demo_inputs\<lparr>si_cvss_score := None\<rparr>) None 0 ''v'' = Inr p \<and>
     calculate_priority_score demo_inputs None 0 ''v'' = Inr q \<and> ps_score p \<le> ps_score q"
proof -
  have "strip ''v'' \<noteq> []" by code_simp
  moreover have "evidence_le (demo_inputs\<lparr>si_cvss_score := None\<rparr>) demo_inputs"
    by (simp add: evidence_le_def opt_le_def demo_inputs_def)
  ultimately show ?thesis using priority_score_monotone by blast
qed

end
