(* ===== verification/Http_Client.thy ===== *)
theory Http_Client
  imports Contracts
begin

text \<open>
  \<^verbatim>\<open>ingestion/http_client.py\<close>: bounded HTTP retrieval with retries.  What lies outside
  the program is a parameter: the transport's outcome of each attempt, the random jitter,
  the clock, \<^verbatim>\<open>parsedate_to_datetime\<close>, the XML parser's root tag and the gzip stream.
  A call returns its result together with the delays it slept.
\<close>

record http_config =
  hc_connect_timeout_seconds :: rat
  hc_read_timeout_seconds :: rat
  hc_write_timeout_seconds :: rat
  hc_pool_timeout_seconds :: rat
  hc_max_redirects :: int
  hc_verify_tls :: bool
  hc_user_agent :: string
  hc_max_retries :: int
  hc_retry_backoff_seconds :: rat
  hc_retry_max_delay_seconds :: rat
  hc_retry_jitter_seconds :: rat

definition HTTPClientConfig :: "http_config \<Rightarrow> http_config result" where
  "HTTPClientConfig c =
     (if \<not> (0 \<le> hc_max_retries c \<and> hc_max_retries c \<le> 8)
      then Inl (ValueError ''max_retries must be between 0 and 8'') else Inr c)"

record fetch_result =
  fr_url :: string
  fr_status_code :: int
  fr_body :: string
  fr_headers :: "(string \<times> string) list"
  fr_retry_count :: nat
  fr_warnings :: "(string \<times> string) list"

record fetch_error =
  fe_classification :: string
  fe_detail :: string
  fe_retry_count :: nat
  fe_status_code :: "int option"
  fe_retry_after_seconds :: "pyfloat option"

abbreviation FetchError :: "string \<Rightarrow> string \<Rightarrow> nat \<Rightarrow> fetch_error" where
  "FetchError c d n \<equiv> \<lparr>fe_classification = c, fe_detail = d, fe_retry_count = n,
     fe_status_code = None, fe_retry_after_seconds = None\<rparr>"

section \<open>Response metadata\<close>

fun fr_header_in :: "string \<Rightarrow> (string \<times> string) list \<Rightarrow> string option" where
  "fr_header_in wanted [] = None"
| "fr_header_in wanted ((key, v) # hs) =
     (if lower key = wanted then Some v else fr_header_in wanted hs)"

definition fr_header :: "fetch_result \<Rightarrow> string \<Rightarrow> string option" where
  "fr_header r name = fr_header_in (lower name) (fr_headers r)"

definition fr_content_type :: "fetch_result \<Rightarrow> string option" where
  "fr_content_type r = fr_header r ''content-type''"

definition strip_char :: "char \<Rightarrow> string \<Rightarrow> string" where
  "strip_char c s = rstrip_by (\<lambda>d. d = c) (lstrip_by (\<lambda>d. d = c) s)"

fun charset_in :: "string list \<Rightarrow> string option" where
  "charset_in [] = None"
| "charset_in (part # parts) =
     (case partition_at (CHR ''='') (strip part) of (key, separator, candidate) \<Rightarrow>
        if lower key = ''charset'' \<and> separator
        then (let v = strip_char (CHR 0x27) (strip_char (CHR 0x22) (strip candidate)) in
              if v = [] then None else Some v)
        else charset_in parts)"

definition fr_encoding :: "fetch_result \<Rightarrow> string option" where
  "fr_encoding r =
     charset_in (tl (split_on (CHR '';'') (case_option [] id (fr_content_type r))))"

section \<open>Request encoding\<close>

text \<open>\<open>s.encode()\<close> for code points below 256.\<close>

definition utf8 :: "string \<Rightarrow> string" where
  "utf8 s = concat (map (\<lambda>c. if code c < 128 then [c]
     else [char_of (192 + code c div 64), char_of (128 + code c mod 64)]) s)"

definition json_char :: "char \<Rightarrow> string" where
  "json_char c =
     (let n = code c; bs = CHR 0x5C in
      if n = 34 \<or> n = 92 then [bs, c]
      else if n = 10 then [bs, CHR ''n''] else if n = 13 then [bs, CHR ''r'']
      else if n = 9 then [bs, CHR ''t''] else if n = 8 then [bs, CHR ''b'']
      else if n = 12 then [bs, CHR ''f'']
      else if n < 32 \<or> 126 < n
      then bs # ''u00'' @ [hex_digit (n div 16), hex_digit (n mod 16)]
      else [c])"

definition json_str :: "string \<Rightarrow> string" where
  "json_str s = [CHR 0x22] @ concat (map json_char s) @ [CHR 0x22]"

text \<open>\<open>json.dumps(v, sort_keys=True, separators=(",", ":"))\<close>.\<close>

fun json_dumps :: "json \<Rightarrow> string" where
  "json_dumps JNull = ''null''"
| "json_dumps (JBool b) = (if b then ''true'' else ''false'')"
| "json_dumps (JInt i) = int_str i"
| "json_dumps (JFloat q) = float_str q"
| "json_dumps (JStr s) = json_str s"
| "json_dumps (JList xs) = ''['' @ join '','' (map json_dumps xs) @ '']''"
| "json_dumps (JObj d) = ''{'' @ join '','' (map (\<lambda>(k, s). json_str k @ '':'' @ s)
     (sort_key fst (map (\<lambda>(k, v). (k, json_dumps v)) d))) @ ''}''"

definition quote_plus :: "string \<Rightarrow> string" where
  "quote_plus s = concat (map (\<lambda>c.
     if is_alpha c \<or> is_digit c \<or> c \<in> set ''_.-~'' then [c]
     else if c = CHR '' '' then ''+''
     else [CHR ''%'', upper_char (hex_digit (code c div 16)),
           upper_char (hex_digit (code c mod 16))]) (utf8 s))"

definition urlencode :: "(string \<times> string) list \<Rightarrow> string" where
  "urlencode kvs = join ''&'' (map (\<lambda>(k, v). quote_plus k @ ''='' @ quote_plus v) kvs)"

definition encode_body :: "source_request \<Rightarrow> fetch_error + (string option \<times> string option)" where
  "encode_body request =
     (if rq_body request = JNull then Inr (None, None)
      else case rq_body_encoding request of
        BE_JSON \<Rightarrow> Inr (Some (json_dumps (rq_body request)), Some ''application/json'')
      | BE_FORM \<Rightarrow>
          (case rq_body request of
             JObj d \<Rightarrow> Inr (Some (urlencode (map (\<lambda>(k, v). (k, py_str v)) d)),
                         Some ''application/x-www-form-urlencoded'')
           | _ \<Rightarrow> Inl (FetchError ''request_policy_error''
                        ''form request bodies must be JSON objects'' 0))
      | BE_TEXT \<Rightarrow>
          (case rq_body request of
             JStr s \<Rightarrow> Inr (Some (utf8 s), Some ''text/plain; charset=utf-8'')
           | _ \<Rightarrow> Inl (FetchError ''request_policy_error''
                        ''text request bodies must be strings'' 0))
      | BE_NONE \<Rightarrow> Inl (FetchError ''request_policy_error''
                        ''unsupported request body encoding'' 0))"

record request_arguments =
  ra_method :: string
  ra_url :: string
  ra_params :: "(string \<times> string) list option"
  ra_headers :: "string dict"
  ra_body :: "string option"

definition dict_update :: "'v dict \<Rightarrow> 'v dict \<Rightarrow> 'v dict" where
  "dict_update new d = foldl (\<lambda>d (k, v). dict_set k v d) d new"

definition request_arguments ::
  "string \<Rightarrow> source_request \<Rightarrow> string dict \<Rightarrow> fetch_error + request_arguments" where
  "request_arguments url request headers =
     rbind (encode_body request) (\<lambda>(body, body_content_type).
       let hs = dict_update (rq_headers request) [];
           hs = (case body_content_type of
                   Some t \<Rightarrow> if list_ex (\<lambda>(key, _). lower key = ''content-type'') hs then hs
                             else dict_set ''Content-Type'' t hs
                 | None \<Rightarrow> hs);
           hs = dict_update headers hs
       in if rq_method request = GET \<and> body \<noteq> None
          then Inl (FetchError ''request_policy_error''
                      ''GET source requests must not contain a body'' 0)
          else Inr \<lparr>ra_method = http_method_value (rq_method request), ra_url = url,
                 ra_params = (if rq_url_params request = [] then None
                              else Some (rq_url_params request)),
                 ra_headers = hs, ra_body = body\<rparr>)"

section \<open>Response policy\<close>

definition content_type_matches :: "string option \<Rightarrow> string list \<Rightarrow> bool" where
  "content_type_matches content_type expected =
     (if expected = [] then True
      else case content_type of None \<Rightarrow> False | Some ct \<Rightarrow>
        if ct = [] then False
        else (let actual = lower (strip (fst (partition_at (CHR '';'') ct))) in
          list_ex (\<lambda>candidate. let wanted = lower candidate in
             wanted = ''*/*''
             \<or> (suffix ''/*'' wanted \<and> prefix (butlast wanted) actual)
             \<or> (prefix ''application/*+'' wanted \<and> prefix ''application/'' actual
                \<and> suffix (''+'' @ remove_prefix ''application/*+'' wanted) actual)
             \<or> actual = wanted) expected))"

definition body_is_xml_feed :: "(string \<Rightarrow> string option) \<Rightarrow> string \<Rightarrow> bool" where
  "body_is_xml_feed xml_root body =
     (let lowered = lower (take 4096 body) in
      if lowered = [] then False
      else if \<not> contains ''<rss'' lowered \<and> \<not> contains ''<feed'' lowered then False
      else if contains ''<!doctype'' lowered \<or> contains ''<html'' lowered then False
      else case xml_root body of None \<Rightarrow> False
        | Some tag \<Rightarrow>
            (let tag = (if prefix ''{'' tag then snd (snd (partition_at (CHR ''}'') tag)) else tag)
             in lower tag \<in> {''rss'', ''feed''}))"

record response =
  rs_url :: string
  rs_status_code :: int
  rs_headers :: "(string \<times> string) list"
  rs_chunks :: "string list"

text \<open>\<open>response.headers.get(name)\<close>: equal names are folded, repeated values joined.\<close>

definition header_get :: "string \<Rightarrow> response \<Rightarrow> string option" where
  "header_get name r =
     (case filter (\<lambda>(k, _). lower k = name) (rs_headers r) of
        [] \<Rightarrow> None | hs \<Rightarrow> Some (join '', '' (map snd hs)))"

definition content_type_degradation ::
  "(string \<Rightarrow> string option) \<Rightarrow> response \<Rightarrow> source_request \<Rightarrow> string option \<Rightarrow> string option" where
  "content_type_degradation xml_root r contract body =
     (case rq_parser_adapter contract of
        Some parser \<Rightarrow>
          if parser \<notin> {PA_RSS, PA_ATOM} then None
          else (case body of None \<Rightarrow> None
            | Some b \<Rightarrow> if \<not> body_is_xml_feed xml_root b then None
                else (let ct = case_option [] id (header_get ''content-type'' r);
                          declared = strip (if ct = [] then ''(absent)'' else ct)
                      in Some (''content_type_degraded: source policy does not list the declared media type ''
                        @ repr_str declared @ '', but the body is a well-formed XML feed root valid for the ''
                        @ parser_adapter_value parser @ '' adapter'')))
      | None \<Rightarrow> None)"

text \<open>A gzip stream: the bytes it yields and how it ends.  \<^verbatim>\<open>zlib.error\<close> is neither
  \<^verbatim>\<open>EOFError\<close> nor \<^verbatim>\<open>OSError\<close>.\<close>

datatype gzip_end = Gz_End | Gz_EOFError | Gz_OSError | Gz_zlib_error

datatype fetch_exn = Fetch_Error fetch_error | Uncaught string

definition decompress_gzip ::
  "(string \<Rightarrow> string \<times> gzip_end) \<Rightarrow> string \<Rightarrow> int \<Rightarrow> fetch_exn + string" where
  "decompress_gzip gunzip body max_response_bytes =
     (case gunzip body of (data, stop) \<Rightarrow>
        if max_response_bytes < int (length data)
        then Inl (Fetch_Error (FetchError ''oversized_response''
               (''decompressed response exceeds '' @ int_str max_response_bytes @ '' bytes'') 0))
        else (case stop of
            Gz_End \<Rightarrow> Inr data
          | Gz_zlib_error \<Rightarrow> Inl (Uncaught ''zlib.error'')
          | _ \<Rightarrow> Inl (Fetch_Error (FetchError ''decompression_error''
                   ''gzip response could not be decompressed'' 0))))"

section \<open>Retry delays\<close>

text \<open>\<open>max(0.0, x)\<close> and \<open>min(x, bound)\<close> on floats: a NaN is not greater than 0.\<close>

fun float_nonneg :: "pyfloat \<Rightarrow> pyfloat" where
  "float_nonneg (Fin q) = Fin (max 0 q)"
| "float_nonneg PosInf = PosInf"
| "float_nonneg _ = Fin 0"

fun float_capped :: "pyfloat \<Rightarrow> rat \<Rightarrow> rat" where
  "float_capped (Fin q) bound = min q bound"
| "float_capped _ bound = bound"

definition retry_delay ::
  "(string \<Rightarrow> instant option) \<Rightarrow> instant \<Rightarrow> rat \<Rightarrow> nat \<Rightarrow> string option \<Rightarrow> retry_policy \<Rightarrow> rat" where
  "retry_delay parsedate now random_value attempt retry_after policy =
     (case retry_after of
        Some h \<Rightarrow>
          if h = [] then min (rp_backoff_seconds policy * 2 ^ attempt
                              + rp_jitter_seconds policy * random_value) (rp_max_delay_seconds policy)
          else (case float_of_str h of
              Some x \<Rightarrow> float_capped (float_nonneg x) (rp_max_delay_seconds policy)
            | None \<Rightarrow>
                (case parsedate h of
                   None \<Rightarrow> min (rp_backoff_seconds policy * 2 ^ attempt) (rp_max_delay_seconds policy)
                 | Some parsed \<Rightarrow> min (max 0 (total_seconds parsed now)) (rp_max_delay_seconds policy)))
      | None \<Rightarrow> min (rp_backoff_seconds policy * 2 ^ attempt
                     + rp_jitter_seconds policy * random_value) (rp_max_delay_seconds policy))"

section \<open>The retry loop\<close>

text \<open>The exceptions of the transport; \<open>OtherError\<close> is any the code does not name.  A
  response may also fail while its body is read, after the chunks it delivered.\<close>

datatype transport_exn =
    TooManyRedirects | UnsupportedProtocol | ConnectError string | TimeoutException
  | NetworkError | ValueErr | OtherError string

datatype outcome =
    Raises transport_exn
  | Responds response "transport_exn option"

record world =
  w_outcome :: "nat \<Rightarrow> outcome"
  w_random :: "nat \<Rightarrow> rat"
  w_now :: "nat \<Rightarrow> instant"
  w_parsedate :: "string \<Rightarrow> instant option"
  w_xml_root :: "string \<Rightarrow> string option"
  w_gunzip :: "string \<Rightarrow> string \<times> gzip_end"

text \<open>What one attempt does: sleep and try again, return, or raise.\<close>

datatype step = Again rat | Return fetch_result | Raise fetch_exn

text \<open>\<open>int(text)\<close>: \<open>None\<close> is \<open>ValueError\<close>.\<close>

definition int_of_str :: "string \<Rightarrow> int option" where
  "int_of_str s = (case sign_at (strip s) of (sg, body) \<Rightarrow>
     (case digits_at body of
        Some (n, _, []) \<Rightarrow> Some (if sg < 0 then - n else n)
      | _ \<Rightarrow> None))"

definition oversized :: "int \<Rightarrow> nat \<Rightarrow> fetch_exn" where
  "oversized m attempt = Fetch_Error (FetchError ''oversized_response''
     (''response exceeds '' @ int_str m @ '' bytes'') attempt)"

text \<open>Reading the body under the bound: \<open>Inl\<close> is what the read raises, a transport
  exception or one of the client's own.\<close>

fun read_chunks :: "int \<Rightarrow> nat \<Rightarrow> string list \<Rightarrow> transport_exn option \<Rightarrow> string
    \<Rightarrow> (transport_exn + fetch_exn) + string" where
  "read_chunks m attempt [] stop acc =
     (case stop of None \<Rightarrow> Inr acc | Some e \<Rightarrow> Inl (Inl e))"
| "read_chunks m attempt (c # cs) stop acc =
     (if m < int (length (acc @ c)) then Inl (Inr (oversized m attempt))
      else read_chunks m attempt cs stop (acc @ c))"

definition read_body :: "int \<Rightarrow> nat \<Rightarrow> response \<Rightarrow> transport_exn option
    \<Rightarrow> (transport_exn + fetch_exn) + string" where
  "read_body m attempt r stop =
     (case header_get ''content-length'' r of
        None \<Rightarrow> read_chunks m attempt (rs_chunks r) stop []
      | Some h \<Rightarrow> (case int_of_str h of
            None \<Rightarrow> Inl (Inl ValueErr)
          | Some n \<Rightarrow> if m < n then Inl (Inr (oversized m attempt))
                     else read_chunks m attempt (rs_chunks r) stop []))"

definition is_gzip :: "response \<Rightarrow> bool" where
  "is_gzip r =
     (let content_type = lower (strip (fst (partition_at (CHR '';'')
            (case_option [] id (header_get ''content-type'' r)))))
      in content_type \<in> {''application/gzip'', ''application/x-gzip''}
         \<or> suffix ''.gz'' (fst (partition_at (CHR ''?'') (lower (rs_url r)))))"

definition rate_limited_error :: "nat \<Rightarrow> response \<Rightarrow> fetch_error" where
  "rate_limited_error attempt r =
     \<lparr>fe_classification = (if rs_status_code r = 429 then ''rate_limited''
                          else ''transient_http_error''),
      fe_detail = ''HTTP '' @ int_str (rs_status_code r) @ '' after retries'',
      fe_retry_count = attempt, fe_status_code = Some (rs_status_code r),
      fe_retry_after_seconds = (case header_get ''retry-after'' r of
          None \<Rightarrow> None
        | Some h \<Rightarrow> if h = [] then None else map_option float_nonneg (float_of_str h))\<rparr>"

definition accept_body ::
  "world \<Rightarrow> int \<Rightarrow> nat \<Rightarrow> response \<Rightarrow> string \<Rightarrow> string option \<Rightarrow> step" where
  "accept_body w m attempt r body note =
     (case (if is_gzip r then decompress_gzip (w_gunzip w) body m else Inr body) of
        Inl e \<Rightarrow> Raise e
      | Inr body \<Rightarrow> Return \<lparr>fr_url = rs_url r, fr_status_code = rs_status_code r,
          fr_body = body, fr_headers = rs_headers r, fr_retry_count = attempt,
          fr_warnings = (case note of None \<Rightarrow> []
             | Some n \<Rightarrow> [(''content_type_degraded'', n)])\<rparr>)"

text \<open>The body of the \<open>try\<close>: \<open>Inl\<close> is an exception left to the handlers.\<close>

definition try_response ::
  "world \<Rightarrow> source_request \<Rightarrow> retry_policy \<Rightarrow> int \<Rightarrow> nat \<Rightarrow> response \<Rightarrow> transport_exn option
     \<Rightarrow> transport_exn + step" where
  "try_response w contract policy m attempt r stop =
     (if rs_status_code r \<in> set (rp_retryable_status_codes policy)
      then (if int attempt < rp_max_retries policy
            then Inr (Again (retry_delay (w_parsedate w) (w_now w attempt) (w_random w attempt)
                   attempt (header_get ''retry-after'' r) policy))
            else Inr (Raise (Fetch_Error (rate_limited_error attempt r))))
      else if rs_status_code r = 304
      then Inr (Return \<lparr>fr_url = rs_url r, fr_status_code = 304, fr_body = [],
             fr_headers = rs_headers r, fr_retry_count = attempt, fr_warnings = []\<rparr>)
      else if \<not> (200 \<le> rs_status_code r \<and> rs_status_code r < 300)
      then Inr (Raise (Fetch_Error ((FetchError ''http_error''
             (''HTTP '' @ int_str (rs_status_code r)) attempt)
                \<lparr>fe_status_code := Some (rs_status_code r)\<rparr>)))
      else (let matched = content_type_matches (header_get ''content-type'' r)
                            (rq_expected_content_types contract)
        in case read_body m attempt r stop of
             Inl (Inl e) \<Rightarrow> Inl e
           | Inl (Inr e) \<Rightarrow> Inr (Raise e)
           | Inr body \<Rightarrow>
               if matched then Inr (accept_body w m attempt r body None)
               else (case content_type_degradation (w_xml_root w) r contract (Some body) of
                   None \<Rightarrow> Inr (Raise (Fetch_Error ((FetchError ''content_type_error''
                      ''response content type did not match source policy'' attempt)
                        \<lparr>fe_status_code := Some (rs_status_code r)\<rparr>)))
                 | Some note \<Rightarrow> Inr (accept_body w m attempt r body (Some note)))))"

definition plain_delay :: "world \<Rightarrow> nat \<Rightarrow> retry_policy \<Rightarrow> rat" where
  "plain_delay w attempt policy =
     retry_delay (w_parsedate w) (w_now w attempt) (w_random w attempt) attempt None policy"

definition tls_detail :: "string \<Rightarrow> bool" where
  "tls_detail detail = list_ex (\<lambda>word. contains word (lower detail))
     [''certificate'', ''tls'', ''ssl'']"

fun handle_exn :: "world \<Rightarrow> retry_policy \<Rightarrow> nat \<Rightarrow> transport_exn \<Rightarrow> step" where
  "handle_exn w policy attempt TooManyRedirects =
     Raise (Fetch_Error (FetchError ''too_many_redirects'' ''redirect limit exceeded'' attempt))"
| "handle_exn w policy attempt UnsupportedProtocol =
     Raise (Fetch_Error (FetchError ''invalid_url'' ''unsupported source URL'' attempt))"
| "handle_exn w policy attempt (ConnectError detail) =
     (let classification = (if tls_detail detail then ''tls_error'' else ''connection_error'') in
      if classification = ''connection_error'' \<and> rp_retry_on_connection_error policy
         \<and> int attempt < rp_max_retries policy
      then Again (plain_delay w attempt policy)
      else Raise (Fetch_Error (FetchError classification ''network connection failed'' attempt)))"
| "handle_exn w policy attempt TimeoutException =
     (if rp_retry_on_timeout policy \<and> int attempt < rp_max_retries policy
      then Again (plain_delay w attempt policy)
      else Raise (Fetch_Error (FetchError ''timeout'' ''request timed out'' attempt)))"
| "handle_exn w policy attempt NetworkError =
     (if rp_retry_on_connection_error policy \<and> int attempt < rp_max_retries policy
      then Again (plain_delay w attempt policy)
      else Raise (Fetch_Error (FetchError ''connection_error'' ''network connection failed'' attempt)))"
| "handle_exn w policy attempt ValueErr =
     Raise (Fetch_Error (FetchError ''invalid_response'' ''invalid response metadata'' attempt))"
| "handle_exn w policy attempt (OtherError e) = Raise (Uncaught e)"

definition run_attempt ::
  "world \<Rightarrow> source_request \<Rightarrow> retry_policy \<Rightarrow> int \<Rightarrow> nat \<Rightarrow> step" where
  "run_attempt w contract policy m attempt =
     (case w_outcome w attempt of
        Raises e \<Rightarrow> handle_exn w policy attempt e
      | Responds r stop \<Rightarrow>
          (case try_response w contract policy m attempt r stop of
             Inl e \<Rightarrow> handle_exn w policy attempt e
           | Inr s \<Rightarrow> s))"

text \<open>\<open>for attempt in range(n)\<close>: the delays slept, and the result.\<close>

fun attempt_loop :: "(nat \<Rightarrow> step) \<Rightarrow> nat list \<Rightarrow> rat list \<times> (fetch_exn + fetch_result)" where
  "attempt_loop f [] = ([], Inl (Uncaught ''AssertionError''))"
| "attempt_loop f (attempt # attempts) =
     (case f attempt of
        Again d \<Rightarrow> (case attempt_loop f attempts of (ds, r) \<Rightarrow> (d # ds, r))
      | Return x \<Rightarrow> ([], Inr x)
      | Raise e \<Rightarrow> ([], Inl e))"

definition effective_policy :: "http_config \<Rightarrow> source_request \<Rightarrow> retry_policy" where
  "effective_policy cfg contract = (rq_retry_policy contract)
     \<lparr>rp_max_retries := min (rp_max_retries (rq_retry_policy contract)) (hc_max_retries cfg)\<rparr>"

definition fetch ::
  "world \<Rightarrow> http_config \<Rightarrow> string \<Rightarrow> source_request option \<Rightarrow> string dict \<Rightarrow> int
     \<Rightarrow> rat list \<times> (fetch_exn + fetch_result)" where
  "fetch w cfg url request headers m =
     (let contract = (case request of None \<Rightarrow> default_source_request | Some r \<Rightarrow> r);
          policy = effective_policy cfg contract
      in case request_arguments url contract headers of
           Inl e \<Rightarrow> ([], Inl (Fetch_Error e))
         | Inr _ \<Rightarrow> attempt_loop (run_attempt w contract policy m)
                     [0..<nat (rp_max_retries policy + 1)])"

definition client_timeout :: "http_config \<Rightarrow> rat \<Rightarrow> rat list" where
  "client_timeout cfg source_timeout_seconds =
     map (\<lambda>t. min t source_timeout_seconds)
       [hc_connect_timeout_seconds cfg, hc_read_timeout_seconds cfg,
        hc_write_timeout_seconds cfg, hc_pool_timeout_seconds cfg]"

end
