(* ===== verification/Http_Facts.thy ===== *)
theory Http_Facts
  imports Http_Client
begin

text \<open>
  Properties of the HTTP client.  The interface \<open>retry_step\<close> is what the loop needs of an
  attempt: it asks for another one only while attempts remain.  \<open>run_attempt\<close> provides it
  for every world and policy, so the loop always ends in a return or a raise.
\<close>

section \<open>The loop\<close>

locale retry_step =
  fixes attempt_of :: "nat \<Rightarrow> step" and limit :: int
  assumes again_below: "attempt_of k = Again d \<Longrightarrow> int k < limit"
begin

lemma loop_from:
  assumes "0 \<le> limit" "int k \<le> limit" "attempt_loop attempt_of [k..<nat (limit + 1)] = (ds, r)"
  shows "\<exists>j. j = k + length ds \<and> int j \<le> limit \<and>
     (attempt_of j = Raise e \<longrightarrow> r = Inl e) \<and>
     ((\<exists>x. attempt_of j = Return x \<and> r = Inr x) \<or> (\<exists>e. attempt_of j = Raise e \<and> r = Inl e)) \<and>
     (\<forall>i. k \<le> i \<and> i < j \<longrightarrow> attempt_of i = Again (ds ! (i - k)))"
  using assms(2,3)
proof (induction "nat (limit - int k)" arbitrary: k ds)
  case 0
  then have k: "int k = limit" by simp
  then have "[k..<nat (limit + 1)] = [k]" by (simp add: nat_eq_iff2 upt_rec)
  moreover have "attempt_of k \<noteq> Again d" for d using again_below [of k d] k by auto
  ultimately show ?case using 0 by (auto split: step.splits)
next
  case (Suc n)
  then have k: "int k < limit" by simp
  then have u: "[k..<nat (limit + 1)] = k # [Suc k..<nat (limit + 1)]" by (simp add: upt_conv_Cons)
  show ?case
  proof (cases "attempt_of k")
    case (Again d)
    with Suc.prems u obtain ds' where ds: "ds = d # ds'"
      and l: "attempt_loop attempt_of [Suc k..<nat (limit + 1)] = (ds', r)"
      by (auto split: prod.splits)
    have "n = nat (limit - int (Suc k))" "int (Suc k) \<le> limit" using Suc.hyps(2) k by auto
    from Suc.hyps(1) [OF this l] Again ds show ?thesis
      by (auto simp: nth_Cons' less_Suc_eq_le not_less_eq_eq Suc_diff_le)
  qed (use Suc.prems u k in auto)
qed

lemma loop_ends:
  assumes "0 \<le> limit" "attempt_loop attempt_of [0..<nat (limit + 1)] = (ds, r)"
  shows "int (length ds) \<le> limit \<and>
     ((\<exists>x. attempt_of (length ds) = Return x \<and> r = Inr x) \<or>
      (\<exists>e. attempt_of (length ds) = Raise e \<and> r = Inl e)) \<and>
     (\<forall>i < length ds. attempt_of i = Again (ds ! i))"
  using loop_from [of 0 ds r] assms by auto

end

lemma accept_body_not_Again [simp]: "accept_body w m a r b n \<noteq> Again d"
  by (auto simp: accept_body_def split: sum.splits)

lemma try_response_Again:
  "try_response w contract policy m a r stop = Inr (Again d) \<Longrightarrow>
     rs_status_code r \<in> set (rp_retryable_status_codes policy) \<and> int a < rp_max_retries policy \<and>
     d = retry_delay (w_parsedate w) (w_now w a) (w_random w a) a (header_get ''retry-after'' r) policy"
  by (auto simp: try_response_def Let_def split: if_splits sum.splits option.splits)

lemma handle_exn_Again:
  "handle_exn w policy a e = Again d \<Longrightarrow>
     int a < rp_max_retries policy \<and> d = plain_delay w a policy \<and>
     (e = TimeoutException \<and> rp_retry_on_timeout policy \<or>
      rp_retry_on_connection_error policy \<and>
        (e = NetworkError \<or> (\<exists>t. e = ConnectError t \<and> \<not> tls_detail t)))"
  by (cases e) (auto simp: Let_def split: if_splits)

lemma run_attempt_Again:
  "run_attempt w contract policy m a = Again d \<Longrightarrow> int a < rp_max_retries policy \<and>
     (\<exists>h. d = retry_delay (w_parsedate w) (w_now w a) (w_random w a) a h policy)"
  unfolding run_attempt_def plain_delay_def
  by (auto split: outcome.splits sum.splits dest!: try_response_Again handle_exn_Again
      simp: plain_delay_def)

interpretation attempts: retry_step "run_attempt w contract policy m" "rp_max_retries policy"
  for w contract policy m
  by unfold_locales (simp add: run_attempt_Again)

section \<open>Delays\<close>

lemma float_capped_range: "0 \<le> b \<Longrightarrow> 0 \<le> float_capped (float_nonneg x) b \<and>
    float_capped (float_nonneg x) b \<le> b"
  by (cases x) auto

lemma retry_delay_range:
  assumes "0 \<le> rp_backoff_seconds p" "0 \<le> rp_jitter_seconds p" "0 \<le> rp_max_delay_seconds p"
    and "0 \<le> rnd"
  shows "0 \<le> retry_delay f now rnd a h p \<and> retry_delay f now rnd a h p \<le> rp_max_delay_seconds p"
  using assms float_capped_range
  by (auto simp: retry_delay_def intro!: add_nonneg_nonneg mult_nonneg_nonneg split: option.splits)

text \<open>C8. A call of \<open>fetch\<close> always ends: under a policy its contract accepts, it sleeps at
  most \<open>max_retries\<close> times (the smaller of the source's and the client's limit), every
  delay lies between zero and the policy's maximum, and its result is what the next attempt
  returns or raises, so the assertion after the loop is never reached.\<close>

theorem fetch_terminates_bounded:
  assumes "RetryPolicy (rq_retry_policy contract) = Inr p" and "HTTPClientConfig cfg = Inr c"
    and "\<forall>k. 0 \<le> w_random w k"
    and "request_arguments url contract headers = Inr args"
  shows "\<exists>ds r. fetch w cfg url (Some contract) headers m = (ds, r) \<and>
     int (length ds) \<le> min (rp_max_retries (rq_retry_policy contract)) (hc_max_retries cfg) \<and>
     (\<forall>d \<in> set ds. 0 \<le> d \<and> d \<le> rp_max_delay_seconds (rq_retry_policy contract)) \<and>
     (\<exists>s. run_attempt w contract (effective_policy cfg contract) m (length ds) = s \<and>
        ((\<exists>x. s = Return x \<and> r = Inr x) \<or> (\<exists>e. s = Raise e \<and> r = Inl e)))"
proof -
  let ?p = "effective_policy cfg contract"
  obtain ds r where f: "fetch w cfg url (Some contract) headers m = (ds, r)"
    by (cases "fetch w cfg url (Some contract) headers m")
  with assms(4) have l: "attempt_loop (run_attempt w contract ?p m)
      [0..<nat (rp_max_retries ?p + 1)] = (ds, r)"
    by (simp add: fetch_def Let_def)
  have "0 \<le> rp_max_retries ?p"
    using assms(1,2) by (auto simp: effective_policy_def RetryPolicy_def HTTPClientConfig_def
        check_def rbind_Inr_iff split: if_splits)
  note e = attempts.loop_ends [OF this l]
  have "0 \<le> d \<and> d \<le> rp_max_delay_seconds ?p" if d: "d \<in> set ds" for d
  proof -
    from d obtain i where "i < length ds" "d = ds ! i" by (auto simp: in_set_conv_nth)
    with e have "run_attempt w contract ?p m i = Again d" by auto
    from run_attempt_Again [OF this] obtain h where
      d: "d = retry_delay (w_parsedate w) (w_now w i) (w_random w i) i h ?p" by blast
    show ?thesis unfolding d using assms(1,3)
      by (intro retry_delay_range) (auto simp: effective_policy_def RetryPolicy_def check_def
          rbind_Inr_iff)
  qed
  with f e show ?thesis by (auto simp: effective_policy_def)
qed

text \<open>A server that answers 503 forever, and one whose gzip body is damaged.\<close>

definition demo_world :: "outcome \<Rightarrow> world" where
  "demo_world out = \<lparr>w_outcome = \<lambda>_. out, w_random = \<lambda>_. 1 / 2, w_now = \<lambda>_. 0,
     w_parsedate = \<lambda>_. None, w_xml_root = \<lambda>_. None, w_gunzip = \<lambda>_. ([], Gz_zlib_error)\<rparr>"

definition demo_config :: http_config where
  "demo_config = \<lparr>hc_connect_timeout_seconds = 10, hc_read_timeout_seconds = 30,
     hc_write_timeout_seconds = 10, hc_pool_timeout_seconds = 10, hc_max_redirects = 5,
     hc_verify_tls = True, hc_user_agent = ''CTI-Hermes/0.1.0'', hc_max_retries = 2,
     hc_retry_backoff_seconds = 1 / 2, hc_retry_max_delay_seconds = 30,
     hc_retry_jitter_seconds = 1 / 4\<rparr>"

theorem fetch_terminates_bounded_witness:
  "\<exists>ds r. fetch (demo_world (Responds \<lparr>rs_url = ''https://x.test'', rs_status_code = 503,
       rs_headers = [], rs_chunks = []\<rparr> None)) demo_config ''https://x.test''
       (Some default_source_request) [] 100 = (ds, r) \<and> int (length ds) \<le> 2"
proof -
  have a: "RetryPolicy (rq_retry_policy default_source_request)
      = Inr (rq_retry_policy default_source_request)" by code_simp
  have b: "HTTPClientConfig demo_config = Inr demo_config"
    by (simp add: HTTPClientConfig_def demo_config_def)
  have c: "request_arguments ''https://x.test'' default_source_request [] = Inr
    \<lparr>ra_method = ''GET'', ra_url = ''https://x.test'', ra_params = None, ra_headers = [],
     ra_body = None\<rparr>" by code_simp
  have d: "\<forall>k. 0 \<le> w_random (demo_world out) k" for out by (simp add: demo_world_def)
  from fetch_terminates_bounded [OF a b d c] show ?thesis by (fastforce simp: demo_config_def)
qed

section \<open>What a successful call returns\<close>

lemma read_chunks_bound:
  "read_chunks m a cs stop acc = Inr b \<Longrightarrow> int (length acc) \<le> m \<Longrightarrow> int (length b) \<le> m"
  by (induction m a cs stop acc rule: read_chunks.induct) (auto split: option.splits if_splits)

lemma read_body_bound: "read_body m a r stop = Inr b \<Longrightarrow> 0 \<le> m \<Longrightarrow> int (length b) \<le> m"
  by (auto simp: read_body_def dest: read_chunks_bound split: option.splits if_splits)

lemma decompress_bound: "decompress_gzip g b m = Inr d \<Longrightarrow> int (length d) \<le> m"
  by (auto simp: decompress_gzip_def split: prod.splits if_splits gzip_end.splits)

lemma accept_body_Return:
  "accept_body w m a r b n = Return x \<Longrightarrow> int (length b) \<le> m \<Longrightarrow>
     int (length (fr_body x)) \<le> m \<and> fr_status_code x = rs_status_code r \<and>
     fr_headers x = rs_headers r \<and> fr_retry_count x = a \<and>
     fr_warnings x = (case n of None \<Rightarrow> [] | Some t \<Rightarrow> [(''content_type_degraded'', t)])"
  by (auto simp: accept_body_def dest: decompress_bound split: sum.splits if_splits)

definition policy_accepts :: "source_request \<Rightarrow> response \<Rightarrow> bool" where
  "policy_accepts contract r =
     content_type_matches (header_get ''content-type'' r) (rq_expected_content_types contract)"

lemma degradation_feed: "content_type_degradation f r contract b = Some n \<Longrightarrow>
    rq_parser_adapter contract \<in> {Some PA_RSS, Some PA_ATOM} \<and> (\<exists>t. b = Some t \<and> body_is_xml_feed f t)"
  by (auto simp: content_type_degradation_def split: option.splits if_splits)

lemma try_response_Return:
  assumes "try_response w contract policy m a r stop = Inr (Return x)" "0 \<le> m"
  shows "int (length (fr_body x)) \<le> m \<and> fr_retry_count x = a \<and>
     fr_status_code x = rs_status_code r \<and>
     rs_status_code r \<notin> set (rp_retryable_status_codes policy) \<and>
     (rs_status_code r = 304 \<and> fr_body x = [] \<or>
      200 \<le> rs_status_code r \<and> rs_status_code r < 300 \<and>
      (policy_accepts contract r \<and> fr_warnings x = [] \<or>
       rq_parser_adapter contract \<in> {Some PA_RSS, Some PA_ATOM} \<and>
       (\<exists>n. fr_warnings x = [(''content_type_degraded'', n)])))"
  using assms
  by (auto simp: try_response_def policy_accepts_def Let_def split: if_splits sum.splits option.splits
      dest!: accept_body_Return read_body_bound degradation_feed)

text \<open>C7. What a successful \<open>fetch\<close> returns was allowed: the body (also after
  decompression) is within the byte limit, the status is a 304 with an empty body or a 2xx
  that the policy does not retry, and the media type matched the source policy unless the
  source is an RSS or Atom feed accepted with a recorded degradation.\<close>

theorem fetch_result_within_policy:
  assumes "fetch w cfg url (Some contract) headers m = (ds, Inr x)" and "0 \<le> m"
    and "0 \<le> rp_max_retries (effective_policy cfg contract)"
  shows "\<exists>r stop. w_outcome w (length ds) = Responds r stop \<and> fr_retry_count x = length ds \<and>
     int (length (fr_body x)) \<le> m \<and> fr_status_code x = rs_status_code r \<and>
     rs_status_code r \<notin> set (rp_retryable_status_codes (rq_retry_policy contract)) \<and>
     (rs_status_code r = 304 \<and> fr_body x = [] \<or>
      200 \<le> rs_status_code r \<and> rs_status_code r < 300 \<and>
      (policy_accepts contract r \<and> fr_warnings x = [] \<or>
       rq_parser_adapter contract \<in> {Some PA_RSS, Some PA_ATOM} \<and>
       (\<exists>n. fr_warnings x = [(''content_type_degraded'', n)])))"
proof -
  let ?p = "effective_policy cfg contract"
  from assms(1) have l: "attempt_loop (run_attempt w contract ?p m)
      [0..<nat (rp_max_retries ?p + 1)] = (ds, Inr x)"
    by (auto simp: fetch_def Let_def split: sum.splits)
  then have "run_attempt w contract ?p m (length ds) = Return x"
    using attempts.loop_ends [OF assms(3) l] by auto
  moreover have "handle_exn w ?p (length ds) e \<noteq> Return x" for e
    by (cases e) (auto simp: Let_def)
  ultimately obtain r stop where
    "w_outcome w (length ds) = Responds r stop"
    "try_response w contract ?p m (length ds) r stop = Inr (Return x)"
    by (auto simp: run_attempt_def split: outcome.splits sum.splits)
  with try_response_Return [OF this(2) assms(2)] show ?thesis
    by (auto simp: effective_policy_def)
qed

definition demo_ok :: outcome where
  "demo_ok = Responds \<lparr>rs_url = ''https://x.test'', rs_status_code = 200,
     rs_headers = [(''Content-Type'', ''text/html'')], rs_chunks = [''hel'', ''lo'']\<rparr> None"

theorem fetch_result_within_policy_witness:
  "\<exists>x. fetch (demo_world demo_ok) demo_config ''https://x.test''
       (Some default_source_request) [] 100 = ([], Inr x) \<and> int (length (fr_body x)) \<le> 100"
proof -
  have "fetch (demo_world demo_ok) demo_config ''https://x.test'' (Some default_source_request) [] 100
    = ([], Inr \<lparr>fr_url = ''https://x.test'', fr_status_code = 200, fr_body = ''hello'',
        fr_headers = [(''Content-Type'', ''text/html'')], fr_retry_count = 0, fr_warnings = []\<rparr>)"
    by code_simp
  moreover from fetch_result_within_policy [OF this] have
    "int (length (fr_body \<lparr>fr_url = ''https://x.test'', fr_status_code = 200, fr_body = ''hello'',
        fr_headers = [(''Content-Type'', ''text/html'')], fr_retry_count = 0, fr_warnings = []\<rparr>)) \<le> 100"
    by (simp add: effective_policy_def default_source_request_def default_retry_policy_def
        demo_config_def)
  ultimately show ?thesis by blast
qed

section \<open>The error taxonomy\<close>

definition classifications :: "string list" where
  "classifications = [''request_policy_error'', ''rate_limited'', ''transient_http_error'',
     ''http_error'', ''content_type_error'', ''oversized_response'', ''decompression_error'',
     ''too_many_redirects'', ''invalid_url'', ''tls_error'', ''connection_error'', ''timeout'',
     ''invalid_response'']"

definition classified :: "fetch_exn \<Rightarrow> bool" where
  "classified e = (\<exists>f. e = Fetch_Error f \<and> fe_classification f \<in> set classifications)"

text \<open>The two ways an error escapes classification in an outcome of the transport.\<close>

definition escapes :: "world \<Rightarrow> nat \<Rightarrow> bool" where
  "escapes w k = ((\<exists>e. w_outcome w k = Raises (OtherError e)) \<or>
     (\<exists>r e. w_outcome w k = Responds r (Some (OtherError e))) \<or>
     (\<exists>r stop b. w_outcome w k = Responds r stop \<and> is_gzip r \<and> snd (w_gunzip w b) = Gz_zlib_error))"

lemma handle_exn_classified:
  "handle_exn w policy a e = Raise x \<Longrightarrow> classified x \<or> (\<exists>t. e = OtherError t)"
  by (cases e) (auto simp: classified_def classifications_def Let_def split: if_splits)

lemma read_chunks_Inl:
  "read_chunks m a cs stop acc = Inl e \<Longrightarrow>
     (\<exists>t. e = Inl t \<and> stop = Some t) \<or> (\<exists>x. e = Inr x \<and> classified x)"
  by (induction m a cs stop acc rule: read_chunks.induct)
    (auto simp: classified_def classifications_def oversized_def split: option.splits if_splits)

lemma read_body_Inl:
  "read_body m a r stop = Inl e \<Longrightarrow>
     e = Inl ValueErr \<or> (\<exists>t. e = Inl t \<and> stop = Some t) \<or> (\<exists>x. e = Inr x \<and> classified x)"
  by (auto simp: read_body_def classified_def classifications_def oversized_def
      split: option.splits if_splits dest!: read_chunks_Inl)

lemma accept_body_Raise:
  "accept_body w m a r b n = Raise x \<Longrightarrow>
     classified x \<or> is_gzip r \<and> snd (w_gunzip w b) = Gz_zlib_error"
  by (auto simp: accept_body_def decompress_gzip_def classified_def classifications_def
      split: sum.splits if_splits prod.splits gzip_end.splits)

lemma try_response_Raise:
  assumes "try_response w contract policy m a r stop = Inr (Raise x)"
  shows "classified x \<or> is_gzip r \<and> (\<exists>b. snd (w_gunzip w b) = Gz_zlib_error)"
proof -
  have "classified (Fetch_Error (rate_limited_error a r))"
    by (simp add: classified_def classifications_def rate_limited_error_def)
  with assms show ?thesis
    by (auto simp: try_response_def Let_def split: if_splits sum.splits option.splits
        dest!: accept_body_Raise read_body_Inl)
      (auto simp: classified_def classifications_def)
qed

lemma try_response_Inl:
  "try_response w contract policy m a r stop = Inl e \<Longrightarrow> e = ValueErr \<or> stop = Some e"
  by (auto simp: try_response_def Let_def split: if_splits sum.splits option.splits
      dest!: read_body_Inl)

lemma run_attempt_Raise:
  assumes "run_attempt w contract policy m a = Raise x"
  shows "classified x \<or> escapes w a"
proof (cases "w_outcome w a")
  case (Raises e)
  with assms have "handle_exn w policy a e = Raise x" by (simp add: run_attempt_def)
  from handle_exn_classified [OF this] Raises show ?thesis by (auto simp: escapes_def)
next
  case (Responds r stop)
  show ?thesis
  proof (cases "try_response w contract policy m a r stop")
    case (Inl e)
    with assms Responds have "handle_exn w policy a e = Raise x" by (simp add: run_attempt_def)
    from handle_exn_classified [OF this] try_response_Inl [OF Inl] Responds show ?thesis
      by (auto simp: escapes_def)
  next
    case (Inr s)
    with assms Responds have "try_response w contract policy m a r stop = Inr (Raise x)"
      by (simp add: run_attempt_def)
    from try_response_Raise [OF this] Responds show ?thesis by (auto simp: escapes_def)
  qed
qed



text \<open>A damaged gzip body raises \<open>zlib.error\<close> out of \<open>fetch\<close>.\<close>

lemma corrupt_gzip_escapes:
  "fetch (demo_world (Responds \<lparr>rs_url = ''https://x.test/a.gz'', rs_status_code = 200,
       rs_headers = [], rs_chunks = [''xx'']\<rparr> None)) demo_config ''https://x.test/a.gz''
     (Some default_source_request) [] 100 = ([], Inl (Uncaught ''zlib.error''))"
  by code_simp

end
