(* ===== verification/Providers.thy ===== *)
theory Providers
  imports Http_Facts
begin

text \<open>
  \<^verbatim>\<open>enrichment/providers.py\<close>: the six public enrichment providers.  A provider is a
  record of its configuration and health state; \<open>provider_enrich\<close> is \<open>BaseProvider.enrich\<close>, which
  returns the new state with the response, or the exception no handler catches.  The
  transport, \<^verbatim>\<open>json.loads\<close> and SHA-256 are parameters collected in \<open>env\<close>.
\<close>

section \<open>Contracts\<close>

record provider_request =
  pq_entity_type :: entity_type
  pq_entity_id :: uuid
  pq_query_key :: string
  pq_query_kind :: string
  pq_requested_at :: instant

definition ProviderRequest :: "provider_request \<Rightarrow> provider_request result" where
  "ProviderRequest r =
     rbind (bounded_text 512 (pq_query_key r)) (\<lambda>key.
     rbind (bounded_text 64 (pq_query_kind r)) (\<lambda>kind.
       Inr (r\<lparr>pq_query_key := key, pq_query_kind := kind\<rparr>)))"

record raw_metadata =
  rm_http_status :: "int option"
  rm_content_type :: "string option"
  rm_response_bytes :: "int option"
  rm_etag :: "string option"
  rm_last_modified :: "string option"
  rm_retry_after_seconds :: "pyfloat option"
  rm_quota_remaining :: "int option"

definition empty_metadata :: raw_metadata where
  "empty_metadata = \<lparr>rm_http_status = None, rm_content_type = None, rm_response_bytes = None,
     rm_etag = None, rm_last_modified = None, rm_retry_after_seconds = None,
     rm_quota_remaining = None\<rparr>"

definition opt_check :: "('a \<Rightarrow> bool) \<Rightarrow> 'a option \<Rightarrow> string \<Rightarrow> unit result" where
  "opt_check p v msg = check (case v of None \<Rightarrow> True | Some x \<Rightarrow> p x) msg"

definition ProviderRawMetadata :: "raw_metadata \<Rightarrow> raw_metadata result" where
  "ProviderRawMetadata m =
     (let m = m\<lparr>rm_content_type := map_option strip (rm_content_type m),
                rm_etag := map_option strip (rm_etag m),
                rm_last_modified := map_option strip (rm_last_modified m)\<rparr> in
      rbind (opt_check (\<lambda>s. 100 \<le> s \<and> s \<le> 599) (rm_http_status m) ''http_status'') (\<lambda>_.
      rbind (opt_check (\<lambda>s. int (length s) \<le> 255) (rm_content_type m) ''content_type'') (\<lambda>_.
      rbind (opt_check (\<lambda>n. 0 \<le> n) (rm_response_bytes m) ''response_bytes'') (\<lambda>_.
      rbind (opt_check (\<lambda>s. int (length s) \<le> 512) (rm_etag m) ''etag'') (\<lambda>_.
      rbind (opt_check (\<lambda>s. int (length s) \<le> 255) (rm_last_modified m) ''last_modified'') (\<lambda>_.
      rbind (opt_check (\<lambda>x. case x of Fin q \<Rightarrow> 0 \<le> q | PosInf \<Rightarrow> True | _ \<Rightarrow> False)
               (rm_retry_after_seconds m) ''retry_after_seconds'') (\<lambda>_.
      rbind (opt_check (\<lambda>n. 0 \<le> n) (rm_quota_remaining m) ''quota_remaining'') (\<lambda>_.
        Inr m))))))))"

record provider_response =
  pr_provider :: string
  pr_request :: provider_request
  pr_retrieved_at :: instant
  pr_expires_at :: "instant option"
  pr_status :: enrichment_status
  pr_retryable :: bool
  pr_normalized_result :: "json dict"
  pr_raw_metadata :: raw_metadata
  pr_payload_hash :: "string option"
  pr_error_classification :: "provider_error_classification option"
  pr_error_detail :: "string option"
  pr_cache_hit :: bool

record provider_health =
  ph_provider :: string
  ph_enabled :: bool
  ph_state :: enrichment_status
  ph_last_attempt_at :: "instant option"
  ph_last_success_at :: "instant option"
  ph_consecutive_failures :: int
  ph_rate_limited_until :: "instant option"
  ph_quota_remaining :: "int option"
  ph_last_error_classification :: "provider_error_classification option"

section \<open>State and environment\<close>

record runtime_config =
  pc_timeout_seconds :: rat
  pc_max_retries :: int
  pc_max_response_bytes :: int
  pc_concurrency :: int
  pc_min_interval_seconds :: rat
  pc_ttl_seconds :: int

datatype provider_class = CISAKEV | EPSS | NVD | VirusTotal | OTX | AbuseIPDB

record provider =
  pv_class :: provider_class
  pv_name :: string
  pv_enabled :: bool
  pv_query_kinds :: "string list"
  pv_config :: runtime_config
  pv_api_key :: "string option"
  pv_url :: string
  pv_last_request :: rat
  pv_last_attempt_at :: "instant option"
  pv_last_success_at :: "instant option"
  pv_last_error :: "provider_error_classification option"
  pv_failures :: int
  pv_rate_limited_until :: "instant option"
  pv_quota_remaining :: "int option"

datatype loaded = Loaded json | JSONDecodeError | UnicodeDecodeError

record env =
  ev_fetch :: "string \<Rightarrow> string dict \<Rightarrow> fetch_exn + fetch_result"
  ev_loads :: "string \<Rightarrow> loaded"
  ev_sha256 :: "string \<Rightarrow> string"

datatype provider_exn =
    QueryKindError string
  | SchemaError string
  | JSONError
  | FetchFailed fetch_error
  | HTTPorOSError string
  | Escaped string

text \<open>The fetcher is the HTTP client with the provider's limits.  What \<open>fetch\<close> leaves
  uncaught is an \<^verbatim>\<open>httpx.HTTPError\<close> or \<^verbatim>\<open>OSError\<close> when the transport raised it; \<open>zlib.error\<close>
  and assertion failures are neither.\<close>

definition provider_client :: "world \<Rightarrow> runtime_config \<Rightarrow> string \<Rightarrow> string dict \<Rightarrow> fetch_exn + fetch_result" where
  "provider_client w c url headers =
     snd (fetch w \<lparr>hc_connect_timeout_seconds = 10, hc_read_timeout_seconds = 30,
        hc_write_timeout_seconds = 10, hc_pool_timeout_seconds = 10, hc_max_redirects = 5,
        hc_verify_tls = True, hc_user_agent = ''CTI-Hermes/0.1.0'',
        hc_max_retries = pc_max_retries c, hc_retry_backoff_seconds = 1 / 5,
        hc_retry_max_delay_seconds = 30, hc_retry_jitter_seconds = 0\<rparr> url None headers
      (pc_max_response_bytes c))"

definition escape_class :: "fetch_exn \<Rightarrow> provider_exn" where
  "escape_class e = (case e of Fetch_Error f \<Rightarrow> FetchFailed f
     | Uncaught name \<Rightarrow> if name \<in> {''zlib.error'', ''AssertionError''} then Escaped name
                       else HTTPorOSError name)"

section \<open>Text helpers\<close>

text \<open>\<open>quote(s, safe="")\<close> and unpadded \<open>urlsafe_b64encode\<close>.\<close>

definition quote_all :: "string \<Rightarrow> string" where
  "quote_all s = concat (map (\<lambda>c.
     if is_alpha c \<or> is_digit c \<or> c \<in> set ''_.-~'' then [c]
     else [CHR ''%'', upper_char (hex_digit (code c div 16)),
           upper_char (hex_digit (code c mod 16))]) (utf8 s))"

definition b64_char :: "int \<Rightarrow> char" where
  "b64_char n = (if n < 26 then char_of (65 + n) else if n < 52 then char_of (71 + n)
     else if n < 62 then char_of (n - 4) else if n = 62 then CHR ''-'' else CHR ''_'')"

fun b64_bytes :: "int list \<Rightarrow> string" where
  "b64_bytes (a # b # c # rest) =
     [b64_char (a div 4), b64_char (a mod 4 * 16 + b div 16),
      b64_char (b mod 16 * 4 + c div 64), b64_char (c mod 64)] @ b64_bytes rest"
| "b64_bytes [a, b] = [b64_char (a div 4), b64_char (a mod 4 * 16 + b div 16),
     b64_char (b mod 16 * 4)]"
| "b64_bytes [a] = [b64_char (a div 4), b64_char (a mod 4 * 16)]"
| "b64_bytes [] = []"

definition urlsafe_b64 :: "string \<Rightarrow> string" where
  "urlsafe_b64 s = b64_bytes (map code (utf8 s))"

text \<open>Iterating a JSON value: \<open>None\<close> is \<open>TypeError\<close>.\<close>

fun py_iter :: "json \<Rightarrow> json list option" where
  "py_iter (JList xs) = Some xs"
| "py_iter (JStr s) = Some (map (\<lambda>c. JStr [c]) s)"
| "py_iter (JObj d) = Some (map (\<lambda>(k, _). JStr k) d)"
| "py_iter _ = None"

fun is_obj :: "json \<Rightarrow> bool" where
  "is_obj (JObj _) = True"
| "is_obj _ = False"

fun obj_of :: "json \<Rightarrow> json dict" where
  "obj_of (JObj d) = d"
| "obj_of _ = []"

section \<open>Requests\<close>

definition fetch_json :: "env \<Rightarrow> string \<Rightarrow> string dict \<Rightarrow> (string \<times> string) list
    \<Rightarrow> provider_exn + (json dict \<times> fetch_result)" where
  "fetch_json e url headers params =
     (let query = (if params = [] then [] else ''?'' @ urlencode params) in
      case ev_fetch e (url @ query) headers of
        Inl x \<Rightarrow> Inl (escape_class x)
      | Inr r \<Rightarrow> (case ev_loads e (fr_body r) of
            JSONDecodeError \<Rightarrow> Inl JSONError
          | UnicodeDecodeError \<Rightarrow> Inl (Escaped ''UnicodeDecodeError'')
          | Loaded (JObj d) \<Rightarrow> Inr (d, r)
          | Loaded _ \<Rightarrow> Inl (SchemaError ''provider root must be an object'')))"

text \<open>\<open>next((row for row in entries if \<dots>), None)\<close> on a list of objects keyed by a text.\<close>

definition find_entry :: "string \<Rightarrow> string \<Rightarrow> json list \<Rightarrow> json dict option" where
  "find_entry field key entries =
     map_option obj_of (List.find (\<lambda>entry. is_obj entry \<and>
       upper (py_str (jget_default field (JStr []) (obj_of entry))) = upper key) entries)"

definition kev_retrieve :: "env \<Rightarrow> provider \<Rightarrow> provider_request
    \<Rightarrow> provider_exn + (json dict \<times> fetch_result)" where
  "kev_retrieve e p request =
     rbind (fetch_json e (pv_url p) [] []) (\<lambda>(payload, fetched).
       let key = upper (pq_query_key request) in
       case jget ''vulnerabilities'' payload of
         JList entries \<Rightarrow>
           (case find_entry ''cveID'' (pq_query_key request) entries of
              None \<Rightarrow> Inr ([(''cve_id'', JStr key), (''known_exploited'', JBool False),
                           (''matched'', JBool False)], fetched)
            | Some m \<Rightarrow> Inr ([(''cve_id'', JStr key), (''known_exploited'', JBool True),
                (''matched'', JBool True), (''date_added'', jget ''dateAdded'' m),
                (''due_date'', jget ''dueDate'' m),
                (''required_action'', jget ''requiredAction'' m),
                (''vulnerability_name'', jget ''vulnerabilityName'' m),
                (''vendor_project'', jget ''vendorProject'' m),
                (''product'', jget ''product'' m)], fetched))
       | _ \<Rightarrow> Inl (SchemaError ''KEV vulnerabilities list missing''))"

definition query_keys :: "string \<Rightarrow> string list" where
  "query_keys s = dedup (map (\<lambda>v. upper (strip v))
     (filter (\<lambda>v. strip v \<noteq> []) (split_on (CHR '','') s)))"

text \<open>The score fields of one EPSS entry: \<open>None\<close> when malformed.\<close>

definition epss_fields :: "json dict \<Rightarrow> (pyfloat \<times> pyfloat) option" where
  "epss_fields entry = (case (dict_get ''epss'' entry, dict_get ''percentile'' entry) of
     (Some a, Some b) \<Rightarrow> (case (float_of a, float_of b) of
         (Some x, Some y) \<Rightarrow> Some (x, y) | _ \<Rightarrow> None)
   | _ \<Rightarrow> None)"

fun float_json :: "pyfloat \<Rightarrow> json" where
  "float_json (Fin q) = JFloat q"
| "float_json _ = JNull"

definition unit_pair :: "pyfloat \<times> pyfloat \<Rightarrow> bool" where
  "unit_pair xy = (in_range 0 1 (fst xy) \<and> in_range 0 1 (snd xy))"

definition epss_record :: "json dict \<Rightarrow> pyfloat \<times> pyfloat \<Rightarrow> json dict" where
  "epss_record entry xy = [(''epss_score'', float_json (fst xy)),
     (''epss_percentile'', float_json (snd xy)), (''epss_date'', jget ''date'' entry)]"

definition epss_batch :: "json list \<Rightarrow> json dict" where
  "epss_batch entries = foldl (\<lambda>scores entry.
     if \<not> is_obj entry \<or> \<not> dict_has ''cve'' (obj_of entry) then scores
     else (case epss_fields (obj_of entry) of
         None \<Rightarrow> scores
       | Some xy \<Rightarrow> if unit_pair xy
           then dict_set (upper (py_str (jget ''cve'' (obj_of entry))))
                  (JObj (epss_record (obj_of entry) xy)) scores
           else scores)) [] entries"

definition epss_retrieve :: "env \<Rightarrow> provider \<Rightarrow> provider_request
    \<Rightarrow> provider_exn + (json dict \<times> fetch_result)" where
  "epss_retrieve e p request =
     rbind (fetch_json e (pv_url p) [] [(''cve'', join '','' (query_keys (pq_query_key request)))])
       (\<lambda>(payload, fetched).
       let key = upper (pq_query_key request) in
       case jget ''data'' payload of
         JList entries \<Rightarrow>
           (if CHR '','' \<in> set (pq_query_key request)
            then (let scores = epss_batch entries in
                  Inr ([(''cve_id'', JStr key), (''found'', JBool (scores \<noteq> [])),
                        (''scores'', JObj scores)], fetched))
            else (case find_entry ''cve'' (pq_query_key request) entries of
                None \<Rightarrow> Inr ([(''cve_id'', JStr key), (''found'', JBool False)], fetched)
              | Some m \<Rightarrow> (case epss_fields m of
                  None \<Rightarrow> Inl (SchemaError ''EPSS score fields malformed'')
                | Some xy \<Rightarrow> if \<not> unit_pair xy
                    then Inl (SchemaError ''EPSS values outside [0,1]'')
                    else Inr ([(''cve_id'', JStr key), (''found'', JBool True)] @ epss_record m xy,
                              fetched))))
       | _ \<Rightarrow> Inl (SchemaError ''EPSS data list missing''))"

text \<open>NVD: the first English description, the first metric version with a usable score,
  and the sorted set of weakness names.\<close>

definition nvd_description :: "json \<Rightarrow> json" where
  "nvd_description descriptions = (case descriptions of
     JList rows \<Rightarrow>
       (case List.find (\<lambda>row. is_obj row \<and> jget ''lang'' (obj_of row) = JStr ''en''
                 \<and> truthy (jget ''value'' (obj_of row))) rows of
          None \<Rightarrow> JNull | Some row \<Rightarrow> JStr (py_str (jget ''value'' (obj_of row))))
   | _ \<Rightarrow> JNull)"

fun nvd_metric :: "json dict \<Rightarrow> string list \<Rightarrow> (pyfloat \<times> json) option" where
  "nvd_metric metrics [] = None"
| "nvd_metric metrics (key # keys) =
     (case jget key metrics of
        JList (JObj c # _) \<Rightarrow>
          (case jget ''cvssData'' c of
             JObj data \<Rightarrow>
               (case Option.bind (dict_get ''baseScore'' data) float_of of
                  None \<Rightarrow> nvd_metric metrics keys
                | Some x \<Rightarrow> Some (x, if truthy (jget ''vectorString'' data)
                     then JStr (py_str (jget ''vectorString'' data)) else JNull))
           | _ \<Rightarrow> nvd_metric metrics keys)
      | _ \<Rightarrow> nvd_metric metrics keys)"

definition metric_keys :: "string list" where
  "metric_keys = [''cvssMetricV40'', ''cvssMetricV31'', ''cvssMetricV30'', ''cvssMetricV2'']"

fun nvd_cwes_from :: "json list \<Rightarrow> string list option" where
  "nvd_cwes_from [] = Some []"
| "nvd_cwes_from (w # ws) =
     (if \<not> is_obj w then nvd_cwes_from ws
      else (case py_iter (py_or (jget ''description'' (obj_of w)) (JList [])) of
          None \<Rightarrow> None
        | Some rows \<Rightarrow> map_option (\<lambda>rest.
            map (\<lambda>r. py_str (jget ''value'' (obj_of r)))
              (filter (\<lambda>r. is_obj r \<and> truthy (jget ''value'' (obj_of r))) rows) @ rest)
            (nvd_cwes_from ws)))"

definition nvd_retrieve :: "env \<Rightarrow> provider \<Rightarrow> provider_request
    \<Rightarrow> provider_exn + (json dict \<times> fetch_result)" where
  "nvd_retrieve e p request =
     rbind (fetch_json e (pv_url p)
              (case pv_api_key p of Some k \<Rightarrow> if k = [] then [] else [(''apiKey'', k)] | None \<Rightarrow> [])
              [(''cveId'', upper (pq_query_key request))])
       (\<lambda>(payload, fetched).
       let key = upper (pq_query_key request) in
       case jget ''vulnerabilities'' payload of
         JList [] \<Rightarrow> Inr ([(''cve_id'', JStr key), (''found'', JBool False)], fetched)
       | JList (item # _) \<Rightarrow>
           (case jget ''cve'' (obj_of item) of
              JObj cve \<Rightarrow>
                (let metric = (case jget_default ''metrics'' (JObj []) cve of
                       JObj metrics \<Rightarrow> nvd_metric metrics metric_keys | _ \<Rightarrow> None);
                     cwes = (case jget_default ''weaknesses'' (JList []) cve of
                       JList ws \<Rightarrow> nvd_cwes_from ws | _ \<Rightarrow> Some [])
                 in case cwes of None \<Rightarrow> Inl (Escaped ''TypeError'')
                  | Some cs \<Rightarrow> Inr ([
                      (''cve_id'', JStr (py_str (jget_default ''id'' (JStr key) cve))),
                      (''found'', JBool True),
                      (''description'', nvd_description (jget_default ''descriptions'' (JList []) cve)),
                      (''published_at'', jget ''published'' cve),
                      (''modified_at'', jget ''lastModified'' cve),
                      (''cvss_score'', case metric of None \<Rightarrow> JNull | Some (x, _) \<Rightarrow> float_json x),
                      (''cvss_version'', JNull),
                      (''cvss_vector'', case metric of None \<Rightarrow> JNull | Some (_, v) \<Rightarrow> v),
                      (''cwe_ids'', JList (map JStr (sorted_unique cs))),
                      (''known_exploited'', JBool (truthy (jget ''cisaExploitAdd'' cve) \<or>
                          truthy (jget ''cisaActionDue'' cve)))], fetched))
            | _ \<Rightarrow> Inl (SchemaError ''NVD vulnerability entry malformed''))
       | _ \<Rightarrow> Inl (SchemaError ''NVD vulnerabilities list missing''))"

definition indicator_kinds :: "string list" where
  "indicator_kinds = [''ipv4'', ''ipv6'', ''domain'', ''url'', ''md5'', ''sha1'', ''sha256'']"

definition lookup_kind :: "(string \<times> string) list \<Rightarrow> string \<Rightarrow> string" where
  "lookup_kind m k = (case map_of m k of None \<Rightarrow> k | Some v \<Rightarrow> v)"

definition vt_kind_map :: "(string \<times> string) list" where
  "vt_kind_map = [(''ipv4'', ''ip_addresses''), (''ipv6'', ''ip_addresses''),
     (''domain'', ''domains''), (''url'', ''urls''), (''md5'', ''files''),
     (''sha1'', ''files''), (''sha256'', ''files'')]"

definition vt_gui_kind_map :: "(string \<times> string) list" where
  "vt_gui_kind_map = [(''ipv4'', ''ip-address''), (''ipv6'', ''ip-address''),
     (''domain'', ''domain''), (''url'', ''url''), (''md5'', ''file''),
     (''sha1'', ''file''), (''sha256'', ''file'')]"

definition otx_kind_map :: "(string \<times> string) list" where
  "otx_kind_map = [(''ipv4'', ''IPv4''), (''ipv6'', ''IPv6''), (''domain'', ''domain''),
     (''url'', ''url''), (''md5'', ''file''), (''sha1'', ''file''), (''sha256'', ''file'')]"

definition is_404 :: "provider_exn \<Rightarrow> bool" where
  "is_404 x = (case x of FetchFailed f \<Rightarrow>
     fe_status_code f = Some 404 \<or> contains ''404'' (fe_detail f) | _ \<Rightarrow> False)"

definition not_found_fetch :: "string \<Rightarrow> string \<Rightarrow> fetch_result" where
  "not_found_fetch url body = \<lparr>fr_url = url, fr_status_code = 404, fr_body = body,
     fr_headers = [(''content-type'', ''application/json'')], fr_retry_count = 0,
     fr_warnings = []\<rparr>"

definition or_empty :: "string option \<Rightarrow> string" where
  "or_empty k = (case k of None \<Rightarrow> [] | Some s \<Rightarrow> s)"

definition str_items :: "json list \<Rightarrow> string list" where
  "str_items xs = List.map_filter as_str xs"

definition vt_retrieve :: "env \<Rightarrow> provider \<Rightarrow> provider_request
    \<Rightarrow> provider_exn + (json dict \<times> fetch_result)" where
  "vt_retrieve e p request =
     (let kind = pq_query_kind request; key = pq_query_key request in
      if kind \<notin> set indicator_kinds
      then Inl (QueryKindError (''VirusTotal does not serve query kind '' @ repr_str kind
             @ ''; approved kinds are indicator-only''))
      else (let target = (if kind = ''url'' then urlsafe_b64 key else quote_all key);
                url = pv_url p @ ''/'' @ lookup_kind vt_kind_map kind @ ''/'' @ target
        in case fetch_json e url [(''x-apikey'', or_empty (pv_api_key p))] [] of
             Inl x \<Rightarrow>
               if is_404 x
               then Inr ([(''indicator'', JStr key), (''not_found'', JBool True),
                   (''reputation'', JInt 0),
                   (''last_analysis_stats'', JObj [(''malicious'', JInt 0),
                      (''suspicious'', JInt 0), (''harmless'', JInt 0), (''undetected'', JInt 0)]),
                   (''tags'', JList []), (''popular_threat_classification'', JNull),
                   (''graph_url'', JStr (''https://www.virustotal.com/gui/search/'' @ quote_all key)),
                   (''hunting_available'', JBool False)],
                  not_found_fetch url ''{\"error\": {\"code\": \"NotFoundError\"}}'')
               else Inl x
           | Inr (payload, fetched) \<Rightarrow>
               (case jget ''attributes'' (obj_of (jget ''data'' payload)) of
                  JObj attrs \<Rightarrow>
                    (case py_iter (jget_default ''tags'' (JList []) attrs) of
                       None \<Rightarrow> Inl (Escaped ''TypeError'')
                     | Some tags \<Rightarrow> Inr ([(''indicator'', JStr key), (''not_found'', JBool False),
                         (''reputation'', jget ''reputation'' attrs),
                         (''last_analysis_stats'', jget ''last_analysis_stats'' attrs),
                         (''tags'', JList (map JStr (sort (str_items tags)))),
                         (''popular_threat_classification'', jget ''popular_threat_classification'' attrs),
                         (''graph_url'', JStr (''https://www.virustotal.com/gui/''
                            @ lookup_kind vt_gui_kind_map kind @ ''/'' @ target)),
                         (''hunting_available'', JBool True)], fetched))
                | _ \<Rightarrow> Inl (SchemaError ''VirusTotal data attributes missing''))))"

definition otx_retrieve :: "env \<Rightarrow> provider \<Rightarrow> provider_request
    \<Rightarrow> provider_exn + (json dict \<times> fetch_result)" where
  "otx_retrieve e p request =
     (let kind = pq_query_kind request; key = pq_query_key request in
      if kind \<notin> set indicator_kinds
      then Inl (QueryKindError (''OTX does not serve query kind '' @ repr_str kind
             @ ''; approved kinds are indicator-only''))
      else (let url = pv_url p @ ''/indicators/'' @ lookup_kind otx_kind_map kind @ ''/''
                  @ quote_all key @ ''/general''
        in case fetch_json e url [(''X-OTX-API-KEY'', or_empty (pv_api_key p))] [] of
             Inl x \<Rightarrow>
               if is_404 x
               then Inr ([(''indicator'', JStr key), (''not_found'', JBool True),
                   (''pulse_count'', JInt 0), (''pulse_names'', JList []), (''sections'', JList [])],
                  not_found_fetch url ''{\"pulse_info\": {\"count\": 0}}'')
               else Inl x
           | Inr (payload, fetched) \<Rightarrow>
               (case jget ''pulse_info'' payload of
                  JObj pulses \<Rightarrow>
                    (case (py_iter (jget_default ''pulses'' (JList []) pulses),
                           py_iter (jget_default ''sections'' (JList []) payload)) of
                       (Some items, Some sections) \<Rightarrow>
                         Inr ([(''indicator'', JStr key), (''not_found'', JBool False),
                           (''pulse_count'', jget ''count'' pulses),
                           (''pulse_names'', JList (map JStr (sort
                              (map (\<lambda>i. py_str (jget ''name'' (obj_of i)))
                                (filter (\<lambda>i. is_obj i \<and> truthy (jget ''name'' (obj_of i))) items))))),
                           (''sections'', JList (map JStr (sort (str_items sections))))], fetched)
                     | _ \<Rightarrow> Inl (Escaped ''TypeError''))
                | _ \<Rightarrow> Inl (SchemaError ''OTX pulse_info missing''))))"

definition abuse_kinds :: "string list" where
  "abuse_kinds = [''ipv4'', ''ipv6'']"

definition abuse_retrieve :: "env \<Rightarrow> provider \<Rightarrow> provider_request
    \<Rightarrow> provider_exn + (json dict \<times> fetch_result)" where
  "abuse_retrieve e p request =
     (let kind = pq_query_kind request; key = pq_query_key request in
      if kind \<notin> set abuse_kinds
      then Inl (QueryKindError (''AbuseIPDB does not serve query kind '' @ repr_str kind
             @ ''; approved kinds are ipv4 and ipv6 only''))
      else rbind (fetch_json e (pv_url p @ ''/check'')
               [(''Key'', or_empty (pv_api_key p)), (''Accept'', ''application/json'')]
               [(''ipAddress'', key), (''maxAgeInDays'', ''90'')])
        (\<lambda>(payload, fetched). case jget ''data'' payload of
           JObj data \<Rightarrow> Inr ([(''indicator'', JStr key),
             (''abuse_confidence_score'', jget ''abuseConfidenceScore'' data),
             (''country_code'', jget ''countryCode'' data),
             (''usage_type'', jget ''usageType'' data),
             (''total_reports'', jget ''totalReports'' data),
             (''last_reported_at'', jget ''lastReportedAt'' data)], fetched)
         | _ \<Rightarrow> Inl (SchemaError ''AbuseIPDB data object missing'')))"

fun retrieve :: "env \<Rightarrow> provider_class \<Rightarrow> provider \<Rightarrow> provider_request
    \<Rightarrow> provider_exn + (json dict \<times> fetch_result)" where
  "retrieve e CISAKEV = kev_retrieve e"
| "retrieve e EPSS = epss_retrieve e"
| "retrieve e NVD = nvd_retrieve e"
| "retrieve e VirusTotal = vt_retrieve e"
| "retrieve e OTX = otx_retrieve e"
| "retrieve e AbuseIPDB = abuse_retrieve e"

section \<open>BaseProvider\<close>

fun classification :: "string \<Rightarrow> provider_error_classification" where
  "classification v = (if v = ''timeout'' then PE_TIMEOUT
     else if v = ''rate_limited'' then PE_RATE_LIMIT
     else if v = ''transient_http_error'' then PE_RETRYABLE_HTTP
     else if v = ''http_error'' then PE_HTTP_ERROR
     else if v = ''authentication'' then PE_AUTHENTICATION
     else PE_UNAVAILABLE)"

definition safe_headers :: "fetch_result \<Rightarrow> raw_metadata result" where
  "safe_headers f =
     (let retry_seconds = (case fr_header f ''retry-after'' of None \<Rightarrow> None
            | Some h \<Rightarrow> if h = [] then None else map_option float_nonneg (float_of_str h));
          remaining = (case fr_header f ''x-ratelimit-remaining'' of
              Some h \<Rightarrow> if h = [] then fr_header f ''x-rate-limit-remaining'' else Some h
            | None \<Rightarrow> fr_header f ''x-rate-limit-remaining'')
      in ProviderRawMetadata \<lparr>rm_http_status = Some (fr_status_code f),
           rm_content_type = fr_content_type f,
           rm_response_bytes = Some (int (length (fr_body f))),
           rm_etag = fr_header f ''etag'', rm_last_modified = fr_header f ''last-modified'',
           rm_retry_after_seconds = retry_seconds,
           rm_quota_remaining = Option.bind remaining int_of_str\<rparr>)"

definition response_of :: "env \<Rightarrow> provider \<Rightarrow> provider_request \<Rightarrow> enrichment_status
    \<Rightarrow> json dict \<Rightarrow> raw_metadata \<Rightarrow> string option \<Rightarrow> bool
    \<Rightarrow> provider_error_classification option \<Rightarrow> string option \<Rightarrow> provider_response" where
  "response_of e p request status normalized metadata payload retryable error detail =
     \<lparr>pr_provider = pv_name p, pr_request = request, pr_retrieved_at = pq_requested_at request,
      pr_expires_at = Some (pq_requested_at request + pc_ttl_seconds (pv_config p) * 1000000),
      pr_status = status, pr_retryable = retryable, pr_normalized_result = normalized,
      pr_raw_metadata = metadata, pr_payload_hash = map_option (ev_sha256 e) payload,
      pr_error_classification = error, pr_error_detail = map_option strip detail,
      pr_cache_hit = False\<rparr>"

text \<open>\<open>now + timedelta(seconds=s or 30)\<close>: an infinite delay is \<open>OverflowError\<close>.\<close>

fun cooldown_end :: "instant \<Rightarrow> pyfloat option \<Rightarrow> instant option" where
  "cooldown_end now None = Some (now + 30000000)"
| "cooldown_end now (Some (Fin q)) = Some (now + (if q = 0 then 30000000 else seconds q))"
| "cooldown_end now (Some _) = None"

definition provider_failure :: "env \<Rightarrow> provider \<Rightarrow> provider_request \<Rightarrow> provider_error_classification
    \<Rightarrow> string \<Rightarrow> bool \<Rightarrow> raw_metadata \<Rightarrow> pyfloat option
    \<Rightarrow> provider \<times> (string + provider_response)" where
  "provider_failure e p request error detail retryable metadata rate_limit_seconds =
     (let p = p\<lparr>pv_last_error := Some error, pv_failures := pv_failures p + 1\<rparr>;
          reply = (\<lambda>p. Inr (response_of e p request ES_UNAVAILABLE [] metadata None retryable
                         (Some error) (Some (take 255 detail))))
      in if error = PE_RATE_LIMIT
         then (case cooldown_end (pq_requested_at request) rate_limit_seconds of
             None \<Rightarrow> (p, Inl ''OverflowError'')
           | Some until \<Rightarrow> (let p = p\<lparr>pv_rate_limited_until := Some until\<rparr> in (p, reply p)))
         else (p, reply p))"

definition retryable_classes :: "provider_error_classification list" where
  "retryable_classes = [PE_TIMEOUT, PE_RATE_LIMIT, PE_RETRYABLE_HTTP, PE_UNAVAILABLE]"

definition in_cooldown :: "provider \<Rightarrow> instant \<Rightarrow> bool" where
  "in_cooldown p now = (case pv_rate_limited_until p of None \<Rightarrow> False | Some t \<Rightarrow> now < t)"

text \<open>The exceptions of \<open>_retrieve\<close> and their handlers.\<close>

definition handle_failure :: "env \<Rightarrow> provider \<Rightarrow> provider_request \<Rightarrow> provider_exn
    \<Rightarrow> provider \<times> (string + provider_response)" where
  "handle_failure e p request x =
     (case x of
        QueryKindError d \<Rightarrow> provider_failure e p request PE_INVALID_REQUEST d False empty_metadata None
      | SchemaError d \<Rightarrow> provider_failure e p request PE_SCHEMA_DRIFT d False empty_metadata None
      | JSONError \<Rightarrow> provider_failure e p request PE_MALFORMED_PAYLOAD
          ''provider returned invalid JSON'' False empty_metadata None
      | FetchFailed f \<Rightarrow>
          (let c = classification (fe_classification f) in
           case ProviderRawMetadata (empty_metadata\<lparr>rm_http_status := fe_status_code f,
                    rm_retry_after_seconds := fe_retry_after_seconds f\<rparr>) of
             Inl _ \<Rightarrow> (p, Inl ''ValidationError'')
           | Inr metadata \<Rightarrow> provider_failure e p request c (fe_detail f)
               (c \<in> set retryable_classes) metadata (fe_retry_after_seconds f))
      | HTTPorOSError name \<Rightarrow> provider_failure e p request PE_UNAVAILABLE name True empty_metadata None
      | Escaped name \<Rightarrow> (p, Inl name))"

text \<open>The wait before a dispatch, from the monotonic clock; the second component is the
  time slept.\<close>

definition wait_rate_limit :: "provider \<Rightarrow> rat \<Rightarrow> provider \<times> rat" where
  "wait_rate_limit p now =
     (let wait = max 0 (pc_min_interval_seconds (pv_config p) - (now - pv_last_request p))
      in (p\<lparr>pv_last_request := now + wait\<rparr>, wait))"

definition provider_enrich :: "env \<Rightarrow> rat \<Rightarrow> provider \<Rightarrow> provider_request
    \<Rightarrow> provider \<times> (string + provider_response)" where
  "provider_enrich e clock p request =
     (let now = pq_requested_at request in
      if \<not> pv_enabled p
      then (p, Inr (response_of e p request ES_DISABLED [] empty_metadata None False
              (Some PE_DISABLED) (Some ''provider disabled by configuration'')))
      else if in_cooldown p now
      then (p, Inr (response_of e p request ES_UNAVAILABLE [] empty_metadata None True
              (Some PE_RATE_LIMIT) (Some ''provider in rate-limit cooldown; request not dispatched'')))
      else (let p = fst (wait_rate_limit p clock)\<lparr>pv_last_attempt_at := Some now\<rparr> in
        case retrieve e (pv_class p) p request of
          Inl x \<Rightarrow> handle_failure e p request x
        | Inr (payload, fetched) \<Rightarrow>
            (let p = p\<lparr>pv_last_success_at := Some now, pv_last_error := None, pv_failures := 0\<rparr> in
             case safe_headers fetched of
               Inl _ \<Rightarrow> (p, Inl ''ValidationError'')
             | Inr metadata \<Rightarrow>
                 (let p = p\<lparr>pv_quota_remaining := rm_quota_remaining metadata\<rparr> in
                  (p, Inr (response_of e p request ES_SUCCESS payload metadata
                         (Some (fr_body fetched)) False None None))))))"

definition health :: "provider \<Rightarrow> provider_health" where
  "health p = \<lparr>ph_provider = pv_name p, ph_enabled = pv_enabled p,
     ph_state = (if \<not> pv_enabled p then ES_DISABLED
                 else if pv_failures p \<noteq> 0 then ES_DEGRADED else ES_SUCCESS),
     ph_last_attempt_at = pv_last_attempt_at p, ph_last_success_at = pv_last_success_at p,
     ph_consecutive_failures = pv_failures p, ph_rate_limited_until = pv_rate_limited_until p,
     ph_quota_remaining = pv_quota_remaining p, ph_last_error_classification = pv_last_error p\<rparr>"

section \<open>Building the providers\<close>

record provider_settings =
  ps_provider_timeout_seconds :: rat
  ps_provider_max_retries :: int
  ps_provider_max_response_bytes :: int
  ps_provider_concurrency :: int
  ps_cache_ttl_seconds :: int
  ps_nvd_min_interval_seconds :: rat
  ps_enrichment_enabled :: bool
  ps_urls :: "provider_class \<Rightarrow> string"
  ps_keys :: "provider_class \<Rightarrow> string option"
  ps_virustotal_enabled :: bool
  ps_otx_enabled :: bool
  ps_abuseipdb_enabled :: bool

text \<open>\<open>_secret\<close>: an absent or empty key is \<open>None\<close>.\<close>

definition secret :: "provider_settings \<Rightarrow> provider_class \<Rightarrow> string option" where
  "secret s c = (case ps_keys s c of None \<Rightarrow> None | Some k \<Rightarrow> if k = [] then None else Some k)"

definition runtime_of :: "provider_settings \<Rightarrow> runtime_config" where
  "runtime_of s = \<lparr>pc_timeout_seconds = ps_provider_timeout_seconds s,
     pc_max_retries = ps_provider_max_retries s,
     pc_max_response_bytes = ps_provider_max_response_bytes s,
     pc_concurrency = ps_provider_concurrency s, pc_min_interval_seconds = 0,
     pc_ttl_seconds = ps_cache_ttl_seconds s\<rparr>"

definition new_provider :: "provider_class \<Rightarrow> string \<Rightarrow> bool \<Rightarrow> string list \<Rightarrow> runtime_config
    \<Rightarrow> string option \<Rightarrow> string \<Rightarrow> provider" where
  "new_provider c name on kinds config key url =
     \<lparr>pv_class = c, pv_name = name, pv_enabled = on, pv_query_kinds = kinds, pv_config = config,
      pv_api_key = key, pv_url = url, pv_last_request = 0, pv_last_attempt_at = None,
      pv_last_success_at = None, pv_last_error = None, pv_failures = 0,
      pv_rate_limited_until = None, pv_quota_remaining = None\<rparr>"

definition rstrip_slashes :: "string \<Rightarrow> string" where
  "rstrip_slashes s = rstrip_by (\<lambda>c. c = CHR ''/'') s"

definition build_providers :: "provider_settings \<Rightarrow> provider list" where
  "build_providers s =
     (let common = runtime_of s; core = ps_enrichment_enabled s;
          optional = (\<lambda>c name on kinds. new_provider c name (on \<and> secret s c \<noteq> None) kinds common
            (secret s c) (rstrip_slashes (ps_urls s c)))
      in [new_provider CISAKEV ''cisa_kev'' core [''cve''] common None (ps_urls s CISAKEV),
          new_provider EPSS ''epss'' core [''cve''] common None (ps_urls s EPSS),
          new_provider NVD ''nvd'' core [''cve'']
            (common\<lparr>pc_min_interval_seconds := ps_nvd_min_interval_seconds s\<rparr>)
            (secret s NVD) (ps_urls s NVD),
          optional VirusTotal ''virustotal'' (ps_virustotal_enabled s) indicator_kinds,
          optional OTX ''otx'' (ps_otx_enabled s) indicator_kinds,
          optional AbuseIPDB ''abuseipdb'' (ps_abuseipdb_enabled s) abuse_kinds])"

end
