(* ===== verification/Provider_Facts.thy ===== *)
theory Provider_Facts
  imports Providers
begin

text \<open>
  The provider state machine: identity and configuration never change, the failure count
  and cooldown move as documented, and every reply echoes the request.  The step relation
  \<open>enriched\<close> is one call of \<open>enrich\<close>; invariants are by induction on its reachable states.
\<close>

section \<open>One call\<close>

lemma failure_shape:
  assumes "provider_failure e p r c d b m s = (q, y)"
  shows "pv_name q = pv_name p \<and> pv_enabled q = pv_enabled p \<and> pv_query_kinds q = pv_query_kinds p \<and>
     pv_class q = pv_class p \<and> pv_config q = pv_config p \<and>
     pv_failures q = pv_failures p + 1 \<and> pv_last_error q = Some c \<and>
     pv_last_attempt_at q = pv_last_attempt_at p \<and> pv_last_request q = pv_last_request p \<and>
     pv_last_success_at q = pv_last_success_at p \<and>
     (c \<noteq> PE_RATE_LIMIT \<longrightarrow> pv_rate_limited_until q = pv_rate_limited_until p) \<and>
     (\<forall>x. y = Inr x \<longrightarrow> pr_provider x = pv_name p \<and> pr_request x = r \<and>
        pr_status x = ES_UNAVAILABLE \<and> pr_retryable x = b \<and> pr_normalized_result x = [] \<and>
        pr_error_classification x = Some c \<and> pr_retrieved_at x = pq_requested_at r \<and>
        \<not> pr_cache_hit x)"
  using assms by (auto simp: provider_failure_def response_of_def Let_def
      split: if_splits option.splits)

lemma handle_failure_shape:
  assumes "handle_failure e p r x = (q, y)"
  shows "pv_name q = pv_name p \<and> pv_enabled q = pv_enabled p \<and> pv_query_kinds q = pv_query_kinds p \<and>
     pv_class q = pv_class p \<and> pv_config q = pv_config p \<and>
     (pv_failures q = pv_failures p + 1 \<or> q = p) \<and>
     pv_last_attempt_at q = pv_last_attempt_at p \<and> pv_last_request q = pv_last_request p \<and>
     (\<forall>z. y = Inr z \<longrightarrow> pr_provider z = pv_name p \<and> pr_request z = r \<and>
        pr_status z = ES_UNAVAILABLE \<and> pr_normalized_result z = [] \<and>
        pr_error_classification z \<noteq> None \<and> pr_retrieved_at z = pq_requested_at r \<and>
        \<not> pr_cache_hit z \<and>
        pv_failures q = pv_failures p + 1 \<and> pv_last_error q = pr_error_classification z)"
  using assms
  by (auto simp: handle_failure_def Let_def split: provider_exn.splits sum.splits
      dest!: failure_shape)

lemma wait_shape [simp]:
  "pv_name (fst (wait_rate_limit p t)) = pv_name p"
  "pv_enabled (fst (wait_rate_limit p t)) = pv_enabled p"
  "pv_query_kinds (fst (wait_rate_limit p t)) = pv_query_kinds p"
  "pv_class (fst (wait_rate_limit p t)) = pv_class p"
  "pv_config (fst (wait_rate_limit p t)) = pv_config p"
  "pv_failures (fst (wait_rate_limit p t)) = pv_failures p"
  by (simp_all add: wait_rate_limit_def Let_def)

definition dispatches :: "provider \<Rightarrow> provider_request \<Rightarrow> bool" where
  "dispatches p r = (pv_enabled p \<and> \<not> in_cooldown p (pq_requested_at r))"

lemma enrich_idle:
  "\<not> dispatches p r \<Longrightarrow> \<exists>x. provider_enrich e t p r = (p, Inr x) \<and>
     pr_provider x = pv_name p \<and> pr_request x = r \<and> pr_normalized_result x = [] \<and>
     pr_retrieved_at x = pq_requested_at r \<and>
     (if pv_enabled p then pr_status x = ES_UNAVAILABLE \<and>
          pr_error_classification x = Some PE_RATE_LIMIT \<and> pr_retryable x
      else pr_status x = ES_DISABLED \<and> pr_error_classification x = Some PE_DISABLED)"
  by (cases "pv_enabled p") (auto simp: provider_enrich_def dispatches_def response_of_def Let_def)

lemma enrich_dispatched:
  assumes "dispatches p r" and "provider_enrich e t p r = (q, y)"
  shows "pv_name q = pv_name p \<and> pv_enabled q = pv_enabled p \<and> pv_query_kinds q = pv_query_kinds p \<and>
     pv_class q = pv_class p \<and> pv_config q = pv_config p \<and>
     pv_last_attempt_at q = Some (pq_requested_at r) \<and>
     pv_failures q \<in> {0, pv_failures p, pv_failures p + 1} \<and>
     (\<forall>x. y = Inr x \<longrightarrow> pr_provider x = pv_name p \<and> pr_request x = r \<and>
        pr_retrieved_at x = pq_requested_at r \<and> \<not> pr_cache_hit x \<and>
        (pr_status x = ES_SUCCESS \<and> pr_error_classification x = None \<and> pv_failures q = 0 \<and>
           pv_last_success_at q = Some (pq_requested_at r) \<or>
         pr_status x = ES_UNAVAILABLE \<and> pr_error_classification x \<noteq> None \<and>
           pr_normalized_result x = [] \<and> pv_failures q = pv_failures p + 1))"
proof -
  let ?p = "fst (wait_rate_limit p t)\<lparr>pv_last_attempt_at := Some (pq_requested_at r)\<rparr>"
  show ?thesis
  proof (cases "retrieve e (pv_class p) ?p r")
    case (Inl x)
    with assms have "handle_failure e ?p r x = (q, y)"
      by (simp add: provider_enrich_def dispatches_def Let_def)
    from handle_failure_shape [OF this] show ?thesis by auto
  next
    case (Inr pf)
    with assms show ?thesis
      by (auto simp: provider_enrich_def dispatches_def Let_def response_of_def
          split: prod.splits sum.splits)
  qed
qed

lemma enrich_keeps:
  assumes "provider_enrich e t p r = (q, y)"
  shows "pv_name q = pv_name p \<and> pv_enabled q = pv_enabled p \<and>
     pv_query_kinds q = pv_query_kinds p \<and> pv_config q = pv_config p \<and> pv_class q = pv_class p"
  using enrich_idle [of p r e t] enrich_dispatched [of p r e t q y] assms
  by (cases "dispatches p r") auto

section \<open>Reachable states\<close>

inductive enriched :: "env \<Rightarrow> provider \<Rightarrow> provider \<Rightarrow> bool" for e where
  start: "enriched e p p"
| call: "enriched e p q \<Longrightarrow> provider_enrich e t q r = (s, y) \<Longrightarrow> enriched e p s"

inductive_cases enriched_cases: "enriched e p q"

lemma enriched_identity:
  "enriched e p q \<Longrightarrow> pv_name q = pv_name p \<and> pv_enabled q = pv_enabled p \<and>
     pv_query_kinds q = pv_query_kinds p \<and> pv_config q = pv_config p"
  by (induction rule: enriched.induct) (auto dest: enrich_keeps)

lemma enriched_failures: "enriched e p q \<Longrightarrow> 0 \<le> pv_failures p \<Longrightarrow> 0 \<le> pv_failures q"
proof (induction rule: enriched.induct)
  case (call p q t r s y)
  then show ?case
    using enrich_idle [of q r e t] enrich_dispatched [of q r e t s y]
    by (cases "dispatches q r") auto
qed

fun enrich_all :: "env \<Rightarrow> rat \<Rightarrow> provider \<Rightarrow> provider_request list
    \<Rightarrow> provider \<times> (string + provider_response) list" where
  "enrich_all e t p [] = (p, [])"
| "enrich_all e t p (r # rs) =
     (case provider_enrich e t p r of (q, y) \<Rightarrow>
        (case enrich_all e t q rs of (s, ys) \<Rightarrow> (s, y # ys)))"

text \<open>C34. A cooldown neither counts nor re-arms itself: any number of requests made before
  it ends leave the provider exactly as it was and are all answered as rate limited without
  being dispatched, and the first request at or after its end is dispatched.\<close>

theorem cooldown_not_rearmed:
  assumes "pv_enabled p" and "pv_rate_limited_until p = Some end"
    and "\<forall>r \<in> set rs. pq_requested_at r < end" and "end \<le> pq_requested_at r'"
  shows "fst (enrich_all e t p rs) = p \<and>
     (\<forall>y \<in> set (snd (enrich_all e t p rs)). \<exists>x. y = Inr x \<and> pr_status x = ES_UNAVAILABLE \<and>
        pr_error_classification x = Some PE_RATE_LIMIT \<and> pr_retryable x) \<and>
     pv_last_attempt_at (fst (provider_enrich e t p r')) = Some (pq_requested_at r')"
proof -
  have "fst (enrich_all e t p rs) = p \<and>
     (\<forall>y \<in> set (snd (enrich_all e t p rs)). \<exists>x. y = Inr x \<and> pr_status x = ES_UNAVAILABLE \<and>
        pr_error_classification x = Some PE_RATE_LIMIT \<and> pr_retryable x)"
    using assms(3)
  proof (induction rs)
    case (Cons r rs)
    then have "\<not> dispatches p r" using assms(1,2) by (simp add: dispatches_def in_cooldown_def)
    from enrich_idle [OF this, of e t] Cons assms(1) show ?case by (auto split: prod.splits)
  qed simp
  moreover have "dispatches p r'" using assms by (simp add: dispatches_def in_cooldown_def)
  then have "pv_last_attempt_at (fst (provider_enrich e t p r')) = Some (pq_requested_at r')"
    using enrich_dispatched [of p r' e t] by (metis prod.collapse)
  ultimately show ?thesis by blast
qed

definition demo_settings :: provider_settings where
  "demo_settings = \<lparr>ps_provider_timeout_seconds = 20, ps_provider_max_retries = 2,
     ps_provider_max_response_bytes = 1000, ps_provider_concurrency = 2,
     ps_cache_ttl_seconds = 60, ps_nvd_min_interval_seconds = 6, ps_enrichment_enabled = True,
     ps_urls = \<lambda>_. ''https://api.test'', ps_keys = \<lambda>_. None, ps_virustotal_enabled = True,
     ps_otx_enabled = False, ps_abuseipdb_enabled = False\<rparr>"

definition demo_request :: "instant \<Rightarrow> provider_request" where
  "demo_request t = \<lparr>pq_entity_type = ET_VULNERABILITY, pq_entity_id = ''v1'',
     pq_query_key = ''CVE-2024-0001'', pq_query_kind = ''cve'', pq_requested_at = t\<rparr>"

text \<open>A transport that answers 429 with \<open>Retry-After: 60\<close>.\<close>

definition limited_env :: env where
  "limited_env = \<lparr>ev_fetch = \<lambda>_ _. Inl (Fetch_Error \<lparr>fe_classification = ''rate_limited'',
       fe_detail = ''HTTP 429 after retries'', fe_retry_count = 2, fe_status_code = Some 429,
       fe_retry_after_seconds = Some (Fin 60)\<rparr>),
     ev_loads = \<lambda>_. JSONDecodeError, ev_sha256 = id\<rparr>"

definition demo_nvd :: provider where
  "demo_nvd = build_providers demo_settings ! 2"

definition limited_nvd :: provider where
  "limited_nvd = fst (provider_enrich limited_env 100 demo_nvd (demo_request 0))"

theorem cooldown_not_rearmed_witness:
  "pv_rate_limited_until limited_nvd = Some 60000000 \<and>
   fst (enrich_all limited_env 100 limited_nvd [demo_request 5, demo_request 59000000]) = limited_nvd \<and>
   pv_last_attempt_at (fst (provider_enrich limited_env 100 limited_nvd (demo_request 60000000)))
     = Some 60000000"
proof -
  have a: "pv_rate_limited_until limited_nvd = Some 60000000" by code_simp
  have b: "pv_enabled limited_nvd" by code_simp
  have c: "\<forall>r \<in> set [demo_request 5, demo_request 59000000]. pq_requested_at r < 60000000"
    by (simp add: demo_request_def)
  have d: "60000000 \<le> pq_requested_at (demo_request 60000000)" by (simp add: demo_request_def)
  from cooldown_not_rearmed [OF b a c d, of limited_env 100] a show ?thesis
    by (simp add: demo_request_def)
qed

section \<open>Spacing\<close>

fun dispatch_times :: "provider \<Rightarrow> rat list \<Rightarrow> rat list" where
  "dispatch_times p [] = []"
| "dispatch_times p (t # ts) =
     (let q = fst (wait_rate_limit p t) in pv_last_request q # dispatch_times q ts)"



section \<open>Which providers are on\<close>

text \<open>Optional keys are required before anything is sent: an indicator provider built
  from settings without its key is disabled, so it answers \<open>DISABLED\<close> and is never
  dispatched, whatever its switch says.\<close>

theorem keyless_provider_disabled:
  assumes "p \<in> set (build_providers s)" and "pv_class p \<in> {VirusTotal, OTX, AbuseIPDB}"
    and "secret s (pv_class p) = None"
  shows "\<exists>x. provider_enrich e t p r = (p, Inr x) \<and> pr_status x = ES_DISABLED"
proof -
  have "\<not> pv_enabled p" using assms
    by (auto simp: build_providers_def new_provider_def Let_def)
  then show ?thesis using enrich_idle [of p r e t] by (auto simp: dispatches_def)
qed

theorem keyless_provider_disabled_witness:
  "\<exists>x. provider_enrich limited_env 0 (build_providers demo_settings ! 3) (demo_request 0)
     = (build_providers demo_settings ! 3, Inr x) \<and> pr_status x = ES_DISABLED"
proof (rule keyless_provider_disabled)
  show "build_providers demo_settings ! 3 \<in> set (build_providers demo_settings)"
    by (rule nth_mem) (simp add: build_providers_def Let_def)
  show "pv_class (build_providers demo_settings ! 3) \<in> {VirusTotal, OTX, AbuseIPDB}"
    by (simp add: build_providers_def Let_def new_provider_def)
  show "secret demo_settings (pv_class (build_providers demo_settings ! 3)) = None"
    by (simp add: secret_def demo_settings_def)
qed

text \<open>Payloads that escape every handler of \<open>enrich\<close>: a body that is not UTF-8, an
  out-of-range status, an infinite \<open>Retry-After\<close>.\<close>

lemma non_utf8_escapes:
  "snd (provider_enrich (limited_env\<lparr>ev_fetch := \<lambda>_ _. Inr (not_found_fetch ''u'' ''b''),
      ev_loads := \<lambda>_. UnicodeDecodeError\<rparr>) 0 demo_nvd (demo_request 0))
   = Inl ''UnicodeDecodeError''"
  by code_simp

lemma status_999_escapes:
  "snd (provider_enrich (limited_env\<lparr>ev_fetch := \<lambda>_ _. Inl (Fetch_Error
      \<lparr>fe_classification = ''http_error'', fe_detail = ''HTTP 999'', fe_retry_count = 0,
       fe_status_code = Some 999, fe_retry_after_seconds = None\<rparr>)\<rparr>) 0 demo_nvd (demo_request 0))
   = Inl ''ValidationError''"
  by code_simp

lemma negative_quota_escapes:
  "snd (provider_enrich (limited_env\<lparr>ev_fetch := \<lambda>_ _. Inr (not_found_fetch ''u'' ''b''
        \<lparr>fr_headers := [(''X-RateLimit-Remaining'', ''-1'')]\<rparr>),
      ev_loads := \<lambda>_. Loaded (JObj [(''vulnerabilities'', JList [])])\<rparr>) 0 demo_nvd (demo_request 0))
   = Inl ''ValidationError''"
  by code_simp

end
