(* ===== verification/Enrichment.thy ===== *)
theory Enrichment
  imports Provider_Facts Scoring
begin

text \<open>
  \<^verbatim>\<open>enrichment/cache.py\<close> and \<^verbatim>\<open>enrichment/service.py\<close>: the bounded cache and the
  orchestration over providers, with stale-if-error fallback, status aggregation, merge
  with conflict preservation, and scoring.  The service is written over any provider
  implementation; the interface \<open>enrichment_provider\<close> states what it relies on, and
  \<open>provider_enrich\<close> provides it.
\<close>

section \<open>Cache\<close>

record cache =
  ec_entries :: "provider_response dict"
  ec_stale_if_error_seconds :: int

record cache_lookup =
  cl_response :: "provider_response option"
  cl_fresh :: bool
  cl_stale :: bool

definition new_cache :: "int \<Rightarrow> cache" where
  "new_cache stale = \<lparr>ec_entries = [], ec_stale_if_error_seconds = max 0 stale\<rparr>"

definition cache_key :: "string \<Rightarrow> string \<Rightarrow> string" where
  "cache_key provider query_key = lower provider @ '':'' @ lower (strip query_key)"

definition cache_get :: "cache \<Rightarrow> string \<Rightarrow> string \<Rightarrow> instant \<Rightarrow> cache_lookup" where
  "cache_get c provider query_key current =
     (let miss = \<lparr>cl_response = None, cl_fresh = False, cl_stale = False\<rparr> in
      case dict_get (cache_key provider query_key) (ec_entries c) of
        None \<Rightarrow> miss
      | Some response \<Rightarrow>
          (let hit = Some (response\<lparr>pr_cache_hit := True\<rparr>) in
           case pr_expires_at response of
             None \<Rightarrow> \<lparr>cl_response = hit, cl_fresh = True, cl_stale = False\<rparr>
           | Some expires \<Rightarrow>
               if current < expires then \<lparr>cl_response = hit, cl_fresh = True, cl_stale = False\<rparr>
               else if current \<le> expires + ec_stale_if_error_seconds c * 1000000
               then \<lparr>cl_response = hit, cl_fresh = False, cl_stale = True\<rparr>
               else miss))"

definition cache_put :: "cache \<Rightarrow> provider_response \<Rightarrow> cache" where
  "cache_put c response =
     (if pr_status response \<notin> {ES_SUCCESS, ES_PARTIAL} then c
      else c\<lparr>ec_entries := dict_set (cache_key (pr_provider response)
              (pq_query_key (pr_request response))) response (ec_entries c)\<rparr>)"

definition cache_clear :: "cache \<Rightarrow> cache" where
  "cache_clear c = c\<lparr>ec_entries := []\<rparr>"

definition cache_len :: "cache \<Rightarrow> nat" where
  "cache_len c = length (ec_entries c)"

text \<open>The invariant of the cache: keys are unique, an entry is filed under its own provider
  and query, and only successful or partial responses are kept.\<close>

definition cache_ok :: "cache \<Rightarrow> bool" where
  "cache_ok c = (distinct (map fst (ec_entries c)) \<and> 0 \<le> ec_stale_if_error_seconds c \<and>
     (\<forall>(k, r) \<in> set (ec_entries c). pr_status r \<in> {ES_SUCCESS, ES_PARTIAL} \<and>
        k = cache_key (pr_provider r) (pq_query_key (pr_request r))))"

lemma new_cache_ok: "cache_ok (new_cache s)"
  by (simp add: cache_ok_def new_cache_def)

lemma set_dict_set: "set (dict_set k v d) \<subseteq> insert (k, v) (set d)"
  by (induction d) (auto simp: dict_set_def)

lemma cache_put_ok: "cache_ok c \<Longrightarrow> cache_ok (cache_put c r)"
  using set_dict_set [of "cache_key (pr_provider r) (pq_query_key (pr_request r))" r "ec_entries c"]
  by (auto simp: cache_ok_def cache_put_def distinct_dict_set)

lemma cache_get_sound:
  assumes "cache_ok c" "cl_response (cache_get c p q now) = Some x"
  shows "\<exists>r. x = r\<lparr>pr_cache_hit := True\<rparr> \<and> pr_status r \<in> {ES_SUCCESS, ES_PARTIAL} \<and>
     cache_key (pr_provider r) (pq_query_key (pr_request r)) = cache_key p q \<and>
     (cl_fresh (cache_get c p q now) \<longrightarrow> (\<forall>t. pr_expires_at r = Some t \<longrightarrow> now < t)) \<and>
     (cl_stale (cache_get c p q now) \<longrightarrow> (\<exists>t. pr_expires_at r = Some t \<and> t \<le> now \<and>
        now \<le> t + ec_stale_if_error_seconds c * 1000000)) \<and>
     (cl_fresh (cache_get c p q now) \<noteq> cl_stale (cache_get c p q now))"
proof -
  from assms(2) obtain r where r: "map_of (ec_entries c) (cache_key p q) = Some r"
    by (auto simp: cache_get_def dict_get_def Let_def split: option.splits)
  have "(cache_key p q, r) \<in> set (ec_entries c)" using r by (rule map_of_SomeD)
  then have "pr_status r \<in> {ES_SUCCESS, ES_PARTIAL}"
    "cache_key (pr_provider r) (pq_query_key (pr_request r)) = cache_key p q"
    using assms(1) by (auto simp: cache_ok_def)
  then show ?thesis using assms(2) r
    by (intro exI [of _ r]) (auto simp: cache_get_def dict_get_def Let_def split: option.splits if_splits)
qed

lemma cache_get_flags:
  "cl_fresh (cache_get c p q t) \<or> cl_stale (cache_get c p q t) \<longleftrightarrow> cl_response (cache_get c p q t) \<noteq> None"
  by (auto simp: cache_get_def Let_def split: option.splits)

section \<open>The service\<close>

record run_result =
  er_entity_type :: entity_type
  er_entity_id :: uuid
  er_status :: enrichment_status
  er_provider_results :: "provider_response list"
  er_normalized_result :: "json dict"
  er_conflicts :: "(json list) dict"
  er_priority :: "priority_score option"
  er_skipped_providers :: "string list"

text \<open>The reply for one applicable provider: fresh from the cache, or the provider's, or the
  stale entry when the provider failed.\<close>

definition stale_reply :: "provider_response \<Rightarrow> provider_response \<Rightarrow> provider_response" where
  "stale_reply cached response = cached\<lparr>pr_status := ES_STALE, pr_cache_hit := True,
     pr_error_classification := (case pr_error_classification response of
        None \<Rightarrow> Some PE_UNAVAILABLE | Some c \<Rightarrow> Some c),
     pr_error_detail := (case pr_error_detail response of
        Some (c # cs) \<Rightarrow> Some (c # cs)
      | _ \<Rightarrow> Some ''provider unavailable; stale result served''),
     pr_retryable := pr_retryable response\<rparr>"

definition serve :: "('p \<Rightarrow> provider_request \<Rightarrow> 'p \<times> (string + provider_response))
    \<Rightarrow> ('p \<Rightarrow> string) \<Rightarrow> provider_request \<Rightarrow> 'p \<Rightarrow> cache
    \<Rightarrow> 'p \<times> cache \<times> (string + provider_response)" where
  "serve run name_of request p c =
     (let lookup = cache_get c (name_of p) (pq_query_key request) (pq_requested_at request) in
      case (cl_fresh lookup, cl_response lookup) of
        (True, Some r) \<Rightarrow> (p, c, Inr r)
      | _ \<Rightarrow> (case run p request of
            (q, Inl e) \<Rightarrow> (q, c, Inl e)
          | (q, Inr response) \<Rightarrow>
              if pr_status response \<in> {ES_SUCCESS, ES_PARTIAL}
              then (q, cache_put c response, Inr response)
              else (case (cl_stale lookup, cl_response lookup) of
                  (True, Some r) \<Rightarrow> (q, c, Inr (stale_reply r response))
                | _ \<Rightarrow> (q, c, Inr response))))"

text \<open>The providers in order; one that does not serve the query kind is left alone.  An
  exception ends the run.\<close>

fun serve_all :: "('p \<Rightarrow> provider_request \<Rightarrow> 'p \<times> (string + provider_response))
    \<Rightarrow> ('p \<Rightarrow> string) \<Rightarrow> ('p \<Rightarrow> string list) \<Rightarrow> provider_request \<Rightarrow> 'p list \<Rightarrow> cache
    \<Rightarrow> 'p list \<times> cache \<times> (string + provider_response list)" where
  "serve_all run name_of kinds_of request [] c = ([], c, Inr [])"
| "serve_all run name_of kinds_of request (p # ps) c =
     (if pq_query_kind request \<notin> set (kinds_of p)
      then (case serve_all run name_of kinds_of request ps c of (qs, d, r) \<Rightarrow> (p # qs, d, r))
      else (case serve run name_of request p c of
          (q, d, Inl e) \<Rightarrow> (q # ps, d, Inl e)
        | (q, d, Inr x) \<Rightarrow>
            (case serve_all run name_of kinds_of request ps d of
               (qs, d', r) \<Rightarrow> (q # qs, d', rbind r (\<lambda>xs. Inr (x # xs))))))"

definition aggregate_status :: "provider_response list \<Rightarrow> enrichment_status" where
  "aggregate_status responses =
     (if responses = [] \<or> list_all (\<lambda>r. pr_status r = ES_DISABLED) responses then ES_DISABLED
      else if list_ex (\<lambda>r. pr_status r = ES_SUCCESS) responses
      then (if list_all (\<lambda>r. pr_status r \<in> {ES_SUCCESS, ES_DISABLED}) responses
            then ES_SUCCESS else ES_PARTIAL)
      else if list_ex (\<lambda>r. pr_status r = ES_STALE) responses then ES_STALE
      else ES_UNAVAILABLE)"

text \<open>The values a response contributes: none of a disabled or unavailable provider, and no
  \<open>None\<close>.\<close>

definition contributions :: "provider_response list \<Rightarrow> (string \<times> json) list" where
  "contributions responses = filter (\<lambda>(k, v). v \<noteq> JNull)
     (concat (map pr_normalized_result
        (filter (\<lambda>r. pr_status r \<notin> {ES_DISABLED, ES_UNAVAILABLE}) responses)))"

definition merge_results :: "provider_response list \<Rightarrow> json dict \<times> (json list) dict" where
  "merge_results responses =
     (let (merged, observed) = foldl (\<lambda>(merged, observed) (k, v).
            (dict_setdefault k v merged,
             dict_set k (case_option [] id (dict_get k observed) @ [v]) observed))
          ([], []) (contributions responses)
      in (sort_key fst merged,
          filter (\<lambda>(k, vs). 1 < length (dedup (map py_str vs))) (sort_key fst observed)))"

definition score_number :: "json dict \<Rightarrow> string \<Rightarrow> string + rat option" where
  "score_number normalized field = (case jget field normalized of
     JStr [] \<Rightarrow> Inr None
   | JNull \<Rightarrow> Inr None | JList _ \<Rightarrow> Inr None | JObj _ \<Rightarrow> Inr None
   | v \<Rightarrow> (case float_of v of Some (Fin q) \<Rightarrow> Inr (Some q) | _ \<Rightarrow> Inl ''ValueError''))"

definition score_timestamp :: "(string \<Rightarrow> instant option) \<Rightarrow> json \<Rightarrow> instant option" where
  "score_timestamp fromisoformat v = (case v of
     JStr s \<Rightarrow> fromisoformat (replace ''Z'' ''+00:00'' s) | _ \<Rightarrow> None)"

definition score_inputs_of :: "(string \<Rightarrow> instant option) \<Rightarrow> json dict \<Rightarrow> string + score_inputs" where
  "score_inputs_of fromisoformat normalized =
     rbind (score_number normalized ''cvss_score'') (\<lambda>cvss.
     rbind (score_number normalized ''epss_score'') (\<lambda>epss.
       Inr \<lparr>si_known_exploited = (case jget ''known_exploited'' normalized of
              JBool b \<Rightarrow> Some b | _ \<Rightarrow> None),
            si_cvss_score = cvss, si_epss_score = epss,
            si_published_at = score_timestamp fromisoformat (jget ''published_at'' normalized),
            si_modified_at = score_timestamp fromisoformat (jget ''modified_at'' normalized),
            si_affected_product_significance = 0, si_source_reliability = 0,
            si_independent_corroboration = 0, si_evidence_ids = []\<rparr>))"

definition service_enrich :: "('p \<Rightarrow> provider_request \<Rightarrow> 'p \<times> (string + provider_response))
    \<Rightarrow> ('p \<Rightarrow> string) \<Rightarrow> ('p \<Rightarrow> string list) \<Rightarrow> (string \<Rightarrow> instant option) \<Rightarrow> string
    \<Rightarrow> provider_request \<Rightarrow> score_inputs option \<Rightarrow> 'p list \<Rightarrow> cache
    \<Rightarrow> 'p list \<times> cache \<times> (string + run_result)" where
  "service_enrich run name_of kinds_of fromisoformat score_version request given ps c =
     (let skipped = map name_of (filter (\<lambda>p. pq_query_kind request \<notin> set (kinds_of p)) ps) in
      case serve_all run name_of kinds_of request ps c of
        (qs, d, Inl e) \<Rightarrow> (qs, d, Inl e)
      | (qs, d, Inr responses) \<Rightarrow>
          (let (normalized, conflicts) = merge_results responses;
               result = (\<lambda>priority. \<lparr>er_entity_type = pq_entity_type request,
                 er_entity_id = pq_entity_id request, er_status = aggregate_status responses,
                 er_provider_results = responses, er_normalized_result = normalized,
                 er_conflicts = conflicts, er_priority = priority,
                 er_skipped_providers = skipped\<rparr>)
           in (qs, d,
               if pq_entity_type request \<noteq> ET_VULNERABILITY then Inr (result None)
               else rbind (case given of Some i \<Rightarrow> Inr i
                           | None \<Rightarrow> score_inputs_of fromisoformat normalized) (\<lambda>values.
                    rbind (relabel ''ValidationError'' (calculate_priority_score values
                        (Some (pq_requested_at request)) (pq_requested_at request) score_version))
                      (\<lambda>score. Inr (result (Some score)))))))"

definition cve_request :: "string \<Rightarrow> uuid \<Rightarrow> instant \<Rightarrow> provider_request" where
  "cve_request cve_id entity_id now = \<lparr>pq_entity_type = ET_VULNERABILITY,
     pq_entity_id = entity_id, pq_query_key = cve_id, pq_query_kind = ''cve'',
     pq_requested_at = now\<rparr>"

definition indicator_request :: "(string \<Rightarrow> uuid) \<Rightarrow> string \<Rightarrow> string \<Rightarrow> uuid option \<Rightarrow> instant
    \<Rightarrow> provider_request" where
  "indicator_request uuid5 indicator_type indicator_value entity_id now =
     (let kind = strip (lower indicator_type) in
      \<lparr>pq_entity_type = ET_INDICATOR,
       pq_entity_id = (case entity_id of Some u \<Rightarrow> u
          | None \<Rightarrow> uuid5 (''indicator:'' @ kind @ '':'' @ indicator_value)),
       pq_query_key = indicator_value, pq_query_kind = kind, pq_requested_at = now\<rparr>)"

section \<open>What the service relies on\<close>

locale enrichment_provider =
  fixes run :: "'p \<Rightarrow> provider_request \<Rightarrow> 'p \<times> (string + provider_response)"
    and name_of :: "'p \<Rightarrow> string"
    and kinds_of :: "'p \<Rightarrow> string list"
  assumes run_identity: "run p r = (q, y) \<Longrightarrow> name_of q = name_of p \<and> kinds_of q = kinds_of p"
    and run_reply: "run p r = (q, Inr x) \<Longrightarrow> pr_provider x = name_of p \<and> pr_request x = r \<and>
      pr_status x \<in> {ES_SUCCESS, ES_UNAVAILABLE, ES_DISABLED} \<and> \<not> pr_cache_hit x \<and>
      (pr_status x \<noteq> ES_SUCCESS \<longrightarrow> pr_normalized_result x = [])"
begin

text \<open>What the reply of one provider may be.\<close>

definition reply_ok :: "provider_request \<Rightarrow> 'p \<Rightarrow> provider_response \<Rightarrow> bool" where
  "reply_ok r p x = (
     \<not> pr_cache_hit x \<and> pr_provider x = name_of p \<and> pr_request x = r \<and>
       pr_status x \<in> {ES_SUCCESS, ES_UNAVAILABLE, ES_DISABLED} \<or>
     pr_cache_hit x \<and> pr_status x \<in> {ES_SUCCESS, ES_PARTIAL, ES_STALE} \<and>
       cache_key (pr_provider x) (pq_query_key (pr_request x))
         = cache_key (name_of p) (pq_query_key r))"

lemma serve_keeps:
  assumes "cache_ok c" "serve run name_of r p c = (q, d, y)"
  shows "cache_ok d \<and> name_of q = name_of p \<and> kinds_of q = kinds_of p \<and>
     (\<forall>x. y = Inr x \<longrightarrow> reply_ok r p x)"
proof -
  let ?l = "cache_get c (name_of p) (pq_query_key r) (pq_requested_at r)"
  show ?thesis
  proof (cases "cl_fresh ?l \<and> cl_response ?l \<noteq> None")
    case True
    then obtain x where "cl_response ?l = Some x" by auto
    with True assms cache_get_sound [OF assms(1) this] show ?thesis
      by (auto simp: serve_def Let_def reply_ok_def)
  next
    case False
    obtain q' y' where run: "run p r = (q', y')" by (cases "run p r")
    have s: "serve run name_of r p c = (case y' of Inl e \<Rightarrow> (q', c, Inl e)
        | Inr x \<Rightarrow> if pr_status x \<in> {ES_SUCCESS, ES_PARTIAL} then (q', cache_put c x, Inr x)
            else (case (cl_stale ?l, cl_response ?l) of (True, Some z) \<Rightarrow> (q', c, Inr (stale_reply z x))
              | _ \<Rightarrow> (q', c, Inr x)))"
      using False run by (auto simp: serve_def Let_def split: sum.splits option.splits bool.splits)
    show ?thesis
    proof (cases y')
      case (Inl e)
      with s assms run run_identity [OF run] show ?thesis by auto
    next
      case (Inr x)
      note ry = run_reply [OF run [unfolded Inr]]
      have st: "reply_ok r p (stale_reply z x)" if "cl_response ?l = Some z" for z
        using cache_get_sound [OF assms(1) that] by (auto simp: stale_reply_def reply_ok_def)
      from s Inr assms run_identity [OF run] ry st show ?thesis
        by (auto simp: reply_ok_def cache_put_ok split: if_splits option.splits bool.splits)
    qed
  qed
qed

lemma serve_all_keeps:
  assumes "cache_ok c" "serve_all run name_of kinds_of r ps c = (qs, d, y)"
  shows "cache_ok d \<and> map name_of qs = map name_of ps \<and> map kinds_of qs = map kinds_of ps \<and>
     (\<forall>xs. y = Inr xs \<longrightarrow>
        list_all2 (reply_ok r) (filter (\<lambda>p. pq_query_kind r \<in> set (kinds_of p)) ps) xs)"
  using assms
proof (induction ps arbitrary: c qs d y)
  case Nil
  then show ?case by auto
next
  case (Cons p ps)
  show ?case
  proof (cases "pq_query_kind r \<in> set (kinds_of p)")
    case False
    with Cons show ?thesis by (auto split: prod.splits)
  next
    case True
    obtain q d1 z where s: "serve run name_of r p c = (q, d1, z)" by (cases "serve run name_of r p c")
    note k = serve_keeps [OF Cons.prems(1) s]
    show ?thesis
    proof (cases z)
      case (Inl e)
      with True s Cons.prems k show ?thesis by auto
    next
      case (Inr x)
      obtain qs' d' y' where a: "serve_all run name_of kinds_of r ps d1 = (qs', d', y')"
        by (cases "serve_all run name_of kinds_of r ps d1")
      from Cons.IH [OF _ a] k Inr True s Cons.prems a show ?thesis
        by (auto simp: rbind_Inr_iff)
    qed
  qed
qed

end

interpretation base_provider: enrichment_provider "provider_enrich e t" pv_name pv_query_kinds for e t
proof
  fix p r q y
  assume "provider_enrich e t p r = (q, y)"
  then show "pv_name q = pv_name p \<and> pv_query_kinds q = pv_query_kinds p"
    using enrich_keeps by blast
next
  fix p r q x
  assume a: "provider_enrich e t p r = (q, Inr x)"
  show "pr_provider x = pv_name p \<and> pr_request x = r \<and>
      pr_status x \<in> {ES_SUCCESS, ES_UNAVAILABLE, ES_DISABLED} \<and> \<not> pr_cache_hit x \<and>
      (pr_status x \<noteq> ES_SUCCESS \<longrightarrow> pr_normalized_result x = [])"
  proof (cases "dispatches p r")
    case True
    with enrich_dispatched [OF True a] show ?thesis by auto
  next
    case False
    then have "pr_cache_hit x = False"
      using a by (auto simp: provider_enrich_def dispatches_def Let_def response_of_def split: if_splits)
    with enrich_idle [OF False, of e t] a show ?thesis by (auto split: if_splits)
  qed
qed

end
