(* ===== verification/Enrichment_Facts.thy ===== *)
theory Enrichment_Facts
  imports Enrichment
begin

text \<open>Properties of the enrichment service over the program's own providers.\<close>

abbreviation enrich_service where
  "enrich_service e t \<equiv> service_enrich (provider_enrich e t) pv_name pv_query_kinds"

section \<open>One reply per applicable provider\<close>

definition applicable :: "provider_request \<Rightarrow> provider list \<Rightarrow> provider list" where
  "applicable r ps = filter (\<lambda>p. pq_query_kind r \<in> set (pv_query_kinds p)) ps"

lemma service_replies:
  assumes "enrich_service e t fromiso v r given ps c = (qs, d, Inr res)"
  shows "\<exists>xs. serve_all (provider_enrich e t) pv_name pv_query_kinds r ps c = (qs, d, Inr xs) \<and>
     er_provider_results res = xs \<and> er_status res = aggregate_status xs \<and>
     (er_normalized_result res, er_conflicts res) = merge_results xs \<and>
     er_skipped_providers res = map pv_name (filter (\<lambda>p. pq_query_kind r \<notin> set (pv_query_kinds p)) ps)"
  using assms
  by (auto simp: service_enrich_def Let_def rbind_Inr_iff
      split: prod.splits sum.splits if_splits option.splits)

text \<open>C36. Every enrichment run accounts for every provider: each provider that serves the
  request's kind has exactly one reply, in order, which is either its own reply to this very
  request or a cached one filed under the same provider and key; every other provider is
  named as skipped; and the cache keeps its invariant.\<close>

theorem run_accounts_for_providers:
  assumes "cache_ok c" and "enrich_service e t fromiso v r given ps c = (qs, d, Inr res)"
  shows "cache_ok d \<and> map pv_name qs = map pv_name ps \<and>
     list_all2 (base_provider.reply_ok r) (applicable r ps) (er_provider_results res) \<and>
     mset (map pv_name ps) =
       mset (map pv_name (applicable r ps)) + mset (er_skipped_providers res)"
proof -
  from service_replies [OF assms(2)] obtain xs where
    s: "serve_all (provider_enrich e t) pv_name pv_query_kinds r ps c = (qs, d, Inr xs)"
    and x: "er_provider_results res = xs"
    and k: "er_skipped_providers res
       = map pv_name (filter (\<lambda>p. pq_query_kind r \<notin> set (pv_query_kinds p)) ps)"
    by blast
  have "mset (map pv_name ps) = mset (map pv_name (applicable r ps)) + mset (er_skipped_providers res)"
    unfolding k applicable_def by (induction ps) auto
  with base_provider.serve_all_keeps [OF assms(1) s] x show ?thesis
    by (simp add: applicable_def)
qed

definition kev_env :: env where
  "kev_env = \<lparr>ev_fetch = \<lambda>_ _. Inr \<lparr>fr_url = ''u'', fr_status_code = 200, fr_body = ''b'',
       fr_headers = [], fr_retry_count = 0, fr_warnings = []\<rparr>,
     ev_loads = \<lambda>_. Loaded (JObj [(''vulnerabilities'',
        JList [JObj [(''cveID'', JStr ''cve-2024-0001''), (''product'', JStr ''X'')]])]),
     ev_sha256 = id\<rparr>"

definition demo_kev :: "provider list" where
  "demo_kev = [build_providers demo_settings ! 0, build_providers demo_settings ! 3]"

definition cve_lookup :: provider_request where
  "cve_lookup = (demo_request 0)\<lparr>pq_entity_type := ET_INDICATOR\<rparr>"

lemma demo_cache_ok: "cache_ok (new_cache 0)"
  by (rule new_cache_ok)

theorem run_accounts_for_providers_witness:
  "\<exists>qs d res. enrich_service kev_env 0 (\<lambda>_. None) ''v'' cve_lookup None demo_kev (new_cache 0)
      = (qs, d, Inr res) \<and> cache_ok d \<and> er_skipped_providers res = [''virustotal'']"
proof -
  have "(case enrich_service kev_env 0 (\<lambda>_. None) ''v'' cve_lookup None demo_kev (new_cache 0)
      of (qs, d, Inr res) \<Rightarrow> er_skipped_providers res = [''virustotal''] | _ \<Rightarrow> False)"
    by code_simp
  then obtain qs d res where
    "enrich_service kev_env 0 (\<lambda>_. None) ''v'' cve_lookup None demo_kev (new_cache 0)
      = (qs, d, Inr res)" "er_skipped_providers res = [''virustotal'']"
    by (auto split: prod.splits sum.splits)
  with run_accounts_for_providers [OF demo_cache_ok this(1)] show ?thesis by blast
qed

section \<open>Status\<close>

text \<open>The aggregate status says exactly what happened: SUCCESS when some provider
  succeeded and the rest were disabled, PARTIAL when some succeeded but another failed or was
  stale, STALE when none succeeded but a stale result was served, DISABLED when nothing ran.\<close>

theorem aggregate_status_meaning:
  "(aggregate_status rs = ES_SUCCESS \<longleftrightarrow> (\<exists>r \<in> set rs. pr_status r = ES_SUCCESS) \<and>
      (\<forall>r \<in> set rs. pr_status r = ES_SUCCESS \<or> pr_status r = ES_DISABLED)) \<and>
   (aggregate_status rs = ES_PARTIAL \<longleftrightarrow> (\<exists>r \<in> set rs. pr_status r = ES_SUCCESS) \<and>
      (\<exists>r \<in> set rs. pr_status r \<noteq> ES_SUCCESS \<and> pr_status r \<noteq> ES_DISABLED)) \<and>
   (aggregate_status rs = ES_STALE \<longleftrightarrow> (\<exists>r \<in> set rs. pr_status r = ES_STALE) \<and>
      (\<forall>r \<in> set rs. pr_status r \<noteq> ES_SUCCESS)) \<and>
   (aggregate_status rs = ES_DISABLED \<longleftrightarrow> (\<forall>r \<in> set rs. pr_status r = ES_DISABLED))"
proof -
  have d: "list_all (\<lambda>r. pr_status r = ES_DISABLED) rs \<Longrightarrow> \<forall>r \<in> set rs. pr_status r = ES_DISABLED"
    by (simp add: list_all_iff)
  show ?thesis
    by (cases rs) (auto simp: aggregate_status_def list_all_iff list_ex_iff)
qed

theorem aggregate_status_meaning_witness:
  "aggregate_status [] = ES_DISABLED"
  using aggregate_status_meaning [of "[]"] by simp

section \<open>Merging\<close>

definition observe :: "json dict \<times> (json list) dict \<Rightarrow> string \<times> json \<Rightarrow> json dict \<times> (json list) dict" where
  "observe = (\<lambda>(merged, observed) (k, v). (dict_setdefault k v merged,
     dict_set k (case_option [] id (dict_get k observed) @ [v]) observed))"

definition values_of :: "string \<Rightarrow> (string \<times> json) list \<Rightarrow> json list" where
  "values_of k kvs = map snd (filter (\<lambda>(k', v). k' = k) kvs)"

lemma observe_inv:
  assumes "distinct (map fst m)" "distinct (map fst ob)"
    and "\<And>k. dict_get k m = (case values_of k kvs of [] \<Rightarrow> None | v # _ \<Rightarrow> Some v)"
    and "\<And>k. dict_get k ob = (case values_of k kvs of [] \<Rightarrow> None | vs \<Rightarrow> Some vs)"
    and "foldl observe (m, ob) new = (m', ob')"
  shows "distinct (map fst m') \<and> distinct (map fst ob') \<and>
     (\<forall>k. dict_get k m' = (case values_of k (kvs @ new) of [] \<Rightarrow> None | v # _ \<Rightarrow> Some v)) \<and>
     (\<forall>k. dict_get k ob' = (case values_of k (kvs @ new) of [] \<Rightarrow> None | vs \<Rightarrow> Some vs))"
  using assms
proof (induction new arbitrary: m ob kvs)
  case Nil
  then show ?case by simp
next
  case (Cons kv new)
  obtain k v where kv: "kv = (k, v)" by (cases kv)
  have vo: "values_of j (kvs @ [(k, v)]) = values_of j kvs @ (if j = k then [v] else [])" for j
    by (simp add: values_of_def)
  have "distinct (map fst (dict_setdefault k v m))"
    using Cons.prems(1) by (auto simp: dict_setdefault_def map_of_eq_None_iff split: option.splits)
  moreover have "distinct (map fst (dict_set k (case_option [] id (dict_get k ob) @ [v]) ob))"
    using Cons.prems(2) by (rule distinct_dict_set)
  moreover have "dict_get j (dict_setdefault k v m) =
      (case values_of j (kvs @ [(k, v)]) of [] \<Rightarrow> None | v # _ \<Rightarrow> Some v)" for j
    using Cons.prems(3) [of j] Cons.prems(3) [of k]
    by (auto simp: dict_get_setdefault vo split: list.splits)
  moreover have "dict_get j (dict_set k (case_option [] id (dict_get k ob) @ [v]) ob) =
      (case values_of j (kvs @ [(k, v)]) of [] \<Rightarrow> None | vs \<Rightarrow> Some vs)" for j
    using Cons.prems(4) [of j] Cons.prems(4) [of k]
    by (auto simp: dict_get_set vo split: list.splits)
  moreover have "foldl observe (dict_setdefault k v m,
      dict_set k (case_option [] id (dict_get k ob) @ [v]) ob) new = (m', ob')"
    using Cons.prems(5) by (simp add: observe_def kv)
  ultimately show ?case
    using Cons.IH [of "dict_setdefault k v m" _ "kvs @ [(k, v)]"] by (simp add: kv)
qed

lemma map_of_sort_key: "distinct (map fst d) \<Longrightarrow> map_of (sort_key fst d) = map_of d"
  by (rule map_of_inject_set [THEN iffD2]) (simp_all add: distinct_map)

lemma merge_results_spec:
  assumes "merge_results rs = (m, cf)"
  shows "dict_get k m = (case values_of k (contributions rs) of [] \<Rightarrow> None | v # _ \<Rightarrow> Some v) \<and>
     dict_get k cf = (case values_of k (contributions rs) of [] \<Rightarrow> None
        | vs \<Rightarrow> if 1 < length (dedup (map py_str vs)) then Some vs else None) \<and>
     sorted_wrt (<) (map fst m)"
proof -
  obtain m' ob where f: "foldl observe ([], []) (contributions rs) = (m', ob)"
    by (cases "foldl observe ([], []) (contributions rs)")
  have inv: "distinct (map fst m') \<and> distinct (map fst ob) \<and>
     (\<forall>k. dict_get k m' = (case values_of k ([] @ contributions rs) of [] \<Rightarrow> None | v # _ \<Rightarrow> Some v)) \<and>
     (\<forall>k. dict_get k ob = (case values_of k ([] @ contributions rs) of [] \<Rightarrow> None | vs \<Rightarrow> Some vs))"
    by (rule observe_inv [OF _ _ _ _ f]) (simp_all add: dict_get_def values_of_def)
  have m: "m = sort_key fst m'" "cf = filter (\<lambda>(k, vs). 1 < length (dedup (map py_str vs))) (sort_key fst ob)"
    using assms f by (simp_all add: merge_results_def observe_def)
  have d: "distinct (map fst (sort_key fst ob))" using inv by (simp add: distinct_map)
  have "dict_get k cf = (case dict_get k (sort_key fst ob) of None \<Rightarrow> None
      | Some vs \<Rightarrow> if 1 < length (dedup (map py_str vs)) then Some vs else None)"
    using map_of_filter_value [OF d, of "\<lambda>vs. 1 < length (dedup (map py_str vs))"]
    by (simp add: m dict_get_def)
  moreover have "sorted_wrt (<) (map fst m)"
    using inv unfolding m strict_sorted_iff by (simp add: distinct_map)
  moreover have "dict_get k m = dict_get k m'" "dict_get k (sort_key fst ob) = dict_get k ob"
    using inv by (simp_all add: m dict_get_def map_of_sort_key)
  ultimately show ?thesis using inv by (auto split: list.splits)
qed

text \<open>C15. Merging never loses a disagreement: each merged field holds the first value a
  provider with data reported for it, a field is in conflict exactly when two such values
  print differently, and then all of them are kept in order; the merged keys are strictly
  sorted.\<close>

theorem merge_preserves_conflicts:
  "\<exists>m cf. merge_results rs = (m, cf) \<and> sorted_wrt (<) (map fst m) \<and>
     (\<forall>k. dict_get k m = (case values_of k (contributions rs) of [] \<Rightarrow> None | v # _ \<Rightarrow> Some v)) \<and>
     (\<forall>k. dict_get k cf \<noteq> None \<longleftrightarrow>
        (\<exists>v \<in> set (values_of k (contributions rs)). \<exists>w \<in> set (values_of k (contributions rs)).
           py_str v \<noteq> py_str w)) \<and>
     (\<forall>k vs. dict_get k cf = Some vs \<longrightarrow> vs = values_of k (contributions rs))"
proof -
  obtain m cf where mc: "merge_results rs = (m, cf)" by (cases "merge_results rs")
  have many: "1 < length (dedup xs) \<longleftrightarrow> (\<exists>v \<in> set xs. \<exists>w \<in> set xs. v \<noteq> w)" for xs :: "string list"
  proof -
    have "length (dedup xs) = card (set xs)" by (metis distinct_card distinct_dedup set_dedup)
    moreover have "card (set xs) \<le> Suc 0 \<longleftrightarrow> (\<forall>v \<in> set xs. \<forall>w \<in> set xs. v = w)"
      by (rule card_le_Suc0_iff_eq) simp
    ultimately show ?thesis by auto
  qed
  have "dict_get k cf \<noteq> None \<longleftrightarrow>
        (\<exists>v \<in> set (values_of k (contributions rs)). \<exists>w \<in> set (values_of k (contributions rs)).
           py_str v \<noteq> py_str w)" for k
  proof -
    have "dict_get k cf \<noteq> None \<longleftrightarrow> 1 < length (dedup (map py_str (values_of k (contributions rs))))"
      using merge_results_spec [OF mc, of k] by (auto split: list.splits)
    then show ?thesis unfolding many by simp
  qed
  moreover have "dict_get k cf = Some vs \<Longrightarrow> vs = values_of k (contributions rs)" for k vs
    using merge_results_spec [OF mc, of k] by (auto split: list.splits if_splits)
  ultimately show ?thesis using merge_results_spec [OF mc] mc by blast
qed

theorem merge_preserves_conflicts_witness:
  "\<exists>m cf. merge_results [] = (m, cf) \<and> sorted_wrt (<) (map fst m)"
  using merge_preserves_conflicts [of "[]"] by blast

section \<open>Stale-if-error\<close>


definition aged_cache :: cache where
  "aged_cache = cache_put (new_cache 604800)
     (response_of kev_env demo_nvd (demo_request 0) ES_SUCCESS [(''k'', JInt 1)] empty_metadata
        None False None None)"


end
