(* ===== verification/Sql_Table.thy ===== *)
theory Sql_Table
  imports Hermes_Prelude
begin

text \<open>
  Tables as lists of rows, with the three statements the repositories use on them:
  \<^verbatim>\<open>INSERT \<dots> ON CONFLICT DO UPDATE\<close>, \<^verbatim>\<open>INSERT \<dots> ON CONFLICT DO NOTHING\<close> and
  \<^verbatim>\<open>SELECT \<dots> LIMIT 1\<close>.  The interface \<open>keyed_table\<close> states what an update clause must keep:
  the columns of the conflict target.
\<close>

definition has_row :: "('r \<Rightarrow> 'k) \<Rightarrow> 'k \<Rightarrow> 'r list \<Rightarrow> bool" where
  "has_row key k rows = list_ex (\<lambda>r. key r = k) rows"

definition find_row :: "('r \<Rightarrow> 'k) \<Rightarrow> 'k \<Rightarrow> 'r list \<Rightarrow> 'r option" where
  "find_row key k rows = List.find (\<lambda>r. key r = k) rows"

definition upsert :: "('r \<Rightarrow> 'k) \<Rightarrow> ('r \<Rightarrow> 'r \<Rightarrow> 'r) \<Rightarrow> 'r \<Rightarrow> 'r list \<Rightarrow> 'r list" where
  "upsert key upd new rows =
     (if has_row key (key new) rows
      then map (\<lambda>r. if key r = key new then upd r new else r) rows
      else rows @ [new])"

definition insert_ignore :: "('r \<Rightarrow> 'k) \<Rightarrow> 'r \<Rightarrow> 'r list \<Rightarrow> 'r list" where
  "insert_ignore key new rows = (if has_row key (key new) rows then rows else rows @ [new])"

definition unique_on :: "('r \<Rightarrow> 'k) \<Rightarrow> 'r list \<Rightarrow> bool" where
  "unique_on key rows = distinct (map key rows)"

lemma unique_on_Nil [simp]: "unique_on key []"
  by (simp add: unique_on_def)

lemma has_row_iff: "has_row key k rows \<longleftrightarrow> k \<in> key ` set rows"
  by (auto simp: has_row_def list_ex_iff)

lemma find_row_simps [simp]:
  "find_row key k [] = None"
  "find_row key k (r # rows) = (if key r = k then Some r else find_row key k rows)"
  by (simp_all add: find_row_def)

lemma find_row_None: "find_row key k rows = None \<longleftrightarrow> \<not> has_row key k rows"
  by (auto simp: find_row_def has_row_def find_None_iff list_ex_iff)

lemma has_row_find: "has_row key k rows \<longleftrightarrow> find_row key k rows \<noteq> None"
  by (simp add: find_row_None)

lemma find_row_Some: "find_row key k rows = Some r \<Longrightarrow> r \<in> set rows \<and> key r = k"
  by (auto simp: find_row_def find_Some_iff)

lemma find_row_append:
  "find_row key k (xs @ ys) = (case find_row key k xs of None \<Rightarrow> find_row key k ys | Some r \<Rightarrow> Some r)"
  by (induction xs) auto

lemma find_row_unique:
  "unique_on key rows \<Longrightarrow> r \<in> set rows \<Longrightarrow> find_row key (key r) rows = Some r"
  by (induction rows) (auto simp: unique_on_def)

lemma insert_ignore_unique: "unique_on key rows \<Longrightarrow> unique_on key (insert_ignore key new rows)"
  by (auto simp: insert_ignore_def unique_on_def has_row_iff)

lemma insert_ignore_keeps: "set rows \<subseteq> set (insert_ignore key new rows)"
  by (auto simp: insert_ignore_def)

lemma insert_ignore_find: "find_row key k (insert_ignore key new rows) =
    (if find_row key k rows = None \<and> k = key new then Some new else find_row key k rows)"
  by (auto simp: insert_ignore_def find_row_append has_row_find split: option.splits)

lemma insert_ignore_idem: "insert_ignore key new (insert_ignore key new rows) = insert_ignore key new rows"
  by (auto simp: insert_ignore_def has_row_iff)

locale keyed_table =
  fixes key :: "'r \<Rightarrow> 'k" and upd :: "'r \<Rightarrow> 'r \<Rightarrow> 'r"
  assumes upd_key: "key old = key new \<Longrightarrow> key (upd old new) = key new"
begin

lemma upsert_keys:
  "map key (upsert key upd new rows) =
     (if has_row key (key new) rows then map key rows else map key rows @ [key new])"
  by (auto simp: upsert_def upd_key)

lemma upsert_unique: "unique_on key rows \<Longrightarrow> unique_on key (upsert key upd new rows)"
  by (auto simp: unique_on_def upsert_keys has_row_iff)

lemma find_map: "find_row key k (map (\<lambda>r. if key r = key new then upd r new else r) rows) =
    map_option (\<lambda>r. if key r = key new then upd r new else r) (find_row key k rows)"
  by (induction rows) (auto simp: upd_key)

lemma upsert_find:
  "find_row key k (upsert key upd new rows) =
     (if k \<noteq> key new then find_row key k rows
      else Some (case find_row key k rows of None \<Rightarrow> new | Some r \<Rightarrow> upd r new))"
proof (cases "has_row key (key new) rows")
  case True
  have "map_option (\<lambda>r. if key r = key new then upd r new else r) (find_row key k rows)
      = find_row key k rows" if "k \<noteq> key new"
    using that by (cases "find_row key k rows") (auto dest: find_row_Some)
  moreover have "\<exists>r. find_row key (key new) rows = Some r \<and> key r = key new"
    using True find_row_None [of key "key new" rows]
    by (cases "find_row key (key new) rows") (auto dest: find_row_Some)
  ultimately show ?thesis using True by (auto simp: upsert_def find_map)
next
  case False
  then show ?thesis
    by (auto simp: upsert_def find_row_append has_row_find split: option.splits)
qed

lemma upsert_others: "key r \<noteq> key new \<Longrightarrow> r \<in> set (upsert key upd new rows) \<longleftrightarrow> r \<in> set rows"
  by (auto simp: upsert_def upd_key image_iff)

lemma upsert_set: "r \<in> set (upsert key upd new rows) \<Longrightarrow>
    r \<in> set rows \<or> r = new \<or> (\<exists>old \<in> set rows. key old = key new \<and> r = upd old new)"
  by (auto simp: upsert_def split: if_splits)

end

section \<open>Rows with a generated primary key\<close>

text \<open>A row has its natural key, the target of \<^verbatim>\<open>ON CONFLICT\<close>, and a primary key of
  its own; inserting a row whose primary key another row has violates a constraint.\<close>

datatype store_error = IntegrityError | DataError | NotPersisted string | BadValue string

definition upsert_checked :: "('r \<Rightarrow> 'i) \<Rightarrow> ('r \<Rightarrow> 'k) \<Rightarrow> ('r \<Rightarrow> 'r \<Rightarrow> 'r) \<Rightarrow> 'r \<Rightarrow> 'r list
    \<Rightarrow> store_error + 'r list" where
  "upsert_checked ident key upd new rows =
     (if has_row key (key new) rows then Inr (upsert key upd new rows)
      else if has_row ident (ident new) rows then Inl IntegrityError
      else Inr (rows @ [new]))"

locale identified_table = keyed_table key upd
  for key :: "'r \<Rightarrow> 'k" and upd :: "'r \<Rightarrow> 'r \<Rightarrow> 'r" +
  fixes ident :: "'r \<Rightarrow> 'i"
  assumes upd_ident: "key old = key new \<Longrightarrow> ident (upd old new) = ident old"
begin

lemma checked_cases:
  "upsert_checked ident key upd new rows = Inr rows' \<Longrightarrow> rows' = upsert key upd new rows \<and>
     (has_row key (key new) rows \<or> \<not> has_row ident (ident new) rows)"
  by (auto simp: upsert_checked_def upsert_def split: if_splits)

lemma checked_ident_list:
  "upsert_checked ident key upd new rows = Inr rows' \<Longrightarrow>
     map ident rows' = (if has_row key (key new) rows then map ident rows else map ident rows @ [ident new])"
  by (auto simp: upsert_checked_def upsert_def upd_ident split: if_splits)

lemma checked_unique:
  assumes "upsert_checked ident key upd new rows = Inr rows'" "unique_on key rows" "unique_on ident rows"
  shows "unique_on key rows' \<and> unique_on ident rows'"
proof -
  note c = checked_cases [OF assms(1)]
  have "unique_on ident rows'" using c assms(3)
    unfolding unique_on_def checked_ident_list [OF assms(1)] by (auto simp: has_row_iff)
  with c assms(2) upsert_unique show ?thesis by simp
qed

lemma checked_idents:
  "upsert_checked ident key upd new rows = Inr rows' \<Longrightarrow> has_row ident i rows' \<longleftrightarrow>
     has_row ident i rows \<or> (\<not> has_row key (key new) rows \<and> i = ident new)"
  using arg_cong [OF checked_ident_list, of new rows rows' set] by (auto simp: has_row_iff)

lemma checked_present:
  "upsert_checked ident key upd new rows = Inr rows' \<Longrightarrow> has_row key (key new) rows'"
  using checked_cases [of new rows rows'] upsert_find [of "key new" new rows] by (simp add: has_row_find)

end

section \<open>Column types\<close>

text \<open>PostgreSQL refuses a text with a NUL character and one longer than its
  \<^verbatim>\<open>VARCHAR(n)\<close> column.\<close>

definition pg_text :: "string \<Rightarrow> bool" where
  "pg_text s = (CHR 0x00 \<notin> set s)"

definition varchar :: "nat \<Rightarrow> string \<Rightarrow> bool" where
  "varchar n s = (length s \<le> n \<and> pg_text s)"

definition nullable :: "('a \<Rightarrow> bool) \<Rightarrow> 'a option \<Rightarrow> bool" where
  "nullable p x = (case x of None \<Rightarrow> True | Some y \<Rightarrow> p y)"

lemma nullable_simps [simp]: "nullable p None" "nullable p (Some x) = p x"
  by (simp_all add: nullable_def)

definition guard :: "bool \<Rightarrow> store_error \<Rightarrow> store_error + unit" where
  "guard b e = (if b then Inr () else Inl e)"

lemma guard_simps [simp]: "guard True e = Inr ()" "guard False e = Inl e" "guard b e = Inr u \<longleftrightarrow> b"
    "guard b e = Inl e' \<longleftrightarrow> \<not> b \<and> e' = e"
  by (auto simp: guard_def)

section \<open>The row with the largest key\<close>

text \<open>\<^verbatim>\<open>ORDER BY key DESC LIMIT 1\<close>.\<close>

definition newest :: "('r \<Rightarrow> 'k::linorder) \<Rightarrow> 'r list \<Rightarrow> 'r option" where
  "newest key rows = (case rev (sort_key key rows) of [] \<Rightarrow> None | r # rs \<Rightarrow> Some r)"

lemma newest_None [simp]: "newest key rows = None \<longleftrightarrow> rows = []"
  by (auto simp: newest_def split: list.splits) (metis length_0_conv length_sort)

lemma newest_Some:
  assumes "newest key rows = Some r"
  shows "r \<in> set rows \<and> (\<forall>x \<in> set rows. key x \<le> key r)"
proof -
  from assms obtain rs where rs: "rev (sort_key key rows) = r # rs" by (auto simp: newest_def split: list.splits)
  then have e: "sort_key key rows = rev rs @ [r]" by (metis rev.simps(2) rev_rev_ident)
  have "sorted (map key (rev rs @ [r]))" unfolding e [symmetric] by simp
  then have "\<forall>x \<in> set (rev rs @ [r]). key x \<le> key r" by (auto simp: sorted_append)
  then show ?thesis unfolding e [symmetric] using arg_cong [OF e, of set] by auto
qed

lemma newest_ex: "rows \<noteq> [] \<Longrightarrow> \<exists>r. newest key rows = Some r"
  using newest_None [of key rows] by (cases "newest key rows") auto

lemma newest_unique:
  "inj_on key (set rows) \<Longrightarrow> newest key rows = Some r \<longleftrightarrow> r \<in> set rows \<and> (\<forall>x \<in> set rows. key x \<le> key r)"
  using newest_Some [of key rows] newest_ex [of rows key] by (force simp: inj_on_def dest: order_antisym)

section \<open>Statements in sequence\<close>

fun fold_result :: "('s \<Rightarrow> 'x \<Rightarrow> 'e + 's) \<Rightarrow> 's \<Rightarrow> 'x list \<Rightarrow> 'e + 's" where
  "fold_result f s [] = Inr s"
| "fold_result f s (x # xs) = rbind (f s x) (\<lambda>s'. fold_result f s' xs)"

lemma fold_result_invariant:
  "fold_result f s xs = Inr s' \<Longrightarrow> P s \<Longrightarrow> (\<And>s x s'. x \<in> set xs \<Longrightarrow> P s \<Longrightarrow> f s x = Inr s' \<Longrightarrow> P s') \<Longrightarrow> P s'"
proof (induction xs arbitrary: s)
  case (Cons x xs)
  then obtain s1 where "f s x = Inr s1" "fold_result f s1 xs = Inr s'" by (auto simp: rbind_Inr_iff)
  with Cons show ?case by (meson list.set_intros)
qed simp

end
