(* ===== verification/Vulnerability_Fields.thy ===== *)
theory Vulnerability_Fields
  imports Enrichment Sql_Table
begin

text \<open>
  \<^verbatim>\<open>enrichment/vulnerability.py\<close> and \<^verbatim>\<open>db/vulnerability_repository.py\<close>: typed provider
  snapshots and the deterministic selection of each canonical field, with its provenance.
  \<^verbatim>\<open>date.fromisoformat\<close>, \<^verbatim>\<open>datetime.fromisoformat\<close> and \<^verbatim>\<open>isoformat\<close> are parameters; an
  attribute that is \<open>None\<close> is absent from the dictionary of a row.
\<close>

datatype fval =
    FText string | FInstant instant | FNum rat | FTexts "string list" | FBool bool | FDate int

record iso_codec =
  iso_datetime :: "string \<Rightarrow> instant option"
  iso_date :: "string \<Rightarrow> int option"
  iso_format :: "instant \<Rightarrow> string"

section \<open>Normalised fields\<close>

definition VULNERABILITY_FIELDS :: "string list" where
  "VULNERABILITY_FIELDS = [''description'', ''published_at'', ''modified_at'', ''cvss_score'',
     ''cvss_version'', ''cvss_vector'', ''cwe_ids'', ''epss_score'', ''epss_percentile'',
     ''epss_date'', ''known_exploited'', ''exploitation_state'', ''kev_date_added'',
     ''kev_due_date'', ''kev_vendor_project'', ''kev_product'', ''kev_required_action'']"

definition KEV_FIELDS :: "string list" where
  "KEV_FIELDS = [''known_exploited'', ''exploitation_state'', ''kev_date_added'',
     ''kev_due_date'', ''kev_vendor_project'', ''kev_product'', ''kev_required_action'']"

definition NVD_FIELDS :: "string list" where
  "NVD_FIELDS = [''description'', ''published_at'', ''modified_at'', ''cvss_score'',
     ''cvss_version'', ''cvss_vector'', ''cwe_ids'']"

definition EPSS_FIELDS :: "string list" where
  "EPSS_FIELDS = [''epss_score'', ''epss_percentile'', ''epss_date'']"

definition field_date :: "iso_codec \<Rightarrow> json \<Rightarrow> fval option" where
  "field_date c v = (case v of JStr s \<Rightarrow> map_option FDate (iso_date c (take 10 s)) | _ \<Rightarrow> None)"

definition field_datetime :: "iso_codec \<Rightarrow> json \<Rightarrow> fval option" where
  "field_datetime c v = (case v of
     JStr s \<Rightarrow> map_option FInstant (iso_datetime c (replace ''Z'' ''+00:00'' s)) | _ \<Rightarrow> None)"

definition field_float :: "json \<Rightarrow> rat \<Rightarrow> rat \<Rightarrow> fval option" where
  "field_float v lo hi = (case float_of v of
     Some (Fin q) \<Rightarrow> if lo \<le> q \<and> q \<le> hi then Some (FNum q) else None | _ \<Rightarrow> None)"

definition field_string :: "json \<Rightarrow> string option" where
  "field_string v = (case v of JStr s \<Rightarrow> if s = [] then None else Some s | _ \<Rightarrow> None)"

definition normalized_fields :: "iso_codec \<Rightarrow> provider_response \<Rightarrow> fval dict" where
  "normalized_fields c response =
     (let v = pr_normalized_result response;
          vector = field_string (jget ''cvss_vector'' v);
          version = (case field_string (jget ''cvss_version'' v) of
              Some s \<Rightarrow> Some s
            | None \<Rightarrow> (case vector of
                Some t \<Rightarrow> if prefix ''CVSS:'' t
                  then Some (remove_prefix ''CVSS:'' (fst (partition_at (CHR ''/'') t))) else None
              | None \<Rightarrow> None));
          known = (case jget ''known_exploited'' v of JBool b \<Rightarrow> Some b | _ \<Rightarrow> None);
          exploitation = (case field_string (jget ''exploitation_state'' v) of
              Some s \<Rightarrow> if parse_enum exploitation_state_value exploitation_state_members s \<noteq> None
                       then Some s else None
            | None \<Rightarrow> None);
          exploitation = (case exploitation of Some s \<Rightarrow> s
            | None \<Rightarrow> exploitation_state_value
                (if known = Some True then XS_KNOWN_EXPLOITED
                 else if pr_provider response = ''cisa_kev'' \<and> known = Some False
                 then XS_NOT_OBSERVED else XS_UNKNOWN));
          cwes = (case jget ''cwe_ids'' v of JList xs \<Rightarrow> sorted_unique (str_items xs) | _ \<Rightarrow> []);
          text = (\<lambda>k. map_option FText (field_string (jget k v)));
          values = [
            (''description'', text ''description''),
            (''published_at'', field_datetime c (jget ''published_at'' v)),
            (''modified_at'', field_datetime c (jget ''modified_at'' v)),
            (''cvss_score'', field_float (jget ''cvss_score'' v) 0 10),
            (''cvss_version'', map_option FText version),
            (''cvss_vector'', map_option FText vector),
            (''cwe_ids'', Some (FTexts cwes)),
            (''epss_score'', field_float (jget ''epss_score'' v) 0 1),
            (''epss_percentile'', field_float (jget ''epss_percentile'' v) 0 1),
            (''epss_date'', field_date c (jget ''epss_date'' v)),
            (''known_exploited'', map_option FBool known),
            (''exploitation_state'', Some (FText exploitation)),
            (''kev_date_added'', field_date c (jget ''date_added'' v)),
            (''kev_due_date'', field_date c (jget ''due_date'' v)),
            (''kev_vendor_project'', text ''vendor_project''),
            (''kev_product'', text ''product''),
            (''kev_required_action'', text ''required_action'')]
      in List.map_filter (\<lambda>(k, x). map_option (\<lambda>y. (k, y)) x) values)"

definition provider_rank :: "string \<Rightarrow> string \<Rightarrow> int" where
  "provider_rank provider field =
     (if field \<in> set KEV_FIELDS then (if provider = ''cisa_kev'' then 0 else 1)
      else if field \<in> set EPSS_FIELDS then (if provider = ''epss'' then 0 else 1)
      else if field \<in> set NVD_FIELDS then (if provider = ''nvd'' then 0 else 1)
      else 0)"

section \<open>Rows\<close>

record observation =
  vo_id :: uuid
  vo_vulnerability_id :: uuid
  vo_provider_result_id :: uuid
  vo_provider :: string
  vo_provider_query_key :: string
  vo_retrieved_at :: instant
  vo_expires_at :: "instant option"
  vo_status :: string
  vo_fields :: "fval dict"

record attribute_selection =
  as_id :: uuid
  as_vulnerability_id :: uuid
  as_field_name :: string
  as_provider_observation_id :: uuid
  as_selected_at :: instant
  as_selection_reason :: string

record vulnerability_row =
  vr_id :: uuid
  vr_cve_id :: string
  vr_fields :: "fval dict"

definition vo_attr :: "string \<Rightarrow> observation \<Rightarrow> fval option" where
  "vo_attr field r = dict_get field (vo_fields r)"

definition usable_observation :: "observation \<Rightarrow> bool" where
  "usable_observation r = (vo_status r \<in> {''success'', ''partial''})"

definition is_candidate :: "string \<Rightarrow> observation \<Rightarrow> bool" where
  "is_candidate field r = (vo_attr field r \<noteq> None \<and>
     (field \<noteq> ''cwe_ids'' \<or> vo_attr field r \<noteq> Some (FTexts [])))"

definition candidate_key :: "string \<Rightarrow> observation \<Rightarrow> int \<times> int \<times> int" where
  "candidate_key field r = (provider_rank (vo_provider r) field,
     if vo_status r = ''stale'' then 1 else 0, - vo_retrieved_at r)"

definition select_field :: "iso_codec \<Rightarrow> observation list \<Rightarrow> string
    \<Rightarrow> (string \<times> fval \<times> observation \<times> string) option" where
  "select_field c observations field =
     (case sort_key (candidate_key field)
             (filter (is_candidate field) (filter usable_observation observations)) of
        [] \<Rightarrow> None
      | winner # _ \<Rightarrow> (case vo_attr field winner of None \<Rightarrow> None
          | Some v \<Rightarrow> Some (field, v, winner, vo_provider winner @ '' precedence for '' @ field
              @ ''; retrieved '' @ iso_format c (vo_retrieved_at winner))))"

definition select_canonical_fields :: "iso_codec \<Rightarrow> observation list
    \<Rightarrow> (string \<times> fval \<times> observation \<times> string) list" where
  "select_canonical_fields c observations =
     List.map_filter (select_field c observations) VULNERABILITY_FIELDS"

section \<open>Persistence\<close>

record vulnerability_db =
  vd_vulnerabilities :: "vulnerability_row list"
  vd_observations :: "observation list"
  vd_selections :: "attribute_selection list"

definition update_observation :: "observation \<Rightarrow> observation \<Rightarrow> observation" where
  "update_observation old new = new\<lparr>vo_id := vo_id old,
     vo_provider_result_id := vo_provider_result_id old,
     vo_fields := foldl (\<lambda>d (k, v). dict_set k v d) (vo_fields old) (vo_fields new)\<rparr>"

definition selection_key :: "attribute_selection \<Rightarrow> uuid \<times> string" where
  "selection_key s = (as_vulnerability_id s, as_field_name s)"

definition update_selection :: "attribute_selection \<Rightarrow> attribute_selection \<Rightarrow> attribute_selection" where
  "update_selection old new = old\<lparr>as_provider_observation_id := as_provider_observation_id new,
     as_selected_at := as_selected_at new, as_selection_reason := as_selection_reason new\<rparr>"

definition observation_of :: "iso_codec \<Rightarrow> uuid \<Rightarrow> provider_response \<Rightarrow> uuid \<Rightarrow> observation" where
  "observation_of c vulnerability_id response record_id =
     (let fields = normalized_fields c response in
      \<lparr>vo_id = record_id, vo_vulnerability_id = vulnerability_id,
       vo_provider_result_id = record_id, vo_provider = pr_provider response,
       vo_provider_query_key = pq_query_key (pr_request response),
       vo_retrieved_at = pr_retrieved_at response, vo_expires_at = pr_expires_at response,
       vo_status = enrichment_status_value (pr_status response), vo_fields = fields\<rparr>)"

definition locate_vulnerability :: "vulnerability_row list \<Rightarrow> uuid \<Rightarrow> string
    \<Rightarrow> vulnerability_row \<times> vulnerability_row list" where
  "locate_vulnerability rows entity_id cve_id =
     (case find_row vr_id entity_id rows of
        Some v \<Rightarrow> (v, rows)
      | None \<Rightarrow> (case find_row vr_cve_id cve_id rows of
            Some v \<Rightarrow> (v, rows)
          | None \<Rightarrow> (let v = \<lparr>vr_id = entity_id, vr_cve_id = cve_id,
               vr_fields = [(''cwe_ids'', FTexts []), (''exploitation_state'', FText ''unknown'')]\<rparr>
             in (v, rows @ [v]))))"

definition apply_selection :: "(uuid \<Rightarrow> string \<Rightarrow> uuid) \<Rightarrow> instant \<Rightarrow> uuid
    \<Rightarrow> (string \<times> fval \<times> observation \<times> string) \<Rightarrow> vulnerability_db \<Rightarrow> vulnerability_db" where
  "apply_selection uuid5 now vid sel db = (case sel of (field, v, winner, reason) \<Rightarrow>
     db\<lparr>vd_vulnerabilities := map (\<lambda>r. if vr_id r = vid
           then r\<lparr>vr_fields := dict_set field v (vr_fields r)\<rparr> else r) (vd_vulnerabilities db),
        vd_selections := upsert selection_key update_selection
           \<lparr>as_id = uuid5 vid (''attribute-selection:'' @ field), as_vulnerability_id = vid,
            as_field_name = field, as_provider_observation_id = vo_id winner,
            as_selected_at = now, as_selection_reason = reason\<rparr> (vd_selections db)\<rparr>)"

text \<open>\<open>persist_enrichment\<close>: \<open>None\<close> when the responses and records differ in number
  (\<^verbatim>\<open>zip(strict=True)\<close>) or there is no response.\<close>

definition persist_enrichment :: "iso_codec \<Rightarrow> (uuid \<Rightarrow> string \<Rightarrow> uuid) \<Rightarrow> instant \<Rightarrow> uuid
    \<Rightarrow> provider_response list \<Rightarrow> uuid list \<Rightarrow> vulnerability_db \<Rightarrow> (uuid \<times> vulnerability_db) option" where
  "persist_enrichment c uuid5 now entity_id responses records db =
     (if responses = [] \<or> length responses \<noteq> length records then None
      else (let cve_id = upper (pq_query_key (pr_request (hd responses)));
                (v, rows) = locate_vulnerability (vd_vulnerabilities db) entity_id cve_id;
                obs = foldl (\<lambda>obs (response, record_id). upsert vo_provider_result_id update_observation
                        (observation_of c (vr_id v) response record_id) obs)
                      (vd_observations db) (zip responses records);
                own = sort_key vo_retrieved_at (filter (\<lambda>o'. vo_vulnerability_id o' = vr_id v) obs);
                db = db\<lparr>vd_vulnerabilities := rows, vd_observations := obs\<rparr>
            in Some (vr_id v, foldl (\<lambda>db sel. apply_selection uuid5 now (vr_id v) sel db) db
                 (select_canonical_fields c own))))"

interpretation observations: keyed_table vo_provider_result_id update_observation
  by unfold_locales (simp add: update_observation_def)

interpretation selections: keyed_table selection_key update_selection
  by unfold_locales (simp add: selection_key_def update_selection_def)

section \<open>Facts\<close>

lemma VULNERABILITY_FIELDS_distinct: "distinct VULNERABILITY_FIELDS"
  by code_simp

lemma sort_key_hd_min:
  assumes "sort_key f xs = y # ys"
  shows "y \<in> set xs \<and> (\<forall>x \<in> set xs. f y \<le> f x)"
proof -
  have "sorted (map f (y # ys))" using assms sorted_sort_key by metis
  moreover have "set xs = set (y # ys)" using assms by (metis set_sort)
  ultimately show ?thesis by auto
qed

lemma select_field_spec:
  assumes "select_field c obs field = Some (f, v, w, reason)"
  shows "f = field \<and> w \<in> set obs \<and> usable_observation w \<and> is_candidate field w \<and>
     vo_attr field w = Some v \<and>
     (\<forall>r \<in> set obs. usable_observation r \<and> is_candidate field r \<longrightarrow>
        candidate_key field w \<le> candidate_key field r)"
proof -
  from assms obtain ys where s: "sort_key (candidate_key field)
      (filter (is_candidate field) (filter usable_observation obs)) = w # ys"
    by (auto simp: select_field_def split: list.splits option.splits)
  from sort_key_hd_min [OF s] assms s show ?thesis
    by (auto simp: select_field_def split: list.splits option.splits)
qed

lemma select_field_None:
  "select_field c obs field = None \<longleftrightarrow> \<not> (\<exists>r \<in> set obs. usable_observation r \<and> is_candidate field r)"
proof (cases "sort_key (candidate_key field)
      (filter (is_candidate field) (filter usable_observation obs))")
  case Nil
  then have "filter (is_candidate field) (filter usable_observation obs) = []"
    by (metis set_empty set_sort)
  with Nil show ?thesis by (auto simp: select_field_def filter_empty_conv)
next
  case (Cons w ys)
  with sort_key_hd_min [OF Cons] show ?thesis
    by (auto simp: select_field_def is_candidate_def)
qed

text \<open>C16. Canonical selection is well-founded: a field is selected exactly when some
  successful or partial snapshot has a value for it, the selected value is that of such a
  snapshot, no other candidate comes from a higher-ranked provider, and none of the same
  provider rank is newer.\<close>

theorem canonical_field_selection:
  "(select_field c obs field = None \<longleftrightarrow>
      (\<forall>r \<in> set obs. \<not> (usable_observation r \<and> is_candidate field r))) \<and>
   (\<forall>f v w reason. select_field c obs field = Some (f, v, w, reason) \<longrightarrow>
      w \<in> set obs \<and> usable_observation w \<and> vo_attr field w = Some v \<and>
      (\<forall>r \<in> set obs. usable_observation r \<and> is_candidate field r \<longrightarrow>
         provider_rank (vo_provider w) field \<le> provider_rank (vo_provider r) field \<and>
         (provider_rank (vo_provider w) field = provider_rank (vo_provider r) field \<longrightarrow>
            vo_retrieved_at r \<le> vo_retrieved_at w)))"
proof -
  have "provider_rank (vo_provider w) field \<le> provider_rank (vo_provider r) field \<and>
         (provider_rank (vo_provider w) field = provider_rank (vo_provider r) field \<longrightarrow>
            vo_retrieved_at r \<le> vo_retrieved_at w)"
    if s: "select_field c obs field = Some (f, v, w, reason)"
      and r: "r \<in> set obs" "usable_observation r" "is_candidate field r" for f v w reason r
  proof -
    have "candidate_key field w \<le> candidate_key field r"
      using select_field_spec [OF s] r by blast
    moreover have "vo_status w \<noteq> ''stale''" "vo_status r \<noteq> ''stale''"
      using select_field_spec [OF s] r by (auto simp: usable_observation_def)
    ultimately show ?thesis by (auto simp: candidate_key_def less_eq_prod_def)
  qed
  then show ?thesis using select_field_None [of c obs field] select_field_spec [of c obs field]
    by blast
qed

definition demo_observation :: "string \<Rightarrow> instant \<Rightarrow> rat \<Rightarrow> observation" where
  "demo_observation p t q = \<lparr>vo_id = p, vo_vulnerability_id = ''v'', vo_provider_result_id = p,
     vo_provider = p, vo_provider_query_key = ''CVE-2024-0001'', vo_retrieved_at = t,
     vo_expires_at = None, vo_status = ''success'', vo_fields = [(''cvss_score'', FNum q)]\<rparr>"

definition demo_codec :: iso_codec where
  "demo_codec = \<lparr>iso_datetime = \<lambda>_. None, iso_date = \<lambda>_. None, iso_format = \<lambda>_. ''t''\<rparr>"

theorem canonical_field_selection_witness:
  "\<exists>reason. select_field demo_codec [demo_observation ''other'' 9 4, demo_observation ''nvd'' 5 7]
      ''cvss_score'' = Some (''cvss_score'', FNum 7, demo_observation ''nvd'' 5 7, reason) \<and>
   provider_rank ''nvd'' ''cvss_score'' \<le> provider_rank ''other'' ''cvss_score''"
proof -
  have "\<exists>reason. select_field demo_codec [demo_observation ''other'' 9 4, demo_observation ''nvd'' 5 7]
      ''cvss_score'' = Some (''cvss_score'', FNum 7, demo_observation ''nvd'' 5 7, reason)"
    by (rule exI [of _ "''nvd precedence for cvss_score; retrieved t''"]) code_simp
  moreover have "usable_observation (demo_observation ''other'' 9 4)"
    "is_candidate ''cvss_score'' (demo_observation ''other'' 9 4)" by code_simp+
  ultimately show ?thesis
    using canonical_field_selection [of demo_codec
        "[demo_observation ''other'' 9 4, demo_observation ''nvd'' 5 7]" "''cvss_score''"]
    by (fastforce simp: demo_observation_def)
qed

section \<open>Persistence keeps its invariants\<close>

definition vulnerability_db_ok :: "vulnerability_db \<Rightarrow> bool" where
  "vulnerability_db_ok db = (unique_on vr_id (vd_vulnerabilities db) \<and>
     unique_on vo_provider_result_id (vd_observations db) \<and>
     unique_on selection_key (vd_selections db))"

lemma apply_selection_ok: "vulnerability_db_ok db \<Longrightarrow> vulnerability_db_ok (apply_selection u n vid sel db)"
proof -
  have m: "map (vr_id \<circ> (\<lambda>r. if vr_id r = vid then r\<lparr>vr_fields := g r\<rparr> else r)) rows
      = map vr_id rows" for g rows by (induction rows) auto
  then show "vulnerability_db_ok db \<Longrightarrow> ?thesis"
    by (cases sel) (simp add: vulnerability_db_ok_def apply_selection_def
        selections.upsert_unique unique_on_def [of vr_id] m)
qed

lemma apply_selection_ids:
  "map vr_id (vd_vulnerabilities (apply_selection u n vid sel db)) = map vr_id (vd_vulnerabilities db)"
  by (cases sel) (simp add: apply_selection_def)

lemma apply_selection_has_row:
  "has_row vr_id k (vd_vulnerabilities (apply_selection u n vid sel db))
     = has_row vr_id k (vd_vulnerabilities db)"
  unfolding has_row_iff using apply_selection_ids [of u n vid sel db] by (metis set_map)

text \<open>Persisting enrichment keeps the vulnerability store well-formed: one row per
  vulnerability, one snapshot per provider result, and one provenance row per vulnerability
  and field, however often results are persisted again.\<close>

theorem persist_enrichment_keeps_db:
  assumes "vulnerability_db_ok db"
    and "persist_enrichment c u now eid responses records db = Some (vid, db')"
  shows "vulnerability_db_ok db' \<and> has_row vr_id vid (vd_vulnerabilities db')"
proof -
  obtain v rows where l: "locate_vulnerability (vd_vulnerabilities db) eid
      (upper (pq_query_key (pr_request (hd responses)))) = (v, rows)" by fastforce
  have rows: "unique_on vr_id rows \<and> has_row vr_id (vr_id v) rows"
    using l assms(1)
    by (auto simp: locate_vulnerability_def vulnerability_db_ok_def unique_on_def has_row_iff Let_def
        find_row_None image_iff split: option.splits dest: find_row_Some)
  define obs where "obs = foldl (\<lambda>obs (response, record_id).
      upsert vo_provider_result_id update_observation
        (observation_of c (vr_id v) response record_id) obs) (vd_observations db) (zip responses records)"
  have "unique_on vo_provider_result_id obs"
    unfolding obs_def
  proof (rule foldl_invariant [where P = "unique_on vo_provider_result_id"])
    show "unique_on vo_provider_result_id (vd_observations db)"
      using assms(1) by (simp add: vulnerability_db_ok_def)
  qed (auto simp: observations.upsert_unique)
  with rows assms(1) have "vulnerability_db_ok (db\<lparr>vd_vulnerabilities := rows, vd_observations := obs\<rparr>)"
    by (simp add: vulnerability_db_ok_def)
  then have "vulnerability_db_ok (foldl (\<lambda>db sel. apply_selection u now (vr_id v) sel db)
        (db\<lparr>vd_vulnerabilities := rows, vd_observations := obs\<rparr>) sels)" for sels
    by (rule foldl_invariant [where P = vulnerability_db_ok]) (rule apply_selection_ok)
  moreover have "has_row vr_id (vr_id v) (vd_vulnerabilities
      (foldl (\<lambda>db sel. apply_selection u now (vr_id v) sel db)
        (db\<lparr>vd_vulnerabilities := rows, vd_observations := obs\<rparr>) sels))" for sels
    by (rule foldl_invariant [where P = "\<lambda>s. has_row vr_id (vr_id v) (vd_vulnerabilities s)"])
      (simp_all add: rows apply_selection_has_row)
  moreover have "vid = vr_id v \<and> db' = foldl (\<lambda>db sel. apply_selection u now (vr_id v) sel db)
      (db\<lparr>vd_vulnerabilities := rows, vd_observations := obs\<rparr>)
      (select_canonical_fields c
        (sort_key vo_retrieved_at (filter (\<lambda>o'. vo_vulnerability_id o' = vr_id v) obs)))"
    using assms(2) l unfolding persist_enrichment_def obs_def Let_def
    by (cases "responses = [] \<or> length responses \<noteq> length records") auto
  ultimately show ?thesis by simp
qed

theorem persist_enrichment_keeps_db_witness:
  "\<exists>vid db. persist_enrichment demo_codec (\<lambda>v f. v @ f) 5 ''v''
      [response_of limited_env demo_nvd (demo_request 0) ES_SUCCESS [(''cvss_score'', JInt 7)]
        empty_metadata None False None None] [''r1'']
      \<lparr>vd_vulnerabilities = [], vd_observations = [], vd_selections = []\<rparr> = Some (vid, db) \<and>
    vulnerability_db_ok db"
proof -
  let ?db = "\<lparr>vd_vulnerabilities = [], vd_observations = [], vd_selections = []\<rparr>"
  let ?rs = "[response_of limited_env demo_nvd (demo_request 0) ES_SUCCESS [(''cvss_score'', JInt 7)]
        empty_metadata None False None None]"
  have "vulnerability_db_ok ?db" by (simp add: vulnerability_db_ok_def)
  moreover have "persist_enrichment demo_codec (\<lambda>v f. v @ f) 5 ''v'' ?rs [''r1''] ?db \<noteq> None"
    by (simp add: persist_enrichment_def Let_def case_prod_unfold)
  then obtain vid db where
    "persist_enrichment demo_codec (\<lambda>v f. v @ f) 5 ''v'' ?rs [''r1''] ?db = Some (vid, db)"
    by auto
  ultimately show ?thesis using persist_enrichment_keeps_db by blast
qed

end
