(* ===== verification/Ioc_Extraction.thy ===== *)
theory Ioc_Extraction
  imports Contract_Facts
begin

text \<open>
  \<^verbatim>\<open>extraction/pipeline.py\<close> and \<^verbatim>\<open>extraction/contracts.py\<close>: deterministic, evidence
  preserving extraction of indicators and CVE identifiers.  Refanging keeps, for every
  character of the transformed text, the span of the original it came from; the regular
  expressions are transcribed into the matcher of \<open>Py_Regex\<close>.  Punycode for labels
  beyond ASCII and the UUID hash are parameters.
\<close>

section \<open>Contracts\<close>

datatype ip_exclusion_class =
    IX_PRIVATE | IX_LOOPBACK | IX_RESERVED | IX_MULTICAST | IX_DOCUMENTATION
  | IX_UNSPECIFIED | IX_LINK_LOCAL

fun ip_exclusion_class_value :: "ip_exclusion_class \<Rightarrow> string" where
  "ip_exclusion_class_value IX_PRIVATE = ''private''"
| "ip_exclusion_class_value IX_LOOPBACK = ''loopback''"
| "ip_exclusion_class_value IX_RESERVED = ''reserved''"
| "ip_exclusion_class_value IX_MULTICAST = ''multicast''"
| "ip_exclusion_class_value IX_DOCUMENTATION = ''documentation''"
| "ip_exclusion_class_value IX_UNSPECIFIED = ''unspecified''"
| "ip_exclusion_class_value IX_LINK_LOCAL = ''link_local''"

record extraction_config =
  xc_max_input_chars :: int
  xc_context_chars :: int
  xc_extract_email :: bool
  xc_extract_file_paths :: bool
  xc_extract_registry_paths :: bool
  xc_excluded_ip_classes :: "ip_exclusion_class list"
  xc_suppressed_domains :: "string list"
  xc_suppressed_values :: "string list"

definition default_extraction_config :: extraction_config where
  "default_extraction_config = \<lparr>xc_max_input_chars = 1000000, xc_context_chars = 80,
     xc_extract_email = False, xc_extract_file_paths = True, xc_extract_registry_paths = True,
     xc_excluded_ip_classes = [IX_PRIVATE, IX_LOOPBACK, IX_RESERVED, IX_MULTICAST,
       IX_DOCUMENTATION, IX_UNSPECIFIED, IX_LINK_LOCAL],
     xc_suppressed_domains = [], xc_suppressed_values = []\<rparr>"

definition ExtractionConfig :: "extraction_config \<Rightarrow> extraction_config result" where
  "ExtractionConfig c =
     rbind (check (1 \<le> xc_max_input_chars c \<and> xc_max_input_chars c \<le> 10000000) ''max_input_chars'') (\<lambda>_.
     rbind (check (0 \<le> xc_context_chars c \<and> xc_context_chars c \<le> 1000) ''context_chars'') (\<lambda>_.
       Inr (c\<lparr>xc_excluded_ip_classes := dedup (xc_excluded_ip_classes c),
          xc_suppressed_domains := sorted_unique (map (\<lambda>s. rstrip_dots (lower (strip s)))
             (filter (\<lambda>s. strip s \<noteq> []) (xc_suppressed_domains c))),
          xc_suppressed_values := sorted_unique (map (\<lambda>s. lower (strip s))
             (filter (\<lambda>s. strip s \<noteq> []) (xc_suppressed_values c)))\<rparr>)))"

record indicator_observation =
  io_observation_id :: uuid
  io_indicator_type :: indicator_type
  io_original_display_value :: string
  io_normalized_value :: string
  io_source_document_id :: uuid
  io_start_offset :: nat
  io_end_offset :: nat
  io_context :: string
  io_extraction_rule :: string
  io_validation_state :: indicator_validation_state
  io_suppression_reason :: "string option"

definition IndicatorObservation :: "indicator_observation \<Rightarrow> indicator_observation result" where
  "IndicatorObservation ob =
     rbind (nonblank (io_original_display_value ob)) (\<lambda>display.
     rbind (nonblank (io_normalized_value ob)) (\<lambda>normalized.
     rbind (nonblank (io_extraction_rule ob)) (\<lambda>rule.
     rbind (check (1 \<le> io_end_offset ob) ''end_offset'') (\<lambda>_.
     rbind (check (io_start_offset ob < io_end_offset ob)
              ''end_offset must be greater than start_offset'') (\<lambda>_.
     rbind (check (if io_validation_state ob = IV_SUPPRESSED
                   then io_suppression_reason ob \<noteq> None \<and> io_suppression_reason ob \<noteq> Some []
                   else io_suppression_reason ob = None) ''suppression_reason'') (\<lambda>_.
       Inr (ob\<lparr>io_original_display_value := display, io_normalized_value := normalized,
              io_context := strip (io_context ob), io_extraction_rule := rule\<rparr>)))))))"

record cve_candidate =
  cc_candidate_id :: uuid
  cc_original_display_value :: string
  cc_normalized_value :: string
  cc_source_document_id :: uuid
  cc_start_offset :: nat
  cc_end_offset :: nat
  cc_context :: string
  cc_extraction_rule :: string
  cc_validation_state :: indicator_validation_state

definition CveCandidate :: "cve_candidate \<Rightarrow> cve_candidate result" where
  "CveCandidate c =
     rbind (nonblank (cc_original_display_value c)) (\<lambda>display.
     rbind (check (fullmatch cve_re (strip (cc_normalized_value c))) ''normalized_value'') (\<lambda>_.
     rbind (nonblank (cc_extraction_rule c)) (\<lambda>rule.
     rbind (check (1 \<le> cc_end_offset c) ''end_offset'') (\<lambda>_.
     rbind (check (cc_start_offset c < cc_end_offset c)
              ''end_offset must be greater than start_offset'') (\<lambda>_.
     rbind (check (cc_validation_state c = IV_VALIDATED) ''CVE candidates must be validated'') (\<lambda>_.
       Inr (c\<lparr>cc_original_display_value := display,
              cc_normalized_value := strip (cc_normalized_value c),
              cc_context := strip (cc_context c), cc_extraction_rule := rule\<rparr>)))))))"

record extraction_result =
  xr_source_document_id :: uuid
  xr_observations :: "indicator_observation list"
  xr_cve_candidates :: "cve_candidate list"
  xr_suppressed_observations :: "indicator_observation list"

section \<open>Refanging\<close>

definition refang_tail :: re where
  "refang_tail = alts (map lit [''://'', ''[:]'', ''[://]'', ''(:)'', ''(://)'', ''{:}'', ''{://}''])"

definition refang_patterns :: "(re \<times> string) list" where
  "refang_patterns = [
     (Seq (ilit ''hxxps'') (Ahead refang_tail), ''https''),
     (Seq (ilit ''hxxp'') (Ahead refang_tail), ''http''),
     (alts (map lit [''[://]'', ''(://)'', ''{://}'']), ''://''),
     (alts (map lit [''[:]'', ''(:)'', ''{:}'']), '':''),
     (alts (map lit [''[.]'', ''(.)'', ''{.}'', ''<.>'']), ''.''),
     (alts (map lit [''[@]'', ''(@)'', ''{@}'']), ''@''),
     (alts (map lit [''[-]'', ''(-)'', ''{-}'']), ''-'')]"

text \<open>The transformed text: each character with the start and end of its origin.\<close>

type_synonym mapped_text = "(char \<times> nat \<times> nat) list"

fun first_refang :: "(re \<times> string) list \<Rightarrow> string \<Rightarrow> string \<Rightarrow> (found \<times> string) option" where
  "first_refang [] b a = None"
| "first_refang ((p, replacement) # ps) b a =
     (case match_at p b a of Some m \<Rightarrow> Some (m, replacement) | None \<Rightarrow> first_refang ps b a)"

fun refang_from :: "nat \<Rightarrow> string \<Rightarrow> string \<Rightarrow> mapped_text" where
  "refang_from skip b [] = []"
| "refang_from (Suc k) b (c # cs) = refang_from k (c # b) cs"
| "refang_from 0 b (c # cs) =
     (case first_refang refang_patterns b (c # cs) of
        None \<Rightarrow> (c, length b, length b + 1) # refang_from 0 (c # b) cs
      | Some (m, replacement) \<Rightarrow>
          map (\<lambda>d. (d, fd_start m, fd_end m)) replacement
          @ refang_from (fd_end m - fd_start m - 1) (c # b) cs)"

definition refang :: "string \<Rightarrow> mapped_text" where
  "refang s = refang_from 0 [] s"

definition mapped :: "mapped_text \<Rightarrow> string" where
  "mapped m = map fst m"

definition refang_text :: "string \<Rightarrow> string" where
  "refang_text s = mapped (refang s)"

definition original_span :: "mapped_text \<Rightarrow> nat \<Rightarrow> nat \<Rightarrow> (nat \<times> nat) option" where
  "original_span m s e =
     (if e \<le> s \<or> length m < e then None
      else Some (fst (snd (m ! s)), snd (snd (m ! (e - 1)))))"

section \<open>Trimming\<close>

text \<open>The Unicode categories \<open>P*\<close> below 256.\<close>

definition is_punctuation :: "char \<Rightarrow> bool" where
  "is_punctuation c = (code c \<in> set [33, 34, 35, 37, 38, 39, 40, 41, 42, 44, 45, 46, 47, 58, 59,
     63, 64, 91, 92, 93, 95, 123, 125, 161, 167, 171, 182, 183, 187, 191])"

definition trailing_punctuation :: "char \<Rightarrow> bool" where
  "trailing_punctuation c = (code c \<in> set [46, 44, 59, 33, 63, 39, 34]
     \<or> is_punctuation c \<and> code c \<notin> set [58, 47, 35])"

definition slice :: "string \<Rightarrow> nat \<Rightarrow> nat \<Rightarrow> string" where
  "slice t s e = take (e - s) (drop s t)"

definition unbalanced :: "char \<Rightarrow> char \<Rightarrow> string \<Rightarrow> bool" where
  "unbalanced opening closing w = (last w = closing \<and>
     count_list w opening < count_list w closing)"

function trim_while :: "(string \<Rightarrow> bool) \<Rightarrow> string \<Rightarrow> nat \<Rightarrow> nat \<Rightarrow> nat" where
  "trim_while p t s e = (if s < e \<and> p (slice t s e) then trim_while p t s (e - 1) else e)"
  by pat_completeness auto
termination by (relation "measure (\<lambda>(p, t, s, e). e)") auto

declare trim_while.simps [simp del]

definition trim_candidate :: "string \<Rightarrow> nat \<Rightarrow> nat \<Rightarrow> nat \<times> nat" where
  "trim_candidate t s e =
     (let e = trim_while (\<lambda>w. trailing_punctuation (last w)) t s e;
          e = trim_while (unbalanced (CHR ''('') (CHR '')'')) t s e;
          e = trim_while (unbalanced (CHR ''['') (CHR '']'')) t s e
      in (s, e))"

section \<open>Normalisation of candidates\<close>

definition is_ascii :: "string \<Rightarrow> bool" where
  "is_ascii s = list_all (\<lambda>c. code c < 128) s"

text \<open>\<open>s.encode("idna")\<close>: \<open>None\<close> is \<open>UnicodeError\<close>.\<close>

definition idna_encode :: "(string \<Rightarrow> string option) \<Rightarrow> string \<Rightarrow> string option" where
  "idna_encode punycode s =
     (if \<not> is_ascii s then punycode s
      else (let labels = split_on (CHR ''.'') s in
        if list_ex (\<lambda>l. l = [] \<or> 64 \<le> length l) (butlast labels) \<or> 64 \<le> length (last labels)
        then None else Some s))"

definition idna_domain :: "(string \<Rightarrow> string option) \<Rightarrow> string \<Rightarrow> string option" where
  "idna_domain punycode value = (case idna_encode punycode (rstrip_dots (strip value)) of
     None \<Rightarrow> None
   | Some enc \<Rightarrow>
       (let d = lower enc; labels = split_on (CHR ''.'') d in
        if 253 < length d
           \<or> list_ex (\<lambda>l. l = [] \<or> 63 < length l \<or> hd l = CHR ''-'' \<or> last l = CHR ''-''
                          \<or> \<not> fullmatch (plus1 (Chr ldh)) l) labels
           \<or> length (last labels) < 2
        then None else Some d))"

definition normalize_url_candidate :: "(string \<Rightarrow> string option) \<Rightarrow> string \<Rightarrow> string option" where
  "normalize_url_candidate punycode value = (case urlsplit value of
     None \<Rightarrow> None
   | Some parsed \<Rightarrow>
       if su_scheme parsed \<notin> {''http'', ''https''} \<or> url_has_userinfo parsed then None
       else (case url_hostname parsed of
           None \<Rightarrow> None
         | Some hostname \<Rightarrow>
             (case (case ip_address hostname of
                      Some (V4 n) \<Rightarrow> Some (ip_str (V4 n))
                    | Some (V6 n z) \<Rightarrow> Some (''['' @ ip_str (V6 n z) @ '']'')
                    | None \<Rightarrow> idna_domain punycode hostname) of
                None \<Rightarrow> None
              | Some host \<Rightarrow>
                  (case url_port parsed of
                     None \<Rightarrow> None
                   | Some port \<Rightarrow>
                       if (case port of None \<Rightarrow> False | Some p \<Rightarrow> \<not> (1 \<le> p \<and> p \<le> 65535)) then None
                       else Some (urlunsplit (parsed\<lparr>su_netloc := host @
                              (case port of None \<Rightarrow> [] | Some p \<Rightarrow> '':'' @ int_str p)\<rparr>))))))"

definition normalize_email :: "(string \<Rightarrow> string option) \<Rightarrow> string \<Rightarrow> string option" where
  "normalize_email punycode value = (case rpartition_at (CHR ''@'') value of
     (local_part, separator, domain) \<Rightarrow>
       if \<not> separator \<or> local_part = [] \<or> CHR '' '' \<in> set local_part then None
       else map_option (\<lambda>d. lower local_part @ ''@'' @ d) (idna_domain punycode domain))"

definition documentation_nets4 :: "(int \<times> nat) list" where
  "documentation_nets4 = [(quad 192 0 2 0, 24), (quad 198 51 100 0, 24), (quad 203 0 113 0, 24)]"

fun is_documentation :: "ip \<Rightarrow> bool" where
  "is_documentation (V4 n) = list_ex (in_net 32 n) documentation_nets4"
| "is_documentation (V6 n z) = in_net 128 n (top16 [0x2001, 0xdb8], 32)"

definition ip_classification :: "ip \<Rightarrow> ip_exclusion_class option" where
  "ip_classification a =
     (if is_documentation a then Some IX_DOCUMENTATION
      else if is_unspecified a then Some IX_UNSPECIFIED
      else if is_loopback a then Some IX_LOOPBACK
      else if is_multicast a then Some IX_MULTICAST
      else if is_link_local a then Some IX_LINK_LOCAL
      else if is_reserved a then Some IX_RESERVED
      else if is_private a then Some IX_PRIVATE
      else None)"

definition context_of :: "string \<Rightarrow> nat \<Rightarrow> nat \<Rightarrow> int \<Rightarrow> string" where
  "context_of t s e width = (if width = 0 then []
     else slice t (s - nat width) (min (length t) (e + nat width)))"

definition suppressed_by_value :: "extraction_config \<Rightarrow> string \<Rightarrow> (string \<times> string option) option" where
  "suppressed_by_value c n =
     Some (n, if n \<in> set (xc_suppressed_values c) then Some ''suppressed_value'' else None)"

definition candidate_address :: "nat \<Rightarrow> string \<Rightarrow> extraction_config \<Rightarrow> (string \<times> string option) option" where
  "candidate_address version raw c = (case ip_address raw of
     None \<Rightarrow> None
   | Some a \<Rightarrow> if ip_version a \<noteq> version then None
       else (case ip_classification a of
           Some k \<Rightarrow> if k \<in> set (xc_excluded_ip_classes c)
             then Some (ip_str a, Some (''excluded_ip_'' @ ip_exclusion_class_value k))
             else suppressed_by_value c (ip_str a)
         | None \<Rightarrow> suppressed_by_value c (ip_str a)))"

definition candidate_hash :: "string \<Rightarrow> extraction_config \<Rightarrow> (string \<times> string option) option" where
  "candidate_hash raw c =
     (let n = lower raw in
      if length (dedup n) = 1 \<or> (\<not> list_ex is_digit n \<and> set n \<subseteq> set ''abcdef'') then None
      else suppressed_by_value c n)"

text \<open>\<open>_candidate_value\<close>: \<open>None\<close> is \<open>ValueError\<close>.\<close>

fun candidate_value :: "(string \<Rightarrow> string option) \<Rightarrow> indicator_type \<Rightarrow> string \<Rightarrow> extraction_config
    \<Rightarrow> (string \<times> string option) option" where
  "candidate_value punycode IT_URL raw c = (case normalize_url_candidate punycode raw of
     None \<Rightarrow> None
   | Some n \<Rightarrow> (case Option.bind (urlsplit n) url_hostname of
        Some h \<Rightarrow> if h \<in> set (xc_suppressed_domains c) then Some (n, Some ''suppressed_domain'')
                  else suppressed_by_value c n
      | None \<Rightarrow> suppressed_by_value c n))"
| "candidate_value punycode IT_DOMAIN raw c = (case idna_domain punycode raw of
     None \<Rightarrow> None
   | Some n \<Rightarrow> if n \<in> set (xc_suppressed_domains c)
          \<or> list_ex (\<lambda>d. suffix (''.'' @ d) n) (xc_suppressed_domains c)
        then Some (n, Some ''suppressed_domain'') else suppressed_by_value c n)"
| "candidate_value punycode IT_EMAIL raw c = Option.bind (normalize_email punycode raw) (suppressed_by_value c)"
| "candidate_value punycode IT_IPV4 raw c = candidate_address 4 raw c"
| "candidate_value punycode IT_IPV6 raw c = candidate_address 6 raw c"
| "candidate_value punycode IT_SHA256 raw c = candidate_hash raw c"
| "candidate_value punycode IT_SHA1 raw c = candidate_hash raw c"
| "candidate_value punycode IT_MD5 raw c = candidate_hash raw c"
| "candidate_value punycode IT_FILE_PATH raw c =
     (if CHR 0x00 \<in> set (strip raw) then None else suppressed_by_value c (strip raw))"
| "candidate_value punycode IT_REGISTRY_PATH raw c =
     (if CHR 0x00 \<in> set (strip raw) then None else suppressed_by_value c (strip raw))"
| "candidate_value punycode IT_CVE raw c = None"

section \<open>Patterns\<close>

definition word_or :: "string \<Rightarrow> char \<Rightarrow> bool" where
  "word_or cs c = (is_word c \<or> c \<in> set cs)"

definition wide :: "char \<Rightarrow> bool" where
  "wide c = (is_alpha c \<or> is_digit c \<or> 128 \<le> code c)"

definition wide_letter :: "char \<Rightarrow> bool" where
  "wide_letter c = (is_alpha c \<or> 128 \<le> code c)"

definition wide_dash :: "char \<Rightarrow> bool" where
  "wide_dash c = (wide c \<or> c = CHR ''-'')"

definition not_delimiter :: "string \<Rightarrow> char \<Rightarrow> bool" where
  "not_delimiter cs c = (\<not> is_space c \<and> c \<notin> set cs \<and> code c \<noteq> 34 \<and> code c \<noteq> 39)"

definition url_re :: re where
  "url_re = seqs [NotBehind is_word, ilit ''http'', opt (ilit ''s''), lit ''://'',
     plus1 (Chr (\<lambda>c. not_delimiter ''<>'' c \<and> code c \<noteq> 96))]"

definition email_local :: "char \<Rightarrow> bool" where
  "email_local c = (is_alpha c \<or> is_digit c \<or> c \<in> set ''.!#$%&*+/=?^_{|}~-''
     \<or> code c = 39 \<or> code c = 96)"

definition email_candidate_re :: re where
  "email_candidate_re = seqs [NotBehind (word_or ''.+-''), plus1 (Chr email_local), lit ''@'',
     plus1 (Seq (plus1 (Chr wide_dash)) (lit ''.'')), Rep 2 (Some 63) (Chr wide_letter),
     NotAhead (Chr (word_or ''.-''))]"

definition domain_tail :: re where
  "domain_tail = opt (Seq (Rep 0 (Some 61) (Chr wide_dash)) (Chr wide))"

definition domain_candidate_re :: re where
  "domain_candidate_re = seqs [NotBehind (word_or ''@.-''),
     plus1 (seqs [Chr wide, domain_tail, lit ''.'']), Chr wide_letter, domain_tail,
     NotAhead (Chr (word_or ''.-''))]"

definition ipv4_re :: re where
  "ipv4_re = seqs [NotBehind (word_or ''.''),
     times 3 (Seq (Rep 1 (Some 3) (Chr is_digit)) (lit ''.'')), Rep 1 (Some 3) (Chr is_digit),
     NotAhead (Chr (word_or ''.''))]"

definition alnum_colon :: "char \<Rightarrow> bool" where
  "alnum_colon c = (is_alpha c \<or> is_digit c \<or> c = CHR '':'')"

definition ipv6_re :: re where
  "ipv6_re = seqs [NotBehind alnum_colon,
     alts [lit ''::1'', lit ''::'',
       Seq (Rep 2 (Some 7) (Seq (Rep 0 (Some 4) (Chr is_hex)) (lit '':''))) (Rep 0 (Some 4) (Chr is_hex))],
     NotAhead (Chr alnum_colon)]"

definition hash_re :: "nat \<Rightarrow> re" where
  "hash_re n = seqs [NotBehind is_hex, times n (Chr is_hex), NotAhead (Chr is_hex)]"

definition cve_separator :: "char \<Rightarrow> bool" where
  "cve_separator c = (is_space c \<or> c = CHR ''_'' \<or> c = CHR ''-'')"

definition cve_candidate_re :: re where
  "cve_candidate_re = seqs [NotBehind (\<lambda>c. is_alpha c \<or> is_digit c), ilit ''CVE'',
     opt (Chr cve_separator), Grp 1 (times 4 (Chr is_digit)), Chr cve_separator,
     Grp 2 (Rep 4 None (Chr is_digit)), NotAhead (Chr is_digit)]"

definition registry_re :: re where
  "registry_re = seqs [NotBehind is_word,
     alts [ilit ''HKLM'', ilit ''HKCU'', ilit ''HKCR'', ilit ''HKU'', ilit ''HKCC'',
       Seq (ilit ''HKEY_'') (plus1 (Chr (\<lambda>c. is_alpha c \<or> c = CHR ''_'')))],
     Chr (\<lambda>c. code c = 92), plus1 (Chr (not_delimiter ''<>''))]"

definition windows_path_re :: re where
  "windows_path_re = (let bs = Chr (\<lambda>c. code c = 92) in
     seqs [NotBehind is_word, Alt (seqs [Chr is_upper, lit '':'', bs]) (Seq bs bs),
       plus1 (Chr (not_delimiter ''<>''))])"

definition path_char :: "char \<Rightarrow> bool" where
  "path_char c = (is_alpha c \<or> is_digit c \<or> c \<in> set ''._~-'')"

definition posix_path_re :: re where
  "posix_path_re = seqs [NotBehind is_word, lit ''/'',
     plus1 (Seq (plus1 (Chr path_char)) (lit ''/'')), plus1 (Chr path_char)]"

section \<open>Candidates\<close>

record candidate =
  ca_indicator_type :: indicator_type
  ca_start :: nat
  ca_end :: nat
  ca_normalized_value :: string
  ca_extraction_rule :: string
  ca_transformed_start :: nat
  ca_transformed_end :: nat
  ca_suppressed_reason :: "string option"

fun candidate_priority :: "indicator_type \<Rightarrow> nat" where
  "candidate_priority IT_URL = 0"
| "candidate_priority IT_EMAIL = 1"
| "candidate_priority IT_REGISTRY_PATH = 2"
| "candidate_priority IT_FILE_PATH = 3"
| "candidate_priority IT_IPV6 = 4"
| "candidate_priority IT_IPV4 = 5"
| "candidate_priority IT_DOMAIN = 6"
| "candidate_priority IT_SHA256 = 7"
| "candidate_priority IT_SHA1 = 8"
| "candidate_priority IT_MD5 = 9"
| "candidate_priority IT_CVE = 10"

definition candidate_span :: "mapped_text \<Rightarrow> found \<Rightarrow> (nat \<times> nat \<times> nat \<times> nat) option" where
  "candidate_span m f =
     (case trim_candidate (mapped m) (fd_start f) (fd_end f) of (ts, te) \<Rightarrow>
        if te \<le> ts then None
        else map_option (\<lambda>(s, e). (s, e, ts, te)) (original_span m ts te))"

definition make_candidate :: "(string \<Rightarrow> string option) \<Rightarrow> extraction_config \<Rightarrow> mapped_text
    \<Rightarrow> indicator_type \<Rightarrow> string \<Rightarrow> bool \<Rightarrow> found \<Rightarrow> candidate option" where
  "make_candidate punycode c m t rule untrimmed f = (case candidate_span m f of
     None \<Rightarrow> None
   | Some (s, e, ts, te) \<Rightarrow>
       map_option (\<lambda>(normalized, reason).
          \<lparr>ca_indicator_type = t, ca_start = s, ca_end = e, ca_normalized_value = normalized,
           ca_extraction_rule = rule, ca_transformed_start = ts, ca_transformed_end = te,
           ca_suppressed_reason = reason\<rparr>)
         (candidate_value punycode t
            (if untrimmed then slice (mapped m) (fd_start f) (fd_end f) else slice (mapped m) ts te) c))"

definition patterns :: "(indicator_type \<times> re \<times> string) list" where
  "patterns = [(IT_URL, url_re, ''url-http-parser''),
     (IT_EMAIL, email_candidate_re, ''email-rfc5322-like''),
     (IT_REGISTRY_PATH, registry_re, ''windows-registry-path''),
     (IT_FILE_PATH, windows_path_re, ''windows-file-path''),
     (IT_FILE_PATH, posix_path_re, ''posix-file-path''),
     (IT_IPV6, ipv6_re, ''ipv6-ipaddress''),
     (IT_IPV4, ipv4_re, ''ipv4-ipaddress''),
     (IT_DOMAIN, domain_candidate_re, ''domain-idna'')]"

definition hash_patterns :: "(indicator_type \<times> re \<times> string) list" where
  "hash_patterns = map (\<lambda>(t, n). (t, hash_re n, indicator_type_value t @ ''-hex-length''))
     [(IT_SHA256, 64), (IT_SHA1, 40), (IT_MD5, 32)]"

definition enabled_type :: "extraction_config \<Rightarrow> indicator_type \<Rightarrow> bool" where
  "enabled_type c t = (\<not> (t = IT_EMAIL \<and> \<not> xc_extract_email c)
     \<and> \<not> (t = IT_FILE_PATH \<and> \<not> xc_extract_file_paths c)
     \<and> \<not> (t = IT_REGISTRY_PATH \<and> \<not> xc_extract_registry_paths c))"

definition collect_candidates :: "(string \<Rightarrow> string option) \<Rightarrow> mapped_text \<Rightarrow> extraction_config
    \<Rightarrow> candidate list" where
  "collect_candidates punycode m c =
     concat (map (\<lambda>(t, r, rule). List.map_filter (make_candidate punycode c m t rule False)
                    (finditer r (mapped m)))
              (filter (\<lambda>(t, _). enabled_type c t) patterns))
     @ concat (map (\<lambda>(t, r, rule). List.map_filter (make_candidate punycode c m t rule True)
                    (finditer r (mapped m))) hash_patterns)"

definition selection_order :: "candidate \<Rightarrow> nat \<times> nat \<times> int" where
  "selection_order a = (ca_start a, candidate_priority (ca_indicator_type a),
     - (int (ca_end a) - int (ca_start a)))"

text \<open>\<open>candidate is not url\<close> compares identities: candidates carry their index.\<close>

definition contained_in :: "(nat \<times> candidate) list \<Rightarrow> nat \<times> candidate \<Rightarrow> bool" where
  "contained_in outer x = list_ex (\<lambda>u.
     ca_transformed_start (snd u) \<le> ca_transformed_start (snd x)
     \<and> ca_transformed_end (snd x) \<le> ca_transformed_end (snd u) \<and> fst x \<noteq> fst u) outer"

definition overlaps :: "candidate \<Rightarrow> candidate \<Rightarrow> bool" where
  "overlaps a b = (ca_transformed_start a < ca_transformed_end b
     \<and> ca_transformed_start b < ca_transformed_end a
     \<and> ca_indicator_type a \<noteq> ca_indicator_type b)"

definition identity_of :: "candidate \<Rightarrow> indicator_type \<times> string" where
  "identity_of a = (ca_indicator_type a, ca_normalized_value a)"

fun select_from :: "(nat \<times> candidate) list \<Rightarrow> (nat \<times> candidate) list \<Rightarrow> candidate list
    \<Rightarrow> candidate list" where
  "select_from outer [] selected = selected"
| "select_from outer (x # xs) selected =
     (if contained_in outer x then select_from outer xs selected
      else if identity_of (snd x) \<in> set (map identity_of selected) then select_from outer xs selected
      else if list_ex (overlaps (snd x)) selected then select_from outer xs selected
      else select_from outer xs (selected @ [snd x]))"

definition select_candidates :: "candidate list \<Rightarrow> candidate list" where
  "select_candidates candidates =
     (let ordered = zip [0..<length candidates] (sort_key selection_order candidates);
          outer = filter (\<lambda>u. ca_indicator_type (snd u) \<in> {IT_URL, IT_EMAIL}) ordered
      in select_from outer ordered [])"

section \<open>Documents\<close>

record source_document =
  sd_source_document_id :: uuid
  sd_source_id :: string
  sd_raw_artifact_id :: uuid
  sd_external_source_id :: "string option"
  sd_canonical_url :: string
  sd_title :: string
  sd_authors :: "string list"
  sd_published_at :: "instant option"
  sd_updated_at_source :: "instant option"
  sd_retrieved_at :: instant
  sd_content_type :: string
  sd_normalized_text :: string
  sd_sanitized_summary :: "string option"
  sd_language :: "string option"
  sd_document_type :: document_type
  sd_normalized_content_hash :: string
  sd_supersedes_id :: "uuid option"
  sd_parse_version :: string

datatype extraction_exn = ExtractionLimitError | ContractError py_error

definition group_text :: "nat \<Rightarrow> found \<Rightarrow> string" where
  "group_text n f = (case group n f of None \<Rightarrow> ''None'' | Some s \<Rightarrow> s)"

definition cve_of_match :: "(string \<Rightarrow> uuid) \<Rightarrow> source_document \<Rightarrow> mapped_text \<Rightarrow> extraction_config
    \<Rightarrow> found \<Rightarrow> string \<Rightarrow> nat \<times> nat \<Rightarrow> cve_candidate result" where
  "cve_of_match uuid5 d m c f normalized se =
     CveCandidate \<lparr>cc_candidate_id = uuid5 (''cve-candidate:'' @ sd_source_document_id d @ '':'' @ normalized),
       cc_original_display_value = slice (sd_normalized_text d) (fst se) (snd se),
       cc_normalized_value = normalized, cc_source_document_id = sd_source_document_id d,
       cc_start_offset = fst se, cc_end_offset = snd se,
       cc_context = context_of (sd_normalized_text d) (fst se) (snd se) (xc_context_chars c),
       cc_extraction_rule = ''cve-id-format'', cc_validation_state = IV_VALIDATED\<rparr>"

fun cves_from :: "(string \<Rightarrow> uuid) \<Rightarrow> source_document \<Rightarrow> mapped_text \<Rightarrow> extraction_config
    \<Rightarrow> found list \<Rightarrow> string list \<Rightarrow> cve_candidate list" where
  "cves_from uuid5 d m c [] seen = []"
| "cves_from uuid5 d m c (f # fs) seen =
     (case candidate_span m f of
        None \<Rightarrow> cves_from uuid5 d m c fs seen
      | Some (s, e, ts, te) \<Rightarrow>
          (let normalized = upper (''CVE-'' @ group_text 1 f @ ''-'' @ group_text 2 f) in
           if normalized \<in> set seen then cves_from uuid5 d m c fs seen
           else (case cve_of_match uuid5 d m c f normalized (s, e) of
               Inl _ \<Rightarrow> cves_from uuid5 d m c fs (normalized # seen)
             | Inr x \<Rightarrow> x # cves_from uuid5 d m c fs (normalized # seen))))"

definition extract_cves :: "(string \<Rightarrow> uuid) \<Rightarrow> source_document \<Rightarrow> mapped_text \<Rightarrow> extraction_config
    \<Rightarrow> cve_candidate list" where
  "extract_cves uuid5 d m c =
     sort_key (\<lambda>x. (cc_start_offset x, cc_normalized_value x))
       (cves_from uuid5 d m c (finditer cve_candidate_re (mapped m)) [])"

definition observation_of_candidate :: "(string \<Rightarrow> uuid) \<Rightarrow> source_document \<Rightarrow> extraction_config
    \<Rightarrow> candidate \<Rightarrow> indicator_observation result" where
  "observation_of_candidate uuid5 d c a =
     IndicatorObservation
      \<lparr>io_observation_id = uuid5 (''indicator-observation:'' @ sd_source_document_id d @ '':''
          @ indicator_type_value (ca_indicator_type a) @ '':'' @ ca_normalized_value a),
       io_indicator_type = ca_indicator_type a,
       io_original_display_value = slice (sd_normalized_text d) (ca_start a) (ca_end a),
       io_normalized_value = ca_normalized_value a,
       io_source_document_id = sd_source_document_id d,
       io_start_offset = ca_start a, io_end_offset = ca_end a,
       io_context = context_of (sd_normalized_text d) (ca_start a) (ca_end a) (xc_context_chars c),
       io_extraction_rule = ca_extraction_rule a,
       io_validation_state = (if ca_suppressed_reason a \<noteq> None then IV_SUPPRESSED else IV_VALIDATED),
       io_suppression_reason = ca_suppressed_reason a\<rparr>"

definition extract_document :: "(string \<Rightarrow> string option) \<Rightarrow> (string \<Rightarrow> uuid) \<Rightarrow> source_document
    \<Rightarrow> extraction_config option \<Rightarrow> extraction_exn + extraction_result" where
  "extract_document punycode uuid5 d config =
     (let policy = (case config of None \<Rightarrow> default_extraction_config | Some c \<Rightarrow> c);
          t = sd_normalized_text d in
      if xc_max_input_chars policy < int (length t) then Inl ExtractionLimitError
      else (let m = refang t;
                candidates = select_candidates (collect_candidates punycode m policy)
        in case traverse (observation_of_candidate uuid5 d policy) candidates of
             Inl e \<Rightarrow> Inl (ContractError e)
           | Inr obs \<Rightarrow> Inr \<lparr>xr_source_document_id = sd_source_document_id d,
               xr_observations = filter (\<lambda>ob. io_validation_state ob \<noteq> IV_SUPPRESSED) obs,
               xr_cve_candidates = extract_cves uuid5 d m policy,
               xr_suppressed_observations = filter (\<lambda>ob. io_validation_state ob = IV_SUPPRESSED) obs\<rparr>))"

end
