(* ===== verification/Extraction_Facts.thy ===== *)
theory Extraction_Facts
  imports Ioc_Extraction
begin

text \<open>Properties of extraction: evidence spans, trimming, and the selection of
  candidates.\<close>

section \<open>Spans of refanged text\<close>

lemma first_refang_spans:
  "first_refang ps b a = Some (m, rep) \<Longrightarrow> fd_start m = length b \<and> fd_start m \<le> fd_end m \<and>
     fd_end m \<le> length b + length a"
  by (induction ps b a rule: first_refang.induct)
    (auto split: option.splits dest!: match_at_spans simp: spans_def)

lemma refang_pattern_nonempty: "(p, rep) \<in> set refang_patterns \<Longrightarrow> [] \<notin> lang p"
  by (auto simp: refang_patterns_def alts_def ilit_def)

lemma first_refang_nonempty:
  assumes "first_refang ps b a = Some (m, rep)" "set ps \<subseteq> set refang_patterns"
  shows "fd_start m < fd_end m"
  using assms
proof (induction ps b a rule: first_refang.induct)
  case (2 p replacement ps b a)
  show ?case
  proof (cases "match_at p b a")
    case None
    with 2 show ?thesis by simp
  next
    case (Some m')
    with 2 have "m' = m" "[] \<notin> lang p" using refang_pattern_nonempty by auto
    with match_at_spans [OF Some] show ?thesis
      by (cases "fd_start m < fd_end m") (auto simp: spans_def)
  qed
qed simp

text \<open>The origins of a transformed text: in range, non-empty, and in order.\<close>

definition origins_ok :: "nat \<Rightarrow> nat \<Rightarrow> mapped_text \<Rightarrow> bool" where
  "origins_ok lo hi m = ((\<forall>(c, s, e) \<in> set m. lo \<le> s \<and> s < e \<and> e \<le> hi) \<and>
     sorted_wrt (\<lambda>x y. fst (snd x) \<le> fst (snd y) \<and> snd (snd x) \<le> snd (snd y)) m)"

lemma refang_from_origins:
  "origins_ok (length b + min k (length a)) (length b + length a) (refang_from k b a)"
proof (induction k b a rule: refang_from.induct)
  case (1 skip b)
  show ?case by (simp add: origins_ok_def)
next
  case (2 k b c cs)
  then show ?case by simp
next
  case (3 b c cs)
  show ?case
  proof (cases "first_refang refang_patterns b (c # cs)")
    case None
    with 3(1) show ?thesis by (fastforce simp: origins_ok_def)
  next
    case (Some mr)
    obtain m rep where mr: "mr = (m, rep)" by (cases mr)
    note sp = first_refang_spans [OF Some [unfolded mr]]
    note ne = first_refang_nonempty [OF Some [unfolded mr] subset_refl]
    have IH: "origins_ok (length (c # b) + min (fd_end m - fd_start m - 1) (length cs))
        (length (c # b) + length cs) (refang_from (fd_end m - fd_start m - 1) (c # b) cs)"
      using 3(2) Some mr by simp
    have eq: "length (c # b) + min (fd_end m - fd_start m - 1) (length cs) = fd_end m"
      using sp ne by (auto simp: min_def)
    have "origins_ok (fd_start m) (fd_end m) (map (\<lambda>d. (d, fd_start m, fd_end m)) rep)"
      using ne by (auto simp: origins_ok_def sorted_wrt_map intro!: sorted_wrt_mono_rel [of _ "\<lambda>_ _. True"])
    then show ?thesis using IH sp ne Some mr unfolding eq
      by (fastforce simp: origins_ok_def sorted_wrt_append)
  qed
qed

lemma refang_origins: "origins_ok 0 (length s) (refang s)"
  using refang_from_origins [of "[]" 0 s] by (simp add: refang_def)

lemma original_span_ok:
  assumes "origins_ok lo hi m" "original_span m ts te = Some (s, e)"
  shows "lo \<le> s \<and> s < e \<and> e \<le> hi"
proof -
  from assms(2) have r: "ts < te" "te \<le> length m" "s = fst (snd (m ! ts))" "e = snd (snd (m ! (te - 1)))"
    by (auto simp: original_span_def split: if_splits)
  from r have "m ! ts \<in> set m" "m ! (te - 1) \<in> set m" by auto
  moreover have "lo \<le> fst (snd x) \<and> fst (snd x) < snd (snd x) \<and> snd (snd x) \<le> hi"
    if "x \<in> set m" for x using assms(1) that by (cases x) (auto simp: origins_ok_def)
  ultimately have b: "lo \<le> fst (snd (m ! ts))" "fst (snd (m ! ts)) < snd (snd (m ! ts))"
    "snd (snd (m ! (te - 1))) \<le> hi" by blast+
  have "snd (snd (m ! ts)) \<le> snd (snd (m ! (te - 1)))"
  proof (cases "ts = te - 1")
    case False
    with r have "ts < te - 1" "te - 1 < length m" by auto
    then show ?thesis using assms(1) by (auto simp: origins_ok_def sorted_wrt_iff_nth_less)
  qed simp
  with b r show ?thesis by linarith
qed

text \<open>Refanging never loses its evidence: every non-empty span of the transformed text
  maps to a non-empty span inside the original document, and later characters never map
  before earlier ones.\<close>

theorem refang_spans_valid:
  assumes "ts < te" and "te \<le> length (refang_text s)"
  shows "\<exists>a b. original_span (refang s) ts te = Some (a, b) \<and> a < b \<and> b \<le> length s \<and>
     (\<forall>ts' te'. te \<le> ts' \<and> ts' < te' \<and> te' \<le> length (refang_text s) \<longrightarrow>
        (\<exists>a' b'. original_span (refang s) ts' te' = Some (a', b') \<and> a \<le> a' \<and> b \<le> b'))"
proof -
  let ?m = "refang s"
  have o: "origins_ok 0 (length s) ?m" by (rule refang_origins)
  have len: "length (refang_text s) = length ?m" by (simp add: refang_text_def mapped_def)
  obtain a b where ab: "original_span ?m ts te = Some (a, b)"
    using assms by (simp add: original_span_def len)
  have "a \<le> a' \<and> b \<le> b'" if w: "te \<le> ts'" "ts' < te'" "te' \<le> length ?m"
    and s': "original_span ?m ts' te' = Some (a', b')" for ts' te' a' b'
  proof -
    have "a = fst (snd (?m ! ts))" "b = snd (snd (?m ! (te - 1)))"
      "a' = fst (snd (?m ! ts'))" "b' = snd (snd (?m ! (te' - 1)))"
      using ab s' by (auto simp: original_span_def split: if_splits)
    moreover have "ts < ts'" "te - 1 < te' - 1" "ts' < length ?m" "te' - 1 < length ?m"
      using w assms(1) by auto
    ultimately show ?thesis using o by (auto simp: origins_ok_def sorted_wrt_iff_nth_less)
  qed
  then show ?thesis using ab original_span_ok [OF o ab] len
    by (auto simp: original_span_def)
qed

theorem refang_spans_valid_witness:
  "refang_text ''hxxp[:]//a[.]b'' = ''http://a.b'' \<and>
   (\<exists>a b. original_span (refang ''hxxp[:]//a[.]b'') 4 9 = Some (a, b) \<and> a < b \<and> b \<le> 14)"
proof -
  have t: "refang_text ''hxxp[:]//a[.]b'' = ''http://a.b''" by code_simp
  with refang_spans_valid [of 4 9 "''hxxp[:]//a[.]b''"] show ?thesis by auto
qed

section \<open>Trimming\<close>

lemma trim_while_spec:
  "trim_while p t s e \<le> e \<and> (s \<le> e \<longrightarrow> s \<le> trim_while p t s e) \<and>
     (s < trim_while p t s e \<longrightarrow> \<not> p (slice t s (trim_while p t s e)))"
proof (induction p t s e rule: trim_while.induct)
  case (1 p t s e)
  show ?case
  proof (cases "s < e \<and> p (slice t s e)")
    case True
    then have "trim_while p t s e = trim_while p t s (e - 1)" by (subst trim_while.simps) simp
    with 1 True show ?thesis by auto
  next
    case False
    then have "trim_while p t s e = e" by (subst trim_while.simps) auto
    with False show ?thesis by auto
  qed
qed

lemma trim_while_done: "\<not> (s < e \<and> p (slice t s e)) \<Longrightarrow> trim_while p t s e = e"
  by (subst trim_while.simps) auto

text \<open>Trimming removes every trailing punctuation mark except \<open>: / #\<close> and nothing else;
  in particular the two loops of \<open>_trim_candidate\<close> that balance parentheses and brackets
  never run, because the first loop has already removed a closing one, balanced or not.\<close>

theorem trim_candidate_spec:
  assumes "trim_candidate t s e = (s', e')" and "s \<le> e"
  shows "s' = s \<and> s \<le> e' \<and> e' \<le> e \<and> e' = trim_while (\<lambda>w. trailing_punctuation (last w)) t s e \<and>
     (s < e' \<longrightarrow> \<not> trailing_punctuation (last (slice t s e')))"
proof -
  let ?e = "trim_while (\<lambda>w. trailing_punctuation (last w)) t s e"
  note sp = trim_while_spec [of "\<lambda>w. trailing_punctuation (last w)" t s e]
  have p: "trailing_punctuation (CHR '')'')" "trailing_punctuation (CHR '']'')" by code_simp+
  have "\<not> (s < ?e \<and> unbalanced o' c (slice t s ?e))" if "trailing_punctuation c" for o' c
    using sp that by (auto simp: unbalanced_def)
  then have "trim_while (unbalanced o' c) t s ?e = ?e" if "trailing_punctuation c" for o' c
    using that by (intro trim_while_done) auto
  with p assms sp show ?thesis by (auto simp: trim_candidate_def Let_def)
qed

theorem trim_candidate_spec_witness:
  "trim_candidate ''http://a.b/x_(y)'' 0 16 = (0, 15) \<and>
   \<not> trailing_punctuation (last (slice ''http://a.b/x_(y)'' 0 15))"
proof -
  have t: "trim_candidate ''http://a.b/x_(y)'' 0 16 = (0, 15)" by code_simp
  from trim_candidate_spec [OF t] t show ?thesis by simp
qed

section \<open>Selection\<close>

definition compatible :: "candidate list \<Rightarrow> bool" where
  "compatible xs = (distinct (map identity_of xs) \<and>
     (\<forall>a \<in> set xs. \<forall>b \<in> set xs. \<not> overlaps a b))"

definition rejected :: "(nat \<times> candidate) list \<Rightarrow> candidate list \<Rightarrow> nat \<times> candidate \<Rightarrow> bool" where
  "rejected outer chosen x = (contained_in outer x \<or>
     (\<exists>a \<in> set chosen. identity_of (snd x) = identity_of a \<or> overlaps (snd x) a))"

lemma overlaps_sym: "overlaps a b \<longleftrightarrow> overlaps b a"
  by (auto simp: overlaps_def)

lemma overlaps_irrefl: "\<not> overlaps a a"
  by (simp add: overlaps_def)

lemma select_from_spec:
  assumes "compatible sel"
  shows "compatible (select_from outer xs sel) \<and> (\<exists>ys. select_from outer xs sel = sel @ ys \<and>
       set ys \<subseteq> snd ` set (filter (\<lambda>x. \<not> contained_in outer x) xs)) \<and>
     (\<forall>x \<in> set xs. snd x \<in> set (select_from outer xs sel) \<or>
        rejected outer (select_from outer xs sel) x)"
  using assms
proof (induction xs arbitrary: sel)
  case Nil
  then show ?case by simp
next
  case (Cons x xs)
  show ?case
  proof (cases "contained_in outer x \<or> identity_of (snd x) \<in> set (map identity_of sel)
      \<or> list_ex (overlaps (snd x)) sel")
    case True
    then have eq: "select_from outer (x # xs) sel = select_from outer xs sel" by auto
    have "set sel \<subseteq> set (select_from outer xs sel)" using Cons.IH [OF Cons.prems] by auto
    then have "rejected outer (select_from outer xs sel) x"
      using True by (fastforce simp: rejected_def list_ex_iff)
    with Cons.IH [OF Cons.prems] show ?thesis unfolding eq by (auto 0 4)
  next
    case False
    then have eq: "select_from outer (x # xs) sel = select_from outer xs (sel @ [snd x])" by auto
    have "compatible (sel @ [snd x])"
      using False Cons.prems overlaps_sym overlaps_irrefl
      by (auto simp: compatible_def list_ex_iff)
    from Cons.IH [OF this] False show ?thesis unfolding eq by (auto 0 4)
  qed
qed

definition indexed :: "candidate list \<Rightarrow> (nat \<times> candidate) list" where
  "indexed cs = zip [0..<length cs] (sort_key selection_order cs)"

definition outer_of :: "candidate list \<Rightarrow> (nat \<times> candidate) list" where
  "outer_of cs = filter (\<lambda>u. ca_indicator_type (snd u) \<in> {IT_URL, IT_EMAIL}) (indexed cs)"

text \<open>C13. Selection is sound and complete: no two selected candidates of different types
  overlap and none repeats a type and value; nothing inside a URL or e-mail candidate is
  selected; and every candidate left out is inside such a candidate, repeats a selected
  one, or overlaps a selected one of another type.\<close>

theorem selection_sound_complete:
  "(\<forall>a \<in> set (select_candidates cs). \<forall>b \<in> set (select_candidates cs). \<not> overlaps a b) \<and>
   distinct (map identity_of (select_candidates cs)) \<and>
   set (select_candidates cs) \<subseteq> snd ` set (filter (\<lambda>x. \<not> contained_in (outer_of cs) x) (indexed cs)) \<and>
   (\<forall>x \<in> set (indexed cs). snd x \<in> set (select_candidates cs) \<or>
      rejected (outer_of cs) (select_candidates cs) x)"
proof -
  have eq: "select_candidates cs = select_from (outer_of cs) (indexed cs) []"
    by (simp add: select_candidates_def outer_of_def indexed_def Let_def)
  have "compatible []" by (simp add: compatible_def)
  from select_from_spec [OF this, of "outer_of cs" "indexed cs"] show ?thesis
    unfolding eq compatible_def by auto
qed

definition demo_candidate :: "indicator_type \<Rightarrow> nat \<Rightarrow> nat \<Rightarrow> string \<Rightarrow> candidate" where
  "demo_candidate t s e v = \<lparr>ca_indicator_type = t, ca_start = s, ca_end = e,
     ca_normalized_value = v, ca_extraction_rule = ''r'', ca_transformed_start = s,
     ca_transformed_end = e, ca_suppressed_reason = None\<rparr>"

theorem selection_sound_complete_witness:
  "select_candidates [demo_candidate IT_DOMAIN 7 10 ''a.b'', demo_candidate IT_URL 0 12 ''http://a.b/x'']
     = [demo_candidate IT_URL 0 12 ''http://a.b/x''] \<and>
   distinct (map identity_of (select_candidates
     [demo_candidate IT_DOMAIN 7 10 ''a.b'', demo_candidate IT_URL 0 12 ''http://a.b/x'']))"
proof
  show "select_candidates [demo_candidate IT_DOMAIN 7 10 ''a.b'', demo_candidate IT_URL 0 12 ''http://a.b/x'']
     = [demo_candidate IT_URL 0 12 ''http://a.b/x'']" by code_simp
qed (use selection_sound_complete in blast)

section \<open>Documents\<close>

lemma select_from_subset: "set (select_from outer xs sel) \<subseteq> set sel \<union> snd ` set xs"
proof (induction xs arbitrary: sel)
  case (Cons x xs)
  show ?case using Cons.IH [of sel] Cons.IH [of "sel @ [snd x]"] by auto
qed simp

lemma select_candidates_subset: "set (select_candidates cs) \<subseteq> set cs"
proof
  fix a
  assume "a \<in> set (select_candidates cs)"
  then have "a \<in> snd ` set (zip [0..<length cs] (sort_key selection_order cs))"
    using select_from_subset by (fastforce simp: select_candidates_def Let_def)
  then show "a \<in> set cs" by (auto dest: set_zip_rightD)
qed

lemma make_candidate_span:
  assumes "make_candidate p c m t rule u f = Some a"
  shows "\<exists>ts te. original_span m ts te = Some (ca_start a, ca_end a)"
proof -
  from assms obtain s e ts te where "candidate_span m f = Some (s, e, ts, te)"
    "ca_start a = s" "ca_end a = e"
    by (auto simp: make_candidate_def split: option.splits)
  then show ?thesis by (auto simp: candidate_span_def split: prod.splits if_splits)
qed

lemma set_map_filter: "x \<in> set (List.map_filter f xs) \<longleftrightarrow> (\<exists>y \<in> set xs. f y = Some x)"
  by (induction xs) (auto simp: List.map_filter_simps split: option.splits)

lemma collect_span:
  assumes "a \<in> set (collect_candidates p m c)"
  shows "\<exists>ts te. original_span m ts te = Some (ca_start a, ca_end a)"
  using assms by (auto simp: collect_candidates_def set_map_filter dest!: make_candidate_span)

lemma traverse_elem: "traverse f xs = Inr ys \<Longrightarrow> y \<in> set ys \<Longrightarrow> \<exists>x \<in> set xs. f x = Inr y"
  by (induction xs arbitrary: ys) (auto simp: rbind_Inr_iff)

text \<open>An observation with its evidence.\<close>

definition evidenced :: "source_document \<Rightarrow> indicator_observation \<Rightarrow> bool" where
  "evidenced d ob = (io_source_document_id ob = sd_source_document_id d \<and>
     io_start_offset ob < io_end_offset ob \<and> io_end_offset ob \<le> length (sd_normalized_text d) \<and>
     io_original_display_value ob
       = strip (slice (sd_normalized_text d) (io_start_offset ob) (io_end_offset ob)) \<and>
     io_original_display_value ob \<noteq> [] \<and>
     (io_validation_state ob = IV_SUPPRESSED \<longleftrightarrow> io_suppression_reason ob \<noteq> None))"

lemma observation_evidenced:
  assumes "observation_of_candidate u d c a = Inr ob" "ca_end a \<le> length (sd_normalized_text d)"
  shows "evidenced d ob \<and> io_indicator_type ob = ca_indicator_type a \<and>
     io_normalized_value ob = strip (ca_normalized_value a)"
  using assms
  by (auto simp: observation_of_candidate_def IndicatorObservation_def evidenced_def rbind_Inr_iff
      nonblank_def check_def split: if_splits)

text \<open>C12. Every observation is evidence: what \<open>extract_document\<close> returns was within the size
  limit, and each observation, published or suppressed, names the document, has a non-empty
  span inside its text whose stripped text is exactly its displayed value, and is suppressed
  exactly when it carries a reason.\<close>

theorem extraction_evidence:
  assumes "extract_document p u d (Some c) = Inr r"
  shows "int (length (sd_normalized_text d)) \<le> xc_max_input_chars c \<and>
     (\<forall>ob \<in> set (xr_observations r). evidenced d ob \<and> io_suppression_reason ob = None) \<and>
     (\<forall>ob \<in> set (xr_suppressed_observations r). evidenced d ob \<and> io_suppression_reason ob \<noteq> None)"
proof -
  let ?t = "sd_normalized_text d" and ?m = "refang (sd_normalized_text d)"
  let ?cs = "select_candidates (collect_candidates p ?m c)"
  from assms obtain obs where t: "traverse (observation_of_candidate u d c) ?cs = Inr obs"
    and r: "xr_observations r = filter (\<lambda>ob. io_validation_state ob \<noteq> IV_SUPPRESSED) obs"
      "xr_suppressed_observations r = filter (\<lambda>ob. io_validation_state ob = IV_SUPPRESSED) obs"
    and l: "int (length ?t) \<le> xc_max_input_chars c"
    by (auto simp: extract_document_def Let_def split: if_splits sum.splits)
  have "evidenced d ob" if "ob \<in> set obs" for ob
  proof -
    from t that obtain a where a: "a \<in> set ?cs" "observation_of_candidate u d c a = Inr ob"
      by (blast dest: traverse_elem)
    from a(1) select_candidates_subset collect_span obtain ts te where
      "original_span ?m ts te = Some (ca_start a, ca_end a)" by blast
    from original_span_ok [OF refang_origins this] observation_evidenced [OF a(2)]
    show ?thesis by auto
  qed
  moreover have "io_validation_state ob = IV_SUPPRESSED \<longleftrightarrow> io_suppression_reason ob \<noteq> None"
    if "evidenced d ob" for ob using that by (simp add: evidenced_def)
  ultimately show ?thesis using l r by auto
qed

definition demo_document :: "string \<Rightarrow> source_document" where
  "demo_document t = \<lparr>sd_source_document_id = ''d1'', sd_source_id = ''s'', sd_raw_artifact_id = ''a'',
     sd_external_source_id = None, sd_canonical_url = ''https://x.test'', sd_title = ''T'',
     sd_authors = [], sd_published_at = None, sd_updated_at_source = None, sd_retrieved_at = 0,
     sd_content_type = ''text/plain'', sd_normalized_text = t, sd_sanitized_summary = None,
     sd_language = None, sd_document_type = DOC_ARTICLE, sd_normalized_content_hash = [],
     sd_supersedes_id = None, sd_parse_version = ''1''\<rparr>"

theorem extraction_evidence_witness:
  "\<exists>r. extract_document (\<lambda>_. None) (\<lambda>s. s) (demo_document ''8[.]8.8.8'')
       (Some default_extraction_config) = Inr r \<and>
     map io_normalized_value (xr_observations r) = [''8.8.8.8''] \<and>
     (\<forall>ob \<in> set (xr_observations r). evidenced (demo_document ''8[.]8.8.8'') ob)"
proof -
  let ?x = "extract_document (\<lambda>_. None) (\<lambda>s. s) (demo_document ''8[.]8.8.8'')
       (Some default_extraction_config)"
  have "ok ?x" by code_simp
  then obtain r where r: "?x = Inr r" by (auto simp: ok_iff)
  have "map io_normalized_value (xr_observations (projr ?x)) = [''8.8.8.8'']" by code_simp
  with extraction_evidence [OF r] r show ?thesis by auto
qed

end
