(* ===== verification/Extraction_Export.thy ===== *)
theory Extraction_Export
  imports Extraction_Facts
begin

text \<open>
  \<^verbatim>\<open>extraction/exports.py\<close>: the CSV rendering of extraction results, in the dialect of
  \<^verbatim>\<open>csv.DictWriter\<close> with minimal quoting; \<open>cr\<close> tells whether the \<^verbatim>\<open>csv\<close> module of the running Python also
  quotes a lone carriage return, which depends on its release.  The specification is a reader of that dialect;
  reading back what was written returns every field of every record.
\<close>

section \<open>Writing\<close>

definition csv_special :: "bool \<Rightarrow> char \<Rightarrow> bool" where
  "csv_special cr c = (c = CHR '','' \<or> code c = 34 \<or> code c = 10 \<or> (cr \<and> code c = 13))"

definition csv_field :: "bool \<Rightarrow> string \<Rightarrow> string" where
  "csv_field cr f = (if list_ex (csv_special cr) f
     then [CHR 0x22] @ concat (map (\<lambda>c. if code c = 34 then [c, c] else [c]) f) @ [CHR 0x22]
     else f)"

definition csv_row :: "bool \<Rightarrow> string list \<Rightarrow> string" where
  "csv_row cr fs = join '','' (map (csv_field cr) fs) @ [CHR 0x0A]"

definition csv_fields :: "string list" where
  "csv_fields = [''record_type'', ''indicator_type'', ''original_display_value'',
     ''normalized_value'', ''source_document_id'', ''start_offset'', ''end_offset'', ''context'',
     ''extraction_rule'', ''validation_state'', ''suppression_reason'']"

definition observation_row :: "indicator_observation \<Rightarrow> string list" where
  "observation_row ob = [''indicator'', indicator_type_value (io_indicator_type ob),
     io_original_display_value ob, io_normalized_value ob, io_source_document_id ob,
     nat_str (int (io_start_offset ob)), nat_str (int (io_end_offset ob)), io_context ob,
     io_extraction_rule ob, indicator_validation_state_value (io_validation_state ob),
     (case io_suppression_reason ob of None \<Rightarrow> [] | Some r \<Rightarrow> r)]"

definition cve_row :: "cve_candidate \<Rightarrow> string list" where
  "cve_row c = [''cve_candidate'', ''cve'', cc_original_display_value c, cc_normalized_value c,
     cc_source_document_id c, nat_str (int (cc_start_offset c)), nat_str (int (cc_end_offset c)),
     cc_context c, cc_extraction_rule c,
     indicator_validation_state_value (cc_validation_state c), []]"

definition export_rows :: "extraction_result \<Rightarrow> bool \<Rightarrow> string list list" where
  "export_rows r include_suppressed =
     map observation_row (xr_observations r
       @ (if include_suppressed then xr_suppressed_observations r else []))
     @ map cve_row (xr_cve_candidates r)"

definition to_csv :: "bool \<Rightarrow> extraction_result \<Rightarrow> bool \<Rightarrow> string" where
  "to_csv cr r include_suppressed =
     concat (map (csv_row cr) (csv_fields # export_rows r include_suppressed))"

section \<open>Reading\<close>

datatype csv_mode = Field_Start | Plain | Quoted | Quote_Seen

fun csv_read :: "csv_mode \<Rightarrow> string \<Rightarrow> string list \<Rightarrow> string \<Rightarrow> string list list" where
  "csv_read md cur row [] =
     (if md = Field_Start \<and> row = [] then [] else [rev (rev cur # row)])"
| "csv_read md cur row (c # cs) =
     (if md = Quoted
      then (if code c = 34 then csv_read Quote_Seen cur row cs else csv_read Quoted (c # cur) row cs)
      else if c = CHR '','' then csv_read Field_Start [] (rev cur # row) cs
      else if code c = 10 then rev (rev cur # row) # csv_read Field_Start [] [] cs
      else if md = Field_Start \<and> code c = 34 then csv_read Quoted [] row cs
      else if md = Quote_Seen \<and> code c = 34 then csv_read Quoted (c # cur) row cs
      else csv_read Plain (c # cur) row cs)"

section \<open>Round trip\<close>

lemma read_plain:
  "\<not> list_ex (csv_special cr) f \<Longrightarrow> md \<in> {Field_Start, Plain} \<Longrightarrow>
     csv_read md cur row (f @ d # rest)
     = csv_read (if f = [] then md else Plain) (rev f @ cur) row (d # rest)"
proof (induction f arbitrary: md cur)
  case (Cons c f)
  then have "\<not> csv_special cr c" and f: "\<not> list_ex (csv_special cr) f" by auto
  then have c: "c \<noteq> CHR '',''" "code c \<noteq> 10" "code c \<noteq> 34" by (auto simp: csv_special_def)
  have "csv_read md cur row ((c # f) @ d # rest) = csv_read Plain (c # cur) row (f @ d # rest)"
    using c Cons.prems(2) by (simp del: csv_read.simps add: csv_read.simps(2)) auto
  then show ?case using Cons.IH [OF f, of Plain "c # cur"]
    by (cases "f = []") (simp_all del: csv_read.simps)
qed simp

lemma read_quoted:
  "csv_read Quoted cur row (concat (map (\<lambda>c. if code c = 34 then [c, c] else [c]) f) @ [CHR 0x22] @ d # rest)
     = csv_read Quote_Seen (rev f @ cur) row (d # rest)"
proof (induction f arbitrary: cur)
  case Nil
  have "code (CHR 0x22) = 34" by code_simp
  then show ?case by simp
next
  case (Cons c f)
  have "code c = 34 \<Longrightarrow> c = CHR 0x22"
  proof -
    have "code (CHR 0x22) = 34" by code_simp
    then show "code c = 34 \<Longrightarrow> c = CHR 0x22" using code_eq [of c "CHR 0x22"] by simp
  qed
  then show ?case using Cons.IH [of "c # cur"] by auto
qed

lemma read_field:
  assumes "d = CHR '','' \<or> d = CHR 0x0A"
  shows "csv_read Field_Start [] row (csv_field cr f @ d # rest) =
     (if d = CHR '','' then csv_read Field_Start [] (f # row) rest
      else rev (f # row) # csv_read Field_Start [] [] rest)"
proof -
  have c: "code (CHR 0x22) = 34" "code (CHR 0x0A) = 10" "code (CHR '','') = 44" by code_simp+
  show ?thesis
  proof (cases "list_ex (csv_special cr) f")
    case False
    then show ?thesis using assms c read_plain [OF False, of Field_Start "[]" row d rest]
      by (auto simp: csv_field_def)
  next
    case True
    then show ?thesis using assms c read_quoted [of "[]" row f d rest]
      by (auto simp: csv_field_def)
  qed
qed

lemma read_fields:
  "fs \<noteq> [] \<Longrightarrow> csv_read Field_Start [] row (join '','' (map (csv_field cr) fs) @ CHR 0x0A # rest)
     = (rev row @ fs) # csv_read Field_Start [] [] rest"
proof (induction fs arbitrary: row)
  case (Cons f fs)
  show ?case
  proof (cases "fs = []")
    case True
    then show ?thesis using read_field [of "CHR 0x0A" row cr f rest] by simp
  next
    case False
    then show ?thesis using Cons.IH [of "f # row"]
        read_field [of "CHR '',''" row cr f "join '','' (map (csv_field cr) fs) @ CHR 0x0A # rest"]
      by (simp add: join_Cons)
  qed
qed simp

text \<open>C39. The CSV export is lossless: for every extraction result, reading the exported text
  back gives the header row followed by exactly the observations (the suppressed ones when
  asked for) and the CVE candidates, field by field, whatever commas, quotes or line breaks
  the evidence contains.\<close>

theorem csv_roundtrip:
  "csv_read Field_Start [] [] (to_csv cr r include_suppressed)
     = csv_fields # export_rows r include_suppressed"
proof -
  have rd: "[] \<notin> set rows \<Longrightarrow> csv_read Field_Start [] [] (concat (map (csv_row cr) rows)) = rows" for rows
  proof (induction rows)
    case (Cons fs rows)
    then show ?case using read_fields [where fs = fs and row = "[]" and cr = cr]
      by (auto simp: csv_row_def [of cr fs])
  qed simp
  show ?thesis unfolding to_csv_def
    by (rule rd) (auto simp: csv_fields_def export_rows_def observation_row_def cve_row_def)
qed

end
