(* ===== verification/Correlation.thy ===== *)
theory Correlation
  imports Contracts
begin

text \<open>
  \<^verbatim>\<open>correlation/contracts.py\<close>, \<^verbatim>\<open>correlation/engine.py\<close> and the
  relationship proposal of \<^verbatim>\<open>models/contracts.py\<close>: exact-match relationships,
  candidate leads, contradictions, resurfacing and the policy on model proposals.
  A contract is a record whose construction applies its validators; the UUIDv5 of a name
  in the URL namespace is the parameter \<open>uuid5\<close>.  Dates stay half a year away from the
  end of the calendar, so that adding the temporal window does not overflow.
\<close>

section \<open>Entities and their evidence\<close>

record entity_ref =
  er_entity_type :: entity_type
  er_entity_id :: uuid

record evidence_assertion =
  ea_claim_key :: string
  ea_value :: string
  ea_evidence_ids :: "uuid list"

record semantic_similarity =
  ss_candidate_reference :: entity_ref
  ss_score :: rat
  ss_evidence_ids :: "uuid list"

record correlation_entity =
  ce_reference :: entity_ref
  ce_cve_ids :: "string list"
  ce_indicator_keys :: "string list"
  ce_cpe_keys :: "string list"
  ce_product_keys :: "string list"
  ce_attack_ids :: "string list"
  ce_content_hashes :: "string list"
  ce_provider_identifiers :: "string list"
  ce_infrastructure_keys :: "string list"
  ce_validated_infrastructure_keys :: "string list"
  ce_malware_names :: "string list"
  ce_tool_names :: "string list"
  ce_campaign_names :: "string list"
  ce_actor_aliases :: "string list"
  ce_behaviors :: "string list"
  ce_sectors :: "string list"
  ce_geographies :: "string list"
  ce_first_seen_at :: "instant option"
  ce_last_seen_at :: "instant option"
  ce_evidence_ids :: "uuid list"
  ce_assertions :: "evidence_assertion list"
  ce_semantic_similarities :: "semantic_similarity list"

definition EvidenceAssertion :: "evidence_assertion \<Rightarrow> evidence_assertion result" where
  "EvidenceAssertion a =
     rbind (bounded_text 128 (ea_claim_key a)) (\<lambda>k.
     rbind (bounded_text 1024 (ea_value a)) (\<lambda>v.
     rbind (check (ea_evidence_ids a \<noteq> []) ''evidence_ids'') (\<lambda>_.
       Inr (a\<lparr>ea_claim_key := k, ea_value := v\<rparr>))))"

definition CorrelationEntity :: "correlation_entity \<Rightarrow> correlation_entity result" where
  "CorrelationEntity e =
     (case (ce_first_seen_at e, ce_last_seen_at e) of
        (Some f, Some l) \<Rightarrow> if l < f then Inl (ValueError ''first_seen_at must not be after last_seen_at'')
                           else Inr e
      | _ \<Rightarrow> Inr e)"

section \<open>Results\<close>

record correlation_candidate =
  cn_candidate_id :: uuid
  cn_source :: entity_ref
  cn_target :: entity_ref
  cn_candidate_type :: string
  cn_score :: rat
  cn_rationale :: string
  cn_evidence_ids :: "uuid list"
  cn_relationship_established :: bool

definition CorrelationCandidate :: "correlation_candidate \<Rightarrow> correlation_candidate result" where
  "CorrelationCandidate c =
     rbind (bounded_text 64 (cn_candidate_type c)) (\<lambda>t.
     rbind (check (0 \<le> cn_score c \<and> cn_score c \<le> 1) ''score'') (\<lambda>_.
     rbind (nonblank (cn_rationale c)) (\<lambda>r.
     rbind (check (\<not> cn_relationship_established c) ''relationship_established'') (\<lambda>_.
       Inr (c\<lparr>cn_candidate_type := t, cn_rationale := r\<rparr>)))))"

record correlation_relationship =
  cr_relationship_id :: uuid
  cr_source :: entity_ref
  cr_relationship_type :: string
  cr_target :: entity_ref
  cr_direction :: string
  cr_origin :: relationship_origin
  cr_confidence :: rat
  cr_first_seen_at :: "instant option"
  cr_last_seen_at :: "instant option"
  cr_active :: bool
  cr_review_state :: review_state
  cr_supersedes_id :: "uuid option"
  cr_origin_rule :: string
  cr_justification :: string
  cr_evidence_ids :: "uuid list"
  cr_prompt_version :: "string option"
  cr_model_identifier :: "string option"

definition validate_relationship_policy :: "correlation_relationship \<Rightarrow> correlation_relationship result" where
  "validate_relationship_policy r =
     (if cr_origin r = RO_DETERMINISTIC \<and> cr_origin_rule r = []
      then Inl (ValueError ''deterministic relationships require a versioned rule'')
      else if cr_origin r = RO_SOURCED_ASSERTION \<and> cr_evidence_ids r = []
      then Inl (ValueError ''sourced assertions require evidence'')
      else if cr_origin r = RO_MODEL_INFERENCE \<and> cr_review_state r \<notin> {RV_PROPOSED, RV_REVIEWED}
      then Inl (ValueError ''model-inference relationships require review state'')
      else Inr r)"

definition CorrelationRelationship :: "correlation_relationship \<Rightarrow> correlation_relationship result" where
  "CorrelationRelationship r =
     rbind (bounded_text 128 (cr_relationship_type r)) (\<lambda>t.
     rbind (bounded_text 32 (cr_direction r)) (\<lambda>d.
     rbind (check (0 \<le> cr_confidence r \<and> cr_confidence r \<le> 1) ''confidence'') (\<lambda>_.
     rbind (bounded_text 255 (cr_origin_rule r)) (\<lambda>rule.
     rbind (nonblank (cr_justification r)) (\<lambda>j.
       validate_relationship_policy (r\<lparr>cr_relationship_type := t, cr_direction := d,
         cr_origin_rule := rule, cr_justification := j\<rparr>))))))"

record contradiction_evidence =
  cx_contradiction_id :: uuid
  cx_subject :: entity_ref
  cx_claim_key :: string
  cx_observed_values :: "string list"
  cx_evidence_ids :: "uuid list"
  cx_justification :: string

definition ContradictionEvidence :: "contradiction_evidence \<Rightarrow> contradiction_evidence result" where
  "ContradictionEvidence c =
     rbind (bounded_text 128 (cx_claim_key c)) (\<lambda>k.
     rbind (check (2 \<le> length (cx_observed_values c)) ''observed_values'') (\<lambda>_.
     rbind (check (2 \<le> length (cx_evidence_ids c)) ''evidence_ids'') (\<lambda>_.
     rbind (nonblank (cx_justification c)) (\<lambda>j.
       Inr (c\<lparr>cx_claim_key := k, cx_observed_values := map strip (cx_observed_values c),
              cx_justification := j\<rparr>)))))"

record correlation_result =
  co_relationships :: "correlation_relationship list"
  co_candidates :: "correlation_candidate list"
  co_contradictions :: "contradiction_evidence list"

section \<open>Helpers of the engine\<close>

definition common :: "string list \<Rightarrow> string list \<Rightarrow> string list" where
  "common left right = sorted_unique (filter (\<lambda>v. v \<in> set right) left)"

definition stable_id :: "(string \<Rightarrow> uuid) \<Rightarrow> string \<Rightarrow> string list \<Rightarrow> uuid" where
  "stable_id uuid5 kind values = uuid5 (join '':'' (kind # values))"

definition combined_evidence :: "correlation_entity \<Rightarrow> correlation_entity \<Rightarrow> uuid list" where
  "combined_evidence left right = sorted_unique (ce_evidence_ids left @ ce_evidence_ids right)"

fun extreme :: "('a \<Rightarrow> 'a \<Rightarrow> 'a) \<Rightarrow> 'a option \<Rightarrow> 'a option \<Rightarrow> 'a option" where
  "extreme f None y = y"
| "extreme f x None = x"
| "extreme f (Some x) (Some y) = Some (f x y)"

definition bounds :: "correlation_entity \<Rightarrow> correlation_entity \<Rightarrow> instant option \<times> instant option" where
  "bounds left right =
     (extreme min (ce_first_seen_at left) (ce_first_seen_at right),
      extreme max (ce_last_seen_at left) (ce_last_seen_at right))"

definition temporal_window :: instant where
  "temporal_window = 180 * 86400 * 1000000"

definition overlap_or_near :: "correlation_entity \<Rightarrow> correlation_entity \<Rightarrow> bool" where
  "overlap_or_near left right =
     (case (ce_first_seen_at left, ce_first_seen_at right) of
        (Some lf, Some rf) \<Rightarrow>
          (let left_last = (case ce_last_seen_at left of None \<Rightarrow> lf | Some l \<Rightarrow> l);
               right_last = (case ce_last_seen_at right of None \<Rightarrow> rf | Some r \<Rightarrow> r)
           in max lf rf \<le> min left_last right_last + temporal_window)
      | _ \<Rightarrow> False)"

section \<open>The correlation engine\<close>

definition rule_version :: string where
  "rule_version = ''phase6-v1''"

definition exact_rules ::
  "(string \<times> (correlation_entity \<Rightarrow> string list) \<times> string \<times> string \<times> rat) list" where
  "exact_rules = [
     (''cve_ids'', ce_cve_ids, ''same_cve'', ''exact_cve'', 1),
     (''indicator_keys'', ce_indicator_keys, ''same_indicator'', ''normalized_indicator'', 98 / 100),
     (''cpe_keys'', ce_cpe_keys, ''same_cpe'', ''exact_cpe'', 97 / 100),
     (''product_keys'', ce_product_keys, ''same_product'', ''normalized_product'', 94 / 100),
     (''attack_ids'', ce_attack_ids, ''same_attack_technique'', ''exact_attack_id'', 9 / 10),
     (''content_hashes'', ce_content_hashes, ''same_content'', ''content_hash'', 1),
     (''provider_identifiers'', ce_provider_identifiers, ''same_provider_identifier'',
      ''provider_stable_identifier'', 96 / 100),
     (''validated_infrastructure_keys'', ce_validated_infrastructure_keys,
      ''validated_infrastructure_reuse'', ''validated_infrastructure'', 88 / 100)]"

definition candidate_fields :: "(string \<times> (correlation_entity \<Rightarrow> string list) \<times> rat) list" where
  "candidate_fields = [
     (''infrastructure_keys'', ce_infrastructure_keys, 72 / 100),
     (''malware_names'', ce_malware_names, 7 / 10),
     (''tool_names'', ce_tool_names, 68 / 100),
     (''campaign_names'', ce_campaign_names, 68 / 100),
     (''actor_aliases'', ce_actor_aliases, 45 / 100),
     (''behaviors'', ce_behaviors, 55 / 100),
     (''sectors'', ce_sectors, 4 / 10),
     (''geographies'', ce_geographies, 35 / 100)]"

definition relationship_of :: "(string \<Rightarrow> uuid) \<Rightarrow> correlation_entity \<Rightarrow> correlation_entity
    \<Rightarrow> string \<Rightarrow> string \<Rightarrow> string \<Rightarrow> rat \<Rightarrow> string list \<Rightarrow> correlation_relationship" where
  "relationship_of uuid5 subject prior attribute relationship_type rule_name confidence shared =
     (let rule = rule_name @ ''@'' @ rule_version in
      \<lparr>cr_relationship_id = stable_id uuid5 ''relationship''
         [er_entity_id (ce_reference subject), relationship_type, er_entity_id (ce_reference prior), rule],
       cr_source = ce_reference subject, cr_relationship_type = relationship_type,
       cr_target = ce_reference prior, cr_direction = ''forward'', cr_origin = RO_DETERMINISTIC,
       cr_confidence = confidence, cr_first_seen_at = fst (bounds subject prior),
       cr_last_seen_at = snd (bounds subject prior), cr_active = True,
       cr_review_state = RV_REVIEWED, cr_supersedes_id = None, cr_origin_rule = rule,
       cr_justification = ''Exact public-CTI match on '' @ attribute @ '': '' @ join '', '' shared @ ''.'',
       cr_evidence_ids = combined_evidence subject prior,
       cr_prompt_version = None, cr_model_identifier = None\<rparr>)"

definition exact_relationships :: "(string \<Rightarrow> uuid) \<Rightarrow> correlation_entity \<Rightarrow> correlation_entity
    \<Rightarrow> correlation_relationship list result" where
  "exact_relationships uuid5 subject prior =
     traverse (\<lambda>(attribute, get, relationship_type, rule_name, confidence).
         CorrelationRelationship (relationship_of uuid5 subject prior attribute relationship_type
           rule_name confidence (common (get subject) (get prior))))
       (filter (\<lambda>(_, get, _). common (get subject) (get prior) \<noteq> []) exact_rules)"

definition candidate_of :: "(string \<Rightarrow> uuid) \<Rightarrow> correlation_entity \<Rightarrow> correlation_entity
    \<Rightarrow> string \<Rightarrow> string \<Rightarrow> rat \<Rightarrow> string \<Rightarrow> uuid list \<Rightarrow> correlation_candidate" where
  "candidate_of uuid5 subject prior kind candidate_type score rationale evidence =
     \<lparr>cn_candidate_id = stable_id uuid5 ''candidate''
        [er_entity_id (ce_reference subject), er_entity_id (ce_reference prior), kind],
      cn_source = ce_reference subject, cn_target = ce_reference prior,
      cn_candidate_type = candidate_type, cn_score = score, cn_rationale = rationale,
      cn_evidence_ids = evidence, cn_relationship_established = False\<rparr>"

definition field_score :: "rat \<Rightarrow> nat \<Rightarrow> rat" where
  "field_score base_score n = min 1 (base_score + min (15 / 100) (3 / 100 * (of_nat n - 1)))"

definition field_candidates :: "(string \<Rightarrow> uuid) \<Rightarrow> correlation_entity \<Rightarrow> correlation_entity
    \<Rightarrow> correlation_candidate list" where
  "field_candidates uuid5 subject prior =
     map (\<lambda>(attribute, get, base_score).
         let shared = common (get subject) (get prior) in
         candidate_of uuid5 subject prior attribute
           (remove_suffix ''_keys'' (remove_suffix ''_names'' attribute))
           (field_score base_score (length shared))
           (''Candidate only: shared '' @ attribute @ '' '' @ join '', '' shared
            @ ''; evidence review is required before a relationship is established.'')
           (combined_evidence subject prior))
       (filter (\<lambda>(_, get, _). common (get subject) (get prior) \<noteq> []) candidate_fields)"

definition temporal_candidates :: "(string \<Rightarrow> uuid) \<Rightarrow> correlation_entity \<Rightarrow> correlation_entity
    \<Rightarrow> correlation_candidate list" where
  "temporal_candidates uuid5 subject prior =
     (if overlap_or_near subject prior
      then [candidate_of uuid5 subject prior ''temporal'' ''temporal_relevance'' (3 / 10)
        ''Candidate only: public observations overlap or are within the temporal window.''
        (combined_evidence subject prior)]
      else [])"

definition semantic_candidates :: "(string \<Rightarrow> uuid) \<Rightarrow> correlation_entity \<Rightarrow> correlation_entity
    \<Rightarrow> correlation_candidate list" where
  "semantic_candidates uuid5 subject prior =
     map (\<lambda>s. candidate_of uuid5 subject prior ''semantic'' ''semantic_similarity'' (ss_score s)
         ''Candidate only: caller-supplied semantic similarity; no relationship is asserted.''
         (sorted_unique (combined_evidence subject prior @ ss_evidence_ids s)))
       (filter (\<lambda>s. ss_candidate_reference s = ce_reference prior)
         (sort_key (\<lambda>s. (er_entity_id (ss_candidate_reference s), ss_score s))
           (ce_semantic_similarities subject)))"

definition candidates :: "(string \<Rightarrow> uuid) \<Rightarrow> correlation_entity \<Rightarrow> correlation_entity
    \<Rightarrow> correlation_candidate list result" where
  "candidates uuid5 subject prior =
     traverse CorrelationCandidate (field_candidates uuid5 subject prior
       @ temporal_candidates uuid5 subject prior @ semantic_candidates uuid5 subject prior)"

section \<open>Contradictions\<close>

definition add_assertion :: "uuid list dict dict \<Rightarrow> evidence_assertion \<Rightarrow> uuid list dict dict" where
  "add_assertion groups a =
     (let vs = (case dict_get (ea_claim_key a) groups of None \<Rightarrow> [] | Some vs \<Rightarrow> vs);
          ids = (case dict_get (ea_value a) vs of None \<Rightarrow> [] | Some ids \<Rightarrow> ids)
      in dict_set (ea_claim_key a) (dict_set (ea_value a) (ids @ ea_evidence_ids a) vs) groups)"

definition assertion_groups :: "evidence_assertion list \<Rightarrow> uuid list dict dict" where
  "assertion_groups assertions = foldl add_assertion [] assertions"

definition contradiction_of :: "(string \<Rightarrow> uuid) \<Rightarrow> correlation_entity \<Rightarrow> string \<times> uuid list dict
    \<Rightarrow> contradiction_evidence" where
  "contradiction_of uuid5 subject g =
     (let observed = sorted_unique (map fst (snd g)) in
      \<lparr>cx_contradiction_id = stable_id uuid5 ''contradiction''
         (er_entity_id (ce_reference subject) # fst g # observed),
       cx_subject = ce_reference subject, cx_claim_key = fst g, cx_observed_values = observed,
       cx_evidence_ids = sorted_unique (concat (map snd (snd g))),
       cx_justification = ''Public evidence contains conflicting values for '' @ fst g
         @ ''; both assertions remain visible for review.''\<rparr>)"

definition contradictions :: "(string \<Rightarrow> uuid) \<Rightarrow> correlation_entity \<Rightarrow> correlation_entity list
    \<Rightarrow> contradiction_evidence list result" where
  "contradictions uuid5 subject historical =
     traverse (\<lambda>g. ContradictionEvidence (contradiction_of uuid5 subject g))
       (filter (\<lambda>g. 2 \<le> length (snd g))
         (sort_key fst (assertion_groups (concat (map ce_assertions (subject # historical))))))"

section \<open>One correlation\<close>

definition entity_key :: "correlation_entity \<Rightarrow> string \<times> uuid" where
  "entity_key e = (entity_type_value (er_entity_type (ce_reference e)), er_entity_id (ce_reference e))"

definition historical_sorted :: "correlation_entity list \<Rightarrow> correlation_entity list" where
  "historical_sorted historical =
     sort_key entity_key (map snd (keyed entity_key historical))"

definition correlate :: "(string \<Rightarrow> uuid) \<Rightarrow> correlation_entity \<Rightarrow> correlation_entity list
    \<Rightarrow> correlation_result result" where
  "correlate uuid5 subject historical =
     (let hs = historical_sorted historical in
      rbind (traverse (exact_relationships uuid5 subject) hs) (\<lambda>rels.
      rbind (traverse (candidates uuid5 subject) hs) (\<lambda>cands.
      rbind (contradictions uuid5 subject hs) (\<lambda>cons.
        Inr \<lparr>co_relationships = sort_key (\<lambda>r. (cr_relationship_id r, cr_origin_rule r)) (concat rels),
             co_candidates = sort_key (\<lambda>c. (er_entity_id (cn_target c), cn_candidate_type c,
               cn_candidate_id c)) (concat cands),
             co_contradictions = cons\<rparr>))))"

section \<open>Resurfacing\<close>

record assessment_snapshot =
  as_assessment_id :: uuid
  as_entity :: entity_ref
  as_assessment_version :: int
  as_score :: rat
  as_severity :: severity
  as_confidence :: rat
  as_known_exploited :: "bool option"
  as_epss_score :: "rat option"
  as_cvss_score :: "rat option"
  as_affected_product_keys :: "string list"
  as_evidence_ids :: "uuid list"
  as_active_exploitation_evidence :: bool
  as_infrastructure_reactivated :: bool
  as_independent_corroboration :: bool
  as_attack_chain_completed :: bool
  as_coverage_obsolete :: bool

definition optional_range :: "rat \<Rightarrow> rat option \<Rightarrow> bool" where
  "optional_range hi x = (case x of None \<Rightarrow> True | Some v \<Rightarrow> 0 \<le> v \<and> v \<le> hi)"

definition AssessmentSnapshot :: "assessment_snapshot \<Rightarrow> assessment_snapshot result" where
  "AssessmentSnapshot a =
     rbind (check (1 \<le> as_assessment_version a) ''assessment_version'') (\<lambda>_.
     rbind (check (0 \<le> as_score a \<and> as_score a \<le> 100) ''score'') (\<lambda>_.
     rbind (check (0 \<le> as_confidence a \<and> as_confidence a \<le> 1) ''confidence'') (\<lambda>_.
     rbind (check (optional_range 1 (as_epss_score a)) ''epss_score'') (\<lambda>_.
     rbind (check (optional_range 10 (as_cvss_score a)) ''cvss_score'') (\<lambda>_.
       Inr (a\<lparr>as_affected_product_keys := map strip (as_affected_product_keys a)\<rparr>))))))"

datatype resurfacing_reason =
    KEV_ADDITION | MATERIAL_EPSS_CHANGE | MATERIAL_CVSS_CHANGE | ACTIVE_EXPLOITATION
  | INFRASTRUCTURE_REACTIVATED | INDEPENDENT_CORROBORATION | AFFECTED_SURFACE_EXPANDED
  | ATTACK_CHAIN_COMPLETED | COVERAGE_OBSOLETE

fun resurfacing_reason_value :: "resurfacing_reason \<Rightarrow> string" where
  "resurfacing_reason_value KEV_ADDITION = ''kev_addition''"
| "resurfacing_reason_value MATERIAL_EPSS_CHANGE = ''material_epss_change''"
| "resurfacing_reason_value MATERIAL_CVSS_CHANGE = ''material_cvss_change''"
| "resurfacing_reason_value ACTIVE_EXPLOITATION = ''active_exploitation''"
| "resurfacing_reason_value INFRASTRUCTURE_REACTIVATED = ''infrastructure_reactivated''"
| "resurfacing_reason_value INDEPENDENT_CORROBORATION = ''independent_corroboration''"
| "resurfacing_reason_value AFFECTED_SURFACE_EXPANDED = ''affected_surface_expanded''"
| "resurfacing_reason_value ATTACK_CHAIN_COMPLETED = ''attack_chain_completed''"
| "resurfacing_reason_value COVERAGE_OBSOLETE = ''coverage_obsolete''"

record resurfacing_event =
  re_event_id :: uuid
  re_entity :: entity_ref
  re_previous_assessment_id :: uuid
  re_new_assessment_id :: uuid
  re_reasons :: "resurfacing_reason list"
  re_evidence_ids :: "uuid list"
  re_previous_score :: rat
  re_new_score :: rat
  re_justification :: string
  re_review_state :: review_state
  re_created_at :: instant

definition ResurfacingEvent :: "resurfacing_event \<Rightarrow> resurfacing_event result" where
  "ResurfacingEvent e =
     rbind (check (re_reasons e \<noteq> []) ''reasons'') (\<lambda>_.
     rbind (check (re_evidence_ids e \<noteq> []) ''evidence_ids'') (\<lambda>_.
     rbind (check (0 \<le> re_previous_score e \<and> re_previous_score e \<le> 100) ''previous_score'') (\<lambda>_.
     rbind (check (0 \<le> re_new_score e \<and> re_new_score e \<le> 100) ''new_score'') (\<lambda>_.
     rbind (nonblank (re_justification e)) (\<lambda>j.
       if re_previous_assessment_id e = re_new_assessment_id e
       then Inl (ValueError ''resurfacing requires distinct assessment versions'')
       else Inr (e\<lparr>re_justification := j\<rparr>))))))"

record resurfacing_detector =
  rd_epss_delta :: rat
  rd_cvss_delta :: rat

definition ResurfacingDetector :: "rat \<Rightarrow> rat \<Rightarrow> resurfacing_detector result" where
  "ResurfacingDetector epss_delta cvss_delta =
     (if epss_delta \<le> 0 \<or> cvss_delta \<le> 0
      then Inl (ValueError ''resurfacing thresholds must be positive'')
      else Inr \<lparr>rd_epss_delta = epss_delta, rd_cvss_delta = cvss_delta\<rparr>)"

definition moved :: "rat \<Rightarrow> rat option \<Rightarrow> rat option \<Rightarrow> bool" where
  "moved delta previous current =
     (case (previous, current) of (Some p, Some c) \<Rightarrow> delta \<le> \<bar>c - p\<bar> | _ \<Rightarrow> False)"

definition reason_flags :: "resurfacing_detector \<Rightarrow> assessment_snapshot \<Rightarrow> assessment_snapshot
    \<Rightarrow> (bool \<times> resurfacing_reason) list" where
  "reason_flags d previous current = [
     (as_known_exploited previous \<noteq> Some True \<and> as_known_exploited current = Some True, KEV_ADDITION),
     (moved (rd_epss_delta d) (as_epss_score previous) (as_epss_score current), MATERIAL_EPSS_CHANGE),
     (moved (rd_cvss_delta d) (as_cvss_score previous) (as_cvss_score current), MATERIAL_CVSS_CHANGE),
     (as_active_exploitation_evidence current, ACTIVE_EXPLOITATION),
     (as_infrastructure_reactivated current, INFRASTRUCTURE_REACTIVATED),
     (as_independent_corroboration current, INDEPENDENT_CORROBORATION),
     (list_ex (\<lambda>k. k \<notin> set (as_affected_product_keys previous)) (as_affected_product_keys current),
      AFFECTED_SURFACE_EXPANDED),
     (as_attack_chain_completed current, ATTACK_CHAIN_COMPLETED),
     (as_coverage_obsolete current, COVERAGE_OBSOLETE)]"

definition resurfacing_reasons :: "resurfacing_detector \<Rightarrow> assessment_snapshot \<Rightarrow> assessment_snapshot
    \<Rightarrow> resurfacing_reason list" where
  "resurfacing_reasons d previous current = map snd (filter fst (reason_flags d previous current))"

definition detect :: "(string \<Rightarrow> uuid) \<Rightarrow> resurfacing_detector \<Rightarrow> assessment_snapshot
    \<Rightarrow> assessment_snapshot \<Rightarrow> uuid list \<Rightarrow> instant \<Rightarrow> resurfacing_event option result" where
  "detect uuid5 d previous current new_evidence_ids now =
     (if as_entity previous \<noteq> as_entity current
      then Inl (ValueError ''assessment versions must refer to the same entity'')
      else
        (let reasons = resurfacing_reasons d previous current;
             evidence_ids = sorted_unique (new_evidence_ids @ as_evidence_ids current) in
         if reasons = [] then Inr None
         else if evidence_ids = [] then Inl (ValueError ''resurfacing requires new evidence IDs'')
         else rbind (ResurfacingEvent
           \<lparr>re_event_id = stable_id uuid5 ''resurfacing'' (as_assessment_id previous
              # as_assessment_id current # map resurfacing_reason_value reasons),
            re_entity = as_entity current,
            re_previous_assessment_id = as_assessment_id previous,
            re_new_assessment_id = as_assessment_id current, re_reasons = reasons,
            re_evidence_ids = evidence_ids, re_previous_score = as_score previous,
            re_new_score = as_score current,
            re_justification = ''Historical public-CTI assessment resurfaced for: ''
              @ join '', '' (map resurfacing_reason_value reasons)
              @ ''. The prior assessment remains queryable.'',
            re_review_state = RV_PROPOSED, re_created_at = now\<rparr>) (\<lambda>e. Inr (Some e))))"

section \<open>Model proposals\<close>

record relationship_proposal =
  rp_proposal_id :: uuid
  rp_source :: entity_ref
  rp_relationship_type :: string
  rp_target :: entity_ref
  rp_origin :: relationship_origin
  rp_confidence :: rat
  rp_justification :: string
  rp_review_state :: review_state
  rp_evidence_ids :: "uuid list"
  rp_prompt_version :: "string option"
  rp_model_identifier :: "string option"
  rp_system_prompt_hash :: "string option"
  rp_skill_version_hashes :: "string list"
  rp_triggering_run_id :: "uuid option"
  rp_deterministic_rule :: "string option"
  rp_attribution_evidence_quality :: "string option"

definition evidence_qualities :: "string list" where
  "evidence_qualities = [''explicit_source'', ''corroborated_sources'']"

definition is_actor_attribution :: "relationship_proposal \<Rightarrow> bool" where
  "is_actor_attribution p = (er_entity_type (rp_target p) = ET_ACTOR \<and>
     list_ex (\<lambda>token. contains token (lower (rp_relationship_type p))) [''attribut'', ''actor''])"

definition validate_origin_requirements :: "relationship_proposal \<Rightarrow> relationship_proposal result" where
  "validate_origin_requirements p =
     (if rp_origin p = RO_MODEL_INFERENCE \<and> rp_review_state p \<notin> {RV_PROPOSED, RV_REVIEWED}
      then Inl (ValueError ''model-inference relationships must be proposed or reviewed'')
      else if rp_origin p = RO_SOURCED_ASSERTION \<and> rp_evidence_ids p = []
      then Inl (ValueError ''sourced assertions require evidence_ids'')
      else if rp_origin p = RO_DETERMINISTIC
          \<and> (rp_deterministic_rule p = None \<or> rp_deterministic_rule p = Some [])
      then Inl (ValueError ''deterministic relationships require deterministic_rule'')
      else if is_actor_attribution p
          \<and> (rp_evidence_ids p = [] \<or> rp_attribution_evidence_quality p = None)
      then Inl (ValueError ''actor attribution requires explicit or corroborated source evidence'')
      else Inr p)"

definition optional_hash :: "string option \<Rightarrow> string option result" where
  "optional_hash h = (case h of None \<Rightarrow> Inr None
     | Some s \<Rightarrow> rbind (normalize_hash 64 s) (\<lambda>n. Inr (Some n)))"

definition RelationshipProposal :: "relationship_proposal \<Rightarrow> relationship_proposal result" where
  "RelationshipProposal p =
     rbind (nonblank (rp_relationship_type p)) (\<lambda>t.
     rbind (check (0 \<le> rp_confidence p \<and> rp_confidence p \<le> 1) ''confidence'') (\<lambda>_.
     rbind (nonblank (rp_justification p)) (\<lambda>j.
     rbind (optional_hash (rp_system_prompt_hash p)) (\<lambda>h.
     rbind (traverse (normalize_hash 64) (rp_skill_version_hashes p)) (\<lambda>hs.
     rbind (check (case rp_attribution_evidence_quality p of None \<Rightarrow> True
              | Some q \<Rightarrow> q \<in> set evidence_qualities) ''attribution_evidence_quality'') (\<lambda>_.
       validate_origin_requirements (p\<lparr>rp_relationship_type := t, rp_justification := j,
         rp_prompt_version := map_option strip (rp_prompt_version p),
         rp_model_identifier := map_option strip (rp_model_identifier p),
         rp_system_prompt_hash := h, rp_skill_version_hashes := hs,
         rp_deterministic_rule := map_option strip (rp_deterministic_rule p)\<rparr>)))))))"

definition validate_model_proposal :: "relationship_proposal \<Rightarrow> relationship_proposal result" where
  "validate_model_proposal p =
     (if rp_origin p \<noteq> RO_MODEL_INFERENCE
      then Inl (ValueError ''controlled model proposal submission requires model_inference origin'')
      else if rp_review_state p \<notin> {RV_PROPOSED, RV_REVIEWED}
      then Inl (ValueError ''model proposals must remain proposed or reviewed'')
      else if is_actor_attribution p \<and> (rp_evidence_ids p = []
          \<or> (case rp_attribution_evidence_quality p of None \<Rightarrow> True
             | Some q \<Rightarrow> q \<notin> set evidence_qualities))
      then Inl (ValueError ''unsupported actor attribution'')
      else Inr p)"

definition public_projection :: "correlation_relationship list \<Rightarrow> correlation_relationship list" where
  "public_projection relationships =
     sort_key (\<lambda>r. (er_entity_id (cr_source r), er_entity_id (cr_target r), cr_relationship_type r))
       (filter (\<lambda>r. cr_review_state r = RV_REVIEWED) relationships)"

end
