(* ===== verification/Correlation_Facts.thy ===== *)
theory Correlation_Facts
  imports Correlation
begin

text \<open>
  What the correlation engine guarantees: it does not depend on the order or repetition of
  the history, its relationships are exactly the shared identifiers, leads never become
  relationships, contradictions are complete, resurfacing needs a material change, and model
  proposals cannot attribute an actor without evidence.
\<close>

section \<open>Contract construction on well-formed texts\<close>

lemma nonblank_ends: "s \<noteq> [] \<Longrightarrow> \<not> is_space (hd s) \<Longrightarrow> \<not> is_space (last s) \<Longrightarrow> nonblank s = Inr s"
  by (simp add: nonblank_def strip_ends)

lemma bounded_ends:
  "s \<noteq> [] \<Longrightarrow> \<not> is_space (hd s) \<Longrightarrow> \<not> is_space (last s) \<Longrightarrow> int (length s) \<le> n \<Longrightarrow> bounded_text n s = Inr s"
  by (simp add: bounded_text_def nonblank_ends)

lemma not_space_simps [simp]:
  "\<not> is_space (CHR ''E'')" "\<not> is_space (CHR ''C'')" "\<not> is_space (CHR ''P'')" "\<not> is_space (CHR ''H'')"
  "\<not> is_space (CHR ''.'')"
  by code_simp+

lemma check_simps [simp]: "check True m = Inr ()" "check b m = Inr u \<longleftrightarrow> b"
  by (simp_all add: check_def)

section \<open>History\<close>

lemma historical_sorted_set:
  "inj_on entity_key (set hs) \<Longrightarrow> set (historical_sorted hs) = set hs"
  using keyed_values_inj(1) [of entity_key hs] by (simp add: historical_sorted_def)

lemma historical_sorted_cong:
  assumes "inj_on entity_key (set hs)" "set hs = set hs'"
  shows "historical_sorted hs = historical_sorted hs'"
proof -
  have i: "inj_on entity_key (set hs')" using assms by simp
  have "mset (map snd (keyed entity_key hs)) = mset (map snd (keyed entity_key hs'))"
    using keyed_values_inj [OF assms(1)] keyed_values_inj [OF i] assms(2)
    by (intro set_eq_iff_mset_eq_distinct [THEN iffD1]) simp_all
  moreover have "inj_on entity_key (set (map snd (keyed entity_key hs')))"
    using keyed_values_inj(1) [OF i] i by simp
  ultimately show ?thesis unfolding historical_sorted_def by (rule sort_key_unique)
qed

section \<open>Concrete inputs\<close>

definition demo_entity :: "uuid \<Rightarrow> string list \<Rightarrow> evidence_assertion list \<Rightarrow> correlation_entity" where
  "demo_entity i cves as = \<lparr>ce_reference = \<lparr>er_entity_type = ET_VULNERABILITY, er_entity_id = i\<rparr>,
     ce_cve_ids = cves, ce_indicator_keys = [], ce_cpe_keys = [], ce_product_keys = [],
     ce_attack_ids = [], ce_content_hashes = [], ce_provider_identifiers = [],
     ce_infrastructure_keys = [], ce_validated_infrastructure_keys = [], ce_malware_names = [],
     ce_tool_names = [], ce_campaign_names = [], ce_actor_aliases = [], ce_behaviors = [],
     ce_sectors = [], ce_geographies = [], ce_first_seen_at = None, ce_last_seen_at = None,
     ce_evidence_ids = [], ce_assertions = as, ce_semantic_similarities = []\<rparr>"

definition demo_assertion :: "string \<Rightarrow> uuid \<Rightarrow> evidence_assertion" where
  "demo_assertion v i = \<lparr>ea_claim_key = ''severity'', ea_value = v, ea_evidence_ids = [i]\<rparr>"

text \<open>C31. Correlation depends only on which entities the history holds: when an entity type
  and identifier name one snapshot, neither the order of the history nor repetitions in it
  change the relationships, the candidates, the contradictions or the error.\<close>

theorem correlate_order_independent:
  assumes "inj_on entity_key (set historical)" and "set historical = set historical'"
  shows "correlate u subject historical = correlate u subject historical'"
  by (simp add: correlate_def historical_sorted_cong [OF assms] Let_def)

theorem correlate_order_independent_witness:
  "correlate id (demo_entity ''s'' [''c''] []) [demo_entity ''b'' [''c''] [], demo_entity ''a'' [] []]
     = correlate id (demo_entity ''s'' [''c''] [])
         [demo_entity ''a'' [] [], demo_entity ''b'' [''c''] [], demo_entity ''a'' [] []]"
  by (rule correlate_order_independent) (auto simp: inj_on_def entity_key_def demo_entity_def)

section \<open>Relationships and leads\<close>

lemma exact_relationship_valid:
  assumes "(a, g, t, n, c) \<in> set exact_rules"
  shows "CorrelationRelationship (relationship_of u s p a t n c sh) = Inr (relationship_of u s p a t n c sh)"
proof -
  have "list_all (\<lambda>(t, n, c). ok (bounded_text 128 t) \<and> strip t = t \<and> ok (bounded_text 255 (n @ ''@phase6-v1''))
      \<and> strip (n @ ''@phase6-v1'') = n @ ''@phase6-v1'' \<and> 0 \<le> c \<and> c \<le> 1)
      (map (\<lambda>(a, g, t, n, c). (t, n, c)) exact_rules)"
    by code_simp
  then have "ok (bounded_text 128 t)" "strip t = t" "ok (bounded_text 255 (n @ ''@phase6-v1''))"
    "strip (n @ ''@phase6-v1'') = n @ ''@phase6-v1''" "0 \<le> c" "c \<le> 1"
    using assms by (auto simp: list_all_iff)
  then have rule: "bounded_text 128 t = Inr t" "bounded_text 255 (n @ ''@phase6-v1'') = Inr (n @ ''@phase6-v1'')"
    "0 \<le> c" "c \<le> 1"
    by (auto simp: bounded_text_def nonblank_def rbind_Inr_iff split: if_splits)
  have "bounded_text 32 ''forward'' = Inr ''forward''" by code_simp
  with rule show ?thesis
    by (simp add: CorrelationRelationship_def relationship_of_def Let_def rule_version_def
        nonblank_ends validate_relationship_policy_def)
qed

lemma field_score_range: "0 \<le> b \<Longrightarrow> 1 \<le> n \<Longrightarrow> 0 \<le> field_score b n \<and> field_score b n \<le> 1"
  by (auto simp: field_score_def min_def)

lemma candidate_valid:
  assumes "bounded_text 64 t = Inr t" "0 \<le> x" "x \<le> 1" "nonblank r = Inr r"
  shows "CorrelationCandidate (candidate_of u s p k t x r ev) = Inr (candidate_of u s p k t x r ev)"
  using assms by (simp add: CorrelationCandidate_def candidate_of_def)

lemma field_type_valid:
  assumes "(a, g, b) \<in> set candidate_fields"
  shows "bounded_text 64 (remove_suffix ''_keys'' (remove_suffix ''_names'' a))
       = Inr (remove_suffix ''_keys'' (remove_suffix ''_names'' a))" "0 \<le> b"
proof -
  have "list_all (\<lambda>(a, b). (let t = remove_suffix ''_keys'' (remove_suffix ''_names'' a)
      in ok (bounded_text 64 t) \<and> strip t = t) \<and> 0 \<le> b) (map (\<lambda>(a, g, b). (a, b)) candidate_fields)"
    by code_simp
  then show "bounded_text 64 (remove_suffix ''_keys'' (remove_suffix ''_names'' a))
       = Inr (remove_suffix ''_keys'' (remove_suffix ''_names'' a))" "0 \<le> b"
    using assms by (auto simp: list_all_iff Let_def bounded_text_def nonblank_def rbind_Inr_iff split: if_splits)
qed

definition similarities_ok :: "correlation_entity \<Rightarrow> bool" where
  "similarities_ok e = list_all (\<lambda>s. 0 \<le> ss_score s \<and> ss_score s \<le> 1) (ce_semantic_similarities e)"

abbreviation leads :: "(string \<Rightarrow> uuid) \<Rightarrow> correlation_entity \<Rightarrow> correlation_entity \<Rightarrow> correlation_candidate list" where
  "leads u s p \<equiv> field_candidates u s p @ temporal_candidates u s p @ semantic_candidates u s p"

lemma candidates_valid:
  assumes "similarities_ok s"
  shows "candidates u s p = Inr (leads u s p)"
proof -
  have "CorrelationCandidate c = Inr c" if "c \<in> set (field_candidates u s p)" for c
  proof -
    from that obtain a g b where agb: "(a, g, b) \<in> set candidate_fields"
        "common (g s) (g p) \<noteq> []" and c: "c = candidate_of u s p a
           (remove_suffix ''_keys'' (remove_suffix ''_names'' a))
           (field_score b (length (common (g s) (g p))))
           (''Candidate only: shared '' @ a @ '' '' @ join '', '' (common (g s) (g p))
            @ ''; evidence review is required before a relationship is established.'')
           (combined_evidence s p)"
      unfolding field_candidates_def by (auto simp: Let_def)
    have "1 \<le> length (common (g s) (g p))" using agb(2) by (simp add: Suc_le_eq)
    then show ?thesis unfolding c
      using field_type_valid [OF agb(1)] field_score_range [of b "length (common (g s) (g p))"]
      by (intro candidate_valid) (simp_all add: nonblank_ends)
  qed
  moreover have "CorrelationCandidate c = Inr c" if "c \<in> set (temporal_candidates u s p)" for c
  proof -
    have "bounded_text 64 ''temporal_relevance'' = Inr ''temporal_relevance''" by code_simp
    then show ?thesis using that by (auto simp: temporal_candidates_def nonblank_ends intro!: candidate_valid split: if_splits)
  qed
  moreover have "CorrelationCandidate c = Inr c" if "c \<in> set (semantic_candidates u s p)" for c
  proof -
    have "bounded_text 64 ''semantic_similarity'' = Inr ''semantic_similarity''" by code_simp
    then show ?thesis using that assms
      by (auto simp: semantic_candidates_def similarities_ok_def list_all_iff nonblank_ends intro!: candidate_valid)
  qed
  ultimately have "traverse CorrelationCandidate (leads u s p) = Inr (map id (leads u s p))"
    by (intro traverse_map) auto
  then show ?thesis by (simp add: candidates_def)
qed

definition matched_rules :: "correlation_entity \<Rightarrow> correlation_entity
    \<Rightarrow> (string \<times> (correlation_entity \<Rightarrow> string list) \<times> string \<times> string \<times> rat) list" where
  "matched_rules s p = filter (\<lambda>(_, get, _). common (get s) (get p) \<noteq> []) exact_rules"

lemma exact_relationships_valid:
  "exact_relationships u s p = Inr (map (\<lambda>(a, g, t, n, c).
     relationship_of u s p a t n c (common (g s) (g p))) (matched_rules s p))"
  unfolding exact_relationships_def matched_rules_def [symmetric]
  by (rule traverse_map) (auto simp: matched_rules_def intro!: exact_relationship_valid)

lemma common_Nil_iff: "common xs ys = [] \<longleftrightarrow> set xs \<inter> set ys = {}"
  by (auto simp: common_def filter_empty_conv)

definition relationships_with :: "(string \<Rightarrow> uuid) \<Rightarrow> correlation_entity \<Rightarrow> correlation_entity
    \<Rightarrow> correlation_relationship list" where
  "relationships_with u s p = map (\<lambda>(a, g, t, n, c).
     relationship_of u s p a t n c (common (g s) (g p))) (matched_rules s p)"

lemma correlate_shape:
  assumes "similarities_ok s"
  shows "correlate u s historical =
     (let hs = historical_sorted historical in
      rbind (contradictions u s hs) (\<lambda>cons.
        Inr \<lparr>co_relationships = sort_key (\<lambda>r. (cr_relationship_id r, cr_origin_rule r))
               (concat (map (relationships_with u s) hs)),
             co_candidates = sort_key (\<lambda>c. (er_entity_id (cn_target c), cn_candidate_type c,
               cn_candidate_id c)) (concat (map (leads u s) hs)),
             co_contradictions = cons\<rparr>))"
proof -
  have "traverse (exact_relationships u s) hs = Inr (map (relationships_with u s) hs)" for hs
    by (rule traverse_map) (simp add: exact_relationships_valid relationships_with_def)
  moreover have "traverse (candidates u s) hs = Inr (map (leads u s) hs)" for hs
    using assms by (intro traverse_map) (simp add: candidates_valid)
  ultimately show ?thesis by (simp add: correlate_def Let_def)
qed

lemma rule_type_unique:
  "(a, g, t, n, c) \<in> set exact_rules \<Longrightarrow> (a', g', t, n', c') \<in> set exact_rules \<Longrightarrow> g' = g \<and> c' = c"
  by (auto simp: exact_rules_def)

lemma entity_key_eq: "entity_key e = entity_key e' \<longleftrightarrow> ce_reference e = ce_reference e'"
  by (cases "ce_reference e"; cases "ce_reference e'") (auto simp: entity_key_def entity_type.value_inj)

lemma relationship_of_fields [simp]:
  "cr_source (relationship_of u s p a t n c sh) = ce_reference s"
  "cr_target (relationship_of u s p a t n c sh) = ce_reference p"
  "cr_relationship_type (relationship_of u s p a t n c sh) = t"
  "cr_confidence (relationship_of u s p a t n c sh) = c"
  "cr_origin (relationship_of u s p a t n c sh) = RO_DETERMINISTIC"
  "cr_review_state (relationship_of u s p a t n c sh) = RV_REVIEWED"
  "set (cr_evidence_ids (relationship_of u s p a t n c sh)) = set (ce_evidence_ids s) \<union> set (ce_evidence_ids p)"
  by (simp_all add: relationship_of_def Let_def combined_evidence_def)

lemma leads_established: "c \<in> set (leads u s p) \<Longrightarrow> \<not> cn_relationship_established c \<and> cn_target c = ce_reference p"
  by (auto simp: field_candidates_def temporal_candidates_def semantic_candidates_def candidate_of_def
      Let_def split: if_splits)

text \<open>C9. The relationships of a correlation are exactly the shared identifiers: for every
  entity of the history and every rule, a relationship of that rule's type to that entity is
  reported if and only if the two share a value of the rule's attribute; each has the rule's
  confidence and the evidence of both sides.  Every lead stays a lead, about an entity of the
  history.\<close>

theorem relationships_exact_matches:
  assumes inj: "inj_on entity_key (set historical)" and ok: "similarities_ok subject"
    and run: "correlate u subject historical = Inr r"
  shows "(\<forall>prior \<in> set historical. \<forall>(a, g, t, n, c) \<in> set exact_rules.
       (set (g subject) \<inter> set (g prior) \<noteq> {}) \<longleftrightarrow>
       (\<exists>x \<in> set (co_relationships r). cr_target x = ce_reference prior \<and> cr_relationship_type x = t)) \<and>
     (\<forall>x \<in> set (co_relationships r). \<exists>prior \<in> set historical. \<exists>(a, g, t, n, c) \<in> set exact_rules.
        cr_source x = ce_reference subject \<and> cr_target x = ce_reference prior \<and>
        cr_relationship_type x = t \<and> cr_confidence x = c \<and>
        set (cr_evidence_ids x) = set (ce_evidence_ids subject) \<union> set (ce_evidence_ids prior)) \<and>
     (\<forall>x \<in> set (co_candidates r). \<not> cn_relationship_established x \<and>
        (\<exists>prior \<in> set historical. cn_target x = ce_reference prior))"
proof -
  have rels: "set (co_relationships r) = (\<Union>p \<in> set historical. set (relationships_with u subject p))"
    and cands: "set (co_candidates r) = (\<Union>p \<in> set historical. set (leads u subject p))"
    using run inj by (auto simp: correlate_shape [OF ok] Let_def rbind_Inr_iff historical_sorted_set)
  have with_iff: "x \<in> set (relationships_with u subject p) \<longleftrightarrow>
      (\<exists>a g t n c. (a, g, t, n, c) \<in> set exact_rules \<and> set (g subject) \<inter> set (g p) \<noteq> {} \<and>
         x = relationship_of u subject p a t n c (common (g subject) (g p)))" for x p
    unfolding relationships_with_def matched_rules_def set_map set_filter image_iff Bex_def
      mem_Collect_eq split_paired_Ex split_conv common_Nil_iff by blast
  have same: "p = prior" if "p \<in> set historical" "prior \<in> set historical"
      "ce_reference p = ce_reference prior" for p prior
    using inj that by (auto simp: inj_on_def entity_key_eq)
  have one: "(set (g subject) \<inter> set (g prior) \<noteq> {}) \<longleftrightarrow>
       (\<exists>x \<in> set (co_relationships r). cr_target x = ce_reference prior \<and> cr_relationship_type x = t)"
    if p: "prior \<in> set historical" and q: "(a, g, t, n, c) \<in> set exact_rules" for prior a g t n c
  proof
    assume "set (g subject) \<inter> set (g prior) \<noteq> {}"
    then have "relationship_of u subject prior a t n c (common (g subject) (g prior))
        \<in> set (relationships_with u subject prior)"
      using q unfolding with_iff by blast
    then show "\<exists>x \<in> set (co_relationships r). cr_target x = ce_reference prior \<and> cr_relationship_type x = t"
      using p by (force simp: rels)
  next
    assume "\<exists>x \<in> set (co_relationships r). cr_target x = ce_reference prior \<and> cr_relationship_type x = t"
    then obtain x p' where x: "p' \<in> set historical" "x \<in> set (relationships_with u subject p')"
        "cr_target x = ce_reference prior" "cr_relationship_type x = t" by (auto simp: rels)
    from x(2) obtain a' g' t' n' c' where q': "(a', g', t', n', c') \<in> set exact_rules"
        "set (g' subject) \<inter> set (g' p') \<noteq> {}"
        "x = relationship_of u subject p' a' t' n' c' (common (g' subject) (g' p'))"
      unfolding with_iff by blast
    then have "t' = t" "ce_reference p' = ce_reference prior" using x(3,4) by simp_all
    with q' rule_type_unique [OF q, of a' g' n' c'] same [OF x(1) p] show "set (g subject) \<inter> set (g prior) \<noteq> {}" by auto
  qed
  moreover have "\<exists>prior \<in> set historical. \<exists>(a, g, t, n, c) \<in> set exact_rules.
        cr_source x = ce_reference subject \<and> cr_target x = ce_reference prior \<and>
        cr_relationship_type x = t \<and> cr_confidence x = c \<and>
        set (cr_evidence_ids x) = set (ce_evidence_ids subject) \<union> set (ce_evidence_ids prior)"
    if "x \<in> set (co_relationships r)" for x
  proof -
    from that obtain p a g t n c where *: "p \<in> set historical" "(a, g, t, n, c) \<in> set exact_rules"
        "x = relationship_of u subject p a t n c (common (g subject) (g p))"
      unfolding rels UN_iff with_iff by blast
    show ?thesis
      by (rule bexI [OF _ *(1)], rule bexI [OF _ *(2)]) (simp add: *(3))
  qed
  moreover have "\<not> cn_relationship_established x \<and> (\<exists>prior \<in> set historical. cn_target x = ce_reference prior)"
    if "x \<in> set (co_candidates r)" for x
    using that leads_established [of x u subject] unfolding cands by blast
  ultimately show ?thesis by blast
qed

theorem relationships_exact_matches_witness:
  "\<exists>r. correlate id (demo_entity ''s'' [''c''] []) [demo_entity ''b'' [''c''] []] = Inr r \<and>
     (\<exists>x \<in> set (co_relationships r). cr_relationship_type x = ''same_cve'')"
proof -
  let ?s = "demo_entity ''s'' [''c''] []" and ?h = "[demo_entity ''b'' [''c''] []]"
  have "ok (correlate id ?s ?h)" by code_simp
  then obtain r where r: "correlate id ?s ?h = Inr r" by (auto simp: ok_iff)
  have "similarities_ok ?s" by (simp add: similarities_ok_def demo_entity_def)
  have "inj_on entity_key (set ?h)" by (simp add: inj_on_def)
  from relationships_exact_matches [OF this \<open>similarities_ok ?s\<close> r, THEN conjunct1] have
    "\<forall>prior \<in> set ?h. \<forall>(a, g, t, n, c) \<in> set exact_rules. (set (g ?s) \<inter> set (g prior) \<noteq> {}) \<longleftrightarrow>
       (\<exists>x \<in> set (co_relationships r). cr_target x = ce_reference prior \<and> cr_relationship_type x = t)" .
  then have "(set (ce_cve_ids ?s) \<inter> set (ce_cve_ids (hd ?h)) \<noteq> {}) \<longleftrightarrow>
       (\<exists>x \<in> set (co_relationships r). cr_target x = ce_reference (hd ?h) \<and> cr_relationship_type x = ''same_cve'')"
    by (simp add: exact_rules_def)
  then show ?thesis using r by (auto simp: demo_entity_def)
qed

section \<open>Contradictions\<close>

text \<open>The specification: which values are claimed for a key, and on what evidence.\<close>

definition claimed :: "evidence_assertion list \<Rightarrow> string \<Rightarrow> string set" where
  "claimed assertions k = ea_value ` {a \<in> set assertions. ea_claim_key a = k}"

definition claim_evidence :: "evidence_assertion list \<Rightarrow> string \<Rightarrow> uuid set" where
  "claim_evidence assertions k = (\<Union>a \<in> {a \<in> set assertions. ea_claim_key a = k}. set (ea_evidence_ids a))"

lemma claimed_Cons [simp]:
  "claimed [] k = {}" "claim_evidence [] k = {}"
  "claimed (a # as) k = (if ea_claim_key a = k then insert (ea_value a) (claimed as k) else claimed as k)"
  "claim_evidence (a # as) k = (if ea_claim_key a = k
     then set (ea_evidence_ids a) \<union> claim_evidence as k else claim_evidence as k)"
  by (auto simp: claimed_def claim_evidence_def)

definition group_of :: "string \<Rightarrow> uuid list dict dict \<Rightarrow> uuid list dict" where
  "group_of k g = (case dict_get k g of None \<Rightarrow> [] | Some vs \<Rightarrow> vs)"

definition dict_evidence :: "uuid list dict \<Rightarrow> uuid set" where
  "dict_evidence vs = (\<Union>(v, ids) \<in> set vs. set ids)"

lemma dict_keys_set: "fst ` set (dict_set k v d) = insert k (fst ` set d)"
  by (simp add: dict_set_def dom_update)

lemma dict_evidence_set:
  assumes "distinct (map fst vs)"
  shows "dict_evidence (dict_set v ((case dict_get v vs of None \<Rightarrow> [] | Some ids \<Rightarrow> ids) @ new) vs)
       = dict_evidence vs \<union> set new"
  using assms
proof (induction vs)
  case (Cons x vs)
  show ?case
  proof (cases "fst x = v")
    case True
    then show ?thesis by (cases x) (auto simp: dict_evidence_def dict_set_def dict_get_def)
  next
    case False
    then show ?thesis using Cons by (cases x) (auto simp: dict_evidence_def dict_set_def dict_get_def)
  qed
qed (simp add: dict_evidence_def dict_set_def dict_get_def)

lemma group_of_add:
  "group_of k (add_assertion g a) = (if k = ea_claim_key a
     then dict_set (ea_value a) ((case dict_get (ea_value a) (group_of k g) of None \<Rightarrow> [] | Some ids \<Rightarrow> ids)
            @ ea_evidence_ids a) (group_of k g)
     else group_of k g)"
  by (simp add: group_of_def add_assertion_def Let_def dict_get_set)

lemma assertion_groups_spec:
  "distinct (map fst (assertion_groups as)) \<and>
   fst ` set (assertion_groups as) = ea_claim_key ` set as \<and>
   distinct (map fst (group_of k (assertion_groups as))) \<and>
   fst ` set (group_of k (assertion_groups as)) = claimed as k \<and>
   dict_evidence (group_of k (assertion_groups as)) = claim_evidence as k"
proof (induction as rule: rev_induct)
  case Nil
  then show ?case by (simp add: assertion_groups_def group_of_def claimed_def claim_evidence_def
      dict_get_def dict_evidence_def)
next
  case (snoc a as)
  let ?g = "assertion_groups as"
  have step: "assertion_groups (as @ [a]) = add_assertion ?g a" by (simp add: assertion_groups_def)
  have "claimed (as @ [a]) k = (if k = ea_claim_key a then insert (ea_value a) (claimed as k) else claimed as k)"
    "claim_evidence (as @ [a]) k = (if k = ea_claim_key a
       then claim_evidence as k \<union> set (ea_evidence_ids a) else claim_evidence as k)"
    by (auto simp: claimed_def claim_evidence_def)
  moreover have "distinct (map fst (add_assertion ?g a))"
    "fst ` set (add_assertion ?g a) = insert (ea_claim_key a) (fst ` set ?g)"
    using snoc by (simp_all add: add_assertion_def Let_def distinct_dict_set dict_keys_set)
  moreover note snoc
  moreover note facts = calculation
  show ?case
  proof (cases "k = ea_claim_key a")
    case True
    note k = True [symmetric]
    show ?thesis unfolding step group_of_add k
      using facts [unfolded k]
      by (simp add: k distinct_dict_set dict_keys_set dict_evidence_set)
  next
    case False
    then show ?thesis using facts by (simp add: step group_of_add)
  qed
qed

lemma group_of_entry:
  "(k, vs) \<in> set (assertion_groups as) \<Longrightarrow> group_of k (assertion_groups as) = vs"
  using assertion_groups_spec [of as k] by (simp add: group_of_def dict_get_def)

definition assertions_of :: "correlation_entity \<Rightarrow> correlation_entity list \<Rightarrow> evidence_assertion list" where
  "assertions_of subject historical = concat (map ce_assertions (subject # historical))"

definition conflicting :: "evidence_assertion list \<Rightarrow> string list" where
  "conflicting as = filter (\<lambda>k. 2 \<le> card (claimed as k)) (sorted_unique (map ea_claim_key as))"

text \<open>The contradiction the specification asks for.\<close>

definition contradiction_spec :: "(string \<Rightarrow> uuid) \<Rightarrow> correlation_entity \<Rightarrow> evidence_assertion list
    \<Rightarrow> string \<Rightarrow> contradiction_evidence" where
  "contradiction_spec u subject as k =
     \<lparr>cx_contradiction_id = stable_id u ''contradiction'' (er_entity_id (ce_reference subject) # k
         # sorted_list_of_set (claimed as k)),
      cx_subject = ce_reference subject, cx_claim_key = k,
      cx_observed_values = sorted_list_of_set (claimed as k),
      cx_evidence_ids = sorted_list_of_set (claim_evidence as k),
      cx_justification = ''Public evidence contains conflicting values for '' @ k
        @ ''; both assertions remain visible for review.''\<rparr>"

lemma sorted_unique_set: "sorted_unique xs = sorted_list_of_set (set xs)"
  by (metis distinct_sorted_unique set_sorted_unique sorted_list_of_set.idem_if_sorted_distinct
      sorted_sorted_unique)

lemma contradiction_of_spec:
  assumes "(k, vs) \<in> set (assertion_groups as)"
  shows "contradiction_of u s (k, vs) = contradiction_spec u s as k \<and> length vs = card (claimed as k)"
proof -
  note g = assertion_groups_spec [of as k] group_of_entry [OF assms]
  have "set (concat (map snd vs)) = claim_evidence as k" using g by (force simp: dict_evidence_def)
  moreover have "length vs = card (claimed as k)"
    using g distinct_card [of "map fst vs"] by simp
  ultimately show ?thesis using g
    by (simp add: contradiction_of_def contradiction_spec_def sorted_unique_set Let_def)
qed

lemma conflicting_groups:
  "map fst (filter (\<lambda>g. 2 \<le> length (snd g)) (sort_key fst (assertion_groups as))) = conflicting as"
proof -
  note g = assertion_groups_spec [of as]
  have "map fst (sort_key fst (assertion_groups as)) = sorted_unique (map ea_claim_key as)"
    using g by (simp add: map_sort_key sorted_unique_set)
      (metis distinct_sort set_sort set_map sorted_list_of_set.idem_if_sorted_distinct sorted_sort)
  moreover have "filter (\<lambda>g. 2 \<le> length (snd g)) (sort_key fst (assertion_groups as))
      = filter (\<lambda>g. 2 \<le> card (claimed as (fst g))) (sort_key fst (assertion_groups as))"
    by (rule filter_cong [OF refl]) (auto simp: contradiction_of_spec)
  moreover have "filter (\<lambda>k. 2 \<le> card (claimed as k)) (map fst gs)
      = map fst (filter (\<lambda>g. 2 \<le> card (claimed as (fst g))) gs)" for gs :: "uuid list dict dict"
    by (simp add: filter_map comp_def)
  ultimately show ?thesis unfolding conflicting_def by metis
qed

lemma contradictions_by_spec:
  "contradictions u s hs = traverse (\<lambda>k. ContradictionEvidence
       (contradiction_spec u s (assertions_of s hs) k)) (conflicting (assertions_of s hs))"
proof -
  let ?as = "assertions_of s hs"
  let ?gs = "filter (\<lambda>g. 2 \<le> length (snd g)) (sort_key fst (assertion_groups ?as))"
  have tm: "traverse f (map h xs) = traverse (\<lambda>x. f (h x)) xs" for f :: "'a \<Rightarrow> 'e + 'b" and h :: "'c \<Rightarrow> 'a" and xs
    by (induction xs) simp_all
  have "traverse (\<lambda>g. ContradictionEvidence (contradiction_of u s g)) gs
      = traverse (\<lambda>g. ContradictionEvidence (contradiction_spec u s ?as (fst g))) gs"
    if "set gs \<subseteq> set (assertion_groups ?as)" for gs
    using that
  proof (induction gs)
    case (Cons g gs)
    then have "contradiction_of u s g = contradiction_spec u s ?as (fst g)"
      using contradiction_of_spec [of "fst g" "snd g" ?as u s] by simp
    with Cons show ?case by simp
  qed simp
  then have "traverse (\<lambda>g. ContradictionEvidence (contradiction_of u s g)) ?gs
      = traverse (\<lambda>g. ContradictionEvidence (contradiction_spec u s ?as (fst g))) ?gs"
    by (auto simp: filter_is_subset)
  also have "\<dots> = traverse (\<lambda>k. ContradictionEvidence (contradiction_spec u s ?as k)) (map fst ?gs)"
    by (simp only: tm)
  finally show ?thesis unfolding conflicting_groups
    by (simp add: contradictions_def assertions_of_def)
qed

text \<open>An assertion as its contract leaves it: stripped texts, some evidence.\<close>

definition assertion_ok :: "evidence_assertion \<Rightarrow> bool" where
  "assertion_ok a = (EvidenceAssertion a = Inr a)"

lemma assertion_okD:
  assumes "assertion_ok a"
  shows "bounded_text 128 (ea_claim_key a) = Inr (ea_claim_key a)" "strip (ea_value a) = ea_value a"
    "ea_evidence_ids a \<noteq> []"
proof -
  from assms obtain k v where kv: "bounded_text 128 (ea_claim_key a) = Inr k"
      "bounded_text 1024 (ea_value a) = Inr v" "ea_evidence_ids a \<noteq> []"
      "a\<lparr>ea_claim_key := k, ea_value := v\<rparr> = a"
    by (auto simp: assertion_ok_def EvidenceAssertion_def rbind_Inr_iff)
  from kv(4) have "ea_claim_key a = k" "ea_value a = v" by (cases a; simp)+
  with kv show "bounded_text 128 (ea_claim_key a) = Inr (ea_claim_key a)" "strip (ea_value a) = ea_value a"
    "ea_evidence_ids a \<noteq> []"
    by (auto simp: bounded_text_def nonblank_def rbind_Inr_iff split: if_splits)
qed

lemma claimed_key: "2 \<le> card (claimed as k) \<Longrightarrow> \<exists>a \<in> set as. ea_claim_key a = k"
proof (rule ccontr)
  assume "2 \<le> card (claimed as k)" and "\<not> (\<exists>a \<in> set as. ea_claim_key a = k)"
  then have "claimed as k = {}" by (auto simp: claimed_def)
  with \<open>2 \<le> card (claimed as k)\<close> show False by simp
qed

lemma conflicting_iff: "k \<in> set (conflicting as) \<longleftrightarrow> 2 \<le> card (claimed as k)"
  using claimed_key [of as k] by (auto simp: conflicting_def)

lemma claimed_finite [simp]: "finite (claimed as k)" "finite (claim_evidence as k)"
  by (simp_all add: claimed_def claim_evidence_def)

lemma contradiction_valid_iff:
  assumes "\<forall>a \<in> set as. assertion_ok a" and "k \<in> set (conflicting as)"
  shows "ContradictionEvidence (contradiction_spec u s as k) =
     (if 2 \<le> card (claim_evidence as k) then Inr (contradiction_spec u s as k)
      else Inl (ValueError ''evidence_ids''))"
proof -
  have c: "2 \<le> card (claimed as k)" using assms(2) by (simp add: conflicting_iff)
  then obtain a where a: "a \<in> set as" "ea_claim_key a = k" using claimed_key by blast
  then have k: "bounded_text 128 k = Inr k" using assms(1) assertion_okD(1) by blast
  have st: "strip v = v" if "v \<in> claimed as k" for v
    using that assms(1) assertion_okD(2) by (auto simp: claimed_def)
  have "map strip (sorted_list_of_set (claimed as k)) = sorted_list_of_set (claimed as k)"
    by (rule map_idI) (simp add: st)
  with c k show ?thesis
    by (simp add: ContradictionEvidence_def contradiction_spec_def check_def nonblank_ends)
qed

text \<open>C14. Contradictions are complete and are never resolved silently: with well-formed
  assertions, the reported claim keys are, in order, exactly the keys for which the subject
  and its history claim at least two values; each contradiction shows all those values and all
  the evidence of the claims.  The one way to lose them is that a conflict rests on a single
  evidence identifier: then the call raises and nothing of the correlation is returned.\<close>

theorem contradictions_complete:
  assumes "\<forall>a \<in> set (assertions_of subject historical). assertion_ok a"
  shows "contradictions u subject historical =
     (if \<exists>k. 2 \<le> card (claimed (assertions_of subject historical) k) \<and>
             card (claim_evidence (assertions_of subject historical) k) < 2
      then Inl (ValueError ''evidence_ids'')
      else Inr (map (contradiction_spec u subject (assertions_of subject historical))
             (conflicting (assertions_of subject historical))))"
proof -
  let ?as = "assertions_of subject historical"
  have "traverse (\<lambda>k. ContradictionEvidence (contradiction_spec u subject ?as k)) ks =
     (if \<exists>k \<in> set ks. card (claim_evidence ?as k) < 2 then Inl (ValueError ''evidence_ids'')
      else Inr (map (contradiction_spec u subject ?as) ks))" if "set ks \<subseteq> set (conflicting ?as)" for ks
    using that
  proof (induction ks)
    case (Cons k ks)
    then show ?case using contradiction_valid_iff [OF assms, of k u subject] by auto
  qed simp
  from this [of "conflicting ?as"] show ?thesis
    by (auto simp: contradictions_by_spec conflicting_iff)
qed

theorem contradictions_complete_witness:
  "ok (contradictions id (demo_entity ''s'' [] [demo_assertion ''high'' ''e1'']) [demo_entity ''b'' [] [demo_assertion ''low'' ''e2'']])
   \<and> \<not> ok (contradictions id (demo_entity ''s'' [] [demo_assertion ''high'' ''e1'']) [demo_entity ''b'' [] [demo_assertion ''low'' ''e1'']])"
proof -
  let ?s = "demo_entity ''s'' [] [demo_assertion ''high'' ''e1'']"
  let ?h = "\<lambda>i. [demo_entity ''b'' [] [demo_assertion ''low'' i]]"
  have as: "assertions_of ?s (?h i) = [demo_assertion ''high'' ''e1'', demo_assertion ''low'' i]" for i
    by (simp add: assertions_of_def demo_entity_def)
  have v: "assertion_ok (demo_assertion v i)" if "v = ''high'' \<or> v = ''low''" for v i
  proof -
    have "bounded_text 128 ''severity'' = Inr ''severity''" "bounded_text 1024 ''high'' = Inr ''high''"
      "bounded_text 1024 ''low'' = Inr ''low''" by code_simp+
    with that show ?thesis by (auto simp: assertion_ok_def EvidenceAssertion_def demo_assertion_def)
  qed
  let ?as = "\<lambda>i. [demo_assertion ''high'' ''e1'', demo_assertion ''low'' i]"
  have cl: "claimed (?as i) k = (if k = ''severity'' then {''high'', ''low''} else {})"
    "claim_evidence (?as i) k = (if k = ''severity'' then {''e1'', i} else {})" for i k
    by (auto simp: demo_assertion_def)
  have "\<forall>a \<in> set (assertions_of ?s (?h i)). assertion_ok a" for i by (simp add: as v)
  from contradictions_complete [OF this [of "''e2''"], of id] contradictions_complete [OF this [of "''e1''"], of id]
  show ?thesis unfolding as cl by (auto split: if_splits)
qed

section \<open>Resurfacing\<close>

fun material :: "resurfacing_detector \<Rightarrow> assessment_snapshot \<Rightarrow> assessment_snapshot \<Rightarrow> resurfacing_reason \<Rightarrow> bool" where
  "material d p c KEV_ADDITION = (as_known_exploited p \<noteq> Some True \<and> as_known_exploited c = Some True)"
| "material d p c MATERIAL_EPSS_CHANGE = moved (rd_epss_delta d) (as_epss_score p) (as_epss_score c)"
| "material d p c MATERIAL_CVSS_CHANGE = moved (rd_cvss_delta d) (as_cvss_score p) (as_cvss_score c)"
| "material d p c ACTIVE_EXPLOITATION = as_active_exploitation_evidence c"
| "material d p c INFRASTRUCTURE_REACTIVATED = as_infrastructure_reactivated c"
| "material d p c INDEPENDENT_CORROBORATION = as_independent_corroboration c"
| "material d p c AFFECTED_SURFACE_EXPANDED
     = (\<not> set (as_affected_product_keys c) \<subseteq> set (as_affected_product_keys p))"
| "material d p c ATTACK_CHAIN_COMPLETED = as_attack_chain_completed c"
| "material d p c COVERAGE_OBSOLETE = as_coverage_obsolete c"

lemma reason_flags_spec: "(b, r) \<in> set (reason_flags d p c) \<longleftrightarrow> b = material d p c r"
  by (cases r) (auto simp: reason_flags_def list_ex_iff subset_iff)

lemma resurfacing_reasons_spec:
  "set (resurfacing_reasons d p c) = {r. material d p c r} \<and> distinct (resurfacing_reasons d p c)"
proof -
  have "distinct (map snd (reason_flags d p c))" by (simp add: reason_flags_def)
  then have "distinct (resurfacing_reasons d p c)"
    unfolding resurfacing_reasons_def by (rule distinct_map_filter)
  then show ?thesis by (auto simp: resurfacing_reasons_def image_iff reason_flags_spec)
qed

lemma resurfacing_reasons_Nil: "resurfacing_reasons d p c = [] \<longleftrightarrow> (\<forall>r. \<not> material d p c r)"
  using resurfacing_reasons_spec [of d p c] by (metis empty_set mem_Collect_eq set_empty empty_iff equals0I)

definition score_ok :: "assessment_snapshot \<Rightarrow> bool" where
  "score_ok a = (0 \<le> as_score a \<and> as_score a \<le> 100)"

text \<open>An assessment resurfaces exactly on a material change: between two assessments of one
  entity, no event is produced if and only if none of the nine reasons holds; an event lists
  exactly the reasons that hold, each once, with the new and current evidence and both
  scores; and a material change without any evidence, or between an assessment and itself,
  is an error rather than an event.\<close>

theorem resurfacing_material:
  assumes same: "as_entity previous = as_entity current"
    and range: "score_ok previous" "score_ok current"
  shows "(detect u d previous current new now = Inr None \<longleftrightarrow> (\<forall>r. \<not> material d previous current r)) \<and>
     (\<forall>e. detect u d previous current new now = Inr (Some e) \<longrightarrow>
        set (re_reasons e) = {r. material d previous current r} \<and> distinct (re_reasons e) \<and>
        set (re_evidence_ids e) = set new \<union> set (as_evidence_ids current) \<and> re_evidence_ids e \<noteq> [] \<and>
        re_previous_score e = as_score previous \<and> re_new_score e = as_score current \<and>
        re_previous_assessment_id e \<noteq> re_new_assessment_id e) \<and>
     (\<not> ok (detect u d previous current new now) \<longleftrightarrow> (\<exists>r. material d previous current r) \<and>
        (new = [] \<and> as_evidence_ids current = [] \<or> as_assessment_id previous = as_assessment_id current))"
proof -
  let ?rs = "resurfacing_reasons d previous current"
  have ev: "sorted_unique (new @ as_evidence_ids current) = [] \<longleftrightarrow> new = [] \<and> as_evidence_ids current = []"
    by simp
  show ?thesis
    using range resurfacing_reasons_spec [of d previous current] resurfacing_reasons_Nil [of d previous current]
    by (simp add: detect_def Let_def same ResurfacingEvent_def check_def nonblank_ends score_ok_def
        rbind_Inr_iff ok_iff del: sorted_unique_Nil_iff add: ev)
qed

definition demo_assessment :: "uuid \<Rightarrow> rat \<Rightarrow> assessment_snapshot" where
  "demo_assessment i epss = \<lparr>as_assessment_id = i,
     as_entity = \<lparr>er_entity_type = ET_VULNERABILITY, er_entity_id = ''v''\<rparr>, as_assessment_version = 1,
     as_score = 50, as_severity = MEDIUM, as_confidence = 1, as_known_exploited = None,
     as_epss_score = Some epss, as_cvss_score = None, as_affected_product_keys = [],
     as_evidence_ids = [''e''], as_active_exploitation_evidence = False,
     as_infrastructure_reactivated = False, as_independent_corroboration = False,
     as_attack_chain_completed = False, as_coverage_obsolete = False\<rparr>"

theorem resurfacing_material_witness:
  "\<exists>e. detect id \<lparr>rd_epss_delta = 1 / 10, rd_cvss_delta = 1\<rparr> (demo_assessment ''a'' (1 / 5))
       (demo_assessment ''b'' (2 / 5)) [] 0 = Inr (Some e) \<and> MATERIAL_EPSS_CHANGE \<in> set (re_reasons e)"
proof -
  let ?d = "\<lparr>rd_epss_delta = 1 / 10, rd_cvss_delta = 1\<rparr>"
  let ?p = "demo_assessment ''a'' (1 / 5)" and ?c = "demo_assessment ''b'' (2 / 5)"
  have m: "material ?d ?p ?c MATERIAL_EPSS_CHANGE" by (simp add: moved_def demo_assessment_def)
  have "as_entity ?p = as_entity ?c" "score_ok ?p" "score_ok ?c"
    by (simp_all add: score_ok_def demo_assessment_def)
  note t = resurfacing_material [OF this, where u = id and d = ?d and new = "[]" and now = 0]
  with m have "detect id ?d ?p ?c [] 0 \<noteq> Inr None" by blast
  moreover have "ok (detect id ?d ?p ?c [] 0)" using t by (simp add: demo_assessment_def)
  ultimately obtain e where "detect id ?d ?p ?c [] 0 = Inr (Some e)" by (auto simp: ok_iff)
  with t m show ?thesis by blast
qed

section \<open>Model proposals\<close>

text \<open>C30. The submission policy and the proposal contract agree: a proposal that the contract
  has built is accepted for submission exactly when its origin is model inference, unchanged;
  and no such proposal attributes an actor without evidence of an admitted quality.\<close>

theorem proposal_policy:
  assumes "RelationshipProposal p = Inr q"
  shows "ok (validate_model_proposal q) = (rp_origin q = RO_MODEL_INFERENCE) \<and>
     (\<forall>r. validate_model_proposal q = Inr r \<longrightarrow> r = q \<and> rp_review_state q \<in> {RV_PROPOSED, RV_REVIEWED}) \<and>
     (is_actor_attribution q \<longrightarrow> rp_evidence_ids q \<noteq> [] \<and>
        (\<exists>quality \<in> set evidence_qualities. rp_attribution_evidence_quality q = Some quality))"
proof -
  from assms obtain q0 where v: "validate_origin_requirements q0 = Inr q"
    and ql: "case rp_attribution_evidence_quality q0 of None \<Rightarrow> True | Some x \<Rightarrow> x \<in> set evidence_qualities"
    by (auto simp: RelationshipProposal_def rbind_Inr_iff)
  from v have "q = q0" by (auto simp: validate_origin_requirements_def split: if_splits)
  with v ql show ?thesis
    by (auto simp: validate_origin_requirements_def validate_model_proposal_def split: if_splits option.splits)
qed

definition demo_proposal :: "relationship_proposal" where
  "demo_proposal = \<lparr>rp_proposal_id = ''p'',
     rp_source = \<lparr>er_entity_type = ET_MALWARE, er_entity_id = ''m''\<rparr>,
     rp_relationship_type = ''attributed_to'',
     rp_target = \<lparr>er_entity_type = ET_ACTOR, er_entity_id = ''a''\<rparr>, rp_origin = RO_MODEL_INFERENCE,
     rp_confidence = 1, rp_justification = ''report'', rp_review_state = RV_PROPOSED,
     rp_evidence_ids = [''e''], rp_prompt_version = None, rp_model_identifier = None,
     rp_system_prompt_hash = None, rp_skill_version_hashes = [], rp_triggering_run_id = None,
     rp_deterministic_rule = None, rp_attribution_evidence_quality = Some ''explicit_source''\<rparr>"

theorem proposal_policy_witness:
  "\<exists>q. RelationshipProposal demo_proposal = Inr q \<and> rp_relationship_type q = ''attributed_to'' \<and>
     (rp_origin q = RO_MODEL_INFERENCE \<longleftrightarrow> ok (validate_model_proposal q))"
proof -
  have "ok (RelationshipProposal demo_proposal)
      \<and> rp_relationship_type (projr (RelationshipProposal demo_proposal)) = ''attributed_to''" by code_simp
  then obtain q where "RelationshipProposal demo_proposal = Inr q" "rp_relationship_type q = ''attributed_to''"
    by (auto simp: ok_iff)
  with proposal_policy [OF this(1)] show ?thesis by blast
qed

end
