(* ===== verification/Correlation_Store.thy ===== *)
theory Correlation_Store
  imports Correlation_Facts Sql_Table
begin

text \<open>
  \<^verbatim>\<open>correlation/repository.py\<close>: the tables of the correlation artefacts and the
  statements that persist them.  A row keeps the columns of its contract; enumerations are
  stored by value, which is injective.  Natural keys and primary keys are those of
  \<^verbatim>\<open>db/models.py\<close>; the UUIDv5 of a name inside a namespace is the parameter
  \<open>uuid5_in\<close>.
\<close>

record evidence_row =
  ev_id :: uuid
  ev_relationship_id :: uuid
  ev_evidence_claim_id :: uuid

record contradiction_row =
  xw_evidence :: contradiction_evidence
  xw_review_state :: string
  xw_confidence :: rat

record correlation_db =
  cd_relationships :: "correlation_relationship list"
  cd_evidence :: "evidence_row list"
  cd_candidates :: "correlation_candidate list"
  cd_contradictions :: "contradiction_row list"
  cd_events :: "resurfacing_event list"
  cd_claim_ids :: "uuid list"
  cd_assessment_ids :: "uuid list"

section \<open>Relationships\<close>

definition relationship_key :: "correlation_relationship \<Rightarrow> entity_ref \<times> string \<times> entity_ref \<times> string" where
  "relationship_key r = (cr_source r, cr_relationship_type r, cr_target r, cr_origin_rule r)"

definition update_relationship ::
  "correlation_relationship \<Rightarrow> correlation_relationship \<Rightarrow> correlation_relationship" where
  "update_relationship old new = old\<lparr>cr_last_seen_at := cr_last_seen_at new,
     cr_confidence := cr_confidence new, cr_justification := cr_justification new,
     cr_active := cr_active new, cr_review_state := cr_review_state new\<rparr>"

definition loose_key :: "correlation_relationship \<Rightarrow> uuid \<times> string \<times> uuid \<times> string" where
  "loose_key r = (er_entity_id (cr_source r), cr_relationship_type r, er_entity_id (cr_target r), cr_origin_rule r)"

definition insert_evidence :: "(uuid \<Rightarrow> string \<Rightarrow> uuid) \<Rightarrow> uuid \<Rightarrow> uuid \<Rightarrow> correlation_db \<Rightarrow> uuid
    \<Rightarrow> store_error + correlation_db" where
  "insert_evidence uuid5_in relationship_id record_id db evidence_id =
     (let row = \<lparr>ev_id = uuid5_in relationship_id (''evidence:'' @ evidence_id),
            ev_relationship_id = record_id, ev_evidence_claim_id = evidence_id\<rparr> in
      if has_row ev_id (ev_id row) (cd_evidence db) then Inr db
      else if evidence_id \<notin> set (cd_claim_ids db) then Inl IntegrityError
      else Inr (db\<lparr>cd_evidence := cd_evidence db @ [row]\<rparr>))"

definition persist_relationship :: "(uuid \<Rightarrow> string \<Rightarrow> uuid) \<Rightarrow> correlation_db \<Rightarrow> correlation_relationship
    \<Rightarrow> store_error + correlation_db" where
  "persist_relationship uuid5_in db r =
     rbind (upsert_checked cr_relationship_id relationship_key update_relationship r (cd_relationships db)) (\<lambda>rels.
     (case (case find_row cr_relationship_id (cr_relationship_id r) rels of
              None \<Rightarrow> find_row loose_key (loose_key r) rels | Some x \<Rightarrow> Some x) of
        None \<Rightarrow> Inl (NotPersisted ''relationship was not persisted'')
      | Some row \<Rightarrow>
          fold_result (insert_evidence uuid5_in (cr_relationship_id r) (cr_relationship_id row))
            (db\<lparr>cd_relationships := rels\<rparr>) (cr_evidence_ids r)))"

section \<open>Candidates, contradictions and resurfacing events\<close>

definition candidate_key :: "correlation_candidate \<Rightarrow> entity_ref \<times> entity_ref \<times> string" where
  "candidate_key c = (cn_source c, cn_target c, cn_candidate_type c)"

definition update_candidate :: "correlation_candidate \<Rightarrow> correlation_candidate \<Rightarrow> correlation_candidate" where
  "update_candidate old new = old\<lparr>cn_score := cn_score new, cn_rationale := cn_rationale new,
     cn_evidence_ids := cn_evidence_ids new, cn_relationship_established := False\<rparr>"

definition persist_candidate :: "correlation_db \<Rightarrow> correlation_candidate \<Rightarrow> store_error + correlation_db" where
  "persist_candidate db c =
     rbind (upsert_checked cn_candidate_id candidate_key update_candidate c (cd_candidates db)) (\<lambda>cands.
       if has_row cn_candidate_id (cn_candidate_id c) cands then Inr (db\<lparr>cd_candidates := cands\<rparr>)
       else Inl (NotPersisted ''correlation candidate was not persisted''))"

definition contradiction_id :: "contradiction_row \<Rightarrow> uuid" where
  "contradiction_id w = cx_contradiction_id (xw_evidence w)"

definition contradiction_key :: "contradiction_row \<Rightarrow> entity_ref \<times> string" where
  "contradiction_key w = (cx_subject (xw_evidence w), cx_claim_key (xw_evidence w))"

definition update_contradiction :: "contradiction_row \<Rightarrow> contradiction_row \<Rightarrow> contradiction_row" where
  "update_contradiction old new = old\<lparr>
     xw_evidence := (xw_evidence old)\<lparr>cx_observed_values := cx_observed_values (xw_evidence new),
       cx_evidence_ids := cx_evidence_ids (xw_evidence new),
       cx_justification := cx_justification (xw_evidence new)\<rparr>,
     xw_review_state := xw_review_state new, xw_confidence := xw_confidence new\<rparr>"

definition persist_contradiction :: "correlation_db \<Rightarrow> contradiction_evidence \<Rightarrow> store_error + correlation_db" where
  "persist_contradiction db c =
     rbind (upsert_checked contradiction_id contradiction_key update_contradiction
         \<lparr>xw_evidence = c, xw_review_state = ''proposed'', xw_confidence = 0\<rparr> (cd_contradictions db)) (\<lambda>rows.
       if has_row contradiction_id (cx_contradiction_id c) rows then Inr (db\<lparr>cd_contradictions := rows\<rparr>)
       else Inl (NotPersisted ''contradiction was not persisted''))"

definition transition_key :: "resurfacing_event \<Rightarrow> uuid \<times> uuid" where
  "transition_key e = (re_previous_assessment_id e, re_new_assessment_id e)"

definition persist_resurfacing :: "correlation_db \<Rightarrow> resurfacing_event
    \<Rightarrow> store_error + correlation_db \<times> resurfacing_event" where
  "persist_resurfacing db e =
     rbind (if has_row transition_key (transition_key e) (cd_events db) then Inr (cd_events db)
            else if has_row re_event_id (re_event_id e) (cd_events db)
              \<or> re_previous_assessment_id e \<notin> set (cd_assessment_ids db)
              \<or> re_new_assessment_id e \<notin> set (cd_assessment_ids db) then Inl IntegrityError
            else Inr (cd_events db @ [e])) (\<lambda>rows.
       (case (case find_row re_event_id (re_event_id e) rows of
                None \<Rightarrow> find_row transition_key (transition_key e) rows | Some x \<Rightarrow> Some x) of
          None \<Rightarrow> Inl (NotPersisted ''resurfacing event was not persisted'')
        | Some record \<Rightarrow> Inr (db\<lparr>cd_events := rows\<rparr>, record)))"

section \<open>A whole result\<close>

definition persist_result :: "(uuid \<Rightarrow> string \<Rightarrow> uuid) \<Rightarrow> correlation_db \<Rightarrow> correlation_result
    \<Rightarrow> store_error + correlation_db" where
  "persist_result uuid5_in db r =
     rbind (fold_result (persist_relationship uuid5_in) db (co_relationships r)) (\<lambda>db1.
     rbind (fold_result persist_candidate db1 (co_candidates r)) (\<lambda>db2.
       fold_result persist_contradiction db2 (co_contradictions r)))"

definition public_relationships :: "correlation_db \<Rightarrow> correlation_relationship list" where
  "public_relationships db =
     sort_key (\<lambda>r. (entity_type_value (er_entity_type (cr_source r)), er_entity_id (cr_source r),
         cr_relationship_type r, entity_type_value (er_entity_type (cr_target r)), er_entity_id (cr_target r)))
       (filter (\<lambda>r. cr_active r \<and> cr_review_state r = RV_REVIEWED) (cd_relationships db))"

section \<open>The tables keep their constraints\<close>

interpretation relationships: identified_table relationship_key update_relationship cr_relationship_id
  by unfold_locales (simp_all add: relationship_key_def update_relationship_def)

interpretation candidate_rows: identified_table candidate_key update_candidate cn_candidate_id
  by unfold_locales (simp_all add: candidate_key_def update_candidate_def)

interpretation contradiction_rows: identified_table contradiction_key update_contradiction contradiction_id
  by unfold_locales (simp_all add: contradiction_key_def update_contradiction_def contradiction_id_def)

definition store_ok :: "correlation_db \<Rightarrow> bool" where
  "store_ok db = (unique_on relationship_key (cd_relationships db)
     \<and> unique_on cr_relationship_id (cd_relationships db)
     \<and> unique_on candidate_key (cd_candidates db) \<and> unique_on cn_candidate_id (cd_candidates db)
     \<and> unique_on contradiction_key (cd_contradictions db)
     \<and> unique_on contradiction_id (cd_contradictions db) \<and> unique_on ev_id (cd_evidence db)
     \<and> list_all (\<lambda>e. ev_evidence_claim_id e \<in> set (cd_claim_ids db)
          \<and> has_row cr_relationship_id (ev_relationship_id e) (cd_relationships db)) (cd_evidence db)
     \<and> list_all (\<lambda>c. \<not> cn_relationship_established c) (cd_candidates db))"

lemma insert_evidence_ok:
  assumes "store_ok db" "has_row cr_relationship_id rid (cd_relationships db)"
    "insert_evidence u i rid db e = Inr db'"
  shows "store_ok db' \<and> has_row cr_relationship_id rid (cd_relationships db')"
  using assms by (auto simp: insert_evidence_def Let_def store_ok_def unique_on_def has_row_iff split: if_splits)

lemma persist_relationship_ok:
  assumes "store_ok db" "persist_relationship u db r = Inr db'"
  shows "store_ok db'"
proof -
  from assms(2) obtain rels row where
    up: "upsert_checked cr_relationship_id relationship_key update_relationship r (cd_relationships db) = Inr rels"
    and mem: "row \<in> set rels"
    and run: "fold_result (insert_evidence u (cr_relationship_id r) (cr_relationship_id row))
       (db\<lparr>cd_relationships := rels\<rparr>) (cr_evidence_ids r) = Inr db'"
    by (auto simp: persist_relationship_def rbind_Inr_iff split: option.splits dest: find_row_Some)
  let ?P = "\<lambda>d. store_ok d \<and> has_row cr_relationship_id (cr_relationship_id row) (cd_relationships d)"
  have "?P (db\<lparr>cd_relationships := rels\<rparr>)"
    using assms(1) relationships.checked_unique [OF up] relationships.checked_idents [OF up] mem
    by (auto simp: store_ok_def list_all_iff) (auto simp: has_row_iff)
  with run have "?P db'"
    by (rule fold_result_invariant [where P = "?P"]) (use insert_evidence_ok in blast)
  then show ?thesis by simp
qed

lemma persist_candidate_ok:
  assumes "store_ok db" "persist_candidate db c = Inr db'" "\<not> cn_relationship_established c"
  shows "store_ok db'"
proof -
  from assms(2) obtain rows where
    up: "upsert_checked cn_candidate_id candidate_key update_candidate c (cd_candidates db) = Inr rows"
    and db': "db' = db\<lparr>cd_candidates := rows\<rparr>"
    by (auto simp: persist_candidate_def rbind_Inr_iff split: if_splits)
  have "\<not> cn_relationship_established x" if "x \<in> set rows" for x
    using that candidate_rows.checked_cases [OF up] candidate_rows.upsert_set [of x c "cd_candidates db"] assms(1,3)
    by (auto simp: store_ok_def list_all_iff update_candidate_def)
  with assms(1) candidate_rows.checked_unique [OF up] show ?thesis
    by (auto simp: store_ok_def db' list_all_iff)
qed

lemma persist_contradiction_ok:
  "store_ok db \<Longrightarrow> persist_contradiction db c = Inr db' \<Longrightarrow> store_ok db'"
  using contradiction_rows.checked_unique
  by (fastforce simp: persist_contradiction_def store_ok_def rbind_Inr_iff split: if_splits)


definition empty_store :: "uuid list \<Rightarrow> correlation_db" where
  "empty_store claims = \<lparr>cd_relationships = [], cd_evidence = [], cd_candidates = [],
     cd_contradictions = [], cd_events = [], cd_claim_ids = claims, cd_assessment_ids = []\<rparr>"


text \<open>A contradiction whose values change cannot be persisted again: once a contradiction
  on a subject and claim key is stored, persisting another one on the same subject and key
  under an identifier no row has (the identifier is derived from the conflicting values)
  updates the stored row, keeps its identifier, finds no row with the new identifier and
  raises.\<close>

theorem changed_contradiction_not_persisted:
  assumes stored: "persist_contradiction db c = Inr db'"
    and same: "cx_subject c' = cx_subject c" "cx_claim_key c' = cx_claim_key c"
    and fresh: "\<not> has_row contradiction_id (cx_contradiction_id c') (cd_contradictions db')"
  shows "persist_contradiction db' c' = Inl (NotPersisted ''contradiction was not persisted'')"
proof -
  let ?row = "\<lambda>c. \<lparr>xw_evidence = c, xw_review_state = ''proposed'', xw_confidence = 0\<rparr>"
  from stored obtain rows where
    up: "upsert_checked contradiction_id contradiction_key update_contradiction (?row c) (cd_contradictions db) = Inr rows"
    and db': "db' = db\<lparr>cd_contradictions := rows\<rparr>"
    by (auto simp: persist_contradiction_def rbind_Inr_iff split: if_splits)
  have "contradiction_key (?row c') = contradiction_key (?row c)" using same by (simp add: contradiction_key_def)
  then have "has_row contradiction_key (contradiction_key (?row c')) rows"
    using contradiction_rows.checked_present [OF up] by simp
  then have again: "upsert_checked contradiction_id contradiction_key update_contradiction (?row c') rows
      = Inr (upsert contradiction_key update_contradiction (?row c') rows)"
    by (simp add: upsert_checked_def)
  have "\<not> has_row contradiction_id (cx_contradiction_id c') (upsert contradiction_key update_contradiction (?row c') rows)"
    using contradiction_rows.checked_idents [OF again] fresh
      \<open>has_row contradiction_key (contradiction_key (?row c')) rows\<close> by (simp add: db')
  then show ?thesis by (simp add: persist_contradiction_def db' again)
qed

theorem changed_contradiction_not_persisted_witness:
  "\<exists>db'. persist_contradiction (empty_store []) (contradiction_spec id (demo_entity ''s'' [] [])
        [demo_assertion ''high'' ''e1'', demo_assertion ''low'' ''e2''] ''severity'') = Inr db' \<and>
     \<not> ok (persist_contradiction db' (contradiction_spec id (demo_entity ''s'' [] [])
        [demo_assertion ''high'' ''e1'', demo_assertion ''none'' ''e3''] ''severity''))"
proof -
  let ?c = "contradiction_spec id (demo_entity ''s'' [] []) [demo_assertion ''high'' ''e1'', demo_assertion ''low'' ''e2''] ''severity''"
  let ?c' = "contradiction_spec id (demo_entity ''s'' [] []) [demo_assertion ''high'' ''e1'', demo_assertion ''none'' ''e3''] ''severity''"
  let ?db = "(empty_store [])\<lparr>cd_contradictions := [\<lparr>xw_evidence = ?c, xw_review_state = ''proposed'', xw_confidence = 0\<rparr>]\<rparr>"
  have s: "persist_contradiction (empty_store []) ?c = Inr ?db"
    by (simp add: persist_contradiction_def upsert_checked_def empty_store_def has_row_def contradiction_id_def)
  have "sorted_list_of_set {''high'', ''low''} \<noteq> sorted_list_of_set {''high'', ''none''}"
    using sorted_list_of_set.set_sorted_key_list_of_set [of "{''high'', ''low''}"]
      sorted_list_of_set.set_sorted_key_list_of_set [of "{''high'', ''none''}"] by auto
  then have "\<not> has_row contradiction_id (cx_contradiction_id ?c') (cd_contradictions ?db)"
    by (auto simp: has_row_def contradiction_id_def contradiction_spec_def stable_id_def demo_assertion_def)
  from changed_contradiction_not_persisted [OF s _ _ this] s show ?thesis
    by (auto simp: contradiction_spec_def)
qed

end
