(* ===== verification/Html_Text.thy ===== *)
theory Html_Text
  imports Py_Regex
begin

text \<open>
  The visible-text extractors: \<^verbatim>\<open>_HTMLTextParser\<close> and \<open>normalize_html_text\<close> of
  \<^verbatim>\<open>ingestion/normalization.py\<close>, \<^verbatim>\<open>HTMLArticleParser\<close>, \<open>clean_html_content\<close> and
  \<open>extract_pdf_text_fallback\<close> of \<^verbatim>\<open>ingestion/web_scraper.py\<close>.  The tokens of
  \<^verbatim>\<open>html.parser\<close>, the optional \<^verbatim>\<open>pypdf\<close> reader and UTF-8 decoding are parameters.
\<close>

section \<open>Parser events\<close>

datatype html_event =
    Start_Tag string
  | Start_End_Tag string
  | End_Tag string
  | Data string

definition text_ignored :: "string list" where
  "text_ignored = [''script'', ''style'', ''noscript'', ''template'']"

definition article_ignored :: "string list" where
  "article_ignored = [''script'', ''style'', ''noscript'', ''template'', ''svg'', ''nav'',
     ''header'', ''footer'', ''aside'', ''form'']"

definition block_tags :: "string list" where
  "block_tags = [''address'', ''article'', ''br'', ''div'', ''dl'', ''dt'', ''dd'', ''fieldset'',
     ''figcaption'', ''figure'', ''footer'', ''h1'', ''h2'', ''h3'', ''h4'', ''h5'', ''h6'',
     ''header'', ''li'', ''main'', ''nav'', ''ol'', ''p'', ''pre'', ''section'', ''table'', ''td'',
     ''th'', ''tr'', ''ul'']"

text \<open>The state of a parser is the ignored depth and the parts collected so far, last first.\<close>

definition line_break :: string where
  "line_break = [CHR 0x0A]"

fun html_step :: "string list \<Rightarrow> nat \<times> string list \<Rightarrow> html_event \<Rightarrow> nat \<times> string list" where
  "html_step ignored (depth, parts) (Start_Tag tag) =
     (if lower tag \<in> set ignored then (depth + 1, parts)
      else if depth = 0 \<and> lower tag \<in> set block_tags then (depth, line_break # parts)
      else (depth, parts))"
| "html_step ignored (depth, parts) (Start_End_Tag tag) =
     (if depth = 0 \<and> lower tag \<in> set block_tags then (depth, line_break # parts) else (depth, parts))"
| "html_step ignored (depth, parts) (End_Tag tag) =
     (if lower tag \<in> set ignored \<and> depth \<noteq> 0 then (depth - 1, parts)
      else if depth = 0 \<and> lower tag \<in> set block_tags then (depth, line_break # parts)
      else (depth, parts))"
| "html_step ignored (depth, parts) (Data d) =
     (if depth = 0 then (depth, d # parts) else (depth, parts))"

definition html_parts :: "string list \<Rightarrow> html_event list \<Rightarrow> string list" where
  "html_parts ignored events = rev (snd (foldl (html_step ignored) (0, []) events))"

section \<open>White space\<close>

text \<open>\<open>re.sub(r"\s+", " ", s)\<close>: the flag tells that the last character was a space.\<close>

fun collapse_from :: "(char \<Rightarrow> bool) \<Rightarrow> bool \<Rightarrow> string \<Rightarrow> string" where
  "collapse_from p sp [] = []"
| "collapse_from p sp (c # cs) =
     (if p c then (if sp then [] else [CHR '' '']) @ collapse_from p True cs
      else c # collapse_from p False cs)"

definition collapse :: "(char \<Rightarrow> bool) \<Rightarrow> string \<Rightarrow> string" where
  "collapse p s = collapse_from p False s"

definition normalize_html_text :: "(string \<Rightarrow> html_event list) \<Rightarrow> string \<Rightarrow> string" where
  "normalize_html_text html v = strip (collapse is_space (concat (html_parts text_ignored (html v))))"

definition is_line_end :: "char \<Rightarrow> bool" where
  "is_line_end c = (code c \<in> {10, 11, 12, 13, 28, 29, 30, 133})"

text \<open>\<open>str.splitlines()\<close>: a carriage return and line feed end one line; no last empty line.\<close>

fun splitlines_from :: "string \<Rightarrow> string \<Rightarrow> string list" where
  "splitlines_from cur [] = (if cur = [] then [] else [rev cur])"
| "splitlines_from cur [c] = (if is_line_end c then [rev cur] else [rev (c # cur)])"
| "splitlines_from cur (c # d # cs) =
     (if code c = 13 \<and> code d = 10 then rev cur # splitlines_from [] cs
      else if is_line_end c then rev cur # splitlines_from [] (d # cs)
      else splitlines_from (c # cur) (d # cs))"

definition splitlines :: "string \<Rightarrow> string list" where
  "splitlines s = splitlines_from [] s"

definition is_blank :: "char \<Rightarrow> bool" where
  "is_blank c = (code c = 32 \<or> code c = 9)"

text \<open>The last element kept is the head of the accumulator.\<close>

fun drop_blank_runs :: "string list \<Rightarrow> string list \<Rightarrow> string list" where
  "drop_blank_runs kept [] = rev kept"
| "drop_blank_runs kept (l # ls) =
     (if l \<noteq> [] then drop_blank_runs (l # kept) ls
      else if kept \<noteq> [] \<and> hd kept \<noteq> [] then drop_blank_runs ([] # kept) ls
      else drop_blank_runs kept ls)"

definition clean_html_content :: "(string \<Rightarrow> html_event list) \<Rightarrow> string \<Rightarrow> string" where
  "clean_html_content html raw_html =
     (if raw_html = [] then []
      else (let t = concat (html_parts article_ignored (html raw_html));
                ls = map (\<lambda>l. strip (collapse is_blank l)) (splitlines t)
        in strip (join line_break (drop_blank_runs [] ls))))"

section \<open>PDF text\<close>

definition bt_chunk :: re where
  "bt_chunk = seqs [lit ''BT'', Lazy (Chr (\<lambda>_. True)), lit ''ET'']"

definition pdf_literal :: re where
  "pdf_literal = seqs [lit ''('', Grp 1 (Lazy (Chr (\<lambda>c. code c \<noteq> 10))), lit '')'']"

definition pdf_literals :: "(string \<Rightarrow> string) \<Rightarrow> string \<Rightarrow> string list" where
  "pdf_literals decode_ignore pdf =
     filter (\<lambda>t. t \<noteq> []) (concat (map (\<lambda>chunk.
       map (\<lambda>f. strip (decode_ignore (case group 1 f of None \<Rightarrow> [] | Some t \<Rightarrow> t)))
         (finditer pdf_literal (fd_text chunk))) (finditer bt_chunk pdf)))"

text \<open>The parameter \<open>pypdf\<close> is the text of the pages when the package is installed and
  reads the file.\<close>

definition extract_pdf_text_fallback ::
  "(string \<Rightarrow> string list option) \<Rightarrow> (string \<Rightarrow> string) \<Rightarrow> string \<Rightarrow> string" where
  "extract_pdf_text_fallback pypdf decode_ignore pdf =
     (if pdf = [] then []
      else (case pypdf pdf of
          Some pages \<Rightarrow> (case filter (\<lambda>t. t \<noteq> []) pages of
              [] \<Rightarrow> join '' '' (pdf_literals decode_ignore pdf)
            | ps \<Rightarrow> strip (join (line_break @ line_break) ps))
        | None \<Rightarrow> join '' '' (pdf_literals decode_ignore pdf)))"

section \<open>What the extractors guarantee\<close>

text \<open>Text inside an ignored element never reaches the output: from a positive depth the
  parts do not change until the depth is back at zero.\<close>

lemma html_step_hidden:
  "0 < depth \<Longrightarrow> snd (html_step ign (depth, parts) ev) = parts"
  by (cases ev) auto

lemma html_step_grows: "\<exists>new. snd (html_step ign s ev) = new @ snd s"
  by (cases s; cases ev) auto

text \<open>The nesting of ignored elements: the depth after a sequence of events, from a depth.\<close>

fun nesting :: "string list \<Rightarrow> nat \<Rightarrow> html_event list \<Rightarrow> nat option" where
  "nesting ign d [] = Some d"
| "nesting ign d (Start_Tag t # es) = nesting ign (if lower t \<in> set ign then d + 1 else d) es"
| "nesting ign d (End_Tag t # es) =
     (if lower t \<in> set ign then (if d = 0 then None else nesting ign (d - 1) es) else nesting ign d es)"
| "nesting ign d (e # es) = nesting ign d es"

text \<open>Inside an ignored element, events that open and close ignored elements in pairs change
  neither the parts nor the depth.\<close>

lemma hidden_fold:
  "nesting ign d es = Some n \<Longrightarrow>
     foldl (html_step ign) (Suc (k + d), parts) es = (Suc (k + n), parts)"
proof (induction ign d es rule: nesting.induct)
  case (3 ign d t es)
  then show ?case by (cases d) (auto split: if_splits)
qed (auto split: if_splits)

text \<open>Scripts, styles and page furniture are invisible: an ignored element met at depth
  zero contributes nothing to the text, whatever it contains, as long as the ignored elements
  inside it are closed in pairs.\<close>

theorem ignored_element_invisible:
  assumes "nesting ign 0 inner = Some 0" and "lower t \<in> set ign" and "lower t' \<in> set ign"
    and "fst (foldl (html_step ign) (0, []) before) = 0"
  shows "html_parts ign (before @ Start_Tag t # inner @ End_Tag t' # after) = html_parts ign (before @ after)"
proof -
  obtain parts where b: "foldl (html_step ign) (0, []) before = (0, parts)"
    using assms(4) by (metis prod.collapse)
  then show ?thesis
    using assms(2,3) hidden_fold [OF assms(1), of 0 parts] by (simp add: html_parts_def)
qed

theorem ignored_element_invisible_witness:
  "html_parts text_ignored ([Data ''a''] @ Start_Tag ''SCRIPT'' # [Start_Tag ''p'', Data ''x''] @ End_Tag ''script'' # [Data ''b''])
     = html_parts text_ignored ([Data ''a''] @ [Data ''b''])
   \<and> html_parts text_ignored [Data ''a'', Data ''b''] = [''a'', ''b'']"
proof
  have "lower ''SCRIPT'' \<in> set text_ignored" "lower ''script'' \<in> set text_ignored" "lower ''p'' \<notin> set text_ignored"
    by code_simp+
  then show "html_parts text_ignored ([Data ''a''] @ Start_Tag ''SCRIPT'' # [Start_Tag ''p'', Data ''x''] @ End_Tag ''script'' # [Data ''b''])
     = html_parts text_ignored ([Data ''a''] @ [Data ''b''])"
    by (intro ignored_element_invisible) simp_all
qed (simp add: html_parts_def)

text \<open>Canonical white space: no space at either end, no two in a row, no other white space.\<close>

fun spaced :: "string \<Rightarrow> bool" where
  "spaced [] = True"
| "spaced [c] = (is_space c \<longrightarrow> c = CHR '' '')"
| "spaced (c # d # s) = ((is_space c \<longrightarrow> c = CHR '' '' \<and> \<not> is_space d) \<and> spaced (d # s))"

lemma space_is_space [simp]: "is_space (CHR '' '')"
  by code_simp

lemma collapse_head: "collapse_from is_space True s = [] \<or> \<not> is_space (hd (collapse_from is_space True s))"
  by (induction s) auto

lemma collapse_spaced: "spaced (collapse_from is_space sp s)"
proof (induction s arbitrary: sp)
  case (Cons c s)
  show ?case
  proof (cases "is_space c")
    case True
    then show ?thesis using Cons [of True] collapse_head [of s]
      by (cases "collapse_from is_space True s") auto
  next
    case False
    then show ?thesis using Cons [of False] by (cases "collapse_from is_space False s") auto
  qed
qed simp

lemma spaced_append: "spaced (s @ t) \<Longrightarrow> spaced s \<and> spaced t"
proof (induction s rule: spaced.induct)
  case (2 c)
  then show ?case by (cases t) auto
qed auto

lemma strip_infix: "\<exists>p q. s = p @ strip s @ q"
proof -
  obtain p where p: "s = p @ dropWhile is_space s" by (metis takeWhile_dropWhile_id)
  obtain q where "dropWhile is_space s = rstrip_by is_space (dropWhile is_space s) @ q"
    using rstrip_by_prefix by blast
  with p show ?thesis unfolding strip_def lstrip_by_def by metis
qed

lemma strip_spaced: "spaced s \<Longrightarrow> spaced (strip s)"
  using strip_infix [of s] spaced_append by metis

definition canonical_text :: "string \<Rightarrow> bool" where
  "canonical_text s = (spaced s \<and> (s = [] \<or> \<not> is_space (hd s) \<and> \<not> is_space (last s)))"

lemma normalize_html_text_canonical: "canonical_text (normalize_html_text html v)"
  using collapse_spaced [of False] strip_spaced strip_hd strip_last
  unfolding canonical_text_def normalize_html_text_def collapse_def by blast

lemma collapse_id: "spaced s \<Longrightarrow> (sp \<Longrightarrow> s = [] \<or> \<not> is_space (hd s)) \<Longrightarrow> collapse_from is_space sp s = s"
proof (induction s arbitrary: sp rule: spaced.induct)
  case (3 c d s)
  then show ?case by (cases "is_space c") auto
qed auto

lemma strip_canonical: "canonical_text s \<Longrightarrow> strip s = s"
proof (cases "s = []")
  case True
  then show ?thesis by (simp add: strip_def lstrip_by_def rstrip_by_def)
qed (use strip_ends [of s] in \<open>simp add: canonical_text_def\<close>)

text \<open>Text normalisation is canonical and stable: the result has single inner spaces, no
  other white space and none at its ends, and normalising it again, when the parser reports it
  as plain text, changes nothing.\<close>

theorem normalize_html_text_stable:
  assumes "html (normalize_html_text html v) = [Data (normalize_html_text html v)]"
  shows "canonical_text (normalize_html_text html v) \<and>
     normalize_html_text html (normalize_html_text html v) = normalize_html_text html v"
proof -
  let ?t = "normalize_html_text html v"
  have c: "canonical_text ?t" by (rule normalize_html_text_canonical)
  then have "collapse is_space ?t = ?t"
    by (auto simp: collapse_def canonical_text_def intro: collapse_id)
  then have "normalize_html_text html ?t = ?t"
    unfolding normalize_html_text_def [of html ?t] assms by (simp add: html_parts_def strip_canonical [OF c])
  with c show ?thesis by simp
qed

theorem normalize_html_text_stable_witness:
  "normalize_html_text (\<lambda>s. [Data s]) (normalize_html_text (\<lambda>s. [Data s]) ''  a   b '') = ''a b''"
proof -
  have "normalize_html_text (\<lambda>s. [Data s]) ''  a   b '' = ''a b''" by code_simp
  with normalize_html_text_stable [of "\<lambda>s. [Data s]" "''  a   b ''"] show ?thesis by simp
qed

end
