(* ===== verification/Normalization.thy ===== *)
theory Normalization
  imports Html_Text Ioc_Extraction Http_Client
begin

text \<open>
  \<^verbatim>\<open>ingestion/normalization.py\<close>: RSS, Atom, HTML, PDF and JSON payloads become source
  documents.  What the standard library and pydantic parse is collected in \<open>norm_env\<close>: the
  XML tree of \<^verbatim>\<open>ElementTree\<close>, \<^verbatim>\<open>json.loads\<close>, the HTML tokens, byte decoding, the two date
  parsers, \<^verbatim>\<open>urljoin\<close>, pydantic's URL check, SHA-256 and UUIDv5.
\<close>

datatype xml = Element (tag: string) (attrib: "string dict") (xml_text: string) (children: "xml list") (tail: string)

record norm_env =
  ne_xml :: "string \<Rightarrow> xml option"
  ne_loads :: "string \<Rightarrow> json option"
  ne_html :: "string \<Rightarrow> html_event list"
  ne_decode :: "string \<Rightarrow> string \<Rightarrow> string option"
  ne_iso :: "string \<Rightarrow> (int \<times> int option) option"
  ne_rfc :: "string \<Rightarrow> (int \<times> int option) option"
  ne_urljoin :: "string \<Rightarrow> string \<Rightarrow> string option"
  ne_any_http_url :: "string \<Rightarrow> string option"
  ne_sha256 :: "string \<Rightarrow> string"
  ne_uuid5 :: "string \<Rightarrow> uuid"
  ne_pypdf :: "string \<Rightarrow> string list option"
  ne_decode_ignore :: "string \<Rightarrow> string"

text \<open>A normaliser raises the expected \<^verbatim>\<open>NormalizationError\<close>, a pydantic
  \<^verbatim>\<open>ValidationError\<close> or something it does not catch.\<close>

datatype norm_exn =
    NormalizationError string string
  | InvalidDocument py_error
  | Uncaught string

record raw_artifact =
  ra_raw_artifact_id :: uuid
  ra_source_id :: string
  ra_retrieval_url :: string
  ra_canonical_url :: string
  ra_retrieved_at :: instant
  ra_response_status :: int
  ra_content_type :: "string option"
  ra_encoding :: "string option"
  ra_etag :: "string option"
  ra_last_modified :: "string option"
  ra_content_hash :: string
  ra_byte_length :: int
  ra_ingestion_run_id :: uuid

section \<open>Elements\<close>

definition local_name :: "string \<Rightarrow> string" where
  "local_name t = lower (last (split_on (CHR ''}'') t))"

fun itertext :: "xml \<Rightarrow> string" where
  "itertext (Element t a x cs tx) = x @ concat (map (\<lambda>c. itertext c @ tail c) cs)"

fun subtree :: "xml \<Rightarrow> xml list" where
  "subtree (Element t a x cs tx) = Element t a x cs tx # concat (map subtree cs)"

definition element_text :: "xml \<Rightarrow> string" where
  "element_text e = strip (itertext e)"

definition child_named :: "string \<Rightarrow> xml \<Rightarrow> xml option" where
  "child_named name e = List.find (\<lambda>c. local_name (tag c) = lower name) (children e)"

fun text_of :: "xml \<Rightarrow> string list \<Rightarrow> string" where
  "text_of e [] = []"
| "text_of e (name # names) = (case child_named name e of
     Some c \<Rightarrow> element_text c | None \<Rightarrow> text_of e names)"

section \<open>Values\<close>

definition date_re :: re where
  "date_re = seqs [times 4 (Chr is_digit), lit ''-'', times 2 (Chr is_digit), lit ''-'', times 2 (Chr is_digit)]"

definition first_instant :: instant where "first_instant = - 62135596800000000"
definition last_instant :: instant where "last_instant = 253402300799999999"

definition in_utc :: "int \<times> int option \<Rightarrow> norm_exn + instant" where
  "in_utc p = (let t = (case snd p of None \<Rightarrow> fst p | Some offset \<Rightarrow> fst p - offset) in
     if first_instant \<le> t \<and> t \<le> last_instant then Inr t else Inl (Uncaught ''OverflowError''))"

definition parse_datetime :: "norm_env \<Rightarrow> string \<Rightarrow> norm_exn + instant option" where
  "parse_datetime e v =
     (let candidate = strip v in
      if candidate = [] then Inr None
      else (case (if fullmatch date_re candidate then ne_iso e candidate
                  else ne_iso e (replace ''Z'' ''+00:00'' candidate)) of
          Some p \<Rightarrow> rbind (in_utc p) (\<lambda>t. Inr (Some t))
        | None \<Rightarrow> (case ne_rfc e candidate of
              None \<Rightarrow> Inr None | Some p \<Rightarrow> rbind (in_utc p) (\<lambda>t. Inr (Some t)))))"

definition decode :: "norm_env \<Rightarrow> string \<Rightarrow> string option \<Rightarrow> string" where
  "decode e payload encoding =
     (let utf8 = (case ne_decode e ''utf-8'' payload of None \<Rightarrow> payload | Some s \<Rightarrow> s) in
      case encoding of
        Some c \<Rightarrow> if c = [] then utf8
                 else (case ne_decode e c payload of Some s \<Rightarrow> s | None \<Rightarrow> utf8)
      | None \<Rightarrow> utf8)"

definition safe_url :: "norm_env \<Rightarrow> string \<Rightarrow> string \<Rightarrow> norm_exn + string" where
  "safe_url e candidate base_url =
     (case (if strip candidate = [] then Some base_url else ne_urljoin e base_url (strip candidate)) of
        None \<Rightarrow> Inl (Uncaught ''ValueError'')
      | Some joined \<Rightarrow> (case urlsplit joined of
            None \<Rightarrow> Inl (Uncaught ''ValueError'')
          | Some parsed \<Rightarrow> if su_scheme parsed \<notin> {''http'', ''https''} \<or> su_netloc parsed = []
              then Inr base_url else Inr (urlunsplit parsed)))"

definition advisory_categories :: "source_category list" where
  "advisory_categories = [CAT_VULNERABILITIES, CAT_CERT_ADVISORIES, CAT_VENDOR_ADVISORIES]"

definition document_type_of :: "source_config \<Rightarrow> document_type" where
  "document_type_of source = (if cf_category source \<in> set advisory_categories then DOC_ADVISORY else DOC_ARTICLE)"

definition lang_attribute :: string where
  "lang_attribute = ''{http://www.w3.org/XML/1998/namespace}lang''"

fun first_some :: "'a option list \<Rightarrow> 'a option" where
  "first_some [] = None"
| "first_some (None # xs) = first_some xs"
| "first_some (Some x # xs) = Some x"

definition language_of :: "xml \<Rightarrow> xml \<Rightarrow> string option" where
  "language_of rt item =
     (case first_some (map (\<lambda>e. case dict_get lang_attribute (attrib e) of
             Some v \<Rightarrow> if v = [] then None else Some v | None \<Rightarrow> None) [item, rt]) of
        Some v \<Rightarrow> Some (strip v)
      | None \<Rightarrow>
          (let v = text_of rt [''language''];
               v = (if v = [] then (case List.find (\<lambda>c. local_name (tag c) = ''language'') (subtree rt) of
                        None \<Rightarrow> [] | Some c \<Rightarrow> element_text c) else v)
           in if v = [] then None else Some v))"

definition authors_of :: "norm_env \<Rightarrow> xml \<Rightarrow> string list" where
  "authors_of e item = foldl (\<lambda>vs c.
       if local_name (tag c) \<in> {''creator'', ''author'', ''name''}
       then (let v = normalize_html_text (ne_html e) (element_text c)
             in if v \<noteq> [] \<and> v \<notin> set vs then vs @ [v] else vs)
       else vs) [] (subtree item)"

definition link_candidates :: "xml \<Rightarrow> (string \<times> string) list" where
  "link_candidates item = concat (map (\<lambda>c.
     if local_name (tag c) \<noteq> ''link'' then []
     else (let href = (case dict_get ''href'' (attrib c) of None \<Rightarrow> [] | Some h \<Rightarrow> h) in
           if href = [] then []
           else [((case dict_get ''rel'' (attrib c) of None \<Rightarrow> ''alternate'' | Some r \<Rightarrow> r), href)]))
     (children item))"

definition atom_link :: "norm_env \<Rightarrow> xml \<Rightarrow> string \<Rightarrow> norm_exn + string" where
  "atom_link e item base_url =
     (let cs = link_candidates item in
      case first_some [List.find (\<lambda>(rel, _). rel = ''alternate'') cs, List.find (\<lambda>(rel, _). rel = []) cs] of
        Some (_, href) \<Rightarrow> safe_url e href base_url
      | None \<Rightarrow> Inr base_url)"

definition rss_link :: "norm_env \<Rightarrow> xml \<Rightarrow> string \<Rightarrow> norm_exn + string" where
  "rss_link e item base_url =
     (let link = text_of item [''link'']; guid = text_of item [''guid'', ''id''] in
      if link \<noteq> [] then safe_url e link base_url
      else (case urlsplit guid of
          None \<Rightarrow> Inl (Uncaught ''ValueError'')
        | Some u \<Rightarrow> safe_url e (if su_scheme u \<noteq> [] then guid else []) base_url))"

section \<open>Documents\<close>

definition parser_version :: string where
  "parser_version = ''phase2-normalizer-1''"

text \<open>The contract: texts are stripped, the title is not blank, the URL is public.\<close>

definition SourceDocument :: "norm_env \<Rightarrow> source_document \<Rightarrow> source_document result" where
  "SourceDocument e d =
     rbind (http_url (ne_any_http_url e) (strip (sd_canonical_url d))) (\<lambda>url.
     rbind (nonblank (sd_title d)) (\<lambda>title.
     rbind (normalize_hash 64 (sd_normalized_content_hash d)) (\<lambda>h.
     rbind (nonblank (sd_parse_version d)) (\<lambda>version.
       Inr (d\<lparr>sd_source_id := strip (sd_source_id d),
         sd_external_source_id := map_option strip (sd_external_source_id d),
         sd_canonical_url := url, sd_title := title, sd_authors := map strip (sd_authors d),
         sd_content_type := strip (sd_content_type d),
         sd_normalized_text := strip (sd_normalized_text d),
         sd_sanitized_summary := map_option strip (sd_sanitized_summary d),
         sd_language := map_option strip (sd_language d),
         sd_normalized_content_hash := h, sd_parse_version := version\<rparr>)))))"

record document_parts =
  dp_external_id :: "string option"
  dp_canonical_url :: string
  dp_title :: string
  dp_authors :: "string list"
  dp_published_at :: "instant option"
  dp_updated_at :: "instant option"
  dp_normalized_text :: string
  dp_summary :: "string option"
  dp_language :: "string option"
  dp_content_type :: string

definition make_document :: "norm_env \<Rightarrow> source_config \<Rightarrow> raw_artifact \<Rightarrow> document_parts
    \<Rightarrow> norm_exn + source_document" where
  "make_document e source artifact p =
     (let content_hash = ne_sha256 e (dp_normalized_text p);
          identity = (case dp_external_id p of Some i \<Rightarrow> or_else i (dp_canonical_url p) | None \<Rightarrow> dp_canonical_url p)
      in case SourceDocument e
          \<lparr>sd_source_document_id = ne_uuid5 e (''source-document:'' @ cf_source_id source @ '':'' @ identity @ '':'' @ content_hash),
           sd_source_id = cf_source_id source, sd_raw_artifact_id = ra_raw_artifact_id artifact,
           sd_external_source_id = dp_external_id p, sd_canonical_url = dp_canonical_url p,
           sd_title = or_else (dp_title p) (dp_canonical_url p), sd_authors = dp_authors p,
           sd_published_at = dp_published_at p, sd_updated_at_source = dp_updated_at p,
           sd_retrieved_at = ra_retrieved_at artifact,
           sd_content_type = or_else (dp_content_type p) ''application/octet-stream'',
           sd_normalized_text = dp_normalized_text p, sd_sanitized_summary = dp_summary p,
           sd_language = dp_language p, sd_document_type = document_type_of source,
           sd_normalized_content_hash = content_hash, sd_supersedes_id = None,
           sd_parse_version = parser_version\<rparr> of
          Inl x \<Rightarrow> Inl (InvalidDocument x) | Inr d \<Rightarrow> Inr d)"

definition document_identity :: "source_document \<Rightarrow> string \<times> string" where
  "document_identity d = ((case sd_external_source_id d of
       Some i \<Rightarrow> or_else i (sd_canonical_url d) | None \<Rightarrow> sd_canonical_url d), sd_normalized_content_hash d)"

definition document_order :: "source_document \<Rightarrow> bool \<times> int \<times> string \<times> string \<times> string" where
  "document_order d = (sd_published_at d = None, - (case sd_published_at d of None \<Rightarrow> 0 | Some t \<Rightarrow> t),
     sd_canonical_url d, (case sd_external_source_id d of None \<Rightarrow> [] | Some i \<Rightarrow> i), sd_title d)"

definition sort_documents :: "source_document list \<Rightarrow> source_document list" where
  "sort_documents ds = sort_key document_order
     (map snd (keyed document_identity ds))"

section \<open>Feeds\<close>

definition feed_items :: "source_config \<Rightarrow> xml \<Rightarrow> norm_exn + xml list" where
  "feed_items source rt =
     (let entries = filter (\<lambda>c. local_name (tag c) = ''entry'') (children rt) in
      if cf_source_type source = ST_ATOM
      then (if local_name (tag rt) \<noteq> ''feed''
            then Inl (NormalizationError ''schema_error'' ''Atom source did not return a feed'') else Inr entries)
      else if local_name (tag rt) = ''feed'' then Inr entries
      else if local_name (tag rt) = ''rss''
      then (let channel = (case child_named ''channel'' rt of None \<Rightarrow> rt | Some c \<Rightarrow> c)
            in Inr (filter (\<lambda>c. local_name (tag c) = ''item'') (children channel)))
      else Inl (NormalizationError ''schema_error'' ''RSS source did not return RSS XML''))"

definition non_empty :: "string \<Rightarrow> string option" where
  "non_empty s = (if s = [] then None else Some s)"

definition feed_document :: "norm_env \<Rightarrow> source_config \<Rightarrow> fetch_result \<Rightarrow> raw_artifact \<Rightarrow> xml \<Rightarrow> xml
    \<Rightarrow> norm_exn + source_document" where
  "feed_document e source fetched artifact rt item =
     (let is_atom = (local_name (tag rt) = ''feed'' \<or> cf_source_type source = ST_ATOM);
          external_id = non_empty (text_of item [''id'', ''guid'']) in
      rbind (if is_atom then atom_link e item (cf_url source) else rss_link e item (cf_url source)) (\<lambda>canonical_url.
      let ttl = or_else (normalize_html_text (ne_html e) (text_of item [''title'']))
            (case external_id of Some i \<Rightarrow> i | None \<Rightarrow> canonical_url);
          body = normalize_html_text (ne_html e) (text_of item [''content'', ''encoded'', ''description'', ''summary'']);
          normalized_text = strip (join '' '' (filter (\<lambda>part. part \<noteq> []) [ttl, body]));
          summary = non_empty (normalize_html_text (ne_html e) (text_of item [''summary'', ''description''])) in
      rbind (parse_datetime e (text_of item [''pubdate'', ''published'', ''date'', ''created''])) (\<lambda>published.
      rbind (parse_datetime e (text_of item [''updated'', ''modified'', ''lastmod''])) (\<lambda>updated.
        make_document e source artifact
          \<lparr>dp_external_id = external_id, dp_canonical_url = canonical_url, dp_title = ttl,
           dp_authors = authors_of e item, dp_published_at = published, dp_updated_at = updated,
           dp_normalized_text = or_else normalized_text ttl, dp_summary = summary,
           dp_language = language_of rt item,
           dp_content_type = or_else (case fr_content_type fetched of None \<Rightarrow> [] | Some t \<Rightarrow> t) ''application/xml''\<rparr>))))"

definition normalize_feed :: "norm_env \<Rightarrow> source_config \<Rightarrow> fetch_result \<Rightarrow> raw_artifact
    \<Rightarrow> norm_exn + source_document list" where
  "normalize_feed e source fetched artifact =
     (case ne_xml e (fr_body fetched) of
        None \<Rightarrow> Inl (NormalizationError ''malformed_xml'' ''XML payload could not be parsed'')
      | Some rt \<Rightarrow> rbind (feed_items source rt) (\<lambda>items.
          rbind (traverse (feed_document e source fetched artifact rt) items) (\<lambda>ds. Inr (sort_documents ds))))"

section \<open>HTML and PDF\<close>

definition title_re :: re where
  "title_re = seqs [ilit ''<title'', star (Chr (\<lambda>c. c \<noteq> CHR ''>'')), lit ''>'',
     Grp 1 (Lazy (Chr (\<lambda>_. True))), ilit ''</title>'']"

definition normalize_html :: "norm_env \<Rightarrow> source_config \<Rightarrow> fetch_result \<Rightarrow> raw_artifact
    \<Rightarrow> norm_exn + source_document list" where
  "normalize_html e source fetched artifact =
     (let decoded = decode e (fr_body fetched) (fr_encoding fetched);
          t = clean_html_content (ne_html e) decoded in
      if t = [] then Inl (NormalizationError ''empty_html'' ''HTML payload contained no visible text'')
      else (let ttl = (case search title_re decoded of
                 None \<Rightarrow> cf_name source
               | Some f \<Rightarrow> normalize_html_text (ne_html e) (case group 1 f of None \<Rightarrow> [] | Some g \<Rightarrow> g)) in
        rbind (make_document e source artifact
          \<lparr>dp_external_id = None, dp_canonical_url = cf_url source, dp_title = or_else ttl (cf_name source),
           dp_authors = [], dp_published_at = None, dp_updated_at = None, dp_normalized_text = t,
           dp_summary = Some (take 300 t), dp_language = None,
           dp_content_type = or_else (case fr_content_type fetched of None \<Rightarrow> [] | Some c \<Rightarrow> c) ''text/html''\<rparr>)
          (\<lambda>d. Inr [d])))"

definition normalize_pdf :: "norm_env \<Rightarrow> source_config \<Rightarrow> fetch_result \<Rightarrow> raw_artifact
    \<Rightarrow> norm_exn + source_document list" where
  "normalize_pdf e source fetched artifact =
     (let t = extract_pdf_text_fallback (ne_pypdf e) (ne_decode_ignore e) (fr_body fetched) in
      if t = [] then Inl (NormalizationError ''empty_pdf'' ''PDF payload contained no extractable text'')
      else (let normalized = normalize_html_text (ne_html e) t;
                ttl = (if normalized \<noteq> [] then hd (split_on (CHR '' '') normalized) else cf_name source) in
        rbind (make_document e source artifact
          \<lparr>dp_external_id = None, dp_canonical_url = cf_url source, dp_title = or_else ttl (cf_name source),
           dp_authors = [], dp_published_at = None, dp_updated_at = None, dp_normalized_text = normalized,
           dp_summary = Some (take 300 normalized), dp_language = None,
           dp_content_type = or_else (case fr_content_type fetched of None \<Rightarrow> [] | Some c \<Rightarrow> c) ''application/pdf''\<rparr>)
          (\<lambda>d. Inr [d])))"

section \<open>JSON catalogues\<close>

text \<open>\<open>urllib.parse.quote\<close>: unreserved characters and the slash stay, the UTF-8 bytes of the
  others are escaped.\<close>

definition unreserved :: "char \<Rightarrow> bool" where
  "unreserved c = (is_alpha c \<or> is_digit c \<or> c \<in> set ''_.-~/'')"

definition upper_hex :: "int \<Rightarrow> char" where
  "upper_hex n = (if n < 10 then char_of (48 + n) else char_of (55 + n))"

definition percent :: "int \<Rightarrow> string" where
  "percent n = [CHR ''%'', upper_hex (n div 16), upper_hex (n mod 16)]"

definition quote :: "string \<Rightarrow> string" where
  "quote s = concat (map (\<lambda>c. if unreserved c then [c]
     else if code c < 128 then percent (code c)
     else percent (192 + code c div 64) @ percent (128 + code c mod 64)) s)"

definition first_truthy :: "json dict \<Rightarrow> string list \<Rightarrow> string \<Rightarrow> string" where
  "first_truthy d keys fallback =
     (case List.find (\<lambda>k. truthy (jget k d)) keys of Some k \<Rightarrow> py_str (jget k d) | None \<Rightarrow> fallback)"

definition content_type_or :: "fetch_result \<Rightarrow> string \<Rightarrow> string" where
  "content_type_or fetched fallback = or_else (case fr_content_type fetched of None \<Rightarrow> [] | Some c \<Rightarrow> c) fallback"

definition kev_fields :: "(string \<times> string) list" where
  "kev_fields = [(''CVE'', ''cveID''), (''Vendor'', ''vendorProject''), (''Product'', ''product''),
     (''Vulnerability'', ''vulnerabilityName''), (''Description'', ''shortDescription''),
     (''Date added'', ''dateAdded''), (''Required action'', ''requiredAction''), (''Due date'', ''dueDate''),
     (''Known ransomware campaign use'', ''knownRansomwareCampaignUse''), (''Notes'', ''notes'')]"

definition kev_text :: "json dict \<Rightarrow> string" where
  "kev_text entry =
     (let values = map (\<lambda>(label, k). label @ '': '' @ py_str (jget k entry))
            (filter (\<lambda>(label, k). jget k entry \<noteq> JNull \<and> jget k entry \<noteq> JStr []) kev_fields);
          cwes = (case jget ''cwes'' entry of
              JList xs \<Rightarrow> if xs = [] then [] else [''CWEs: '' @ join '', '' (map py_str xs)] | _ \<Rightarrow> [])
      in join line_break (values @ cwes))"

definition kev_document :: "norm_env \<Rightarrow> source_config \<Rightarrow> fetch_result \<Rightarrow> raw_artifact \<Rightarrow> json dict \<Rightarrow> json
    \<Rightarrow> norm_exn + source_document" where
  "kev_document e source fetched artifact payload raw_entry =
     (case (case as_obj raw_entry of None \<Rightarrow> None
            | Some entry \<Rightarrow> map_option (\<lambda>i. (entry, upper (strip i))) (as_str (jget ''cveID'' entry))) of
        None \<Rightarrow> Inl (NormalizationError ''schema_error'' ''KEV entry lacks a string cveID'')
      | Some (entry, cve_id) \<Rightarrow>
          if \<not> fullmatch cve_re cve_id
          then Inl (NormalizationError ''schema_error'' ''KEV entry has an invalid cveID'')
          else
            (let summary_value = jget ''shortDescription'' entry in
             rbind (parse_datetime e (py_str (jget_default ''dateAdded'' (JStr []) entry))) (\<lambda>published.
             rbind (parse_datetime e (py_str (jget_default ''dateReleased'' (JStr []) payload))) (\<lambda>updated.
               make_document e source artifact
                 \<lparr>dp_external_id = Some cve_id,
                  dp_canonical_url = hd (split_on (CHR ''#'') (cf_url source)) @ ''#'' @ quote cve_id,
                  dp_title = normalize_html_text (ne_html e) (first_truthy entry [''vulnerabilityName''] cve_id),
                  dp_authors = [''CISA''], dp_published_at = published, dp_updated_at = updated,
                  dp_normalized_text = normalize_html_text (ne_html e) (kev_text entry),
                  dp_summary = (if truthy summary_value then Some (normalize_html_text (ne_html e) (py_str summary_value)) else None),
                  dp_language = None, dp_content_type = content_type_or fetched ''application/json''\<rparr>))))"

definition normalize_kev :: "norm_env \<Rightarrow> source_config \<Rightarrow> fetch_result \<Rightarrow> raw_artifact
    \<Rightarrow> norm_exn + source_document list" where
  "normalize_kev e source fetched artifact =
     (case ne_loads e (decode e (fr_body fetched) (fr_encoding fetched)) of
        None \<Rightarrow> Inl (NormalizationError ''invalid_json'' ''JSON payload could not be parsed'')
      | Some v \<Rightarrow> (case (case as_obj v of None \<Rightarrow> None
              | Some payload \<Rightarrow> map_option (Pair payload) (as_list (jget ''vulnerabilities'' payload))) of
            None \<Rightarrow> Inl (NormalizationError ''schema_error'' ''KEV payload lacks a vulnerabilities array'')
          | Some (payload, entries) \<Rightarrow> traverse (kev_document e source fetched artifact payload) entries))"

text \<open>An NVD entry is skipped when it is not an object or names no CVE.  Iterating over a
  value that is not a list raises for null and numbers, and visits nothing useful for texts
  and objects.\<close>

definition iterate :: "json \<Rightarrow> norm_exn + json list" where
  "iterate v = (case v of
       JList xs \<Rightarrow> Inr xs
     | JStr s \<Rightarrow> Inr (map (\<lambda>c. JStr [c]) s)
     | JObj d \<Rightarrow> Inr (map (\<lambda>(k, _). JStr k) d)
     | _ \<Rightarrow> Inl (Uncaught ''TypeError''))"

definition nvd_entry :: "json \<Rightarrow> (json dict \<times> string) option" where
  "nvd_entry raw_entry =
     (case as_obj raw_entry of None \<Rightarrow> None
      | Some entry \<Rightarrow> (case as_obj (jget ''cve'' entry) of None \<Rightarrow> None
          | Some cve \<Rightarrow>
              (let cve_id = upper (strip (first_truthy cve [''id''] []))
               in if fullmatch cve_re cve_id then Some (cve, cve_id) else None)))"

definition nvd_text_of :: "norm_env \<Rightarrow> json list \<Rightarrow> string" where
  "nvd_text_of e raws = (case List.find (\<lambda>v. v \<noteq> []) (concat (map (\<lambda>raw. case as_obj raw of
       Some d \<Rightarrow> if jget ''lang'' d = JStr ''en'' \<and> truthy (jget ''value'' d)
                 then [normalize_html_text (ne_html e) (py_str (jget ''value'' d))] else []
     | None \<Rightarrow> []) raws)) of None \<Rightarrow> [] | Some v \<Rightarrow> v)"

definition nvd_references :: "json list \<Rightarrow> string list" where
  "nvd_references raws = concat (map (\<lambda>raw. case as_obj raw of
       Some d \<Rightarrow> if truthy (jget ''url'' d) then [py_str (jget ''url'' d)] else []
     | None \<Rightarrow> []) raws)"

definition nvd_document :: "norm_env \<Rightarrow> source_config \<Rightarrow> fetch_result \<Rightarrow> raw_artifact \<Rightarrow> json dict \<times> string
    \<Rightarrow> norm_exn + source_document" where
  "nvd_document e source fetched artifact entry =
     (case entry of (cve, cve_id) \<Rightarrow>
        rbind (iterate (jget_default ''descriptions'' (JList []) cve)) (\<lambda>raw_descriptions.
        rbind (iterate (jget_default ''references'' (JList []) cve)) (\<lambda>raw_references.
        let description = nvd_text_of e raw_descriptions; references = nvd_references raw_references in
        rbind (parse_datetime e (first_truthy cve [''published''] [])) (\<lambda>published.
        rbind (parse_datetime e (first_truthy cve [''lastModified''] [])) (\<lambda>updated.
          make_document e source artifact
            \<lparr>dp_external_id = Some cve_id,
             dp_canonical_url = ''https://nvd.nist.gov/vuln/detail/'' @ quote cve_id,
             dp_title = (if description \<noteq> [] then cve_id @ '': '' @ description else cve_id),
             dp_authors = [''NIST NVD''], dp_published_at = published, dp_updated_at = updated,
             dp_normalized_text = join line_break ([''CVE: '' @ cve_id]
               @ (if description \<noteq> [] then [''Description: '' @ description] else [])
               @ (if references \<noteq> [] then [''References: '' @ join '', '' references] else [])),
             dp_summary = non_empty description, dp_language = Some ''en'',
             dp_content_type = content_type_or fetched ''application/json''\<rparr>)))))"

definition some_entries :: "('a \<Rightarrow> 'b option) \<Rightarrow> 'a list \<Rightarrow> 'b list" where
  "some_entries f xs = concat (map (\<lambda>x. case f x of None \<Rightarrow> [] | Some y \<Rightarrow> [y]) xs)"

definition normalize_nvd :: "norm_env \<Rightarrow> source_config \<Rightarrow> fetch_result \<Rightarrow> raw_artifact \<Rightarrow> json dict
    \<Rightarrow> norm_exn + source_document list" where
  "normalize_nvd e source fetched artifact payload =
     rbind (iterate (jget_default ''vulnerabilities'' (JList []) payload)) (\<lambda>raws.
     rbind (traverse (nvd_document e source fetched artifact) (some_entries nvd_entry raws)) (\<lambda>ds.
       Inr (sort_documents ds)))"

section \<open>JSON intelligence feeds\<close>

definition entry_lines :: "json dict \<Rightarrow> string" where
  "entry_lines entry = join line_break (map (\<lambda>(k, v). k @ '': '' @ py_str v)
     (filter (\<lambda>(k, v). v \<noteq> JNull) entry))"

definition urlhaus_document :: "norm_env \<Rightarrow> source_config \<Rightarrow> fetch_result \<Rightarrow> raw_artifact \<Rightarrow> json dict \<times> string
    \<Rightarrow> norm_exn + source_document" where
  "urlhaus_document e source fetched artifact p =
     (case p of (entry, entry_id) \<Rightarrow>
      let target_url = first_truthy entry [''url''] (cf_url source @ ''#'' @ quote entry_id);
          threat = first_truthy entry [''threat''] ''Malicious URL'';
          status = first_truthy entry [''url_status''] ''active'' in
      rbind (parse_datetime e (py_str (jget_default ''dateadded'' (JStr []) entry))) (\<lambda>published.
        make_document e source artifact
          \<lparr>dp_external_id = Some entry_id, dp_canonical_url = target_url,
           dp_title = ''URLhaus: '' @ threat @ '' - '' @ target_url,
           dp_authors = [''Abuse.ch URLhaus''], dp_published_at = published, dp_updated_at = None,
           dp_normalized_text = normalize_html_text (ne_html e) (entry_lines entry),
           dp_summary = Some (''Threat: '' @ threat @ '' | Status: '' @ status @ '' | Tags: ''
             @ py_str (jget ''tags'' entry)),
           dp_language = None, dp_content_type = content_type_or fetched ''application/json''\<rparr>))"

definition threatfox_document :: "norm_env \<Rightarrow> source_config \<Rightarrow> fetch_result \<Rightarrow> raw_artifact \<Rightarrow> json dict \<times> string
    \<Rightarrow> norm_exn + source_document" where
  "threatfox_document e source fetched artifact p =
     (case p of (entry, entry_id) \<Rightarrow>
      let ioc = first_truthy entry [''ioc''] entry_id;
          threat_type = first_truthy entry [''threat_type_desc'', ''threat_type''] ''Indicator'';
          malware = first_truthy entry [''malware_printable''] ''Unknown malware'' in
      rbind (parse_datetime e (py_str (jget_default ''first_seen'' (JStr []) entry))) (\<lambda>published.
        make_document e source artifact
          \<lparr>dp_external_id = Some entry_id, dp_canonical_url = cf_url source @ ''#'' @ quote entry_id,
           dp_title = ''ThreatFox: '' @ threat_type @ '' ('' @ malware @ '') - '' @ ioc,
           dp_authors = [''Abuse.ch ThreatFox''], dp_published_at = published, dp_updated_at = None,
           dp_normalized_text = normalize_html_text (ne_html e) (entry_lines entry),
           dp_summary = Some (''Threat: '' @ threat_type @ '' | Malware: '' @ malware @ '' | Confidence: ''
             @ py_str (jget ''confidence_level'' entry) @ ''%''),
           dp_language = None, dp_content_type = content_type_or fetched ''application/json''\<rparr>))"

definition generic_document :: "norm_env \<Rightarrow> source_config \<Rightarrow> fetch_result \<Rightarrow> raw_artifact \<Rightarrow> nat \<times> json dict
    \<Rightarrow> norm_exn + source_document" where
  "generic_document e source fetched artifact p =
     (case p of (index, entry) \<Rightarrow>
      let entry_id = first_truthy entry [''id'', ''ip_address'', ''cveID'', ''name''] (''item-'' @ nat_str (int index));
          t = entry_lines entry in
      rbind (parse_datetime e (first_truthy entry [''first_seen'', ''date_added'', ''date''] [])) (\<lambda>published.
      rbind (parse_datetime e (first_truthy entry [''last_online'', ''updated''] [])) (\<lambda>updated.
        make_document e source artifact
          \<lparr>dp_external_id = Some entry_id,
           dp_canonical_url = first_truthy entry [''url''] (cf_url source @ ''#'' @ quote entry_id),
           dp_title = first_truthy entry [''title'', ''name'', ''vulnerabilityName'', ''malware'']
             (cf_name source @ '' Record '' @ entry_id),
           dp_authors = [cf_name source], dp_published_at = published, dp_updated_at = updated,
           dp_normalized_text = normalize_html_text (ne_html e) t,
           dp_summary = Some (normalize_html_text (ne_html e)
             (first_truthy entry [''description'', ''shortDescription'', ''notes''] (take 200 t))),
           dp_language = None, dp_content_type = content_type_or fetched ''application/json''\<rparr>)))"

definition identified_entry :: "string list \<Rightarrow> json \<Rightarrow> (json dict \<times> string) option" where
  "identified_entry keys v = (case as_obj v of None \<Rightarrow> None
     | Some entry \<Rightarrow> (let i = first_truthy entry keys [] in if i = [] then None else Some (entry, i)))"

definition feed_list :: "string \<Rightarrow> json \<Rightarrow> json list option" where
  "feed_list k v = (case as_obj v of None \<Rightarrow> None | Some d \<Rightarrow> as_list (jget k d))"

definition normalize_json :: "norm_env \<Rightarrow> source_config \<Rightarrow> fetch_result \<Rightarrow> raw_artifact
    \<Rightarrow> norm_exn + source_document list" where
  "normalize_json e source fetched artifact =
     (case ne_loads e (decode e (fr_body fetched) (fr_encoding fetched)) of
        None \<Rightarrow> Inl (NormalizationError ''invalid_json'' ''JSON payload could not be parsed'')
      | Some v \<Rightarrow>
          (let payload = (case as_obj v of None \<Rightarrow> [] | Some d \<Rightarrow> d) in
           if jget ''format'' payload = JStr ''NVD_CVE'' then normalize_nvd e source fetched artifact payload
           else if dict_has ''vulnerabilities'' payload then normalize_kev e source fetched artifact
           else (case (feed_list ''urls'' v, feed_list ''data'' v) of
               (Some entries, _) \<Rightarrow>
                 rbind (traverse (urlhaus_document e source fetched artifact)
                   (some_entries (identified_entry [''id'', ''url'']) entries)) (\<lambda>ds. Inr (sort_documents ds))
             | (None, Some entries) \<Rightarrow>
                 rbind (traverse (threatfox_document e source fetched artifact)
                   (some_entries (identified_entry [''id'', ''ioc'']) entries)) (\<lambda>ds. Inr (sort_documents ds))
             | (None, None) \<Rightarrow>
                 rbind (traverse (generic_document e source fetched artifact)
                   (some_entries (\<lambda>(i, x). map_option (Pair i) (as_obj x))
                     (List.enumerate 0 (case v of JList xs \<Rightarrow> xs | JObj d \<Rightarrow> [v] | _ \<Rightarrow> []))))
                   (\<lambda>ds. Inr (sort_documents ds)))))"

end
