(* ===== verification/Normalization_Facts.thy ===== *)
theory Normalization_Facts
  imports Normalization
begin

text \<open>
  What normalisation guarantees: every document names its source and artifact, carries the
  hash of its own text, and a batch holds each document identity once, newest first.
\<close>

section \<open>One document\<close>

text \<open>SHA-256 in lower-case hexadecimal: the documented form of \<^verbatim>\<open>hexdigest()\<close>.\<close>

definition hex_hash :: "norm_env \<Rightarrow> bool" where
  "hex_hash e = (\<forall>s. normalize_hash 64 (ne_sha256 e s) = Inr (ne_sha256 e s))"

definition documented :: "norm_env \<Rightarrow> source_config \<Rightarrow> raw_artifact \<Rightarrow> source_document \<Rightarrow> bool" where
  "documented e source artifact d = (sd_source_id d = strip (cf_source_id source) \<and>
     sd_raw_artifact_id d = ra_raw_artifact_id artifact \<and> sd_retrieved_at d = ra_retrieved_at artifact \<and>
     sd_title d \<noteq> [] \<and> sd_parse_version d = parser_version \<and> sd_supersedes_id d = None \<and>
     ok (validate_http_url (sd_canonical_url d)))"

definition self_hashed :: "norm_env \<Rightarrow> source_document \<Rightarrow> bool" where
  "self_hashed e d = (sd_normalized_content_hash d = ne_sha256 e (sd_normalized_text d))"

lemma strip_Nil_iff: "strip s = [] \<longleftrightarrow> (\<forall>c \<in> set s. is_space c)"
proof
  assume "strip s = []"
  then have "dropWhile is_space (rev (dropWhile is_space s)) = []"
    by (simp add: strip_def lstrip_by_def rstrip_by_def)
  then have d: "\<forall>c \<in> set (dropWhile is_space s). is_space c" by (simp add: dropWhile_eq_Nil_conv)
  have "dropWhile is_space s = []"
  proof (rule ccontr)
    assume "dropWhile is_space s \<noteq> []"
    with hd_dropWhile [of is_space s] d show False using hd_in_set by blast
  qed
  then show "\<forall>c \<in> set s. is_space c" by (simp add: dropWhile_eq_Nil_conv)
next
  assume "\<forall>c \<in> set s. is_space c"
  then show "strip s = []" by (simp add: strip_def lstrip_by_def rstrip_by_def dropWhile_eq_Nil_conv)
    (auto dest: set_dropWhileD)
qed

lemma nonblank_Inr: "nonblank s = Inr t \<longleftrightarrow> t = strip s \<and> t \<noteq> []"
  by (auto simp: nonblank_def)

lemma version_nonblank [simp]: "nonblank parser_version = Inr parser_version"
  by code_simp

lemma http_url_ok: "http_url f v = Inr u \<Longrightarrow> ok (validate_http_url u)"
  by (auto simp: http_url_def validate_http_url_def split: option.splits if_splits)

lemma make_document_Inr:
  assumes "make_document e source artifact p = Inr d" and "hex_hash e"
  shows "documented e source artifact d" "sd_normalized_text d = strip (dp_normalized_text p)"
    "sd_normalized_content_hash d = ne_sha256 e (dp_normalized_text p)"
    "sd_external_source_id d = map_option strip (dp_external_id p)"
    "strip (or_else (dp_title p) (dp_canonical_url p)) \<noteq> []"
  using assms unfolding make_document_def SourceDocument_def Let_def hex_hash_def documented_def
  by (auto simp: rbind_Inr_iff nonblank_Inr http_url_ok parser_version_def [symmetric]
      split: sum.splits)

lemma make_document_self_hashed:
  assumes "make_document e source artifact p = Inr d" "hex_hash e" "strip (dp_normalized_text p) = dp_normalized_text p"
  shows "documented e source artifact d \<and> self_hashed e d"
  using make_document_Inr [OF assms(1,2)] assms(3) by (simp add: self_hashed_def)

section \<open>Batches\<close>

lemma traverse_all:
  assumes "traverse f xs = Inr ys" "\<And>x y. f x = Inr y \<Longrightarrow> P y"
  shows "\<forall>y \<in> set ys. P y"
  using assms(1)
proof (induction xs arbitrary: ys)
  case (Cons x xs)
  then obtain y zs where "f x = Inr y" "traverse f xs = Inr zs" "ys = y # zs" by (auto simp: rbind_Inr_iff)
  with Cons.IH [of zs] assms(2) show ?case by simp
qed simp

lemma sort_documents_set: "set (sort_documents ds) \<subseteq> set ds"
  using keyed_values_set(3) [of document_identity ds] by (simp add: sort_documents_def)

lemma sort_documents_identities:
  "distinct (map document_identity (sort_documents ds)) \<and>
   document_identity ` set (sort_documents ds) = document_identity ` set ds"
proof -
  let ?vs = "map snd (keyed document_identity ds)"
  have "mset (map document_identity (sort_documents ds)) = mset (map document_identity ?vs)"
    by (simp add: sort_documents_def del: map_map)
  from mset_eq_imp_distinct_iff [OF this] mset_eq_setD [OF this] keyed_values_set(1,2) [of document_identity ds]
  show ?thesis by (simp del: map_map)
qed

lemma sort_documents_sorted: "sorted (map document_order (sort_documents ds))"
  by (simp add: sort_documents_def)

section \<open>Provenance of every normaliser\<close>

lemma feed_text:
  assumes "make_document e source artifact p = Inr d" "hex_hash e"
    and "dp_normalized_text p = or_else (strip (join '' '' (filter (\<lambda>part. part \<noteq> []) [dp_title p, body]))) (dp_title p)"
  shows "documented e source artifact d \<and> self_hashed e d"
proof (rule make_document_self_hashed [OF assms(1,2)])
  let ?x = "join '' '' (filter (\<lambda>part. part \<noteq> []) [dp_title p, body])"
  show "strip (dp_normalized_text p) = dp_normalized_text p"
  proof (cases "strip ?x = []")
    case True
    have "strip (dp_title p) = []" if "dp_title p \<noteq> []"
    proof -
      have "set (dp_title p) \<subseteq> set ?x" using that by (cases "body = []") auto
      with True show ?thesis unfolding strip_Nil_iff by blast
    qed
    then have "dp_title p = []" using make_document_Inr(5) [OF assms(1,2)] by (auto simp: or_else_def split: if_splits)
    then show ?thesis using True assms(3) by (simp add: or_else_def strip_def lstrip_by_def rstrip_by_def)
  qed (use assms(3) in \<open>simp add: or_else_def\<close>)
qed

lemma strip_html [simp]: "strip (normalize_html_text html v) = normalize_html_text html v"
  by (simp add: strip_canonical normalize_html_text_canonical)

lemma feed_document_ok:
  "feed_document e source f artifact rt item = Inr d \<Longrightarrow> hex_hash e \<Longrightarrow>
     documented e source artifact d \<and> self_hashed e d"
  unfolding feed_document_def Let_def rbind_Inr_iff by (elim exE conjE, erule feed_text, assumption, unfold document_parts.select_convs, rule refl)

lemma json_documents_ok:
  "kev_document e source f artifact payload x = Inr d \<Longrightarrow> hex_hash e \<Longrightarrow> documented e source artifact d \<and> self_hashed e d"
  "urlhaus_document e source f artifact p = Inr d \<Longrightarrow> hex_hash e \<Longrightarrow> documented e source artifact d \<and> self_hashed e d"
  "threatfox_document e source f artifact p = Inr d \<Longrightarrow> hex_hash e \<Longrightarrow> documented e source artifact d \<and> self_hashed e d"
  "generic_document e source f artifact q = Inr d \<Longrightarrow> hex_hash e \<Longrightarrow> documented e source artifact d \<and> self_hashed e d"
  unfolding kev_document_def urlhaus_document_def threatfox_document_def generic_document_def
  by (auto simp: rbind_Inr_iff Let_def split: option.splits if_splits prod.splits
      elim!: make_document_self_hashed)

lemma nvd_document_ok:
  "nvd_document e source f artifact entry = Inr d \<Longrightarrow> hex_hash e \<Longrightarrow> documented e source artifact d"
  unfolding nvd_document_def
  by (auto simp: rbind_Inr_iff Let_def split: prod.splits dest: make_document_Inr(1))

definition is_nvd :: "norm_env \<Rightarrow> fetch_result \<Rightarrow> bool" where
  "is_nvd e f = (case ne_loads e (decode e (fr_body f) (fr_encoding f)) of
     Some (JObj d) \<Rightarrow> jget ''format'' d = JStr ''NVD_CVE'' | _ \<Rightarrow> False)"

lemma batches_ok:
  assumes "hex_hash e"
  shows "traverse (kev_document e source f artifact payload) xs = Inr ds \<Longrightarrow> \<forall>d \<in> set ds. documented e source artifact d \<and> self_hashed e d"
    "traverse (urlhaus_document e source f artifact) ys = Inr ds \<Longrightarrow> \<forall>d \<in> set ds. documented e source artifact d \<and> self_hashed e d"
    "traverse (threatfox_document e source f artifact) ys = Inr ds \<Longrightarrow> \<forall>d \<in> set ds. documented e source artifact d \<and> self_hashed e d"
    "traverse (generic_document e source f artifact) zs = Inr ds \<Longrightarrow> \<forall>d \<in> set ds. documented e source artifact d \<and> self_hashed e d"
    "traverse (nvd_document e source f artifact) ys = Inr ds \<Longrightarrow> \<forall>d \<in> set ds. documented e source artifact d"
    "traverse (feed_document e source f artifact rt) is = Inr ds \<Longrightarrow> \<forall>d \<in> set ds. documented e source artifact d \<and> self_hashed e d"
  by (erule traverse_all, (erule json_documents_ok nvd_document_ok feed_document_ok, rule assms))+

lemma strip_Nil [simp]: "strip [] = []"
  by (simp add: strip_Nil_iff)

lemma sorted_batch:
  assumes "rbind r (\<lambda>ds. Inr (sort_documents ds)) = Inr ds'" "\<And>ds. r = Inr ds \<Longrightarrow> \<forall>d \<in> set ds. P d"
  shows "\<forall>d \<in> set ds'. P d"
proof -
  from assms(1) obtain ds where "r = Inr ds" "ds' = sort_documents ds" by (auto simp: rbind_Inr_iff)
  with assms(2) sort_documents_set show ?thesis by blast
qed

lemma normalize_json_ok:
  assumes "normalize_json e source f artifact = Inr ds" "hex_hash e"
  shows "\<forall>d \<in> set ds. documented e source artifact d \<and> (\<not> is_nvd e f \<longrightarrow> self_hashed e d)"
proof -
  from assms(1) obtain v where v: "ne_loads e (decode e (fr_body f) (fr_encoding f)) = Some v"
    by (auto simp: normalize_json_def split: option.splits)
  define payload where "payload = (case as_obj v of None \<Rightarrow> [] | Some d \<Rightarrow> d)"
  note run = assms(1) [unfolded normalize_json_def v Let_def option.case payload_def [symmetric]]
  show ?thesis
  proof (cases "jget ''format'' payload = JStr ''NVD_CVE''")
    case True
    then have "is_nvd e f" using v by (cases v) (simp_all add: is_nvd_def payload_def jget_def dict_get_def)
    have "normalize_nvd e source f artifact payload = Inr ds" using run True by simp
    then obtain raws where "rbind (traverse (nvd_document e source f artifact) raws) (\<lambda>ds. Inr (sort_documents ds)) = Inr ds"
      unfolding normalize_nvd_def rbind_Inr_iff [of "iterate _"] by blast
    then have "\<forall>d \<in> set ds. documented e source artifact d"
      by (rule sorted_batch) (rule batches_ok(5) [OF assms(2)])
    with \<open>is_nvd e f\<close> show ?thesis by blast
  next
    case not_nvd: False
    have "\<forall>d \<in> set ds. documented e source artifact d \<and> self_hashed e d"
    proof (cases "dict_has ''vulnerabilities'' payload")
      case True
      then have "normalize_kev e source f artifact = Inr ds" using run not_nvd by simp
      then obtain payload entries where "traverse (kev_document e source f artifact payload) entries = Inr ds"
        by (auto simp: normalize_kev_def v split: option.splits)
      then show ?thesis by (rule batches_ok(1) [OF assms(2)])
    next
      case False
      show ?thesis
      proof (cases "feed_list ''urls'' v")
        case (Some entries)
        with run not_nvd False show ?thesis
          by (simp del: traverse.simps) (erule sorted_batch, erule batches_ok(2) [OF assms(2)])
      next
        case no_urls: None
        show ?thesis
        proof (cases "feed_list ''data'' v")
          case (Some entries)
          with run not_nvd False no_urls show ?thesis
            by (simp del: traverse.simps) (erule sorted_batch, erule batches_ok(3) [OF assms(2)])
        next
          case None
          with run not_nvd False no_urls show ?thesis
            by (simp del: traverse.simps) (erule sorted_batch, erule batches_ok(4) [OF assms(2)])
        qed
      qed
    qed
    then show ?thesis by blast
  qed
qed

lemma normalize_feed_ok:
  assumes "normalize_feed e source f artifact = Inr ds" "hex_hash e"
  shows "\<forall>d \<in> set ds. documented e source artifact d \<and> self_hashed e d"
proof -
  from assms(1) obtain rt items where
    "rbind (traverse (feed_document e source f artifact rt) items) (\<lambda>ds. Inr (sort_documents ds)) = Inr ds"
    unfolding normalize_feed_def by (auto simp: rbind_Inr_iff [of "feed_items source _"] split: option.splits)
  then show ?thesis by (rule sorted_batch) (rule batches_ok(6) [OF assms(2)])
qed

lemma strip_clean [simp]: "strip (clean_html_content html v) = clean_html_content html v"
  by (simp add: clean_html_content_def Let_def strip_Nil_iff)

lemma normalize_page_ok:
  "normalize_html e source f artifact = Inr ds \<Longrightarrow> hex_hash e \<Longrightarrow> \<forall>d \<in> set ds. documented e source artifact d \<and> self_hashed e d"
  "normalize_pdf e source f artifact = Inr ds \<Longrightarrow> hex_hash e \<Longrightarrow> \<forall>d \<in> set ds. documented e source artifact d \<and> self_hashed e d"
  unfolding normalize_html_def normalize_pdf_def
  by (auto simp: Let_def rbind_Inr_iff split: if_splits dest!: make_document_self_hashed)

section \<open>Batches are canonical\<close>

lemma update_new: "k \<notin> fst ` set al \<Longrightarrow> AList.update k v al = al @ [(k, v)]"
  by (induction al) auto

text \<open>A batch is canonical: it holds every document identity of the input exactly once (an
  identity is the external identifier or URL together with the content hash), only documents of
  the input, dated documents first, newest first; and making a batch canonical again changes
  nothing.\<close>

theorem batch_canonical:
  "distinct (map document_identity (sort_documents ds)) \<and>
   document_identity ` set (sort_documents ds) = document_identity ` set ds \<and>
   set (sort_documents ds) \<subseteq> set ds \<and> sorted (map document_order (sort_documents ds)) \<and>
   sort_documents (sort_documents ds) = sort_documents ds"
proof -
  have id: "map snd (keyed document_identity xs) = xs" if "distinct (map document_identity xs)" for xs
    using that
  proof (induction xs rule: rev_induct)
    case (snoc x xs)
    then have "document_identity x \<notin> fst ` set (keyed document_identity xs)"
      by (auto simp: keyed_keys)
    then show ?case using snoc by (simp add: keyed_snoc update_new)
  qed simp
  show ?thesis
    using sort_documents_identities [of ds] sort_documents_set [of ds] sort_documents_sorted [of ds]
      id [of "sort_documents ds"]
    by (simp add: sort_documents_def [of "sort_documents ds"] sort_key_id_if_sorted)
qed

end
