(* ===== verification/Ingestion.thy ===== *)
theory Ingestion
  imports Normalization_Facts
begin

text \<open>
  \<^verbatim>\<open>ingestion/service.py\<close> with the run contracts of \<^verbatim>\<open>models/contracts.py\<close>: one
  collection of the source registry.  Sources are collected concurrently, but each reads and
  writes only its own conditional validators, so the model collects them one after the other
  and threads the validators; the lemmas show that no source's outcome depends on another.
  Clock readings are indexed by their place in the code; the transport of each source, hashing
  of bytes and the registry's JSON form are parameters.
\<close>

section \<open>Run contracts\<close>

record source_run_result =
  sr_source_id :: string
  sr_started_at :: instant
  sr_completed_at :: "instant option"
  sr_status :: run_status
  sr_http_status :: "int option"
  sr_item_count :: int
  sr_retry_count :: int
  sr_cache_state :: cache_state
  sr_error_classification :: "string option"
  sr_error_detail :: "string option"

record run_manifest =
  rm_ingestion_run_id :: uuid
  rm_run_type :: string
  rm_idempotency_key :: string
  rm_scheduled_for :: "instant option"
  rm_started_at :: "instant option"
  rm_completed_at :: "instant option"
  rm_status :: run_status
  rm_triggering_origin :: string
  rm_application_version :: string
  rm_configuration_hash :: string
  rm_total_sources :: int
  rm_successful_sources :: int
  rm_failed_sources :: int
  rm_new_documents :: int
  rm_source_results :: "source_run_result list"
  rm_error_summary :: "string option"

definition IngestionRunManifest :: "run_manifest \<Rightarrow> run_manifest result" where
  "IngestionRunManifest r =
     rbind (nonblank (rm_run_type r)) (\<lambda>t.
     rbind (nonblank (rm_idempotency_key r)) (\<lambda>k.
     rbind (nonblank (rm_triggering_origin r)) (\<lambda>origin.
     rbind (nonblank (rm_application_version r)) (\<lambda>version.
     rbind (normalize_hash 64 (rm_configuration_hash r)) (\<lambda>h.
     rbind (check (0 \<le> rm_total_sources r \<and> 0 \<le> rm_successful_sources r \<and> 0 \<le> rm_failed_sources r
         \<and> 0 \<le> rm_new_documents r) ''counts'') (\<lambda>_.
       Inr (r\<lparr>rm_run_type := t, rm_idempotency_key := k, rm_triggering_origin := origin,
              rm_application_version := version, rm_configuration_hash := h\<rparr>)))))))"

definition RawArtifactMetadata :: "norm_env \<Rightarrow> raw_artifact \<Rightarrow> raw_artifact result" where
  "RawArtifactMetadata e a =
     rbind (http_url (ne_any_http_url e) (strip (ra_retrieval_url a))) (\<lambda>u.
     rbind (http_url (ne_any_http_url e) (strip (ra_canonical_url a))) (\<lambda>c.
     rbind (check (100 \<le> ra_response_status a \<and> ra_response_status a \<le> 599) ''response_status'') (\<lambda>_.
     rbind (normalize_hash 64 (ra_content_hash a)) (\<lambda>h.
     rbind (check (0 \<le> ra_byte_length a) ''byte_length'') (\<lambda>_.
       Inr (a\<lparr>ra_source_id := strip (ra_source_id a), ra_retrieval_url := u, ra_canonical_url := c,
         ra_content_type := map_option strip (ra_content_type a), ra_encoding := map_option strip (ra_encoding a),
         ra_etag := map_option strip (ra_etag a), ra_last_modified := map_option strip (ra_last_modified a),
         ra_content_hash := h\<rparr>))))))"

section \<open>Conditional requests\<close>

record validators =
  va_etag :: "string option"
  va_last_modified :: "string option"

definition no_validators :: validators where
  "no_validators = \<lparr>va_etag = None, va_last_modified = None\<rparr>"

definition header_if :: "string \<Rightarrow> string option \<Rightarrow> string dict" where
  "header_if name v = (case v of None \<Rightarrow> [] | Some s \<Rightarrow> if s = [] then [] else [(name, s)])"

definition validator_headers :: "validators \<Rightarrow> string dict" where
  "validator_headers v = header_if ''If-None-Match'' (va_etag v) @ header_if ''If-Modified-Since'' (va_last_modified v)"

definition abusech_hosts :: "string list" where
  "abusech_hosts = [''threatfox-api.abuse.ch'', ''urlhaus-api.abuse.ch'']"

record ingestion_env =
  ie_norm :: norm_env
  ie_client :: http_config
  ie_world :: "string \<Rightarrow> world"
  ie_now :: "string \<Rightarrow> nat \<Rightarrow> instant"
  ie_run_now :: "nat \<Rightarrow> instant"
  ie_sha256_bytes :: "string \<Rightarrow> string"
  ie_registry_json :: "source_config list \<Rightarrow> string"
  ie_abusech_api_key :: "string option"
  ie_origin :: string
  ie_application_version :: string

text \<open>A malformed source URL cannot occur: the source contract has parsed it.\<close>

definition request_headers :: "ingestion_env \<Rightarrow> source_config \<Rightarrow> validators \<Rightarrow> string dict" where
  "request_headers e source cached =
     (let hostname = (case urlsplit (cf_url source) of None \<Rightarrow> None | Some u \<Rightarrow> url_hostname u) in
      case (hostname, ie_abusech_api_key e) of
        (Some h, Some key) \<Rightarrow> if h \<noteq> [] \<and> lower h \<in> set abusech_hosts
           then dict_set ''Auth-Key'' key (validator_headers cached) else validator_headers cached
      | _ \<Rightarrow> validator_headers cached)"

section \<open>One source\<close>

record source_collection =
  sl_result :: source_run_result
  sl_raw_artifact :: "raw_artifact option"
  sl_documents :: "source_document list"

definition run_result_of :: "source_config \<Rightarrow> instant \<Rightarrow> instant \<Rightarrow> run_status \<Rightarrow> int option \<Rightarrow> nat \<Rightarrow> nat
    \<Rightarrow> cache_state \<Rightarrow> (string \<times> string) option \<Rightarrow> source_run_result" where
  "run_result_of source started completed status http items retries cache err =
     \<lparr>sr_source_id = strip (cf_source_id source), sr_started_at = started, sr_completed_at = Some completed,
      sr_status = status, sr_http_status = http, sr_item_count = int items, sr_retry_count = int retries,
      sr_cache_state = cache, sr_error_classification = map_option (strip \<circ> fst) err,
      sr_error_detail = map_option (strip \<circ> snd) err\<rparr>"

definition failed_source :: "ingestion_env \<Rightarrow> source_config \<Rightarrow> string \<Rightarrow> string \<Rightarrow> nat \<Rightarrow> source_collection" where
  "failed_source e source classification detail retry_count =
     (let i = cf_source_id source in
      \<lparr>sl_result = run_result_of source (ie_now e i 0) (ie_now e i 2) RS_FAILED None 0 retry_count CS_MISS
         (Some (classification, detail)),
       sl_raw_artifact = None, sl_documents = []\<rparr>)"

definition artifact_of :: "ingestion_env \<Rightarrow> source_config \<Rightarrow> fetch_result \<Rightarrow> uuid \<Rightarrow> instant \<Rightarrow> raw_artifact result" where
  "artifact_of e source f run_id retrieved_at =
     (let digest = ie_sha256_bytes e (fr_body f) in
      RawArtifactMetadata (ie_norm e)
       \<lparr>ra_raw_artifact_id = ne_uuid5 (ie_norm e) (''raw-artifact:'' @ cf_source_id source @ '':'' @ fr_url f @ '':'' @ digest),
        ra_source_id = cf_source_id source, ra_retrieval_url = fr_url f, ra_canonical_url = cf_url source,
        ra_retrieved_at = retrieved_at, ra_response_status = fr_status_code f,
        ra_content_type = fr_content_type f, ra_encoding = fr_encoding f, ra_etag = fr_header f ''etag'',
        ra_last_modified = fr_header f ''last-modified'', ra_content_hash = digest,
        ra_byte_length = int (length (fr_body f)), ra_ingestion_run_id = run_id\<rparr>)"

definition normalize_by :: "norm_env \<Rightarrow> source_config \<Rightarrow> fetch_result \<Rightarrow> raw_artifact
    \<Rightarrow> norm_exn + source_document list" where
  "normalize_by e source f artifact =
     (case rq_parser_adapter (cf_request source) of
        Some PA_JSON \<Rightarrow> normalize_json e source f artifact
      | Some PA_RSS \<Rightarrow> normalize_feed e source f artifact
      | Some PA_ATOM \<Rightarrow> normalize_feed e source f artifact
      | Some PA_HTML \<Rightarrow> normalize_html e source f artifact
      | Some PA_PDF \<Rightarrow> normalize_pdf e source f artifact
      | _ \<Rightarrow> Inl (NormalizationError ''policy_error'' ''source has no parser adapter''))"

text \<open>The exceptions of one source in the order of its handlers.\<close>

fun failure_of :: "ingestion_env \<Rightarrow> source_config \<Rightarrow> norm_exn \<Rightarrow> source_collection" where
  "failure_of e source (NormalizationError c d) = failed_source e source c d 0"
| "failure_of e source (InvalidDocument _) =
     failed_source e source ''schema_error'' ''normalized document was invalid'' 0"
| "failure_of e source (Uncaught x) =
     failed_source e source ''unexpected_error'' (''source processing failed: '' @ x) 0"

definition cache_state_of :: "fetch_result \<Rightarrow> validators \<Rightarrow> cache_state" where
  "cache_state_of f cached =
     (if fr_status_code f = 304 then CS_NOT_MODIFIED
      else if validator_headers cached \<noteq> [] then CS_HIT else CS_MISS)"

definition collected :: "ingestion_env \<Rightarrow> source_config \<Rightarrow> fetch_result \<Rightarrow> validators \<Rightarrow> uuid
    \<Rightarrow> norm_exn + raw_artifact \<times> source_document list" where
  "collected e source f cached run_id =
     (case artifact_of e source f run_id (ie_now e (cf_source_id source) 1) of
        Inl x \<Rightarrow> Inl (InvalidDocument x)
      | Inr artifact \<Rightarrow> rbind (normalize_by (ie_norm e) source f artifact) (\<lambda>ds. Inr (artifact, ds)))"

definition collect_source :: "ingestion_env \<Rightarrow> uuid \<Rightarrow> (string \<times> validators) list \<Rightarrow> source_config
    \<Rightarrow> (string \<times> validators) list \<times> source_collection" where
  "collect_source e run_id vs source =
     (let i = cf_source_id source; started = ie_now e i 0; completed = ie_now e i 2 in
      if \<not> cf_enabled source
      then (vs, \<lparr>sl_result = run_result_of source started completed RS_SKIPPED None 0 0 CS_NOT_APPLICABLE
                  (Some (''disabled'', ''source is disabled'')),
                 sl_raw_artifact = None, sl_documents = []\<rparr>)
      else (let cached = (case dict_get i vs of None \<Rightarrow> no_validators | Some v \<Rightarrow> v) in
        case snd (fetch (ie_world e i) (ie_client e) (cf_url source) (Some (cf_request source))
               (request_headers e source cached) (cf_max_response_bytes source)) of
          Inl (Fetch_Error x) \<Rightarrow> (vs, failed_source e source (fe_classification x) (fe_detail x) (fe_retry_count x))
        | Inl (fetch_exn.Uncaught x) \<Rightarrow> (vs, failure_of e source (Uncaught x))
        | Inr f \<Rightarrow>
            if fr_status_code f = 304
            then (vs, \<lparr>sl_result = run_result_of source started completed RS_COMPLETED (Some 304) 0
                         (fr_retry_count f) CS_NOT_MODIFIED None,
                       sl_raw_artifact = None, sl_documents = []\<rparr>)
            else (case collected e source f cached run_id of
                Inl x \<Rightarrow> (vs, failure_of e source x)
              | Inr (artifact, ds) \<Rightarrow>
                  (dict_set i \<lparr>va_etag = fr_header f ''etag'', va_last_modified = fr_header f ''last-modified''\<rparr> vs,
                   \<lparr>sl_result = run_result_of source started completed RS_COMPLETED (Some (fr_status_code f))
                      (length ds) (fr_retry_count f) (cache_state_of f cached) None,
                    sl_raw_artifact = Some artifact, sl_documents = ds\<rparr>))))"

section \<open>A collection run\<close>

record collection_result =
  cl_manifest :: run_manifest
  cl_raw_artifacts :: "raw_artifact list"
  cl_source_documents :: "source_document list"

fun collect_all :: "ingestion_env \<Rightarrow> uuid \<Rightarrow> (string \<times> validators) list \<Rightarrow> source_config list
    \<Rightarrow> (string \<times> validators) list \<times> source_collection list" where
  "collect_all e run_id vs [] = (vs, [])"
| "collect_all e run_id vs (s # ss) =
     (let (vs1, o1) = collect_source e run_id vs s; (vs2, os) = collect_all e run_id vs1 ss in (vs2, o1 # os))"

definition run_results :: "source_collection list \<Rightarrow> source_run_result list" where
  "run_results outcomes = sort_key sr_source_id (map sl_result outcomes)"

definition run_artifacts :: "source_collection list \<Rightarrow> raw_artifact list" where
  "run_artifacts outcomes = sort_key (\<lambda>a. (ra_source_id a, ra_canonical_url a, ra_content_hash a))
     (concat (map (\<lambda>x. case sl_raw_artifact x of None \<Rightarrow> [] | Some a \<Rightarrow> [a]) outcomes))"

definition run_documents :: "source_collection list \<Rightarrow> source_document list" where
  "run_documents outcomes = sort_key (\<lambda>d. (sd_source_id d, sd_published_at d = None,
       - (case sd_published_at d of None \<Rightarrow> 0 | Some t \<Rightarrow> t), sd_canonical_url d,
       (case sd_external_source_id d of None \<Rightarrow> [] | Some i \<Rightarrow> i)))
     (concat (map sl_documents outcomes))"

definition count_status :: "run_status \<Rightarrow> source_run_result list \<Rightarrow> int" where
  "count_status st rs = int (length (filter (\<lambda>r. sr_status r = st) rs))"

definition manifest_of :: "ingestion_env \<Rightarrow> source_config list \<Rightarrow> uuid \<Rightarrow> string option \<Rightarrow> instant option
    \<Rightarrow> source_collection list \<Rightarrow> run_manifest" where
  "manifest_of e sources run_id key scheduled_for outcomes =
     (let results = run_results outcomes; failed = count_status RS_FAILED results in
      \<lparr>rm_ingestion_run_id = run_id, rm_run_type = ''collect_once'',
       rm_idempotency_key = or_else (case key of None \<Rightarrow> [] | Some k \<Rightarrow> k) (''collect-once:'' @ run_id),
       rm_scheduled_for = scheduled_for, rm_started_at = Some (ie_run_now e 0),
       rm_completed_at = Some (ie_run_now e 1),
       rm_status = (if failed \<noteq> 0 then RS_FAILED else RS_COMPLETED),
       rm_triggering_origin = ie_origin e, rm_application_version = ie_application_version e,
       rm_configuration_hash = ne_sha256 (ie_norm e) (ie_registry_json e sources),
       rm_total_sources = int (length results), rm_successful_sources = count_status RS_COMPLETED results,
       rm_failed_sources = failed, rm_new_documents = int (length (run_documents outcomes)),
       rm_source_results = results,
       rm_error_summary = (if failed \<noteq> 0 then Some (int_str failed @ '' source(s) failed'') else None)\<rparr>)"

definition collect_once :: "ingestion_env \<Rightarrow> (string \<times> validators) list \<Rightarrow> source_config list \<Rightarrow> uuid
    \<Rightarrow> string option \<Rightarrow> instant option \<Rightarrow> (string \<times> validators) list \<times> collection_result result" where
  "collect_once e vs sources run_id key scheduled_for =
     (let (vs', outcomes) = collect_all e run_id vs sources in
      (vs', rbind (IngestionRunManifest (manifest_of e sources run_id key scheduled_for outcomes)) (\<lambda>m.
        Inr \<lparr>cl_manifest = m, cl_raw_artifacts = run_artifacts outcomes,
             cl_source_documents = run_documents outcomes\<rparr>)))"

end
