(* ===== verification/Ingestion_Facts.thy ===== *)
theory Ingestion_Facts
  imports Ingestion Http_Facts
begin

text \<open>
  What a collection run guarantees: sources do not influence each other, the manifest accounts
  for every source and document, and every document is backed by an artifact of the run.
\<close>

section \<open>Sources are isolated\<close>

lemma failed_source_fields [simp]:
  "sr_source_id (sl_result (failed_source e s c d n)) = strip (cf_source_id s)"
  "sr_status (sl_result (failed_source e s c d n)) = RS_FAILED"
  "sr_item_count (sl_result (failed_source e s c d n)) = 0"
  "sl_raw_artifact (failed_source e s c d n) = None" "sl_documents (failed_source e s c d n) = []"
  by (simp_all add: failed_source_def run_result_of_def Let_def)

lemma failure_of_fields [simp]:
  "sr_source_id (sl_result (failure_of e s x)) = strip (cf_source_id s)"
  "sr_status (sl_result (failure_of e s x)) = RS_FAILED" "sr_item_count (sl_result (failure_of e s x)) = 0"
  "sl_raw_artifact (failure_of e s x) = None" "sl_documents (failure_of e s x) = []"
  by (cases x; simp)+

lemma collect_source_id: "sr_source_id (sl_result (snd (collect_source e r vs s))) = strip (cf_source_id s)"
  by (auto simp: collect_source_def Let_def run_result_of_def split: sum.splits fetch_exn.splits prod.splits)

lemma collect_source_frame:
  "k \<noteq> cf_source_id s \<Longrightarrow> dict_get k (fst (collect_source e r vs s)) = dict_get k vs"
  by (auto simp: collect_source_def Let_def dict_get_set split: sum.splits fetch_exn.splits prod.splits)

lemma collect_source_local:
  assumes "dict_get (cf_source_id s) vs = dict_get (cf_source_id s) vs'"
  shows "snd (collect_source e r vs s) = snd (collect_source e r vs' s) \<and>
     dict_get (cf_source_id s) (fst (collect_source e r vs s))
       = dict_get (cf_source_id s) (fst (collect_source e r vs' s))"
  using assms by (auto simp: collect_source_def Let_def dict_get_set split: sum.splits fetch_exn.splits prod.splits)

text \<open>C27. Sources are isolated: in a registry with distinct identifiers the outcome of each
  source, and the conditional validators it leaves, are those of collecting that source alone,
  whatever the other sources do and wherever they stand; so the interleaving of the concurrent
  collection does not matter.\<close>

theorem sources_isolated:
  assumes "distinct (map cf_source_id sources)"
  shows "snd (collect_all e r vs sources) = map (\<lambda>s. snd (collect_source e r vs s)) sources \<and>
     (\<forall>s \<in> set sources. dict_get (cf_source_id s) (fst (collect_all e r vs sources))
        = dict_get (cf_source_id s) (fst (collect_source e r vs s))) \<and>
     (\<forall>k. k \<notin> cf_source_id ` set sources \<longrightarrow> dict_get k (fst (collect_all e r vs sources)) = dict_get k vs)"
  using assms
proof (induction sources arbitrary: vs)
  case (Cons s ss)
  let ?vs1 = "fst (collect_source e r vs s)"
  have other: "cf_source_id s' \<noteq> cf_source_id s" if "s' \<in> set ss" for s'
    using Cons.prems imageI [OF that, of cf_source_id] by auto
  have loc: "snd (collect_source e r ?vs1 s') = snd (collect_source e r vs s')"
    "dict_get (cf_source_id s') (fst (collect_source e r ?vs1 s')) = dict_get (cf_source_id s') (fst (collect_source e r vs s'))"
    if "s' \<in> set ss" for s'
    using collect_source_local [of s' ?vs1 vs e r] collect_source_frame [OF other [OF that], of e r vs] by auto
  have step: "collect_all e r vs (s # ss) = (fst (collect_all e r ?vs1 ss),
      snd (collect_source e r vs s) # snd (collect_all e r ?vs1 ss))"
    by (simp add: split_def Let_def)
  have IH: "snd (collect_all e r ?vs1 ss) = map (\<lambda>s. snd (collect_source e r ?vs1 s)) ss"
    "\<forall>s' \<in> set ss. dict_get (cf_source_id s') (fst (collect_all e r ?vs1 ss)) = dict_get (cf_source_id s') (fst (collect_source e r ?vs1 s'))"
    "\<forall>k. k \<notin> cf_source_id ` set ss \<longrightarrow> dict_get k (fst (collect_all e r ?vs1 ss)) = dict_get k ?vs1"
    using Cons.IH [of ?vs1] Cons.prems by simp_all
  have "dict_get (cf_source_id s) (fst (collect_all e r ?vs1 ss)) = dict_get (cf_source_id s) ?vs1"
    using IH(3) Cons.prems by simp
  with IH loc show ?case unfolding step by (simp add: collect_source_frame)
qed simp

section \<open>The manifest accounts for the run\<close>

definition completed_with :: "ingestion_env \<Rightarrow> source_config \<Rightarrow> source_collection \<Rightarrow> bool" where
  "completed_with e s x = (sr_item_count (sl_result x) = int (length (sl_documents x)) \<and>
     (sl_documents x \<noteq> [] \<longrightarrow> cf_enabled s \<and> sr_status (sl_result x) = RS_COMPLETED) \<and>
     sr_status (sl_result x) \<in> {RS_COMPLETED, RS_FAILED, RS_SKIPPED} \<and>
     (sr_status (sl_result x) = RS_SKIPPED \<longleftrightarrow> \<not> cf_enabled s))"

lemma collect_source_completed: "completed_with e s (snd (collect_source e r vs s))"
  by (auto simp: completed_with_def collect_source_def Let_def run_result_of_def
      split: sum.splits fetch_exn.splits prod.splits)

lemma collect_all_outcomes:
  "length (snd (collect_all e r vs sources)) = length sources \<and>
   list_all2 (\<lambda>s x. \<exists>vs. x = snd (collect_source e r vs s)) sources (snd (collect_all e r vs sources))"
proof (induction sources arbitrary: vs)
  case (Cons s ss)
  then show ?case using Cons [of "fst (collect_source e r vs s)"] by (auto simp: split_def Let_def)
qed simp

lemma collect_all_ids: "map (sr_source_id \<circ> sl_result) (snd (collect_all e r vs sources)) = map (strip \<circ> cf_source_id) sources"
proof -
  have "list_all2 (\<lambda>s x. sr_source_id (sl_result x) = strip (cf_source_id s)) sources (snd (collect_all e r vs sources))"
    using collect_all_outcomes by (rule conjunct2 [THEN list_all2_mono]) (auto simp: collect_source_id)
  then show ?thesis by (induction rule: list_all2_induct) simp_all
qed

lemma count_status_perm: "mset rs = mset rs' \<Longrightarrow> count_status st rs = count_status st rs'"
  unfolding count_status_def by (metis mset_filter size_mset)

lemma sum_item_counts:
  assumes "list_all2 (completed_with e) ss xs"
  shows "sum_list (map (sr_item_count \<circ> sl_result) xs) = int (length (concat (map sl_documents xs)))"
  using assms by (induction rule: list_all2_induct) (simp_all add: completed_with_def)

lemma count_partition:
  "\<forall>r \<in> set rs. sr_status r \<in> {RS_COMPLETED, RS_FAILED, RS_SKIPPED} \<Longrightarrow>
     count_status RS_COMPLETED rs + count_status RS_FAILED rs + count_status RS_SKIPPED rs = int (length rs)"
  by (induction rs) (auto simp: count_status_def)

lemma manifest_kept:
  "IngestionRunManifest r = Inr m \<Longrightarrow> rm_source_results m = rm_source_results r \<and>
     rm_total_sources m = rm_total_sources r \<and> rm_successful_sources m = rm_successful_sources r \<and>
     rm_failed_sources m = rm_failed_sources r \<and> rm_status m = rm_status r \<and>
     rm_new_documents m = rm_new_documents r \<and> rm_error_summary m = rm_error_summary r"
  by (auto simp: IngestionRunManifest_def rbind_Inr_iff)

text \<open>C26. The manifest accounts for the whole run: its results are one per source, in source
  order; completed, failed and skipped sources add up to the total; the run is FAILED exactly
  when a source failed, and then says how many; and the new documents are the documents
  returned, which are the items the sources report.\<close>

theorem manifest_accounts_for_run:
  assumes "collect_once e vs sources run_id key scheduled_for = (vs', Inr r)"
  shows "let m = cl_manifest r; rs = rm_source_results m in
     mset (map sr_source_id rs) = mset (map (strip \<circ> cf_source_id) sources) \<and> sorted (map sr_source_id rs) \<and>
     rm_total_sources m = int (length sources) \<and>
     rm_successful_sources m + rm_failed_sources m + count_status RS_SKIPPED rs = rm_total_sources m \<and>
     (rm_status m = RS_FAILED \<longleftrightarrow> 0 < rm_failed_sources m) \<and>
     (rm_error_summary m = None \<longleftrightarrow> rm_failed_sources m = 0) \<and>
     rm_new_documents m = int (length (cl_source_documents r)) \<and>
     rm_new_documents m = sum_list (map sr_item_count rs)"
proof -
  obtain vs1 xs where run: "collect_all e run_id vs sources = (vs1, xs)" by (cases "collect_all e run_id vs sources")
  let ?m0 = "manifest_of e sources run_id key scheduled_for xs"
  from assms run obtain m where m: "IngestionRunManifest ?m0 = Inr m" and r: "cl_manifest r = m"
      "cl_source_documents r = run_documents xs"
    by (auto simp: collect_once_def rbind_Inr_iff)
  have f: "rm_source_results m = run_results xs" "rm_total_sources m = int (length xs)"
      "rm_successful_sources m = count_status RS_COMPLETED (run_results xs)"
      "rm_failed_sources m = count_status RS_FAILED (run_results xs)"
      "rm_status m = (if count_status RS_FAILED (run_results xs) \<noteq> 0 then RS_FAILED else RS_COMPLETED)"
      "rm_new_documents m = int (length (run_documents xs))"
      "rm_error_summary m = None \<longleftrightarrow> count_status RS_FAILED (run_results xs) = 0"
    using manifest_kept [OF m] by (simp_all add: manifest_of_def Let_def) (simp add: run_results_def)
  have ids: "map (sr_source_id \<circ> sl_result) xs = map (strip \<circ> cf_source_id) sources"
    using collect_all_ids [of e run_id vs sources] by (simp add: run)
  have cw: "list_all2 (completed_with e) sources xs"
    using collect_all_outcomes [of e run_id vs sources, THEN conjunct2] collect_source_completed
    by (auto simp: run elim!: list_all2_mono)
  have st: "\<forall>r \<in> set (run_results xs). sr_status r \<in> {RS_COMPLETED, RS_FAILED, RS_SKIPPED}"
    using cw by (auto simp: run_results_def completed_with_def list_all2_conv_all_nth in_set_conv_nth)
  have len: "length xs = length sources" using cw by (simp add: list_all2_lengthD)
  have "mset (map sr_source_id (run_results xs)) = mset (map (strip \<circ> cf_source_id) sources)"
    using arg_cong [OF ids, of mset] by (simp add: run_results_def multiset.map_comp)
  moreover have "sum_list (map sr_item_count (run_results xs)) = sum_list (map (sr_item_count \<circ> sl_result) xs)"
    using sum_mset_sum_list [of "map sr_item_count (run_results xs)"] sum_mset_sum_list [of "map (sr_item_count \<circ> sl_result) xs"]
    by (simp add: run_results_def multiset.map_comp)
  moreover have "length (run_documents xs) = length (concat (map sl_documents xs))" by (simp add: run_documents_def)
  moreover have "0 \<le> count_status RS_FAILED (run_results xs)" by (simp add: count_status_def)
  moreover have "length (run_results xs) = length sources" by (simp add: run_results_def len)
  ultimately show ?thesis
    using f r sum_item_counts [OF cw] count_partition [OF st] len by (auto simp: Let_def run_results_def)
qed

section \<open>Provenance\<close>

lemma artifact_of_run: "artifact_of e s f run_id t = Inr a \<Longrightarrow> ra_ingestion_run_id a = run_id"
  by (auto simp: artifact_of_def RawArtifactMetadata_def Let_def rbind_Inr_iff)

lemma normalize_by_ok:
  assumes "normalize_by e s f a = Inr ds" "hex_hash e"
  shows "\<forall>d \<in> set ds. documented e s a d \<and> (rq_parser_adapter (cf_request s) \<noteq> Some PA_JSON \<longrightarrow> self_hashed e d)"
  using assms normalize_json_ok [of e s f a ds] normalize_feed_ok [of e s f a ds] normalize_page_ok [of e s f a ds]
  by (auto simp: normalize_by_def split: option.splits parser_adapter.splits)

definition provenance :: "ingestion_env \<Rightarrow> uuid \<Rightarrow> source_config \<Rightarrow> raw_artifact \<Rightarrow> source_document \<Rightarrow> bool" where
  "provenance e run_id s a d = (cf_enabled s \<and> documented (ie_norm e) s a d \<and> ra_ingestion_run_id a = run_id \<and>
     (rq_parser_adapter (cf_request s) \<noteq> Some PA_JSON \<longrightarrow> self_hashed (ie_norm e) d))"

lemma collect_source_documents:
  assumes "sl_documents (snd (collect_source e run_id vs s)) \<noteq> []"
  shows "\<exists>f cached a. cf_enabled s \<and>
     collected e s f cached run_id = Inr (a, sl_documents (snd (collect_source e run_id vs s))) \<and>
     sl_raw_artifact (snd (collect_source e run_id vs s)) = Some a"
  using assms by (auto simp: collect_source_def Let_def split: sum.splits fetch_exn.splits prod.splits if_splits)

lemma collect_source_provenance:
  assumes "d \<in> set (sl_documents (snd (collect_source e run_id vs s)))" "hex_hash (ie_norm e)"
  shows "\<exists>a. sl_raw_artifact (snd (collect_source e run_id vs s)) = Some a \<and> provenance e run_id s a d"
proof -
  from assms(1) have "sl_documents (snd (collect_source e run_id vs s)) \<noteq> []" by auto
  then obtain f cached a where en: "cf_enabled s" and art: "sl_raw_artifact (snd (collect_source e run_id vs s)) = Some a"
    and col: "collected e s f cached run_id = Inr (a, sl_documents (snd (collect_source e run_id vs s)))"
    using collect_source_documents by blast
  from col have "artifact_of e s f run_id (ie_now e (cf_source_id s) 1) = Inr a"
    and "normalize_by (ie_norm e) s f a = Inr (sl_documents (snd (collect_source e run_id vs s)))"
    by (auto simp: collected_def rbind_Inr_iff split: sum.splits)
  from artifact_of_run [OF this(1)] normalize_by_ok [OF this(2) assms(2)] assms(1) en art show ?thesis
    by (auto simp: provenance_def)
qed

lemma list_all2_in_set2: "list_all2 P xs ys \<Longrightarrow> y \<in> set ys \<Longrightarrow> \<exists>x \<in> set xs. P x y"
  by (induction rule: list_all2_induct) auto

text \<open>Every document is backed: each document of a run comes from an enabled source and an
  artifact of that run, names both, has a title, an accepted URL and, unless it came from a
  JSON catalogue, the hash of its own text.\<close>

theorem documents_backed_by_artifacts:
  assumes "collect_once e vs sources run_id key scheduled_for = (vs', Inr r)" and "hex_hash (ie_norm e)"
    and "d \<in> set (cl_source_documents r)"
  shows "\<exists>s \<in> set sources. \<exists>a \<in> set (cl_raw_artifacts r). provenance e run_id s a d"
proof -
  obtain vs1 xs where run: "collect_all e run_id vs sources = (vs1, xs)" by (cases "collect_all e run_id vs sources")
  with assms(1) have r: "cl_source_documents r = run_documents xs" "cl_raw_artifacts r = run_artifacts xs"
    by (auto simp: collect_once_def rbind_Inr_iff)
  with assms(3) obtain x where x: "x \<in> set xs" "d \<in> set (sl_documents x)" by (auto simp: run_documents_def)
  from collect_all_outcomes [of e run_id vs sources, THEN conjunct2]
  have "list_all2 (\<lambda>s x. \<exists>vs. x = snd (collect_source e run_id vs s)) sources xs" by (simp only: run snd_conv)
  from list_all2_in_set2 [OF this x(1)] obtain s vs2 where
    s: "s \<in> set sources" "x = snd (collect_source e run_id vs2 s)" by blast
  with collect_source_provenance [of d e run_id vs2 s] x(2) assms(2) obtain a where
    a: "sl_raw_artifact x = Some a" "provenance e run_id s a d" by auto
  have "a \<in> set (run_artifacts xs)" using x(1) a(1) by (force simp: run_artifacts_def)
  with s a r show ?thesis by auto
qed

section \<open>A concrete run\<close>

definition demo_norm :: norm_env where
  "demo_norm = \<lparr>ne_xml = (\<lambda>s. None), ne_loads = (\<lambda>s. Some (JList [JObj [(''id'', JStr s)]])),
     ne_html = (\<lambda>s. [Data s]), ne_decode = (\<lambda>c s. Some s), ne_iso = (\<lambda>s. None), ne_rfc = (\<lambda>s. None),
     ne_urljoin = (\<lambda>b s. Some s), ne_any_http_url = Some, ne_sha256 = (\<lambda>s. replicate 64 (CHR ''a'')),
     ne_uuid5 = id, ne_pypdf = (\<lambda>s. None), ne_decode_ignore = id\<rparr>"

definition demo_source :: "string \<Rightarrow> source_config" where
  "demo_source i = \<lparr>cf_source_id = i, cf_name = ''Demo'', cf_source_type = ST_JSON, cf_url = ''https://x.test'',
     cf_category = CAT_NEWS, cf_enabled = True, cf_polling_interval_seconds = 86400, cf_timeout_seconds = 30,
     cf_max_response_bytes = 100, cf_reliability = REL_GENERAL_NEWS, cf_tags = [],
     cf_request = default_source_request\<lparr>rq_parser_adapter := Some PA_JSON\<rparr>, cf_adapter_settings = []\<rparr>"

definition demo_ingestion :: ingestion_env where
  "demo_ingestion = \<lparr>ie_norm = demo_norm, ie_client = demo_config, ie_world = (\<lambda>i. demo_world demo_ok),
     ie_now = (\<lambda>i k. int k), ie_run_now = (\<lambda>k. int k), ie_sha256_bytes = (\<lambda>s. replicate 64 (CHR ''b'')),
     ie_registry_json = (\<lambda>ss. []), ie_abusech_api_key = None, ie_origin = ''test'',
     ie_application_version = ''1''\<rparr>"

abbreviation demo_outcome :: "collection_result result" where
  "demo_outcome \<equiv> snd (collect_once demo_ingestion [] [demo_source ''a''] ''run'' None None)"

lemma demo_run: "\<exists>vs r d. collect_once demo_ingestion [] [demo_source ''a''] ''run'' None None = (vs, Inr r) \<and>
     cl_source_documents r = [d]"
proof -
  have "ok demo_outcome \<and> length (cl_source_documents (projr demo_outcome)) = 1" by code_simp
  then obtain r where "demo_outcome = Inr r" "length (cl_source_documents r) = Suc 0" by (auto simp: ok_iff)
  moreover from this obtain d where "cl_source_documents r = [d]" by (auto simp: length_Suc_conv)
  ultimately have "collect_once demo_ingestion [] [demo_source ''a''] ''run'' None None
      = (fst (collect_once demo_ingestion [] [demo_source ''a''] ''run'' None None), Inr r)
      \<and> cl_source_documents r = [d]"
    by (simp add: prod_eq_iff)
  then show ?thesis by blast
qed

theorem sources_isolated_witness:
  "snd (collect_all demo_ingestion ''run'' [] [demo_source ''a'', demo_source ''b''])
     = map (\<lambda>s. snd (collect_source demo_ingestion ''run'' [] s)) [demo_source ''a'', demo_source ''b'']"
proof -
  have "distinct (map cf_source_id [demo_source ''a'', demo_source ''b''])" by (simp add: demo_source_def)
  from sources_isolated [OF this] show ?thesis by blast
qed

theorem manifest_accounts_for_run_witness:
  "\<exists>vs r. collect_once demo_ingestion [] [demo_source ''a''] ''run'' None None = (vs, Inr r) \<and>
     rm_new_documents (cl_manifest r) = 1 \<and> rm_total_sources (cl_manifest r) = 1"
proof -
  from demo_run obtain vs r d where run: "collect_once demo_ingestion [] [demo_source ''a''] ''run'' None None = (vs, Inr r)"
    "cl_source_documents r = [d]" by blast
  with manifest_accounts_for_run [OF run(1)] show ?thesis by (simp add: Let_def)
qed

theorem documents_backed_by_artifacts_witness:
  "\<exists>vs r d a. collect_once demo_ingestion [] [demo_source ''a''] ''run'' None None = (vs, Inr r) \<and>
     d \<in> set (cl_source_documents r) \<and> provenance demo_ingestion ''run'' (demo_source ''a'') a d"
proof -
  from demo_run obtain vs r d where run: "collect_once demo_ingestion [] [demo_source ''a''] ''run'' None None = (vs, Inr r)"
    "cl_source_documents r = [d]" by blast
  have "normalize_hash 64 (replicate 64 (CHR ''a'')) = Inr (replicate 64 (CHR ''a''))" by code_simp
  then have "hex_hash (ie_norm demo_ingestion)" by (simp add: hex_hash_def demo_ingestion_def demo_norm_def)
  from documents_backed_by_artifacts [OF run(1) this, of d] run show ?thesis by auto
qed

end
