(* ===== verification/Lifecycle.thy ===== *)
theory Lifecycle
  imports Correlation_Store
begin

text \<open>
  \<^verbatim>\<open>db/lifecycle.py\<close>: the registry of lifecycle columns with their allowed values and
  the names of the check constraints, and \<^verbatim>\<open>db/model_run_repository.py\<close>, whose rows
  are validated against it.  SHA-1 of a text as hexadecimal digits is a parameter.
\<close>

section \<open>The registry\<close>

definition record_status_values :: "string list" where
  "record_status_values = [''active'', ''superseded'', ''archived'']"

definition publication_states :: "string list" where
  "publication_states = [''published'', ''rolled_back'', ''failed'']"

definition model_run_statuses :: "string list" where
  "model_run_statuses = [''running'', ''completed'', ''failed'', ''cancelled'']"

definition entity_states :: "string list" where
  "entity_states = [''unknown'', ''active'', ''inactive'', ''retired'']"

definition attribution_states :: "string list" where
  "attribution_states = [''unknown'', ''suspected'', ''attributed'', ''disputed'', ''rejected'']"

definition affected_statuses :: "string list" where
  "affected_statuses = [''affected'', ''not_affected'', ''unknown'']"

definition lifecycle_fields :: "((string \<times> string) \<times> string list) list" where
  "lifecycle_fields =
     [((''ingestion_run'', ''status''), map run_status_value run_status_members),
      ((''source_run'', ''status''), map run_status_value run_status_members),
      ((''source_run'', ''cache_state''), map cache_state_value cache_state_members),
      ((''indicator'', ''validation_state''), map indicator_validation_state_value indicator_validation_state_members),
      ((''enrichment_result'', ''status''), map enrichment_status_value enrichment_status_members),
      ((''vulnerability_provider_observation'', ''status''), map enrichment_status_value enrichment_status_members),
      ((''vulnerability'', ''exploitation_state''), map exploitation_state_value exploitation_state_members),
      ((''vulnerability_provider_observation'', ''exploitation_state''),
         map exploitation_state_value exploitation_state_members),
      ((''risk_assessment'', ''review_state''), map review_state_value review_state_members),
      ((''relationship'', ''review_state''), map review_state_value review_state_members),
      ((''correlation_contradiction'', ''review_state''), map review_state_value review_state_members),
      ((''resurfacing_event'', ''review_state''), map review_state_value review_state_members),
      ((''report'', ''state''), map report_state_value report_state_members),
      ((''report_version'', ''validation_status''), map report_state_value report_state_members),
      ((''hunt'', ''state''), map report_state_value report_state_members),
      ((''remediation'', ''state''), map report_state_value report_state_members),
      ((''detection'', ''state''), map report_state_value report_state_members),
      ((''publication'', ''state''), publication_states),
      ((''model_run'', ''status''), model_run_statuses),
      ((''threat_actor'', ''attribution_state''), attribution_states),
      ((''campaign'', ''state''), entity_states),
      ((''infrastructure'', ''state''), entity_states),
      ((''affected_product'', ''affected_status''), affected_statuses)]"

definition constraint_name :: "(string \<Rightarrow> string) \<Rightarrow> string \<Rightarrow> string \<Rightarrow> string" where
  "constraint_name sha1 table column =
     (let v = ''ck_'' @ table @ ''_'' @ column @ ''_lifecycle'' in
      if length v \<le> 63 then v else ''ck_lifecycle_'' @ take 16 (sha1 v) @ ''_lifecycle'')"

definition validate_lifecycle_value :: "string \<Rightarrow> string \<Rightarrow> string \<Rightarrow> string result" where
  "validate_lifecycle_value table column v = (case map_of lifecycle_fields (table, column) of
       None \<Rightarrow> Inl (KeyError (table @ '', '' @ column))
     | Some allowed \<Rightarrow> if v \<in> set allowed then Inr v
         else Inl (ValueError (table @ ''.'' @ column @ '' must be one of the allowed values'')))"

section \<open>Facts\<close>

lemma lifecycle_keys_distinct: "distinct (map fst lifecycle_fields)"
  by code_simp

lemma validate_lifecycle_iff:
  "validate_lifecycle_value t c v = Inr w \<longleftrightarrow>
     w = v \<and> (\<exists>vs. map_of lifecycle_fields (t, c) = Some vs \<and> v \<in> set vs)"
  by (auto simp: validate_lifecycle_value_def split: option.splits)

lemma constraint_name_bounded: "length (constraint_name sha1 t c) \<le> 63"
  by (simp add: constraint_name_def Let_def min_le_iff_disj)

text \<open>Only one column has a name that does not fit.\<close>

definition plain_name :: "string \<times> string \<Rightarrow> string" where
  "plain_name k = ''ck_'' @ fst k @ ''_'' @ snd k @ ''_lifecycle''"

lemma constraint_name_plain:
  "constraint_name sha1 (fst k) (snd k) = (if length (plain_name k) \<le> 63 then plain_name k
     else ''ck_lifecycle_'' @ take 16 (sha1 (plain_name k)) @ ''_lifecycle'')"
  by (simp add: constraint_name_def plain_name_def Let_def)

lemma one_long_name:
  "filter (\<lambda>k. 63 < int (length (plain_name k))) (map fst lifecycle_fields)
     = [(''vulnerability_provider_observation'', ''exploitation_state'')]"
  by code_simp

lemma plain_names_distinct: "distinct (map (plain_name \<circ> fst) lifecycle_fields)"
  by code_simp

lemma plain_names_marked: "list_all (\<lambda>k. take 13 (plain_name k) \<noteq> ''ck_lifecycle_'') (map fst lifecycle_fields)"
  by code_simp

text \<open>Every constraint has a name of its own: the check constraints of the lifecycle
  columns fit the 63 characters of an identifier and no two columns share one, whatever the
  digest that shortens the long one.\<close>

lemma constraint_names_distinct:
  "distinct (map (\<lambda>k. constraint_name sha1 (fst k) (snd k)) (map fst lifecycle_fields)) \<and>
   list_all (\<lambda>k. length (constraint_name sha1 (fst k) (snd k)) \<le> 63) (map fst lifecycle_fields)"
proof -
  let ?n = "\<lambda>k. constraint_name sha1 (fst k) (snd k)"
  have inj: "inj_on ?n (fst ` set lifecycle_fields)"
  proof (rule inj_onI)
    fix j k assume jk: "j \<in> fst ` set lifecycle_fields" "k \<in> fst ` set lifecycle_fields" "?n j = ?n k"
    have mark: "take 13 (plain_name x) \<noteq> ''ck_lifecycle_''" if "x \<in> fst ` set lifecycle_fields" for x
      using plain_names_marked that by (auto simp: list_all_iff)
    have long: "x = (''vulnerability_provider_observation'', ''exploitation_state'')"
      if "x \<in> fst ` set lifecycle_fields" "\<not> length (plain_name x) \<le> 63" for x
    proof -
      have "x \<in> set (filter (\<lambda>k. 63 < int (length (plain_name k))) (map fst lifecycle_fields))"
        using that by simp
      then show ?thesis unfolding one_long_name by simp
    qed
    have take13: "take 13 (''ck_lifecycle_'' @ d) = ''ck_lifecycle_''" for d by simp
    have plain_inj: "j = k" if "plain_name j = plain_name k"
      using that jk(1,2) plain_names_distinct by (auto simp: distinct_map inj_on_def)
    show "j = k"
    proof (cases "length (plain_name j) \<le> 63")
      case True
      then show ?thesis using jk plain_inj mark [of j] take13
        unfolding constraint_name_plain by (cases "length (plain_name k) \<le> 63") auto
    next
      case False
      have "\<not> length (plain_name k) \<le> 63"
      proof
        assume "length (plain_name k) \<le> 63"
        with False jk(3) have "plain_name k = ''ck_lifecycle_'' @ (take 16 (sha1 (plain_name j)) @ ''_lifecycle'')"
          unfolding constraint_name_plain by simp
        then have "take 13 (plain_name k) = ''ck_lifecycle_''" by (simp only: take13)
        with mark [OF jk(2)] show False by contradiction
      qed
      with long [OF jk(1) False] long [OF jk(2)] show ?thesis by simp
    qed
  qed
  have "distinct (map ?n (map fst lifecycle_fields))"
    using inj lifecycle_keys_distinct unfolding distinct_map [of ?n "map fst lifecycle_fields"] by simp
  then show ?thesis by (simp add: constraint_name_bounded list_all_iff)
qed

section \<open>Model runs\<close>

record model_run =
  mr_id :: uuid
  mr_purpose :: string
  mr_triggering_run_id :: "uuid option"
  mr_model_provider :: string
  mr_prompt_name :: string
  mr_prompt_version :: string
  mr_system_prompt_hash :: "string option"
  mr_skill_version_hash :: "string option"
  mr_skill_version_hashes :: "string list"
  mr_input_evidence_ids :: "uuid list"
  mr_output_hash :: "string option"
  mr_token_metadata :: "json option"
  mr_cost_metadata :: "json option"
  mr_started_at :: instant
  mr_completed_at :: "instant option"
  mr_status :: string
  mr_error_classification :: "string option"

text \<open>The arguments are a row whose started time is optional; the derived columns are
  computed from the others.\<close>

definition model_run_values :: "instant \<Rightarrow> instant option \<Rightarrow> model_run \<Rightarrow> model_run" where
  "model_run_values now started_at r =
     (let started = (case started_at of None \<Rightarrow> now | Some t \<Rightarrow> t) in
      r\<lparr>mr_skill_version_hash := (case mr_skill_version_hashes r of [] \<Rightarrow> None | h # _ \<Rightarrow> Some h),
        mr_started_at := started,
        mr_completed_at := (case mr_completed_at r of None \<Rightarrow> Some started | Some t \<Rightarrow> Some t)\<rparr>)"

definition update_model_run :: "model_run \<Rightarrow> model_run \<Rightarrow> model_run" where
  "update_model_run old new = new\<lparr>mr_id := mr_id old\<rparr>"

text \<open>The widths of the columns.\<close>

definition model_run_fits :: "model_run \<Rightarrow> bool" where
  "model_run_fits r = (varchar 128 (mr_purpose r) \<and> varchar 128 (mr_model_provider r) \<and> varchar 128 (mr_prompt_name r) \<and>
     varchar 64 (mr_prompt_version r) \<and> nullable (varchar 64) (mr_system_prompt_hash r) \<and>
     list_all pg_text (mr_skill_version_hashes r) \<and>
     (case mr_skill_version_hashes r of [] \<Rightarrow> True | h # _ \<Rightarrow> varchar 64 h) \<and>
     nullable (varchar 64) (mr_output_hash r) \<and> nullable (varchar 128) (mr_error_classification r))"

definition persist_model_run :: "uuid list \<Rightarrow> instant \<Rightarrow> instant option \<Rightarrow> model_run \<Rightarrow> model_run list
    \<Rightarrow> store_error + model_run list \<times> model_run" where
  "persist_model_run run_ids now started_at r rows =
     (case validate_lifecycle_value ''model_run'' ''status'' (mr_status r) of
        Inl _ \<Rightarrow> Inl (BadValue ''model_run.status'')
      | Inr _ \<Rightarrow>
          if \<not> model_run_fits r then Inl DataError
          else if (case mr_triggering_run_id r of None \<Rightarrow> False | Some i \<Rightarrow> i \<notin> set run_ids) then Inl IntegrityError
          else (let rows' = upsert mr_id update_model_run (model_run_values now started_at r) rows in
            case find_row mr_id (mr_id r) rows' of
              None \<Rightarrow> Inl (NotPersisted ''model run was not persisted'')
            | Some x \<Rightarrow> Inr (rows', x)))"

interpretation model_runs: keyed_table mr_id update_model_run
  by unfold_locales (simp add: update_model_run_def)

lemma model_run_values_id [simp]: "mr_id (model_run_values now s r) = mr_id r"
  by (simp add: model_run_values_def Let_def)

lemma persist_model_run_row:
  assumes "persist_model_run ids now s r rows = Inr (rows', x)"
  shows "x = model_run_values now s r \<and> mr_status r \<in> set model_run_statuses \<and> mr_completed_at x \<noteq> None \<and>
     (unique_on mr_id rows \<longrightarrow> unique_on mr_id rows')"
proof -
  have rows': "rows' = upsert mr_id update_model_run (model_run_values now s r) rows"
    and f: "find_row mr_id (mr_id r) rows' = Some x"
    and st: "validate_lifecycle_value ''model_run'' ''status'' (mr_status r) = Inr (mr_status r)"
    using assms by (auto simp: persist_model_run_def Let_def validate_lifecycle_value_def split: sum.splits option.splits if_splits)
  have "x = model_run_values now s r" using f rows' model_runs.upsert_find [of "mr_id r" "model_run_values now s r" rows]
    by (auto simp: update_model_run_def split: option.splits dest: find_row_Some)
  moreover have "map_of lifecycle_fields (''model_run'', ''status'') = Some model_run_statuses" by code_simp
  ultimately show ?thesis using st model_runs.upsert_unique [of rows "model_run_values now s r"]
    by (auto simp: validate_lifecycle_iff rows' model_run_values_def Let_def split: option.splits)
qed

end
