(* ===== verification/Version_Chain.thy ===== *)
theory Version_Chain
  imports Sql_Table
begin

text \<open>
  Tables of versions: a new row continues its series, with the version after the latest one
  and a reference to the row it supersedes.  The interface \<open>versioned_table\<close> states what
  building the next row promises; documents, risk assessments and report versions provide it.
\<close>

definition in_series :: "('r \<Rightarrow> 's) \<Rightarrow> 's \<Rightarrow> 'r list \<Rightarrow> 'r list" where
  "in_series series s rows = filter (\<lambda>r. series r = s) rows"

definition latest_in :: "('r \<Rightarrow> 's) \<Rightarrow> ('r \<Rightarrow> int) \<Rightarrow> 'r list \<Rightarrow> 's \<Rightarrow> 'r option" where
  "latest_in series version rows s = newest version (in_series series s rows)"

text \<open>Versions start at 1, are unique in their series, and each later one supersedes the one
  before it.\<close>

definition version_chain :: "('r \<Rightarrow> 's) \<Rightarrow> ('r \<Rightarrow> int) \<Rightarrow> ('r \<Rightarrow> 'i) \<Rightarrow> ('r \<Rightarrow> 'i option) \<Rightarrow> 'r list \<Rightarrow> bool" where
  "version_chain series version ident supersedes rows \<longleftrightarrow>
     unique_on (\<lambda>r. (series r, version r)) rows \<and>
     (\<forall>r \<in> set rows. 1 \<le> version r \<and> (version r \<noteq> 1 \<longrightarrow>
        (\<exists>p \<in> set rows. series p = series r \<and> version p = version r - 1 \<and> supersedes r = Some (ident p))))"

lemma version_chain_Nil [simp]: "version_chain series version ident supersedes []"
  by (simp add: version_chain_def)

lemma latest_in_Some:
  "latest_in series version rows s = Some l \<Longrightarrow> l \<in> set rows \<and> series l = s \<and>
     (\<forall>r \<in> set rows. series r = s \<longrightarrow> version r \<le> version l)"
  unfolding latest_in_def in_series_def by (drule newest_Some) auto

lemma latest_in_None: "latest_in series version rows s = None \<longleftrightarrow> (\<forall>r \<in> set rows. series r \<noteq> s)"
  unfolding latest_in_def in_series_def newest_None by (simp add: filter_empty_conv)

text \<open>Every version between 1 and one that exists, exists.\<close>

lemma version_chain_dense:
  assumes "version_chain series version ident supersedes rows" "r \<in> set rows" "1 \<le> k" "k \<le> version r"
  shows "\<exists>p \<in> set rows. series p = series r \<and> version p = k"
  using assms(2-4)
proof (induction "nat (version r - k)" arbitrary: r)
  case 0
  then show ?case by (intro bexI [of _ r]) auto
next
  case (Suc n)
  then have "version r \<noteq> 1" by auto
  with Suc.prems assms(1) obtain p where p: "p \<in> set rows" "series p = series r" "version p = version r - 1"
    unfolding version_chain_def by blast
  moreover have "n = nat (version p - k)" "k \<le> version p" using Suc.hyps(2) p(3) by auto
  ultimately show ?case using Suc.hyps(1) [of p] Suc.prems(2) by auto
qed

locale versioned_table =
  fixes series :: "'r \<Rightarrow> 's" and version :: "'r \<Rightarrow> int" and ident :: "'r \<Rightarrow> 'i"
    and supersedes :: "'r \<Rightarrow> 'i option" and next_row :: "'r option \<Rightarrow> 'd \<Rightarrow> 'r" and series_of :: "'d \<Rightarrow> 's"
  assumes next_series: "series (next_row l d) = series_of d"
    and next_version: "version (next_row l d) = (case l of None \<Rightarrow> 1 | Some r \<Rightarrow> version r + 1)"
    and next_supersedes: "supersedes (next_row (Some r) d) = Some (ident r)"
begin

abbreviation chain :: "'r list \<Rightarrow> bool" where
  "chain \<equiv> version_chain series version ident supersedes"

abbreviation next_of :: "'r list \<Rightarrow> 'd \<Rightarrow> 'r" where
  "next_of rows d \<equiv> next_row (latest_in series version rows (series_of d)) d"

lemma next_fresh: "r \<in> set rows \<Longrightarrow> series r = series_of d \<Longrightarrow> version r < version (next_of rows d)"
  using latest_in_Some [of series version rows "series_of d"] latest_in_None [of series version rows "series_of d"]
  by (auto simp: next_version split: option.splits)

lemma next_positive: "chain rows \<Longrightarrow> 1 \<le> version (next_of rows d)"
  using latest_in_Some [of series version rows "series_of d"]
  by (auto simp: next_version version_chain_def split: option.splits) force

lemma next_link:
  assumes "version (next_of rows d) \<noteq> 1"
  shows "\<exists>p \<in> set rows. series p = series_of d \<and> version p = version (next_of rows d) - 1 \<and>
     supersedes (next_of rows d) = Some (ident p)"
proof (cases "latest_in series version rows (series_of d)")
  case None
  with assms show ?thesis by (simp add: next_version)
next
  case (Some l)
  with latest_in_Some [OF this] show ?thesis by (auto simp: next_version next_supersedes)
qed

lemma chain_append:
  assumes "chain rows"
  shows "chain (rows @ [next_of rows d])"
proof -
  have "(series_of d, version (next_of rows d)) \<notin> (\<lambda>r. (series r, version r)) ` set rows"
    using next_fresh [of _ rows d] by force
  with assms have "unique_on (\<lambda>r. (series r, version r)) (rows @ [next_of rows d])"
    by (auto simp: version_chain_def unique_on_def next_series)
  moreover have "\<exists>p \<in> set (rows @ [next_of rows d]). series p = series r \<and> version p = version r - 1 \<and>
      supersedes r = Some (ident p)"
    if "r \<in> set (rows @ [next_of rows d])" "version r \<noteq> 1" for r
    using that assms next_link [of rows d] by (auto simp: version_chain_def next_series)
  moreover have "1 \<le> version r" if "r \<in> set (rows @ [next_of rows d])" for r
    using that assms next_positive [OF assms, of d] by (auto simp: version_chain_def)
  ultimately show ?thesis unfolding version_chain_def by blast
qed

text \<open>The appended row becomes the latest of its series and leaves the others.\<close>

lemma latest_append:
  "latest_in series version (rows @ [next_of rows d]) s
     = (if s = series_of d then Some (next_of rows d) else latest_in series version rows s)"
proof (cases "s = series_of d")
  case True
  have ne: "in_series series s (rows @ [next_of rows d]) \<noteq> []"
    using True by (simp add: in_series_def next_series)
  from newest_ex [OF this, of version] obtain l
    where l: "latest_in series version (rows @ [next_of rows d]) s = Some l" by (auto simp: latest_in_def)
  from latest_in_Some [OF l] have "l = next_of rows d"
    using next_fresh [of l rows d] True by (auto simp: next_series)
  with l True show ?thesis by simp
next
  case False
  then show ?thesis by (simp add: latest_in_def in_series_def next_series)
qed

end

end
