(* ===== verification/Run_Store.thy ===== *)
theory Run_Store
  imports Ingestion Lifecycle Vulnerability_Fields Version_Chain
begin

text \<open>
  The tables of \<^verbatim>\<open>db/models.py\<close> that a collection run writes, and the operations of
  \<^verbatim>\<open>db/repositories.py\<close> on them: runs and their selection, source configurations with
  their history, artifacts, document versions and extraction results, with
  \<^verbatim>\<open>db/run_status.py\<close>.  Every statement checks the constraints of its table (column
  widths, primary and natural keys, foreign keys); a violated constraint is the left value, on
  which the caller's transaction is rolled back.  UUIDv5 inside a namespace, SHA-256, the
  JSON form of a source configuration and the clock are parameters.
\<close>

section \<open>Rows\<close>

definition pg_int :: "int \<Rightarrow> bool" where
  "pg_int n = (- (2 ^ 31) \<le> n \<and> n < 2 ^ 31)"

record run_row =
  ir_id :: uuid
  ir_run_type :: string
  ir_idempotency_key :: string
  ir_scheduled_for :: "instant option"
  ir_started_at :: "instant option"
  ir_completed_at :: "instant option"
  ir_status :: run_status
  ir_triggering_origin :: string
  ir_application_version :: string
  ir_configuration_hash :: string
  ir_total_sources :: int
  ir_successful_sources :: int
  ir_failed_sources :: int
  ir_new_documents :: int
  ir_new_findings :: int
  ir_error_summary :: "string option"

definition run_fits :: "run_row \<Rightarrow> bool" where
  "run_fits r = (varchar 64 (ir_run_type r) \<and> varchar 255 (ir_idempotency_key r) \<and>
     varchar 128 (ir_triggering_origin r) \<and> varchar 128 (ir_application_version r) \<and>
     varchar 64 (ir_configuration_hash r) \<and> nullable pg_text (ir_error_summary r))"

text \<open>The check constraint of the table: terminal runs are the completed ones.\<close>

definition run_terminal :: "run_row \<Rightarrow> bool" where
  "run_terminal r = ((ir_status r \<in> {RS_COMPLETED, RS_FAILED, RS_SKIPPED}) = (ir_completed_at r \<noteq> None))"

record source_row =
  so_source_id :: string
  so_name :: string
  so_source_type :: source_type
  so_canonical_base_url :: string
  so_category :: source_category
  so_enabled :: bool
  so_reliability :: reliability_classification
  so_polling_interval_seconds :: int
  so_timeout_seconds :: rat
  so_max_response_bytes :: int
  so_tags :: "string list"
  so_configuration_version :: int
  so_last_successful_retrieval :: "instant option"
  so_last_failure :: "instant option"
  so_consecutive_failure_count :: int

definition source_fits :: "source_row \<Rightarrow> bool" where
  "source_fits s = (varchar 128 (so_source_id s) \<and> varchar 200 (so_name s) \<and>
     pg_text (so_canonical_base_url s) \<and> pg_int (so_polling_interval_seconds s) \<and>
     pg_int (so_max_response_bytes s) \<and> list_all pg_text (so_tags s) \<and> pg_int (so_configuration_version s))"

record history_row =
  ch_id :: uuid
  ch_source_id :: string
  ch_configuration_version :: int
  ch_configuration_hash :: string
  ch_configuration :: string
  ch_recorded_at :: instant

record source_run_row =
  sw_ingestion_run_id :: uuid
  sw_result :: source_run_result

definition source_run_fits :: "source_run_row \<Rightarrow> bool" where
  "source_run_fits w = (let r = sw_result w in varchar 128 (sr_source_id r) \<and>
     nullable pg_int (sr_http_status r) \<and> pg_int (sr_item_count r) \<and> pg_int (sr_retry_count r) \<and>
     nullable (varchar 128) (sr_error_classification r) \<and> nullable pg_text (sr_error_detail r))"

definition artifact_fits :: "raw_artifact \<Rightarrow> bool" where
  "artifact_fits a = (varchar 128 (ra_source_id a) \<and> pg_text (ra_retrieval_url a) \<and>
     pg_text (ra_canonical_url a) \<and> nullable (varchar 255) (ra_content_type a) \<and>
     nullable (varchar 64) (ra_encoding a) \<and> nullable (varchar 512) (ra_etag a) \<and>
     nullable (varchar 255) (ra_last_modified a) \<and> varchar 64 (ra_content_hash a) \<and> pg_int (ra_byte_length a))"

record document_row =
  dw_document :: source_document
  dw_identity_key :: string
  dw_document_version :: int

definition document_fits :: "document_row \<Rightarrow> bool" where
  "document_fits w = (let d = dw_document w in varchar 128 (sd_source_id d) \<and>
     nullable (varchar 512) (sd_external_source_id d) \<and> varchar 1024 (dw_identity_key w) \<and>
     pg_text (sd_canonical_url d) \<and> pg_text (sd_title d) \<and> list_all pg_text (sd_authors d) \<and>
     varchar 255 (sd_content_type d) \<and> pg_text (sd_normalized_text d) \<and>
     nullable pg_text (sd_sanitized_summary d) \<and> nullable (varchar 32) (sd_language d) \<and>
     varchar 64 (sd_normalized_content_hash d) \<and> pg_int (dw_document_version w) \<and>
     varchar 128 (sd_parse_version d))"

record indicator_row =
  in_id :: uuid
  in_indicator_type :: indicator_type
  in_normalized_value :: string
  in_safe_display_value :: string
  in_first_seen_at :: "instant option"
  in_last_seen_at :: "instant option"
  in_validation_state :: indicator_validation_state
  in_public_visibility :: bool

record sighting_row =
  sg_id :: uuid
  sg_indicator_id :: uuid
  sg_source_document_id :: uuid
  sg_ingestion_run_id :: uuid
  sg_observed_at :: instant
  sg_start_offset :: nat
  sg_end_offset :: nat
  sg_evidence_text :: string
  sg_context :: string

record claim_row =
  cw_id :: uuid
  cw_source_document_id :: uuid
  cw_subject_entity_id :: uuid
  cw_object_literal :: string
  cw_evidence_text :: string
  cw_start_offset :: nat
  cw_end_offset :: nat
  cw_extraction_origin :: string

text \<open>The JSON column \<^verbatim>\<open>evidence_span\<close>: empty, a piece of a document, a reference to evidence of a
  report, or the index of a rendered artifact.  In \<^verbatim>\<open>supporting_urls\<close> an SQL null (\<open>None\<close>) differs
  from a JSON null (\<open>Some None\<close>), which is what SQLAlchemy writes for an explicit \<^verbatim>\<open>None\<close>.\<close>

datatype evidence_span = No_Span | Text_Span nat nat string | Evidence_Ref uuid | Artifact_Index nat

record entity_evidence_row =
  ee_id :: uuid
  ee_entity_type :: string
  ee_entity_id :: uuid
  ee_source_document_id :: "uuid option"
  ee_raw_artifact_id :: "uuid option"
  ee_evidence_claim_id :: "uuid option"
  ee_provider_result_id :: "uuid option"
  ee_evidence_span :: evidence_span
  ee_first_seen_at :: "instant option"
  ee_last_seen_at :: "instant option"
  ee_confidence :: rat
  ee_origin_type :: string
  ee_supporting_urls :: "string list option option"
  ee_content_hash :: "string option"

record evidence_db =
  db_runs :: "run_row list"
  db_sources :: "source_row list"
  db_history :: "history_row list"
  db_source_runs :: "source_run_row list"
  db_artifacts :: "raw_artifact list"
  db_documents :: "document_row list"
  db_indicators :: "indicator_row list"
  db_sightings :: "sighting_row list"
  db_vulnerabilities :: "vulnerability_row list"
  db_claims :: "claim_row list"
  db_evidence :: "entity_evidence_row list"

record store_env =
  se_uuid5 :: "uuid \<Rightarrow> string \<Rightarrow> uuid"
  se_sha256 :: "string \<Rightarrow> string"
  se_config_json :: "source_config \<Rightarrow> string"
  se_now :: instant
  se_version :: string

section \<open>Inserting rows\<close>

text \<open>\<^verbatim>\<open>INSERT \<dots> ON CONFLICT (key) DO NOTHING\<close>, with the primary key and the foreign
  keys of the table.\<close>

definition insert_checked :: "('r \<Rightarrow> 'i) \<Rightarrow> ('r \<Rightarrow> 'k) \<Rightarrow> ('r \<Rightarrow> bool) \<Rightarrow> ('r \<Rightarrow> bool) \<Rightarrow> 'r \<Rightarrow> 'r list
    \<Rightarrow> store_error + 'r list" where
  "insert_checked ident key fits refs new rows =
     (if \<not> fits new then Inl DataError
      else if has_row key (key new) rows then Inr rows
      else if has_row ident (ident new) rows \<or> \<not> refs new then Inl IntegrityError
      else Inr (rows @ [new]))"

lemma insert_checked_Inr:
  "insert_checked ident key fits refs new rows = Inr rows' \<longleftrightarrow> fits new \<and>
     (has_row key (key new) rows \<and> rows' = rows \<or>
      \<not> has_row key (key new) rows \<and> \<not> has_row ident (ident new) rows \<and> refs new \<and> rows' = rows @ [new])"
  by (auto simp: insert_checked_def)

lemma insert_checked_unique:
  "insert_checked ident key fits refs new rows = Inr rows' \<Longrightarrow> unique_on key rows \<Longrightarrow> unique_on ident rows \<Longrightarrow>
     unique_on key rows' \<and> unique_on ident rows'"
  by (auto simp: insert_checked_Inr unique_on_def has_row_iff)

lemma insert_checked_rows:
  "insert_checked ident key fits refs new rows = Inr rows' \<Longrightarrow> set rows \<subseteq> set rows' \<and>
     (\<forall>r \<in> set rows'. r \<in> set rows \<or> r = new \<and> fits new \<and> refs new) \<and> has_row key (key new) rows'"
  by (auto simp: insert_checked_Inr has_row_iff)

text \<open>Inserting an equal row again changes nothing.\<close>

lemma insert_checked_again:
  "has_row key (key new) rows \<Longrightarrow> fits new \<Longrightarrow> insert_checked ident key fits refs new rows = Inr rows"
  by (simp add: insert_checked_def)

section \<open>Runs\<close>

definition attempt_timestamp :: "run_row \<Rightarrow> instant option" where
  "attempt_timestamp r = (case ir_completed_at r of Some t \<Rightarrow> Some t
     | None \<Rightarrow> (case ir_started_at r of Some t \<Rightarrow> Some t | None \<Rightarrow> ir_scheduled_for r))"

text \<open>\<^verbatim>\<open>NULLS LAST\<close> in descending order: a missing time is the smallest.\<close>

definition nulls_low :: "instant option \<Rightarrow> bool \<times> instant" where
  "nulls_low t = (case t of None \<Rightarrow> (False, 0) | Some x \<Rightarrow> (True, x))"

definition latest_attempt :: "run_row list \<Rightarrow> run_row option" where
  "latest_attempt runs = newest (\<lambda>r. (nulls_low (attempt_timestamp r), ir_id r)) runs"

definition full_success :: "run_row \<Rightarrow> bool" where
  "full_success r = (ir_status r = RS_COMPLETED \<and> ir_completed_at r \<noteq> None \<and> 0 < ir_total_sources r \<and>
     ir_failed_sources r = 0 \<and> ir_successful_sources r = ir_total_sources r)"

definition latest_full_success :: "run_row list \<Rightarrow> run_row option" where
  "latest_full_success runs = newest (\<lambda>r. (nulls_low (ir_completed_at r), ir_id r)) (filter full_success runs)"

definition usable_run :: "run_row \<Rightarrow> bool" where
  "usable_run r = (ir_status r \<in> {RS_COMPLETED, RS_FAILED} \<and> ir_completed_at r \<noteq> None \<and>
     0 < ir_successful_sources r)"

definition latest_usable :: "run_row list \<Rightarrow> run_row option" where
  "latest_usable runs = newest (\<lambda>r. (nulls_low (ir_completed_at r), ir_id r)) (filter usable_run runs)"

definition stale_runs :: "run_row list \<Rightarrow> instant \<Rightarrow> run_row list" where
  "stale_runs runs cutoff = sort_key (\<lambda>r. (ir_started_at r = None,
       case ir_started_at r of None \<Rightarrow> 0 | Some t \<Rightarrow> t, ir_id r))
     (filter (\<lambda>r. ir_status r \<in> {RS_SCHEDULED, RS_RUNNING} \<and>
        (case ir_started_at r of None \<Rightarrow> False | Some t \<Rightarrow> t < cutoff)) runs)"

definition stale_run_cutoff :: "run_row list \<Rightarrow> instant \<Rightarrow> int \<Rightarrow> run_row list" where
  "stale_run_cutoff runs now max_age = stale_runs runs (now - max_age)"

record run_health =
  rh_kind :: string
  rh_run_id :: "uuid option"
  rh_status :: "run_status option"
  rh_scheduled_for :: "instant option"
  rh_started_at :: "instant option"
  rh_completed_at :: "instant option"
  rh_total_sources :: int
  rh_successful_sources :: int
  rh_failed_sources :: int
  rh_error_summary :: "string option"
  rh_limitations :: "string list"

definition run_limitations :: "run_row \<Rightarrow> string list" where
  "run_limitations r =
     (if ir_failed_sources r \<noteq> 0 then [int_str (ir_failed_sources r) @ '' source(s) failed''] else []) @
     (if ir_total_sources r \<noteq> 0 \<and> ir_successful_sources r < ir_total_sources r
      then [''source coverage is partial''] else [])"

definition summarize_run :: "run_row option \<Rightarrow> string \<Rightarrow> run_health" where
  "summarize_run run kind = (case run of
       None \<Rightarrow> \<lparr>rh_kind = kind, rh_run_id = None, rh_status = None, rh_scheduled_for = None,
         rh_started_at = None, rh_completed_at = None, rh_total_sources = 0, rh_successful_sources = 0,
         rh_failed_sources = 0, rh_error_summary = None, rh_limitations = []\<rparr>
     | Some r \<Rightarrow> \<lparr>rh_kind = kind, rh_run_id = Some (ir_id r), rh_status = Some (ir_status r),
         rh_scheduled_for = ir_scheduled_for r, rh_started_at = ir_started_at r,
         rh_completed_at = ir_completed_at r, rh_total_sources = ir_total_sources r,
         rh_successful_sources = ir_successful_sources r, rh_failed_sources = ir_failed_sources r,
         rh_error_summary = map_option strip (ir_error_summary r), rh_limitations = run_limitations r\<rparr>)"

definition health_snapshot :: "run_row list \<Rightarrow> run_health list" where
  "health_snapshot runs = [summarize_run (latest_attempt runs) ''latest_attempt'',
     summarize_run (latest_full_success runs) ''latest_full_success'',
     summarize_run (latest_usable runs) ''latest_usable'']"

definition failed_source_ids :: "evidence_db \<Rightarrow> uuid \<Rightarrow> string list" where
  "failed_source_ids db run_id = sort (map (sr_source_id \<circ> sw_result)
     (filter (\<lambda>w. sw_ingestion_run_id w = run_id \<and> sr_status (sw_result w) = RS_FAILED) (db_source_runs db)))"

text \<open>The join has one row per claim, not per vulnerability.\<close>

definition vulnerability_ids_for_run :: "evidence_db \<Rightarrow> uuid \<Rightarrow> (uuid \<times> string) list" where
  "vulnerability_ids_for_run db run_id = map (\<lambda>(c, i). (i, c)) (sort
     [(vr_cve_id v, vr_id v). v \<leftarrow> db_vulnerabilities db, c \<leftarrow> db_claims db, cw_subject_entity_id c = vr_id v,
        w \<leftarrow> db_documents db, sd_source_document_id (dw_document w) = cw_source_document_id c,
        a \<leftarrow> db_artifacts db, ra_raw_artifact_id a = sd_raw_artifact_id (dw_document w),
        ra_ingestion_run_id a = run_id])"

section \<open>Sources and their configuration history\<close>

definition oid_namespace :: uuid where
  "oid_namespace = ''6ba7b812-9dad-11d1-80b4-00c04fd430c8''"

definition source_of :: "source_config \<Rightarrow> int \<Rightarrow> source_row" where
  "source_of c version = \<lparr>so_source_id = cf_source_id c, so_name = cf_name c,
     so_source_type = cf_source_type c, so_canonical_base_url = cf_url c, so_category = cf_category c,
     so_enabled = cf_enabled c, so_reliability = cf_reliability c,
     so_polling_interval_seconds = cf_polling_interval_seconds c, so_timeout_seconds = cf_timeout_seconds c,
     so_max_response_bytes = cf_max_response_bytes c, so_tags = cf_tags c, so_configuration_version = version,
     so_last_successful_retrieval = None, so_last_failure = None, so_consecutive_failure_count = 0\<rparr>"

text \<open>The update sets the configuration columns and keeps the freshness columns.\<close>

definition update_source :: "source_row \<Rightarrow> source_row \<Rightarrow> source_row" where
  "update_source old new = new\<lparr>so_last_successful_retrieval := so_last_successful_retrieval old,
     so_last_failure := so_last_failure old, so_consecutive_failure_count := so_consecutive_failure_count old\<rparr>"

definition history_key :: "history_row \<Rightarrow> string \<times> string" where
  "history_key h = (ch_source_id h, ch_configuration_hash h)"

definition history_version :: "history_row \<Rightarrow> string \<times> int" where
  "history_version h = (ch_source_id h, ch_configuration_version h)"

definition latest_version :: "history_row list \<Rightarrow> string \<Rightarrow> int" where
  "latest_version hs i = (case map ch_configuration_version (filter (\<lambda>h. ch_source_id h = i) hs) of
     [] \<Rightarrow> 0 | v # vs \<Rightarrow> foldl max v vs)"

definition configuration_hash :: "store_env \<Rightarrow> source_config \<Rightarrow> string" where
  "configuration_hash e c = se_sha256 e (se_config_json e c)"

definition next_version :: "evidence_db \<Rightarrow> string \<Rightarrow> int" where
  "next_version db i = max (case find_row so_source_id i (db_sources db) of
        None \<Rightarrow> 1 | Some s \<Rightarrow> so_configuration_version s + 1) (latest_version (db_history db) i + 1)"

definition history_of :: "store_env \<Rightarrow> source_config \<Rightarrow> int \<Rightarrow> history_row" where
  "history_of e c version = (let h = configuration_hash e c; i = cf_source_id c in
     \<lparr>ch_id = se_uuid5 e oid_namespace (''source-config:'' @ i @ '':'' @ h), ch_source_id = i,
      ch_configuration_version = version, ch_configuration_hash = h,
      ch_configuration = se_config_json e c, ch_recorded_at = se_now e\<rparr>)"

definition upsert_source :: "store_env \<Rightarrow> evidence_db \<Rightarrow> source_config \<Rightarrow> store_error + evidence_db" where
  "upsert_source e db c =
     (let i = cf_source_id c;
          history = find_row history_key (i, configuration_hash e c) (db_history db);
          version = (case history of Some h \<Rightarrow> ch_configuration_version h | None \<Rightarrow> next_version db i);
          row = source_of c version;
          sources = upsert so_source_id update_source row (db_sources db)
      in rbind (guard (source_fits row) DataError) (\<lambda>_.
         case history of
           Some _ \<Rightarrow> Inr (db\<lparr>db_sources := sources\<rparr>)
         | None \<Rightarrow>
             if has_row history_version (i, version) (db_history db) then Inl IntegrityError
             else rbind (insert_checked ch_id history_key (\<lambda>_. True) (\<lambda>_. True) (history_of e c version)
                 (db_history db)) (\<lambda>hs. Inr (db\<lparr>db_sources := sources, db_history := hs\<rparr>))))"

definition freshen :: "source_run_result \<Rightarrow> source_row \<Rightarrow> source_row" where
  "freshen r s = (if sr_status r = RS_COMPLETED \<and> sr_completed_at r \<noteq> None
     then s\<lparr>so_last_successful_retrieval := sr_completed_at r, so_consecutive_failure_count := 0\<rparr>
     else if sr_status r = RS_FAILED \<and> sr_completed_at r \<noteq> None
     then s\<lparr>so_last_failure := sr_completed_at r,
            so_consecutive_failure_count := so_consecutive_failure_count s + 1\<rparr>
     else s)"

definition update_source_freshness :: "source_run_result \<Rightarrow> evidence_db \<Rightarrow> store_error + evidence_db" where
  "update_source_freshness r db =
     (if \<not> has_row so_source_id (sr_source_id r) (db_sources db)
      then Inl (NotPersisted (''source '' @ sr_source_id r @ '' was not upserted''))
      else Inr (db\<lparr>db_sources := map (\<lambda>s. if so_source_id s = sr_source_id r then freshen r s else s) (db_sources db)\<rparr>))"

section \<open>Collections\<close>

definition create_or_get_run :: "store_env \<Rightarrow> evidence_db \<Rightarrow> run_manifest \<Rightarrow> store_error + evidence_db \<times> run_row" where
  "create_or_get_run e db m =
     (case find_row ir_idempotency_key (rm_idempotency_key m) (db_runs db) of
        Some r \<Rightarrow> Inr (db, r)
      | None \<Rightarrow> (let r = \<lparr>ir_id = rm_ingestion_run_id m, ir_run_type = rm_run_type m,
            ir_idempotency_key = rm_idempotency_key m, ir_scheduled_for = rm_scheduled_for m,
            ir_started_at = rm_started_at m, ir_completed_at = None, ir_status = RS_RUNNING,
            ir_triggering_origin = rm_triggering_origin m,
            ir_application_version = or_else (rm_application_version m) (se_version e),
            ir_configuration_hash = rm_configuration_hash m, ir_total_sources = rm_total_sources m,
            ir_successful_sources = 0, ir_failed_sources = 0, ir_new_documents = 0, ir_new_findings = 0,
            ir_error_summary = None\<rparr>
          in rbind (insert_checked ir_id ir_idempotency_key run_fits (\<lambda>_. True) r (db_runs db)) (\<lambda>rows.
            Inr (db\<lparr>db_runs := rows\<rparr>, r))))"

definition source_run_key :: "source_run_row \<Rightarrow> uuid \<times> string" where
  "source_run_key w = (sw_ingestion_run_id w, sr_source_id (sw_result w))"

definition merge_source_run :: "uuid \<Rightarrow> evidence_db \<Rightarrow> source_run_result \<Rightarrow> store_error + evidence_db" where
  "merge_source_run run_id db r =
     (let w = \<lparr>sw_ingestion_run_id = run_id, sw_result = r\<rparr> in
      rbind (guard (source_run_fits w) DataError) (\<lambda>_.
      rbind (guard (has_row ir_id run_id (db_runs db) \<and> has_row so_source_id (sr_source_id r) (db_sources db))
          IntegrityError) (\<lambda>_.
        update_source_freshness r
          (db\<lparr>db_source_runs := upsert source_run_key (\<lambda>old new. new) w (db_source_runs db)\<rparr>))))"

definition artifact_key :: "raw_artifact \<Rightarrow> string \<times> string \<times> string" where
  "artifact_key a = (ra_source_id a, ra_canonical_url a, ra_content_hash a)"

definition persist_raw_artifact :: "evidence_db \<Rightarrow> raw_artifact \<Rightarrow> store_error + evidence_db" where
  "persist_raw_artifact db a =
     rbind (insert_checked ra_raw_artifact_id artifact_key artifact_fits
         (\<lambda>a. has_row so_source_id (ra_source_id a) (db_sources db) \<and> has_row ir_id (ra_ingestion_run_id a) (db_runs db))
         a (db_artifacts db)) (\<lambda>rows. Inr (db\<lparr>db_artifacts := rows\<rparr>))"

definition identity_key_of :: "source_document \<Rightarrow> string" where
  "identity_key_of d = or_else (case sd_external_source_id d of None \<Rightarrow> [] | Some i \<Rightarrow> i) (sd_canonical_url d)"

definition document_series :: "document_row \<Rightarrow> string \<times> string" where
  "document_series w = (sd_source_id (dw_document w), dw_identity_key w)"

definition document_key :: "document_row \<Rightarrow> (string \<times> string) \<times> string" where
  "document_key w = (document_series w, sd_normalized_content_hash (dw_document w))"

definition document_id :: "document_row \<Rightarrow> uuid" where
  "document_id w = sd_source_document_id (dw_document w)"

definition latest_document :: "document_row list \<Rightarrow> string \<times> string \<Rightarrow> document_row option" where
  "latest_document rows series = latest_in document_series dw_document_version rows series"

definition new_document_row :: "document_row option \<Rightarrow> source_document \<Rightarrow> document_row" where
  "new_document_row latest d =
     \<lparr>dw_document = d\<lparr>sd_supersedes_id := (case latest of None \<Rightarrow> sd_supersedes_id d | Some l \<Rightarrow> Some (document_id l))\<rparr>,
      dw_identity_key = identity_key_of d,
      dw_document_version = (case latest of None \<Rightarrow> 1 | Some l \<Rightarrow> dw_document_version l + 1)\<rparr>"

definition document_refs :: "evidence_db \<Rightarrow> document_row \<Rightarrow> bool" where
  "document_refs db w = (has_row so_source_id (sd_source_id (dw_document w)) (db_sources db) \<and>
     has_row ra_raw_artifact_id (sd_raw_artifact_id (dw_document w)) (db_artifacts db) \<and>
     nullable (\<lambda>i. has_row document_id i (db_documents db)) (sd_supersedes_id (dw_document w)))"

definition persist_source_document :: "evidence_db \<Rightarrow> source_document
    \<Rightarrow> store_error + evidence_db \<times> document_row" where
  "persist_source_document db d =
     (let series = (sd_source_id d, identity_key_of d) in
      case find_row document_key (series, sd_normalized_content_hash d) (db_documents db) of
        Some w \<Rightarrow> Inr (db, w)
      | None \<Rightarrow>
          (let w = new_document_row (latest_document (db_documents db) series) d in
           if \<not> document_fits w then Inl DataError
           else if has_row document_id (document_id w) (db_documents db) \<or> \<not> document_refs db w
           then Inl IntegrityError
           else Inr (db\<lparr>db_documents := db_documents db @ [w]\<rparr>, w)))"

fun persist_documents :: "evidence_db \<Rightarrow> source_document list \<Rightarrow> store_error + evidence_db \<times> document_row list" where
  "persist_documents db [] = Inr (db, [])"
| "persist_documents db (d # ds) = rbind (persist_source_document db d) (\<lambda>(db1, w).
     rbind (persist_documents db1 ds) (\<lambda>(db2, ws). Inr (db2, w # ws)))"

definition finish_run :: "run_manifest \<Rightarrow> run_row \<Rightarrow> run_row" where
  "finish_run m r = r\<lparr>ir_status := rm_status m, ir_started_at := rm_started_at m,
     ir_completed_at := rm_completed_at m, ir_successful_sources := rm_successful_sources m,
     ir_failed_sources := rm_failed_sources m, ir_new_documents := rm_new_documents m,
     ir_error_summary := rm_error_summary m\<rparr>"

definition set_run :: "run_row \<Rightarrow> evidence_db \<Rightarrow> evidence_db" where
  "set_run r db = db\<lparr>db_runs := map (\<lambda>x. if ir_id x = ir_id r then r else x) (db_runs db)\<rparr>"

definition already_persisted :: "run_row \<Rightarrow> bool" where
  "already_persisted r = (ir_status r = RS_COMPLETED \<and> ir_completed_at r \<noteq> None \<and> 0 < ir_new_findings r)"

definition persist_collection_with_documents :: "store_env \<Rightarrow> evidence_db \<Rightarrow> source_config list
    \<Rightarrow> collection_result \<Rightarrow> store_error + evidence_db \<times> run_row \<times> document_row list" where
  "persist_collection_with_documents e db sources c =
     (let m = cl_manifest c in
      rbind (create_or_get_run e db m) (\<lambda>(db0, r).
      if already_persisted r then Inr (db0, r, [])
      else rbind (fold_result (upsert_source e) db0 sources) (\<lambda>db1.
           rbind (fold_result (merge_source_run (ir_id r)) db1 (rm_source_results m)) (\<lambda>db2.
           rbind (fold_result persist_raw_artifact db2 (cl_raw_artifacts c)) (\<lambda>db3.
           rbind (persist_documents db3 (cl_source_documents c)) (\<lambda>(db4, ws).
             (let r' = finish_run m r in
              rbind (guard (run_fits r' \<and> run_terminal r') IntegrityError) (\<lambda>_.
                Inr (set_run r' db4, r', ws)))))))))"

definition persist_collection :: "store_env \<Rightarrow> evidence_db \<Rightarrow> source_config list \<Rightarrow> collection_result
    \<Rightarrow> store_error + evidence_db \<times> run_row" where
  "persist_collection e db sources c =
     rbind (persist_collection_with_documents e db sources c) (\<lambda>(db', r, ws). Inr (db', r))"

section \<open>Extraction results\<close>

definition indicator_namespace :: uuid where
  "indicator_namespace = ''6ba7b810-9dad-11d1-80b4-00c04fd430c8''"

definition vulnerability_namespace :: uuid where
  "vulnerability_namespace = ''6ba7b811-9dad-11d1-80b4-00c04fd430c8''"

definition indicator_evidence_namespace :: uuid where
  "indicator_evidence_namespace = ''6ba7b814-9dad-11d1-80b4-00c04fd430c8''"

definition vulnerability_evidence_namespace :: uuid where
  "vulnerability_evidence_namespace = ''6ba7b815-9dad-11d1-80b4-00c04fd430c8''"

definition indicator_key :: "indicator_row \<Rightarrow> indicator_type \<times> string" where
  "indicator_key r = (in_indicator_type r, in_normalized_value r)"

definition see_again :: "indicator_row \<Rightarrow> indicator_row \<Rightarrow> indicator_row" where
  "see_again old new = old\<lparr>in_last_seen_at := in_last_seen_at new\<rparr>"

definition sighting_key :: "sighting_row \<Rightarrow> uuid \<times> uuid \<times> nat \<times> nat" where
  "sighting_key g = (sg_indicator_id g, sg_source_document_id g, sg_start_offset g, sg_end_offset g)"

definition indicator_id_of :: "store_env \<Rightarrow> indicator_observation \<Rightarrow> uuid" where
  "indicator_id_of e ob = se_uuid5 e indicator_namespace
     (''indicator:'' @ indicator_type_value (io_indicator_type ob) @ '':'' @ io_normalized_value ob)"

definition indicator_of :: "store_env \<Rightarrow> indicator_observation \<Rightarrow> instant \<Rightarrow> indicator_row" where
  "indicator_of e ob observed = \<lparr>in_id = indicator_id_of e ob, in_indicator_type = io_indicator_type ob,
     in_normalized_value = io_normalized_value ob, in_safe_display_value = io_normalized_value ob,
     in_first_seen_at = Some observed, in_last_seen_at = Some observed,
     in_validation_state = io_validation_state ob, in_public_visibility = False\<rparr>"

definition sighting_of :: "store_env \<Rightarrow> indicator_observation \<Rightarrow> uuid \<Rightarrow> instant \<Rightarrow> sighting_row" where
  "sighting_of e ob run_id observed = \<lparr>sg_id = io_observation_id ob, sg_indicator_id = indicator_id_of e ob,
     sg_source_document_id = io_source_document_id ob, sg_ingestion_run_id = run_id,
     sg_observed_at = observed, sg_start_offset = io_start_offset ob, sg_end_offset = io_end_offset ob,
     sg_evidence_text = io_original_display_value ob, sg_context = io_context ob\<rparr>"

definition evidence_of_indicator :: "store_env \<Rightarrow> indicator_observation \<Rightarrow> instant \<Rightarrow> entity_evidence_row" where
  "evidence_of_indicator e ob observed =
     \<lparr>ee_id = se_uuid5 e indicator_evidence_namespace (''indicator-evidence:'' @ io_observation_id ob),
      ee_entity_type = ''indicator'', ee_entity_id = indicator_id_of e ob,
      ee_source_document_id = Some (io_source_document_id ob), ee_raw_artifact_id = None, ee_evidence_claim_id = None,
      ee_provider_result_id = None,
      ee_evidence_span = Text_Span (io_start_offset ob) (io_end_offset ob) (io_original_display_value ob),
      ee_first_seen_at = Some observed, ee_last_seen_at = Some observed, ee_confidence = 1,
      ee_origin_type = ''deterministic_extraction'', ee_supporting_urls = None, ee_content_hash = None\<rparr>"

definition indicator_fits :: "indicator_row \<Rightarrow> bool" where
  "indicator_fits r = pg_text (in_normalized_value r)"

definition sighting_fits :: "sighting_row \<Rightarrow> bool" where
  "sighting_fits g = (pg_text (sg_evidence_text g) \<and> pg_text (sg_context g) \<and>
     pg_int (int (sg_start_offset g)) \<and> pg_int (int (sg_end_offset g)))"

text \<open>The check constraint on the offsets, with the foreign keys.\<close>

definition sighting_refs :: "evidence_db \<Rightarrow> sighting_row \<Rightarrow> bool" where
  "sighting_refs db g = (sg_start_offset g \<le> sg_end_offset g \<and> has_row in_id (sg_indicator_id g) (db_indicators db) \<and>
     has_row document_id (sg_source_document_id g) (db_documents db) \<and>
     has_row ir_id (sg_ingestion_run_id g) (db_runs db))"

fun span_fits :: "evidence_span \<Rightarrow> bool" where
  "span_fits (Text_Span a b t) = pg_text t"
| "span_fits _ = True"

definition evidence_fits :: "entity_evidence_row \<Rightarrow> bool" where
  "evidence_fits w = (span_fits (ee_evidence_span w) \<and> varchar 64 (ee_entity_type w) \<and> varchar 64 (ee_origin_type w) \<and>
     nullable (nullable (list_all pg_text)) (ee_supporting_urls w) \<and> nullable (varchar 64) (ee_content_hash w))"

definition evidence_refs :: "evidence_db \<Rightarrow> uuid list \<Rightarrow> entity_evidence_row \<Rightarrow> bool" where
  "evidence_refs db result_ids w = (nullable (\<lambda>i. has_row document_id i (db_documents db)) (ee_source_document_id w) \<and>
     nullable (\<lambda>i. has_row ra_raw_artifact_id i (db_artifacts db)) (ee_raw_artifact_id w) \<and>
     nullable (\<lambda>i. has_row cw_id i (db_claims db)) (ee_evidence_claim_id w) \<and>
     nullable (\<lambda>i. i \<in> set result_ids) (ee_provider_result_id w) \<and>
     (ee_source_document_id w \<noteq> None \<or> ee_raw_artifact_id w \<noteq> None \<or> ee_evidence_claim_id w \<noteq> None
        \<or> ee_supporting_urls w \<noteq> None \<or> ee_provider_result_id w \<noteq> None \<or> ee_content_hash w \<noteq> None) \<and> 0 \<le> ee_confidence w \<and> ee_confidence w \<le> 1)"

definition insert_entity_evidence :: "uuid list \<Rightarrow> entity_evidence_row \<Rightarrow> evidence_db \<Rightarrow> store_error + evidence_db" where
  "insert_entity_evidence result_ids w db =
     rbind (insert_checked ee_id ee_id evidence_fits (evidence_refs db result_ids) w (db_evidence db)) (\<lambda>rows.
       Inr (db\<lparr>db_evidence := rows\<rparr>))"

definition persist_observation :: "store_env \<Rightarrow> uuid \<Rightarrow> instant \<Rightarrow> evidence_db \<Rightarrow> indicator_observation
    \<Rightarrow> store_error + evidence_db" where
  "persist_observation e run_id observed db ob =
     (let r = indicator_of e ob observed; g = sighting_of e ob run_id observed in
      rbind (guard (indicator_fits r) DataError) (\<lambda>_.
      rbind (upsert_checked in_id indicator_key see_again r (db_indicators db)) (\<lambda>inds.
      let db1 = db\<lparr>db_indicators := inds\<rparr> in
      rbind (insert_checked sg_id sighting_key sighting_fits (sighting_refs db1) g (db_sightings db1)) (\<lambda>gs.
        insert_entity_evidence [] (evidence_of_indicator e ob observed) (db1\<lparr>db_sightings := gs\<rparr>)))))"

definition vulnerability_id_of :: "store_env \<Rightarrow> string \<Rightarrow> uuid" where
  "vulnerability_id_of e cve = se_uuid5 e vulnerability_namespace (''vulnerability:'' @ cve)"

definition vulnerability_of :: "store_env \<Rightarrow> string \<Rightarrow> vulnerability_row" where
  "vulnerability_of e cve = \<lparr>vr_id = vulnerability_id_of e cve, vr_cve_id = cve,
     vr_fields = [(''cwe_ids'', FTexts []), (''exploitation_state'', FText ''unknown'')]\<rparr>"

definition claim_of :: "store_env \<Rightarrow> cve_candidate \<Rightarrow> claim_row" where
  "claim_of e c = \<lparr>cw_id = cc_candidate_id c, cw_source_document_id = cc_source_document_id c,
     cw_subject_entity_id = vulnerability_id_of e (cc_normalized_value c),
     cw_object_literal = cc_normalized_value c, cw_evidence_text = cc_original_display_value c,
     cw_start_offset = cc_start_offset c, cw_end_offset = cc_end_offset c,
     cw_extraction_origin = cc_extraction_rule c\<rparr>"

definition evidence_of_vulnerability :: "store_env \<Rightarrow> cve_candidate \<Rightarrow> instant \<Rightarrow> entity_evidence_row" where
  "evidence_of_vulnerability e c observed =
     \<lparr>ee_id = se_uuid5 e vulnerability_evidence_namespace (''vulnerability-evidence:'' @ cc_candidate_id c),
      ee_entity_type = ''vulnerability'', ee_entity_id = vulnerability_id_of e (cc_normalized_value c),
      ee_source_document_id = Some (cc_source_document_id c), ee_raw_artifact_id = None, ee_evidence_claim_id = Some (cc_candidate_id c),
      ee_provider_result_id = None,
      ee_evidence_span = Text_Span (cc_start_offset c) (cc_end_offset c) (cc_original_display_value c),
      ee_first_seen_at = Some observed, ee_last_seen_at = Some observed, ee_confidence = 1,
      ee_origin_type = ''deterministic_extraction'', ee_supporting_urls = None, ee_content_hash = None\<rparr>"

definition claim_fits :: "claim_row \<Rightarrow> bool" where
  "claim_fits w = (pg_text (cw_object_literal w) \<and> pg_text (cw_evidence_text w) \<and>
     varchar 64 (cw_extraction_origin w) \<and> pg_int (int (cw_start_offset w)) \<and> pg_int (int (cw_end_offset w)))"

definition claim_refs :: "evidence_db \<Rightarrow> claim_row \<Rightarrow> bool" where
  "claim_refs db w = (cw_start_offset w \<le> cw_end_offset w \<and>
     has_row document_id (cw_source_document_id w) (db_documents db))"

definition persist_cve :: "store_env \<Rightarrow> instant \<Rightarrow> evidence_db \<Rightarrow> cve_candidate \<Rightarrow> store_error + evidence_db" where
  "persist_cve e observed db c =
     rbind (insert_checked vr_id vr_cve_id (\<lambda>v. varchar 32 (vr_cve_id v)) (\<lambda>_. True)
         (vulnerability_of e (cc_normalized_value c)) (db_vulnerabilities db)) (\<lambda>vs.
     let db1 = db\<lparr>db_vulnerabilities := vs\<rparr> in
     rbind (insert_checked cw_id cw_id claim_fits (claim_refs db1) (claim_of e c) (db_claims db1)) (\<lambda>cs.
       insert_entity_evidence [] (evidence_of_vulnerability e c observed) (db1\<lparr>db_claims := cs\<rparr>)))"

definition persist_extraction :: "store_env \<Rightarrow> evidence_db \<Rightarrow> extraction_result \<Rightarrow> uuid \<Rightarrow> instant
    \<Rightarrow> store_error + evidence_db \<times> nat" where
  "persist_extraction e db x run_id observed =
     rbind (fold_result (persist_observation e run_id observed) db (xr_observations x)) (\<lambda>db1.
     rbind (fold_result (persist_cve e observed) db1 (xr_cve_candidates x)) (\<lambda>db2.
       Inr (db2, length (xr_observations x) + length (xr_cve_candidates x))))"

end
