(* ===== verification/Run_Store_Facts.thy ===== *)
theory Run_Store_Facts
  imports Run_Store
begin

text \<open>
  What the run store keeps: keys stay unique, foreign keys resolve, document versions form
  chains, every source's current configuration is in its history, and evidence is only ever
  added.
\<close>

section \<open>Invariants of the tables\<close>

definition runs_ok :: "evidence_db \<Rightarrow> bool" where
  "runs_ok db = (unique_on ir_id (db_runs db) \<and> unique_on ir_idempotency_key (db_runs db) \<and>
     list_all run_terminal (db_runs db))"

definition sources_ok :: "evidence_db \<Rightarrow> bool" where
  "sources_ok db = (unique_on so_source_id (db_sources db) \<and> unique_on ch_id (db_history db) \<and>
     unique_on history_key (db_history db) \<and> unique_on history_version (db_history db) \<and>
     list_all (\<lambda>s. has_row history_version (so_source_id s, so_configuration_version s) (db_history db)) (db_sources db) \<and>
     list_all (\<lambda>h. has_row so_source_id (ch_source_id h) (db_sources db)) (db_history db))"

definition source_runs_ok :: "evidence_db \<Rightarrow> bool" where
  "source_runs_ok db = (unique_on source_run_key (db_source_runs db) \<and>
     list_all (\<lambda>w. has_row ir_id (sw_ingestion_run_id w) (db_runs db) \<and>
        has_row so_source_id (sr_source_id (sw_result w)) (db_sources db)) (db_source_runs db))"

definition artifacts_ok :: "evidence_db \<Rightarrow> bool" where
  "artifacts_ok db = (unique_on ra_raw_artifact_id (db_artifacts db) \<and> unique_on artifact_key (db_artifacts db) \<and>
     list_all (\<lambda>a. has_row so_source_id (ra_source_id a) (db_sources db) \<and>
        has_row ir_id (ra_ingestion_run_id a) (db_runs db)) (db_artifacts db))"

abbreviation supersedes_of :: "document_row \<Rightarrow> uuid option" where
  "supersedes_of w \<equiv> sd_supersedes_id (dw_document w)"

definition documents_ok :: "evidence_db \<Rightarrow> bool" where
  "documents_ok db = (unique_on document_id (db_documents db) \<and> unique_on document_key (db_documents db) \<and>
     version_chain document_series dw_document_version document_id supersedes_of (db_documents db) \<and>
     list_all (\<lambda>w. has_row so_source_id (sd_source_id (dw_document w)) (db_sources db) \<and>
        has_row ra_raw_artifact_id (sd_raw_artifact_id (dw_document w)) (db_artifacts db)) (db_documents db))"

definition findings_ok :: "evidence_db \<Rightarrow> bool" where
  "findings_ok db = (unique_on in_id (db_indicators db) \<and> unique_on indicator_key (db_indicators db) \<and>
     unique_on sg_id (db_sightings db) \<and> unique_on sighting_key (db_sightings db) \<and>
     unique_on vr_id (db_vulnerabilities db) \<and> unique_on vr_cve_id (db_vulnerabilities db) \<and>
     unique_on cw_id (db_claims db) \<and> unique_on ee_id (db_evidence db) \<and>
     list_all (sighting_refs db) (db_sightings db) \<and> list_all (claim_refs db) (db_claims db))"

definition evidence_ok :: "evidence_db \<Rightarrow> bool" where
  "evidence_ok db = (runs_ok db \<and> sources_ok db \<and> source_runs_ok db \<and> artifacts_ok db \<and> documents_ok db \<and> findings_ok db)"

text \<open>Evidence is only added: identifiers of runs and sources stay, and no artifact, document,
  configuration, sighting or claim is changed or removed.\<close>

definition grows :: "evidence_db \<Rightarrow> evidence_db \<Rightarrow> bool" where
  "grows db db' = (ir_id ` set (db_runs db) \<subseteq> ir_id ` set (db_runs db') \<and>
     so_source_id ` set (db_sources db) \<subseteq> so_source_id ` set (db_sources db') \<and>
     set (db_history db) \<subseteq> set (db_history db') \<and> set (db_artifacts db) \<subseteq> set (db_artifacts db') \<and>
     set (db_documents db) \<subseteq> set (db_documents db') \<and>
     in_id ` set (db_indicators db) \<subseteq> in_id ` set (db_indicators db') \<and>
     set (db_sightings db) \<subseteq> set (db_sightings db') \<and> set (db_claims db) \<subseteq> set (db_claims db'))"

lemma grows_refl [simp]: "grows db db"
  by (simp add: grows_def)

lemma grows_trans: "grows a b \<Longrightarrow> grows b c \<Longrightarrow> grows a c"
  unfolding grows_def by (intro conjI) (meson subset_trans)+

text \<open>A statement sequence keeps the invariant and only adds.\<close>

lemma fold_result_keeps:
  assumes "fold_result f db xs = Inr db'" "evidence_ok db"
    and "\<And>db x db'. x \<in> set xs \<Longrightarrow> evidence_ok db \<Longrightarrow> f db x = Inr db' \<Longrightarrow> evidence_ok db' \<and> grows db db'"
  shows "evidence_ok db' \<and> grows db db'"
  using assms
proof (induction xs arbitrary: db)
  case (Cons x xs)
  then obtain db1 where 1: "f db x = Inr db1" "fold_result f db1 xs = Inr db'" by (auto simp: rbind_Inr_iff)
  from Cons.prems(2) have s: "evidence_ok db1 \<and> grows db db1" using Cons.prems(3) [of x db db1] 1(1) by simp
  then have "evidence_ok db' \<and> grows db1 db'"
    by (intro Cons.IH [OF 1(2)]) (use Cons.prems(3) in auto)
  with s show ?case by (blast intro: grows_trans)
qed simp

section \<open>Each statement\<close>

lemma has_row_mono: "key ` set rows \<subseteq> key ` set rows' \<Longrightarrow> has_row key k rows \<Longrightarrow> has_row key k rows'"
  by (auto simp: has_row_iff)

lemma has_row_append [simp]: "has_row key k (rows @ [r]) \<longleftrightarrow> has_row key k rows \<or> key r = k"
  by (auto simp: has_row_def)

lemmas table_ok = runs_ok_def sources_ok_def source_runs_ok_def artifacts_ok_def documents_ok_def findings_ok_def

lemma set_runs_ok:
  assumes "evidence_ok db" "unique_on ir_id rows" "unique_on ir_idempotency_key rows" "list_all run_terminal rows"
    and ids: "ir_id ` set (db_runs db) \<subseteq> ir_id ` set rows"
  shows "evidence_ok (db\<lparr>db_runs := rows\<rparr>) \<and> grows db (db\<lparr>db_runs := rows\<rparr>)"
  using assms has_row_mono [OF ids]
  by (auto simp: evidence_ok_def table_ok grows_def list_all_iff sighting_refs_def claim_refs_def)

lemma create_or_get_run_ok:
  assumes "create_or_get_run e db m = Inr (db', r)" "evidence_ok db"
  shows "evidence_ok db' \<and> grows db db' \<and> r \<in> set (db_runs db') \<and> ir_idempotency_key r = rm_idempotency_key m"
proof (cases "find_row ir_idempotency_key (rm_idempotency_key m) (db_runs db)")
  case (Some x)
  with assms show ?thesis by (auto simp: create_or_get_run_def dest: find_row_Some)
next
  case None
  with assms(1) obtain rows where
    i: "insert_checked ir_id ir_idempotency_key run_fits (\<lambda>_. True) r (db_runs db) = Inr rows"
    and db': "db' = db\<lparr>db_runs := rows\<rparr>" and r: "run_terminal r" "ir_idempotency_key r = rm_idempotency_key m"
    by (auto simp: create_or_get_run_def Let_def rbind_Inr_iff run_terminal_def)
  from None have "\<not> has_row ir_idempotency_key (ir_idempotency_key r) (db_runs db)" by (simp add: r find_row_None)
  then have rows: "rows = db_runs db @ [r]" using i by (auto simp: insert_checked_Inr)
  have "evidence_ok db' \<and> grows db db'" unfolding db'
    using assms(2) insert_checked_unique [OF i] r
    by (intro set_runs_ok) (auto simp: evidence_ok_def runs_ok_def rows list_all_iff)
  then show ?thesis by (simp add: db' rows r)
qed

lemma set_run_ok:
  assumes "evidence_ok db" "run_terminal r" "\<exists>x \<in> set (db_runs db). ir_id x = ir_id r \<and>
      ir_idempotency_key x = ir_idempotency_key r"
  shows "evidence_ok (set_run r db) \<and> grows db (set_run r db)"
proof -
  let ?rows = "map (\<lambda>x. if ir_id x = ir_id r then r else x) (db_runs db)"
  have u: "unique_on ir_id (db_runs db)" using assms(1) by (simp add: evidence_ok_def runs_ok_def)
  have k: "ir_idempotency_key x = ir_idempotency_key r" if "x \<in> set (db_runs db)" "ir_id x = ir_id r" for x
    using that assms(3) u by (metis find_row_unique option.inject)
  have m: "map ir_id ?rows = map ir_id (db_runs db)" "map ir_idempotency_key ?rows = map ir_idempotency_key (db_runs db)"
    using k by auto
  have "unique_on ir_id ?rows" "unique_on ir_idempotency_key ?rows"
    using assms(1) unfolding unique_on_def m by (simp_all add: unique_on_def evidence_ok_def runs_ok_def)
  moreover have "list_all run_terminal ?rows"
    using assms(1,2) by (auto simp: evidence_ok_def runs_ok_def list_all_iff)
  moreover have "ir_id ` set (db_runs db) \<subseteq> ir_id ` set ?rows"
    using arg_cong [OF m(1), of set] by (simp only: set_map)
  ultimately show ?thesis using assms(1) unfolding set_run_def by (intro set_runs_ok)
qed

interpretation source_table: keyed_table so_source_id update_source
  by unfold_locales (simp add: update_source_def)

lemma set_sources_ok:
  assumes "evidence_ok db" "so_source_id ` set (db_sources db) \<subseteq> so_source_id ` set rows"
    and "set (db_history db) \<subseteq> set hs" and "sources_ok (db\<lparr>db_sources := rows, db_history := hs\<rparr>)"
  shows "evidence_ok (db\<lparr>db_sources := rows, db_history := hs\<rparr>) \<and> grows db (db\<lparr>db_sources := rows, db_history := hs\<rparr>)"
  using assms has_row_mono [OF assms(2)]
  by (auto simp: evidence_ok_def runs_ok_def source_runs_ok_def artifacts_ok_def documents_ok_def
      findings_ok_def grows_def list_all_iff sighting_refs_def claim_refs_def)

lemma upsert_source_rows:
  assumes "s \<in> set (upsert so_source_id update_source (source_of c v) rows)"
  shows "so_source_id s = cf_source_id c \<and> so_configuration_version s = v \<or> s \<in> set rows \<and> so_source_id s \<noteq> cf_source_id c"
  using assms by (auto simp: upsert_def update_source_def source_of_def has_row_iff image_iff split: if_splits)

lemma upsert_source_ids:
  "so_source_id ` set (upsert so_source_id update_source (source_of c v) rows)
     = insert (cf_source_id c) (so_source_id ` set rows)"
  using arg_cong [OF source_table.upsert_keys, of set "source_of c v" rows]
  by (auto simp: has_row_iff source_of_def)

lemma upsert_source_ok:
  assumes up: "upsert_source e db c = Inr db'" and ok: "evidence_ok db"
  shows "evidence_ok db' \<and> grows db db' \<and> has_row so_source_id (cf_source_id c) (db_sources db')"
proof -
  have so: "sources_ok db" using ok by (simp add: evidence_ok_def)
  define v where "v = (case find_row history_key (cf_source_id c, configuration_hash e c) (db_history db) of
      Some h \<Rightarrow> ch_configuration_version h | None \<Rightarrow> next_version db (cf_source_id c))"
  define rows where "rows = upsert so_source_id update_source (source_of c v) (db_sources db)"
  have ids: "so_source_id ` set rows = insert (cf_source_id c) (so_source_id ` set (db_sources db))"
    by (simp add: rows_def upsert_source_ids)
  obtain hs where db': "db' = db\<lparr>db_sources := rows, db_history := hs\<rparr>"
    and hs: "hs = db_history db \<and> has_row history_key (cf_source_id c, configuration_hash e c) (db_history db) \<or>
       \<not> has_row history_version (cf_source_id c, v) (db_history db) \<and>
       insert_checked ch_id history_key (\<lambda>_. True) (\<lambda>_. True) (history_of e c v) (db_history db) = Inr hs \<and>
       hs = db_history db @ [history_of e c v]"
  proof (cases "find_row history_key (cf_source_id c, configuration_hash e c) (db_history db)")
    case None
    then have n: "\<not> has_row history_key (history_key (history_of e c w)) (db_history db)" for w
      by (simp add: find_row_None history_key_def history_of_def Let_def)
    from up None show ?thesis using n that
      by (auto simp: upsert_source_def Let_def rbind_Inr_iff rows_def v_def insert_checked_Inr split: if_splits)
  next
    case (Some h)
    with up that [of "db_history db"] show ?thesis
      by (auto simp: upsert_source_def Let_def rbind_Inr_iff rows_def v_def has_row_find)
  qed
  have has: "has_row history_version (cf_source_id c, v) hs"
  proof (cases "find_row history_key (cf_source_id c, configuration_hash e c) (db_history db)")
    case None
    with hs show ?thesis by (auto simp: has_row_find history_version_def history_of_def Let_def find_row_append)
  next
    case (Some h)
    then have "history_version h = (cf_source_id c, v)" "h \<in> set (db_history db)"
      using find_row_Some [OF Some] by (auto simp: v_def history_version_def history_key_def)
    then have "(cf_source_id c, v) \<in> history_version ` set (db_history db)" by (metis image_eqI)
    with hs show ?thesis by (auto simp: has_row_iff)
  qed
  have u: "unique_on ch_id hs \<and> unique_on history_key hs \<and> unique_on history_version hs"
    using hs so by (auto simp: sources_ok_def insert_checked_Inr unique_on_def has_row_iff
        history_version_def history_of_def Let_def)
  have "sources_ok db'"
    unfolding sources_ok_def db'
    using u so has ids hs source_table.upsert_unique [of "db_sources db" "source_of c v"]
    by (auto simp: rows_def [symmetric] sources_ok_def list_all_iff has_row_iff history_of_def Let_def
        dest!: upsert_source_rows [of _ c v "db_sources db", folded rows_def])
  with ok hs ids show ?thesis unfolding db'
    by (intro conjI set_sources_ok [THEN conjunct1] set_sources_ok [THEN conjunct2]) (auto simp: has_row_iff)
qed

lemma freshen_id [simp]: "so_source_id (freshen r s) = so_source_id s"
  "so_configuration_version (freshen r s) = so_configuration_version s"
  by (simp_all add: freshen_def)

lemma sources_ok_same:
  assumes "map (\<lambda>s. (so_source_id s, so_configuration_version s)) rows
      = map (\<lambda>s. (so_source_id s, so_configuration_version s)) (db_sources db)" and "sources_ok db"
  shows "sources_ok (db\<lparr>db_sources := rows\<rparr>) \<and> so_source_id ` set (db_sources db) \<subseteq> so_source_id ` set rows"
proof -
  let ?f = "\<lambda>s. (so_source_id s, so_configuration_version s)"
  have ids: "map so_source_id rows = map so_source_id (db_sources db)"
    using arg_cong [OF assms(1), of "map fst"] by (simp add: comp_def)
  have "list_all (\<lambda>s. has_row history_version (?f s) hs) rows
      = list_all (\<lambda>s. has_row history_version (?f s) hs) (db_sources db)" for hs
    using arg_cong [OF assms(1), of "list_all (\<lambda>p. has_row history_version p hs)"]
    by (simp add: list.pred_map comp_def)
  moreover have "so_source_id ` set rows = so_source_id ` set (db_sources db)"
    using arg_cong [OF ids, of set] by simp
  ultimately show ?thesis using assms(2) ids by (simp add: sources_ok_def unique_on_def has_row_iff)
qed

lemma freshness_ok:
  assumes "update_source_freshness r db = Inr db'" "evidence_ok db"
  shows "evidence_ok db' \<and> grows db db'"
proof -
  let ?rows = "map (\<lambda>s. if so_source_id s = sr_source_id r then freshen r s else s) (db_sources db)"
  from assms(1) have db': "db' = db\<lparr>db_sources := ?rows\<rparr>"
    by (auto simp: update_source_freshness_def split: if_splits)
  have "sources_ok db' \<and> so_source_id ` set (db_sources db) \<subseteq> so_source_id ` set ?rows"
    unfolding db' by (rule sources_ok_same) (use assms(2) in \<open>auto simp: evidence_ok_def\<close>)
  then show ?thesis using assms(2) set_sources_ok [of db ?rows "db_history db"] by (simp add: db')
qed

interpretation source_run_table: keyed_table source_run_key "\<lambda>old new. new"
  by unfold_locales simp

lemma merge_source_run_ok:
  assumes "merge_source_run i db r = Inr db'" "evidence_ok db"
  shows "evidence_ok db' \<and> grows db db'"
proof -
  let ?w = "\<lparr>sw_ingestion_run_id = i, sw_result = r\<rparr>"
  let ?db = "db\<lparr>db_source_runs := upsert source_run_key (\<lambda>old new. new) ?w (db_source_runs db)\<rparr>"
  from assms(1) have f: "update_source_freshness r ?db = Inr db'"
    and refs: "has_row ir_id i (db_runs db)" "has_row so_source_id (sr_source_id r) (db_sources db)"
    by (auto simp: merge_source_run_def Let_def rbind_Inr_iff)
  have "source_runs_ok ?db"
    using assms(2) refs source_run_table.upsert_unique [of "db_source_runs db" ?w]
    by (auto simp: evidence_ok_def source_runs_ok_def list_all_iff dest!: source_run_table.upsert_set)
  then have "evidence_ok ?db \<and> grows db ?db"
    using assms(2) by (auto simp: evidence_ok_def table_ok grows_def list_all_iff sighting_refs_def claim_refs_def)
  with freshness_ok [OF f] show ?thesis by (blast intro: grows_trans)
qed

lemma persist_raw_artifact_ok:
  assumes "persist_raw_artifact db a = Inr db'" "evidence_ok db"
  shows "evidence_ok db' \<and> grows db db' \<and> has_row artifact_key (artifact_key a) (db_artifacts db')"
proof -
  from assms(1) obtain rows where
    i: "insert_checked ra_raw_artifact_id artifact_key artifact_fits
         (\<lambda>a. has_row so_source_id (ra_source_id a) (db_sources db) \<and> has_row ir_id (ra_ingestion_run_id a) (db_runs db))
         a (db_artifacts db) = Inr rows" and db': "db' = db\<lparr>db_artifacts := rows\<rparr>"
    by (auto simp: persist_raw_artifact_def rbind_Inr_iff)
  note r = insert_checked_rows [OF i]
  have ids: "ra_raw_artifact_id ` set (db_artifacts db) \<subseteq> ra_raw_artifact_id ` set rows" using r by auto
  from assms(2) insert_checked_unique [OF i] r show ?thesis
    unfolding db' evidence_ok_def
    by (auto simp: table_ok grows_def list_all_iff sighting_refs_def claim_refs_def intro: has_row_mono [OF ids])
qed

interpretation document_versions: versioned_table document_series dw_document_version document_id
    supersedes_of new_document_row "\<lambda>d. (sd_source_id d, identity_key_of d)"
  by unfold_locales (auto simp: document_series_def new_document_row_def document_id_def split: option.splits)

lemma persist_source_document_ok:
  assumes p: "persist_source_document db d = Inr (db', w)" and ok: "evidence_ok db"
  shows "evidence_ok db' \<and> grows db db' \<and> w \<in> set (db_documents db') \<and>
     document_key w = ((sd_source_id d, identity_key_of d), sd_normalized_content_hash d)"
proof (cases "find_row document_key ((sd_source_id d, identity_key_of d), sd_normalized_content_hash d) (db_documents db)")
  case (Some x)
  with assms show ?thesis by (auto simp: persist_source_document_def Let_def dest: find_row_Some)
next
  case None
  with p have w: "w = new_document_row (latest_document (db_documents db) (sd_source_id d, identity_key_of d)) d"
    and new: "\<not> has_row document_id (document_id w) (db_documents db)" "document_refs db w"
    and db': "db' = db\<lparr>db_documents := db_documents db @ [w]\<rparr>"
    by (auto simp: persist_source_document_def Let_def split: if_splits)
  have k: "document_key w = ((sd_source_id d, identity_key_of d), sd_normalized_content_hash d)"
    by (simp add: w document_key_def document_series_def new_document_row_def)
  have d0: "documents_ok db" using ok by (simp add: evidence_ok_def)
  have "version_chain document_series dw_document_version document_id supersedes_of (db_documents db')"
    using document_versions.chain_append [of "db_documents db" d] d0
    unfolding db' w latest_document_def documents_ok_def by simp
  moreover have "\<not> has_row document_key (document_key w) (db_documents db)" using None by (simp add: k find_row_None)
  ultimately have "documents_ok db'"
    using d0 new by (auto simp: documents_ok_def db' unique_on_def has_row_iff list_all_iff document_refs_def)
  with ok show ?thesis
    by (auto simp: db' k evidence_ok_def table_ok grows_def list_all_iff sighting_refs_def claim_refs_def)
qed

lemma persist_documents_ok:
  assumes "persist_documents db ds = Inr (db', ws)" "evidence_ok db"
  shows "evidence_ok db' \<and> grows db db' \<and> list_all2 (\<lambda>d w. w \<in> set (db_documents db') \<and>
     document_key w = ((sd_source_id d, identity_key_of d), sd_normalized_content_hash d)) ds ws"
  using assms
proof (induction ds arbitrary: db ws)
  case (Cons d ds)
  from Cons.prems(1) obtain db1 w vs where 1: "persist_source_document db d = Inr (db1, w)"
    "persist_documents db1 ds = Inr (db', vs)" "ws = w # vs"
    by (auto simp: rbind_Inr_iff)
  note s = persist_source_document_ok [OF 1(1) Cons.prems(2)]
  with Cons.IH [OF 1(2)] 1(3) have i: "evidence_ok db' \<and> grows db1 db'" "w \<in> set (db_documents db')"
    by (auto simp: grows_def)
  with s Cons.IH [OF 1(2)] 1(3) show ?case by (auto intro: grows_trans)
qed simp

section \<open>Whole collections\<close>

lemma persist_collection_steps:
  assumes "persist_collection_with_documents e db sources c = Inr (db', r', ws)"
  obtains db0 r where "create_or_get_run e db (cl_manifest c) = Inr (db0, r)"
    and "already_persisted r \<and> db' = db0 \<and> r' = r \<and> ws = [] \<or> \<not> already_persisted r \<and>
      (\<exists>db1 db2 db3 db4. fold_result (upsert_source e) db0 sources = Inr db1 \<and>
         fold_result (merge_source_run (ir_id r)) db1 (rm_source_results (cl_manifest c)) = Inr db2 \<and>
         fold_result persist_raw_artifact db2 (cl_raw_artifacts c) = Inr db3 \<and>
         persist_documents db3 (cl_source_documents c) = Inr (db4, ws) \<and>
         r' = finish_run (cl_manifest c) r \<and> run_fits r' \<and> run_terminal r' \<and> db' = set_run r' db4)"
  using assms by (auto simp: persist_collection_with_documents_def Let_def rbind_Inr_iff split: if_splits)

lemma set_run_documents [simp]: "db_documents (set_run r db) = db_documents db"
  by (simp add: set_run_def)

lemma runs_frame:
  "upsert_source e db s = Inr db' \<Longrightarrow> db_runs db' = db_runs db"
  "merge_source_run i db x = Inr db' \<Longrightarrow> db_runs db' = db_runs db"
  "persist_raw_artifact db a = Inr db' \<Longrightarrow> db_runs db' = db_runs db"
  "persist_source_document db d = Inr (db', w) \<Longrightarrow> db_runs db' = db_runs db"
  by (auto simp: upsert_source_def merge_source_run_def update_source_freshness_def persist_raw_artifact_def
      persist_source_document_def Let_def rbind_Inr_iff split: option.splits if_splits)

lemma fold_runs_frame:
  assumes "fold_result f db xs = Inr db'" "\<And>db x db'. f db x = Inr db' \<Longrightarrow> db_runs db' = db_runs db"
  shows "db_runs db' = db_runs db"
  using assms(1) by (rule fold_result_invariant [where P = "\<lambda>d. db_runs d = db_runs db"]) (auto dest: assms(2))

lemma documents_runs_frame: "persist_documents db ds = Inr (db', ws) \<Longrightarrow> db_runs db' = db_runs db"
  by (induction ds arbitrary: db ws) (auto simp: rbind_Inr_iff dest!: runs_frame(4))

text \<open>A collection that is not persisted already: the state after each group of statements.\<close>

lemma persist_collection_stages:
  assumes "evidence_ok db" and "persist_collection_with_documents e db sources c = Inr (db', r, ws)"
    and run: "create_or_get_run e db (cl_manifest c) = Inr (db0, r0)" and "\<not> already_persisted r0"
  obtains db1 db2 db3 db4 where "fold_result (upsert_source e) db0 sources = Inr db1"
    and "fold_result (merge_source_run (ir_id r0)) db1 (rm_source_results (cl_manifest c)) = Inr db2"
    and "fold_result persist_raw_artifact db2 (cl_raw_artifacts c) = Inr db3"
    and "persist_documents db3 (cl_source_documents c) = Inr (db4, ws)"
    and "r = finish_run (cl_manifest c) r0" and "run_fits r" and "run_terminal r" and "db' = set_run r db4"
    and "evidence_ok db0 \<and> grows db db0" and "evidence_ok db1 \<and> grows db0 db1" and "evidence_ok db2 \<and> grows db1 db2"
    and "evidence_ok db3 \<and> grows db2 db3" and "evidence_ok db4 \<and> grows db3 db4" and "evidence_ok db' \<and> grows db4 db'"
    and "r \<in> set (db_runs db')" and "ir_idempotency_key r = rm_idempotency_key (cl_manifest c)"
proof -
  from assms(2-4) obtain db1 db2 db3 db4 where 1: "fold_result (upsert_source e) db0 sources = Inr db1"
    and 2: "fold_result (merge_source_run (ir_id r0)) db1 (rm_source_results (cl_manifest c)) = Inr db2"
    and 3: "fold_result persist_raw_artifact db2 (cl_raw_artifacts c) = Inr db3"
    and 4: "persist_documents db3 (cl_source_documents c) = Inr (db4, ws)"
    and r: "r = finish_run (cl_manifest c) r0" "run_fits r" "run_terminal r" and db': "db' = set_run r db4"
    by (elim persist_collection_steps) auto
  note 0 = create_or_get_run_ok [OF run assms(1)]
  have k1: "evidence_ok db1 \<and> grows db0 db1"
    by (rule fold_result_keeps [OF 1]) (use 0 upsert_source_ok in blast)+
  have k2: "evidence_ok db2 \<and> grows db1 db2"
    by (rule fold_result_keeps [OF 2]) (use k1 merge_source_run_ok in blast)+
  have k3: "evidence_ok db3 \<and> grows db2 db3"
    by (rule fold_result_keeps [OF 3]) (use k2 persist_raw_artifact_ok in blast)+
  have k4: "evidence_ok db4 \<and> grows db3 db4" using persist_documents_ok [OF 4] k3 by simp
  have "db_runs db4 = db_runs db0"
    using fold_runs_frame [OF 1 runs_frame(1)] fold_runs_frame [OF 2 runs_frame(2)]
      fold_runs_frame [OF 3 runs_frame(3)] documents_runs_frame [OF 4] by simp
  then have x: "\<exists>x \<in> set (db_runs db4). ir_id x = ir_id r \<and> ir_idempotency_key x = ir_idempotency_key r"
    using 0 by (auto simp: r finish_run_def)
  have k5: "evidence_ok db' \<and> grows db4 db'" unfolding db' using set_run_ok k4 r(3) x by simp
  have "r \<in> set (db_runs db')" using x by (force simp: db' set_run_def)
  moreover have "ir_idempotency_key r = rm_idempotency_key (cl_manifest c)" using 0 by (simp add: r finish_run_def)
  ultimately show thesis using that [OF 1 2 3 4 r db' _ k1 k2 k3 k4 k5] 0 by simp
qed

lemma persist_collection_ok:
  assumes "evidence_ok db" and "persist_collection_with_documents e db sources c = Inr (db', r, ws)"
  shows "evidence_ok db' \<and> grows db db' \<and> r \<in> set (db_runs db') \<and> run_terminal r \<and>
     (already_persisted r \<and> ws = [] \<or> list_all2 (\<lambda>d w. w \<in> set (db_documents db') \<and>
       document_key w = ((sd_source_id d, identity_key_of d), sd_normalized_content_hash d))
       (cl_source_documents c) ws)"
proof -
  from assms(2) obtain db0 r0 where run: "create_or_get_run e db (cl_manifest c) = Inr (db0, r0)"
    and early: "already_persisted r0 \<Longrightarrow> db' = db0 \<and> r = r0 \<and> ws = []"
    by (elim persist_collection_steps) auto
  show ?thesis
  proof (cases "already_persisted r0")
    case True
    with early create_or_get_run_ok [OF run assms(1)] show ?thesis
      by (auto simp: evidence_ok_def runs_ok_def list_all_iff)
  next
    case False
    obtain db1 db2 db3 db4 where
      4: "persist_documents db3 (cl_source_documents c) = Inr (db4, ws)" and db': "db' = set_run r db4"
      and k: "evidence_ok db0 \<and> grows db db0" "evidence_ok db1 \<and> grows db0 db1" "evidence_ok db2 \<and> grows db1 db2"
        "evidence_ok db3 \<and> grows db2 db3" "evidence_ok db4 \<and> grows db3 db4" "evidence_ok db' \<and> grows db4 db'"
      and r: "r \<in> set (db_runs db')" "run_terminal r"
      by (rule persist_collection_stages [OF assms run False]) (rule that; assumption)
    from k have "grows db db'" by (meson grows_trans)
    with persist_documents_ok [OF 4] k r show ?thesis by (simp add: db')
  qed
qed

section \<open>One document that does not fit\<close>

lemma documents_frame:
  "create_or_get_run e db m = Inr (db', r) \<Longrightarrow> db_documents db' = db_documents db"
  "upsert_source e db s = Inr db' \<Longrightarrow> db_documents db' = db_documents db"
  "merge_source_run i db x = Inr db' \<Longrightarrow> db_documents db' = db_documents db"
  "persist_raw_artifact db a = Inr db' \<Longrightarrow> db_documents db' = db_documents db"
  by (auto simp: create_or_get_run_def upsert_source_def merge_source_run_def update_source_freshness_def
      persist_raw_artifact_def Let_def rbind_Inr_iff split: option.splits if_splits)

lemma fold_documents_frame:
  assumes "fold_result f db xs = Inr db'" "\<And>db x db'. f db x = Inr db' \<Longrightarrow> db_documents db' = db_documents db"
  shows "db_documents db' = db_documents db"
  using assms(1) by (rule fold_result_invariant [where P = "\<lambda>d. db_documents d = db_documents db"]) (auto dest: assms(2))

abbreviation key_of_document :: "source_document \<Rightarrow> (string \<times> string) \<times> string" where
  "key_of_document d \<equiv> ((sd_source_id d, identity_key_of d), sd_normalized_content_hash d)"

lemma persist_source_document_fits:
  assumes "persist_source_document db d = Inr (db', w)"
  shows "(has_row document_key (key_of_document d) (db_documents db) \<or> varchar 1024 (identity_key_of d)) \<and>
     (has_row document_key k (db_documents db') \<longrightarrow>
        has_row document_key k (db_documents db) \<or> varchar 1024 (snd (fst k)))"
  using assms
  by (auto simp: persist_source_document_def Let_def document_fits_def new_document_row_def has_row_find
      document_key_def document_series_def find_row_append split: option.splits if_splits)

lemma persist_documents_fits:
  "persist_documents db ds = Inr (db', ws) \<Longrightarrow> d \<in> set ds \<Longrightarrow>
     has_row document_key (key_of_document d) (db_documents db) \<or> varchar 1024 (identity_key_of d)"
proof (induction ds arbitrary: db ws)
  case (Cons x xs)
  then obtain db1 w vs where 1: "persist_source_document db x = Inr (db1, w)" "persist_documents db1 xs = Inr (db', vs)"
    by (auto simp: rbind_Inr_iff)
  from persist_source_document_fits [OF 1(1), of "key_of_document d"] Cons.IH [OF 1(2)] Cons.prems(2)
  show ?case by auto
qed simp

text \<open>One unstorable document: if a collected document's identity does not fit its column (the
  document contract does not bound it) and no row with its key is stored, persisting the whole
  collection raises.\<close>

lemma document_aborts:
  assumes "d \<in> set (cl_source_documents c)" and "\<not> varchar 1024 (identity_key_of d)"
    and "\<not> has_row document_key ((sd_source_id d, identity_key_of d), sd_normalized_content_hash d) (db_documents db)"
    and "\<not> has_row ir_idempotency_key (rm_idempotency_key (cl_manifest c)) (db_runs db)"
  shows "\<exists>err. persist_collection_with_documents e db sources c = Inl err"
proof (cases "persist_collection_with_documents e db sources c")
  case (Inr t)
  obtain db' r' ws where t: "t = (db', r', ws)" by (cases t)
  from persist_collection_steps [OF Inr [unfolded t]] obtain db0 r where
    run: "create_or_get_run e db (cl_manifest c) = Inr (db0, r)"
    and rest: "already_persisted r \<or> (\<exists>db1 db2 db3 db4. fold_result (upsert_source e) db0 sources = Inr db1 \<and>
         fold_result (merge_source_run (ir_id r)) db1 (rm_source_results (cl_manifest c)) = Inr db2 \<and>
         fold_result persist_raw_artifact db2 (cl_raw_artifacts c) = Inr db3 \<and>
         persist_documents db3 (cl_source_documents c) = Inr (db4, ws))"
    by metis
  have "\<not> already_persisted r" using run assms(4)
    by (auto simp: create_or_get_run_def already_persisted_def has_row_find Let_def rbind_Inr_iff)
  with rest obtain db1 db2 db3 db4 where
    1: "fold_result (upsert_source e) db0 sources = Inr db1" and
    2: "fold_result (merge_source_run (ir_id r)) db1 (rm_source_results (cl_manifest c)) = Inr db2" and
    3: "fold_result persist_raw_artifact db2 (cl_raw_artifacts c) = Inr db3" and
    4: "persist_documents db3 (cl_source_documents c) = Inr (db4, ws)" by blast
  have "db_documents db3 = db_documents db"
    using documents_frame(1) [OF run] fold_documents_frame [OF 1 documents_frame(2)]
      fold_documents_frame [OF 2 documents_frame(3)] fold_documents_frame [OF 3 documents_frame(4)] by simp
  with persist_documents_fits [OF 4 assms(1)] assms(2,3) show ?thesis by simp
qed simp

text \<open>A new run persists one row per collected document.\<close>

lemma persist_documents_length: "persist_documents db ds = Inr (db', ws) \<Longrightarrow> length ws = length ds"
  by (induction ds arbitrary: db ws) (auto simp: rbind_Inr_iff)

lemma persisted_length:
  assumes "persist_collection_with_documents e db sources c = Inr (db', r, ws)"
    and "\<not> has_row ir_idempotency_key (rm_idempotency_key (cl_manifest c)) (db_runs db)"
  shows "length ws = length (cl_source_documents c)"
proof -
  from assms(1) obtain db0 r0 where run: "create_or_get_run e db (cl_manifest c) = Inr (db0, r0)"
    and rest: "already_persisted r0 \<or> (\<exists>db3 db4. persist_documents db3 (cl_source_documents c) = Inr (db4, ws))"
    by (elim persist_collection_steps) auto
  have "\<not> already_persisted r0" using run assms(2)
    by (auto simp: create_or_get_run_def already_persisted_def has_row_find Let_def rbind_Inr_iff)
  with rest show ?thesis by (auto dest: persist_documents_length)
qed

section \<open>Persisting again\<close>

lemma persist_documents_again:
  assumes "list_all2 (\<lambda>d w. w \<in> set (db_documents db) \<and> document_key w = key_of_document d) ds ws"
    and "unique_on document_key (db_documents db)"
  shows "persist_documents db ds = Inr (db, ws)"
  using assms(1)
proof (induction rule: list_all2_induct)
  case (Cons d ds w ws)
  then have "find_row document_key (key_of_document d) (db_documents db) = Some w"
    using find_row_unique [OF assms(2), of w] by simp
  with Cons show ?case by (simp add: persist_source_document_def rbind_def)
qed simp

lemma fold_result_each:
  assumes "fold_result f db xs = Inr db'" "evidence_ok db"
    and step: "\<And>db x db'. evidence_ok db \<Longrightarrow> f db x = Inr db' \<Longrightarrow> evidence_ok db' \<and> grows db db' \<and> P x db'"
    and mono: "\<And>x db db'. P x db \<Longrightarrow> grows db db' \<Longrightarrow> P x db'"
  shows "\<forall>x \<in> set xs. P x db'"
  using assms(1,2)
proof (induction xs arbitrary: db)
  case (Cons x xs)
  then obtain db1 where 1: "f db x = Inr db1" "fold_result f db1 xs = Inr db'" by (auto simp: rbind_Inr_iff)
  with step [OF Cons.prems(2) 1(1)] have ok: "evidence_ok db1" "P x db1" by auto
  have "grows db1 db'" using fold_result_keeps [OF 1(2) ok(1)] step by blast
  with mono ok(2) Cons.IH [OF 1(2) ok(1)] show ?case by auto
qed simp

lemma fold_result_total:
  assumes "Q db" "\<And>db x. x \<in> set xs \<Longrightarrow> Q db \<Longrightarrow> \<exists>db'. f db x = Inr db' \<and> Q db'"
  shows "\<exists>db'. fold_result f db xs = Inr db' \<and> Q db'"
  using assms
proof (induction xs arbitrary: db)
  case (Cons x xs)
  then obtain db1 where "f db x = Inr db1" "Q db1" by (meson list.set_intros(1))
  with Cons.IH [of db1] Cons.prems(2) show ?case by (simp add: rbind_def)
qed simp

definition recorded :: "store_env \<Rightarrow> source_config \<Rightarrow> evidence_db \<Rightarrow> bool" where
  "recorded e c db = (\<exists>h \<in> set (db_history db). history_key h = (cf_source_id c, configuration_hash e c) \<and>
     source_fits (source_of c (ch_configuration_version h)))"

lemma upsert_source_recorded:
  assumes "upsert_source e db c = Inr db'"
  shows "recorded e c db'"
proof (cases "find_row history_key (cf_source_id c, configuration_hash e c) (db_history db)")
  case None
  have k: "history_key (history_of e c v) = (cf_source_id c, configuration_hash e c)"
    "ch_configuration_version (history_of e c v) = v" for v
    by (simp_all add: history_key_def history_of_def Let_def)
  from None have "\<not> has_row history_key (cf_source_id c, configuration_hash e c) (db_history db)"
    by (simp add: find_row_None)
  with assms None k show ?thesis
    by (auto simp: upsert_source_def Let_def rbind_Inr_iff insert_checked_Inr recorded_def split: if_splits)
next
  case (Some h)
  with assms find_row_Some [OF Some] show ?thesis
    by (auto simp: upsert_source_def Let_def rbind_Inr_iff recorded_def)
qed

lemma recorded_mono: "recorded e c db \<Longrightarrow> grows db db' \<Longrightarrow> recorded e c db'"
  by (auto simp: recorded_def grows_def)

text \<open>What a second pass may change: only source rows and source runs.\<close>

definition same_evidence :: "evidence_db \<Rightarrow> evidence_db \<Rightarrow> bool" where
  "same_evidence db db' = (evidence_ok db' \<and> grows db db' \<and> db_history db' = db_history db \<and>
     db_artifacts db' = db_artifacts db \<and> db_documents db' = db_documents db \<and> db_runs db' = db_runs db)"

lemma upsert_source_again:
  assumes "recorded e c D" "same_evidence D db"
  shows "\<exists>db'. upsert_source e db c = Inr db' \<and> same_evidence D db'"
proof -
  from assms obtain h where h: "h \<in> set (db_history db)" "history_key h = (cf_source_id c, configuration_hash e c)"
    "source_fits (source_of c (ch_configuration_version h))"
    by (auto simp: recorded_def same_evidence_def)
  have "sources_ok db" using assms(2) by (simp add: same_evidence_def evidence_ok_def)
  then have "unique_on history_key (db_history db)" by (simp add: sources_ok_def)
  from find_row_unique [OF this h(1)] h obtain db' where
    up: "upsert_source e db c = Inr db'" and db': "\<exists>rows. db' = db\<lparr>db_sources := rows\<rparr>"
    by (auto simp: upsert_source_def Let_def rbind_def)
  with upsert_source_ok [OF up] assms(2) show ?thesis
    by (auto simp: same_evidence_def intro: grows_trans)
qed

definition run_of_result_ok :: "source_run_result \<Rightarrow> uuid \<Rightarrow> evidence_db \<Rightarrow> bool" where
  "run_of_result_ok r i db = (source_run_fits \<lparr>sw_ingestion_run_id = i, sw_result = r\<rparr> \<and>
     i \<in> ir_id ` set (db_runs db) \<and> sr_source_id r \<in> so_source_id ` set (db_sources db))"

lemma merge_source_run_recorded:
  assumes "merge_source_run i db r = Inr db'" "evidence_ok db"
  shows "run_of_result_ok r i db'"
  using assms merge_source_run_ok [OF assms]
  by (auto simp: merge_source_run_def Let_def rbind_Inr_iff run_of_result_ok_def has_row_iff grows_def)

lemma merge_source_run_again:
  assumes "run_of_result_ok r i D" "same_evidence D db"
  shows "\<exists>db'. merge_source_run i db r = Inr db' \<and> same_evidence D db'"
proof -
  have "has_row ir_id i (db_runs db)" "has_row so_source_id (sr_source_id r) (db_sources db)"
    using assms by (auto simp: run_of_result_ok_def same_evidence_def grows_def has_row_iff)
  with assms(1) obtain db' where m: "merge_source_run i db r = Inr db'"
    by (auto simp: run_of_result_ok_def merge_source_run_def update_source_freshness_def rbind_def)
  then have "db_history db' = db_history db \<and> db_artifacts db' = db_artifacts db \<and>
      db_documents db' = db_documents db \<and> db_runs db' = db_runs db"
    by (auto simp: merge_source_run_def update_source_freshness_def Let_def rbind_Inr_iff split: if_splits)
  with merge_source_run_ok [OF m] assms(2) m show ?thesis
    by (auto simp: same_evidence_def intro: grows_trans)
qed

definition artifact_stored :: "raw_artifact \<Rightarrow> evidence_db \<Rightarrow> bool" where
  "artifact_stored a db = (artifact_fits a \<and> artifact_key a \<in> artifact_key ` set (db_artifacts db))"

lemma persist_raw_artifact_recorded: "persist_raw_artifact db a = Inr db' \<Longrightarrow> artifact_stored a db'"
  by (auto simp: persist_raw_artifact_def rbind_Inr_iff insert_checked_Inr artifact_stored_def has_row_iff)

lemma persist_raw_artifact_again: "artifact_stored a D \<Longrightarrow> same_evidence D db \<Longrightarrow> persist_raw_artifact db a = Inr db"
  by (auto simp: artifact_stored_def same_evidence_def persist_raw_artifact_def insert_checked_def has_row_iff rbind_def)

lemma set_run_self:
  assumes "evidence_ok db" "r \<in> set (db_runs db)"
  shows "set_run r db = db"
proof -
  have u: "unique_on ir_id (db_runs db)" using assms(1) by (simp add: evidence_ok_def runs_ok_def)
  have "(if ir_id x = ir_id r then r else x) = x" if "x \<in> set (db_runs db)" for x
  proof (cases "ir_id x = ir_id r")
    case True
    have "Some x = Some r" unfolding find_row_unique [OF u that, symmetric] True
      by (rule find_row_unique [OF u assms(2)])
    then show ?thesis by simp
  qed simp
  then have "map (\<lambda>x. if ir_id x = ir_id r then r else x) (db_runs db) = db_runs db" by (rule map_idI)
  then show ?thesis by (simp add: set_run_def)
qed

text \<open>C11. Persisting is idempotent: persisting the same collection again (a retry of the run)
  succeeds, returns the same run and the same documents, and adds no document, artifact or
  configuration version; only the sources' freshness counters move.\<close>

theorem persist_collection_idempotent:
  assumes ok: "evidence_ok db" and p: "persist_collection_with_documents e db sources c = Inr (db1, r, ws)"
    and np: "\<not> already_persisted r"
  shows "\<exists>db2. persist_collection_with_documents e db1 sources c = Inr (db2, r, ws) \<and>
     evidence_ok db2 \<and> db_documents db2 = db_documents db1 \<and> db_artifacts db2 = db_artifacts db1 \<and>
     db_history db2 = db_history db1 \<and> db_runs db2 = db_runs db1"
proof -
  from p obtain db0 r0 where run: "create_or_get_run e db (cl_manifest c) = Inr (db0, r0)"
    and "already_persisted r0 \<Longrightarrow> r = r0"
    by (elim persist_collection_steps) auto
  with np have new: "\<not> already_persisted r0" by blast
  obtain a b c3 d where
    1: "fold_result (upsert_source e) db0 sources = Inr a" and
    2: "fold_result (merge_source_run (ir_id r0)) a (rm_source_results (cl_manifest c)) = Inr b" and
    3: "fold_result persist_raw_artifact b (cl_raw_artifacts c) = Inr c3" and
    4: "persist_documents c3 (cl_source_documents c) = Inr (d, ws)" and
    r: "r = finish_run (cl_manifest c) r0" "run_fits r" "run_terminal r" and db1: "db1 = set_run r d" and
    k': "evidence_ok db0 \<and> grows db db0" "evidence_ok a \<and> grows db0 a" "evidence_ok b \<and> grows a b"
      "evidence_ok c3 \<and> grows b c3" "evidence_ok d \<and> grows c3 d" "evidence_ok db1 \<and> grows d db1" and
    mem: "r \<in> set (db_runs db1)" "ir_idempotency_key r = rm_idempotency_key (cl_manifest c)"
    by (rule persist_collection_stages [OF ok p run new]) (rule that; assumption)
  from k' have k: "evidence_ok db0" "evidence_ok a" "grows a b" "evidence_ok b" "grows b c3" "evidence_ok c3" "grows c3 d"
      "evidence_ok db1" "grows d db1" by simp_all
  have g: "grows a db1" "grows b db1" "grows c3 db1" using k by (meson grows_trans)+
  have "\<forall>s \<in> set sources. recorded e s a"
    by (rule fold_result_each [OF 1 k(1)]) (use upsert_source_ok upsert_source_recorded recorded_mono in blast)+
  then have rec1: "\<forall>s \<in> set sources. recorded e s db1" using recorded_mono g(1) by blast
  have mono2: "run_of_result_ok x i D \<Longrightarrow> grows D D' \<Longrightarrow> run_of_result_ok x i D'" for x i D D'
    by (auto simp: run_of_result_ok_def grows_def)
  have "\<forall>x \<in> set (rm_source_results (cl_manifest c)). run_of_result_ok x (ir_id r0) b"
    by (rule fold_result_each [OF 2 k(2)]) (use merge_source_run_ok merge_source_run_recorded mono2 in blast)+
  then have rec2: "\<forall>x \<in> set (rm_source_results (cl_manifest c)). run_of_result_ok x (ir_id r) db1"
    using mono2 g(2) by (auto simp: r finish_run_def)
  have mono3: "artifact_stored x D \<Longrightarrow> grows D D' \<Longrightarrow> artifact_stored x D'" for x D D'
    by (auto simp: artifact_stored_def grows_def)
  have "\<forall>x \<in> set (cl_raw_artifacts c). artifact_stored x c3"
    by (rule fold_result_each [OF 3 k(4)]) (use persist_raw_artifact_ok persist_raw_artifact_recorded mono3 in blast)+
  then have rec3: "\<forall>x \<in> set (cl_raw_artifacts c). artifact_stored x db1" using mono3 g(3) by blast
  have start: "create_or_get_run e db1 (cl_manifest c) = Inr (db1, r)"
    using find_row_unique [of ir_idempotency_key "db_runs db1" r] k(8) mem
    by (simp add: create_or_get_run_def evidence_ok_def runs_ok_def)
  have "same_evidence db1 db1" using k(8) by (simp add: same_evidence_def)
  from fold_result_total [of "same_evidence db1", OF this] rec1 upsert_source_again
  obtain a' where a': "fold_result (upsert_source e) db1 sources = Inr a'" "same_evidence db1 a'" by blast
  from fold_result_total [of "same_evidence db1", OF a'(2)] rec2 merge_source_run_again
  obtain b' where b': "fold_result (merge_source_run (ir_id r)) a' (rm_source_results (cl_manifest c)) = Inr b'"
      "same_evidence db1 b'" by blast
  from fold_result_total [of "same_evidence db1", OF b'(2)] rec3 persist_raw_artifact_again
  obtain c' where c': "fold_result persist_raw_artifact b' (cl_raw_artifacts c) = Inr c'" "same_evidence db1 c'" by blast
  have docs: "db_documents c' = db_documents d" using c'(2) by (simp add: same_evidence_def db1)
  have "unique_on document_key (db_documents c')" using c'(2)
    by (auto simp: same_evidence_def evidence_ok_def documents_ok_def)
  moreover have "list_all2 (\<lambda>x w. w \<in> set (db_documents c') \<and> document_key w = key_of_document x) (cl_source_documents c) ws"
    using persist_documents_ok [OF 4 k(6)] by (simp add: docs)
  ultimately have d': "persist_documents c' (cl_source_documents c) = Inr (c', ws)"
    by (intro persist_documents_again)
  have r': "finish_run (cl_manifest c) r = r" by (simp add: r finish_run_def)
  have "set_run r c' = c'" using set_run_self [of c' r] c'(2) mem(1) by (simp add: same_evidence_def)
  with start np a'(1) b'(1) c'(1) d' r' r(2,3) have
    "persist_collection_with_documents e db1 sources c = Inr (c', r, ws)"
    by (simp add: persist_collection_with_documents_def rbind_def)
  with c'(2) show ?thesis by (auto simp: same_evidence_def)
qed

end
