(* ===== verification/Finding_Facts.thy ===== *)
theory Finding_Facts
  imports Run_Store_Facts
begin

text \<open>
  Persisting extraction results keeps the evidence store, and the join of runs with
  vulnerabilities.
\<close>

interpretation indicator_rows: identified_table indicator_key see_again in_id
  by unfold_locales (simp_all add: indicator_key_def see_again_def)

lemma insert_entity_evidence_ok:
  assumes "insert_entity_evidence ids w db = Inr db'" "evidence_ok db"
  shows "evidence_ok db' \<and> grows db db' \<and> db_vulnerabilities db' = db_vulnerabilities db \<and> db_claims db' = db_claims db"
proof -
  from assms(1) obtain rows where i: "insert_checked ee_id ee_id evidence_fits (evidence_refs db ids) w (db_evidence db) = Inr rows"
    and db': "db' = db\<lparr>db_evidence := rows\<rparr>" by (auto simp: insert_entity_evidence_def rbind_Inr_iff)
  from assms(2) insert_checked_unique [OF i] show ?thesis
    unfolding db' by (auto simp: evidence_ok_def table_ok grows_def list_all_iff sighting_refs_def claim_refs_def)
qed

lemma persist_observation_ok:
  assumes "persist_observation e i t db ob = Inr db'" "evidence_ok db"
  shows "evidence_ok db' \<and> grows db db'"
proof -
  from assms(1) obtain inds gs where
    up: "upsert_checked in_id indicator_key see_again (indicator_of e ob t) (db_indicators db) = Inr inds" and
    ins: "insert_checked sg_id sighting_key sighting_fits (sighting_refs (db\<lparr>db_indicators := inds\<rparr>))
       (sighting_of e ob i t) (db_sightings db) = Inr gs" and
    ev: "insert_entity_evidence [] (evidence_of_indicator e ob t) (db\<lparr>db_indicators := inds, db_sightings := gs\<rparr>) = Inr db'"
    by (auto simp: persist_observation_def Let_def rbind_Inr_iff)
  have ids: "in_id ` set (db_indicators db) \<subseteq> in_id ` set inds"
    using indicator_rows.checked_idents [OF up] by (intro subsetI) (simp add: has_row_iff)
  have refs: "sighting_refs db g \<Longrightarrow> sighting_refs (db\<lparr>db_indicators := inds\<rparr>) g" for g
    using has_row_mono [OF ids] by (auto simp: sighting_refs_def)
  have "evidence_ok (db\<lparr>db_indicators := inds, db_sightings := gs\<rparr>) \<and> grows db (db\<lparr>db_indicators := inds, db_sightings := gs\<rparr>)"
    using assms(2) indicator_rows.checked_unique [OF up] insert_checked_unique [OF ins] insert_checked_rows [OF ins] ids refs
    by (auto simp: evidence_ok_def table_ok grows_def list_all_iff) (auto simp: sighting_refs_def claim_refs_def)
  with insert_entity_evidence_ok [OF ev] show ?thesis by (blast intro: grows_trans)
qed

lemma persist_cve_ok:
  assumes "persist_cve e t db c = Inr db'" "evidence_ok db"
  shows "evidence_ok db' \<and> grows db db'"
proof -
  from assms(1) obtain vs cs where
    v: "insert_checked vr_id vr_cve_id (\<lambda>v. varchar 32 (vr_cve_id v)) (\<lambda>_. True)
         (vulnerability_of e (cc_normalized_value c)) (db_vulnerabilities db) = Inr vs" and
    cl: "insert_checked cw_id cw_id claim_fits (claim_refs (db\<lparr>db_vulnerabilities := vs\<rparr>)) (claim_of e c) (db_claims db) = Inr cs" and
    ev: "insert_entity_evidence [] (evidence_of_vulnerability e c t) (db\<lparr>db_vulnerabilities := vs, db_claims := cs\<rparr>) = Inr db'"
    by (auto simp: persist_cve_def Let_def rbind_Inr_iff)
  have "evidence_ok (db\<lparr>db_vulnerabilities := vs, db_claims := cs\<rparr>) \<and> grows db (db\<lparr>db_vulnerabilities := vs, db_claims := cs\<rparr>)"
    using assms(2) insert_checked_unique [OF v] insert_checked_unique [OF cl] insert_checked_rows [OF cl]
    by (auto simp: evidence_ok_def table_ok grows_def list_all_iff) (auto simp: sighting_refs_def claim_refs_def)
  with insert_entity_evidence_ok [OF ev] show ?thesis by (blast intro: grows_trans)
qed

lemma persist_extraction_ok:
  assumes "persist_extraction e db x i t = Inr (db', n)" "evidence_ok db"
  shows "evidence_ok db' \<and> grows db db'"
proof -
  from assms(1) obtain db1 where
    1: "fold_result (persist_observation e i t) db (xr_observations x) = Inr db1" and
    2: "fold_result (persist_cve e t) db1 (xr_cve_candidates x) = Inr db'"
    by (auto simp: persist_extraction_def rbind_Inr_iff)
  have k: "evidence_ok db1 \<and> grows db db1"
    by (rule fold_result_keeps [OF 1 assms(2)]) (use persist_observation_ok in blast)
  have "evidence_ok db' \<and> grows db1 db'"
    by (rule fold_result_keeps [OF 2]) (use k persist_cve_ok in blast)+
  with k show ?thesis by (blast intro: grows_trans)
qed

end
