(* ===== verification/Enrichment_Store.thy ===== *)
theory Enrichment_Store
  imports Finding_Facts Enrichment_Facts
begin

text \<open>
  The enrichment half of \<^verbatim>\<open>db/repositories.py\<close>: provider results, risk assessments
  and \<open>persist_enrichment_run\<close>, which also updates the canonical vulnerability
  (\<open>Vulnerability_Fields.persist_enrichment\<close>).  A provider result without a payload hash
  never conflicts, as NULLs are distinct in a unique constraint; JSONB columns are kept as
  the values they encode.
\<close>

section \<open>Tables\<close>

record result_row =
  pw_id :: uuid
  pw_entity_type :: entity_type
  pw_entity_id :: uuid
  pw_provider :: string
  pw_provider_query_key :: string
  pw_retrieved_at :: instant
  pw_expires_at :: "instant option"
  pw_status :: enrichment_status
  pw_normalized_result :: "json dict"
  pw_raw_metadata :: raw_metadata
  pw_raw_payload_hash :: "string option"
  pw_cache_hit :: bool
  pw_error_classification :: "provider_error_classification option"
  pw_quota_remaining :: "int option"

record assessment_row =
  rk_id :: uuid
  rk_entity_type :: string
  rk_entity_id :: uuid
  rk_assessment_version :: int
  rk_score :: rat
  rk_score_version :: string
  rk_severity :: severity
  rk_confidence :: rat
  rk_components :: "score_component list"
  rk_evidence_ids :: "uuid list"
  rk_origin :: string
  rk_priority_explanation :: string
  rk_review_state :: string
  rk_supersedes_id :: "uuid option"

record intel_db =
  id_evidence :: evidence_db
  id_results :: "result_row list"
  id_assessments :: "assessment_row list"
  id_observations :: "observation list"
  id_selections :: "attribute_selection list"

section \<open>Provider results\<close>

definition result_namespace :: uuid where
  "result_namespace = ''6ba7b812-9dad-11d1-80b4-00c04fd430c8''"

definition result_of :: "store_env \<Rightarrow> (instant \<Rightarrow> string) \<Rightarrow> provider_response \<Rightarrow> result_row" where
  "result_of e isoformat r =
     (let q = pr_request r in
      \<lparr>pw_id = se_uuid5 e result_namespace (''enrichment:'' @ pr_provider r @ '':'' @ pq_query_key q @ '':''
          @ or_else (case pr_payload_hash r of None \<Rightarrow> [] | Some h \<Rightarrow> h) (isoformat (pr_retrieved_at r))),
       pw_entity_type = pq_entity_type q, pw_entity_id = pq_entity_id q, pw_provider = pr_provider r,
       pw_provider_query_key = pq_query_key q, pw_retrieved_at = pr_retrieved_at r,
       pw_expires_at = pr_expires_at r, pw_status = pr_status r,
       pw_normalized_result = pr_normalized_result r, pw_raw_metadata = pr_raw_metadata r,
       pw_raw_payload_hash = pr_payload_hash r, pw_cache_hit = pr_cache_hit r,
       pw_error_classification = pr_error_classification r,
       pw_quota_remaining = rm_quota_remaining (pr_raw_metadata r)\<rparr>)"

definition result_fits :: "result_row \<Rightarrow> bool" where
  "result_fits r = (varchar 128 (pw_provider r) \<and> varchar 512 (pw_provider_query_key r) \<and>
     nullable (varchar 64) (pw_raw_payload_hash r))"

text \<open>The unique constraint on provider, query key and payload hash.\<close>

definition same_payload :: "result_row \<Rightarrow> result_row \<Rightarrow> bool" where
  "same_payload a b = (pw_provider a = pw_provider b \<and> pw_provider_query_key a = pw_provider_query_key b \<and>
     pw_raw_payload_hash a \<noteq> None \<and> pw_raw_payload_hash a = pw_raw_payload_hash b)"

definition insert_result :: "result_row \<Rightarrow> result_row list \<Rightarrow> store_error + result_row list" where
  "insert_result r rows =
     (if \<not> result_fits r then Inl DataError
      else if list_ex (same_payload r) rows then Inr rows
      else if has_row pw_id (pw_id r) rows then Inl IntegrityError
      else Inr (rows @ [r]))"

definition provider_evidence :: "store_env \<Rightarrow> result_row \<Rightarrow> provider_response \<Rightarrow> entity_evidence_row" where
  "provider_evidence e record r =
     \<lparr>ee_id = se_uuid5 e (pw_id record) ''provider-evidence'',
      ee_entity_type = entity_type_value (pq_entity_type (pr_request r)),
      ee_entity_id = pq_entity_id (pr_request r), ee_source_document_id = None, ee_raw_artifact_id = None, ee_evidence_claim_id = None,
      ee_provider_result_id = Some (pw_id record), ee_evidence_span = No_Span, ee_first_seen_at = None,
      ee_last_seen_at = None, ee_confidence = 1, ee_origin_type = ''provider_enrichment'',
      ee_supporting_urls = None, ee_content_hash = pr_payload_hash r\<rparr>"

definition located_result :: "result_row \<Rightarrow> result_row list \<Rightarrow> result_row option" where
  "located_result r rows = (case find_row pw_id (pw_id r) rows of
       Some x \<Rightarrow> Some x
     | None \<Rightarrow> newest pw_retrieved_at (filter (\<lambda>x. pw_provider x = pw_provider r \<and>
         pw_provider_query_key x = pw_provider_query_key r \<and> pw_raw_payload_hash x = pw_raw_payload_hash r) rows))"

definition persist_provider_response :: "store_env \<Rightarrow> (instant \<Rightarrow> string) \<Rightarrow> intel_db \<Rightarrow> provider_response
    \<Rightarrow> store_error + intel_db \<times> result_row" where
  "persist_provider_response e isoformat db r =
     (let new = result_of e isoformat r in
      rbind (insert_result new (id_results db)) (\<lambda>rows.
        case located_result new rows of
          None \<Rightarrow> Inl (NotPersisted ''enrichment result was not persisted'')
        | Some record \<Rightarrow>
            rbind (insert_entity_evidence (map pw_id rows) (provider_evidence e record r) (id_evidence db)) (\<lambda>ev.
              Inr (db\<lparr>id_results := rows, id_evidence := ev\<rparr>, record))))"

fun persist_responses :: "store_env \<Rightarrow> (instant \<Rightarrow> string) \<Rightarrow> intel_db \<Rightarrow> provider_response list
    \<Rightarrow> store_error + intel_db \<times> result_row list" where
  "persist_responses e isoformat db [] = Inr (db, [])"
| "persist_responses e isoformat db (r # rs) =
     rbind (persist_provider_response e isoformat db r) (\<lambda>(db1, x).
     rbind (persist_responses e isoformat db1 rs) (\<lambda>(db2, xs). Inr (db2, x # xs)))"

section \<open>Risk assessments\<close>

definition risk_namespace :: uuid where
  "risk_namespace = ''6ba7b813-9dad-11d1-80b4-00c04fd430c8''"

record assessment_input =
  ai_entity_type :: string
  ai_entity_id :: uuid
  ai_priority :: priority_score
  ai_evidence_ids :: "uuid list"
  ai_origin :: string

definition assessed_evidence :: "assessment_input \<Rightarrow> uuid list" where
  "assessed_evidence a = (if ai_evidence_ids a = [] then ps_evidence_ids (ai_priority a) else ai_evidence_ids a)"

definition new_assessment :: "store_env \<Rightarrow> assessment_row option \<Rightarrow> assessment_input \<Rightarrow> assessment_row" where
  "new_assessment e latest a =
     (let p = ai_priority a; version = (case latest of None \<Rightarrow> 1 | Some l \<Rightarrow> rk_assessment_version l + 1) in
      \<lparr>rk_id = se_uuid5 e risk_namespace (''risk:'' @ ai_entity_type a @ '':'' @ ai_entity_id a @ '':''
          @ ps_score_version p @ '':'' @ int_str version),
       rk_entity_type = ai_entity_type a, rk_entity_id = ai_entity_id a, rk_assessment_version = version,
       rk_score = ps_score p, rk_score_version = ps_score_version p, rk_severity = ps_severity p,
       rk_confidence = ps_confidence p, rk_components = ps_components p,
       rk_evidence_ids = assessed_evidence a, rk_origin = ai_origin a,
       rk_priority_explanation = join ''; '' (map (\<lambda>c. sc_name c @ '': '' @ sc_rationale c) (ps_components p)),
       rk_review_state = ''proposed'',
       rk_supersedes_id = map_option rk_id latest\<rparr>)"

definition assessment_series :: "assessment_row \<Rightarrow> string \<times> uuid" where
  "assessment_series r = (rk_entity_type r, rk_entity_id r)"

definition latest_assessment :: "assessment_row list \<Rightarrow> string \<times> uuid \<Rightarrow> assessment_row option" where
  "latest_assessment rows series = latest_in assessment_series rk_assessment_version rows series"

definition assessment_fits :: "assessment_row \<Rightarrow> bool" where
  "assessment_fits r = (varchar 64 (rk_entity_type r) \<and> varchar 64 (rk_score_version r) \<and>
     varchar 64 (rk_origin r) \<and> pg_text (rk_priority_explanation r) \<and> pg_int (rk_assessment_version r))"

text \<open>Evidence links are written for the claims that exist; others are passed over.\<close>

definition assessment_evidence :: "store_env \<Rightarrow> assessment_row \<Rightarrow> uuid \<Rightarrow> entity_evidence_row" where
  "assessment_evidence e r i =
     \<lparr>ee_id = se_uuid5 e (rk_id r) (''evidence:'' @ i), ee_entity_type = rk_entity_type r,
      ee_entity_id = rk_entity_id r, ee_source_document_id = None, ee_raw_artifact_id = None, ee_evidence_claim_id = Some i,
      ee_provider_result_id = None, ee_evidence_span = No_Span, ee_first_seen_at = None, ee_last_seen_at = None,
      ee_confidence = rk_confidence r, ee_origin_type = rk_origin r, ee_supporting_urls = None, ee_content_hash = None\<rparr>"

definition link_assessment :: "store_env \<Rightarrow> assessment_row \<Rightarrow> evidence_db \<Rightarrow> uuid \<Rightarrow> store_error + evidence_db" where
  "link_assessment e r ev i = (if has_row cw_id i (db_claims ev)
     then insert_entity_evidence [] (assessment_evidence e r i) ev else Inr ev)"

definition persist_risk_assessment :: "store_env \<Rightarrow> intel_db \<Rightarrow> assessment_input
    \<Rightarrow> store_error + intel_db \<times> assessment_row" where
  "persist_risk_assessment e db a =
     (let r = new_assessment e (latest_assessment (id_assessments db) (ai_entity_type a, ai_entity_id a)) a in
      if \<not> assessment_fits r then Inl DataError
      else if has_row rk_id (rk_id r) (id_assessments db) then Inl IntegrityError
      else rbind (fold_result (link_assessment e r) (id_evidence db) (dedup (assessed_evidence a))) (\<lambda>ev.
        Inr (db\<lparr>id_assessments := id_assessments db @ [r], id_evidence := ev\<rparr>, r)))"

section \<open>A whole enrichment\<close>

definition vulnerability_tables :: "intel_db \<Rightarrow> vulnerability_db" where
  "vulnerability_tables db = \<lparr>vd_vulnerabilities = db_vulnerabilities (id_evidence db),
     vd_observations = id_observations db, vd_selections = id_selections db\<rparr>"

definition set_vulnerability_tables :: "vulnerability_db \<Rightarrow> intel_db \<Rightarrow> intel_db" where
  "set_vulnerability_tables v db = db\<lparr>id_evidence := (id_evidence db)\<lparr>db_vulnerabilities := vd_vulnerabilities v\<rparr>,
     id_observations := vd_observations v, id_selections := vd_selections v\<rparr>"

definition update_vulnerability :: "iso_codec \<Rightarrow> store_env \<Rightarrow> string \<Rightarrow> uuid \<Rightarrow> provider_response list
    \<Rightarrow> result_row list \<Rightarrow> intel_db \<Rightarrow> store_error + intel_db" where
  "update_vulnerability c e entity_type entity_id responses records db =
     (if entity_type \<noteq> ''vulnerability'' then Inr db
      else (case persist_enrichment c (se_uuid5 e) (se_now e) entity_id responses (map pw_id records)
                 (vulnerability_tables db) of
          None \<Rightarrow> Inl (BadValue ''provider responses'')
        | Some (vid, v) \<Rightarrow> Inr (set_vulnerability_tables v db)))"

definition persist_enrichment_run :: "iso_codec \<Rightarrow> store_env \<Rightarrow> intel_db \<Rightarrow> provider_response list \<Rightarrow> string
    \<Rightarrow> uuid \<Rightarrow> priority_score option \<Rightarrow> uuid list
    \<Rightarrow> store_error + intel_db \<times> result_row list \<times> assessment_row option" where
  "persist_enrichment_run c e db responses entity_type entity_id priority evidence_ids =
     rbind (persist_responses e (iso_format c) db responses) (\<lambda>(db1, records).
     rbind (update_vulnerability c e entity_type entity_id responses records db1) (\<lambda>db2.
       case priority of
         None \<Rightarrow> Inr (db2, records, None)
       | Some p \<Rightarrow> rbind (persist_risk_assessment e db2 \<lparr>ai_entity_type = entity_type, ai_entity_id = entity_id,
             ai_priority = p, ai_evidence_ids = evidence_ids, ai_origin = ''deterministic_enrichment''\<rparr>) (\<lambda>(db3, r).
           Inr (db3, records, Some r))))"

interpretation assessment_versions: versioned_table assessment_series rk_assessment_version rk_id
    rk_supersedes_id "new_assessment e" "\<lambda>a. (ai_entity_type a, ai_entity_id a)" for e
  by unfold_locales (auto simp: assessment_series_def new_assessment_def Let_def split: option.splits)

end
