(* ===== verification/Daily_Pipeline.thy ===== *)
theory Daily_Pipeline
  imports Enrichment_Store Extraction_Facts
begin

text \<open>
  \<^verbatim>\<open>db/pipeline.py\<close> and \<^verbatim>\<open>db/scheduler.py\<close>: one lock-protected daily run
  (collect, persist, extract in one transaction; enrich the run's vulnerabilities one
  transaction each) and the scheduler that repeats it.  The state of a process is the
  validators of its ingestion service, its enrichment providers and cache, and the database.
  Whether another session holds the advisory lock, the local time zone and the readings of the
  clocks are parameters.
\<close>

section \<open>The enrichment stage\<close>

record enrichment_state =
  es_providers :: "provider list"
  es_cache :: cache
  es_db :: intel_db
  es_step :: nat

record enrichment_env =
  ee_env :: "nat \<Rightarrow> env"
  ee_clock :: "nat \<Rightarrow> rat"
  ee_now :: "nat \<Rightarrow> instant"
  ee_codec :: iso_codec
  ee_store :: store_env
  ee_score_version :: string

fun store_error_name :: "store_error \<Rightarrow> string" where
  "store_error_name IntegrityError = ''IntegrityError''"
| "store_error_name DataError = ''DataError''"
| "store_error_name (NotPersisted s) = ''RuntimeError: '' @ s"
| "store_error_name (BadValue s) = ''ValueError: '' @ s"

text \<open>One vulnerability: the service call changes the providers and the cache even when the
  transaction that follows is rolled back.\<close>

definition enrich_and_persist :: "enrichment_env \<Rightarrow> enrichment_state \<Rightarrow> uuid \<times> string
    \<Rightarrow> enrichment_state \<times> (string + unit)" where
  "enrich_and_persist e s p = (case p of (entity_id, cve_id) \<Rightarrow>
     (let k = es_step s; request = cve_request cve_id entity_id (ee_now e k) in
      case service_enrich (provider_enrich (ee_env e k) (ee_clock e k)) pv_name pv_query_kinds
             (iso_datetime (ee_codec e)) (ee_score_version e) request None (es_providers s) (es_cache s) of
        (ps, c, r) \<Rightarrow> (let s' = s\<lparr>es_providers := ps, es_cache := c, es_step := k + 1\<rparr> in
          case r of
            Inl x \<Rightarrow> (s', Inl x)
          | Inr result \<Rightarrow>
              (case persist_enrichment_run (ee_codec e) (ee_store e) (es_db s) (er_provider_results result)
                     (entity_type_value (er_entity_type result)) (er_entity_id result) (er_priority result) [] of
                 Inl x \<Rightarrow> (s', Inl (store_error_name x))
               | Inr (db, records, assessment) \<Rightarrow> (s'\<lparr>es_db := db\<rparr>, Inr ())))))"

record stage_result =
  st_attempted :: int
  st_enriched :: int
  st_failures :: int
  st_truncated :: bool
  st_failed :: "(string \<times> string) list"

definition empty_stage :: stage_result where
  "empty_stage = \<lparr>st_attempted = 0, st_enriched = 0, st_failures = 0, st_truncated = False, st_failed = []\<rparr>"

fun enrich_each :: "('s \<Rightarrow> uuid \<times> string \<Rightarrow> 's \<times> (string + unit)) \<Rightarrow> 's \<Rightarrow> (uuid \<times> string) list
    \<Rightarrow> 's \<times> int \<times> (string \<times> string) list" where
  "enrich_each step s [] = (s, 0, [])"
| "enrich_each step s (p # ps) = (case step s p of
       (s', Inl x) \<Rightarrow> (case enrich_each step s' ps of (s'', n, fs) \<Rightarrow> (s'', n, (snd p, take 500 x) # fs))
     | (s', Inr _) \<Rightarrow> (case enrich_each step s' ps of (s'', n, fs) \<Rightarrow> (s'', n + 1, fs)))"

text \<open>\<open>_enrich_run_cves\<close>, over the service call \<open>step\<close>.\<close>

definition enrich_run_cves :: "('s \<Rightarrow> uuid \<times> string \<Rightarrow> 's \<times> (string + unit)) \<Rightarrow> bool \<Rightarrow> int \<Rightarrow> (uuid \<times> string) list
    \<Rightarrow> 's \<Rightarrow> 's \<times> stage_result" where
  "enrich_run_cves step enabled max_cves vulns s =
     (if \<not> enabled then (s, empty_stage)
      else (let attempted = length vulns; cap = nat (max 0 max_cves) in
        case enrich_each step s (take cap vulns) of
          (s', succeeded, failed) \<Rightarrow> (s', \<lparr>st_attempted = int attempted, st_enriched = succeeded,
             st_failures = int (length failed), st_truncated = (cap < attempted), st_failed = failed\<rparr>)))"

section \<open>One daily run\<close>

record daily_result =
  dr_acquired_lock :: bool
  dr_ingestion_run_id :: "uuid option"
  dr_collection :: "collection_result option"
  dr_run_status :: "run_status option"
  dr_total_sources :: int
  dr_successful_sources :: int
  dr_failed_sources :: int
  dr_error_summary :: "string option"
  dr_enrichment :: stage_result

definition lock_not_acquired :: daily_result where
  "lock_not_acquired = \<lparr>dr_acquired_lock = False, dr_ingestion_run_id = None, dr_collection = None,
     dr_run_status = None, dr_total_sources = 0, dr_successful_sources = 0, dr_failed_sources = 0,
     dr_error_summary = None, dr_enrichment = empty_stage\<rparr>"

definition daily_result_of :: "run_row \<Rightarrow> collection_result \<Rightarrow> stage_result \<Rightarrow> daily_result" where
  "daily_result_of r c stage = \<lparr>dr_acquired_lock = True, dr_ingestion_run_id = Some (ir_id r),
     dr_collection = Some c, dr_run_status = Some (ir_status r), dr_total_sources = ir_total_sources r,
     dr_successful_sources = ir_successful_sources r, dr_failed_sources = ir_failed_sources r,
     dr_error_summary = ir_error_summary r, dr_enrichment = stage\<rparr>"

definition is_full_success :: "daily_result \<Rightarrow> bool" where
  "is_full_success r = (dr_run_status r = Some RS_COMPLETED \<and> 0 < dr_total_sources r \<and>
     dr_failed_sources r = 0 \<and> dr_successful_sources r = dr_total_sources r)"

definition is_usable :: "daily_result \<Rightarrow> bool" where
  "is_usable r = (dr_run_status r \<in> {Some RS_COMPLETED, Some RS_FAILED} \<and> 0 < dr_successful_sources r)"

record pipeline_env =
  pe_ingestion :: ingestion_env
  pe_store :: store_env
  pe_uuid5 :: "string \<Rightarrow> uuid"
  pe_punycode :: "string \<Rightarrow> string option"
  pe_isodate :: "int \<Rightarrow> string"
  pe_enrichment :: enrichment_env
  pe_enrichment_enabled :: bool
  pe_enrichment_pipeline_enabled :: bool
  pe_max_cves_per_run :: int
  pe_providers :: "provider list"
  pe_cache :: cache

record pipeline_state =
  pl_validators :: "(string \<times> validators) list"
  pl_db :: intel_db

text \<open>The UTC date of an instant, as days since the epoch.\<close>

definition utc_day :: "instant \<Rightarrow> int" where
  "utc_day t = t div 86400000000"

definition idempotency_key :: "pipeline_env \<Rightarrow> instant \<Rightarrow> string" where
  "idempotency_key e scheduled_for = ''daily:'' @ pe_isodate e (utc_day scheduled_for)"

definition run_id_of :: "pipeline_env \<Rightarrow> string \<Rightarrow> uuid" where
  "run_id_of e key = pe_uuid5 e (''hermes-cti:ingestion-run:'' @ key)"

datatype pipeline_exn = CollectFailed py_error | StoreFailed store_error | ExtractFailed extraction_exn

text \<open>Extraction of the persisted documents, under the identities the database uses.\<close>

fun extract_documents :: "pipeline_env \<Rightarrow> uuid \<Rightarrow> instant \<Rightarrow> evidence_db \<Rightarrow> (source_document \<times> document_row) list
    \<Rightarrow> pipeline_exn + evidence_db \<times> nat" where
  "extract_documents e run_id observed db [] = Inr (db, 0)"
| "extract_documents e run_id observed db ((d, w) # ps) =
     (case extract_document (pe_punycode e) (pe_uuid5 e)
             (d\<lparr>sd_source_document_id := document_id w\<rparr>) (Some default_extraction_config) of
        Inl x \<Rightarrow> Inl (ExtractFailed x)
      | Inr x \<Rightarrow> (case persist_extraction (pe_store e) db x run_id observed of
            Inl x \<Rightarrow> Inl (StoreFailed x)
          | Inr (db1, n) \<Rightarrow> rbind (extract_documents e run_id observed db1 ps) (\<lambda>(db2, k). Inr (db2, n + k))))"

text \<open>The transaction: \<open>None\<close> in the second component when nothing new was persisted, so that
  extraction and enrichment are passed over.\<close>

definition persist_and_extract :: "pipeline_env \<Rightarrow> evidence_db \<Rightarrow> source_config list \<Rightarrow> collection_result
    \<Rightarrow> pipeline_exn + evidence_db \<times> run_row \<times> bool" where
  "persist_and_extract e db sources c =
     (case persist_collection_with_documents (pe_store e) db sources c of
        Inl x \<Rightarrow> Inl (StoreFailed x)
      | Inr (db1, r, ws) \<Rightarrow>
          if ws = [] then Inr (db1, r, False)
          else (case (rm_completed_at (cl_manifest c), rm_started_at (cl_manifest c)) of
              (None, None) \<Rightarrow> Inl (CollectFailed (ValueError ''completed collection requires a run timestamp''))
            | (done, started) \<Rightarrow>
                rbind (extract_documents e (ir_id r) (case done of Some t \<Rightarrow> t | None \<Rightarrow> the started) db1
                    (zip (cl_source_documents c) ws)) (\<lambda>(db2, findings).
                  (let r' = r\<lparr>ir_new_findings := int findings\<rparr> in Inr (set_run r' db2, r', True)))))"

definition enrich_stage :: "pipeline_env \<Rightarrow> uuid \<Rightarrow> intel_db \<Rightarrow> intel_db \<times> stage_result" where
  "enrich_stage e run_id db =
     (case enrich_run_cves (enrich_and_persist (pe_enrichment e))
             (pe_enrichment_enabled e \<and> pe_enrichment_pipeline_enabled e) (pe_max_cves_per_run e)
             (vulnerability_ids_for_run (id_evidence db) run_id)
             \<lparr>es_providers = pe_providers e, es_cache = pe_cache e, es_db = db, es_step = 0\<rparr> of
        (s, result) \<Rightarrow> (es_db s, result))"

definition pipeline_run_once :: "pipeline_env \<Rightarrow> bool \<Rightarrow> pipeline_state \<Rightarrow> source_config list \<Rightarrow> instant \<Rightarrow> string option
    \<Rightarrow> pipeline_state \<times> (pipeline_exn + daily_result)" where
  "pipeline_run_once e locked s sources scheduled key_arg =
     (let key = or_else (case key_arg of None \<Rightarrow> [] | Some k \<Rightarrow> k) (idempotency_key e scheduled);
          run_id = run_id_of e key in
      if locked then (s, Inr lock_not_acquired)
      else (case collect_once (pe_ingestion e) (pl_validators s) sources run_id (Some key) (Some scheduled) of
          (vs, Inl x) \<Rightarrow> (s\<lparr>pl_validators := vs\<rparr>, Inl (CollectFailed x))
        | (vs, Inr c) \<Rightarrow>
            (case persist_and_extract e (id_evidence (pl_db s)) sources c of
               Inl x \<Rightarrow> (s\<lparr>pl_validators := vs\<rparr>, Inl x)
             | Inr (ev, r, extracted) \<Rightarrow>
                 (let db = (pl_db s)\<lparr>id_evidence := ev\<rparr> in
                  if \<not> extracted
                  then (\<lparr>pl_validators = vs, pl_db = db\<rparr>, Inr (daily_result_of r c empty_stage))
                  else (case enrich_stage e (ir_id r) db of (db', stage) \<Rightarrow>
                    (\<lparr>pl_validators = vs, pl_db = db'\<rparr>, Inr (daily_result_of r c stage)))))))"

section \<open>The scheduler\<close>

text \<open>A zone: the wall-clock time of an instant, and the instant of a wall-clock time.  The
  comparisons and the day arithmetic of the code are on wall-clock times.\<close>

record zone =
  zn_local :: "instant \<Rightarrow> int"
  zn_utc :: "int \<Rightarrow> instant"

definition day_length :: int where
  "day_length = 86400000000"

definition target_of :: "zone \<Rightarrow> int \<Rightarrow> instant \<Rightarrow> int" where
  "target_of z hour now = zn_local z now div day_length * day_length + hour * 3600000000"

definition scheduled_for :: "zone \<Rightarrow> int \<Rightarrow> instant \<Rightarrow> instant" where
  "scheduled_for z hour now = (let target = target_of z hour now in
     zn_utc z (if zn_local z now < target then target - day_length else target))"

definition next_scheduled_for :: "zone \<Rightarrow> int \<Rightarrow> instant \<Rightarrow> instant" where
  "next_scheduled_for z hour now = (let target = target_of z hour now in
     zn_utc z (if target \<le> zn_local z now then target + day_length else target))"

text \<open>One iteration of \<open>run_forever\<close>: the pipeline runs, and the seconds slept afterwards;
  \<open>clock\<close> gives the time of the attempt and the time after it.\<close>

definition scheduler_step :: "(instant \<Rightarrow> 's \<Rightarrow> 's \<times> ('x + 'r)) \<Rightarrow> zone \<Rightarrow> int \<Rightarrow> instant \<Rightarrow> instant \<Rightarrow> 's
    \<Rightarrow> 's \<times> rat" where
  "scheduler_step run z hour now after s = (case run (scheduled_for z hour now) s of
       (s', Inl _) \<Rightarrow> (s', 60)
     | (s', Inr _) \<Rightarrow> (s', max 1 (total_seconds (next_scheduled_for z hour after) after)))"

end
