(* ===== verification/Pipeline_Facts.thy ===== *)
theory Pipeline_Facts
  imports Daily_Pipeline Ingestion_Facts
begin

text \<open>
  What a daily run guarantees and where it loses evidence: the enrichment stage accounts for
  the run's vulnerabilities, a run keeps the evidence store, one bad document aborts the whole
  run, and an aborted run leaves conditional validators behind that make the retry collect
  nothing.
\<close>

section \<open>The enrichment stage\<close>

lemma enrich_each_spec:
  assumes "enrich_each step s vulns = (s', n, failed)"
  shows "n + int (length failed) = int (length vulns) \<and> 0 \<le> n \<and>
     s' = foldl (\<lambda>s p. fst (step s p)) s vulns \<and> subseq (map fst failed) (map snd vulns) \<and>
     list_all (\<lambda>f. length (snd f) \<le> 500) failed"
  using assms
proof (induction vulns arbitrary: s s' n failed)
  case (Cons p ps)
  obtain s1 r where 1: "step s p = (s1, r)" by (cases "step s p")
  obtain s2 k fs where 2: "enrich_each step s1 ps = (s2, k, fs)" by (cases "enrich_each step s1 ps")
  from Cons.IH [OF 2] Cons.prems 1 2 show ?case by (auto split: sum.splits)
qed auto

text \<open>The enrichment stage accounts for its work: it is inert unless both switches are on;
  otherwise every vulnerability up to the cap is tried exactly once, in order and each from the
  state the one before left, is counted as enriched or listed with a bounded reason, and the
  result says whether the cap cut the list.\<close>

theorem enrichment_stage_accounts:
  "enrich_run_cves step enabled max_cves vulns s = (s', r) \<Longrightarrow>
     (\<not> enabled \<longrightarrow> s' = s \<and> r = empty_stage) \<and>
     (enabled \<longrightarrow> st_attempted r = int (length vulns) \<and>
        st_enriched r + st_failures r = min (max 0 max_cves) (int (length vulns)) \<and>
        s' = foldl (\<lambda>s p. fst (step s p)) s (take (nat max_cves) vulns) \<and>
        st_failures r = int (length (st_failed r)) \<and>
        subseq (map fst (st_failed r)) (map snd (take (nat max_cves) vulns)) \<and>
        list_all (\<lambda>f. length (snd f) \<le> 500) (st_failed r) \<and>
        (st_truncated r \<longleftrightarrow> max 0 max_cves < int (length vulns)))"
proof (cases enabled)
  case True
  assume a: "enrich_run_cves step enabled max_cves vulns s = (s', r)"
  obtain s1 n fs where e: "enrich_each step s (take (nat (max 0 max_cves)) vulns) = (s1, n, fs)"
    by (cases "enrich_each step s (take (nat (max 0 max_cves)) vulns)")
  have m: "nat (max 0 max_cves) = nat max_cves" by simp
  from a True e have r: "s' = s1" "r = \<lparr>st_attempted = int (length vulns), st_enriched = n,
      st_failures = int (length fs), st_truncated = (nat (max 0 max_cves) < length vulns), st_failed = fs\<rparr>"
    by (auto simp: enrich_run_cves_def Let_def)
  from enrich_each_spec [OF e] True show ?thesis unfolding r m
    by (simp add: min_def max_def) linarith
qed (auto simp: enrich_run_cves_def)

theorem enrichment_stage_accounts_witness:
  "let r = snd (enrich_run_cves (\<lambda>s p. (s + (1 :: int), if snd p = ''a'' then Inl ''boom'' else Inr ())) True 2
      [(''1'', ''a''), (''2'', ''b''), (''3'', ''c'')] 0)
   in st_attempted r = 3 \<and> st_enriched r + st_failures r = 2 \<and> st_truncated r \<and> st_failed r = [(''a'', ''boom'')]"
proof -
  let ?f = "\<lambda>s p. (s + (1 :: int), if snd p = ''a'' then Inl ''boom'' else Inr ())"
  let ?v = "[(''1'', ''a''), (''2'', ''b''), (''3'', ''c'')]"
  have "st_failed (snd (enrich_run_cves ?f True 2 ?v 0)) = [(''a'', ''boom'')]"
    by (simp add: enrich_run_cves_def Let_def)
  with enrichment_stage_accounts [where step = "?f" and enabled = True and max_cves = 2 and vulns = "?v" and s = 0,
      OF surjective_pairing] show ?thesis
    by (simp add: Let_def)
qed

section \<open>The run's vulnerabilities\<close>

text \<open>A claim of the run: its document's artifact was stored by it.\<close>

definition claim_of_run :: "evidence_db \<Rightarrow> uuid \<Rightarrow> claim_row \<Rightarrow> bool" where
  "claim_of_run db run_id c = (\<exists>w \<in> set (db_documents db). document_id w = cw_source_document_id c \<and>
     (\<exists>a \<in> set (db_artifacts db). ra_raw_artifact_id a = sd_raw_artifact_id (dw_document w) \<and>
        ra_ingestion_run_id a = run_id))"

lemma sole_row:
  assumes "unique_on key rows" "r \<in> set rows" "key r = k"
  shows "filter (\<lambda>x. key x = k) rows = [r]"
proof -
  obtain xs ys where rows: "rows = xs @ r # ys" using split_list [OF assms(2)] by blast
  have "key x \<noteq> k" if "x \<in> set xs \<union> set ys" for x
    using that assms(1,3) by (auto simp: rows unique_on_def image_iff)
  with assms(3) show ?thesis by (simp add: rows filter_empty_conv)
qed

lemma find_row_iff: "unique_on key rows \<Longrightarrow> find_row key k rows = Some r \<longleftrightarrow> r \<in> set rows \<and> key r = k"
  using find_row_Some [of key k rows r] find_row_unique [of key rows r] by auto

lemma concat_filter:
  "concat (map (\<lambda>x. if P x then f x else []) xs) = concat (map f (filter P xs))"
  by (induction xs) auto

lemma join_one:
  assumes "unique_on key rows"
  shows "concat (map (\<lambda>x. if key x = k then f x else []) rows)
     = (case find_row key k rows of None \<Rightarrow> [] | Some r \<Rightarrow> f r)"
proof (cases "find_row key k rows")
  case None
  then have "filter (\<lambda>x. key x = k) rows = []" by (auto simp: find_row_None has_row_iff filter_empty_conv)
  with None show ?thesis by (simp add: concat_filter)
next
  case (Some r)
  from find_row_Some [OF Some] sole_row [OF assms, of r k] Some show ?thesis by (simp add: concat_filter)
qed

lemma concat_replicate:
  "concat (map (\<lambda>c. if P c then (if Q c then [x] else []) else []) cs)
     = replicate (length (filter (\<lambda>c. P c \<and> Q c) cs)) x"
  by (induction cs) auto

lemma count_blocks:
  assumes "distinct (map x vs)" "v \<in> set vs"
  shows "length (filter (\<lambda>y. y = x v) (concat (map (\<lambda>u. replicate (n u) (x u)) vs))) = n v"
  using assms
proof (induction vs)
  case (Cons u vs)
  have none: "filter (\<lambda>y. y = x w) (concat (map (\<lambda>u. replicate (n u) (x u)) vs)) = []" if "x w \<notin> x ` set vs" for w
    using that by (auto simp: filter_empty_conv image_iff)
  show ?case
  proof (cases "v = u")
    case True
    with Cons.prems none [of u] show ?thesis by simp
  next
    case False
    with Cons show ?thesis by (auto simp: filter_empty_conv)
  qed
qed simp

lemma claim_of_run_join:
  assumes "evidence_ok db"
  shows "concat (map (\<lambda>w. if sd_source_document_id (dw_document w) = cw_source_document_id c
       then concat (map (\<lambda>a. if ra_raw_artifact_id a = sd_raw_artifact_id (dw_document w)
          then (if ra_ingestion_run_id a = run_id then [x] else []) else []) (db_artifacts db)) else []) (db_documents db))
     = (if claim_of_run db run_id c then [x] else [])"
proof -
  have u: "unique_on document_id (db_documents db)" "unique_on ra_raw_artifact_id (db_artifacts db)"
    using assms by (simp_all add: evidence_ok_def documents_ok_def artifacts_ok_def)
  have c: "claim_of_run db run_id c \<longleftrightarrow> (\<exists>w a. find_row document_id (cw_source_document_id c) (db_documents db) = Some w \<and>
      find_row ra_raw_artifact_id (sd_raw_artifact_id (dw_document w)) (db_artifacts db) = Some a \<and>
      ra_ingestion_run_id a = run_id)"
    unfolding claim_of_run_def find_row_iff [OF u(1)] find_row_iff [OF u(2)] by blast
  note j1 = join_one [OF u(1), unfolded document_id_def] and j2 = join_one [OF u(2)]
  show ?thesis unfolding j2 j1
    by (auto simp: c document_id_def [abs_def, symmetric] split: option.splits)
qed

text \<open>The stage's work list counts claims, not vulnerabilities: each stored vulnerability
  occurs in it once for every claim about it from a document of the run, so a CVE that several
  of the run's documents mention is enriched several times and takes that many places of the
  cap.\<close>

theorem work_list_counts_claims:
  assumes "evidence_ok db" and "v \<in> set (db_vulnerabilities db)"
  shows "length (filter (\<lambda>p. p = (vr_id v, vr_cve_id v)) (vulnerability_ids_for_run db run_id))
     = length (filter (\<lambda>c. cw_subject_entity_id c = vr_id v \<and> claim_of_run db run_id c) (db_claims db))"
proof -
  let ?x = "\<lambda>v. (vr_cve_id v, vr_id v)"
  let ?n = "\<lambda>v. length (filter (\<lambda>c. cw_subject_entity_id c = vr_id v \<and> claim_of_run db run_id c) (db_claims db))"
  let ?list = "concat (map (\<lambda>u. replicate (?n u) (?x u)) (db_vulnerabilities db))"
  have e: "vulnerability_ids_for_run db run_id = map (\<lambda>(c, i). (i, c)) (sort ?list)"
    unfolding vulnerability_ids_for_run_def unfolding claim_of_run_join [OF assms(1)]
    unfolding concat_replicate by (rule refl)
  have "unique_on vr_id (db_vulnerabilities db)" using assms(1) by (simp add: evidence_ok_def findings_ok_def)
  then have d: "distinct (map ?x (db_vulnerabilities db))" by (auto simp: unique_on_def distinct_map inj_on_def)
  have "length (filter (\<lambda>p. p = (vr_id v, vr_cve_id v)) (map (\<lambda>(c, i). (i, c)) ys))
      = length (filter (\<lambda>y. y = ?x v) ys)" for ys
    by (induction ys) auto
  moreover have "length (filter P (sort ys)) = length (filter P ys)" for P and ys :: "(string \<times> uuid) list"
    by (metis mset_filter mset_sort size_mset)
  ultimately show ?thesis unfolding e using count_blocks [OF d assms(2), of ?n] by simp
qed

definition demo_document :: "uuid \<Rightarrow> string \<Rightarrow> source_document" where
  "demo_document i external = \<lparr>sd_source_document_id = i, sd_source_id = ''s'', sd_raw_artifact_id = ''art'',
     sd_external_source_id = Some external, sd_canonical_url = ''u'', sd_title = ''t'', sd_authors = [],
     sd_published_at = None, sd_updated_at_source = None, sd_retrieved_at = 0, sd_content_type = ''c'',
     sd_normalized_text = ''x'', sd_sanitized_summary = None, sd_language = None,
     sd_document_type = DOC_ADVISORY, sd_normalized_content_hash = ''h'', sd_supersedes_id = None,
     sd_parse_version = ''1''\<rparr>"

definition demo_claim :: "uuid \<Rightarrow> uuid \<Rightarrow> claim_row" where
  "demo_claim i doc = \<lparr>cw_id = i, cw_source_document_id = doc, cw_subject_entity_id = ''v'',
     cw_object_literal = ''CVE-2024-0001'', cw_evidence_text = ''CVE-2024-0001'', cw_start_offset = 0,
     cw_end_offset = 13, cw_extraction_origin = ''cve-id-format''\<rparr>"

text \<open>One run of one source with two documents that mention the same CVE.\<close>

definition demo_evidence :: evidence_db where
  "demo_evidence = \<lparr>db_runs = [\<lparr>ir_id = ''r'', ir_run_type = ''collect_once'', ir_idempotency_key = ''k'',
       ir_scheduled_for = None, ir_started_at = Some 0, ir_completed_at = Some 1, ir_status = RS_COMPLETED,
       ir_triggering_origin = ''o'', ir_application_version = ''1'', ir_configuration_hash = ''h'',
       ir_total_sources = 1, ir_successful_sources = 1, ir_failed_sources = 0, ir_new_documents = 2,
       ir_new_findings = 2, ir_error_summary = None\<rparr>],
     db_sources = [\<lparr>so_source_id = ''s'', so_name = ''S'', so_source_type = ST_JSON, so_canonical_base_url = ''u'',
       so_category = CAT_NEWS, so_enabled = True, so_reliability = REL_GENERAL_NEWS,
       so_polling_interval_seconds = 1, so_timeout_seconds = 1, so_max_response_bytes = 1, so_tags = [],
       so_configuration_version = 1, so_last_successful_retrieval = None, so_last_failure = None,
       so_consecutive_failure_count = 0\<rparr>],
     db_history = [\<lparr>ch_id = ''c'', ch_source_id = ''s'', ch_configuration_version = 1,
       ch_configuration_hash = ''h'', ch_configuration = ''j'', ch_recorded_at = 0\<rparr>],
     db_source_runs = [],
     db_artifacts = [\<lparr>ra_raw_artifact_id = ''art'', ra_source_id = ''s'', ra_retrieval_url = ''u'',
       ra_canonical_url = ''u'', ra_retrieved_at = 0, ra_response_status = 200, ra_content_type = None,
       ra_encoding = None, ra_etag = None, ra_last_modified = None, ra_content_hash = ''h'',
       ra_byte_length = 1, ra_ingestion_run_id = ''r''\<rparr>],
     db_documents = [\<lparr>dw_document = demo_document ''d1'' ''a'', dw_identity_key = ''a'', dw_document_version = 1\<rparr>,
       \<lparr>dw_document = demo_document ''d2'' ''b'', dw_identity_key = ''b'', dw_document_version = 1\<rparr>],
     db_indicators = [], db_sightings = [],
     db_vulnerabilities = [\<lparr>vr_id = ''v'', vr_cve_id = ''CVE-2024-0001'', vr_fields = []\<rparr>],
     db_claims = [demo_claim ''c1'' ''d1'', demo_claim ''c2'' ''d2''], db_evidence = []\<rparr>"

lemma demo_evidence_ok: "evidence_ok demo_evidence"
  by code_simp

theorem work_list_counts_claims_witness:
  "length (filter (\<lambda>p. p = (''v'', ''CVE-2024-0001'')) (vulnerability_ids_for_run demo_evidence ''r'')) = 2"
proof -
  let ?v = "\<lparr>vr_id = ''v'', vr_cve_id = ''CVE-2024-0001'', vr_fields = []\<rparr>"
  have "?v \<in> set (db_vulnerabilities demo_evidence)" by (simp add: demo_evidence_def)
  note w = work_list_counts_claims [OF demo_evidence_ok this, of "''r''"]
  have "int (length (filter (\<lambda>c. cw_subject_entity_id c = vr_id ?v \<and> claim_of_run demo_evidence ''r'' c)
      (db_claims demo_evidence))) = 2"
    by code_simp
  with w show ?thesis by simp
qed

section \<open>The store across a run\<close>

lemma extract_documents_ok:
  "extract_documents e run_id t db ps = Inr (db', n) \<Longrightarrow> evidence_ok db \<Longrightarrow> evidence_ok db' \<and> grows db db'"
proof (induction ps arbitrary: db n)
  case (Cons p ps)
  obtain d w where p: "p = (d, w)" by (cases p)
  from Cons.prems(1) p obtain x db1 k m where
    1: "persist_extraction (pe_store e) db x run_id t = Inr (db1, k)"
    and 2: "extract_documents e run_id t db1 ps = Inr (db', m)"
    by (auto simp: rbind_Inr_iff split: sum.splits prod.splits)
  from persist_extraction_ok [OF 1 Cons.prems(2)] Cons.IH [OF 2] show ?case by (blast intro: grows_trans)
qed simp

lemma extract_documents_limit:
  "(d, w) \<in> set ps \<Longrightarrow> 1000000 < int (length (sd_normalized_text d)) \<Longrightarrow>
     \<exists>x. extract_documents e run_id t db ps = Inl x"
proof (induction ps arbitrary: db)
  case (Cons p ps)
  have big: "extract_document u v (d\<lparr>sd_source_document_id := i\<rparr>) (Some default_extraction_config) = Inl ExtractionLimitError" for u v i
    using Cons.prems(2) by (simp add: extract_document_def default_extraction_config_def Let_def)
  show ?case
  proof (cases "p = (d, w)")
    case True
    then show ?thesis using big by simp
  next
    case False
    with Cons.prems have "(d, w) \<in> set ps" by auto
    note i = Cons.IH [OF this Cons.prems(2)]
    obtain d' w' where p: "p = (d', w')" by (cases p)
    have "extract_documents e run_id t db1 ps \<noteq> Inr y" for db1 y using i [of db1] by auto
    then show ?thesis by (auto simp: p rbind_def split: sum.splits)
  qed
qed simp

lemma extract_documents_runs:
  "extract_documents e run_id t db ps = Inr (db', n) \<Longrightarrow> db_runs db' = db_runs db"
proof (induction ps arbitrary: db n)
  case (Cons p ps)
  obtain d w where p: "p = (d, w)" by (cases p)
  have ev: "insert_entity_evidence ids x a = Inr b \<Longrightarrow> db_runs b = db_runs a" for ids x a b
    by (auto simp: insert_entity_evidence_def rbind_Inr_iff)
  have ob: "persist_observation (pe_store e) run_id t a x = Inr b \<Longrightarrow> db_runs b = db_runs a" for a x b
    by (auto simp: persist_observation_def Let_def rbind_Inr_iff dest!: ev)
  have cve: "persist_cve (pe_store e) t a x = Inr b \<Longrightarrow> db_runs b = db_runs a" for a x b
    by (auto simp: persist_cve_def Let_def rbind_Inr_iff dest!: ev)
  from Cons.prems p obtain x db1 k m where
    1: "persist_extraction (pe_store e) db x run_id t = Inr (db1, k)"
    and 2: "extract_documents e run_id t db1 ps = Inr (db', m)"
    by (auto simp: rbind_Inr_iff split: sum.splits prod.splits)
  from 1 obtain c where "fold_result (persist_observation (pe_store e) run_id t) db (xr_observations x) = Inr c"
    "fold_result (persist_cve (pe_store e) t) c (xr_cve_candidates x) = Inr db1"
    by (auto simp: persist_extraction_def rbind_Inr_iff)
  from fold_runs_frame [OF this(1) ob] fold_runs_frame [OF this(2) cve] Cons.IH [OF 2] show ?case by simp
qed simp

lemma list_all2_in_set1: "list_all2 P xs ys \<Longrightarrow> x \<in> set xs \<Longrightarrow> \<exists>y \<in> set ys. P x y"
  by (induction rule: list_all2_induct) auto


text \<open>One document loses the run: if a collected document has an identity that does not fit
  its column, or more text than extraction accepts (a response may be ten times as large), the
  run raises and its transaction is rolled back: no evidence of any source is stored, while the
  conditional validators are those of the responses just collected.\<close>

theorem one_document_loses_run:
  assumes "collect_once (pe_ingestion e) (pl_validators s) sources (run_id_of e (idempotency_key e t))
      (Some (idempotency_key e t)) (Some t) = (vs, Inr c)"
    and "d \<in> set (cl_source_documents c)" and "idempotency_key e t \<noteq> []"
    and "\<not> varchar 1024 (identity_key_of d) \<or> 1000000 < int (length (sd_normalized_text d))"
    and "\<not> has_row document_key ((sd_source_id d, identity_key_of d), sd_normalized_content_hash d)
      (db_documents (id_evidence (pl_db s)))"
    and "\<not> has_row ir_idempotency_key (rm_idempotency_key (cl_manifest c)) (db_runs (id_evidence (pl_db s)))"
  shows "\<exists>x. pipeline_run_once e False s sources t None = (s\<lparr>pl_validators := vs\<rparr>, Inl x)"
proof -
  let ?ev = "id_evidence (pl_db s)"
  have "\<exists>x. persist_and_extract e ?ev sources c = Inl x"
  proof (cases "persist_collection_with_documents (pe_store e) ?ev sources c")
    case (Inl x)
    then show ?thesis by (simp add: persist_and_extract_def)
  next
    case (Inr p)
    obtain ev r ws where p: "p = (ev, r, ws)" by (cases p)
    have fits: "varchar 1024 (identity_key_of d)"
      using document_aborts [OF assms(2) _ assms(5,6), of "pe_store e" sources] Inr by auto
    with assms(4) have big: "1000000 < int (length (sd_normalized_text d))" by simp
    have "length ws = length (cl_source_documents c)"
      using persisted_length [OF Inr [unfolded p]] assms(6) by simp
    then obtain w where "(d, w) \<in> set (zip (cl_source_documents c) ws)"
      using assms(2) by (metis in_set_zip in_set_conv_nth fst_conv snd_conv)
    have "extract_documents e i u db1 (zip (cl_source_documents c) ws) \<noteq> Inr y" for i u db1 y
      using extract_documents_limit [OF \<open>(d, w) \<in> _\<close> big, of e i u db1] by auto
    moreover have "ws \<noteq> []" using \<open>length ws = _\<close> assms(2) by auto
    ultimately show ?thesis
      by (auto simp: persist_and_extract_def Inr p rbind_def split: option.splits sum.splits)
  qed
  then show ?thesis using assms(1,3)
    by (auto simp: pipeline_run_once_def Let_def or_else_def)
qed

section \<open>The retry of a failed run\<close>

definition cached_validators :: "(string \<times> validators) list \<Rightarrow> source_config \<Rightarrow> validators" where
  "cached_validators vs source = (case dict_get (cf_source_id source) vs of None \<Rightarrow> no_validators | Some v \<Rightarrow> v)"

text \<open>A source answers the conditional request with Not Modified.\<close>

definition not_modified :: "ingestion_env \<Rightarrow> (string \<times> validators) list \<Rightarrow> source_config \<Rightarrow> bool" where
  "not_modified e vs source = (case snd (fetch (ie_world e (cf_source_id source)) (ie_client e) (cf_url source)
       (Some (cf_request source)) (request_headers e source (cached_validators vs source))
       (cf_max_response_bytes source)) of Inl _ \<Rightarrow> False | Inr f \<Rightarrow> fr_status_code f = 304)"

lemma collect_source_304:
  assumes "cf_enabled s \<longrightarrow> not_modified e vs s"
  shows "fst (collect_source e i vs s) = vs \<and> sl_documents (snd (collect_source e i vs s)) = [] \<and>
     sl_raw_artifact (snd (collect_source e i vs s)) = None \<and>
     sr_status (sl_result (snd (collect_source e i vs s))) \<noteq> RS_FAILED"
  using assms by (auto simp: collect_source_def not_modified_def cached_validators_def Let_def run_result_of_def
      split: sum.splits)

lemma collect_all_304:
  assumes "\<forall>s \<in> set sources. cf_enabled s \<longrightarrow> not_modified e vs s"
  shows "fst (collect_all e i vs sources) = vs \<and> (\<forall>x \<in> set (snd (collect_all e i vs sources)).
     sl_documents x = [] \<and> sl_raw_artifact x = None \<and> sr_status (sl_result x) \<noteq> RS_FAILED)"
  using assms
proof (induction sources)
  case (Cons s ss)
  with collect_source_304 [of s e vs i] show ?case by (auto simp: Let_def split: prod.splits)
qed simp

lemma collect_once_304:
  assumes "\<forall>s \<in> set sources. cf_enabled s \<longrightarrow> not_modified e vs s"
    and "collect_once e vs sources i key t = (vs', Inr c)"
  shows "vs' = vs \<and> cl_source_documents c = [] \<and> rm_status (cl_manifest c) = RS_COMPLETED"
proof -
  obtain xs where run: "collect_all e i vs sources = (vs, xs)"
    and x: "\<forall>x \<in> set xs. sl_documents x = [] \<and> sr_status (sl_result x) \<noteq> RS_FAILED"
    using collect_all_304 [OF assms(1), of i] by (cases "collect_all e i vs sources") auto
  have "count_status RS_FAILED (run_results xs) = 0"
    using x by (auto simp: count_status_def run_results_def filter_empty_conv)
  moreover have "set (run_documents xs) = {}" using x by (auto simp: run_documents_def)
  ultimately show ?thesis using assms(2) run
    by (auto simp: collect_once_def rbind_Inr_iff manifest_of_def Let_def dest!: manifest_kept)
qed

lemma set_run_of_no_documents:
  assumes "persist_and_extract e db sources c = Inr (db', r, x)" "cl_source_documents c = []"
    and "rm_status (cl_manifest c) = RS_COMPLETED"
  shows "\<not> x \<and> db_documents db' = db_documents db \<and> ir_status r = RS_COMPLETED"
proof -
  obtain db1 r1 ws where p: "persist_collection_with_documents (pe_store e) db sources c = Inr (db1, r1, ws)"
    using assms(1) by (auto simp: persist_and_extract_def split: sum.splits)
  obtain db0 r where run: "create_or_get_run (pe_store e) db (cl_manifest c) = Inr (db0, r)"
    and rest: "already_persisted r \<and> db1 = db0 \<and> r1 = r \<and> ws = [] \<or> (\<exists>a b d f.
       fold_result (upsert_source (pe_store e)) db0 sources = Inr a \<and>
       fold_result (merge_source_run (ir_id r)) a (rm_source_results (cl_manifest c)) = Inr b \<and>
       fold_result persist_raw_artifact b (cl_raw_artifacts c) = Inr d \<and>
       persist_documents d (cl_source_documents c) = Inr (f, ws) \<and>
       r1 = finish_run (cl_manifest c) r \<and> db1 = set_run r1 f)"
    by (rule persist_collection_steps [OF p]) blast
  from rest have "ws = [] \<and> db_documents db1 = db_documents db \<and> ir_status r1 = RS_COMPLETED"
  proof (elim disjE exE conjE)
    assume "already_persisted r" "db1 = db0" "r1 = r" "ws = []"
    then show ?thesis using documents_frame(1) [OF run] by (simp add: already_persisted_def)
  next
    fix a b d f
    assume 1: "fold_result (upsert_source (pe_store e)) db0 sources = Inr a"
      and 2: "fold_result (merge_source_run (ir_id r)) a (rm_source_results (cl_manifest c)) = Inr b"
      and 3: "fold_result persist_raw_artifact b (cl_raw_artifacts c) = Inr d"
      and 4: "persist_documents d (cl_source_documents c) = Inr (f, ws)"
      and 5: "r1 = finish_run (cl_manifest c) r" "db1 = set_run r1 f"
    then show ?thesis using assms(2,3) documents_frame(1) [OF run] fold_documents_frame [OF 1 documents_frame(2)]
        fold_documents_frame [OF 2 documents_frame(3)] fold_documents_frame [OF 3 documents_frame(4)]
      by (simp add: finish_run_def)
  qed
  with assms(1) p show ?thesis by (auto simp: persist_and_extract_def)
qed

text \<open>C28. A failed run loses its evidence: when a run fails after collecting, the database is as
  before but the conditional validators are those of the responses just read; if the sources
  then answer Not Modified, the retry stores no document and reports a completed run, so what
  the failed run had collected is missing until the sources change.\<close>

theorem failed_run_loses_evidence:
  assumes "pipeline_run_once e False s sources t None = (s1, Inl x)"
    and "\<forall>src \<in> set sources. cf_enabled src \<longrightarrow> not_modified (pe_ingestion e2) (pl_validators s1) src"
    and "pipeline_run_once e2 False s1 sources t None = (s2, Inr r)"
  shows "pl_db s1 = pl_db s \<and> (\<exists>key i. pl_validators s1
       = fst (collect_once (pe_ingestion e) (pl_validators s) sources i (Some key) (Some t))) \<and>
     dr_run_status r = Some RS_COMPLETED \<and> pl_validators s2 = pl_validators s1 \<and>
     db_documents (id_evidence (pl_db s2)) = db_documents (id_evidence (pl_db s))"
proof -
  have 1: "pl_db s1 = pl_db s \<and> (\<exists>key i. pl_validators s1
       = fst (collect_once (pe_ingestion e) (pl_validators s) sources i (Some key) (Some t)))"
  proof -
    let ?key = "or_else [] (idempotency_key e t)"
    obtain vs y where "collect_once (pe_ingestion e) (pl_validators s) sources (run_id_of e ?key) (Some ?key) (Some t)
        = (vs, y)" by fastforce
    moreover from this have "pl_db s1 = pl_db s \<and> pl_validators s1 = vs"
      using assms(1) by (auto simp: pipeline_run_once_def Let_def split: sum.splits if_splits prod.splits)
    ultimately show ?thesis by (metis fst_conv)
  qed
  from assms(3) obtain vs c ev r1 x1 where
    c: "collect_once (pe_ingestion e2) (pl_validators s1) sources
         (run_id_of e2 (or_else [] (idempotency_key e2 t))) (Some (or_else [] (idempotency_key e2 t))) (Some t) = (vs, Inr c)"
    and p: "persist_and_extract e2 (id_evidence (pl_db s1)) sources c = Inr (ev, r1, x1)"
    and s2: "\<not> x1 \<longrightarrow> s2 = \<lparr>pl_validators = vs, pl_db = (pl_db s1)\<lparr>id_evidence := ev\<rparr>\<rparr> \<and>
       r = daily_result_of r1 c empty_stage"
    by (auto simp: pipeline_run_once_def Let_def split: prod.splits sum.splits if_splits)
  note n = collect_once_304 [OF assms(2) c]
  from set_run_of_no_documents [OF p] n s2 1 show ?thesis by (auto simp: daily_result_of_def)
qed

section \<open>A concrete pipeline\<close>

definition demo_store :: store_env where
  "demo_store = \<lparr>se_uuid5 = (\<lambda>n s. n @ s), se_sha256 = id, se_config_json = cf_source_id, se_now = 0,
     se_version = ''1''\<rparr>"

definition empty_evidence :: evidence_db where
  "empty_evidence = \<lparr>db_runs = [], db_sources = [], db_history = [], db_source_runs = [], db_artifacts = [],
     db_documents = [], db_indicators = [], db_sightings = [], db_vulnerabilities = [], db_claims = [], db_evidence = []\<rparr>"

text \<open>A run of one source that collected one document, under an external id of its source.\<close>

definition demo_collection :: "string \<Rightarrow> collection_result" where
  "demo_collection external = \<lparr>cl_manifest = \<lparr>rm_ingestion_run_id = ''r'', rm_run_type = ''collect_once'',
       rm_idempotency_key = ''k'', rm_scheduled_for = None, rm_started_at = Some 0, rm_completed_at = Some 1,
       rm_status = RS_COMPLETED, rm_triggering_origin = ''o'', rm_application_version = ''1'',
       rm_configuration_hash = ''h'', rm_total_sources = 1, rm_successful_sources = 1, rm_failed_sources = 0,
       rm_new_documents = 1, rm_source_results = [\<lparr>sr_source_id = ''s'', sr_started_at = 0,
         sr_completed_at = Some 1, sr_status = RS_COMPLETED, sr_http_status = Some 200, sr_item_count = 1,
         sr_retry_count = 0, sr_cache_state = CS_MISS, sr_error_classification = None, sr_error_detail = None\<rparr>],
       rm_error_summary = None\<rparr>,
     cl_raw_artifacts = [\<lparr>ra_raw_artifact_id = ''art'', ra_source_id = ''s'', ra_retrieval_url = ''u'',
       ra_canonical_url = ''u'', ra_retrieved_at = 0, ra_response_status = 200, ra_content_type = None,
       ra_encoding = None, ra_etag = None, ra_last_modified = None, ra_content_hash = ''h'',
       ra_byte_length = 1, ra_ingestion_run_id = ''r''\<rparr>],
     cl_source_documents = [demo_document ''d1'' external]\<rparr>"


abbreviation demo_persisted :: "store_error + evidence_db \<times> run_row \<times> document_row list" where
  "demo_persisted \<equiv> persist_collection_with_documents demo_store empty_evidence [demo_source ''s''] (demo_collection ''a'')"

lemma demo_persisted: "\<exists>db r w. demo_persisted = Inr (db, r, [w]) \<and> \<not> already_persisted r"
proof -
  have "ok demo_persisted \<and> \<not> already_persisted (fst (snd (projr demo_persisted))) \<and>
      length (snd (snd (projr demo_persisted))) = 1"
    by code_simp
  then obtain p where "demo_persisted = Inr p" "\<not> already_persisted (fst (snd p))"
    "length (snd (snd p)) = Suc 0" by (auto simp: ok_iff)
  then show ?thesis by (cases p) (auto simp: length_Suc_conv)
qed

lemma empty_evidence_ok: "evidence_ok empty_evidence"
  by code_simp

theorem persist_collection_idempotent_witness:
  "\<exists>db1 r w db2. demo_persisted = Inr (db1, r, [w]) \<and>
     persist_collection_with_documents demo_store db1 [demo_source ''s''] (demo_collection ''a'') = Inr (db2, r, [w]) \<and>
     db_documents db2 = db_documents db1"
proof -
  from demo_persisted obtain db1 r w where p: "demo_persisted = Inr (db1, r, [w])" "\<not> already_persisted r"
    by blast
  from persist_collection_idempotent [OF empty_evidence_ok this] p(1) show ?thesis by blast
qed

definition answering :: "int \<Rightarrow> string \<Rightarrow> outcome" where
  "answering status body = Responds \<lparr>rs_url = ''https://x.test'', rs_status_code = status,
     rs_headers = [(''Content-Type'', ''application/json''), (''ETag'', ''e'')], rs_chunks = [body]\<rparr> None"

definition demo_pipeline :: "outcome \<Rightarrow> pipeline_env" where
  "demo_pipeline out = \<lparr>pe_ingestion = demo_ingestion\<lparr>ie_world := \<lambda>i. demo_world out\<rparr>, pe_store = demo_store,
     pe_uuid5 = id, pe_punycode = Some, pe_isodate = (\<lambda>d. ''day''),
     pe_enrichment = \<lparr>ee_env = (\<lambda>n. limited_env), ee_clock = (\<lambda>n. 0), ee_now = (\<lambda>n. 0), ee_codec = demo_codec,
       ee_store = demo_store, ee_score_version = ''1''\<rparr>, pe_enrichment_enabled = False,
     pe_enrichment_pipeline_enabled = False, pe_max_cves_per_run = 0, pe_providers = [],
     pe_cache = \<lparr>ec_entries = [], ec_stale_if_error_seconds = 0\<rparr>\<rparr>"

definition demo_state :: "(string \<times> validators) list \<Rightarrow> pipeline_state" where
  "demo_state vs = \<lparr>pl_validators = vs, pl_db = \<lparr>id_evidence = empty_evidence, id_results = [],
     id_assessments = [], id_observations = [], id_selections = []\<rparr>\<rparr>"

text \<open>A source whose record has an identifier with a NUL byte.\<close>

abbreviation nul_pipeline :: pipeline_env where
  "nul_pipeline \<equiv> demo_pipeline (answering 200 [CHR 0x00])"

definition nul_collection :: "collection_result result \<Rightarrow> bool" where
  "nul_collection r = (case r of Inl _ \<Rightarrow> False
     | Inr c \<Rightarrow> (case cl_source_documents c of [d] \<Rightarrow> \<not> varchar 1024 (identity_key_of d) | _ \<Rightarrow> False))"

abbreviation nul_run :: "(string \<times> validators) list \<times> collection_result result" where
  "nul_run \<equiv> collect_once (pe_ingestion nul_pipeline) (pl_validators (demo_state [])) [demo_source ''a'']
     (run_id_of nul_pipeline (idempotency_key nul_pipeline 0)) (Some (idempotency_key nul_pipeline 0)) (Some 0)"

lemma nul_run: "nul_collection (snd nul_run)"
  by code_simp

lemma no_rows [simp]: "\<not> has_row key k []"
  by (simp add: has_row_def)

theorem one_document_loses_run_witness:
  "\<exists>vs x. pipeline_run_once nul_pipeline False (demo_state []) [demo_source ''a''] 0 None
     = ((demo_state [])\<lparr>pl_validators := vs\<rparr>, Inl x)"
proof -
  obtain vs c where r: "nul_run = (vs, Inr c)" and n: "nul_collection (Inr c)"
    using nul_run by (cases nul_run; cases "snd nul_run") (auto simp: nul_collection_def)
  from n obtain d where d: "d \<in> set (cl_source_documents c)" "\<not> varchar 1024 (identity_key_of d)"
    by (auto simp: nul_collection_def split: list.splits)
  have "db_documents (id_evidence (pl_db (demo_state []))) = []" "db_runs (id_evidence (pl_db (demo_state []))) = []"
    and "idempotency_key nul_pipeline 0 \<noteq> []"
    by (simp_all add: demo_state_def empty_evidence_def idempotency_key_def)
  with one_document_loses_run [OF r d(1)] d(2) show ?thesis by auto
qed


abbreviation nul_result :: "pipeline_state \<times> (pipeline_exn + daily_result)" where
  "nul_result \<equiv> pipeline_run_once nul_pipeline False (demo_state []) [demo_source ''a''] 0 None"

definition demo_validators :: "(string \<times> validators) list" where
  "demo_validators = [(''a'', \<lparr>va_etag = Some ''e'', va_last_modified = None\<rparr>)]"

lemma nul_run_fails: "fst nul_result = demo_state demo_validators \<and> \<not> ok (snd nul_result)"
  by code_simp

abbreviation unchanged_pipeline :: pipeline_env where
  "unchanged_pipeline \<equiv> demo_pipeline (answering 304 [])"

lemma unchanged_retry:
  "ok (snd (pipeline_run_once unchanged_pipeline False (demo_state demo_validators) [demo_source ''a''] 0 None))"
  by code_simp

lemma unchanged: "not_modified (pe_ingestion unchanged_pipeline) demo_validators (demo_source ''a'')"
  by code_simp

theorem failed_run_loses_evidence_witness:
  "\<exists>x s2 r. nul_result = (demo_state demo_validators, Inl x) \<and>
     pipeline_run_once unchanged_pipeline False (demo_state demo_validators) [demo_source ''a''] 0 None = (s2, Inr r) \<and>
     dr_run_status r = Some RS_COMPLETED \<and> db_documents (id_evidence (pl_db s2)) = []"
proof -
  obtain x where 1: "nul_result = (demo_state demo_validators, Inl x)"
    using nul_run_fails by (cases nul_result; cases "snd nul_result") auto
  obtain s2 r where 2: "pipeline_run_once unchanged_pipeline False (demo_state demo_validators) [demo_source ''a''] 0 None
      = (s2, Inr r)"
    using unchanged_retry by (auto simp: ok_iff) (metis prod.collapse)
  have "\<forall>src \<in> set [demo_source ''a'']. cf_enabled src \<longrightarrow>
      not_modified (pe_ingestion unchanged_pipeline) (pl_validators (demo_state demo_validators)) src"
    using unchanged by (simp add: demo_state_def)
  from failed_run_loses_evidence [OF 1 this 2] 1 2 show ?thesis by (simp add: demo_state_def empty_evidence_def)
qed

end
