(* ===== verification/Scheduler_Facts.thy ===== *)
theory Scheduler_Facts
  imports Daily_Pipeline
begin

text \<open>
  The scheduler: which scheduled instants it serves.  The interface \<open>schedule_zone\<close> states
  what it relies on in the time zone: the target hour is reached exactly once a day.
\<close>

lemma total_seconds_le: "total_seconds a b \<le> total_seconds c b \<longleftrightarrow> a \<le> c"
  by (simp add: total_seconds_def divide_le_cancel)

lemma total_seconds_diff: "total_seconds a b = total_seconds a c - total_seconds b c"
  by (simp add: total_seconds_def field_simps)

lemma total_seconds_nonneg: "0 \<le> total_seconds a b \<longleftrightarrow> b \<le> a"
  by (simp add: total_seconds_def zero_le_divide_iff)

definition hour_length :: int where
  "hour_length = 3600000000"

definition target_wall :: "int \<Rightarrow> int \<Rightarrow> int" where
  "target_wall hour d = d * day_length + hour * hour_length"

locale schedule_zone =
  fixes z :: zone and hour :: int
  assumes hour_range: "0 \<le> hour" "hour < 24"
    and reached: "zn_utc z (target_wall hour d) \<le> t \<longleftrightarrow> target_wall hour d \<le> zn_local z t"
begin

definition point :: "int \<Rightarrow> instant" where
  "point d = zn_utc z (target_wall hour d)"

lemma point_reached: "point d \<le> t \<longleftrightarrow> target_wall hour d \<le> zn_local z t"
  by (simp add: point_def reached)

lemma wall_mono: "target_wall hour c \<le> target_wall hour d \<longleftrightarrow> c \<le> d"
  by (simp add: target_wall_def day_length_def)

lemma point_mono: "c \<le> d \<Longrightarrow> point c \<le> point d"
  using wall_mono [of c d] point_reached [of d "point d"] point_reached [of c "point d"] by auto

text \<open>The day whose point was reached last.\<close>

definition day_at :: "instant \<Rightarrow> int" where
  "day_at t = (let d = zn_local z t div day_length in if zn_local z t < target_wall hour d then d - 1 else d)"

lemma day_bounds: "zn_local z t div day_length * day_length \<le> zn_local z t"
    "zn_local z t < zn_local z t div day_length * day_length + day_length"
  using minus_mod_eq_div_mult [of "zn_local z t" day_length] pos_mod_bound [of day_length "zn_local z t"]
    pos_mod_sign [of day_length "zn_local z t"] by (auto simp: day_length_def)

lemma day_at_reached: "point (day_at t) \<le> t" "t < point (day_at t + 1)"
proof -
  show "point (day_at t) \<le> t"
    using day_bounds [of t] hour_range
    by (auto simp: point_reached day_at_def Let_def target_wall_def day_length_def hour_length_def)
  have "\<not> point (day_at t + 1) \<le> t"
    using day_bounds [of t] hour_range
    by (auto simp: point_reached day_at_def Let_def target_wall_def day_length_def hour_length_def)
  then show "t < point (day_at t + 1)" by simp
qed

lemma scheduled_is_point: "scheduled_for z hour t = point (day_at t)"
  by (simp add: scheduled_for_def target_of_def point_def day_at_def Let_def target_wall_def hour_length_def
      left_diff_distrib algebra_simps)

lemma next_is_point: "next_scheduled_for z hour t = point (day_at t + 1)"
  by (simp add: next_scheduled_for_def target_of_def point_def day_at_def Let_def target_wall_def hour_length_def
      algebra_simps)

lemma day_at_unique: "point d \<le> t \<Longrightarrow> t < point (d + 1) \<Longrightarrow> day_at t = d"
  using day_at_reached [of t] point_mono [of "d + 1" "day_at t"] point_mono [of "day_at t + 1" d] by linarith

lemma next_after: "t < next_scheduled_for z hour t"
  unfolding next_is_point by (rule day_at_reached(2))

lemma next_least: "t < point d \<Longrightarrow> next_scheduled_for z hour t \<le> point d"
  unfolding next_is_point using day_at_reached(1) [of t] point_mono [of "day_at t + 1" d] point_mono [of d "day_at t"]
  by linarith

end

section \<open>Runs of the scheduler\<close>

text \<open>\<open>run_forever\<close>: attempt \<open>i\<close> starts at \<open>start i\<close> and ends at \<open>stop i\<close>; the process then
  sleeps at least the requested time and wakes at most \<open>late\<close> seconds after it.\<close>

definition scheduler_run :: "(instant \<Rightarrow> 's \<Rightarrow> 's \<times> ('x + 'r)) \<Rightarrow> zone \<Rightarrow> int \<Rightarrow> rat \<Rightarrow> (nat \<Rightarrow> 's) \<Rightarrow> (nat \<Rightarrow> instant)
    \<Rightarrow> (nat \<Rightarrow> instant) \<Rightarrow> bool" where
  "scheduler_run run z hour late st start stop = (\<forall>i. start i \<le> stop i \<and>
     (case scheduler_step run z hour (start i) (stop i) (st i) of (s', d) \<Rightarrow>
        st (Suc i) = s' \<and> d \<le> total_seconds (start (Suc i)) (stop i) \<and>
        total_seconds (start (Suc i)) (stop i) \<le> d + late))"

definition attempt_succeeds :: "(instant \<Rightarrow> 's \<Rightarrow> 's \<times> ('x + 'r)) \<Rightarrow> zone \<Rightarrow> int \<Rightarrow> instant \<Rightarrow> 's \<Rightarrow> bool" where
  "attempt_succeeds run z hour t s = (case snd (run (scheduled_for z hour t) s) of Inl _ \<Rightarrow> False | Inr _ \<Rightarrow> True)"

context schedule_zone begin

lemma slept:
  assumes "scheduler_run run z hour late st start stop"
  shows "stop i + 1000000 \<le> start (Suc i)"
    and "total_seconds (start (Suc i)) (stop i) \<le> 60 + late \<or>
      next_scheduled_for z hour (stop i) \<le> start (Suc i) \<and>
      total_seconds (start (Suc i)) (stop i) \<le> max 1 (total_seconds (next_scheduled_for z hour (stop i)) (stop i)) + late"
proof -
  obtain s' d where s: "scheduler_step run z hour (start i) (stop i) (st i) = (s', d)"
    by (cases "scheduler_step run z hour (start i) (stop i) (st i)")
  with assms have d: "d \<le> total_seconds (start (Suc i)) (stop i)" "total_seconds (start (Suc i)) (stop i) \<le> d + late"
    by (auto simp: scheduler_run_def split: prod.splits)
  have c: "d = 60 \<or> d = max 1 (total_seconds (next_scheduled_for z hour (stop i)) (stop i))"
    using s by (auto simp: scheduler_step_def split: prod.splits sum.splits)
  have "1 \<le> d" using c by auto
  with d(1) have "(1000000 :: rat) \<le> of_int (start (Suc i) - stop i)" by (simp add: total_seconds_def)
  then have "1000000 \<le> start (Suc i) - stop i" by linarith
  then show "stop i + 1000000 \<le> start (Suc i)" by simp
  from c d show "total_seconds (start (Suc i)) (stop i) \<le> 60 + late \<or>
      next_scheduled_for z hour (stop i) \<le> start (Suc i) \<and>
      total_seconds (start (Suc i)) (stop i) \<le> max 1 (total_seconds (next_scheduled_for z hour (stop i)) (stop i)) + late"
    using total_seconds_le [of "next_scheduled_for z hour (stop i)" "stop i" "start (Suc i)"] by auto
qed

lemma starts_grow:
  assumes "scheduler_run run z hour late st start stop"
  shows "start 0 + int i * 1000000 \<le> start i"
proof (induction i)
  case (Suc i)
  have "start i \<le> stop i" using assms by (auto simp: scheduler_run_def)
  with Suc slept(1) [OF assms, of i] show ?case by simp
qed simp

text \<open>The first attempt at or after an instant.\<close>

lemma first_attempt:
  assumes "scheduler_run run z hour late st start stop" "start 0 < t"
  obtains i where "start i < t" "t \<le> start (Suc i)"
proof -
  define k where "k = (LEAST k. t \<le> start k)"
  have "start 0 + int (nat (t - start 0)) * 1000000 \<le> start (nat (t - start 0))"
    by (rule starts_grow [OF assms(1)])
  then have "t \<le> start (nat (t - start 0))" using assms(2) by simp
  then have k: "t \<le> start k" unfolding k_def by (rule LeastI)
  with assms(2) have "k \<noteq> 0" by (intro notI) simp
  then obtain i where i: "k = Suc i" by (cases k) auto
  then have "\<not> t \<le> start i" using not_less_Least [of i "\<lambda>k. t \<le> start k"] by (simp add: k_def)
  with k i that [of i] show thesis by simp
qed

lemma slept_success:
  assumes "scheduler_run run z hour late st start stop" "attempt_succeeds run z hour (start i) (st i)"
  shows "next_scheduled_for z hour (stop i) \<le> start (Suc i)"
proof -
  obtain s' r where r: "run (scheduled_for z hour (start i)) (st i) = (s', Inr r)"
    using assms(2) by (cases "run (scheduled_for z hour (start i)) (st i)")
      (auto simp: attempt_succeeds_def split: sum.splits)
  then have "max 1 (total_seconds (next_scheduled_for z hour (stop i)) (stop i)) \<le> total_seconds (start (Suc i)) (stop i)"
    using assms(1) by (auto simp: scheduler_run_def scheduler_step_def dest!: spec [of _ i])
  then have "total_seconds (next_scheduled_for z hour (stop i)) (stop i) \<le> total_seconds (start (Suc i)) (stop i)"
    by simp
  then show ?thesis by (simp add: total_seconds_le)
qed

lemma starts_mono:
  assumes "scheduler_run run z hour late st start stop" "i \<le> j"
  shows "start i \<le> start j"
  using assms(2)
proof (induction j)
  case (Suc j)
  have "start j \<le> stop j" using assms(1) by (auto simp: scheduler_run_def)
  with Suc slept(1) [OF assms(1), of j] show ?case by (cases "i = Suc j") auto
qed simp

text \<open>A point that passes while a successful attempt is in progress is never served.\<close>

lemma point_missed:
  assumes run: "scheduler_run run z hour late st start stop" and "attempt_succeeds run z hour (start i) (st i)"
    and "start i < point d" "point d \<le> stop i" and gap: "point d < point (d + 1)"
  shows "scheduled_for z hour (start j) \<noteq> point d"
proof (cases "j \<le> i")
  case True
  then have "start j < point d" using starts_mono [OF run True] assms(3) by simp
  with day_at_reached(1) [of "start j"] show ?thesis by (simp add: scheduled_is_point)
next
  case False
  have "d \<le> day_at (stop i)"
    using day_at_reached(2) [of "stop i"] assms(4) point_mono [of "day_at (stop i) + 1" d] by linarith
  then have "point (d + 1) \<le> next_scheduled_for z hour (stop i)" by (simp add: next_is_point point_mono)
  also have "\<dots> \<le> start (Suc i)" by (rule slept_success [OF run assms(2)])
  also have "\<dots> \<le> start j" using False by (intro starts_mono [OF run]) simp
  finally have "point (d + 1) \<le> start j" .
  then have "d + 1 \<le> day_at (start j)"
    using day_at_reached(2) [of "start j"] point_mono [of "day_at (start j) + 1" "d + 1"] by linarith
  then have "point (d + 1) \<le> point (day_at (start j))" by (rule point_mono)
  with gap show ?thesis by (simp add: scheduled_is_point)
qed

text \<open>Every other point is served, if the failing attempts in progress and the wake-ups do not
  last until the next one.\<close>

lemma point_served:
  assumes run: "scheduler_run run z hour late st start stop"
    and short: "\<And>i. start i < point d \<Longrightarrow> total_seconds (stop i) (start i) + 60 + late < total_seconds (point (d + 1)) (point d)"
    and "start 0 < point d" and idle: "\<And>i. start i < point d \<Longrightarrow> point d \<le> stop i \<Longrightarrow> \<not> attempt_succeeds run z hour (start i) (st i)"
  shows "\<exists>i. scheduled_for z hour (start i) = point d"
proof -
  from first_attempt [OF run assms(3)] obtain i where i: "start i < point d" "point d \<le> start (Suc i)" .
  have le: "start i \<le> stop i" using run by (auto simp: scheduler_run_def)
  have "total_seconds (start (Suc i)) (point d) \<le> total_seconds (stop i) (start i) + 60 + late"
  proof (cases "stop i < point d")
    case True
    then have n: "next_scheduled_for z hour (stop i) \<le> point d" by (rule next_least)
    have "total_seconds (next_scheduled_for z hour (stop i)) (stop i) \<le> total_seconds (point d) (stop i)"
      "0 \<le> total_seconds (point d) (stop i)" "0 \<le> total_seconds (stop i) (start i)"
      using n True le by (simp_all add: total_seconds_le total_seconds_nonneg)
    then show ?thesis using slept(2) [OF run, of i] total_seconds_diff [of "start (Suc i)" "point d" "stop i"]
      by (auto simp: max_def split: if_splits)
  next
    case False
    then have "\<not> attempt_succeeds run z hour (start i) (st i)" using idle i(1) by simp
    then obtain s' x where "run (scheduled_for z hour (start i)) (st i) = (s', Inl x)"
      by (cases "run (scheduled_for z hour (start i)) (st i)") (auto simp: attempt_succeeds_def split: sum.splits)
    then have "total_seconds (start (Suc i)) (stop i) \<le> 60 + late"
      using run by (auto simp: scheduler_run_def scheduler_step_def dest!: spec [of _ i])
    moreover have "total_seconds (stop i) (point d) \<le> total_seconds (stop i) (start i)"
      using i(1) by (simp add: total_seconds_def divide_right_mono)
    ultimately show ?thesis using total_seconds_diff [of "start (Suc i)" "stop i" "point d"]
        total_seconds_diff [of "start (Suc i)" "point d" "stop i"]
      by (simp add: total_seconds_def field_simps)
  qed
  also have "\<dots> < total_seconds (point (d + 1)) (point d)" by (rule short [OF i(1)])
  finally have "start (Suc i) < point (d + 1)" by (simp add: total_seconds_def divide_less_cancel)
  with i(2) have "day_at (start (Suc i)) = d" by (rule day_at_unique)
  then show ?thesis by (auto simp: scheduled_is_point)
qed

end

section \<open>The default schedule\<close>

text \<open>A zone without transitions, such as the default UTC.\<close>

definition fixed_zone :: "int \<Rightarrow> zone" where
  "fixed_zone offset = \<lparr>zn_local = (\<lambda>t. t + offset), zn_utc = (\<lambda>w. w - offset)\<rparr>"

interpretation default_hour: schedule_zone "fixed_zone offset" 2 for offset
  by unfold_locales (auto simp: fixed_zone_def)

lemma default_points:
  "default_hour.point offset d = d * day_length + 2 * hour_length - offset"
  unfolding default_hour.point_def by (simp add: fixed_zone_def target_wall_def)

lemma default_point_of:
  assumes "scheduled_for (fixed_zone offset) 2 t = t"
  shows "\<exists>d. default_hour.point offset d = t"
  using assms default_hour.scheduled_is_point [of offset t] by metis

lemma default_gap: "total_seconds (default_hour.point offset (d + 1)) (default_hour.point offset d) = 86400"
  by (simp add: default_points total_seconds_def day_length_def algebra_simps)



end
