(* ===== verification/Regex_Complete.thy ===== *)
theory Regex_Complete
  imports Py_Regex
begin

text \<open>
  The matcher finds every match: for an expression without assertions, \<open>mt r s\<close> contains, for
  each text of \<open>lang r\<close> at the front of what is ahead, the state behind it.  With the soundness
  of \<^verbatim>\<open>Py_Regex\<close>, a full match is membership in the language.
\<close>

fun plain :: "re \<Rightarrow> bool" where
  "plain (Seq r1 r2) = (plain r1 \<and> plain r2)"
| "plain (Alt r1 r2) = (plain r1 \<and> plain r2)"
| "plain (Rep lo hi r) = plain r"
| "plain (Lazy r) = plain r"
| "plain (Grp n r) = plain r"
| "plain Eps = True"
| "plain (Chr p) = True"
| "plain _ = False"

definition arrives :: "(st \<Rightarrow> st list) \<Rightarrow> string set \<Rightarrow> bool" where
  "arrives f L = (\<forall>w \<in> L. \<forall>b a g. \<exists>g'. (rev w @ b, a, g') \<in> set (f (b, w @ a, g)))"

lemma arrivesD: "arrives f L \<Longrightarrow> w \<in> L \<Longrightarrow> \<exists>g'. (rev w @ b, a, g') \<in> set (f (b, w @ a, g))"
  by (simp add: arrives_def)

lemma greedy_complete:
  assumes "arrives f L"
  shows "set ws \<subseteq> L \<Longrightarrow> lo \<le> length ws \<Longrightarrow> hi_ok hi (length ws) \<Longrightarrow> lo + length (concat ws) \<le> k \<Longrightarrow>
     \<exists>g'. (rev (concat ws) @ b, a, g') \<in> set (greedy f lo hi k (b, concat ws @ a, g))"
proof (induction ws arbitrary: lo hi k b g)
  case Nil
  then show ?case by (cases k) auto
next
  case (Cons w ws)
  show ?case
  proof (cases "w = [] \<and> lo = 0")
    case True
    then show ?thesis using Cons.IH [of 0 hi k b g] Cons.prems by (auto split: option.splits)
  next
    case False
    then obtain j where k: "k = Suc j" using Cons.prems(4) by (cases k) auto
    obtain g1 where 1: "(rev w @ b, concat ws @ a, g1) \<in> set (f (b, w @ concat ws @ a, g))"
      using arrivesD [OF assms] Cons.prems(1) by (metis list.set_intros(1) subsetD)
    have "lo - 1 + length (concat ws) \<le> j"
      using False Cons.prems(4) k by (cases w) auto
    moreover have "lo - 1 \<le> length ws" "hi_ok (map_option (\<lambda>h. h - 1) hi) (length ws)" "set ws \<subseteq> L"
      using Cons.prems by (auto split: option.splits)
    ultimately obtain g' where 2: "(rev (concat ws) @ rev w @ b, a, g')
        \<in> set (greedy f (lo - 1) (map_option (\<lambda>h. h - 1) hi) j (rev w @ b, concat ws @ a, g1))"
      using Cons.IH [of "lo - 1" "map_option (\<lambda>h. h - 1) hi" j "rev w @ b" g1] by blast
    have "hi \<noteq> Some 0" using Cons.prems(3) by auto
    with 1 2 False k show ?thesis by (auto intro!: exI [of _ g'] bexI [of _ "(rev w @ b, concat ws @ a, g1)"])
  qed
qed

lemma lazily_complete:
  assumes "arrives f L"
  shows "set ws \<subseteq> L \<Longrightarrow> length (concat ws) \<le> k \<Longrightarrow>
     \<exists>g'. (rev (concat ws) @ b, a, g') \<in> set (lazily f k (b, concat ws @ a, g))"
proof (induction ws arbitrary: k b g)
  case Nil
  then show ?case by (cases k) auto
next
  case (Cons w ws)
  show ?case
  proof (cases "w = []")
    case True
    then show ?thesis using Cons.IH [of k b g] Cons.prems by auto
  next
    case False
    then obtain j where k: "k = Suc j" using Cons.prems(2) by (cases k) auto
    obtain g1 where 1: "(rev w @ b, concat ws @ a, g1) \<in> set (f (b, w @ concat ws @ a, g))"
      using arrivesD [OF assms] Cons.prems(1) by (metis list.set_intros(1) subsetD)
    have "length (concat ws) \<le> j" using False Cons.prems(2) k by (cases w) auto
    with Cons.IH [of j "rev w @ b" g1] Cons.prems(1)
    obtain g' where "(rev (concat ws) @ rev w @ b, a, g') \<in> set (lazily f j (rev w @ b, concat ws @ a, g1))"
      by auto
    with 1 False k show ?thesis by (auto intro!: exI [of _ g'] bexI [of _ "(rev w @ b, concat ws @ a, g1)"])
  qed
qed

lemma mt_complete: "plain r \<Longrightarrow> arrives (mt r) (lang r)"
proof (induction r)
  case (Seq r1 r2)
  then have 1: "arrives (mt r1) (lang r1)" and 2: "arrives (mt r2) (lang r2)" by simp_all
  show ?case unfolding arrives_def
  proof (intro ballI allI)
    fix w b a g assume "w \<in> lang (Seq r1 r2)"
    then obtain u v where w: "w = u @ v" "u \<in> lang r1" "v \<in> lang r2" by auto
    obtain g1 where g1: "(rev u @ b, v @ a, g1) \<in> set (mt r1 (b, u @ v @ a, g))"
      using arrivesD [OF 1 w(2)] by blast
    obtain g2 where "(rev v @ rev u @ b, a, g2) \<in> set (mt r2 (rev u @ b, v @ a, g1))"
      using arrivesD [OF 2 w(3)] by blast
    with g1 w(1) show "\<exists>g'. (rev w @ b, a, g') \<in> set (mt (Seq r1 r2) (b, w @ a, g))" by force
  qed
next
  case (Alt r1 r2)
  then have "arrives (mt r1) (lang r1)" "arrives (mt r2) (lang r2)" by simp_all
  then show ?case by (simp add: arrives_def ball_Un) blast
next
  case (Rep lo hi r)
  then have r: "arrives (mt r) (lang r)" by simp
  show ?case unfolding arrives_def
  proof (intro ballI allI)
    fix w b a g assume "w \<in> lang (Rep lo hi r)"
    then obtain ws where "w = concat ws" "set ws \<subseteq> lang r" "lo \<le> length ws" "hi_ok hi (length ws)" by auto
    with greedy_complete [OF r, of ws lo hi "lo + length (w @ a)" b a g]
    show "\<exists>g'. (rev w @ b, a, g') \<in> set (mt (Rep lo hi r) (b, w @ a, g))" by simp
  qed
next
  case (Lazy r)
  then have r: "arrives (mt r) (lang r)" by simp
  show ?case unfolding arrives_def
  proof (intro ballI allI)
    fix w b a g assume "w \<in> lang (Lazy r)"
    then obtain ws where "w = concat ws" "set ws \<subseteq> lang r" by auto
    with lazily_complete [OF r, of ws "length (w @ a)" b a g]
    show "\<exists>g'. (rev w @ b, a, g') \<in> set (mt (Lazy r) (b, w @ a, g))" by simp
  qed
next
  case (Grp n r)
  then have r: "arrives (mt r) (lang r)" by simp
  show ?case unfolding arrives_def
  proof (intro ballI allI)
    fix w b a g assume "w \<in> lang (Grp n r)"
    then obtain g' where "(rev w @ b, a, g') \<in> set (mt r (b, w @ a, g))"
      using arrivesD [OF r] by fastforce
    then show "\<exists>g'. (rev w @ b, a, g') \<in> set (mt (Grp n r) (b, w @ a, g))"
      by (force simp: image_iff)
  qed
qed (auto simp: arrives_def)

lemma fullmatch_plain: "plain r \<Longrightarrow> fullmatch r s \<longleftrightarrow> s \<in> lang r"
proof
  assume "plain r" "s \<in> lang r"
  from arrivesD [OF mt_complete [OF this(1)] this(2), of "[]" "[]" "[]"]
  obtain g' where "(rev s, [], g') \<in> set (mt r ([], s, []))" by auto
  then show "fullmatch r s" by (auto simp: fullmatch_def list_ex_iff intro!: bexI)
qed (rule fullmatch_lang)

text \<open>A search succeeds when some piece of the text is in the language.\<close>

lemma find_from_some: "match_at r b a \<noteq> None \<Longrightarrow> a \<noteq> [] \<Longrightarrow> find_from r 0 b a \<noteq> []"
  by (cases a) auto

lemma matches_plain:
  assumes "plain r" "w \<in> lang r" "w \<noteq> []"
  shows "matches_somewhere r (u @ w @ v)"
proof -
  have "find_from r 0 b (u @ w @ v) \<noteq> []" for b
  proof (induction u arbitrary: b)
    case Nil
    obtain g' where "(rev w @ b, v, g') \<in> set (mt r (b, w @ v, []))"
      using arrivesD [OF mt_complete [OF assms(1)] assms(2)] by blast
    then have "match_at r b (w @ v) \<noteq> None" by (auto simp: match_at_def Let_def split: list.splits)
    with find_from_some [OF this] assms(3) show ?case by simp
  qed (simp split: option.splits)
  then show ?thesis by (simp add: matches_somewhere_def search_def finditer_def split: list.splits)
qed

end
