(* ===== verification/Query_Text.thy ===== *)
theory Query_Text
  imports Regex_Complete
begin

text \<open>
  Quoted texts in generated queries and rules: the escaping both generators use
  (\<^verbatim>\<open>_safe_value\<close>, \<^verbatim>\<open>_safe_escape_quotes\<close>), a reader of string literals with backslash
  escapes, and two interfaces.  \<open>item_syntax\<close> states that an item can be read back in front
  of any text that may follow it, and gives the reading of separated lists of items;
  \<open>literal_quoting\<close> states when escaping is right for a quote character, and gives an
  \<open>item_syntax\<close> of quoted texts.
\<close>

section \<open>Escaping and reading\<close>

definition backslash :: char where
  "backslash = CHR 0x5C"

definition dquote :: char where
  "dquote = CHR 0x22"

definition squote :: char where
  "squote = CHR 0x27"

definition newline :: char where
  "newline = CHR 0x0A"

lemmas quote_chars = backslash_def dquote_def squote_def newline_def

definition escape_quotes :: "string \<Rightarrow> string" where
  "escape_quotes v = replace [newline] '' '' (replace [dquote] [backslash, dquote]
     (replace [backslash] [backslash, backslash] v))"

fun read_literal :: "char \<Rightarrow> string \<Rightarrow> (string \<times> string) option" where
  "read_literal q [] = None"
| "read_literal q (c # s) =
     (if c = q then Some ([], s)
      else if c = backslash then (case s of [] \<Rightarrow> None
        | d # t \<Rightarrow> map_option (\<lambda>(v, r). (d # v, r)) (read_literal q t))
      else map_option (\<lambda>(v, r). (c # v, r)) (read_literal q s))"

definition read_quoted :: "char \<Rightarrow> string \<Rightarrow> (string \<times> string) option" where
  "read_quoted q s = (case s of [] \<Rightarrow> None | c # t \<Rightarrow> if c = q then read_literal q t else None)"

text \<open>Items separated by \<open>sep\<close>; the fuel bounds the number of items.\<close>

fun read_items :: "(string \<Rightarrow> ('a \<times> string) option) \<Rightarrow> string \<Rightarrow> nat \<Rightarrow> string \<Rightarrow> ('a list \<times> string) option" where
  "read_items read sep 0 s = None"
| "read_items read sep (Suc k) s = (case read s of
       None \<Rightarrow> None
     | Some (x, r) \<Rightarrow> if prefix sep r
         then map_option (\<lambda>(xs, t). (x # xs, t)) (read_items read sep k (drop (length sep) r))
         else Some ([x], r))"

text \<open>The line breaks of a value become blanks.\<close>

definition one_line :: "string \<Rightarrow> string" where
  "one_line v = map (\<lambda>c. if c = newline then CHR '' '' else c) v"

lemma length_join_ge: "(\<And>x. x \<in> set xs \<Longrightarrow> display x \<noteq> []) \<Longrightarrow> length xs \<le> length (join sep (map display xs))"
proof (induction xs)
  case (Cons x xs)
  then have "0 < length (display x)" and "length xs \<le> length (join sep (map display xs))" by simp_all
  then show ?case by (cases xs) (simp_all add: join_Cons Suc_le_eq del: length_greater_0_conv)
qed simp

section \<open>Interfaces\<close>

locale item_syntax =
  fixes display :: "'a \<Rightarrow> string"
    and read :: "string \<Rightarrow> ('b \<times> string) option"
    and norm :: "'a \<Rightarrow> 'b"
    and valid :: "'a \<Rightarrow> bool"
  assumes read_item: "valid x \<Longrightarrow> read (display x @ r) = Some (norm x, r)"
begin

lemma read_separated:
  assumes "xs \<noteq> []" "\<forall>x \<in> set xs. valid x" "\<not> prefix sep r" "length xs \<le> k"
  shows "read_items read sep k (join sep (map display xs) @ r) = Some (map norm xs, r)"
  using assms
proof (induction xs arbitrary: k)
  case (Cons x xs)
  then obtain j where k: "k = Suc j" by (cases k) auto
  show ?case
  proof (cases "xs = []")
    case True
    then show ?thesis using Cons.prems k by (simp add: read_item)
  next
    case False
    with Cons k have "read_items read sep j (join sep (map display xs) @ r) = Some (map norm xs, r)"
      by simp
    moreover have "join sep (map display (x # xs)) = display x @ sep @ join sep (map display xs)"
      using False by (simp add: join_Cons)
    ultimately show ?thesis using Cons.prems(2) k by (simp add: read_item)
  qed
qed simp

end

locale literal_quoting =
  fixes esc :: "string \<Rightarrow> string" and norm :: "string \<Rightarrow> string" and quote :: char
  assumes read_escaped: "read_literal quote (esc v @ quote # r) = Some (norm v, r)"
begin

lemma read_display: "read_quoted quote ((quote # esc v @ [quote]) @ r) = Some (norm v, r)"
  by (simp add: read_quoted_def read_escaped)

end

sublocale literal_quoting \<subseteq> item_syntax "\<lambda>v. quote # esc v @ [quote]" "read_quoted quote" norm "\<lambda>_. True"
  by unfold_locales (rule read_display)

section \<open>The escaping is right for double quotes\<close>

lemma replace_char: "replace [c] new s = concat (map (\<lambda>d. if d = c then new else [d]) s)"
proof -
  have "replace_from 0 [c] new s = concat (map (\<lambda>d. if d = c then new else [d]) s)"
    by (induction s) auto
  then show ?thesis by (simp add: replace_def)
qed

definition escape_char :: "char \<Rightarrow> string" where
  "escape_char c = (if c = backslash then [backslash, backslash] else if c = dquote then [backslash, dquote]
     else if c = newline then '' '' else [c])"

lemma escape_quotes_map: "escape_quotes v = concat (map escape_char v)"
  by (induction v) (auto simp: escape_quotes_def replace_char escape_char_def quote_chars)

lemma escape_quotes_simps [simp]:
  "escape_quotes [] = []" "escape_quotes (c # v) = escape_char c @ escape_quotes v"
  by (simp_all add: escape_quotes_map)

interpretation double_quotes: literal_quoting escape_quotes one_line dquote
proof
  show "read_literal dquote (escape_quotes v @ dquote # r) = Some (one_line v, r)" for v r
    by (induction v) (auto simp: escape_char_def one_line_def quote_chars)
qed

text \<open>It is not right for single quotes: a single quote passes unchanged and ends the literal.\<close>

lemma single_quote_ends:
  "read_quoted squote ((squote # escape_quotes (squote # v) @ [squote]) @ r) = Some ([], escape_quotes v @ squote # r)"
  by (simp add: read_quoted_def escape_char_def quote_chars)

end
