(* ===== verification/Detections.thy ===== *)
theory Detections
  imports Query_Text Contracts
begin

text \<open>
  \<^verbatim>\<open>detections/contracts.py\<close> and \<^verbatim>\<open>detections/generators.py\<close>: Sigma rules and their conversion to
  SPL and KQL query templates, YARA rules and their validation.  The YAML library, the Sigma
  command-line tool, YARA and SHA-256 are parameters.
\<close>

section \<open>Contracts\<close>

text \<open>The contract base class strips every text field.\<close>

definition stripped :: "string option \<Rightarrow> string option" where
  "stripped = map_option strip"

definition length_within :: "nat \<Rightarrow> string \<Rightarrow> string \<Rightarrow> string result" where
  "length_within n field v = (if strip v = [] \<or> n < length (strip v) then Inl (ValueError field) else Inr (strip v))"

definition nonempty_text :: "string \<Rightarrow> string \<Rightarrow> string result" where
  "nonempty_text field v = (if strip v = [] then Inl (ValueError field) else Inr (strip v))"

record sigma_log_source =
  sl_category :: "string option"
  sl_product :: "string option"
  sl_service :: "string option"

definition SigmaLogSource :: "sigma_log_source \<Rightarrow> sigma_log_source" where
  "SigmaLogSource l = \<lparr>sl_category = stripped (sl_category l), sl_product = stripped (sl_product l),
     sl_service = stripped (sl_service l)\<rparr>"

datatype match_modifier = M_EQUALS | M_CONTAINS | M_STARTSWITH | M_ENDSWITH

record sigma_match =
  sm_field :: string
  sm_value :: string
  sm_modifier :: match_modifier

definition SigmaFieldMatch :: "sigma_match \<Rightarrow> sigma_match result" where
  "SigmaFieldMatch m =
     rbind (length_within 128 ''field'' (sm_field m)) (\<lambda>f.
     rbind (length_within 2048 ''value'' (sm_value m)) (\<lambda>v. Inr (m\<lparr>sm_field := f, sm_value := v\<rparr>)))"

record sigma_rule =
  sg_title :: string
  sg_description :: string
  sg_logsource :: sigma_log_source
  sg_matches :: "sigma_match list"
  sg_condition :: string
  sg_level :: string
  sg_tags :: "string list"
  sg_references :: "string list"

definition sigma_levels :: "string list" where
  "sigma_levels = [''informational'', ''low'', ''medium'', ''high'', ''critical'']"

definition SigmaRuleSpec :: "sigma_rule \<Rightarrow> sigma_rule result" where
  "SigmaRuleSpec r =
     rbind (nonempty_text ''title'' (sg_title r)) (\<lambda>t.
     rbind (nonempty_text ''description'' (sg_description r)) (\<lambda>d.
     rbind (check (sg_matches r \<noteq> []) ''matches'') (\<lambda>_.
     rbind (nonempty_text ''condition'' (sg_condition r)) (\<lambda>c.
     rbind (check (sg_level r \<in> set sigma_levels) ''level'') (\<lambda>_.
       Inr (r\<lparr>sg_title := t, sg_description := d, sg_condition := c, sg_tags := map strip (sg_tags r),
         sg_references := map strip (sg_references r)\<rparr>))))))"

record file_evidence =
  fi_evidence_ids :: "uuid list"
  fi_file_name :: string
  fi_sha256 :: "string option"
  fi_strings :: "string list"
  fi_public_source :: string

definition FileEvidence :: "file_evidence \<Rightarrow> file_evidence result" where
  "FileEvidence f =
     rbind (check (fi_evidence_ids f \<noteq> []) ''evidence_ids'') (\<lambda>_.
     rbind (nonempty_text ''file_name'' (fi_file_name f)) (\<lambda>n.
     rbind (case fi_sha256 f of None \<Rightarrow> Inr None
       | Some h \<Rightarrow> rbind (normalize_hash 64 h) (\<lambda>h. Inr (Some h))) (\<lambda>h.
     rbind (check (fi_strings f \<noteq> []) ''strings'') (\<lambda>_.
     rbind (nonempty_text ''public_source'' (fi_public_source f)) (\<lambda>p.
       Inr (f\<lparr>fi_file_name := n, fi_sha256 := h, fi_strings := map strip (fi_strings f),
         fi_public_source := p\<rparr>))))))"

record yara_rule =
  ya_rule_name :: string
  ya_strings :: "string list"
  ya_condition :: string
  ya_evidence_ids :: "uuid list"

definition ident_start :: "char \<Rightarrow> bool" where
  "ident_start c = (is_alpha c \<or> c = CHR ''_'')"

definition ident_char :: "char \<Rightarrow> bool" where
  "ident_char c = (is_alpha c \<or> is_digit c \<or> c = CHR ''_'')"

definition identifier_re :: re where
  "identifier_re = Seq (Chr ident_start) (star (Chr ident_char))"

definition YaraRuleSpec :: "yara_rule \<Rightarrow> yara_rule result" where
  "YaraRuleSpec y =
     rbind (length_within 128 ''rule_name'' (ya_rule_name y)) (\<lambda>n.
     rbind (check (ya_strings y \<noteq> []) ''strings'') (\<lambda>_.
     rbind (nonempty_text ''condition'' (ya_condition y)) (\<lambda>c.
     rbind (check (ya_evidence_ids y \<noteq> []) ''evidence_ids'') (\<lambda>_.
     rbind (check (fullmatch identifier_re n) ''YARA rule_name must be an identifier'') (\<lambda>_.
       Inr (y\<lparr>ya_rule_name := n, ya_strings := map strip (ya_strings y), ya_condition := c\<rparr>))))))"

datatype query_backend = SPL | KQL

record query_spec =
  qs_backend :: query_backend
  qs_title :: string
  qs_platform :: string
  qs_telemetry :: "string list"
  qs_index :: "string option"
  qs_fields :: "string list"
  qs_conditions :: "sigma_match list"
  qs_template :: bool
  qs_evidence_ids :: "uuid list"

definition QuerySpec :: "query_spec \<Rightarrow> query_spec result" where
  "QuerySpec q =
     rbind (nonempty_text ''title'' (qs_title q)) (\<lambda>t.
     rbind (nonempty_text ''platform'' (qs_platform q)) (\<lambda>p.
     rbind (check (qs_telemetry q \<noteq> []) ''telemetry'') (\<lambda>_.
     rbind (check (qs_fields q \<noteq> []) ''fields'') (\<lambda>_.
     rbind (check (qs_conditions q \<noteq> []) ''conditions'') (\<lambda>_.
       Inr (q\<lparr>qs_title := t, qs_platform := p, qs_telemetry := map strip (qs_telemetry q),
         qs_index := stripped (qs_index q), qs_fields := map strip (qs_fields q)\<rparr>))))))"

record compiled_artifact =
  ca_valid :: bool
  ca_validator :: string
  ca_validation_result :: string
  ca_artifact_hash :: string

record sigma_conversion =
  sv_parsed :: sigma_rule
  sv_converted :: query_spec
  sv_converter :: string
  sv_external_tool_used :: bool

text \<open>The artifact contract of \<^verbatim>\<open>models/contracts.py\<close>: the hash of the (stripped) content is filled
  in when it is missing.\<close>

record detection_artifact =
  da_detection_id :: uuid
  da_report_version_id :: uuid
  da_detection_type :: detection_type
  da_title :: string
  da_content :: string
  da_telemetry_requirements :: "string list"
  da_assumptions :: "string list"
  da_attack_techniques :: "string list"
  da_evidence_ids :: "uuid list"
  da_validation_tool :: "string option"
  da_validation_result :: "string option"
  da_artifact_hash :: "string option"
  da_state :: report_state

definition DetectionArtifact :: "(string \<Rightarrow> string) \<Rightarrow> detection_artifact \<Rightarrow> detection_artifact result" where
  "DetectionArtifact sha256 a =
     rbind (nonempty_text ''title'' (da_title a)) (\<lambda>t.
     rbind (nonempty_text ''content'' (da_content a)) (\<lambda>c.
     rbind (traverse normalize_attack_id (da_attack_techniques a)) (\<lambda>ts.
     rbind (case da_artifact_hash a of None \<Rightarrow> Inr (sha256 c) | Some h \<Rightarrow> normalize_hash 64 h) (\<lambda>h.
       Inr (a\<lparr>da_title := t, da_content := c,
         da_telemetry_requirements := map strip (da_telemetry_requirements a),
         da_assumptions := map strip (da_assumptions a), da_attack_techniques := ts,
         da_validation_tool := stripped (da_validation_tool a),
         da_validation_result := stripped (da_validation_result a), da_artifact_hash := Some h\<rparr>)))))"

section \<open>YAML values\<close>

text \<open>What the safe loader produces; \<open>YOther\<close> stands for its remaining scalars (timestamps and
  binary data), by the name of their Python type.\<close>

datatype yaml =
    YNull
  | YBool bool
  | YInt int
  | YFloat rat
  | YStr string
  | YSeq "yaml list"
  | YMap "(yaml \<times> yaml) list"
  | YOther string string

record yaml_env =
  ye_load :: "string \<Rightarrow> yaml option"
  ye_dump :: "yaml \<Rightarrow> string"

definition yget :: "string \<Rightarrow> (yaml \<times> yaml) list \<Rightarrow> yaml option" where
  "yget k m = map_of m (YStr k)"

fun as_map :: "yaml \<Rightarrow> (yaml \<times> yaml) list option" where
  "as_map (YMap m) = Some m"
| "as_map _ = None"

fun as_ystr :: "yaml \<Rightarrow> string option" where
  "as_ystr (YStr s) = Some s"
| "as_ystr _ = None"

definition texts_of :: "yaml list \<Rightarrow> string list option" where
  "texts_of ys = (if list_all (\<lambda>y. as_ystr y \<noteq> None) ys then Some (map (the \<circ> as_ystr) ys) else None)"

text \<open>\<open>tuple(v)\<close> as a tuple of texts: a text yields its characters, a mapping its keys.\<close>

fun tuple_of :: "yaml \<Rightarrow> string list option" where
  "tuple_of (YStr s) = Some (map (\<lambda>c. [c]) s)"
| "tuple_of (YSeq ys) = texts_of ys"
| "tuple_of (YMap m) = texts_of (map fst m)"
| "tuple_of _ = None"

text \<open>Values of different classes cannot be ordered.\<close>

fun order_class :: "yaml \<Rightarrow> string" where
  "order_class (YBool b) = ''number''"
| "order_class (YInt i) = ''number''"
| "order_class (YFloat r) = ''number''"
| "order_class (YStr s) = ''str''"
| "order_class (YSeq ys) = ''list''"
| "order_class (YMap m) = ''dict''"
| "order_class YNull = ''NoneType''"
| "order_class (YOther kind s) = kind"

section \<open>Sigma\<close>

definition present :: "string option list \<Rightarrow> string list" where
  "present vs = map the (filter (\<lambda>v. v \<noteq> None) vs)"

definition logsource_values :: "sigma_log_source \<Rightarrow> string list" where
  "logsource_values l = present [sl_category l, sl_product l, sl_service l]"

definition logsource_map :: "sigma_log_source \<Rightarrow> (yaml \<times> yaml) list" where
  "logsource_map l = map (\<lambda>(k, v). (YStr k, YStr (the v))) (filter (\<lambda>(k, v). v \<noteq> None)
     [(''category'', sl_category l), (''product'', sl_product l), (''service'', sl_service l)])"

text \<open>The selection is a dict by field: of several matches on one field the last remains.\<close>

definition selection_of :: "sigma_match list \<Rightarrow> string dict" where
  "selection_of ms = foldl (\<lambda>d m. dict_set (sm_field m) (sm_value m) d) [] ms"

definition yaml_texts :: "string dict \<Rightarrow> (yaml \<times> yaml) list" where
  "yaml_texts d = map (\<lambda>(k, v). (YStr k, YStr v)) d"

definition sigma_payload :: "sigma_rule \<Rightarrow> yaml" where
  "sigma_payload r = YMap [(YStr ''title'', YStr (sg_title r)), (YStr ''description'', YStr (sg_description r)),
     (YStr ''logsource'', YMap (logsource_map (sg_logsource r))),
     (YStr ''detection'', YMap [(YStr ''selection'', YMap (yaml_texts (selection_of (sg_matches r)))),
        (YStr ''condition'', YStr (sg_condition r))]),
     (YStr ''level'', YStr (sg_level r)), (YStr ''tags'', YSeq (map YStr (sg_tags r))),
     (YStr ''references'', YSeq (map YStr (sg_references r)))]"

definition generate_sigma :: "yaml_env \<Rightarrow> (string \<Rightarrow> string) \<Rightarrow> uuid \<Rightarrow> uuid \<Rightarrow> sigma_rule \<Rightarrow> uuid list \<Rightarrow> string list
    \<Rightarrow> detection_artifact result" where
  "generate_sigma e sha256 report_version_id detection_id spec evidence_ids attack_techniques =
     (if evidence_ids = [] then Inl (ValueError ''Sigma generation requires evidence IDs'')
      else DetectionArtifact sha256 \<lparr>da_detection_id = detection_id, da_report_version_id = report_version_id,
        da_detection_type = DX_SIGMA, da_title = sg_title spec, da_content = ye_dump e (sigma_payload spec),
        da_telemetry_requirements = logsource_values (sg_logsource spec),
        da_assumptions = [''Sigma schema subset; validate with sigma-cli when installed.''],
        da_attack_techniques = attack_techniques, da_evidence_ids = evidence_ids,
        da_validation_tool = Some ''sigma-cli'',
        da_validation_result = Some ''generated; parse required before publication'',
        da_artifact_hash = None, da_state = RP_DRAFT\<rparr>)"

text \<open>The keys of a selection are sorted before they are checked: keys of different classes
  raise a \<open>TypeError\<close> that nothing catches.\<close>

definition sorted_selection :: "(yaml \<times> yaml) list \<Rightarrow> (string \<times> yaml) list result" where
  "sorted_selection m =
     (case texts_of (map fst m) of
        Some ks \<Rightarrow> Inr (sort_key fst (zip ks (map snd m)))
      | None \<Rightarrow> if 1 < length (dedup (map (order_class \<circ> fst) m))
          then Inl (TypeError ''not supported between instances'')
          else Inl (ValueError ''Sigma selection fields and values must be strings''))"

definition field_match :: "string \<times> yaml \<Rightarrow> sigma_match result" where
  "field_match p = (case as_ystr (snd p) of
       None \<Rightarrow> Inl (ValueError ''Sigma selection fields and values must be strings'')
     | Some v \<Rightarrow> SigmaFieldMatch \<lparr>sm_field = fst p, sm_value = v, sm_modifier = M_EQUALS\<rparr>)"

definition optional_text :: "yaml option \<Rightarrow> string option option" where
  "optional_text v = (case v of None \<Rightarrow> Some None | Some YNull \<Rightarrow> Some None | Some (YStr s) \<Rightarrow> Some (Some s) | _ \<Rightarrow> None)"

definition logsource_keys :: "yaml list" where
  "logsource_keys = map YStr [''category'', ''product'', ''service'', ''schema_version'']"

definition parse_logsource :: "(yaml \<times> yaml) list \<Rightarrow> sigma_log_source option" where
  "parse_logsource m =
     (if \<not> list_all (\<lambda>k. k \<in> set logsource_keys) (map fst m)
         \<or> yget ''schema_version'' m \<notin> {None, Some (YStr ''1.0'')} then None
      else (case (optional_text (yget ''category'' m), optional_text (yget ''product'' m),
               optional_text (yget ''service'' m)) of
          (Some c, Some p, Some s) \<Rightarrow> Some (SigmaLogSource \<lparr>sl_category = c, sl_product = p, sl_service = s\<rparr>)
        | _ \<Rightarrow> None))"

definition text_or :: "string \<Rightarrow> yaml option \<Rightarrow> string option" where
  "text_or d v = (case v of None \<Rightarrow> Some d | Some y \<Rightarrow> as_ystr y)"

definition tuple_or_empty :: "yaml option \<Rightarrow> string list option" where
  "tuple_or_empty v = (case v of None \<Rightarrow> Some [] | Some y \<Rightarrow> tuple_of y)"

definition sigma_schema_error :: py_error where
  "sigma_schema_error = ValueError ''Sigma schema validation failed''"

definition build_rule :: "(yaml \<times> yaml) list \<Rightarrow> (yaml \<times> yaml) list \<Rightarrow> string \<Rightarrow> sigma_match list \<Rightarrow> sigma_rule result" where
  "build_rule payload logsource condition matches =
     (case (parse_logsource logsource,
        (case yget ''title'' payload of None \<Rightarrow> None | Some y \<Rightarrow> as_ystr y),
        text_or ''Generated public-CTI rule'' (yget ''description'' payload),
        text_or ''medium'' (yget ''level'' payload),
        tuple_or_empty (yget ''tags'' payload), tuple_or_empty (yget ''references'' payload)) of
       (Some l, Some t, Some d, Some v, Some tags, Some references) \<Rightarrow>
         relabel sigma_schema_error (SigmaRuleSpec \<lparr>sg_title = t, sg_description = d, sg_logsource = l,
           sg_matches = matches, sg_condition = condition, sg_level = v, sg_tags = tags,
           sg_references = references\<rparr>)
     | _ \<Rightarrow> Inl sigma_schema_error)"

definition parse_sigma :: "yaml_env \<Rightarrow> string \<Rightarrow> sigma_rule result" where
  "parse_sigma e content = (case ye_load e content of
       None \<Rightarrow> Inl (ValueError ''invalid Sigma YAML'')
     | Some y \<Rightarrow> (case as_map y of
         None \<Rightarrow> Inl (ValueError ''Sigma document must be a mapping'')
       | Some payload \<Rightarrow> (case (Option.bind (yget ''logsource'' payload) as_map,
             Option.bind (yget ''detection'' payload) as_map) of
           (Some logsource, Some detection) \<Rightarrow>
             (case (Option.bind (yget ''selection'' detection) as_map,
                    Option.bind (yget ''condition'' detection) as_ystr) of
                (Some selection, Some condition) \<Rightarrow>
                  rbind (sorted_selection selection) (\<lambda>items.
                  rbind (traverse field_match items) (\<lambda>matches.
                    build_rule payload logsource condition matches))
              | _ \<Rightarrow> Inl (ValueError ''Sigma requires detection.selection and condition''))
         | _ \<Rightarrow> Inl (ValueError ''Sigma requires logsource and detection mappings''))))"

section \<open>Queries\<close>

definition field_start :: "char \<Rightarrow> bool" where
  "field_start c = ident_start c"

definition field_char :: "char \<Rightarrow> bool" where
  "field_char c = (ident_char c \<or> c = CHR ''.'' \<or> c = CHR ''-'')"

definition field_re :: re where
  "field_re = Seq (Chr field_start) (star (Chr field_char))"

definition query_from_spec :: "sigma_rule \<Rightarrow> query_backend \<Rightarrow> uuid list \<Rightarrow> query_spec result" where
  "query_from_spec spec backend evidence_ids =
     (let names = map sm_field (sg_matches spec); telemetry = logsource_values (sg_logsource spec) in
      case filter (\<lambda>f. \<not> fullmatch field_re f) names of
        f # _ \<Rightarrow> Inl (ValueError (''unsafe query field: '' @ f))
      | [] \<Rightarrow> QuerySpec \<lparr>qs_backend = backend, qs_title = ''Template: '' @ sg_title spec,
          qs_platform = ''unspecified'',
          qs_telemetry = (if telemetry = [] then [''telemetry not specified''] else telemetry),
          qs_index = None, qs_fields = names, qs_conditions = sg_matches spec, qs_template = True,
          qs_evidence_ids = evidence_ids\<rparr>)"

definition render_condition :: "sigma_match \<Rightarrow> string" where
  "render_condition m = sm_field m @ [CHR ''='', dquote] @ escape_quotes (sm_value m) @ [dquote]"

definition and_word :: "query_backend \<Rightarrow> string" where
  "and_word b = (case b of SPL \<Rightarrow> '' AND '' | KQL \<Rightarrow> '' and '')"

definition query_head :: "query_backend \<Rightarrow> string option \<Rightarrow> string" where
  "query_head b index = (case b of
       SPL \<Rightarrow> (case index of None \<Rightarrow> [] | Some i \<Rightarrow> if i = [] then [] else ''index='' @ i @ '' '')
     | KQL \<Rightarrow> (case index of None \<Rightarrow> ''TelemetryTable'' | Some i \<Rightarrow> or_else i ''TelemetryTable'') @ '' | where '')"

definition query_tail :: "query_backend \<Rightarrow> string list \<Rightarrow> string" where
  "query_tail b names = (case b of SPL \<Rightarrow> '' | table '' | KQL \<Rightarrow> '' | project '') @ join '', '' names"

definition render_query :: "query_spec \<Rightarrow> string result" where
  "render_query q = (if qs_evidence_ids q = [] then Inl (ValueError ''query generation requires evidence IDs'')
     else Inr (query_head (qs_backend q) (qs_index q)
       @ join (and_word (qs_backend q)) (map render_condition (qs_conditions q))
       @ query_tail (qs_backend q) (qs_fields q)))"

definition query_artifact :: "(string \<Rightarrow> string) \<Rightarrow> uuid \<Rightarrow> uuid \<Rightarrow> query_spec \<Rightarrow> detection_artifact result" where
  "query_artifact sha256 report_version_id detection_id q =
     rbind (render_query q) (\<lambda>content. DetectionArtifact sha256
       \<lparr>da_detection_id = detection_id, da_report_version_id = report_version_id,
        da_detection_type = (case qs_backend q of SPL \<Rightarrow> DX_SPL | KQL \<Rightarrow> DX_KQL), da_title = qs_title q,
        da_content = content, da_telemetry_requirements = qs_telemetry q,
        da_assumptions = [''platform='' @ qs_platform q,
          ''index='' @ (case qs_index q of None \<Rightarrow> ''unspecified'' | Some i \<Rightarrow> or_else i ''unspecified''),
          (if qs_template q then ''generic fallback query template'' else ''provider-specific query'')],
        da_attack_techniques = [], da_evidence_ids = qs_evidence_ids q,
        da_validation_tool = Some ''query-renderer'',
        da_validation_result = Some (if qs_template q then ''template'' else ''generated''),
        da_artifact_hash = None, da_state = RP_DRAFT\<rparr>)"

text \<open>The Sigma tool only decides how the conversion is labelled: \<open>external\<close> tells whether it is
  installed and accepts the rule for the backend.\<close>

definition convert_sigma :: "yaml_env \<Rightarrow> (string \<Rightarrow> query_backend \<Rightarrow> bool) \<Rightarrow> string \<Rightarrow> query_backend \<Rightarrow> uuid list
    \<Rightarrow> sigma_conversion result" where
  "convert_sigma e external content backend evidence_ids =
     rbind (parse_sigma e content) (\<lambda>parsed.
     rbind (query_from_spec parsed backend evidence_ids) (\<lambda>q.
       Inr \<lparr>sv_parsed = parsed, sv_converted = q,
         sv_converter = (if external content backend then ''sigma-cli'' else ''builtin-compatible-sigma-cli''),
         sv_external_tool_used = external content backend\<rparr>))"

section \<open>YARA\<close>

definition yara_string :: "nat \<Rightarrow> string \<Rightarrow> string" where
  "yara_string i v = ''    $s'' @ int_str (int i) @ '' = '' @ [dquote] @ escape_quotes v @ [dquote] @ '' ascii wide nocase''"

definition yara_lines :: "yara_rule \<Rightarrow> string list" where
  "yara_lines y = [''rule '' @ ya_rule_name y @ '' {'', ''  strings:'']
     @ map (\<lambda>(i, v). yara_string i v) (zip [1..<length (ya_strings y) + 1] (ya_strings y))
     @ [''  condition:'', ''    '' @ ya_condition y, ''}'']"

definition yara_text :: "yara_rule \<Rightarrow> string" where
  "yara_text y = join [newline] (yara_lines y) @ [newline]"

definition generate_yara :: "(string \<Rightarrow> string) \<Rightarrow> uuid \<Rightarrow> uuid \<Rightarrow> file_evidence \<Rightarrow> string \<Rightarrow> detection_artifact result" where
  "generate_yara sha256 report_version_id detection_id f rule_name =
     rbind (YaraRuleSpec \<lparr>ya_rule_name = rule_name, ya_strings = fi_strings f, ya_condition = ''any of them'',
       ya_evidence_ids = fi_evidence_ids f\<rparr>) (\<lambda>y.
     DetectionArtifact sha256 \<lparr>da_detection_id = detection_id, da_report_version_id = report_version_id,
       da_detection_type = DX_YARA, da_title = ya_rule_name y, da_content = yara_text y,
       da_telemetry_requirements = [], da_assumptions = [''public file evidence: '' @ fi_file_name f],
       da_attack_techniques = [], da_evidence_ids = fi_evidence_ids f, da_validation_tool = Some ''yara-python'',
       da_validation_result = Some ''compile required before publication'', da_artifact_hash = None,
       da_state = RP_DRAFT\<rparr>)"

definition blanks :: re where
  "blanks = star (Chr is_space)"

text \<open>\<^verbatim>\<open>(?s)^\s*rule\s+[A-Za-z_][A-Za-z0-9_]*\s*\{.*\}\s*$\<close>, without the anchors: the first is
  the start of the search, and the last, after blanks, only holds at the end of the text.\<close>

definition yara_structure_re :: re where
  "yara_structure_re = seqs [blanks, lit ''rule'', plus1 (Chr is_space), identifier_re, blanks, lit ''{'',
     star (Chr (\<lambda>_. True)), lit ''}'', blanks]"

definition yara_string_re :: re where
  "yara_string_re = seqs [lit ''$'', identifier_re, blanks, lit ''='', blanks, Chr (\<lambda>c. c = dquote)]"

definition fallback_compile_yara :: "string \<Rightarrow> unit result" where
  "fallback_compile_yara content =
     (if \<not> fullmatch yara_structure_re content then Inl (ValueError ''invalid YARA rule structure'')
      else if \<not> contains ''strings:'' content \<or> \<not> contains ''condition:'' content
      then Inl (ValueError ''YARA requires strings and condition sections'')
      else if \<not> matches_somewhere yara_string_re content then Inl (ValueError ''YARA requires at least one string'')
      else if contains ''syntax error'' (lower content) then Inl (ValueError ''invalid YARA syntax'')
      else Inr ())"

text \<open>\<open>native\<close> is the compiler, when it is installed.\<close>

definition compile_yara :: "(string \<Rightarrow> bool) option \<Rightarrow> (string \<Rightarrow> string) \<Rightarrow> string \<Rightarrow> compiled_artifact result" where
  "compile_yara native sha256 content = (case native of
       None \<Rightarrow> rbind (fallback_compile_yara content) (\<lambda>_. Inr \<lparr>ca_valid = True,
         ca_validator = ''yara-python-compatibility'',
         ca_validation_result = ''validated without yara-python; install yara-python for native compilation'',
         ca_artifact_hash = sha256 content\<rparr>)
     | Some compiles \<Rightarrow> if compiles content then Inr \<lparr>ca_valid = True, ca_validator = ''yara-python'',
           ca_validation_result = ''compiled'', ca_artifact_hash = sha256 content\<rparr>
         else Inl (ValueError ''YARA compilation failed''))"

end
