(* ===== verification/Rule_Generator.thy ===== *)
theory Rule_Generator
  imports Detections
begin

text \<open>
  \<^verbatim>\<open>playbooks/rule_generator.py\<close> and \<^verbatim>\<open>playbooks/validators.py\<close>: hunting queries in three
  query languages, Sigma and YARA rules, their bundle, and the validators of the two rule
  formats.
\<close>

record generation_env =
  ge_yaml :: yaml_env
  ge_uuid5 :: "string \<Rightarrow> uuid"

section \<open>Sigma\<close>

definition one_or_all :: "string list \<Rightarrow> yaml" where
  "one_or_all vs = (case vs of [v] \<Rightarrow> YStr v | _ \<Rightarrow> YSeq (map YStr vs))"

definition rule_selection :: "string list \<Rightarrow> string list \<Rightarrow> (yaml \<times> yaml) list" where
  "rule_selection process_names command_lines =
     (let s = (if process_names = [] then [] else [(YStr ''Image|endswith'', one_or_all process_names)]) @
              (if command_lines = [] then [] else [(YStr ''CommandLine|contains'', one_or_all command_lines)])
      in if s = [] then [(YStr ''CommandLine|contains'', YStr ''*'')] else s)"

definition rule_payload :: "generation_env \<Rightarrow> string \<Rightarrow> string \<Rightarrow> string list \<Rightarrow> string list \<Rightarrow> string list \<Rightarrow> string
    \<Rightarrow> string \<Rightarrow> string option \<Rightarrow> string list \<Rightarrow> yaml" where
  "rule_payload e title description process_names command_lines tags severity author rule_id references =
     YMap [(YStr ''title'', YStr title),
       (YStr ''id'', YStr (or_else (case rule_id of None \<Rightarrow> [] | Some i \<Rightarrow> i) (ge_uuid5 e (''sigma:'' @ title)))),
       (YStr ''status'', YStr ''experimental''), (YStr ''description'', YStr description),
       (YStr ''author'', YStr author), (YStr ''references'', YSeq (map YStr references)),
       (YStr ''tags'', YSeq (map YStr tags)),
       (YStr ''logsource'', YMap [(YStr ''category'', YStr ''process_creation''), (YStr ''product'', YStr ''windows'')]),
       (YStr ''detection'', YMap [(YStr ''selection'', YMap (rule_selection process_names command_lines)),
          (YStr ''condition'', YStr ''selection'')]),
       (YStr ''falsepositives'', YSeq [YStr ''Administrative maintenance scripts'', YStr ''Legitimate software updates'']),
       (YStr ''level'', YStr (lower severity))]"

definition agent_author :: string where
  "agent_author = ''Hermes Autonomous CTI Agent''"

definition generate_sigma_rule :: "generation_env \<Rightarrow> string \<Rightarrow> string \<Rightarrow> string list \<Rightarrow> string list \<Rightarrow> string list \<Rightarrow> string
    \<Rightarrow> string \<Rightarrow> string option \<Rightarrow> string list \<Rightarrow> string" where
  "generate_sigma_rule e title description process_names command_lines tags severity author rule_id references =
     ye_dump (ge_yaml e)
       (rule_payload e title description process_names command_lines tags severity author rule_id references)"

section \<open>Queries\<close>

definition dquoted :: "string \<Rightarrow> string" where
  "dquoted v = [dquote] @ escape_quotes v @ [dquote]"

text \<open>The Defender query puts its values between single quotes, with the escaping for double
  quotes.\<close>

definition squoted :: "string \<Rightarrow> string" where
  "squoted v = [squote] @ escape_quotes v @ [squote]"

definition starred :: "string \<Rightarrow> string" where
  "starred v = [dquote, CHR ''*''] @ escape_quotes v @ [CHR ''*'', dquote]"

definition either_field :: "string \<Rightarrow> string \<Rightarrow> string list \<Rightarrow> string" where
  "either_field a b vs = ''('' @ join '' OR '' (map (\<lambda>v. a @ ''='' @ starred v @ '' OR '' @ b @ ''='' @ starred v) vs) @ '')''"

definition splunk_conditions :: "string list \<Rightarrow> string list \<Rightarrow> string list \<Rightarrow> string list" where
  "splunk_conditions process_names command_lines iocs =
     (if process_names = [] then [] else [either_field ''Image'' ''NewProcessName'' process_names]) @
     (if command_lines = [] then [] else [either_field ''CommandLine'' ''ProcessCommandLine'' command_lines]) @
     (if iocs = [] then [] else [''('' @ join '' OR '' (map dquoted iocs) @ '')''])"

definition generate_splunk_spl :: "string list \<Rightarrow> string list \<Rightarrow> string list \<Rightarrow> string" where
  "generate_splunk_spl process_names command_lines iocs =
     (let cs = splunk_conditions process_names command_lines iocs in
      ''(index=* OR index=main OR index=windows) (EventCode=1 OR EventCode=4688) ''
        @ (if cs = [] then ''CommandLine=*'' else join '' AND '' cs)
        @ '' | table _time, host, user, Image, CommandLine'')"

definition kql_clause :: "string \<Rightarrow> (string \<Rightarrow> string) \<Rightarrow> string \<Rightarrow> string list \<Rightarrow> string list" where
  "kql_clause head_text quoted sep vs = (if vs = [] then [] else [head_text @ ''('' @ join sep (map quoted vs) @ '')''])"

definition generate_defender_kql :: "string list \<Rightarrow> string list \<Rightarrow> string list \<Rightarrow> string" where
  "generate_defender_kql process_names command_lines iocs =
     (let cs = kql_clause ''FileName in~ '' squoted '', '' process_names
            @ kql_clause ''ProcessCommandLine has_any '' squoted '', '' command_lines
            @ kql_clause ''ProcessCommandLine has_any '' squoted '', '' iocs in
      ''DeviceProcessEvents'' @ [newline] @ ''| where ''
        @ (if cs = [] then ''isnotempty(ProcessCommandLine)'' else join '' or '' cs) @ [newline]
        @ ''| project Timestamp, DeviceName, AccountName, FileName, ProcessCommandLine, InitiatingProcessCommandLine'')"

definition generate_elastic_kql :: "string list \<Rightarrow> string list \<Rightarrow> string list \<Rightarrow> string" where
  "generate_elastic_kql process_names command_lines iocs =
     (let cs = kql_clause ''process.name : '' dquoted '' or '' process_names
            @ kql_clause ''process.command_line : '' dquoted '' or '' command_lines
            @ kql_clause ''process.command_line : '' dquoted '' or '' iocs in
      if cs = [] then ''process.command_line : *'' else join '' and '' cs)"

section \<open>YARA\<close>

definition sanitized_name :: "string \<Rightarrow> string" where
  "sanitized_name rule_name =
     (let n = rstrip_by (\<lambda>c. c = CHR ''_'') (lstrip_by (\<lambda>c. c = CHR ''_'')
                (map (\<lambda>c. if ident_char c then c else CHR ''_'') rule_name)) in
      if n = [] then ''Hermes_Rule_Auto''
      else if is_alpha (hd n) \<or> hd n = CHR ''_'' then n else ''Hermes_Rule_'' @ n)"

definition numbered :: "string \<Rightarrow> nat \<Rightarrow> string" where
  "numbered p i = p @ int_str (int i)"

definition text_string_line :: "nat \<times> string \<Rightarrow> string" where
  "text_string_line p = ''        '' @ numbered ''$s'' (fst p) @ '' = '' @ dquoted (snd p) @ '' ascii wide nocase''"

definition braces_stripped :: "string \<Rightarrow> string" where
  "braces_stripped h = (let b = (\<lambda>c. c = CHR ''{'' \<or> c = CHR ''}'') in strip (rstrip_by b (lstrip_by b (strip h))))"

definition hex_string_line :: "nat \<times> string \<Rightarrow> string" where
  "hex_string_line p = ''        '' @ numbered ''$hex'' (fst p) @ '' = { '' @ braces_stripped (snd p) @ '' }''"

definition counted :: "'a list \<Rightarrow> (nat \<times> 'a) list" where
  "counted xs = zip [1..<length xs + 1] xs"

definition any_of :: "string \<Rightarrow> string list \<Rightarrow> string list" where
  "any_of p vs = (if vs = [] then [] else [''1 of ('' @ join '', '' (map (\<lambda>(i, v). numbered p i) (counted vs)) @ '')''])"

definition rule_condition :: "string list \<Rightarrow> string list \<Rightarrow> string" where
  "rule_condition strings hexes = (let parts = any_of ''$s'' strings @ any_of ''$hex'' hexes in
     if parts = [] then ''uint16(0) == 0x5A4D and $magic at 0''
     else ''uint16(0) == 0x5A4D and $magic at 0 and ('' @ join '' or '' parts @ '')'')"

definition generate_yara_rule :: "string \<Rightarrow> string \<Rightarrow> string list \<Rightarrow> string list \<Rightarrow> int \<Rightarrow> string \<Rightarrow> string" where
  "generate_yara_rule rule_name description strings hex_patterns score author =
     join [newline] ([''rule '' @ sanitized_name rule_name @ '' {'',
       ''    meta:'', ''        description = '' @ dquoted description, ''        author = '' @ dquoted author,
       ''        score = '' @ int_str score, [],
       ''    strings:'', ''        $magic = { 4D 5A }''] @ map text_string_line (counted strings)
       @ map hex_string_line (counted hex_patterns)
       @ [[], ''    condition:'', ''        '' @ rule_condition strings hex_patterns, ''}'', []])"

section \<open>The bundle\<close>

record rule_bundle =
  rb_sigma_yaml :: string
  rb_splunk_spl :: string
  rb_defender_kql :: string
  rb_elastic_kql :: string
  rb_yara_rule :: string
  rb_mitre_technique_id :: string
  rb_severity :: string

definition technique_tags :: "string list \<Rightarrow> string \<Rightarrow> string list" where
  "technique_tags tags technique = (let tag = ''attack.'' @ lower technique in
     if technique = [] \<or> tag \<in> set tags then tags else tags @ [tag])"

definition generate_bundle :: "generation_env \<Rightarrow> string \<Rightarrow> string \<Rightarrow> string list \<Rightarrow> string list \<Rightarrow> string list \<Rightarrow> string list
    \<Rightarrow> string list \<Rightarrow> string list \<Rightarrow> string \<Rightarrow> string \<Rightarrow> rule_bundle" where
  "generate_bundle e title description process_names command_lines strings tags hex_patterns iocs technique severity =
     \<lparr>rb_sigma_yaml = generate_sigma_rule e title description process_names command_lines
        (technique_tags tags technique) severity agent_author None [],
      rb_splunk_spl = generate_splunk_spl process_names command_lines iocs,
      rb_defender_kql = generate_defender_kql process_names command_lines iocs,
      rb_elastic_kql = generate_elastic_kql process_names command_lines iocs,
      rb_yara_rule = generate_yara_rule title description strings hex_patterns 80 agent_author,
      rb_mitre_technique_id = technique, rb_severity = severity\<rparr>"

section \<open>Validators\<close>

text \<open>\<open>None\<close> is the verdict valid; the text of an invalid verdict says why.\<close>

definition validate_sigma_rule :: "yaml_env \<Rightarrow> string \<Rightarrow> string option" where
  "validate_sigma_rule e content = (case ye_load e content of
       None \<Rightarrow> Some ''Invalid YAML syntax''
     | Some y \<Rightarrow> (case as_map y of
         None \<Rightarrow> Some ''Sigma rule must be a YAML mapping (dictionary)''
       | Some m \<Rightarrow> (case filter (\<lambda>k. yget k m = None) [''title'', ''logsource'', ''detection''] of
           k # _ \<Rightarrow> Some (''Missing mandatory Sigma field: '' @ k)
         | [] \<Rightarrow> (case as_map (the (yget ''logsource'' m)) of
             None \<Rightarrow> Some ''logsource must be a mapping''
           | Some l \<Rightarrow>
               if \<not> list_ex (\<lambda>k. yget k l \<noteq> None) [''category'', ''product'', ''service'']
               then Some ''logsource must contain at least one of category, product, or service''
               else (case as_map (the (yget ''detection'' m)) of
                   None \<Rightarrow> Some ''detection must be a mapping''
                 | Some d \<Rightarrow> (case yget ''condition'' d of
                     None \<Rightarrow> Some ''detection mapping missing mandatory condition field''
                   | Some c \<Rightarrow> (case as_ystr c of
                       None \<Rightarrow> Some ''detection.condition must be a non-empty string''
                     | Some s \<Rightarrow> if strip s = [] then Some ''detection.condition must be a non-empty string''
                         else None)))))))"

definition rule_name_re :: re where
  "rule_name_re = seqs [lit ''rule'', plus1 (Chr is_space), Grp 1 (plus1 (Chr ident_char)), blanks, lit ''{'']"

text \<open>The text after the first occurrence of a word.\<close>

fun after_first :: "string \<Rightarrow> string \<Rightarrow> string" where
  "after_first w [] = []"
| "after_first w (c # s) = (if prefix w (c # s) then drop (length w) (c # s) else after_first w s)"

definition fallback_validate_yara :: "string \<Rightarrow> string option" where
  "fallback_validate_yara clean =
     (if clean = [] then Some ''YARA rule content is empty''
      else if contains ''syntax error'' (lower clean) then Some ''YARA syntax error detected''
      else (case search rule_name_re clean of
          None \<Rightarrow> Some ''Missing or invalid rule definition''
        | Some m \<Rightarrow> (case group 1 m of
            None \<Rightarrow> Some ''Missing or invalid rule definition''
          | Some n \<Rightarrow>
              if \<not> (is_alpha (hd n) \<or> hd n = CHR ''_'') then Some (''Invalid YARA rule name identifier: '' @ n)
              else if \<not> suffix ''}'' clean then Some ''YARA rule missing closing brace''
              else if \<not> contains ''condition:'' clean then Some ''Missing condition section in YARA rule''
              else if strip (butlast (after_first ''condition:'' clean)) = []
              then Some ''Empty condition block in YARA rule''
              else None)))"

definition validate_yara_rule :: "(string \<Rightarrow> string option) option \<Rightarrow> string \<Rightarrow> string option" where
  "validate_yara_rule native rule_text = (let clean = strip rule_text in
     if clean = [] then Some ''YARA rule content is empty''
     else (case native of Some compile \<Rightarrow> compile clean | None \<Rightarrow> fallback_validate_yara clean))"

end
