(* ===== verification/Detection_Facts.thy ===== *)
theory Detection_Facts
  imports Detections
begin

text \<open>
  Generated detections mean what their specification says: a generated Sigma rule parses back,
  a query template reads back condition by condition, a generated YARA rule passes the
  fallback compiler.  The exact losses are part of the statements.
\<close>

section \<open>Query templates\<close>

text \<open>One condition \<open>field="value"\<close> of a query, as a reader with backslash escapes sees it.\<close>

definition read_condition :: "string \<Rightarrow> ((string \<times> string) \<times> string) option" where
  "read_condition s = (let f = takeWhile (\<lambda>c. c \<noteq> CHR ''='') s in
     case drop (length f) s of [] \<Rightarrow> None
     | _ # t \<Rightarrow> map_option (\<lambda>(v, r). ((f, v), r)) (read_quoted dquote t))"

definition condition_of :: "sigma_match \<Rightarrow> string \<times> string" where
  "condition_of m = (sm_field m, one_line (sm_value m))"

interpretation conditions: item_syntax render_condition read_condition condition_of
    "\<lambda>m. CHR ''='' \<notin> set (sm_field m)"
proof
  fix m :: sigma_match and r
  assume n: "CHR ''='' \<notin> set (sm_field m)"
  have "render_condition m @ r = sm_field m @ CHR ''='' # dquote # escape_quotes (sm_value m) @ dquote # r"
    by (simp add: render_condition_def)
  moreover have "takeWhile (\<lambda>c. c \<noteq> CHR ''='') (sm_field m @ CHR ''='' # t) = sm_field m" for t
    using n by (subst takeWhile_append2) auto
  ultimately show "read_condition (render_condition m @ r) = Some (condition_of m, r)"
    using double_quotes.read_display [of "sm_value m" r] by (simp add: read_condition_def condition_of_def)
qed

lemma field_chars: "fullmatch field_re f \<Longrightarrow> c \<in> set f \<Longrightarrow> field_char c"
  by (drule (1) fullmatch_alphabet) (auto simp: field_re_def field_start_def field_char_def ident_char_def ident_start_def)

lemma field_char_codes:
  assumes "field_char c"
  shows "code c \<in> {45, 46, 95} \<or> 48 \<le> code c \<and> code c \<le> 57 \<or> 65 \<le> code c \<and> code c \<le> 90 \<or>
     97 \<le> code c \<and> code c \<le> 122"
proof -
  have "code (CHR ''.'') = 46" "code (CHR ''-'') = 45" "code (CHR ''_'') = 95" by code_simp+
  with assms show ?thesis
    by (auto simp: field_char_def ident_char_def is_alpha_def is_upper_def is_lower_def is_digit_def)
qed

lemma field_char_plain:
  assumes "field_char c"
  shows "c \<noteq> CHR ''='' \<and> \<not> is_space c"
proof -
  have "code (CHR ''='') = 61" by code_simp
  with field_char_codes [OF assms] show ?thesis by (auto simp: is_space_def Let_def)
qed

lemma query_from_spec_Inr:
  assumes "query_from_spec rule b ids = Inr q"
  shows "(\<forall>m \<in> set (sg_matches rule). fullmatch field_re (sm_field m)) \<and> sg_matches rule \<noteq> [] \<and>
     qs_backend q = b \<and> qs_index q = None \<and> qs_conditions q = sg_matches rule \<and>
     qs_fields q = map sm_field (sg_matches rule) \<and> qs_evidence_ids q = ids"
proof -
  let ?fs = "map sm_field (sg_matches rule)"
  from assms have "filter (\<lambda>f. \<not> fullmatch field_re f) ?fs = []"
    by (auto simp: query_from_spec_def Let_def split: list.splits)
  then have m: "\<forall>m \<in> set (sg_matches rule). fullmatch field_re (sm_field m)"
    by (auto simp: filter_empty_conv)
  then have "map strip ?fs = ?fs"
    by (auto intro!: strip_spaceless dest!: field_chars field_char_plain)
  with assms m \<open>filter _ ?fs = []\<close> show ?thesis
    by (auto simp: query_from_spec_def QuerySpec_def Let_def rbind_Inr_iff check_def stripped_def simp del: map_map)
qed

text \<open>C17. A converted rule reads back: in the query rendered for a Sigma rule, a reader that
  knows string literals with backslash escapes finds exactly the rule's fields and values
  (line breaks become blanks) and then the projection; no value, whatever it contains, ends
  its literal or adds a clause.\<close>

theorem query_reads_back:
  assumes "query_from_spec rule b ids = Inr q" "ids \<noteq> []"
  shows "\<exists>body. render_query q = Inr (query_head b None @ body) \<and>
     read_items read_condition (and_word b) (length body) body
       = Some (map condition_of (sg_matches rule), query_tail b (map sm_field (sg_matches rule)))"
proof -
  let ?ms = "sg_matches rule"
  let ?body = "join (and_word b) (map render_condition ?ms) @ query_tail b (map sm_field ?ms)"
  note q = query_from_spec_Inr [OF assms(1)]
  have "\<forall>m \<in> set ?ms. CHR ''='' \<notin> set (sm_field m)"
    using q by (blast dest: field_chars field_char_plain)
  moreover have "\<not> prefix (and_word b) (query_tail b fs)" for fs
    by (cases b) (simp_all add: and_word_def query_tail_def)
  moreover have "length ?ms \<le> length (join sep (map render_condition ?ms))" for sep
    by (rule length_join_ge) (simp add: render_condition_def)
  ultimately have "read_items read_condition (and_word b) (length ?body) ?body
      = Some (map condition_of ?ms, query_tail b (map sm_field ?ms))"
    using q by (intro conditions.read_separated) (auto intro: trans_le_add1)
  with q assms(2) show ?thesis by (auto simp: render_query_def intro!: exI [of _ ?body])
qed

section \<open>Sigma rules\<close>

lemma sort_key_map: "sort_key g (map f xs) = map f (sort_key (g \<circ> f) xs)"
proof -
  have insort: "insort_key g (f x) (map f ys) = map f (insort_key (\<lambda>x. g (f x)) x ys)" for x ys by (induction ys) auto
  show ?thesis by (induction xs) (simp_all add: insort comp_def)
qed

text \<open>What remains of the matches of a rule: per field the last value, sorted by field, with
  the modifier \<open>equals\<close>.\<close>

definition kept_matches :: "sigma_match list \<Rightarrow> sigma_match list" where
  "kept_matches ms = map (\<lambda>(f, v). \<lparr>sm_field = f, sm_value = v, sm_modifier = M_EQUALS\<rparr>)
     (sort_key fst (selection_of ms))"

lemma selection_of_snoc: "selection_of (ms @ [m]) = dict_set (sm_field m) (sm_value m) (selection_of ms)"
  by (simp add: selection_of_def)

lemma selection_of_map: "map_of (selection_of ms) = map_of (rev (map (\<lambda>m. (sm_field m, sm_value m)) ms))"
  by (induction ms rule: rev_induct) (auto simp: selection_of_snoc dict_set_def update_conv selection_of_def)

lemma selection_of_distinct: "distinct (map fst (selection_of ms))"
  by (induction ms rule: rev_induct) (simp_all add: selection_of_snoc distinct_dict_set, simp add: selection_of_def)

lemma selection_of_source:
  assumes "(f, v) \<in> set (selection_of ms)"
  shows "\<exists>m \<in> set ms. sm_field m = f \<and> sm_value m = v"
proof -
  have "map_of (rev (map (\<lambda>m. (sm_field m, sm_value m)) ms)) f = Some v"
    using assms selection_of_distinct by (simp add: selection_of_map [symmetric])
  from map_of_SomeD [OF this] show ?thesis by auto
qed

lemma kept_matches_spec:
  "sorted (map sm_field (kept_matches ms))" "distinct (map sm_field (kept_matches ms))"
  "\<lparr>sm_field = f, sm_value = v, sm_modifier = M_EQUALS\<rparr> \<in> set (kept_matches ms)
     \<longleftrightarrow> map_of (rev (map (\<lambda>m. (sm_field m, sm_value m)) ms)) f = Some v"
proof -
  have fields: "map sm_field (kept_matches ms) = sort (map fst (selection_of ms))"
    by (simp add: kept_matches_def map_sort_key [symmetric] comp_def case_prod_unfold)
  show "sorted (map sm_field (kept_matches ms))" "distinct (map sm_field (kept_matches ms))"
    by (simp_all add: fields selection_of_distinct)
  have "(f, v) \<in> set (selection_of ms) \<longleftrightarrow> map_of (rev (map (\<lambda>m. (sm_field m, sm_value m)) ms)) f = Some v"
    by (simp add: selection_of_map [symmetric] selection_of_distinct)
  then show "\<lparr>sm_field = f, sm_value = v, sm_modifier = M_EQUALS\<rparr> \<in> set (kept_matches ms)
      \<longleftrightarrow> map_of (rev (map (\<lambda>m. (sm_field m, sm_value m)) ms)) f = Some v"
    by (auto simp: kept_matches_def)
qed

lemma texts_of_texts [simp]: "texts_of (map YStr ss) = Some ss"
  by (simp add: texts_of_def list_all_iff comp_def)

lemma fixed_match: "SigmaFieldMatch m0 = Inr m \<Longrightarrow> SigmaFieldMatch (m\<lparr>sm_modifier := x\<rparr>) = Inr (m\<lparr>sm_modifier := x\<rparr>)"
  by (auto simp: SigmaFieldMatch_def length_within_def rbind_Inr_iff split: if_splits)

lemma traverse_of_map: "traverse f (map h xs) = traverse (f \<circ> h) xs"
  by (induction xs) simp_all

lemma parse_selection:
  assumes "\<forall>m \<in> set ms. \<exists>m0. SigmaFieldMatch m0 = Inr m"
  shows "rbind (sorted_selection (yaml_texts (selection_of ms))) (traverse field_match) = Inr (kept_matches ms)"
proof -
  let ?d = "selection_of ms"
  have "map fst (yaml_texts ?d) = map YStr (map fst ?d)" by (simp add: yaml_texts_def comp_def case_prod_unfold)
  moreover have "zip (map fst ?d) (map snd (yaml_texts ?d)) = map (\<lambda>(k, v). (k, YStr v)) ?d"
    by (induction ?d) (auto simp: yaml_texts_def zip_map_map comp_def case_prod_unfold map_zip_map2 intro!: nth_equalityI)
  ultimately have "sorted_selection (yaml_texts ?d) = Inr (map (\<lambda>(k, v). (k, YStr v)) (sort_key fst ?d))"
    by (simp add: sorted_selection_def sort_key_map comp_def case_prod_unfold del: map_map)
  moreover have "traverse field_match (map (\<lambda>(k, v). (k, YStr v)) (sort_key fst ?d)) = Inr (kept_matches ms)"
  proof -
    have "field_match (f, YStr v) = Inr \<lparr>sm_field = f, sm_value = v, sm_modifier = M_EQUALS\<rparr>"
      if "(f, v) \<in> set ?d" for f v
    proof -
      from selection_of_source [OF that] obtain m where m: "m \<in> set ms" "sm_field m = f" "sm_value m = v" by blast
      with assms fixed_match [of _ m M_EQUALS] show ?thesis by (cases m) (auto simp: field_match_def)
    qed
    then have "traverse (\<lambda>(f, v). field_match (f, YStr v)) (sort_key fst ?d) = Inr (kept_matches ms)"
      unfolding kept_matches_def by (intro traverse_map) auto
    then show ?thesis by (simp add: traverse_of_map comp_def case_prod_unfold)
  qed
  ultimately show ?thesis by simp
qed

lemma logsource_roundtrip:
  assumes "SigmaLogSource l = l"
  shows "parse_logsource (logsource_map l) = Some l"
proof -
  obtain c p s where l: "l = \<lparr>sl_category = c, sl_product = p, sl_service = s\<rparr>" by (cases l)
  have "parse_logsource (logsource_map l) = Some (SigmaLogSource l)"
    unfolding l by (cases c; cases p; cases s)
      (simp_all add: parse_logsource_def logsource_map_def logsource_keys_def yget_def optional_text_def)
  with assms show ?thesis by simp
qed

lemma kept_matches_nonempty: "ms \<noteq> [] \<Longrightarrow> kept_matches ms \<noteq> []"
  by (cases ms rule: rev_cases) (auto simp: kept_matches_def selection_of_snoc dict_set_def
    dest!: arg_cong [where f = length] arg_cong [where f = dom] simp: dom_update)

lemma SigmaRuleSpec_fixed:
  "SigmaRuleSpec raw = Inr spec \<Longrightarrow> ms \<noteq> [] \<Longrightarrow> SigmaRuleSpec (spec\<lparr>sg_matches := ms\<rparr>) = Inr (spec\<lparr>sg_matches := ms\<rparr>)"
  by (auto simp: SigmaRuleSpec_def nonempty_text_def rbind_Inr_iff check_def comp_def split: if_splits)

text \<open>C18. A generated Sigma rule parses back: from the content of the artifact \<open>parse_sigma\<close>
  reads the rule it was generated from, with its title, description, log source, condition,
  level, tags and references, and per field the last value as an \<open>equals\<close> match (several
  values of one field and all other modifiers are lost).  The YAML library must load what it
  dumps.\<close>

theorem sigma_roundtrip:
  assumes "SigmaRuleSpec raw = Inr spec" and "SigmaLogSource l = sg_logsource spec"
    and "\<forall>m \<in> set (sg_matches spec). \<exists>m0. SigmaFieldMatch m0 = Inr m"
    and "ye_load e (strip (ye_dump e (sigma_payload spec))) = Some (sigma_payload spec)"
    and "generate_sigma e sha256 report_version_id detection_id spec ids ts = Inr a"
  shows "parse_sigma e (da_content a) = Inr (spec\<lparr>sg_matches := kept_matches (sg_matches spec)\<rparr>) \<and>
     (\<forall>f v. \<lparr>sm_field = f, sm_value = v, sm_modifier = M_EQUALS\<rparr> \<in> set (kept_matches (sg_matches spec))
        \<longleftrightarrow> map_of (rev (map (\<lambda>m. (sm_field m, sm_value m)) (sg_matches spec))) f = Some v) \<and>
     distinct (map sm_field (kept_matches (sg_matches spec)))"
proof -
  have content: "da_content a = strip (ye_dump e (sigma_payload spec))"
    using assms(5) by (auto simp: generate_sigma_def DetectionArtifact_def nonempty_text_def rbind_Inr_iff split: if_splits)
  have "sg_matches spec \<noteq> []"
    using assms(1) by (auto simp: SigmaRuleSpec_def rbind_Inr_iff check_def)
  note spec = SigmaRuleSpec_fixed [OF assms(1) kept_matches_nonempty [OF this]]
  have "SigmaLogSource (sg_logsource spec) = sg_logsource spec"
    using arg_cong [OF assms(2), of SigmaLogSource]
    by (simp add: SigmaLogSource_def stripped_def option.map_comp comp_def flip: assms(2))
  note l = logsource_roundtrip [OF this]
  obtain items where items: "sorted_selection (yaml_texts (selection_of (sg_matches spec))) = Inr items"
    "traverse field_match items = Inr (kept_matches (sg_matches spec))"
    using parse_selection [OF assms(3)] by (auto simp: rbind_Inr_iff)
  let ?kept = "kept_matches (sg_matches spec)"
  have "SigmaRuleSpec \<lparr>sg_title = sg_title spec, sg_description = sg_description spec,
      sg_logsource = sg_logsource spec, sg_matches = ?kept, sg_condition = sg_condition spec,
      sg_level = sg_level spec, sg_tags = sg_tags spec, sg_references = sg_references spec\<rparr>
      = Inr (spec\<lparr>sg_matches := ?kept\<rparr>)"
    using spec by (cases spec) simp
  then have "parse_sigma e (da_content a) = Inr (spec\<lparr>sg_matches := ?kept\<rparr>)"
    by (simp add: parse_sigma_def content assms(4), simp add: sigma_payload_def yget_def items
      build_rule_def l text_or_def tuple_or_empty_def relabel_def)
  with kept_matches_spec show ?thesis by blast
qed

section \<open>YARA rules\<close>

lemma lang_seqs: "w \<in> lang (seqs []) \<longleftrightarrow> w = []"
  "u \<in> lang r \<Longrightarrow> v \<in> lang (seqs rs) \<Longrightarrow> u @ v \<in> lang (seqs (r # rs))"
  by (auto simp: seqs_def)

lemma lang_lit: "s \<in> lang (lit s)"
  by (induction s rule: lit.induct) (simp, simp, force)

lemma lang_star_chr: "\<forall>c \<in> set w. p c \<Longrightarrow> w \<in> lang (star (Chr p))"
proof -
  assume p: "\<forall>c \<in> set w. p c"
  have "w = concat (map (\<lambda>c. [c]) w)" by simp
  with p show ?thesis by (force intro!: exI [of _ "map (\<lambda>c. [c]) w"])
qed

lemma plain_lit: "plain (lit s)"
  by (induction s rule: lit.induct) simp_all

lemma yara_plain: "plain yara_structure_re" "plain yara_string_re" "plain identifier_re"
  by (simp_all add: yara_structure_re_def yara_string_re_def identifier_re_def blanks_def seqs_def plain_lit)

text \<open>The text of a rule, split where the validators look.\<close>

lemma yara_text_split:
  assumes "ya_strings y = v # vs"
  obtains mid where "yara_text y = ''rule '' @ ya_rule_name y @ '' {'' @ newline # ''  strings:'' @ newline
      # ''    '' @ ''$s1 = '' @ [dquote] @ mid @ ''  condition:'' @ newline # ''    '' @ ya_condition y
      @ newline # ''}'' @ [newline]"
proof -
  let ?ss = "map (\<lambda>(i, v). yara_string i v) (zip [1..<length (ya_strings y) + 1] (ya_strings y))"
  have "[1..<length (ya_strings y) + 1] = 1 # [2..<length (ya_strings y) + 1]"
    using assms upt_conv_Cons [of 1 "length (ya_strings y) + 1"] by (simp add: eval_nat_numeral)
  then obtain ss where ss: "?ss = yara_string 1 v # ss" using assms by auto
  have "int_str 1 = ''1''" by code_simp
  then have one: "yara_string 1 v = ''    '' @ ''$s1 = '' @ [dquote] @ escape_quotes v @ [dquote] @ '' ascii wide nocase''"
    by (simp add: yara_string_def)
  let ?rest = "join [newline] (ss @ [''  condition:'', ''    '' @ ya_condition y, ''}''])"
  have "\<exists>pre. ?rest = pre @ ''  condition:'' @ newline # ''    '' @ ya_condition y @ newline # ''}''"
  proof (induction ss)
    case (Cons s ss)
    then show ?case by (auto simp: join_Cons)
  qed simp
  then obtain pre where "?rest = pre @ ''  condition:'' @ newline # ''    '' @ ya_condition y @ newline # ''}''" by blast
  moreover have "yara_lines y = [''rule '' @ ya_rule_name y @ '' {'', ''  strings:''] @ (yara_string 1 v # ss)
      @ [''  condition:'', ''    '' @ ya_condition y, ''}'']"
    unfolding yara_lines_def ss ..
  ultimately have "yara_text y = ''rule '' @ ya_rule_name y @ '' {'' @ newline # ''  strings:'' @ newline
      # ''    '' @ ''$s1 = '' @ [dquote] @ (escape_quotes v @ [dquote] @ '' ascii wide nocase'' @ newline # pre) @ ''  condition:''
      @ newline # ''    '' @ ya_condition y @ newline # ''}'' @ [newline]"
    by (simp add: yara_text_def join_Cons one [unfolded One_nat_def])
  then show ?thesis by (rule that)
qed

text \<open>A generated YARA rule passes the validation without the native compiler, for every list
  of evidence strings and every rule name the contract admits, with one exception: a rule
  whose text contains the words \<open>syntax error\<close>, for instance because an evidence string does,
  is rejected.\<close>

theorem generated_yara_compiles:
  assumes "generate_yara sha256 report_version_id detection_id f rule_name = Inr a"
  shows "fallback_compile_yara (da_content a) = (if contains ''syntax error'' (lower (da_content a))
     then Inl (ValueError ''invalid YARA syntax'') else Inr ())"
proof -
  from assms obtain y where y: "YaraRuleSpec \<lparr>ya_rule_name = rule_name, ya_strings = fi_strings f,
      ya_condition = ''any of them'', ya_evidence_ids = fi_evidence_ids f\<rparr> = Inr y"
    and content: "da_content a = strip (yara_text y)"
    by (auto simp: generate_yara_def DetectionArtifact_def nonempty_text_def rbind_Inr_iff split: if_splits)
  from y have name: "ya_rule_name y \<in> lang identifier_re" and "ya_strings y \<noteq> []"
    by (auto simp: YaraRuleSpec_def rbind_Inr_iff check_def dest: fullmatch_lang)
  then obtain v vs where "ya_strings y = v # vs" by (cases "ya_strings y") auto
  then obtain mid where t: "yara_text y = ''rule '' @ ya_rule_name y @ '' {'' @ newline # ''  strings:'' @ newline
      # ''    '' @ ''$s1 = '' @ [dquote] @ mid @ ''  condition:'' @ newline # ''    '' @ ya_condition y
      @ newline # ''}'' @ [newline]"
    by (rule yara_text_split)
  let ?body = "newline # ''  strings:'' @ newline # ''    '' @ ''$s1 = '' @ [dquote] @ mid @ ''  condition:'' @ newline
      # ''    '' @ ya_condition y @ [newline]"
  let ?c = "''rule '' @ ya_rule_name y @ '' {'' @ ?body @ ''}''"
  have c: "da_content a = ?c"
  proof -
    have "yara_text y = ?c @ [newline]" by (simp add: t)
    moreover have "is_space newline" "\<not> is_space (CHR ''r'')" "\<not> is_space (CHR ''}'')" by (code_simp)+
    ultimately show ?thesis by (simp add: content strip_def lstrip_by_def rstrip_by_def)
  qed
  have sp: "is_space (CHR '' '')" by code_simp
  have "[] @ ''rule'' @ '' '' @ ya_rule_name y @ '' '' @ ''{'' @ ?body @ ''}'' @ [] @ [] \<in> lang yara_structure_re"
    unfolding yara_structure_re_def blanks_def
    by (intro lang_seqs(2) lang_star_chr lang_lit name) (auto simp: sp lang_seqs(1) intro!: exI [of _ "['' '']"])
  then have "fullmatch yara_structure_re (da_content a)" by (simp add: c fullmatch_plain yara_plain)
  moreover have inside: "sublist X (ps @ X @ ss)" for X ps ss :: string by (auto simp: sublist_def)
  have "sublist ''strings:'' (da_content a)"
    using inside [where X = "''strings:''" and ps = "''rule '' @ ya_rule_name y @ '' {'' @ newline # ''  ''"] by (simp add: c)
  moreover have "sublist ''condition:'' (da_content a)"
    using inside [where X = "''condition:''" and ps = "''rule '' @ ya_rule_name y @ '' {'' @ newline # ''  strings:'' @ newline
      # ''    '' @ ''$s1 = '' @ [dquote] @ mid @ ''  ''"] by (simp add: c)
  moreover have "matches_somewhere yara_string_re (da_content a)"
  proof -
    have "fullmatch identifier_re ''s1''" by code_simp
    then have var: "''s1'' \<in> lang identifier_re" by (rule fullmatch_lang)
    have "''$'' @ ''s1'' @ '' '' @ ''='' @ '' '' @ [dquote] @ [] \<in> lang yara_string_re"
      unfolding yara_string_re_def blanks_def
      by (intro lang_seqs(2) lang_star_chr lang_lit var) (simp_all add: sp lang_seqs(1))
    from matches_plain [OF yara_plain(2) this, of "''rule '' @ ya_rule_name y @ '' {'' @ newline # ''  strings:'' @ newline # ''    ''"]
    show ?thesis by (simp add: c)
  qed
  ultimately show ?thesis by (simp add: fallback_compile_yara_def contains_def)
qed

section \<open>Concrete detections\<close>

definition demo_rule :: sigma_rule where
  "demo_rule = \<lparr>sg_title = ''Demo'', sg_description = ''d'',
     sg_logsource = \<lparr>sl_category = Some ''process_creation'', sl_product = None, sl_service = None\<rparr>,
     sg_matches = [\<lparr>sm_field = ''Image'', sm_value = ''a\" OR b'', sm_modifier = M_CONTAINS\<rparr>,
       \<lparr>sm_field = ''CommandLine'', sm_value = ''x'', sm_modifier = M_EQUALS\<rparr>],
     sg_condition = ''not selection'', sg_level = ''high'', sg_tags = [''attack.t1059''], sg_references = []\<rparr>"

theorem query_reads_back_witness:
  "\<exists>q body. query_from_spec demo_rule SPL [''e''] = Inr q \<and> render_query q = Inr body \<and>
     read_items read_condition '' AND '' (length body) body
       = Some ([(''Image'', ''a\" OR b''), (''CommandLine'', ''x'')], '' | table Image, CommandLine'')"
proof -
  have "ok (query_from_spec demo_rule SPL [''e''])" by code_simp
  then obtain q where q: "query_from_spec demo_rule SPL [''e''] = Inr q" by (auto simp: ok_iff)
  have "query_head SPL None = []" "and_word SPL = '' AND ''"
    "map condition_of (sg_matches demo_rule) = [(''Image'', ''a\" OR b''), (''CommandLine'', ''x'')]"
    "query_tail SPL (map sm_field (sg_matches demo_rule)) = '' | table Image, CommandLine''"
    by code_simp+
  with query_reads_back [OF q] q show ?thesis by fastforce
qed

text \<open>The Sigma condition plays no part in the conversion: a rule that selects what does not
  match is converted to the query for what matches.\<close>

lemma condition_ignored: "query_from_spec (rule\<lparr>sg_condition := c\<rparr>) b ids = query_from_spec rule b ids"
  by (simp add: query_from_spec_def Let_def cong: list.case_cong)

lemma modifiers_ignored: "render_condition (m\<lparr>sm_modifier := x\<rparr>) = render_condition m"
  by (simp add: render_condition_def)

abbreviation demo_yaml :: yaml_env where
  "demo_yaml \<equiv> \<lparr>ye_load = \<lambda>_. Some (sigma_payload demo_rule), ye_dump = \<lambda>_. ''title: Demo''\<rparr>"

theorem sigma_roundtrip_witness:
  "\<exists>a. generate_sigma demo_yaml id ''v'' ''d'' demo_rule [''e''] [] = Inr a \<and>
     parse_sigma demo_yaml (da_content a) = Inr (demo_rule\<lparr>sg_matches := kept_matches (sg_matches demo_rule)\<rparr>)"
proof -
  have 1: "SigmaRuleSpec demo_rule = Inr demo_rule" by code_simp
  have 2: "SigmaLogSource (sg_logsource demo_rule) = sg_logsource demo_rule" by code_simp
  have "list_all (\<lambda>m. SigmaFieldMatch m = Inr m) (sg_matches demo_rule)" by code_simp
  then have 3: "\<forall>m \<in> set (sg_matches demo_rule). \<exists>m0. SigmaFieldMatch m0 = Inr m" by (auto simp: list_all_iff)
  have 4: "ye_load demo_yaml (strip (ye_dump demo_yaml (sigma_payload demo_rule))) = Some (sigma_payload demo_rule)" by simp
  have "ok (generate_sigma demo_yaml id ''v'' ''d'' demo_rule [''e''] [])" by code_simp
  then obtain a where "generate_sigma demo_yaml id ''v'' ''d'' demo_rule [''e''] [] = Inr a" by (auto simp: ok_iff)
  with sigma_roundtrip [OF 1 2 3 4 this] show ?thesis by blast
qed

definition demo_file :: file_evidence where
  "demo_file = \<lparr>fi_evidence_ids = [''e''], fi_file_name = ''f'', fi_sha256 = None,
     fi_strings = [''a syntax error''], fi_public_source = ''p''\<rparr>"

theorem generated_yara_compiles_witness:
  "\<exists>a. generate_yara id ''v'' ''d'' demo_file ''Demo'' = Inr a \<and>
     fallback_compile_yara (da_content a) = Inl (ValueError ''invalid YARA syntax'')"
proof -
  let ?r = "generate_yara id ''v'' ''d'' demo_file ''Demo''"
  have "ok ?r \<and> contains ''syntax error'' (lower (da_content (projr ?r)))" by code_simp
  then obtain a where "?r = Inr a" "contains ''syntax error'' (lower (da_content a))" by (auto simp: ok_iff)
  with generated_yara_compiles [OF this(1)] show ?thesis by simp
qed

end
