(* ===== verification/Rule_Facts.thy ===== *)
theory Rule_Facts
  imports Rule_Generator Detection_Facts
begin

text \<open>
  What the generated hunting queries and rules mean to their readers, and that the generated
  rules pass the validators.
\<close>

section \<open>Clauses of KQL queries\<close>

definition show_clause :: "(string \<Rightarrow> string) \<Rightarrow> string \<Rightarrow> string \<times> string list \<Rightarrow> string" where
  "show_clause quoted sep c = fst c @ ''('' @ join sep (map quoted (snd c)) @ '')''"

text \<open>A clause is a text up to a parenthesis and a list of quoted values up to the closing one.\<close>

definition read_clause :: "char \<Rightarrow> string \<Rightarrow> string \<Rightarrow> ((string \<times> string list) \<times> string) option" where
  "read_clause q sep s = (let h = takeWhile (\<lambda>c. c \<noteq> CHR ''('') s in
     case read_items (read_quoted q) sep (length s) (drop (length h + 1) s) of
       Some (vs, c # r) \<Rightarrow> if c = CHR '')'' then Some ((h, vs), r) else None
     | _ \<Rightarrow> None)"

interpretation elastic_clauses: item_syntax "show_clause dquoted '' or ''" "read_clause dquote '' or ''"
    "map_prod id (map one_line)" "\<lambda>c. CHR ''('' \<notin> set (fst c) \<and> snd c \<noteq> []"
proof
  fix c :: "string \<times> string list" and r
  assume c: "CHR ''('' \<notin> set (fst c) \<and> snd c \<noteq> []"
  obtain h vs where p: "c = (h, vs)" by (cases c)
  let ?s = "show_clause dquoted '' or '' c @ r" and ?vs = "join '' or '' (map dquoted vs)"
  have s: "?s = h @ CHR ''('' # ?vs @ '')'' @ r" by (simp add: p show_clause_def)
  have h: "takeWhile (\<lambda>c. c \<noteq> CHR ''('') ?s = h" using c unfolding s by (subst takeWhile_append2) (auto simp: p)
  have "length vs \<le> length ?vs" by (rule length_join_ge) (simp add: dquoted_def)
  then have "length vs \<le> length ?s" by (simp add: s)
  with c have "read_items (read_quoted dquote) '' or '' (length ?s)
      (join '' or '' (map (\<lambda>v. dquote # escape_quotes v @ [dquote]) vs) @ '')'' @ r) = Some (map one_line vs, '')'' @ r)"
    by (intro double_quotes.read_separated) (auto simp: p)
  then have items: "read_items (read_quoted dquote) '' or '' (length ?s) (?vs @ '')'' @ r) = Some (map one_line vs, '')'' @ r)"
    by (simp add: dquoted_def [abs_def])
  have d: "drop (length h + 1) ?s = ?vs @ '')'' @ r" unfolding s by simp
  show "read_clause dquote '' or '' ?s = Some (map_prod id (map one_line) c, r)"
    unfolding read_clause_def Let_def h d items by (simp add: p)
qed

definition elastic_lists :: "string list \<Rightarrow> string list \<Rightarrow> string list \<Rightarrow> (string \<times> string list) list" where
  "elastic_lists ps cs ios = filter (\<lambda>c. snd c \<noteq> [])
     [(''process.name : '', ps), (''process.command_line : '', cs), (''process.command_line : '', ios)]"

text \<open>The Elastic query reads back: whatever the process names, command lines and indicators
  contain, the query is the conjunction of one clause per non-empty list, and each clause
  lists exactly the given values, line breaks replaced by blanks.\<close>

theorem elastic_kql_reads_back:
  assumes "elastic_lists ps cs ios \<noteq> []"
  shows "read_items (read_clause dquote '' or '') '' and '' 3 (generate_elastic_kql ps cs ios)
     = Some (map (map_prod id (map one_line)) (elastic_lists ps cs ios), [])"
proof -
  let ?l = "elastic_lists ps cs ios"
  have "kql_clause h dquoted '' or '' vs = (if vs = [] then [] else [show_clause dquoted '' or '' (h, vs)])" for h vs
    by (simp add: kql_clause_def show_clause_def)
  then have "generate_elastic_kql ps cs ios = join '' and '' (map (show_clause dquoted '' or '') ?l) @ []"
    using assms by (auto simp: generate_elastic_kql_def elastic_lists_def Let_def)
  moreover have "\<forall>c \<in> set ?l. CHR ''('' \<notin> set (fst c) \<and> snd c \<noteq> []" by (auto simp: elastic_lists_def)
  moreover have "length ?l \<le> 3" by (simp add: elastic_lists_def)
  ultimately show ?thesis using assms elastic_clauses.read_separated [of ?l "'' and ''" "[]" 3] by simp
qed

theorem elastic_kql_reads_back_witness:
  "read_items (read_clause dquote '' or '') '' and '' 3 (generate_elastic_kql [''a\") or (b''] [] [''c''])
     = Some ([(''process.name : '', [''a\") or (b'']), (''process.command_line : '', [''c''])], [])"
proof -
  have "elastic_lists [''a\") or (b''] [] [''c''] \<noteq> []" by (simp add: elastic_lists_def)
  from elastic_kql_reads_back [OF this] show ?thesis
    by (simp add: elastic_lists_def one_line_def newline_def)
qed

section \<open>The Defender query\<close>

lemma escape_quotes_plain: "set w \<inter> {backslash, dquote, newline} = {} \<Longrightarrow> escape_quotes w = w"
  by (induction w) (auto simp: escape_char_def)

text \<open>The Defender query does not keep its values apart from its syntax: it quotes with single
  quotes but escapes double ones, so a process name that begins with a single quote ends its
  literal at once and the rest of the name becomes part of the query, as in
  \<open>') or 1 == 1 //\<close>.\<close>

theorem defender_kql_injection:
  assumes "set w \<inter> {backslash, dquote, newline} = {}"
  shows "\<exists>before after. generate_defender_kql [squote # w] cs ios = before @ [squote, squote] @ w @ [squote] @ after \<and>
     read_quoted squote ([squote, squote] @ w @ [squote] @ after) = Some ([], w @ [squote] @ after) \<and>
     before = ''DeviceProcessEvents'' @ [newline] @ ''| where FileName in~ (''"
proof -
  have "squoted (squote # w) = [squote, squote] @ w @ [squote]"
    using assms by (simp add: squoted_def escape_quotes_plain escape_char_def quote_chars)
  then have "kql_clause ''FileName in~ '' squoted '', '' [squote # w]
      = [''FileName in~ ('' @ [squote, squote] @ w @ [squote] @ '')'']"
    by (simp add: kql_clause_def)
  moreover obtain rest where "kql_clause ''ProcessCommandLine has_any '' squoted '', '' cs
      @ kql_clause ''ProcessCommandLine has_any '' squoted '', '' ios = rest" by blast
  ultimately have "\<exists>after. generate_defender_kql [squote # w] cs ios = (''DeviceProcessEvents'' @ [newline]
      @ ''| where FileName in~ ('') @ [squote, squote] @ w @ [squote] @ after"
    by (cases rest) (auto simp: generate_defender_kql_def Let_def join_Cons)
  moreover have "read_quoted squote ([squote, squote] @ r) = Some ([], r)" for r
    by (simp add: read_quoted_def)
  ultimately show ?thesis by (metis append_assoc)
qed

theorem defender_kql_injection_witness:
  "\<exists>before after. generate_defender_kql [squote # '') or 1 == 1 //''] [] [] = before @ [squote, squote] @ '') or 1 == 1 //'' @ [squote] @ after"
proof -
  have "set '') or 1 == 1 //'' \<inter> {backslash, dquote, newline} = {}" by (simp add: quote_chars)
  from defender_kql_injection [OF this] show ?thesis by blast
qed

section \<open>The rules pass their validators\<close>

lemma lang_star_chr_iff: "w \<in> lang (star (Chr p)) \<longleftrightarrow> (\<forall>c \<in> set w. p c)"
proof
  assume "w \<in> lang (star (Chr p))"
  from lang_alphabet [OF this] show "\<forall>c \<in> set w. p c" by simp
qed (rule lang_star_chr)

lemma identifier_iff: "fullmatch identifier_re n \<longleftrightarrow> n \<noteq> [] \<and> ident_start (hd n) \<and> list_all ident_char (tl n)"
proof -
  have "n \<in> lang identifier_re \<longleftrightarrow> (\<exists>c v. n = c # v \<and> ident_start c \<and> v \<in> lang (star (Chr ident_char)))"
  proof
    assume "\<exists>c v. n = c # v \<and> ident_start c \<and> v \<in> lang (star (Chr ident_char))"
    then obtain c v where "n = [c] @ v" "ident_start c" "v \<in> lang (star (Chr ident_char))" by auto
    then show "n \<in> lang identifier_re" unfolding identifier_re_def lang.simps(3)
      by (intro CollectI exI [of _ "[c]"] exI [of _ v]) (simp del: lang.simps(5))
  qed (auto simp: identifier_re_def simp del: lang.simps(5))
  then show ?thesis unfolding fullmatch_plain [OF yara_plain(3)] lang_star_chr_iff
    by (cases n) (auto simp: list_all_iff)
qed

lemma set_lstrip: "set (lstrip_by p s) \<subseteq> set s"
  by (auto simp: lstrip_by_def dest: set_dropWhileD)

lemma set_rstrip: "set (rstrip_by p s) \<subseteq> set s"
  by (auto simp: rstrip_by_def dest: set_dropWhileD)

text \<open>The name of a generated YARA rule is an identifier, whatever the title is.\<close>

lemma sanitized_name_identifier: "fullmatch identifier_re (sanitized_name rule_name)"
proof -
  let ?m = "map (\<lambda>c. if ident_char c then c else CHR ''_'') rule_name"
  define n where "n = rstrip_by (\<lambda>c. c = CHR ''_'') (lstrip_by (\<lambda>c. c = CHR ''_'') ?m)"
  have "ident_char (CHR ''_'')" by (simp add: ident_char_def)
  then have "\<forall>c \<in> set ?m. ident_char c" by auto
  moreover have "set n \<subseteq> set ?m" unfolding n_def using set_rstrip set_lstrip by (rule subset_trans)
  ultimately have "list_all ident_char n" unfolding list_all_iff by blast
  then have n: "list_all ident_char (tl n)" by (cases n) auto
  have h: "list_all ident_char (tl ''Hermes_Rule_'')" "list_all ident_char (tl ''Hermes_Rule_Auto'')"
    "ident_start (CHR ''H'')" by code_simp+
  have "sanitized_name rule_name = (if n = [] then ''Hermes_Rule_Auto''
      else if ident_start (hd n) then n else ''Hermes_Rule_'' @ n)"
    unfolding sanitized_name_def Let_def unfolding n_def [symmetric] ident_start_def by (rule refl)
  with n h \<open>list_all ident_char n\<close> show ?thesis by (auto simp: identifier_iff)
qed

text \<open>A generated Sigma rule passes the validator.\<close>

lemma generated_sigma_valid:
  assumes "\<And>y. y = rule_payload e t d ps cs tags severity author rule_id references \<Longrightarrow>
     ye_load (ge_yaml e) (ye_dump (ge_yaml e) y) = Some y"
  shows "validate_sigma_rule (ge_yaml e) (generate_sigma_rule e t d ps cs tags severity author rule_id references) = None"
proof -
  have "strip ''selection'' = ''selection''" by code_simp
  then show ?thesis
    by (simp add: validate_sigma_rule_def generate_sigma_rule_def assms [OF refl], simp add: rule_payload_def yget_def)
qed

end
