(* ===== verification/Entity_Store.thy ===== *)
theory Entity_Store
  imports Run_Store
begin

text \<open>
  \<^verbatim>\<open>db/entity_repositories.py\<close> over the tables of \<^verbatim>\<open>db/entity_models.py\<close> and \<^verbatim>\<open>db/models.py\<close>:
  idempotent upserts of threat actors, malware, tools, campaigns, infrastructure, products and
  attack techniques by their natural keys, and evidence links.  The interface
  \<open>entity_table\<close> gives what the callers of every upsert rely on.
\<close>

section \<open>The upsert and its contract\<close>

definition upsert_entity :: "('r \<Rightarrow> uuid) \<Rightarrow> ('r \<Rightarrow> 'k) \<Rightarrow> ('r \<Rightarrow> 'r \<Rightarrow> 'r) \<Rightarrow> ('r \<Rightarrow> bool) \<Rightarrow> string \<Rightarrow> 'r \<Rightarrow> 'r list
    \<Rightarrow> store_error + 'r list \<times> 'r" where
  "upsert_entity ident key upd fits name r rows =
     rbind (guard (fits r) DataError) (\<lambda>_.
     rbind (upsert_checked ident key upd r rows) (\<lambda>rows'.
       case find_row key (key r) rows' of
         None \<Rightarrow> Inl (NotPersisted (name @ '' was not persisted''))
       | Some x \<Rightarrow> Inr (rows', x)))"

locale entity_table = identified_table key upd ident
  for key :: "'r \<Rightarrow> 'k" and upd :: "'r \<Rightarrow> 'r \<Rightarrow> 'r" and ident :: "'r \<Rightarrow> uuid" +
  fixes fits :: "'r \<Rightarrow> bool" and name :: string
begin

abbreviation put :: "'r \<Rightarrow> 'r list \<Rightarrow> store_error + 'r list \<times> 'r" where
  "put \<equiv> upsert_entity ident key upd fits name"

lemma put_Inr:
  assumes "put r rows = Inr (rows', x)"
  shows "upsert_checked ident key upd r rows = Inr rows' \<and> fits r \<and> find_row key (key r) rows' = Some x \<and>
     rows' = upsert key upd r rows"
  using assms by (auto simp: upsert_entity_def rbind_Inr_iff split: option.splits dest: checked_cases)

lemma put_result:
  assumes "put r rows = Inr (rows', x)"
  shows "x = (case find_row key (key r) rows of None \<Rightarrow> r | Some old \<Rightarrow> upd old r)"
  using put_Inr [OF assms] upsert_find [of "key r" r rows] by (elim conjE) simp

lemma put_ident:
  assumes "put r rows = Inr (rows', x)"
  shows "ident x = (case find_row key (key r) rows of None \<Rightarrow> ident r | Some old \<Rightarrow> ident old) \<and> key x = key r"
  using put_result [OF assms] by (auto simp: upd_ident upd_key split: option.splits dest: find_row_Some)

lemma put_unique:
  "put r rows = Inr (rows', x) \<Longrightarrow> unique_on key rows \<Longrightarrow> unique_on ident rows \<Longrightarrow>
     unique_on key rows' \<and> unique_on ident rows'"
  by (blast dest: put_Inr checked_unique)

lemma put_others:
  "put r rows = Inr (rows', x) \<Longrightarrow> key y \<noteq> key r \<Longrightarrow> y \<in> set rows' \<longleftrightarrow> y \<in> set rows"
  using put_Inr [of r rows rows' x] upsert_others [of y r rows] by simp

lemma put_idents:
  "put r rows = Inr (rows', x) \<Longrightarrow> has_row ident i rows' \<longleftrightarrow> has_row ident i rows \<or> (\<not> has_row key (key r) rows \<and> i = ident r)"
  by (blast dest: put_Inr checked_idents)

text \<open>A natural key that is already stored keeps its identifier: the one supplied is not
  inserted.\<close>

lemma put_keeps_ident:
  assumes "put r rows = Inr (rows', x)" "find_row key (key r) rows = Some old" "ident r \<noteq> ident old"
    and "\<not> has_row ident (ident r) rows"
  shows "ident x = ident old \<and> \<not> has_row ident (ident r) rows'"
  using put_ident [OF assms(1)] put_idents [OF assms(1), of "ident r"] assms(2,4) by (simp add: has_row_find)

end

section \<open>The tables\<close>

record actor_row =
  ac_id :: uuid
  ac_canonical_name :: string
  ac_normalized_name :: string
  ac_aliases :: "string list"
  ac_attribution_state :: string
  ac_description :: "string option"
  ac_first_seen_at :: "instant option"
  ac_last_seen_at :: "instant option"
  ac_source_count :: int

record malware_row =
  ma_id :: uuid
  ma_canonical_name :: string
  ma_normalized_name :: string
  ma_aliases :: "string list"
  ma_malware_type :: "string option"
  ma_platforms :: "string list"
  ma_description :: "string option"
  ma_first_seen_at :: "instant option"
  ma_last_seen_at :: "instant option"

record tool_row =
  to_id :: uuid
  to_name :: string
  to_normalized_name :: string
  to_aliases :: "string list"
  to_legitimate_use :: "bool option"
  to_description :: "string option"
  to_first_seen_at :: "instant option"
  to_last_seen_at :: "instant option"

record campaign_row =
  cp_id :: uuid
  cp_name :: "string option"
  cp_stable_key :: string
  cp_start_at :: "instant option"
  cp_end_at :: "instant option"
  cp_description :: "string option"
  cp_targeting :: "json dict"
  cp_state :: string
  cp_confidence :: rat

record infrastructure_row =
  if_id :: uuid
  if_infrastructure_type :: string
  if_normalized_identifier :: string
  if_provider :: "string option"
  if_asn :: "string option"
  if_first_seen_at :: "instant option"
  if_last_seen_at :: "instant option"
  if_state :: string

record product_row =
  pd_id :: uuid
  pd_vendor :: string
  pd_product :: string
  pd_normalized_vendor :: string
  pd_normalized_product :: string
  pd_ecosystem :: string
  pd_product_type :: "string option"
  pd_canonical_identifiers :: "json dict"

record technique_row =
  tq_id :: uuid
  tq_attack_id :: string
  tq_name :: string
  tq_tactic :: "string option"
  tq_platform :: "string option"
  tq_framework_version :: string
  tq_description_reference :: "string option"

record entity_db =
  en_actors :: "actor_row list"
  en_malware :: "malware_row list"
  en_tools :: "tool_row list"
  en_campaigns :: "campaign_row list"
  en_infrastructure :: "infrastructure_row list"
  en_products :: "product_row list"
  en_techniques :: "technique_row list"

text \<open>A \<^verbatim>\<open>JSONB\<close> column refuses a NUL character in any key or string.\<close>

fun json_text :: "json \<Rightarrow> bool" where
  "json_text (JStr s) = pg_text s"
| "json_text (JList xs) = list_all json_text xs"
| "json_text (JObj d) = list_all (\<lambda>(k, v). pg_text k \<and> json_text v) d"
| "json_text _ = True"

definition actor_fits :: "actor_row \<Rightarrow> bool" where
  "actor_fits r = (varchar 255 (ac_canonical_name r) \<and> varchar 255 (ac_normalized_name r) \<and>
     list_all pg_text (ac_aliases r) \<and> nullable pg_text (ac_description r))"

definition malware_fits :: "malware_row \<Rightarrow> bool" where
  "malware_fits r = (varchar 255 (ma_canonical_name r) \<and> varchar 255 (ma_normalized_name r) \<and>
     list_all pg_text (ma_aliases r) \<and> nullable (varchar 128) (ma_malware_type r) \<and>
     list_all pg_text (ma_platforms r) \<and> nullable pg_text (ma_description r))"

definition tool_fits :: "tool_row \<Rightarrow> bool" where
  "tool_fits r = (varchar 255 (to_name r) \<and> varchar 255 (to_normalized_name r) \<and>
     list_all pg_text (to_aliases r) \<and> nullable pg_text (to_description r))"

definition campaign_fits :: "campaign_row \<Rightarrow> bool" where
  "campaign_fits r = (nullable (varchar 255) (cp_name r) \<and> varchar 255 (cp_stable_key r) \<and>
     nullable pg_text (cp_description r) \<and> list_all (\<lambda>(k, v). pg_text k \<and> json_text v) (cp_targeting r))"

definition infrastructure_fits :: "infrastructure_row \<Rightarrow> bool" where
  "infrastructure_fits r = (varchar 64 (if_infrastructure_type r) \<and> varchar 512 (if_normalized_identifier r) \<and>
     nullable (varchar 255) (if_provider r) \<and> nullable (varchar 64) (if_asn r))"

definition product_fits :: "product_row \<Rightarrow> bool" where
  "product_fits r = (varchar 255 (pd_vendor r) \<and> varchar 255 (pd_product r) \<and> varchar 255 (pd_normalized_vendor r) \<and>
     varchar 255 (pd_normalized_product r) \<and> varchar 128 (pd_ecosystem r) \<and> nullable (varchar 64) (pd_product_type r) \<and>
     list_all (\<lambda>(k, v). pg_text k \<and> json_text v) (pd_canonical_identifiers r))"

definition technique_fits :: "technique_row \<Rightarrow> bool" where
  "technique_fits r = (varchar 32 (tq_attack_id r) \<and> varchar 255 (tq_name r) \<and> nullable (varchar 128) (tq_tactic r) \<and>
     nullable (varchar 128) (tq_platform r) \<and> varchar 32 (tq_framework_version r) \<and>
     nullable pg_text (tq_description_reference r))"

section \<open>The upserts\<close>

text \<open>An update sets every column but the identifier and the natural key (which is equal), and
  keeps the columns the statement does not mention.\<close>

definition update_actor :: "actor_row \<Rightarrow> actor_row \<Rightarrow> actor_row" where
  "update_actor old new = new\<lparr>ac_id := ac_id old, ac_source_count := ac_source_count old\<rparr>"

definition update_malware :: "malware_row \<Rightarrow> malware_row \<Rightarrow> malware_row" where
  "update_malware old new = new\<lparr>ma_id := ma_id old\<rparr>"

definition update_tool :: "tool_row \<Rightarrow> tool_row \<Rightarrow> tool_row" where
  "update_tool old new = new\<lparr>to_id := to_id old\<rparr>"

definition update_campaign :: "campaign_row \<Rightarrow> campaign_row \<Rightarrow> campaign_row" where
  "update_campaign old new = new\<lparr>cp_id := cp_id old\<rparr>"

definition update_infrastructure :: "infrastructure_row \<Rightarrow> infrastructure_row \<Rightarrow> infrastructure_row" where
  "update_infrastructure old new = new\<lparr>if_id := if_id old\<rparr>"

definition update_product :: "product_row \<Rightarrow> product_row \<Rightarrow> product_row" where
  "update_product old new = new\<lparr>pd_id := pd_id old\<rparr>"

definition update_technique :: "technique_row \<Rightarrow> technique_row \<Rightarrow> technique_row" where
  "update_technique old new = new\<lparr>tq_id := tq_id old\<rparr>"

definition infrastructure_key :: "infrastructure_row \<Rightarrow> string \<times> string" where
  "infrastructure_key r = (if_infrastructure_type r, if_normalized_identifier r)"

definition product_key :: "product_row \<Rightarrow> string \<times> string \<times> string" where
  "product_key r = (pd_normalized_vendor r, pd_normalized_product r, pd_ecosystem r)"

definition technique_key :: "technique_row \<Rightarrow> string \<times> string" where
  "technique_key r = (tq_attack_id r, tq_framework_version r)"

interpretation actors: entity_table ac_normalized_name update_actor ac_id actor_fits "''threat actor''"
  by unfold_locales (simp_all add: update_actor_def)

interpretation malwares: entity_table ma_normalized_name update_malware ma_id malware_fits "''malware''"
  by unfold_locales (simp_all add: update_malware_def)

interpretation tools: entity_table to_normalized_name update_tool to_id tool_fits "''tool''"
  by unfold_locales (simp_all add: update_tool_def)

interpretation campaigns: entity_table cp_stable_key update_campaign cp_id campaign_fits "''campaign''"
  by unfold_locales (simp_all add: update_campaign_def)

interpretation infrastructures: entity_table infrastructure_key update_infrastructure if_id infrastructure_fits
    "''infrastructure''"
  by unfold_locales (simp_all add: update_infrastructure_def infrastructure_key_def)

interpretation products: entity_table product_key update_product pd_id product_fits "''product''"
  by unfold_locales (simp_all add: update_product_def product_key_def)

interpretation techniques: entity_table technique_key update_technique tq_id technique_fits "''attack technique''"
  by unfold_locales (simp_all add: update_technique_def technique_key_def)

definition checked_state :: "string \<Rightarrow> string \<Rightarrow> string \<Rightarrow> store_error + unit" where
  "checked_state table column v = (case validate_lifecycle_value table column v of
       Inl _ \<Rightarrow> Inl (BadValue (table @ ''.'' @ column)) | Inr _ \<Rightarrow> Inr ())"

definition upsert_threat_actor :: "actor_row \<Rightarrow> entity_db \<Rightarrow> store_error + entity_db \<times> actor_row" where
  "upsert_threat_actor r db =
     rbind (checked_state ''threat_actor'' ''attribution_state'' (ac_attribution_state r)) (\<lambda>_.
     rbind (actors.put (r\<lparr>ac_source_count := 0\<rparr>) (en_actors db)) (\<lambda>(rows, x). Inr (db\<lparr>en_actors := rows\<rparr>, x)))"

definition upsert_malware :: "malware_row \<Rightarrow> entity_db \<Rightarrow> store_error + entity_db \<times> malware_row" where
  "upsert_malware r db = rbind (malwares.put r (en_malware db)) (\<lambda>(rows, x). Inr (db\<lparr>en_malware := rows\<rparr>, x))"

definition upsert_tool :: "tool_row \<Rightarrow> entity_db \<Rightarrow> store_error + entity_db \<times> tool_row" where
  "upsert_tool r db = rbind (tools.put r (en_tools db)) (\<lambda>(rows, x). Inr (db\<lparr>en_tools := rows\<rparr>, x))"

definition upsert_campaign :: "campaign_row \<Rightarrow> entity_db \<Rightarrow> store_error + entity_db \<times> campaign_row" where
  "upsert_campaign r db =
     rbind (checked_state ''campaign'' ''state'' (cp_state r)) (\<lambda>_.
     rbind (campaigns.put r (en_campaigns db)) (\<lambda>(rows, x). Inr (db\<lparr>en_campaigns := rows\<rparr>, x)))"

definition upsert_infrastructure :: "infrastructure_row \<Rightarrow> entity_db \<Rightarrow> store_error + entity_db \<times> infrastructure_row" where
  "upsert_infrastructure r db =
     rbind (checked_state ''infrastructure'' ''state'' (if_state r)) (\<lambda>_.
     rbind (infrastructures.put r (en_infrastructure db)) (\<lambda>(rows, x). Inr (db\<lparr>en_infrastructure := rows\<rparr>, x)))"

definition upsert_product :: "product_row \<Rightarrow> entity_db \<Rightarrow> store_error + entity_db \<times> product_row" where
  "upsert_product r db = rbind (products.put r (en_products db)) (\<lambda>(rows, x). Inr (db\<lparr>en_products := rows\<rparr>, x))"

definition upsert_attack_technique :: "technique_row \<Rightarrow> entity_db \<Rightarrow> store_error + entity_db \<times> technique_row" where
  "upsert_attack_technique r db =
     rbind (techniques.put r (en_techniques db)) (\<lambda>(rows, x). Inr (db\<lparr>en_techniques := rows\<rparr>, x))"

text \<open>Evidence links need a source, a claim or a URL; a content hash alone is not enough here.  The URLs
  are given as a list, and an empty one is written as the JSON value null.\<close>

definition given_urls :: "entity_evidence_row \<Rightarrow> string list" where
  "given_urls w = (case ee_supporting_urls w of Some (Some us) \<Rightarrow> us | _ \<Rightarrow> [])"

definition json_urls :: "string list \<Rightarrow> string list option option" where
  "json_urls us = Some (if us = [] then None else Some us)"

definition link_evidence :: "uuid list \<Rightarrow> entity_evidence_row \<Rightarrow> evidence_db \<Rightarrow> store_error + evidence_db \<times> entity_evidence_row" where
  "link_evidence result_ids w db =
     (if ee_source_document_id w = None \<and> ee_raw_artifact_id w = None \<and> ee_evidence_claim_id w = None \<and> given_urls w = []
      then Inl (BadValue ''evidence must reference a source, claim, or supporting URL'')
      else rbind (insert_entity_evidence result_ids
              (w\<lparr>ee_supporting_urls := json_urls (given_urls w), ee_provider_result_id := None\<rparr>) db) (\<lambda>db1.
        case find_row ee_id (ee_id w) (db_evidence db1) of
          None \<Rightarrow> Inl (NotPersisted ''entity evidence was not persisted'')
        | Some x \<Rightarrow> Inr (db1, x)))"

definition entities_ok :: "entity_db \<Rightarrow> bool" where
  "entities_ok db = (
     unique_on ac_normalized_name (en_actors db) \<and> unique_on ac_id (en_actors db) \<and>
     list_all (\<lambda>r. ac_attribution_state r \<in> set attribution_states) (en_actors db) \<and>
     unique_on ma_normalized_name (en_malware db) \<and> unique_on ma_id (en_malware db) \<and>
     unique_on to_normalized_name (en_tools db) \<and> unique_on to_id (en_tools db) \<and>
     unique_on cp_stable_key (en_campaigns db) \<and> unique_on cp_id (en_campaigns db) \<and>
     list_all (\<lambda>r. cp_state r \<in> set entity_states) (en_campaigns db) \<and>
     unique_on infrastructure_key (en_infrastructure db) \<and> unique_on if_id (en_infrastructure db) \<and>
     list_all (\<lambda>r. if_state r \<in> set entity_states) (en_infrastructure db) \<and>
     unique_on product_key (en_products db) \<and> unique_on pd_id (en_products db) \<and>
     unique_on technique_key (en_techniques db) \<and> unique_on tq_id (en_techniques db))"

section \<open>Histories of upserts\<close>

inductive entity_step :: "entity_db \<Rightarrow> entity_db \<Rightarrow> bool" where
  actor: "upsert_threat_actor a db = Inr (db', x) \<Longrightarrow> entity_step db db'"
| malware: "upsert_malware m db = Inr (db', x) \<Longrightarrow> entity_step db db'"
| tool: "upsert_tool t db = Inr (db', x) \<Longrightarrow> entity_step db db'"
| campaign: "upsert_campaign c db = Inr (db', x) \<Longrightarrow> entity_step db db'"
| infrastructure: "upsert_infrastructure i db = Inr (db', x) \<Longrightarrow> entity_step db db'"
| product: "upsert_product p db = Inr (db', x) \<Longrightarrow> entity_step db db'"
| technique: "upsert_attack_technique q db = Inr (db', x) \<Longrightarrow> entity_step db db'"

definition no_entities :: entity_db where
  "no_entities = \<lparr>en_actors = [], en_malware = [], en_tools = [], en_campaigns = [], en_infrastructure = [],
     en_products = [], en_techniques = []\<rparr>"

lemma checked_state_Inr: "checked_state t c v = Inr u \<longleftrightarrow> validate_lifecycle_value t c v = Inr v"
  by (auto simp: checked_state_def validate_lifecycle_value_def split: option.splits)

lemma entity_states_checked [simp]:
  "checked_state ''threat_actor'' ''attribution_state'' v = Inr u \<longleftrightarrow> v \<in> set attribution_states"
  "checked_state ''campaign'' ''state'' v = Inr u \<longleftrightarrow> v \<in> set entity_states"
  "checked_state ''infrastructure'' ''state'' v = Inr u \<longleftrightarrow> v \<in> set entity_states"
  by (simp_all add: checked_state_Inr validate_lifecycle_iff lifecycle_fields_def)

lemma put_set:
  "upsert_entity ident key upd fits name r rows = Inr (rows', x) \<Longrightarrow> y \<in> set rows' \<Longrightarrow>
     y \<in> set rows \<or> y = r \<or> (\<exists>old \<in> set rows. y = upd old r)"
  by (auto simp: upsert_entity_def upsert_checked_def upsert_def rbind_Inr_iff split: if_splits option.splits)

lemma put_all:
  assumes "upsert_entity ident key upd fits name r rows = Inr (rows', x)" "list_all P rows" "P r" "\<And>old. P (upd old r)"
  shows "list_all P rows'"
  using put_set [OF assms(1)] assms(2-4) by (auto simp: list_all_iff)

lemmas put_keeps_unique = actors.put_unique malwares.put_unique tools.put_unique campaigns.put_unique
  infrastructures.put_unique products.put_unique techniques.put_unique

lemmas upsert_defs = upsert_threat_actor_def upsert_malware_def upsert_tool_def upsert_campaign_def
  upsert_infrastructure_def upsert_product_def upsert_attack_technique_def

end
