(* ===== verification/Entity_Facts.thy ===== *)
theory Entity_Facts
  imports Entity_Store
begin

text \<open>
  What every history of entity upserts leaves behind: natural keys and identifiers without
  duplicates, state columns with declared values only, and rows that keep the identifier they were
  first stored with.
\<close>

lemma actor_keeps: "upsert_threat_actor a db = Inr (db', x) \<Longrightarrow> entities_ok db \<Longrightarrow> entities_ok db'"
  by (auto simp: upsert_threat_actor_def rbind_Inr_iff entities_ok_def
      dest: actors.put_unique elim!: put_all
      simp: update_actor_def)

lemma malware_keeps: "upsert_malware m db = Inr (db', x) \<Longrightarrow> entities_ok db \<Longrightarrow> entities_ok db'"
  by (auto simp: upsert_malware_def rbind_Inr_iff entities_ok_def dest: malwares.put_unique)

lemma tool_keeps: "upsert_tool t db = Inr (db', x) \<Longrightarrow> entities_ok db \<Longrightarrow> entities_ok db'"
  by (auto simp: upsert_tool_def rbind_Inr_iff entities_ok_def dest: tools.put_unique)

lemma campaign_keeps: "upsert_campaign c db = Inr (db', x) \<Longrightarrow> entities_ok db \<Longrightarrow> entities_ok db'"
  by (auto simp: upsert_campaign_def rbind_Inr_iff entities_ok_def
      dest: campaigns.put_unique elim!: put_all
      simp: update_campaign_def)

lemma infrastructure_keeps: "upsert_infrastructure i db = Inr (db', x) \<Longrightarrow> entities_ok db \<Longrightarrow> entities_ok db'"
  by (auto simp: upsert_infrastructure_def rbind_Inr_iff entities_ok_def
      dest: infrastructures.put_unique elim!: put_all
      simp: update_infrastructure_def)

lemma product_keeps: "upsert_product p db = Inr (db', x) \<Longrightarrow> entities_ok db \<Longrightarrow> entities_ok db'"
  by (auto simp: upsert_product_def rbind_Inr_iff entities_ok_def dest: products.put_unique)

lemma technique_keeps: "upsert_attack_technique q db = Inr (db', x) \<Longrightarrow> entities_ok db \<Longrightarrow> entities_ok db'"
  by (auto simp: upsert_attack_technique_def rbind_Inr_iff entities_ok_def dest: techniques.put_unique)

lemma step_keeps: "entity_step db db' \<Longrightarrow> entities_ok db \<Longrightarrow> entities_ok db'"
  by (induction rule: entity_step.induct)
    (blast intro: actor_keeps malware_keeps tool_keeps campaign_keeps infrastructure_keeps product_keeps
      technique_keeps)+

lemma steps_keep: "entity_step\<^sup>*\<^sup>* db db' \<Longrightarrow> entities_ok db \<Longrightarrow> entities_ok db'"
  by (induction rule: rtranclp_induct) (auto dest: step_keeps)

lemma no_entities_ok [simp]: "entities_ok no_entities"
  by (simp add: entities_ok_def no_entities_def)

text \<open>C32. However threat actors, malware, tools, campaigns, infrastructure, products and techniques are
  upserted, in any order and any number, the tables stay well formed: no two rows share a natural
  key or an identifier, and every attribution state, campaign state and infrastructure state is
  one of the declared lifecycle values.\<close>

theorem entity_tables_well_formed:
  assumes "entity_step\<^sup>*\<^sup>* no_entities db"
  shows "entities_ok db"
  using steps_keep [OF assms] by simp

definition sample_campaign :: "string \<Rightarrow> campaign_row" where
  "sample_campaign st = \<lparr>cp_id = ''c-1'', cp_name = None, cp_stable_key = ''olympic'', cp_start_at = None, cp_end_at = None,
     cp_description = None, cp_targeting = [], cp_state = st, cp_confidence = 0\<rparr>"

definition one_campaign :: entity_db where
  "one_campaign = no_entities\<lparr>en_campaigns := [sample_campaign ''active'']\<rparr>"

theorem entity_tables_well_formed_witness:
  "entities_ok one_campaign \<and> en_campaigns one_campaign \<noteq> [] \<and>
     \<not> ok (upsert_campaign (sample_campaign ''dormant'') no_entities)"
proof -
  have "upsert_campaign (sample_campaign ''active'') no_entities = Inr (one_campaign, sample_campaign ''active'')"
    by code_simp
  then have "entity_step\<^sup>*\<^sup>* no_entities one_campaign"
    by (blast intro: entity_step.campaign)
  moreover have "\<not> ok (upsert_campaign (sample_campaign ''dormant'') no_entities)"
    by code_simp
  ultimately show ?thesis
    using entity_tables_well_formed [of one_campaign] by (simp add: one_campaign_def)
qed

text \<open>A product whose vendor, name and ecosystem are already stored keeps the identifier it was stored
  with: the upsert returns that row, and the identifier the caller supplied names no product
  afterwards.\<close>

theorem product_identifier_kept:
  assumes "upsert_product p db = Inr (db', x)"
    and "find_row product_key (product_key p) (en_products db) = Some old"
    and "\<not> has_row pd_id (pd_id p) (en_products db)"
  shows "pd_id x = pd_id old \<and> \<not> has_row pd_id (pd_id p) (en_products db')"
proof -
  from assms(1) obtain rows where rows: "products.put p (en_products db) = Inr (rows, x)" "en_products db' = rows"
    by (auto simp: upsert_product_def rbind_Inr_iff)
  have "pd_id old \<noteq> pd_id p"
    using find_row_Some [OF assms(2)] assms(3) by (metis has_row_iff imageI)
  then show ?thesis
    using products.put_keeps_ident [OF rows(1) assms(2) _ assms(3)] rows(2) by auto
qed

definition sample_product :: "uuid \<Rightarrow> string \<Rightarrow> product_row" where
  "sample_product i v = \<lparr>pd_id = i, pd_vendor = v, pd_product = ''Exchange'', pd_normalized_vendor = ''microsoft'',
     pd_normalized_product = ''exchange'', pd_ecosystem = ''unknown'', pd_product_type = None, pd_canonical_identifiers = []\<rparr>"

theorem product_identifier_kept_witness:
  "case upsert_product (sample_product ''p-2'' ''MICROSOFT'') (no_entities\<lparr>en_products := [sample_product ''p-1'' ''Microsoft'']\<rparr>) of
     Inl _ \<Rightarrow> False
   | Inr (db', x) \<Rightarrow> pd_id x = ''p-1'' \<and> pd_vendor x = ''MICROSOFT'' \<and> \<not> has_row pd_id ''p-2'' (en_products db')"
proof -
  let ?p = "sample_product ''p-2'' ''MICROSOFT''"
  let ?db = "no_entities\<lparr>en_products := [sample_product ''p-1'' ''Microsoft'']\<rparr>"
  have r: "upsert_product ?p ?db = Inr (no_entities\<lparr>en_products := [sample_product ''p-1'' ''MICROSOFT'']\<rparr>,
      sample_product ''p-1'' ''MICROSOFT'')"
    by code_simp
  have "find_row product_key (product_key ?p) (en_products ?db) = Some (sample_product ''p-1'' ''Microsoft'')"
    by (simp add: product_key_def sample_product_def)
  moreover have "\<not> has_row pd_id (pd_id ?p) (en_products ?db)"
    by (simp add: has_row_def sample_product_def)
  ultimately have "pd_id (sample_product ''p-1'' ''MICROSOFT'') = ''p-1'' \<and>
      \<not> has_row pd_id ''p-2'' (en_products (no_entities\<lparr>en_products := [sample_product ''p-1'' ''MICROSOFT'']\<rparr>))"
    using product_identifier_kept [OF r, of "sample_product ''p-1'' ''Microsoft''"] by (simp add: sample_product_def)
  then show ?thesis
    by (simp add: r) (simp add: sample_product_def)
qed

end
