(* ===== verification/Report_Contracts.thy ===== *)
theory Report_Contracts
  imports Correlation Detections
begin

text \<open>
  The report contracts: \<^verbatim>\<open>reporting/contracts.py\<close> and the products, technique mappings, citations,
  hunts and remediations of \<^verbatim>\<open>models/contracts.py\<close>.  Each record is a contract and each
  capitalised definition its construction: the values are stripped and checked in the order of the
  fields, then the model validators run.  \<open>any_http_url\<close> is the URL type of pydantic, as in
  \<open>Contracts\<close>.  Unicode case folding beyond ASCII is the parameter \<open>casefold\<close> where it matters.
\<close>

section \<open>Citations, products and technique mappings\<close>

definition unit_interval :: "rat \<Rightarrow> unit result" where
  "unit_interval q = check (0 \<le> q \<and> q \<le> 1) ''confidence''"

definition some_of :: "string \<Rightarrow> 'a list \<Rightarrow> unit result" where
  "some_of field xs = check (xs \<noteq> []) field"

record source_reference =
  rf_source_id :: string
  rf_name :: string
  rf_canonical_url :: string
  rf_category :: source_category
  rf_reliability :: reliability_classification

definition PublicSourceReference :: "(string \<Rightarrow> string option) \<Rightarrow> source_reference \<Rightarrow> source_reference result" where
  "PublicSourceReference any_http_url r =
     rbind (http_url any_http_url (rf_canonical_url r)) (\<lambda>u.
       Inr (r\<lparr>rf_source_id := strip (rf_source_id r), rf_name := strip (rf_name r), rf_canonical_url := u\<rparr>))"

record product =
  pr_product_id :: uuid
  pr_vendor :: string
  pr_product :: string
  pr_normalized_vendor :: "string option"
  pr_normalized_product :: "string option"
  pr_ecosystem :: "string option"
  pr_product_type :: "string option"
  pr_canonical_identifiers :: "string list"

definition normalize_identity :: "(string \<Rightarrow> string) \<Rightarrow> product \<Rightarrow> product" where
  "normalize_identity casefold p = p\<lparr>
     pr_normalized_vendor := (case pr_normalized_vendor p of None \<Rightarrow> Some (casefold (pr_vendor p)) | v \<Rightarrow> v),
     pr_normalized_product := (case pr_normalized_product p of None \<Rightarrow> Some (casefold (pr_product p)) | v \<Rightarrow> v)\<rparr>"

definition Product :: "(string \<Rightarrow> string) \<Rightarrow> product \<Rightarrow> product result" where
  "Product casefold p =
     rbind (nonempty_text ''vendor'' (pr_vendor p)) (\<lambda>v.
     rbind (nonempty_text ''product'' (pr_product p)) (\<lambda>n.
       Inr (normalize_identity casefold (p\<lparr>pr_vendor := v, pr_product := n,
         pr_normalized_vendor := stripped (pr_normalized_vendor p),
         pr_normalized_product := stripped (pr_normalized_product p),
         pr_ecosystem := stripped (pr_ecosystem p), pr_product_type := stripped (pr_product_type p),
         pr_canonical_identifiers := map strip (pr_canonical_identifiers p)\<rparr>))))"

record affected_product =
  af_affected_product_id :: uuid
  af_vulnerability_id :: uuid
  af_product :: product
  af_version_range :: "string option"
  af_cpe :: "string option"
  af_affected_status :: string
  af_source_claim :: "string option"
  af_confidence :: rat
  af_remediation_available :: "bool option"

definition AffectedProduct :: "affected_product \<Rightarrow> affected_product result" where
  "AffectedProduct a =
     rbind (nonempty_text ''affected_status'' (af_affected_status a)) (\<lambda>s.
     rbind (unit_interval (af_confidence a)) (\<lambda>_.
       Inr (a\<lparr>af_version_range := stripped (af_version_range a), af_cpe := stripped (af_cpe a),
         af_affected_status := s, af_source_claim := stripped (af_source_claim a)\<rparr>)))"

record technique_mapping =
  am_mapping_id :: uuid
  am_attack_id :: string
  am_name :: string
  am_tactic :: "string option"
  am_platforms :: "string list"
  am_framework_version :: string
  am_description_reference :: "string option"
  am_confidence :: rat
  am_source_document_ids :: "uuid list"

definition optional_url :: "(string \<Rightarrow> string option) \<Rightarrow> string option \<Rightarrow> string option result" where
  "optional_url any_http_url v =
     (case v of None \<Rightarrow> Inr None | Some u \<Rightarrow> rbind (http_url any_http_url u) (\<lambda>x. Inr (Some x)))"

definition AttackTechniqueMapping :: "(string \<Rightarrow> string option) \<Rightarrow> technique_mapping \<Rightarrow> technique_mapping result" where
  "AttackTechniqueMapping any_http_url a =
     rbind (normalize_attack_id (am_attack_id a)) (\<lambda>i.
     rbind (nonempty_text ''name'' (am_name a)) (\<lambda>n.
     rbind (nonempty_text ''framework_version'' (am_framework_version a)) (\<lambda>v.
     rbind (optional_url any_http_url (am_description_reference a)) (\<lambda>u.
     rbind (unit_interval (am_confidence a)) (\<lambda>_.
       Inr (a\<lparr>am_attack_id := i, am_name := n, am_tactic := stripped (am_tactic a),
         am_platforms := map strip (am_platforms a), am_framework_version := v, am_description_reference := u\<rparr>))))))"

section \<open>Hunts and remediation\<close>

record hunt_query =
  hq_language :: string
  hq_title :: string
  hq_query :: string
  hq_target_log_sources :: "string list"
  hq_tuning_guidance :: "string option"

definition HuntQuery :: "hunt_query \<Rightarrow> hunt_query result" where
  "HuntQuery q =
     rbind (nonempty_text ''title'' (hq_title q)) (\<lambda>t.
     rbind (nonempty_text ''query'' (hq_query q)) (\<lambda>b.
       Inr (q\<lparr>hq_language := strip (hq_language q), hq_title := t, hq_query := b,
         hq_target_log_sources := map strip (hq_target_log_sources q),
         hq_tuning_guidance := stripped (hq_tuning_guidance q)\<rparr>)))"

record hunt_phase =
  hp_phase_number :: int
  hp_name :: string
  hp_objective :: string
  hp_steps :: "string list"
  hp_telemetry_sources :: "string list"
  hp_queries :: "hunt_query list"
  hp_pivot_guidance :: "string list"
  hp_evidence_ids :: "uuid list"

definition HuntPhase :: "hunt_phase \<Rightarrow> hunt_phase result" where
  "HuntPhase p =
     rbind (check (1 \<le> hp_phase_number p) ''phase_number'') (\<lambda>_.
     rbind (nonempty_text ''name'' (hp_name p)) (\<lambda>n.
     rbind (nonempty_text ''objective'' (hp_objective p)) (\<lambda>ob.
     rbind (some_of ''steps'' (hp_steps p)) (\<lambda>_.
       Inr (p\<lparr>hp_name := n, hp_objective := ob, hp_steps := map strip (hp_steps p),
         hp_telemetry_sources := map strip (hp_telemetry_sources p),
         hp_pivot_guidance := map strip (hp_pivot_guidance p)\<rparr>)))))"

record threat_hunt =
  th_hunt_id :: uuid
  th_report_version_id :: uuid
  th_objective :: string
  th_scope :: string
  th_platforms :: "string list"
  th_telemetry_requirements :: "string list"
  th_lookback :: string
  th_hypothesis :: string
  th_procedure :: "string list"
  th_expected_evidence :: "string list"
  th_false_positives :: "string list"
  th_escalation_criteria :: "string list"
  th_validation_checklist :: "string list"
  th_queries :: "string list"
  th_typed_queries :: "hunt_query list"
  th_execution_phases :: "hunt_phase list"
  th_pivot_guidance :: "string list"
  th_forensic_artifacts :: "string list"
  th_evidence_ids :: "uuid list"
  th_detection_ids :: "uuid list"
  th_source_references :: "source_reference list"

definition ThreatHunt :: "threat_hunt \<Rightarrow> threat_hunt result" where
  "ThreatHunt h =
     rbind (nonempty_text ''objective'' (th_objective h)) (\<lambda>ob.
     rbind (nonempty_text ''scope'' (th_scope h)) (\<lambda>sc.
     rbind (nonempty_text ''lookback'' (th_lookback h)) (\<lambda>lb.
     rbind (nonempty_text ''hypothesis'' (th_hypothesis h)) (\<lambda>hy.
     rbind (some_of ''procedure'' (th_procedure h)) (\<lambda>_.
       Inr (h\<lparr>th_objective := ob, th_scope := sc, th_platforms := map strip (th_platforms h),
         th_telemetry_requirements := map strip (th_telemetry_requirements h), th_lookback := lb,
         th_hypothesis := hy, th_procedure := map strip (th_procedure h),
         th_expected_evidence := map strip (th_expected_evidence h),
         th_false_positives := map strip (th_false_positives h),
         th_escalation_criteria := map strip (th_escalation_criteria h),
         th_validation_checklist := map strip (th_validation_checklist h),
         th_queries := map strip (th_queries h), th_pivot_guidance := map strip (th_pivot_guidance h),
         th_forensic_artifacts := map strip (th_forensic_artifacts h)\<rparr>))))))"

record remediation =
  rm_remediation_id :: uuid
  rm_report_version_id :: uuid
  rm_immediate_containment :: "string list"
  rm_exposure_reduction :: "string list"
  rm_patching :: "string list"
  rm_configuration_changes :: "string list"
  rm_credential_actions :: "string list"
  rm_blocking_limitations :: "string list"
  rm_evidence_preservation :: "string list"
  rm_recovery :: "string list"
  rm_verification :: "string list"
  rm_rollback :: "string list"
  rm_evidence_ids :: "uuid list"
  rm_references :: "string list"
  rm_state :: report_state

definition Remediation :: "(string \<Rightarrow> string option) \<Rightarrow> remediation \<Rightarrow> remediation result" where
  "Remediation any_http_url r =
     rbind (traverse (http_url any_http_url) (rm_references r)) (\<lambda>us.
       Inr (r\<lparr>rm_immediate_containment := map strip (rm_immediate_containment r),
         rm_exposure_reduction := map strip (rm_exposure_reduction r), rm_patching := map strip (rm_patching r),
         rm_configuration_changes := map strip (rm_configuration_changes r),
         rm_credential_actions := map strip (rm_credential_actions r),
         rm_blocking_limitations := map strip (rm_blocking_limitations r),
         rm_evidence_preservation := map strip (rm_evidence_preservation r),
         rm_recovery := map strip (rm_recovery r), rm_verification := map strip (rm_verification r),
         rm_rollback := map strip (rm_rollback r), rm_references := us\<rparr>))"

section \<open>The parts of a report\<close>

datatype report_evidence_type = RE_SOURCE_TEXT | RE_IOC_OBSERVATION | RE_VULNERABILITY | RE_PRODUCT
  | RE_ATTACK_MAPPING | RE_RELATIONSHIP | RE_TIMELINE | RE_FILE

record report_evidence =
  rv_evidence_id :: uuid
  rv_evidence_type :: report_evidence_type
  rv_statement :: string
  rv_source_document_id :: "uuid option"
  rv_source_reference :: "source_reference option"
  rv_source_url :: "string option"
  rv_confidence :: rat
  rv_public_safe :: bool

definition ReportEvidence :: "(string \<Rightarrow> string option) \<Rightarrow> report_evidence \<Rightarrow> report_evidence result" where
  "ReportEvidence any_http_url v =
     rbind (nonempty_text ''statement'' (rv_statement v)) (\<lambda>s.
     rbind (optional_url any_http_url (rv_source_url v)) (\<lambda>u.
     rbind (unit_interval (rv_confidence v)) (\<lambda>_.
       Inr (v\<lparr>rv_statement := s, rv_source_url := u\<rparr>))))"

record report_ioc =
  ri_indicator :: entity_ref
  ri_display_value :: string
  ri_indicator_type :: string
  ri_evidence_ids :: "uuid list"

definition ReportIOC :: "report_ioc \<Rightarrow> report_ioc result" where
  "ReportIOC i =
     rbind (nonempty_text ''display_value'' (ri_display_value i)) (\<lambda>d.
     rbind (nonempty_text ''indicator_type'' (ri_indicator_type i)) (\<lambda>t.
     rbind (some_of ''evidence_ids'' (ri_evidence_ids i)) (\<lambda>_.
       Inr (i\<lparr>ri_display_value := d, ri_indicator_type := t\<rparr>))))"

text \<open>A date is its day number.\<close>

record report_vulnerability =
  rw_vulnerability_id :: uuid
  rw_cve_id :: string
  rw_summary :: string
  rw_cvss_score :: "rat option"
  rw_cvss_version :: "string option"
  rw_cvss_vector :: "string option"
  rw_epss_score :: "rat option"
  rw_epss_percentile :: "rat option"
  rw_cwe_ids :: "string list"
  rw_known_exploited :: "bool option"
  rw_exploitation_state :: string
  rw_kev_date_added :: "int option"
  rw_kev_due_date :: "int option"
  rw_kev_required_action :: "string option"
  rw_affected_products :: "affected_product list"
  rw_product_references :: "entity_ref list"
  rw_evidence_ids :: "uuid list"

definition optional_within :: "rat \<Rightarrow> string \<Rightarrow> rat option \<Rightarrow> unit result" where
  "optional_within hi field v = check (case v of None \<Rightarrow> True | Some q \<Rightarrow> 0 \<le> q \<and> q \<le> hi) field"

definition ReportVulnerability :: "report_vulnerability \<Rightarrow> report_vulnerability result" where
  "ReportVulnerability v =
     rbind (nonempty_text ''cve_id'' (rw_cve_id v)) (\<lambda>c.
     rbind (nonempty_text ''summary'' (rw_summary v)) (\<lambda>s.
     rbind (optional_within 10 ''cvss_score'' (rw_cvss_score v)) (\<lambda>_.
     rbind (optional_within 1 ''epss_score'' (rw_epss_score v)) (\<lambda>_.
     rbind (optional_within 1 ''epss_percentile'' (rw_epss_percentile v)) (\<lambda>_.
     rbind (some_of ''evidence_ids'' (rw_evidence_ids v)) (\<lambda>_.
       Inr (v\<lparr>rw_cve_id := c, rw_summary := s, rw_cvss_version := stripped (rw_cvss_version v),
         rw_cvss_vector := stripped (rw_cvss_vector v), rw_cwe_ids := map strip (rw_cwe_ids v),
         rw_exploitation_state := strip (rw_exploitation_state v),
         rw_kev_required_action := stripped (rw_kev_required_action v)\<rparr>)))))))"

record timeline_event =
  tv_occurred_at :: instant
  tv_label :: string
  tv_description :: string
  tv_evidence_ids :: "uuid list"

definition ReportTimelineEvent :: "timeline_event \<Rightarrow> timeline_event result" where
  "ReportTimelineEvent e =
     rbind (nonempty_text ''label'' (tv_label e)) (\<lambda>l.
     rbind (nonempty_text ''description'' (tv_description e)) (\<lambda>d.
     rbind (some_of ''evidence_ids'' (tv_evidence_ids e)) (\<lambda>_.
       Inr (e\<lparr>tv_label := l, tv_description := d\<rparr>))))"

record report_relationship =
  rh_relationship :: correlation_relationship
  rh_evidence_ids :: "uuid list"

section \<open>The report bundle\<close>

record report_bundle =
  rb_report_id :: uuid
  rb_report_version_id :: uuid
  rb_public_id :: string
  rb_slug :: string
  rb_version :: int
  rb_report_type :: string
  rb_headline :: string
  rb_headline_evidence_ids :: "uuid list"
  rb_executive_summary :: string
  rb_technical_analysis :: string
  rb_evidence_summary :: string
  rb_evidence :: "report_evidence list"
  rb_iocs :: "report_ioc list"
  rb_vulnerabilities :: "report_vulnerability list"
  rb_attack_mappings :: "technique_mapping list"
  rb_detections :: "detection_artifact list"
  rb_hunt :: "threat_hunt option"
  rb_remediation :: "remediation option"
  rb_historical_relationships :: "report_relationship list"
  rb_timeline :: "timeline_event list"
  rb_confidence :: rat
  rb_severity :: severity
  rb_caveats :: "string list"
  rb_source_references :: "source_reference list"
  rb_state :: report_state
  rb_resurfaced :: bool
  rb_generated_by :: string
  rb_application_version :: string
  rb_model_identifier :: "string option"
  rb_prompt_version :: "string option"
  rb_skill_versions :: "string list"
  rb_system_prompt_hash :: "string option"
  rb_skill_version_hashes :: "string list"
  rb_triggering_run_id :: "uuid option"
  rb_token_metadata :: "json dict option"
  rb_cost_metadata :: "json dict option"
  rb_supersedes_id :: "uuid option"

definition bundle_evidence_ids :: "report_bundle \<Rightarrow> uuid list" where
  "bundle_evidence_ids b = map rv_evidence_id (rb_evidence b)"

definition validate_identity :: "report_bundle \<Rightarrow> report_bundle result" where
  "validate_identity b =
     (if \<not> set (rb_headline_evidence_ids b) \<subseteq> set (bundle_evidence_ids b)
      then Inl (ValueError ''headline evidence IDs must reference report evidence'')
      else if list_ex (\<lambda>i. \<not> rv_public_safe i) (rb_evidence b)
      then Inl (ValueError ''report evidence must be public-safe'')
      else if (case rb_hunt b of None \<Rightarrow> False | Some h \<Rightarrow> th_report_version_id h \<noteq> rb_report_version_id b)
      then Inl (ValueError ''hunt must belong to report_version_id'')
      else if (case rb_remediation b of None \<Rightarrow> False | Some r \<Rightarrow> rm_report_version_id r \<noteq> rb_report_version_id b)
      then Inl (ValueError ''remediation must belong to report_version_id'')
      else Inr b)"

text \<open>The scalar fields of the bundle; the parts are already constructed contracts.\<close>

definition bundle_texts :: "report_bundle \<Rightarrow> report_bundle result" where
  "bundle_texts b =
     rbind (nonempty_text ''public_id'' (rb_public_id b)) (\<lambda>p.
     rbind (nonempty_text ''slug'' (rb_slug b)) (\<lambda>s.
     rbind (nonempty_text ''report_type'' (rb_report_type b)) (\<lambda>t.
     rbind (nonempty_text ''headline'' (rb_headline b)) (\<lambda>h.
     rbind (nonempty_text ''executive_summary'' (rb_executive_summary b)) (\<lambda>x.
     rbind (nonempty_text ''technical_analysis'' (rb_technical_analysis b)) (\<lambda>a.
     rbind (nonempty_text ''evidence_summary'' (rb_evidence_summary b)) (\<lambda>e.
     rbind (nonempty_text ''generated_by'' (rb_generated_by b)) (\<lambda>g.
     rbind (nonempty_text ''application_version'' (rb_application_version b)) (\<lambda>v.
       Inr (b\<lparr>rb_public_id := p, rb_slug := s, rb_report_type := t, rb_headline := h,
         rb_executive_summary := x, rb_technical_analysis := a, rb_evidence_summary := e,
         rb_generated_by := g, rb_application_version := v, rb_caveats := map strip (rb_caveats b),
         rb_model_identifier := stripped (rb_model_identifier b),
         rb_prompt_version := stripped (rb_prompt_version b),
         rb_skill_versions := map strip (rb_skill_versions b),
         rb_system_prompt_hash := stripped (rb_system_prompt_hash b),
         rb_skill_version_hashes := map strip (rb_skill_version_hashes b)\<rparr>))))))))))"

definition ReportBundle :: "report_bundle \<Rightarrow> report_bundle result" where
  "ReportBundle b =
     rbind (check (1 \<le> rb_version b) ''version'') (\<lambda>_.
     rbind (some_of ''headline_evidence_ids'' (rb_headline_evidence_ids b)) (\<lambda>_.
     rbind (some_of ''evidence'' (rb_evidence b)) (\<lambda>_.
     rbind (unit_interval (rb_confidence b)) (\<lambda>_.
     rbind (bundle_texts b) validate_identity))))"

section \<open>Results of validation and rendering\<close>

datatype report_section = SE_HEADLINE | SE_EXECUTIVE_SUMMARY | SE_TECHNICAL_ANALYSIS | SE_EVIDENCE | SE_IOCS
  | SE_VULNERABILITIES_PRODUCTS | SE_ATTACK_MAPPING | SE_DETECTION_CONTENT | SE_THREAT_HUNTING | SE_REMEDIATION
  | SE_HISTORICAL_RELATIONSHIPS | SE_TIMELINE | SE_CONFIDENCE | SE_CAVEATS

record evidence_coverage =
  ec_valid :: bool
  ec_missing_sections :: "report_section list"
  ec_unsupported_claims :: "string list"
  ec_unsupported_remediation :: "string list"
  ec_covered_evidence_ids :: "uuid list"

record validation_manifest =
  vm_valid :: bool
  vm_coverage :: evidence_coverage
  vm_renderer_version :: string
  vm_application_version :: string
  vm_model_identifier :: "string option"
  vm_prompt_version :: "string option"
  vm_skill_versions :: "string list"
  vm_evidence_ids :: "uuid list"
  vm_artifact_hashes :: "string list"

record rendered_artifact =
  ra_artifact_name :: string
  ra_media_type :: string
  ra_content :: string
  ra_artifact_hash :: string

definition RenderedArtifact :: "rendered_artifact \<Rightarrow> rendered_artifact result" where
  "RenderedArtifact a =
     rbind (nonempty_text ''artifact_name'' (ra_artifact_name a)) (\<lambda>n.
     rbind (nonempty_text ''media_type'' (ra_media_type a)) (\<lambda>t.
     rbind (nonempty_text ''content'' (ra_content a)) (\<lambda>c.
     rbind (check (length (strip (ra_artifact_hash a)) = 64) ''artifact_hash'') (\<lambda>_.
       Inr \<lparr>ra_artifact_name = n, ra_media_type = t, ra_content = c, ra_artifact_hash = strip (ra_artifact_hash a)\<rparr>))))"

record rendered_report =
  rr_markdown :: rendered_artifact
  rr_json_artifact :: rendered_artifact
  rr_portal :: rendered_artifact
  rr_downloads :: "rendered_artifact list"
  rr_renderer_version :: string

end
