(* ===== verification/Report_Validation.thy ===== *)
theory Report_Validation
  imports Report_Contracts
begin

text \<open>
  \<^verbatim>\<open>reporting/validation.py\<close>: the evidence coverage of a report bundle and the manifest that
  publication requires.  \<open>rn_casefold\<close> is \<^verbatim>\<open>str.casefold\<close>, \<open>rn_stable_json\<close> the serialised bundle and
  \<open>rn_structured\<close> that text parsed again; the other parameters are those of the detection
  generators, UUIDv5 and the package version.
\<close>

record report_env =
  rn_casefold :: "string \<Rightarrow> string"
  rn_yaml :: yaml_env
  rn_external :: "string \<Rightarrow> query_backend \<Rightarrow> bool"
  rn_native_yara :: "(string \<Rightarrow> bool) option"
  rn_sha256 :: "string \<Rightarrow> string"
  rn_stable_json :: "report_bundle \<Rightarrow> string"
  rn_structured :: "report_bundle \<Rightarrow> json"
  rn_uuid5 :: "uuid \<Rightarrow> string \<Rightarrow> uuid"
  rn_version :: string

section \<open>Evidence coverage\<close>

definition stopwords :: "string list" where
  "stopwords = [''about'', ''after'', ''against'', ''documented'', ''evidence'', ''from'', ''public'', ''reported'',
     ''that'', ''this'', ''with'']"

definition forbidden_internal_claims :: "string list" where
  "forbidden_internal_claims = [''your environment'', ''your organization'', ''internal compromise'', ''home lab'',
     ''confirmed breach'']"

definition word_start :: "char \<Rightarrow> bool" where
  "word_start c = (is_lower c \<or> is_digit c)"

definition word_char :: "char \<Rightarrow> bool" where
  "word_char c = (word_start c \<or> c \<in> set ''._-'')"

definition word_re :: re where
  "word_re = Seq (Chr word_start) (plus1 (Chr word_char))"

definition significant :: "string \<Rightarrow> bool" where
  "significant w = (5 \<le> length w \<and> w \<notin> set stopwords)"

definition claim_words :: "(string \<Rightarrow> string) \<Rightarrow> string \<Rightarrow> string list" where
  "claim_words casefold v = filter significant (map fd_text (finditer word_re (casefold v)))"

definition remediation_actions :: "remediation \<Rightarrow> string list" where
  "remediation_actions r = rm_immediate_containment r @ rm_exposure_reduction r @ rm_patching r
     @ rm_configuration_changes r @ rm_credential_actions r @ rm_blocking_limitations r
     @ rm_evidence_preservation r @ rm_recovery r @ rm_verification r @ rm_rollback r"

definition hunt_evidence :: "threat_hunt \<Rightarrow> uuid list" where
  "hunt_evidence h = th_evidence_ids h @ concat (map hp_evidence_ids (th_execution_phases h))"

definition absent_sections :: "report_bundle \<Rightarrow> report_section list" where
  "absent_sections b =
     (if rb_hunt b = None then [SE_THREAT_HUNTING] else [])
     @ (if rb_remediation b = None then [SE_REMEDIATION] else [])
     @ (if rb_detections b = [] then [SE_DETECTION_CONTENT] else [])
     @ (if rb_timeline b = [] then [SE_TIMELINE] else [])
     @ (if rb_caveats b = [] then [SE_CAVEATS] else [])"

definition unknown_evidence :: "report_bundle \<Rightarrow> uuid list \<Rightarrow> bool" where
  "unknown_evidence b ids = (\<not> set ids \<subseteq> set (bundle_evidence_ids b))"

definition unsupported_sections :: "report_bundle \<Rightarrow> report_section list" where
  "unsupported_sections b =
     (case rb_hunt b of None \<Rightarrow> [] | Some h \<Rightarrow> if unknown_evidence b (hunt_evidence h) then [SE_THREAT_HUNTING] else [])
     @ map (\<lambda>_. SE_DETECTION_CONTENT) (filter (\<lambda>a. unknown_evidence b (da_evidence_ids a)) (rb_detections b))"

definition evidence_text :: "(string \<Rightarrow> string) \<Rightarrow> report_bundle \<Rightarrow> string" where
  "evidence_text casefold b = casefold (join '' '' (map rv_statement (rb_evidence b)))"

definition unsupported_claims :: "(string \<Rightarrow> string) \<Rightarrow> report_bundle \<Rightarrow> string list" where
  "unsupported_claims casefold b =
     filter (\<lambda>phrase. contains phrase (casefold (rb_headline b))) forbidden_internal_claims
     @ filter (\<lambda>w. \<not> contains w (evidence_text casefold b)) (claim_words casefold (rb_headline b))
     @ (if unknown_evidence b (rb_headline_evidence_ids b) then [''headline references unavailable evidence''] else [])"

definition unsupported_remediation :: "report_bundle \<Rightarrow> string list" where
  "unsupported_remediation b = (case rb_remediation b of None \<Rightarrow> []
     | Some r \<Rightarrow>
         (if rm_evidence_ids r = [] then [''remediation has no supporting evidence'']
          else if unknown_evidence b (rm_evidence_ids r) then [''remediation references unavailable evidence'']
          else []) @ filter (\<lambda>a. strip a = []) (remediation_actions r))"

definition covered_evidence :: "report_bundle \<Rightarrow> uuid list" where
  "covered_evidence b = sorted_unique (rb_headline_evidence_ids b
     @ concat (map ri_evidence_ids (rb_iocs b)) @ concat (map rw_evidence_ids (rb_vulnerabilities b))
     @ concat (map am_source_document_ids (rb_attack_mappings b)) @ concat (map da_evidence_ids (rb_detections b))
     @ (case rb_hunt b of None \<Rightarrow> [] | Some h \<Rightarrow> hunt_evidence h)
     @ (case rb_remediation b of None \<Rightarrow> [] | Some r \<Rightarrow> rm_evidence_ids r)
     @ concat (map tv_evidence_ids (rb_timeline b)) @ concat (map rh_evidence_ids (rb_historical_relationships b)))"

definition validate_coverage :: "(string \<Rightarrow> string) \<Rightarrow> report_bundle \<Rightarrow> evidence_coverage" where
  "validate_coverage casefold b =
     (let missing = absent_sections b @ unsupported_sections b;
          claims = unsupported_claims casefold b;
          actions = unsupported_remediation b in
      \<lparr>ec_valid = (missing = [] \<and> claims = [] \<and> actions = []),
       ec_missing_sections = dedup missing,
       ec_unsupported_claims = dedup claims,
       ec_unsupported_remediation = dedup actions,
       ec_covered_evidence_ids = covered_evidence b\<rparr>)"

section \<open>The manifest\<close>

definition validate_artifact :: "report_env \<Rightarrow> detection_artifact \<Rightarrow> unit result" where
  "validate_artifact e a = (case da_detection_type a of
       DX_SIGMA \<Rightarrow>
         rbind (parse_sigma (rn_yaml e) (da_content a)) (\<lambda>_.
         rbind (convert_sigma (rn_yaml e) (rn_external e) (da_content a) SPL (da_evidence_ids a)) (\<lambda>_.
         rbind (convert_sigma (rn_yaml e) (rn_external e) (da_content a) KQL (da_evidence_ids a)) (\<lambda>_. Inr ())))
     | DX_YARA \<Rightarrow> rbind (compile_yara (rn_native_yara e) (rn_sha256 e) (da_content a)) (\<lambda>_. Inr ())
     | _ \<Rightarrow> check (da_evidence_ids a \<noteq> []) ''query artifacts require evidence IDs'')"

definition renderer_version :: string where
  "renderer_version = ''phase7-renderer-v1''"

definition artifact_hashes :: "report_bundle \<Rightarrow> string list" where
  "artifact_hashes b = sort (List.map_filter (\<lambda>a. case da_artifact_hash a of Some h \<Rightarrow> if h = [] then None else Some h
     | None \<Rightarrow> None) (rb_detections b))"

definition validate :: "report_env \<Rightarrow> report_bundle \<Rightarrow> validation_manifest result" where
  "validate e b =
     (let coverage = validate_coverage (rn_casefold e) b in
      rbind (traverse (validate_artifact e) (rb_detections b)) (\<lambda>_.
      if \<not> ec_valid coverage then Inl (ValueError ''report evidence coverage failed'')
      else if rb_state b = RP_PUBLISHED then Inl (ValueError ''reports must be approved before publication'')
      else Inr \<lparr>vm_valid = True, vm_coverage = coverage, vm_renderer_version = renderer_version,
        vm_application_version = rb_application_version b, vm_model_identifier = rb_model_identifier b,
        vm_prompt_version = rb_prompt_version b, vm_skill_versions = rb_skill_versions b,
        vm_evidence_ids = sort (bundle_evidence_ids b), vm_artifact_hashes = artifact_hashes b\<rparr>))"

section \<open>Facts\<close>

lemma coverage_valid_iff:
  "ec_valid (validate_coverage cf b) \<longleftrightarrow>
     absent_sections b = [] \<and> unsupported_sections b = [] \<and> unsupported_claims cf b = [] \<and> unsupported_remediation b = []"
  by (auto simp: validate_coverage_def Let_def)

lemma absent_sections_empty:
  "absent_sections b = [] \<longleftrightarrow> rb_hunt b \<noteq> None \<and> rb_remediation b \<noteq> None \<and> rb_detections b \<noteq> [] \<and> rb_timeline b \<noteq> []
     \<and> rb_caveats b \<noteq> []"
  by (auto simp: absent_sections_def)

lemma unsupported_sections_empty:
  "unsupported_sections b = [] \<longleftrightarrow>
     (\<forall>h. rb_hunt b = Some h \<longrightarrow> set (hunt_evidence h) \<subseteq> set (bundle_evidence_ids b)) \<and>
     (\<forall>a \<in> set (rb_detections b). set (da_evidence_ids a) \<subseteq> set (bundle_evidence_ids b))"
  by (auto simp: unsupported_sections_def unknown_evidence_def filter_empty_conv split: option.splits)

lemma unsupported_claims_empty:
  "unsupported_claims cf b = [] \<longleftrightarrow>
     (\<forall>phrase \<in> set forbidden_internal_claims. \<not> contains phrase (cf (rb_headline b))) \<and>
     (\<forall>w \<in> set (claim_words cf (rb_headline b)). contains w (evidence_text cf b)) \<and>
     set (rb_headline_evidence_ids b) \<subseteq> set (bundle_evidence_ids b)"
  by (auto simp: unsupported_claims_def unknown_evidence_def filter_empty_conv)

lemma unsupported_remediation_empty:
  "unsupported_remediation b = [] \<longleftrightarrow> (\<forall>r. rb_remediation b = Some r \<longrightarrow> rm_evidence_ids r \<noteq> [] \<and>
     set (rm_evidence_ids r) \<subseteq> set (bundle_evidence_ids b) \<and> (\<forall>a \<in> set (remediation_actions r). strip a \<noteq> []))"
  by (auto simp: unsupported_remediation_def unknown_evidence_def filter_empty_conv split: option.splits)

lemmas coverage_conditions = coverage_valid_iff absent_sections_empty unsupported_sections_empty
  unsupported_claims_empty unsupported_remediation_empty

lemma validate_Inr:
  "validate e b = Inr m \<longleftrightarrow> ok (traverse (validate_artifact e) (rb_detections b)) \<and>
     ec_valid (validate_coverage (rn_casefold e) b) \<and> rb_state b \<noteq> RP_PUBLISHED \<and>
     m = \<lparr>vm_valid = True, vm_coverage = validate_coverage (rn_casefold e) b, vm_renderer_version = renderer_version,
        vm_application_version = rb_application_version b, vm_model_identifier = rb_model_identifier b,
        vm_prompt_version = rb_prompt_version b, vm_skill_versions = rb_skill_versions b,
        vm_evidence_ids = sort (bundle_evidence_ids b), vm_artifact_hashes = artifact_hashes b\<rparr>"
  by (auto simp: validate_def Let_def rbind_Inr_iff ok_def split: sum.splits if_splits)

end
