(* ===== verification/Report_Render.thy ===== *)
theory Report_Render
  imports Report_Validation
begin

text \<open>
  \<^verbatim>\<open>reporting/renderers.py\<close>: escaping, the Markdown and portal renderings and the artifacts of a
  report; and what a reader of the portal fragment sees: its tags and its texts, with the character
  references decoded.
\<close>

section \<open>Escaping\<close>

definition amp :: char where "amp = CHR 0x26"
definition apostrophe :: char where "apostrophe = CHR 0x27"
definition backtick :: char where "backtick = CHR 0x60"

definition html_escape :: "string \<Rightarrow> string" where
  "html_escape s = replace [apostrophe] ''&#x27;'' (replace [dquote] ''&quot;''
     (replace ''>'' ''&gt;'' (replace ''<'' ''&lt;'' (replace [amp] ''&amp;'' s))))"

definition safe :: "string \<Rightarrow> string" where
  "safe v = replace [backtick] [backslash, backtick] (html_escape v)"

section \<open>Markdown\<close>

definition markdown_list :: "string \<Rightarrow> string list \<Rightarrow> string list" where
  "markdown_list title items =
     (if items = [] then [''### '' @ title, ''- None evidenced.'', []]
      else [''### '' @ title] @ map (\<lambda>v. ''- '' @ safe v) items @ [[]])"

definition markdown_lines :: "report_bundle \<Rightarrow> string list" where
  "markdown_lines b =
     [''# '' @ safe (rb_headline b), [],
      ''**Severity:** '' @ safe (severity_value (rb_severity b)) @ ''  '',
      ''**Confidence:** '' @ safe (float_str (rb_confidence b)) @ ''  '',
      ''**State:** '' @ safe (report_state_value (rb_state b)), [],
      ''## Executive summary'', safe (rb_executive_summary b), [],
      ''## Technical analysis'', safe (rb_technical_analysis b), [],
      ''## Evidence'', safe (rb_evidence_summary b), []]
     @ markdown_list ''IOCs'' (map ri_display_value (rb_iocs b))
     @ markdown_list ''Vulnerabilities and affected products'' (map rw_cve_id (rb_vulnerabilities b))
     @ markdown_list ''ATT&CK mapping'' (map am_attack_id (rb_attack_mappings b))
     @ markdown_list ''Detection content'' (map da_title (rb_detections b))
     @ markdown_list ''Threat hunting'' (case rb_hunt b of None \<Rightarrow> [] | Some h \<Rightarrow> th_objective h # th_procedure h)
     @ markdown_list ''Remediation'' (case rb_remediation b of None \<Rightarrow> []
         | Some r \<Rightarrow> if rm_patching r \<noteq> [] then rm_patching r else rm_verification r)
     @ markdown_list ''Historical relationships''
         (map (\<lambda>h. cr_justification (rh_relationship h)) (rb_historical_relationships b))
     @ markdown_list ''Timeline'' (map tv_description (rb_timeline b))
     @ markdown_list ''Caveats'' (rb_caveats b)"

definition markdown :: "report_bundle \<Rightarrow> string" where
  "markdown b = strip (join [newline] (markdown_lines b)) @ [newline]"

section \<open>The portal fragment\<close>

definition list_items :: "string list \<Rightarrow> string" where
  "list_items values = concat (map (\<lambda>v. ''<li>'' @ safe v @ ''</li>'') values)"

definition section_of :: "string \<Rightarrow> string \<Rightarrow> string" where
  "section_of name title = ''<section data-section='' @ [dquote] @ name @ [dquote] @ ''><h2>'' @ title @ ''</h2>''"

definition hunt_section :: "report_bundle \<Rightarrow> string" where
  "hunt_section b = section_of ''hunt'' ''Threat hunting'' @
     (case rb_hunt b of Some h \<Rightarrow> ''<p>'' @ safe (th_objective h) @ ''</p></section>''
      | None \<Rightarrow> ''<p>None evidenced.</p></section>'')"

definition remediation_section :: "report_bundle \<Rightarrow> string" where
  "remediation_section b = section_of ''remediation'' ''Remediation'' @
     ''<ul>'' @ list_items (case rb_remediation b of None \<Rightarrow> [] | Some r \<Rightarrow> rm_patching r) @ ''</ul></section>''"

definition portal :: "report_bundle \<Rightarrow> string" where
  "portal b =
     ''<article data-report='' @ [dquote] @ safe (rb_public_id b) @ [dquote] @ ''>'' @
     ''<h1>'' @ safe (rb_headline b) @ ''</h1>'' @
     ''<p>'' @ safe (rb_executive_summary b) @ ''</p>'' @
     ''<p data-severity='' @ [dquote] @ safe (severity_value (rb_severity b)) @ [dquote] @ ''>'' @
     ''Confidence: '' @ safe (float_str (rb_confidence b)) @ ''</p>'' @
     ''<section><h2>Evidence</h2><p>'' @ safe (rb_evidence_summary b) @ ''</p></section>'' @
     ''<section><h2>IOCs</h2><ul>'' @ list_items (map ri_display_value (rb_iocs b)) @ ''</ul></section>'' @
     hunt_section b @ remediation_section b @ ''</article>''"

section \<open>The artifacts\<close>

definition rendered_artifact_of :: "string \<Rightarrow> string \<Rightarrow> string \<Rightarrow> string \<Rightarrow> rendered_artifact result" where
  "rendered_artifact_of name media content hash = RenderedArtifact
     \<lparr>ra_artifact_name = name, ra_media_type = media, ra_content = content, ra_artifact_hash = hash\<rparr>"

definition download_of :: "report_env \<Rightarrow> detection_artifact \<Rightarrow> rendered_artifact result" where
  "download_of e a = rendered_artifact_of (da_detection_id a @ ''.'' @ detection_type_value (da_detection_type a)) ''text/plain''
     (da_content a) (case da_artifact_hash a of Some h \<Rightarrow> or_else h (rn_sha256 e (da_content a))
        | None \<Rightarrow> rn_sha256 e (da_content a))"

definition render :: "report_env \<Rightarrow> report_bundle \<Rightarrow> rendered_report result" where
  "render e b =
     (let md = markdown b; payload = rn_stable_json e b; html = portal b; h = rn_sha256 e in
      rbind (traverse (download_of e) (rb_detections b)) (\<lambda>downloads.
      rbind (rendered_artifact_of (rb_slug b @ ''.md'') ''text/markdown'' md (h md)) (\<lambda>m.
      rbind (rendered_artifact_of (rb_slug b @ ''.json'') ''application/json'' payload (h payload)) (\<lambda>j.
      rbind (rendered_artifact_of (rb_slug b @ ''.html'') ''text/html'' html (h html)) (\<lambda>p.
        Inr \<lparr>rr_markdown = m, rr_json_artifact = j, rr_portal = p, rr_downloads = downloads,
          rr_renderer_version = renderer_version\<rparr>)))))"

section \<open>Reading a fragment\<close>

text \<open>A tag ends at the first \<open>>\<close> outside a quoted attribute value; everything else is text.\<close>

datatype html_token = Tag string | Text string

definition text_token :: "string \<Rightarrow> html_token list" where
  "text_token t = (if t = [] then [] else [Text t])"

fun html_scan :: "bool \<Rightarrow> bool \<Rightarrow> string \<Rightarrow> string \<Rightarrow> html_token list" where
  "html_scan in_tag quoted acc [] = (if in_tag then [] else text_token (rev acc))"
| "html_scan False quoted acc (c # cs) =
     (if c = CHR ''<'' then text_token (rev acc) @ html_scan True False [] cs
      else html_scan False False (c # acc) cs)"
| "html_scan True quoted acc (c # cs) =
     (if c = CHR ''>'' \<and> \<not> quoted then Tag (rev acc) # html_scan False False [] cs
      else html_scan True (if c = dquote then \<not> quoted else quoted) (c # acc) cs)"

text \<open>The character references the renderer produces.\<close>

definition references :: "(string \<times> char) list" where
  "references = [(''amp;'', amp), (''lt;'', CHR ''<''), (''gt;'', CHR ''>''), (''quot;'', dquote), (''#x27;'', apostrophe)]"

definition reference_at :: "string \<Rightarrow> (string \<times> char) option" where
  "reference_at s = List.find (\<lambda>(name, c). prefix name s) references"

fun decode_references :: "nat \<Rightarrow> string \<Rightarrow> string" where
  "decode_references k [] = []"
| "decode_references (Suc k) (c # cs) = decode_references k cs"
| "decode_references 0 (c # cs) = (if c = amp
     then (case reference_at cs of None \<Rightarrow> c # decode_references 0 cs | Some (name, d) \<Rightarrow> d # decode_references (length name) cs)
     else c # decode_references 0 cs)"

fun decode_token :: "html_token \<Rightarrow> html_token" where
  "decode_token (Tag t) = Tag (decode_references 0 t)"
| "decode_token (Text t) = Text (decode_references 0 t)"

definition read_html :: "string \<Rightarrow> html_token list" where
  "read_html s = map decode_token (html_scan False False [] s)"

definition element :: "string \<Rightarrow> string \<Rightarrow> html_token list" where
  "element name t = [Tag name] @ text_token t @ [Tag (''/'' @ name)]"

end
