(* ===== verification/Report_Store.thy ===== *)
theory Report_Store
  imports Report_Render Entity_Store
begin

text \<open>
  \<^verbatim>\<open>reporting/repository.py\<close> and \<^verbatim>\<open>reporting/service.py\<close>: reports with their versions, linked entities,
  provenance, hunts, remediations, detections and publications.  Statements check the constraints
  of their tables (\<^verbatim>\<open>db/models.py\<close>).  The session does not flush by itself: a report and its version
  are written by the explicit flush after them, the objects added later by the one at the end,
  which is modelled at the place where they are added.
\<close>

section \<open>Rows\<close>

record report_row =
  rt_id :: uuid
  rt_public_id :: string
  rt_slug :: string
  rt_headline :: string
  rt_report_type :: string
  rt_severity :: string
  rt_confidence :: rat
  rt_state :: string
  rt_first_published_at :: "instant option"
  rt_last_updated_at :: instant
  rt_current_version_id :: "uuid option"
  rt_resurfaced :: bool

record artifact_hash_list =
  ah_markdown :: string
  ah_json :: string
  ah_portal :: string
  ah_downloads :: "string list"

record report_version_row =
  vs_id :: uuid
  vs_report_id :: uuid
  vs_version :: int
  vs_executive_summary :: string
  vs_technical_analysis :: string
  vs_evidence_summary :: string
  vs_analytical_caveats :: "string list"
  vs_source_coverage :: "evidence_coverage option"
  vs_generated_by :: string
  vs_model_identifier :: "string option"
  vs_prompt_version :: "string option"
  vs_validation_status :: string
  vs_supersedes_id :: "uuid option"
  vs_structured_content :: json
  vs_evidence_ids :: "uuid list"
  vs_artifact_manifest :: "artifact_hash_list option"
  vs_skill_versions :: "string list"
  vs_application_version :: string

record report_entity_row =
  rx_id :: uuid
  rx_report_version_id :: uuid
  rx_entity_type :: string
  rx_entity_id :: uuid
  rx_role :: string

record hunt_row =
  hn_id :: uuid
  hn_report_version_id :: uuid
  hn_objective :: string
  hn_scope :: string
  hn_platforms :: "string list"
  hn_telemetry_requirements :: "string list"
  hn_lookback :: string
  hn_hypothesis :: string
  hn_procedure :: "string list"
  hn_expected_evidence :: "string list"
  hn_false_positives :: "string list"
  hn_escalation_criteria :: "string list"
  hn_validation_checklist :: "string list"
  hn_queries :: "string list"
  hn_typed_queries :: "hunt_query list"
  hn_execution_phases :: "hunt_phase list"
  hn_pivot_guidance :: "string list"
  hn_forensic_artifacts :: "string list"
  hn_evidence_ids :: "uuid list"
  hn_state :: string

record remediation_row =
  rd_id :: uuid
  rd_report_version_id :: uuid
  rd_immediate_containment :: "string list"
  rd_exposure_reduction :: "string list"
  rd_patching :: "string list"
  rd_configuration_changes :: "string list"
  rd_credential_actions :: "string list"
  rd_blocking_limitations :: "string list"
  rd_evidence_preservation :: "string list"
  rd_recovery :: "string list"
  rd_verification :: "string list"
  rd_rollback :: "string list"
  rd_evidence_ids :: "uuid list"
  rd_references :: "string list"
  rd_state :: string

record detection_row =
  dt_id :: uuid
  dt_report_version_id :: uuid
  dt_detection_type :: string
  dt_title :: string
  dt_content :: string
  dt_telemetry_requirements :: "string list"
  dt_assumptions :: "string list"
  dt_attack_references :: "string list"
  dt_evidence_ids :: "uuid list"
  dt_validation_tool :: "string option"
  dt_validation_result :: "string option"
  dt_artifact_hash :: string
  dt_state :: string

record publication_row =
  pu_id :: uuid
  pu_report_version_id :: uuid
  pu_published_at :: instant
  pu_publication_target :: string
  pu_application_version :: string
  pu_validation_manifest :: "validation_manifest option"
  pu_rollback_target :: "uuid option"
  pu_state :: string

record report_db =
  rs_reports :: "report_row list"
  rs_versions :: "report_version_row list"
  rs_entities :: "report_entity_row list"
  rs_hunts :: "hunt_row list"
  rs_remediations :: "remediation_row list"
  rs_detections :: "detection_row list"
  rs_publications :: "publication_row list"
  rs_model_runs :: "model_run list"
  rs_catalogue :: entity_db
  rs_store :: evidence_db

definition report_fits :: "report_row \<Rightarrow> bool" where
  "report_fits r = (varchar 128 (rt_public_id r) \<and> varchar 255 (rt_slug r) \<and> pg_text (rt_headline r) \<and>
     varchar 128 (rt_report_type r))"

definition version_fits :: "report_version_row \<Rightarrow> bool" where
  "version_fits v = (pg_int (vs_version v) \<and> pg_text (vs_executive_summary v) \<and> pg_text (vs_technical_analysis v) \<and>
     pg_text (vs_evidence_summary v) \<and> list_all pg_text (vs_analytical_caveats v) \<and> varchar 128 (vs_generated_by v) \<and>
     nullable (varchar 255) (vs_model_identifier v) \<and> nullable (varchar 128) (vs_prompt_version v) \<and>
     json_text (vs_structured_content v) \<and> list_all pg_text (vs_skill_versions v) \<and>
     varchar 128 (vs_application_version v))"

definition hunt_fits :: "hunt_row \<Rightarrow> bool" where
  "hunt_fits h = list_all pg_text ([hn_objective h, hn_scope h, hn_lookback h, hn_hypothesis h] @ hn_platforms h
     @ hn_telemetry_requirements h @ hn_procedure h @ hn_expected_evidence h @ hn_false_positives h
     @ hn_escalation_criteria h @ hn_validation_checklist h @ hn_queries h @ hn_pivot_guidance h @ hn_forensic_artifacts h)"

definition remediation_fits :: "remediation_row \<Rightarrow> bool" where
  "remediation_fits r = list_all pg_text (rd_immediate_containment r @ rd_exposure_reduction r @ rd_patching r
     @ rd_configuration_changes r @ rd_credential_actions r @ rd_blocking_limitations r @ rd_evidence_preservation r
     @ rd_recovery r @ rd_verification r @ rd_rollback r @ rd_references r)"

definition detection_fits :: "detection_row \<Rightarrow> bool" where
  "detection_fits d = (list_all pg_text ([dt_title d, dt_content d] @ dt_telemetry_requirements d @ dt_assumptions d
     @ dt_attack_references d) \<and> nullable (varchar 128) (dt_validation_tool d) \<and> nullable pg_text (dt_validation_result d) \<and>
     varchar 64 (dt_artifact_hash d))"

section \<open>The report and its version\<close>

definition existing_report :: "report_bundle \<Rightarrow> report_row list \<Rightarrow> report_row option" where
  "existing_report b rows = (case find_row rt_id (rb_report_id b) rows of
       Some r \<Rightarrow> Some r | None \<Rightarrow> find_row rt_public_id (rb_public_id b) rows)"

definition new_report :: "report_bundle \<Rightarrow> bool \<Rightarrow> instant \<Rightarrow> report_row" where
  "new_report b publish now = \<lparr>rt_id = rb_report_id b, rt_public_id = rb_public_id b, rt_slug = rb_slug b,
     rt_headline = rb_headline b, rt_report_type = rb_report_type b, rt_severity = severity_value (rb_severity b),
     rt_confidence = rb_confidence b, rt_state = (if publish then ''published'' else report_state_value (rb_state b)),
     rt_first_published_at = (if publish then Some now else None), rt_last_updated_at = now,
     rt_current_version_id = None, rt_resurfaced = rb_resurfaced b\<rparr>"

definition update_report :: "report_bundle \<Rightarrow> bool \<Rightarrow> instant \<Rightarrow> report_row \<Rightarrow> report_row" where
  "update_report b publish now r =
     (let r' = r\<lparr>rt_headline := rb_headline b, rt_slug := rb_slug b, rt_last_updated_at := now,
                 rt_resurfaced := rb_resurfaced b\<rparr> in
      if publish then r'\<lparr>rt_state := ''published'', rt_first_published_at :=
            (case rt_first_published_at r of None \<Rightarrow> Some now | Some t \<Rightarrow> Some t)\<rparr>
      else if rt_state r \<noteq> ''published'' then r'\<lparr>rt_state := report_state_value (rb_state b)\<rparr> else r')"

text \<open>An object of the session is written by its primary key; the keys of the other rows must stay
  different from its own.\<close>

definition write_report :: "report_row \<Rightarrow> report_row list \<Rightarrow> store_error + report_row list" where
  "write_report r rows =
     (if \<not> report_fits r then Inl DataError
      else if list_ex (\<lambda>x. rt_id x \<noteq> rt_id r \<and> (rt_public_id x = rt_public_id r \<or> rt_slug x = rt_slug r)) rows
      then Inl IntegrityError
      else Inr (upsert rt_id (\<lambda>_ new. new) r rows))"

definition save_report :: "report_bundle \<Rightarrow> bool \<Rightarrow> instant \<Rightarrow> report_db \<Rightarrow> store_error + report_db \<times> report_row \<times> bool" where
  "save_report b publish now db =
     (case existing_report b (rs_reports db) of
        None \<Rightarrow> (let r = new_report b publish now in
          rbind (write_report r (rs_reports db)) (\<lambda>rows. Inr (db\<lparr>rs_reports := rows\<rparr>, r, True)))
      | Some old \<Rightarrow> (let r = update_report b publish now old in
          rbind (write_report r (rs_reports db)) (\<lambda>rows. Inr (db\<lparr>rs_reports := rows\<rparr>, r, publish))))"

definition hashes_of :: "rendered_report \<Rightarrow> artifact_hash_list" where
  "hashes_of r = \<lparr>ah_markdown = ra_artifact_hash (rr_markdown r), ah_json = ra_artifact_hash (rr_json_artifact r),
     ah_portal = ra_artifact_hash (rr_portal r), ah_downloads = map ra_artifact_hash (rr_downloads r)\<rparr>"

definition new_version :: "report_env \<Rightarrow> report_bundle \<Rightarrow> validation_manifest option \<Rightarrow> rendered_report option \<Rightarrow> bool
    \<Rightarrow> uuid \<Rightarrow> report_version_row" where
  "new_version e b manifest rendered publish report_id =
     \<lparr>vs_id = rb_report_version_id b, vs_report_id = report_id, vs_version = rb_version b,
      vs_executive_summary = rb_executive_summary b, vs_technical_analysis = rb_technical_analysis b,
      vs_evidence_summary = rb_evidence_summary b, vs_analytical_caveats = rb_caveats b,
      vs_source_coverage = map_option vm_coverage manifest, vs_generated_by = rb_generated_by b,
      vs_model_identifier = rb_model_identifier b, vs_prompt_version = rb_prompt_version b,
      vs_validation_status = (if publish then ''published'' else report_state_value (rb_state b)),
      vs_supersedes_id = rb_supersedes_id b, vs_structured_content = rn_structured e b,
      vs_evidence_ids = bundle_evidence_ids b, vs_artifact_manifest = map_option hashes_of rendered,
      vs_skill_versions = rb_skill_versions b,
      vs_application_version = or_else (rb_application_version b) (rn_version e)\<rparr>"

definition version_key :: "report_version_row \<Rightarrow> uuid \<times> int" where
  "version_key v = (vs_report_id v, vs_version v)"

text \<open>A row that is added to the session must not share a key with a stored one.\<close>

definition add_row :: "('r \<Rightarrow> 'i) \<Rightarrow> ('r \<Rightarrow> 'k) \<Rightarrow> ('r \<Rightarrow> bool) \<Rightarrow> ('r \<Rightarrow> bool) \<Rightarrow> 'r \<Rightarrow> 'r list \<Rightarrow> store_error + 'r list" where
  "add_row ident key fits refs new rows =
     (if \<not> fits new then Inl DataError
      else if has_row key (key new) rows \<or> has_row ident (ident new) rows \<or> \<not> refs new then Inl IntegrityError
      else Inr (rows @ [new]))"

definition save_version :: "report_env \<Rightarrow> report_bundle \<Rightarrow> validation_manifest option \<Rightarrow> rendered_report option \<Rightarrow> bool
    \<Rightarrow> uuid \<Rightarrow> report_db \<Rightarrow> store_error + report_db" where
  "save_version e b manifest rendered publish report_id db =
     (if has_row vs_id (rb_report_version_id b) (rs_versions db) then Inr db
      else rbind (add_row vs_id version_key version_fits
          (\<lambda>v. has_row rt_id report_id (rs_reports db) \<and> nullable (\<lambda>i. has_row vs_id i (rs_versions db)) (vs_supersedes_id v))
          (new_version e b manifest rendered publish report_id) (rs_versions db)) (\<lambda>rows. Inr (db\<lparr>rs_versions := rows\<rparr>)))"

definition set_current :: "uuid \<Rightarrow> uuid \<Rightarrow> report_db \<Rightarrow> report_db" where
  "set_current report_id version_id db = db\<lparr>rs_reports :=
     map (\<lambda>r. if rt_id r = report_id then r\<lparr>rt_current_version_id := Some version_id\<rparr> else r) (rs_reports db)\<rparr>"

section \<open>Provenance\<close>

definition uuid_repr :: "uuid option \<Rightarrow> string" where
  "uuid_repr v = (case v of None \<Rightarrow> ''None'' | Some u \<Rightarrow> ''UUID('' @ repr_str u @ '')'')"

definition tuple_repr :: "string list \<Rightarrow> string" where
  "tuple_repr xs = (case xs of [x] \<Rightarrow> ''('' @ repr_str x @ '',)'' | _ \<Rightarrow> ''('' @ join '', '' (map repr_str xs) @ '')'')"

type_synonym link = "uuid option \<times> uuid option \<times> string list"

definition link_repr :: "link \<Rightarrow> string" where
  "link_repr = (\<lambda>(d, i, us). ''('' @ uuid_repr d @ '', '' @ uuid_repr i @ '', '' @ tuple_repr us @ '')'')"

definition evidence_by_id :: "report_bundle \<Rightarrow> uuid \<Rightarrow> report_evidence option" where
  "evidence_by_id b i = find_row rv_evidence_id i (rev (rb_evidence b))"

definition existing_documents :: "report_bundle \<Rightarrow> evidence_db \<Rightarrow> uuid list" where
  "existing_documents b db = filter (\<lambda>d. has_row document_id d (db_documents db))
     (List.map_filter rv_source_document_id (rb_evidence b) @ concat (map am_source_document_ids (rb_attack_mappings b)))"

definition stored_document :: "uuid list \<Rightarrow> uuid option \<Rightarrow> uuid option" where
  "stored_document docs d = (case d of Some i \<Rightarrow> if i \<in> set docs then Some i else None | None \<Rightarrow> None)"

definition evidence_link :: "uuid list \<Rightarrow> report_evidence \<Rightarrow> uuid \<Rightarrow> link" where
  "evidence_link docs v i = (stored_document docs (rv_source_document_id v), Some i, sorted_unique
     ((case rv_source_url v of None \<Rightarrow> [] | Some u \<Rightarrow> [u])
      @ (case rv_source_reference v of None \<Rightarrow> [] | Some r \<Rightarrow> [rf_canonical_url r])))"

definition links_of :: "report_bundle \<Rightarrow> uuid list \<Rightarrow> uuid list \<Rightarrow> uuid list \<Rightarrow> string list \<Rightarrow> link list" where
  "links_of b docs evidence_ids source_document_ids supporting_urls = sort_key link_repr (dedup
     (map (\<lambda>d. (stored_document docs (Some d), None, [])) source_document_ids
      @ List.map_filter (\<lambda>i. map_option (\<lambda>v. evidence_link docs v i) (evidence_by_id b i)) evidence_ids
      @ (if supporting_urls = [] then [] else [(None, None, sorted_unique supporting_urls)])))"

definition optional_str :: "uuid option \<Rightarrow> string" where
  "optional_str v = (case v of None \<Rightarrow> ''None'' | Some u \<Rightarrow> u)"

definition provenance_row :: "report_env \<Rightarrow> report_bundle \<Rightarrow> string \<Rightarrow> uuid \<Rightarrow> nat \<Rightarrow> link \<Rightarrow> entity_evidence_row" where
  "provenance_row e b entity_type entity_id index = (\<lambda>(d, i, us).
     \<lparr>ee_id = rn_uuid5 e entity_id (''report-provenance:'' @ entity_type @ '':'' @ int_str (int index) @ '':''
         @ optional_str i @ '':'' @ optional_str d),
      ee_entity_type = entity_type, ee_entity_id = entity_id, ee_source_document_id = d, ee_raw_artifact_id = None,
      ee_evidence_claim_id = None, ee_provider_result_id = None,
      ee_evidence_span = (case i of None \<Rightarrow> No_Span | Some x \<Rightarrow> Evidence_Ref x),
      ee_first_seen_at = None, ee_last_seen_at = None,
      ee_confidence = (case i of None \<Rightarrow> 1 | Some x \<Rightarrow>
         (case evidence_by_id b x of None \<Rightarrow> 1 | Some v \<Rightarrow> rv_confidence v)),
      ee_origin_type = ''report_generation'', ee_supporting_urls = json_urls us, ee_content_hash = None\<rparr>)"

definition insert_links :: "report_env \<Rightarrow> report_bundle \<Rightarrow> string \<Rightarrow> uuid \<Rightarrow> link list \<Rightarrow> evidence_db \<Rightarrow> store_error + evidence_db" where
  "insert_links e b entity_type entity_id links db =
     fold_result (\<lambda>db (n, l). insert_entity_evidence [] (provenance_row e b entity_type entity_id n l) db) db
       (zip [0..<length links] links)"

definition link_entity :: "report_env \<Rightarrow> report_bundle \<Rightarrow> uuid list \<Rightarrow> string \<Rightarrow> uuid \<Rightarrow> uuid list \<Rightarrow> uuid list \<Rightarrow> string list
    \<Rightarrow> report_db \<Rightarrow> store_error + report_db" where
  "link_entity e b docs entity_type entity_id evidence_ids source_document_ids urls db =
     rbind (insert_links e b entity_type entity_id (links_of b docs evidence_ids source_document_ids urls) (rs_store db))
       (\<lambda>s. Inr (db\<lparr>rs_store := s\<rparr>))"

definition affected_row :: "(string \<Rightarrow> string) \<Rightarrow> product \<Rightarrow> product_row" where
  "affected_row casefold p =
     \<lparr>pd_id = pr_product_id p, pd_vendor = pr_vendor p, pd_product = pr_product p,
      pd_normalized_vendor = (case pr_normalized_vendor p of None \<Rightarrow> casefold (pr_vendor p)
         | Some v \<Rightarrow> or_else v (casefold (pr_vendor p))),
      pd_normalized_product = (case pr_normalized_product p of None \<Rightarrow> casefold (pr_product p)
         | Some v \<Rightarrow> or_else v (casefold (pr_product p))),
      pd_ecosystem = (case pr_ecosystem p of None \<Rightarrow> ''unknown'' | Some v \<Rightarrow> or_else v ''unknown''),
      pd_product_type = pr_product_type p,
      pd_canonical_identifiers = [(''values'', JList (map JStr (pr_canonical_identifiers p)))]\<rparr>"

definition link_product :: "report_env \<Rightarrow> report_bundle \<Rightarrow> uuid list \<Rightarrow> uuid list \<Rightarrow> report_db \<Rightarrow> affected_product
    \<Rightarrow> store_error + report_db" where
  "link_product e b docs evidence_ids db a =
     rbind (upsert_product (affected_row (rn_casefold e) (af_product a)) (rs_catalogue db)) (\<lambda>(c, x).
       link_entity e b docs ''product'' (pr_product_id (af_product a)) evidence_ids [] [] (db\<lparr>rs_catalogue := c\<rparr>))"

definition link_vulnerability :: "report_env \<Rightarrow> report_bundle \<Rightarrow> uuid list \<Rightarrow> report_db \<Rightarrow> report_vulnerability
    \<Rightarrow> store_error + report_db" where
  "link_vulnerability e b docs db v =
     rbind (link_entity e b docs ''vulnerability'' (rw_vulnerability_id v) (rw_evidence_ids v) [] [] db) (\<lambda>db1.
       fold_result (link_product e b docs (rw_evidence_ids v)) db1 (rw_affected_products v))"

definition technique_of :: "technique_mapping \<Rightarrow> technique_row" where
  "technique_of a = \<lparr>tq_id = am_mapping_id a, tq_attack_id = am_attack_id a, tq_name = am_name a, tq_tactic = am_tactic a,
     tq_platform = (if am_platforms a = [] then None else Some (join '','' (am_platforms a))),
     tq_framework_version = am_framework_version a, tq_description_reference = am_description_reference a\<rparr>"

definition link_technique :: "report_env \<Rightarrow> report_bundle \<Rightarrow> uuid list \<Rightarrow> report_db \<Rightarrow> technique_mapping
    \<Rightarrow> store_error + report_db" where
  "link_technique e b docs db a =
     rbind (upsert_attack_technique (technique_of a) (rs_catalogue db)) (\<lambda>(c, x).
       link_entity e b docs ''technique'' (am_mapping_id a) [] (am_source_document_ids a) [] (db\<lparr>rs_catalogue := c\<rparr>))"

definition link_relationship :: "report_env \<Rightarrow> report_bundle \<Rightarrow> uuid list \<Rightarrow> report_db \<Rightarrow> report_relationship
    \<Rightarrow> store_error + report_db" where
  "link_relationship e b docs db h = link_entity e b docs ''relationship'' (cr_relationship_id (rh_relationship h))
     (if rh_evidence_ids h \<noteq> [] then rh_evidence_ids h else cr_evidence_ids (rh_relationship h)) [] [] db"

definition when_some :: "'a option \<Rightarrow> ('s \<Rightarrow> 'a \<Rightarrow> 'e + 's) \<Rightarrow> 's \<Rightarrow> 'e + 's" where
  "when_some v f s = (case v of None \<Rightarrow> Inr s | Some x \<Rightarrow> f s x)"

definition persist_provenance :: "report_env \<Rightarrow> report_bundle \<Rightarrow> uuid \<Rightarrow> report_db \<Rightarrow> store_error + report_db" where
  "persist_provenance e b report_id db =
     (let docs = existing_documents b (rs_store db); ids = dedup (bundle_evidence_ids b);
          link = link_entity e b docs in
      rbind (link ''report'' report_id ids [] (map rf_canonical_url (rb_source_references b)) db) (\<lambda>db1.
      rbind (link ''report_version'' (rb_report_version_id b) ids [] [] db1) (\<lambda>db2.
      rbind (fold_result (link_vulnerability e b docs) db2 (rb_vulnerabilities b)) (\<lambda>db3.
      rbind (fold_result (link_technique e b docs) db3 (rb_attack_mappings b)) (\<lambda>db4.
      rbind (fold_result (\<lambda>db a. link ''detection'' (da_detection_id a) (da_evidence_ids a) [] [] db) db4 (rb_detections b)) (\<lambda>db5.
      rbind (when_some (rb_hunt b) (\<lambda>db h. link ''hunt'' (th_hunt_id h) (th_evidence_ids h) [] [] db) db5) (\<lambda>db6.
      rbind (when_some (rb_remediation b) (\<lambda>db r. link ''remediation'' (rm_remediation_id r) (rm_evidence_ids r) [] [] db) db6) (\<lambda>db7.
        fold_result (link_relationship e b docs) db7 (rb_historical_relationships b)))))))))"

section \<open>Entities, hunts, remediations and detections\<close>

definition ref_of :: "entity_ref \<Rightarrow> string \<Rightarrow> string \<times> uuid \<times> string" where
  "ref_of r role = (entity_type_value (entity_ref.er_entity_type r), entity_ref.er_entity_id r, role)"

definition entities :: "report_bundle \<Rightarrow> (string \<times> uuid \<times> string) list" where
  "entities b = sorted_unique
     (map (\<lambda>i. ref_of (ri_indicator i) ''ioc'') (rb_iocs b)
      @ concat (map (\<lambda>v. map (\<lambda>a. (''product'', pr_product_id (af_product a), ''affected_product'')) (rw_affected_products v)
          @ [(''vulnerability'', rw_vulnerability_id v, ''vulnerability'')]) (rb_vulnerabilities b))
      @ map (\<lambda>a. (''technique'', am_mapping_id a, ''attack_mapping'')) (rb_attack_mappings b)
      @ concat (map (\<lambda>h. [ref_of (cr_source (rh_relationship h)) ''relationship_source'',
          ref_of (cr_target (rh_relationship h)) ''relationship_target'']) (rb_historical_relationships b)))"

definition entity_row_key :: "report_entity_row \<Rightarrow> uuid \<times> string \<times> uuid \<times> string" where
  "entity_row_key x = (rx_report_version_id x, rx_entity_type x, rx_entity_id x, rx_role x)"

text \<open>\<^verbatim>\<open>ON CONFLICT DO NOTHING\<close> without a target: any conflict leaves the table as it is.\<close>

definition persist_entity :: "report_env \<Rightarrow> uuid \<Rightarrow> report_entity_row list \<Rightarrow> string \<times> uuid \<times> string \<Rightarrow> report_entity_row list" where
  "persist_entity e version_id rows = (\<lambda>(entity_type, entity_id, role).
     let x = \<lparr>rx_id = rn_uuid5 e version_id (''entity:'' @ entity_type @ '':'' @ entity_id @ '':'' @ role),
              rx_report_version_id = version_id, rx_entity_type = entity_type, rx_entity_id = entity_id, rx_role = role\<rparr> in
     if has_row rx_id (rx_id x) rows \<or> has_row entity_row_key (entity_row_key x) rows then rows else rows @ [x])"

definition hunt_of :: "report_bundle \<Rightarrow> threat_hunt \<Rightarrow> hunt_row" where
  "hunt_of b h = \<lparr>hn_id = th_hunt_id h, hn_report_version_id = rb_report_version_id b, hn_objective = th_objective h,
     hn_scope = th_scope h, hn_platforms = th_platforms h, hn_telemetry_requirements = th_telemetry_requirements h,
     hn_lookback = th_lookback h, hn_hypothesis = th_hypothesis h, hn_procedure = th_procedure h,
     hn_expected_evidence = th_expected_evidence h, hn_false_positives = th_false_positives h,
     hn_escalation_criteria = th_escalation_criteria h, hn_validation_checklist = th_validation_checklist h,
     hn_queries = th_queries h, hn_typed_queries = th_typed_queries h, hn_execution_phases = th_execution_phases h,
     hn_pivot_guidance = th_pivot_guidance h, hn_forensic_artifacts = th_forensic_artifacts h,
     hn_evidence_ids = th_evidence_ids h, hn_state = report_state_value (rb_state b)\<rparr>"

definition version_stored :: "report_db \<Rightarrow> uuid \<Rightarrow> bool" where
  "version_stored db i = has_row vs_id i (rs_versions db)"

definition persist_hunt :: "report_bundle \<Rightarrow> report_db \<Rightarrow> threat_hunt \<Rightarrow> store_error + report_db" where
  "persist_hunt b db h =
     (if has_row hn_report_version_id (rb_report_version_id b) (rs_hunts db) then Inr db
      else rbind (add_row hn_id hn_report_version_id hunt_fits (\<lambda>x. version_stored db (hn_report_version_id x))
          (hunt_of b h) (rs_hunts db)) (\<lambda>rows. Inr (db\<lparr>rs_hunts := rows\<rparr>)))"

definition remediation_of :: "report_bundle \<Rightarrow> remediation \<Rightarrow> remediation_row" where
  "remediation_of b r = \<lparr>rd_id = rm_remediation_id r, rd_report_version_id = rb_report_version_id b,
     rd_immediate_containment = rm_immediate_containment r, rd_exposure_reduction = rm_exposure_reduction r,
     rd_patching = rm_patching r, rd_configuration_changes = rm_configuration_changes r,
     rd_credential_actions = rm_credential_actions r, rd_blocking_limitations = rm_blocking_limitations r,
     rd_evidence_preservation = rm_evidence_preservation r, rd_recovery = rm_recovery r,
     rd_verification = rm_verification r, rd_rollback = rm_rollback r,
     rd_evidence_ids = rm_evidence_ids r, rd_references = rm_references r, rd_state = report_state_value (rm_state r)\<rparr>"

definition persist_remediation :: "report_bundle \<Rightarrow> report_db \<Rightarrow> remediation \<Rightarrow> store_error + report_db" where
  "persist_remediation b db r =
     (if has_row rd_report_version_id (rb_report_version_id b) (rs_remediations db) then Inr db
      else rbind (add_row rd_id rd_report_version_id
          remediation_fits
          (\<lambda>x. version_stored db (rd_report_version_id x)) (remediation_of b r) (rs_remediations db))
        (\<lambda>rows. Inr (db\<lparr>rs_remediations := rows\<rparr>)))"

definition detection_key :: "detection_row \<Rightarrow> uuid \<times> string \<times> string" where
  "detection_key d = (dt_report_version_id d, dt_detection_type d, dt_artifact_hash d)"

definition detection_of :: "uuid \<Rightarrow> detection_artifact \<Rightarrow> detection_row" where
  "detection_of version_id a = \<lparr>dt_id = da_detection_id a, dt_report_version_id = version_id,
     dt_detection_type = detection_type_value (da_detection_type a), dt_title = da_title a, dt_content = da_content a,
     dt_telemetry_requirements = da_telemetry_requirements a, dt_assumptions = da_assumptions a,
     dt_attack_references = da_attack_techniques a, dt_evidence_ids = da_evidence_ids a,
     dt_validation_tool = da_validation_tool a, dt_validation_result = da_validation_result a,
     dt_artifact_hash = (case da_artifact_hash a of None \<Rightarrow> [] | Some h \<Rightarrow> h), dt_state = report_state_value (da_state a)\<rparr>"

definition add_detection :: "uuid \<Rightarrow> report_db \<Rightarrow> detection_artifact \<Rightarrow> store_error + report_db" where
  "add_detection version_id db a =
     (if da_artifact_hash a = None then Inl IntegrityError
      else rbind (add_row dt_id detection_key detection_fits (\<lambda>x. version_stored db (dt_report_version_id x))
          (detection_of version_id a) (rs_detections db)) (\<lambda>rows. Inr (db\<lparr>rs_detections := rows\<rparr>)))"

text \<open>The query for a stored detection does not see those added for the same bundle.\<close>

definition persist_detections :: "uuid \<Rightarrow> report_db \<Rightarrow> detection_artifact list \<Rightarrow> store_error + report_db" where
  "persist_detections version_id db xs =
     fold_result (add_detection version_id) db (filter (\<lambda>a. \<not> has_row dt_id (da_detection_id a) (rs_detections db)) xs)"

section \<open>Publication\<close>

definition published_versions :: "report_db \<Rightarrow> uuid \<Rightarrow> publication_row list" where
  "published_versions db report_id = filter (\<lambda>p. pu_state p = ''published'' \<and>
     list_ex (\<lambda>v. vs_id v = pu_report_version_id p \<and> vs_report_id v = report_id) (rs_versions db)) (rs_publications db)"

definition previous_publication :: "report_db \<Rightarrow> uuid \<Rightarrow> uuid \<Rightarrow> publication_row option" where
  "previous_publication db report_id version_id =
     newest pu_published_at (filter (\<lambda>p. pu_report_version_id p \<noteq> version_id) (published_versions db report_id))"

definition publication_id :: "report_env \<Rightarrow> report_bundle \<Rightarrow> uuid" where
  "publication_id e b = rn_uuid5 e (rb_report_version_id b) ''publication''"

definition publication_of :: "report_env \<Rightarrow> report_bundle \<Rightarrow> validation_manifest option \<Rightarrow> instant \<Rightarrow> uuid \<Rightarrow> report_db
    \<Rightarrow> publication_row" where
  "publication_of e b manifest now report_id db = \<lparr>pu_id = publication_id e b,
     pu_report_version_id = rb_report_version_id b, pu_published_at = now, pu_publication_target = ''public_cti'',
     pu_application_version = rb_application_version b, pu_validation_manifest = manifest,
     pu_rollback_target = map_option pu_report_version_id (previous_publication db report_id (rb_report_version_id b)),
     pu_state = ''published''\<rparr>"

definition artifact_row :: "report_env \<Rightarrow> uuid \<Rightarrow> nat \<Rightarrow> string \<Rightarrow> entity_evidence_row" where
  "artifact_row e publication index hash =
     \<lparr>ee_id = rn_uuid5 e publication (''artifact:'' @ int_str (int index) @ '':'' @ hash),
      ee_entity_type = ''publication'', ee_entity_id = publication, ee_source_document_id = None,
      ee_raw_artifact_id = None, ee_evidence_claim_id = None, ee_provider_result_id = None,
      ee_evidence_span = Artifact_Index index, ee_first_seen_at = None, ee_last_seen_at = None, ee_confidence = 1,
      ee_origin_type = ''publication_renderer'', ee_supporting_urls = None, ee_content_hash = Some hash\<rparr>"

definition artifact_hash_sequence :: "rendered_report \<Rightarrow> string list" where
  "artifact_hash_sequence r = (let h = hashes_of r in [ah_markdown h, ah_json h, ah_portal h] @ ah_downloads h)"

definition insert_artifacts :: "report_env \<Rightarrow> uuid \<Rightarrow> string list \<Rightarrow> evidence_db \<Rightarrow> store_error + evidence_db" where
  "insert_artifacts e publication hashes db =
     fold_result (\<lambda>db (n, h). insert_entity_evidence [] (artifact_row e publication n h) db) db (zip [0..<length hashes] hashes)"

definition publish_version :: "report_env \<Rightarrow> report_bundle \<Rightarrow> validation_manifest option \<Rightarrow> rendered_report option \<Rightarrow> instant
    \<Rightarrow> uuid \<Rightarrow> report_db \<Rightarrow> store_error + report_db" where
  "publish_version e b manifest rendered now report_id db =
     (let p = publication_of e b manifest now report_id db in
      rbind (insert_checked pu_id pu_id (\<lambda>p. varchar 128 (pu_application_version p))
          (\<lambda>p. version_stored db (pu_report_version_id p)) p (rs_publications db)) (\<lambda>rows.
      rbind (when_some rendered (\<lambda>s r. insert_artifacts e (publication_id e b) (artifact_hash_sequence r) s) (rs_store db)) (\<lambda>s.
        Inr (db\<lparr>rs_publications := rows, rs_store := s\<rparr>))))"

section \<open>Persisting a bundle\<close>

definition report_model_run :: "report_env \<Rightarrow> report_bundle \<Rightarrow> instant \<Rightarrow> string \<Rightarrow> model_run" where
  "report_model_run e b now identifier =
     \<lparr>mr_id = rn_uuid5 e (rb_report_version_id b) ''model-run'', mr_purpose = ''report_generation'',
      mr_triggering_run_id = rb_triggering_run_id b, mr_model_provider = identifier,
      mr_prompt_name = ''report_generation'',
      mr_prompt_version = (case rb_prompt_version b of None \<Rightarrow> ''unknown'' | Some v \<Rightarrow> or_else v ''unknown''),
      mr_system_prompt_hash = rb_system_prompt_hash b, mr_skill_version_hash = None,
      mr_skill_version_hashes = (if rb_skill_version_hashes b \<noteq> [] then rb_skill_version_hashes b else rb_skill_versions b),
      mr_input_evidence_ids = bundle_evidence_ids b, mr_output_hash = Some (rn_sha256 e (rn_stable_json e b)),
      mr_token_metadata = map_option JObj (rb_token_metadata b), mr_cost_metadata = map_option JObj (rb_cost_metadata b),
      mr_started_at = now, mr_completed_at = Some now, mr_status = ''completed'', mr_error_classification = None\<rparr>"

definition record_model_run :: "report_env \<Rightarrow> report_bundle \<Rightarrow> instant \<Rightarrow> report_db \<Rightarrow> string \<Rightarrow> store_error + report_db" where
  "record_model_run e b now db identifier =
     rbind (persist_model_run (map ir_id (db_runs (rs_store db))) now (Some now) (report_model_run e b now identifier)
       (rs_model_runs db)) (\<lambda>(rows, x). Inr (db\<lparr>rs_model_runs := rows\<rparr>))"

definition persist_contents :: "report_env \<Rightarrow> report_bundle \<Rightarrow> instant \<Rightarrow> uuid \<Rightarrow> report_db \<Rightarrow> store_error + report_db" where
  "persist_contents e b now report_id db =
     rbind (persist_provenance e b report_id db) (\<lambda>db1.
     rbind (when_some (rb_model_identifier b) (record_model_run e b now) db1) (\<lambda>db2.
     let db3 = db2\<lparr>rs_entities := foldl (persist_entity e (rb_report_version_id b)) (rs_entities db2) (entities b)\<rparr> in
     rbind (when_some (rb_hunt b) (persist_hunt b) db3) (\<lambda>db4.
     rbind (when_some (rb_remediation b) (persist_remediation b) db4) (\<lambda>db5.
       persist_detections (rb_report_version_id b) db5 (rb_detections b)))))"

definition persist_bundle :: "report_env \<Rightarrow> report_bundle \<Rightarrow> validation_manifest option \<Rightarrow> rendered_report option \<Rightarrow> bool
    \<Rightarrow> instant \<Rightarrow> report_db \<Rightarrow> store_error + report_db" where
  "persist_bundle e b manifest rendered publish now db =
     rbind (save_report b publish now db) (\<lambda>(db1, report, pending).
     rbind (save_version e b manifest rendered publish (rt_id report) db1) (\<lambda>db2.
     let db3 = (if pending then set_current (rt_id report) (rb_report_version_id b) db2 else db2) in
     rbind (persist_contents e b now (rt_id report) db3) (\<lambda>db4.
       if publish then publish_version e b manifest rendered now (rt_id report) db4 else Inr db4)))"

section \<open>The service\<close>

datatype pipeline_error = Refused py_error | Store_Failed store_error

definition save_draft :: "report_env \<Rightarrow> instant \<Rightarrow> report_bundle \<Rightarrow> report_db \<Rightarrow> pipeline_error + report_db" where
  "save_draft e now b db =
     (if rb_state b \<noteq> RP_DRAFT then Inl (Refused (ValueError ''save_draft requires draft state''))
      else (case persist_bundle e b None None False now db of Inl x \<Rightarrow> Inl (Store_Failed x) | Inr db' \<Rightarrow> Inr db'))"

definition publish :: "report_env \<Rightarrow> instant \<Rightarrow> report_bundle \<Rightarrow> report_db \<Rightarrow> pipeline_error + report_db" where
  "publish e now b db =
     (if rb_state b \<noteq> RP_APPROVED then Inl (Refused (ValueError ''only approved reports may be published''))
      else (case validate e b of Inl x \<Rightarrow> Inl (Refused x) | Inr manifest \<Rightarrow>
        (case render e b of Inl x \<Rightarrow> Inl (Refused x) | Inr rendered \<Rightarrow>
          (case persist_bundle e b (Some manifest) (Some rendered) True now db of
             Inl x \<Rightarrow> Inl (Store_Failed x) | Inr db' \<Rightarrow> Inr db'))))"

definition version_history :: "uuid \<Rightarrow> report_db \<Rightarrow> report_version_row list" where
  "version_history report_id db =
     sort_key (\<lambda>v. (vs_version v, vs_id v)) (filter (\<lambda>v. vs_report_id v = report_id) (rs_versions db))"

definition public_reports :: "report_db \<Rightarrow> report_row list" where
  "public_reports db = sort_key (\<lambda>r. (- rt_last_updated_at r, rt_id r)) (filter (\<lambda>r. rt_state r = ''published'') (rs_reports db))"

definition public_report_ids :: "report_row list \<Rightarrow> uuid list" where
  "public_report_ids rows = sort (map rt_id (filter (\<lambda>r. rt_state r = ''published'') rows))"

end
