(* ===== verification/Report_Facts.thy ===== *)
theory Report_Facts
  imports Report_Render
begin

text \<open>
  The portal fragment reads back as the fixed document with one text node per field, and what the
  recorded hashes are hashes of.
\<close>

section \<open>Escaping is character by character\<close>

definition escaped_char :: "char \<Rightarrow> string" where
  "escaped_char c = (if c = amp then ''&amp;'' else if c = CHR ''<'' then ''&lt;'' else if c = CHR ''>'' then ''&gt;''
     else if c = dquote then ''&quot;'' else if c = apostrophe then ''&#x27;''
     else if c = backtick then [backslash, backtick] else [c])"

definition ticked :: "string \<Rightarrow> string" where
  "ticked s = replace [backtick] [backslash, backtick] s"

lemmas special_chars = amp_def apostrophe_def backtick_def dquote_def backslash_def

lemma concat_concat_map: "concat (map f (concat (map g s))) = concat (map (\<lambda>c. concat (map f (g c))) s)"
  by (induction s) auto

lemma safe_map: "safe s = concat (map escaped_char s)"
  unfolding safe_def html_escape_def replace_char concat_concat_map
  by (rule arg_cong [where f = concat]) (auto simp: escaped_char_def special_chars)

lemma ticked_map: "ticked s = concat (map (\<lambda>c. if c = backtick then [backslash, backtick] else [c]) s)"
  by (simp add: ticked_def replace_char)

lemma escaped_char_clean: "c \<in> set (escaped_char d) \<Longrightarrow> c \<noteq> CHR ''<'' \<and> c \<noteq> CHR ''>'' \<and> c \<noteq> dquote \<and> c \<noteq> apostrophe"
  by (auto simp: escaped_char_def special_chars split: if_splits)

lemma safe_clean: "c \<in> set (safe s) \<Longrightarrow> c \<noteq> CHR ''<'' \<and> c \<noteq> CHR ''>'' \<and> c \<noteq> dquote \<and> c \<noteq> apostrophe"
  by (auto simp: safe_map dest: escaped_char_clean)

lemma decode_char: "decode_references 0 (escaped_char c @ s) = (if c = backtick then [backslash, backtick] else [c]) @ decode_references 0 s"
  by (simp add: escaped_char_def special_chars reference_at_def references_def eval_nat_numeral)

lemma decode_safe: "decode_references 0 (safe s @ t) = ticked s @ decode_references 0 t"
  by (induction s) (simp_all add: safe_map ticked_map decode_char)

lemma decode_safe_end [simp]: "decode_references 0 (safe s) = ticked s"
  using decode_safe [of s "[]"] by simp

section \<open>Scanning\<close>

lemma scan_text: "CHR ''<'' \<notin> set u \<Longrightarrow> html_scan False False acc (u @ s) = html_scan False False (rev u @ acc) s"
  by (induction u arbitrary: acc) auto

lemma scan_quoted: "dquote \<notin> set u \<Longrightarrow> html_scan True True acc (u @ s) = html_scan True True (rev u @ acc) s"
  by (induction u arbitrary: acc) auto

lemma scan_safe [simp]:
  "html_scan False False acc (safe v @ s) = html_scan False False (rev (safe v) @ acc) s"
  "html_scan True True acc (safe v @ s) = html_scan True True (rev (safe v) @ acc) s"
  using safe_clean [of _ v] by (blast intro: scan_text scan_quoted)+

lemma text_token_Nil [simp]: "text_token [] = []"
  by (simp add: text_token_def)

lemma text_token_Cons [simp]: "text_token (c # cs) = [Text (c # cs)]"
  by (simp add: text_token_def)

lemma decode_text_token: "map decode_token (text_token (safe v)) = text_token (ticked v)"
proof -
  have "safe v = [] \<longleftrightarrow> v = []"
    by (cases v) (auto simp: safe_map escaped_char_def)
  moreover have "ticked v = [] \<longleftrightarrow> v = []"
    by (cases v) (auto simp: ticked_map)
  ultimately show ?thesis
    by (simp add: text_token_def)
qed

lemma scan_list_items:
  "map decode_token (html_scan False False [] (list_items vs @ s)) =
     concat (map (\<lambda>v. element ''li'' (ticked v)) vs) @ map decode_token (html_scan False False [] s)"
  by (induction vs)
    (simp_all add: list_items_def element_def decode_text_token special_chars)

lemma decode_cons: "c \<noteq> amp \<Longrightarrow> decode_references 0 (c # s) = c # decode_references 0 s"
  by simp

lemma ticked_plain: "backtick \<notin> set s \<Longrightarrow> ticked s = s"
  by (induction s) (auto simp: ticked_map)

lemma severity_plain: "ticked (severity_value v) = severity_value v"
  by (rule ticked_plain) (cases v; simp add: backtick_def)

lemma scan_hunt:
  "map decode_token (html_scan False False [] (hunt_section b @ s)) =
     [Tag (''section data-section='' @ [dquote] @ ''hunt'' @ [dquote])] @ element ''h2'' ''Threat hunting''
     @ element ''p'' (case rb_hunt b of None \<Rightarrow> ''None evidenced.'' | Some h \<Rightarrow> ticked (th_objective h)) @ [Tag ''/section'']
     @ map decode_token (html_scan False False [] s)"
  by (cases "rb_hunt b")
    (simp_all add: hunt_section_def section_of_def element_def decode_text_token special_chars)

lemma scan_remediation:
  "map decode_token (html_scan False False [] (remediation_section b @ s)) =
     [Tag (''section data-section='' @ [dquote] @ ''remediation'' @ [dquote])] @ element ''h2'' ''Remediation'' @ [Tag ''ul'']
     @ concat (map (\<lambda>a. element ''li'' (ticked a)) (case rb_remediation b of None \<Rightarrow> [] | Some r \<Rightarrow> rm_patching r))
     @ [Tag ''/ul'', Tag ''/section''] @ map decode_token (html_scan False False [] s)"
  by (simp add: remediation_section_def section_of_def element_def scan_list_items special_chars)

text \<open>C5. A reader of the portal fragment sees the fixed document and nothing else: the tags are those of the
  template, and every field of the report is one text node (or one attribute value) that decodes
  to the field itself, with a backslash before each backtick.  No field of the report, whatever its
  text, adds a tag, ends one or leaves an attribute.\<close>

theorem portal_reads_back:
  "read_html (portal b) =
     [Tag (''article data-report='' @ [dquote] @ ticked (rb_public_id b) @ [dquote])]
     @ element ''h1'' (ticked (rb_headline b))
     @ element ''p'' (ticked (rb_executive_summary b))
     @ [Tag (''p data-severity='' @ [dquote] @ severity_value (rb_severity b) @ [dquote]),
        Text (''Confidence: '' @ ticked (float_str (rb_confidence b))), Tag ''/p'']
     @ [Tag ''section''] @ element ''h2'' ''Evidence'' @ element ''p'' (ticked (rb_evidence_summary b)) @ [Tag ''/section'']
     @ [Tag ''section''] @ element ''h2'' ''IOCs'' @ [Tag ''ul'']
     @ concat (map (\<lambda>i. element ''li'' (ticked (ri_display_value i))) (rb_iocs b)) @ [Tag ''/ul'', Tag ''/section'']
     @ [Tag (''section data-section='' @ [dquote] @ ''hunt'' @ [dquote])] @ element ''h2'' ''Threat hunting''
     @ element ''p'' (case rb_hunt b of None \<Rightarrow> ''None evidenced.'' | Some h \<Rightarrow> ticked (th_objective h)) @ [Tag ''/section'']
     @ [Tag (''section data-section='' @ [dquote] @ ''remediation'' @ [dquote])] @ element ''h2'' ''Remediation'' @ [Tag ''ul'']
     @ concat (map (\<lambda>a. element ''li'' (ticked a)) (case rb_remediation b of None \<Rightarrow> [] | Some r \<Rightarrow> rm_patching r))
     @ [Tag ''/ul'', Tag ''/section'', Tag ''/article'']"
  unfolding read_html_def portal_def
  by (simp add: scan_hunt scan_remediation scan_list_items element_def decode_text_token severity_plain special_chars
      decode_safe comp_def)

section \<open>Hashes\<close>

lemma strip_trailing:
  assumes "is_space c"
  shows "strip (strip s @ [c]) = strip s"
proof (cases "strip s = []")
  case True
  with assms show ?thesis by (simp add: True) (simp add: strip_def lstrip_by_def rstrip_by_def)
next
  case False
  have "dropWhile is_space (strip s @ [c]) = strip s @ [c]"
    using False strip_hd [of s] by (intro dropWhile_fixed) simp
  moreover have "dropWhile is_space (rev (strip s)) = rev (strip s)"
    using False strip_last [of s] by (intro dropWhile_fixed) (simp add: hd_rev)
  ultimately show ?thesis
    using assms by (simp add: strip_def [of "strip s @ [c]"] lstrip_by_def rstrip_by_def)
qed

lemma RenderedArtifact_Inr:
  "RenderedArtifact a = Inr x \<Longrightarrow> ra_content x = strip (ra_content a) \<and> ra_artifact_hash x = strip (ra_artifact_hash a)"
  by (auto simp: RenderedArtifact_def rbind_Inr_iff nonempty_text_def length_within_def split: if_splits)

text \<open>The recorded hash of the Markdown artifact is the hash of a text that ends in a line break, and the
  artifact's content is that text without it: contracts strip their texts, so the hash never
  belongs to the content it is stored with (unless two texts collide).\<close>

theorem markdown_hash_of_other_text:
  assumes "render e b = Inr r" and "\<And>s. strip (rn_sha256 e s) = rn_sha256 e s"
  shows "ra_artifact_hash (rr_markdown r) = rn_sha256 e (ra_content (rr_markdown r) @ [newline])"
proof -
  from assms(1) obtain m where m: "rr_markdown r = m"
      "rendered_artifact_of (rb_slug b @ ''.md'') ''text/markdown'' (markdown b) (rn_sha256 e (markdown b)) = Inr m"
    by (auto simp: render_def Let_def rbind_Inr_iff)
  have "strip (markdown b) @ [newline] = markdown b"
    by (simp add: markdown_def strip_trailing newline_def is_space_def code_def)
  with m show ?thesis
    using RenderedArtifact_Inr [of _ m] assms(2) by (auto simp: rendered_artifact_of_def)
qed

end
