(* ===== verification/Publication_Facts.thy ===== *)
theory Publication_Facts
  imports Report_Store Report_Facts
begin

text \<open>
  The life of reports over any history of saved drafts and publications: what is stored is never
  changed, what is public has been validated, and what is public stays public.
\<close>

section \<open>What an operation may change\<close>

text \<open>Every table of evidence and content is append-only.\<close>

definition extends :: "report_db \<Rightarrow> report_db \<Rightarrow> bool" where
  "extends db db' = (prefix (rs_versions db) (rs_versions db') \<and> prefix (rs_publications db) (rs_publications db') \<and>
     prefix (rs_entities db) (rs_entities db') \<and> prefix (rs_hunts db) (rs_hunts db') \<and>
     prefix (rs_remediations db) (rs_remediations db') \<and> prefix (rs_detections db) (rs_detections db') \<and>
     prefix (db_evidence (rs_store db)) (db_evidence (rs_store db')))"

lemma extends_refl [simp]: "extends db db"
  by (simp add: extends_def)

lemma extends_trans: "extends a b \<Longrightarrow> extends b c \<Longrightarrow> extends a c"
  unfolding extends_def by (meson prefix_order.trans)

definition keeps :: "report_db \<Rightarrow> report_db \<Rightarrow> bool" where
  "keeps db db' = (extends db db' \<and> rs_reports db' = rs_reports db \<and> rs_versions db' = rs_versions db \<and>
     rs_publications db' = rs_publications db)"

lemma keeps_refl [simp]: "keeps db db"
  by (simp add: keeps_def)

lemma keeps_trans: "keeps a b \<Longrightarrow> keeps b c \<Longrightarrow> keeps a c"
  unfolding keeps_def by (auto intro: extends_trans)

lemma fold_keeps:
  assumes "fold_result f db xs = Inr db'" "\<And>s x s'. f s x = Inr s' \<Longrightarrow> keeps s s'"
  shows "keeps db db'"
  using assms(1) by (rule fold_result_invariant [where P = "keeps db"]) (auto intro: keeps_trans assms(2))

lemma when_some_keeps: "when_some v f db = Inr db' \<Longrightarrow> (\<And>s x s'. f s x = Inr s' \<Longrightarrow> keeps s s') \<Longrightarrow> keeps db db'"
  by (auto simp: when_some_def split: option.splits)

lemma evidence_prefix: "insert_entity_evidence ids w db = Inr db' \<Longrightarrow> prefix (db_evidence db) (db_evidence db')"
  by (auto simp: insert_entity_evidence_def rbind_Inr_iff insert_checked_Inr)

lemma links_prefix: "insert_links e b t i ls db = Inr db' \<Longrightarrow> prefix (db_evidence db) (db_evidence db')"
  unfolding insert_links_def
  by (erule fold_result_invariant [where P = "\<lambda>s. prefix (db_evidence db) (db_evidence s)"])
    (auto dest: evidence_prefix intro: prefix_order.trans)

lemma artifacts_prefix: "insert_artifacts e p hs db = Inr db' \<Longrightarrow> prefix (db_evidence db) (db_evidence db')"
  unfolding insert_artifacts_def
  by (erule fold_result_invariant [where P = "\<lambda>s. prefix (db_evidence db) (db_evidence s)"])
    (auto dest: evidence_prefix intro: prefix_order.trans)

lemma link_keeps: "link_entity e b docs t i es ds us db = Inr db' \<Longrightarrow> keeps db db'"
  by (auto simp: link_entity_def rbind_Inr_iff keeps_def extends_def dest: links_prefix)

lemma catalogue_keeps [simp]: "keeps (db\<lparr>rs_catalogue := c\<rparr>) db' = keeps db db'"
  by (simp add: keeps_def extends_def)

lemma product_keeps_db: "link_product e b docs es db a = Inr db' \<Longrightarrow> keeps db db'"
  by (auto simp: link_product_def rbind_Inr_iff dest!: link_keeps)

lemma vulnerability_keeps: "link_vulnerability e b docs db v = Inr db' \<Longrightarrow> keeps db db'"
  unfolding link_vulnerability_def rbind_Inr_iff
  by (elim exE conjE) (rule keeps_trans, erule link_keeps, erule fold_keeps, erule product_keeps_db)

lemma technique_keeps_db: "link_technique e b docs db a = Inr db' \<Longrightarrow> keeps db db'"
  by (auto simp: link_technique_def rbind_Inr_iff dest!: link_keeps)

lemma relationship_keeps: "link_relationship e b docs db h = Inr db' \<Longrightarrow> keeps db db'"
  unfolding link_relationship_def by (rule link_keeps)

lemma provenance_keeps: "persist_provenance e b i db = Inr db' \<Longrightarrow> keeps db db'"
  unfolding persist_provenance_def Let_def rbind_Inr_iff
  by (elim exE conjE) (rule keeps_trans, erule link_keeps, rule keeps_trans, erule link_keeps,
    rule keeps_trans, erule fold_keeps, erule vulnerability_keeps, rule keeps_trans, erule fold_keeps, erule technique_keeps_db,
    rule keeps_trans, erule fold_keeps, erule link_keeps, rule keeps_trans, erule when_some_keeps, erule link_keeps,
    rule keeps_trans, erule when_some_keeps, erule link_keeps, erule fold_keeps, erule relationship_keeps)

lemma model_run_keeps: "record_model_run e b now db i = Inr db' \<Longrightarrow> keeps db db'"
  by (auto simp: record_model_run_def rbind_Inr_iff keeps_def extends_def)

lemma add_row_Inr: "add_row ident key fits refs new rows = Inr rows' \<longleftrightarrow> fits new \<and> \<not> has_row key (key new) rows \<and>
    \<not> has_row ident (ident new) rows \<and> refs new \<and> rows' = rows @ [new]"
  by (auto simp: add_row_def)

lemma hunt_keeps: "persist_hunt b db h = Inr db' \<Longrightarrow> keeps db db'"
  by (auto simp: persist_hunt_def rbind_Inr_iff add_row_Inr keeps_def extends_def split: if_splits)

lemma remediation_keeps: "persist_remediation b db h = Inr db' \<Longrightarrow> keeps db db'"
  by (auto simp: persist_remediation_def rbind_Inr_iff add_row_Inr keeps_def extends_def split: if_splits)

lemma detection_keeps: "add_detection v db h = Inr db' \<Longrightarrow> keeps db db'"
  by (auto simp: add_detection_def rbind_Inr_iff add_row_Inr keeps_def extends_def split: if_splits)

lemma entity_prefix: "prefix rows (foldl (persist_entity e v) rows xs)"
proof (induction xs arbitrary: rows)
  case (Cons x xs)
  have "prefix rows (persist_entity e v rows x)"
    by (auto simp: persist_entity_def Let_def split: prod.splits)
  with Cons show ?case by (auto intro: prefix_order.trans)
qed simp

lemma contents_keep: "persist_contents e b now i db = Inr db' \<Longrightarrow> keeps db db'"
proof -
  assume "persist_contents e b now i db = Inr db'"
  then obtain db1 db2 db4 db5 where s: "persist_provenance e b i db = Inr db1"
    "when_some (rb_model_identifier b) (record_model_run e b now) db1 = Inr db2"
    "when_some (rb_hunt b) (persist_hunt b)
       (db2\<lparr>rs_entities := foldl (persist_entity e (rb_report_version_id b)) (rs_entities db2) (entities b)\<rparr>) = Inr db4"
    "when_some (rb_remediation b) (persist_remediation b) db4 = Inr db5"
    "persist_detections (rb_report_version_id b) db5 (rb_detections b) = Inr db'"
    by (auto simp: persist_contents_def Let_def rbind_Inr_iff)
  have "keeps db2 (db2\<lparr>rs_entities := foldl (persist_entity e (rb_report_version_id b)) (rs_entities db2) (entities b)\<rparr>)"
    by (simp add: keeps_def extends_def entity_prefix)
  from provenance_keeps [OF s(1)] when_some_keeps [OF s(2) model_run_keeps] this when_some_keeps [OF s(3) hunt_keeps]
    when_some_keeps [OF s(4) remediation_keeps] fold_keeps [OF s(5) [unfolded persist_detections_def] detection_keeps]
  show "keeps db db'" by (rule keeps_trans [OF keeps_trans [OF keeps_trans [OF keeps_trans [OF keeps_trans]]]])
qed

section \<open>One persisted bundle\<close>

interpretation reports: keyed_table rt_id "\<lambda>_ new. new"
  by unfold_locales simp

definition with_current :: "bool \<Rightarrow> uuid \<Rightarrow> uuid \<Rightarrow> report_row list \<Rightarrow> report_row list" where
  "with_current pending i v rows =
     (if pending then map (\<lambda>r. if rt_id r = i then r\<lparr>rt_current_version_id := Some v\<rparr> else r) rows else rows)"

lemma write_report_Inr: "write_report r rows = Inr rows' \<longleftrightarrow> report_fits r \<and> rows' = upsert rt_id (\<lambda>_ new. new) r rows \<and>
    (\<forall>x \<in> set rows. rt_id x \<noteq> rt_id r \<longrightarrow> rt_public_id x \<noteq> rt_public_id r \<and> rt_slug x \<noteq> rt_slug r)"
  by (auto simp: write_report_def list_ex_iff)

lemma save_report_Inr:
  "save_report b p now db = Inr (db1, r, pending) \<Longrightarrow>
     r = (case existing_report b (rs_reports db) of None \<Rightarrow> new_report b p now | Some old \<Rightarrow> update_report b p now old) \<and>
     pending = (p \<or> existing_report b (rs_reports db) = None) \<and>
     write_report r (rs_reports db) = Inr (rs_reports db1) \<and> db1 = db\<lparr>rs_reports := rs_reports db1\<rparr>"
  by (auto simp: save_report_def Let_def rbind_Inr_iff split: option.splits)

lemma save_version_Inr:
  "save_version e b m rd p i db = Inr db' \<Longrightarrow> db' = db\<lparr>rs_versions := rs_versions db'\<rparr> \<and>
     (if has_row vs_id (rb_report_version_id b) (rs_versions db) then rs_versions db' = rs_versions db
      else rs_versions db' = rs_versions db @ [new_version e b m rd p i] \<and>
        \<not> has_row version_key (i, rb_version b) (rs_versions db) \<and> version_fits (new_version e b m rd p i))"
  by (auto simp: save_version_def rbind_Inr_iff add_row_Inr version_key_def new_version_def split: if_splits)

text \<open>The publication row of a bundle, up to its time and its roll-back target.\<close>

definition publication_for :: "report_env \<Rightarrow> report_bundle \<Rightarrow> validation_manifest option \<Rightarrow> publication_row \<Rightarrow> bool" where
  "publication_for e b m x = (pu_id x = publication_id e b \<and> pu_report_version_id x = rb_report_version_id b \<and>
     pu_validation_manifest x = m \<and> pu_state x = ''published'')"

definition published_row :: "report_env \<Rightarrow> report_bundle \<Rightarrow> validation_manifest option \<Rightarrow> report_db \<Rightarrow> report_db \<Rightarrow> bool" where
  "published_row e b m db db' = (has_row pu_id (publication_id e b) (rs_publications db) \<and> rs_publications db' = rs_publications db \<or>
     \<not> has_row pu_id (publication_id e b) (rs_publications db) \<and>
     (\<exists>x. publication_for e b m x \<and> version_stored db' (rb_report_version_id b) \<and> rs_publications db' = rs_publications db @ [x]))"

lemma publish_version_Inr:
  assumes "publish_version e b m rd now i db = Inr db'"
  shows "rs_reports db' = rs_reports db \<and> rs_versions db' = rs_versions db \<and> extends db db' \<and> published_row e b m db db'"
proof -
  define x where "x = publication_of e b m now i db"
  from assms obtain s rows where r: "insert_checked pu_id pu_id (\<lambda>p. varchar 128 (pu_application_version p))
        (\<lambda>p. version_stored db (pu_report_version_id p)) x (rs_publications db) = Inr rows"
    and s: "when_some rd (\<lambda>s r. insert_artifacts e (publication_id e b) (artifact_hash_sequence r) s) (rs_store db) = Inr s"
    and db': "db' = db\<lparr>rs_publications := rows, rs_store := s\<rparr>"
    by (auto simp: publish_version_def Let_def rbind_Inr_iff x_def)
  have x: "publication_for e b m x"
    by (simp add: x_def publication_for_def publication_of_def)
  have "prefix (db_evidence (rs_store db)) (db_evidence s)"
    using s by (auto simp: when_some_def split: option.splits dest: artifacts_prefix)
  moreover have "prefix (rs_publications db) rows"
    using r by (auto simp: insert_checked_Inr)
  moreover have "published_row e b m db db'"
    using r x by (auto simp: published_row_def insert_checked_Inr publication_for_def db' version_stored_def)
  ultimately show ?thesis
    by (simp add: db' extends_def)
qed

lemma persist_bundle_parts:
  assumes "persist_bundle e b m rd p now db = Inr db'"
  obtains db1 r pending db2 where "save_report b p now db = Inr (db1, r, pending)"
    "save_version e b m rd p (rt_id r) db1 = Inr db2"
    "rs_reports db' = with_current pending (rt_id r) (rb_report_version_id b) (rs_reports db1)"
    "rs_versions db' = rs_versions db2" "extends db db'"
    "if p then published_row e b m db db' else rs_publications db' = rs_publications db"
proof -
  from assms obtain db1 r pending db2 db4 where s: "save_report b p now db = Inr (db1, r, pending)"
    "save_version e b m rd p (rt_id r) db1 = Inr db2"
    "persist_contents e b now (rt_id r) (if pending then set_current (rt_id r) (rb_report_version_id b) db2 else db2) = Inr db4"
    "(if p then publish_version e b m rd now (rt_id r) db4 else Inr db4) = Inr db'"
    by (auto simp: persist_bundle_def Let_def rbind_Inr_iff)
  define db3 where "db3 = (if pending then set_current (rt_id r) (rb_report_version_id b) db2 else db2)"
  have k: "keeps db3 db4"
    by (rule contents_keep) (use s(3) db3_def in simp)
  obtain vs where db2: "db2 = db1\<lparr>rs_versions := vs\<rparr>" "prefix (rs_versions db1) vs"
    using save_version_Inr [OF s(2)] by (metis prefixI prefix_order.order_refl)
  obtain rows where db1: "db1 = db\<lparr>rs_reports := rows\<rparr>"
    using save_report_Inr [OF s(1)] by blast
  have db3: "db3 = db\<lparr>rs_versions := vs, rs_reports := with_current pending (rt_id r) (rb_report_version_id b) rows\<rparr>"
    by (simp add: db3_def db2 db1 with_current_def set_current_def)
  have e3: "extends db db3"
    using db2(2) by (simp add: db3 db1 extends_def)
  have "rs_reports db' = rs_reports db4 \<and> rs_versions db' = rs_versions db4 \<and> extends db4 db' \<and>
      (if p then published_row e b m db4 db' else rs_publications db' = rs_publications db4)"
    using s(4) publish_version_Inr [of e b m rd now "rt_id r" db4 db'] by (cases p) auto
  moreover have "rs_reports db4 = rs_reports db3 \<and> rs_versions db4 = vs \<and> rs_publications db4 = rs_publications db \<and> extends db3 db4"
    using k by (simp add: keeps_def db3)
  ultimately have "rs_reports db' = with_current pending (rt_id r) (rb_report_version_id b) (rs_reports db1)"
    "rs_versions db' = rs_versions db2" "extends db db'"
    "if p then published_row e b m db db' else rs_publications db' = rs_publications db"
    using e3 by (auto simp: db3 db2 db1 published_row_def intro: extends_trans)
  with s(1,2) show thesis by (rule that)
qed

section \<open>What is always true of the stored reports\<close>

definition validated :: "publication_row \<Rightarrow> bool" where
  "validated x = (pu_state x = ''published'' \<and> (case pu_validation_manifest x of None \<Rightarrow> False
     | Some m \<Rightarrow> vm_valid m \<and> ec_valid (vm_coverage m)))"

definition publicly_backed :: "report_env \<Rightarrow> report_db \<Rightarrow> report_row \<Rightarrow> bool" where
  "publicly_backed e db r = (rt_first_published_at r \<noteq> None \<and> (case rt_current_version_id r of None \<Rightarrow> False
     | Some v \<Rightarrow> version_stored db v \<and> has_row pu_id (rn_uuid5 e v ''publication'') (rs_publications db)))"

definition reports_ok :: "report_env \<Rightarrow> report_db \<Rightarrow> bool" where
  "reports_ok e db = (
     unique_on rt_id (rs_reports db) \<and> unique_on rt_public_id (rs_reports db) \<and> unique_on rt_slug (rs_reports db) \<and>
     unique_on vs_id (rs_versions db) \<and> unique_on version_key (rs_versions db) \<and> unique_on pu_id (rs_publications db) \<and>
     list_all (\<lambda>x. validated x \<and> version_stored db (pu_report_version_id x)) (rs_publications db) \<and>
     list_all (\<lambda>r. rt_state r = ''published'' \<longrightarrow> publicly_backed e db r) (rs_reports db))"

lemma replace_unique:
  "unique_on f rows \<Longrightarrow> unique_on key rows \<Longrightarrow> \<forall>x \<in> set rows. key x \<noteq> key r \<longrightarrow> f x \<noteq> f r \<Longrightarrow>
     unique_on f (upsert key (\<lambda>_ new. new) r rows)"
proof -
  assume a: "unique_on f rows" "unique_on key rows" "\<forall>x \<in> set rows. key x \<noteq> key r \<longrightarrow> f x \<noteq> f r"
  then have "unique_on f (map (\<lambda>x. if key x = key r then r else x) rows)"
    by (induction rows) (auto simp: unique_on_def image_iff)
  moreover have "\<not> has_row key (key r) rows \<Longrightarrow> unique_on f (rows @ [r])"
    using a by (simp add: unique_on_def has_row_iff image_iff) metis
  ultimately show ?thesis by (simp add: upsert_def)
qed

lemma with_current_unique:
  "f \<in> {rt_id, rt_public_id, rt_slug} \<Longrightarrow> unique_on f (with_current pending i v rows) = unique_on f rows"
  by (auto simp: with_current_def unique_on_def comp_def if_distrib cong: if_cong)

lemma save_report_unique:
  assumes "write_report r rows = Inr rows'" "unique_on rt_id rows" "unique_on rt_public_id rows" "unique_on rt_slug rows"
  shows "unique_on rt_id rows' \<and> unique_on rt_public_id rows' \<and> unique_on rt_slug rows'"
  using assms by (auto simp: write_report_Inr reports.upsert_unique intro!: replace_unique)

lemma existing_report_Some: "existing_report b rows = Some old \<Longrightarrow> old \<in> set rows"
  by (auto simp: existing_report_def split: option.splits dest: find_row_Some)

lemma extends_backed: "extends db db' \<Longrightarrow> publicly_backed e db r \<Longrightarrow> publicly_backed e db' r"
  by (auto simp: publicly_backed_def extends_def prefix_def version_stored_def has_row_iff split: option.splits)

lemma extends_stored: "extends db db' \<Longrightarrow> version_stored db v \<Longrightarrow> version_stored db' v"
  by (auto simp: extends_def prefix_def version_stored_def has_row_iff)

lemma save_version_stored: "save_version e b m rd p i db = Inr db' \<Longrightarrow> has_row vs_id (rb_report_version_id b) (rs_versions db')"
  by (drule save_version_Inr) (auto simp: new_version_def has_row_iff split: if_splits)

lemma save_version_unique:
  "save_version e b m rd p i db = Inr db' \<Longrightarrow> unique_on vs_id (rs_versions db) \<Longrightarrow> unique_on version_key (rs_versions db) \<Longrightarrow>
     unique_on vs_id (rs_versions db') \<and> unique_on version_key (rs_versions db')"
  by (drule save_version_Inr) (auto simp: unique_on_def has_row_iff new_version_def version_key_def split: if_splits)

lemma published_row_has: "published_row e b m db db' \<Longrightarrow> has_row pu_id (publication_id e b) (rs_publications db')"
  by (auto simp: published_row_def publication_for_def has_row_iff)

lemma published_row_ok:
  assumes "published_row e b m db db'" "extends db db'" "reports_ok e db"
    and "m = Some mm" "vm_valid mm \<and> ec_valid (vm_coverage mm)"
  shows "unique_on pu_id (rs_publications db') \<and>
     list_all (\<lambda>x. validated x \<and> version_stored db' (pu_report_version_id x)) (rs_publications db')"
  using assms by (auto simp: published_row_def reports_ok_def list_all_iff unique_on_def has_row_iff publication_for_def
      validated_def extends_stored)

text \<open>The row the bundle writes is backed whenever it is public.\<close>

lemma saved_report_backed:
  assumes parts: "save_report b p now db = Inr (db1, r, pending)" "save_version e b m rd p (rt_id r) db1 = Inr db2"
    and db': "rs_versions db' = rs_versions db2" "extends db db'"
      "if p then published_row e b m db db' else rs_publications db' = rs_publications db"
    and ok: "reports_ok e db" and draft: "\<not> p \<Longrightarrow> rb_state b = RP_DRAFT"
    and pub: "rt_state r = ''published''"
  shows "publicly_backed e db' (if pending then r\<lparr>rt_current_version_id := Some (rb_report_version_id b)\<rparr> else r)"
proof (cases p)
  case True
  have "rt_first_published_at r \<noteq> None \<and> pending"
    using save_report_Inr [OF parts(1)] True
    by (auto simp: new_report_def update_report_def Let_def split: option.splits)
  moreover have "version_stored db' (rb_report_version_id b)"
    using save_version_stored [OF parts(2)] db'(1) by (simp add: version_stored_def)
  moreover have "has_row pu_id (publication_id e b) (rs_publications db')"
    using db'(3) True by (auto dest: published_row_has)
  ultimately show ?thesis by (simp add: publicly_backed_def publication_id_def)
next
  case False
  then obtain old where old: "existing_report b (rs_reports db) = Some old" "r = update_report b False now old" "\<not> pending"
    using save_report_Inr [OF parts(1)] draft pub by (auto simp: new_report_def split: option.splits)
  then have "rt_state old = ''published''"
    using pub draft False by (auto simp: update_report_def Let_def split: if_splits)
  then have "publicly_backed e db old"
    using ok existing_report_Some [OF old(1)] by (auto simp: reports_ok_def list_all_iff)
  then have "publicly_backed e db' old"
    using db'(2) by (rule extends_backed [rotated])
  then show ?thesis
    using old(2,3) \<open>rt_state old = ''published''\<close> by (simp add: publicly_backed_def update_report_def Let_def)
qed

lemma with_current_rows:
  "x \<in> set (with_current pending (rt_id r) v (upsert rt_id (\<lambda>_ new. new) r rows)) \<Longrightarrow>
     x = (if pending then r\<lparr>rt_current_version_id := Some v\<rparr> else r) \<or> x \<in> set rows \<and> rt_id x \<noteq> rt_id r"
  by (auto simp: with_current_def upsert_def has_row_def list_ex_iff split: if_splits)

lemma persist_bundle_ok:
  assumes "persist_bundle e b m rd p now db = Inr db'" "reports_ok e db"
    and valid: "p \<Longrightarrow> \<exists>mm. m = Some mm \<and> vm_valid mm \<and> ec_valid (vm_coverage mm)"
    and draft: "\<not> p \<Longrightarrow> rb_state b = RP_DRAFT"
  shows "reports_ok e db'"
proof -
  obtain db1 r pending db2 where parts: "save_report b p now db = Inr (db1, r, pending)"
    "save_version e b m rd p (rt_id r) db1 = Inr db2"
    "rs_reports db' = with_current pending (rt_id r) (rb_report_version_id b) (rs_reports db1)"
    "rs_versions db' = rs_versions db2" "extends db db'"
    "if p then published_row e b m db db' else rs_publications db' = rs_publications db"
    using persist_bundle_parts [OF assms(1)] .
  have sr: "write_report r (rs_reports db) = Inr (rs_reports db1)" "rs_versions db1 = rs_versions db"
    using save_report_Inr [OF parts(1)] by (metis, metis report_db.simps(2) report_db.select_convs(2) report_db.surjective report_db.update_convs(1))
  have ok: "unique_on rt_id (rs_reports db)" "unique_on rt_public_id (rs_reports db)" "unique_on rt_slug (rs_reports db)"
    "unique_on vs_id (rs_versions db)" "unique_on version_key (rs_versions db)"
    using assms(2) by (simp_all add: reports_ok_def)
  have reps: "unique_on rt_id (rs_reports db') \<and> unique_on rt_public_id (rs_reports db') \<and> unique_on rt_slug (rs_reports db')"
    using save_report_unique [OF sr(1) ok(1-3)] by (simp add: parts(3) with_current_unique)
  have vers: "unique_on vs_id (rs_versions db') \<and> unique_on version_key (rs_versions db')"
    using save_version_unique [OF parts(2)] ok(4,5) by (simp add: parts(4) sr(2))
  have pubs: "unique_on pu_id (rs_publications db') \<and>
      list_all (\<lambda>x. validated x \<and> version_stored db' (pu_report_version_id x)) (rs_publications db')"
  proof (cases p)
    case True
    then obtain mm where "m = Some mm" "vm_valid mm \<and> ec_valid (vm_coverage mm)" using valid by blast
    with True parts(6) published_row_ok [OF _ parts(5) assms(2)] show ?thesis by simp
  next
    case False
    with parts(6) assms(2) extends_stored [OF parts(5)] show ?thesis by (auto simp: reports_ok_def list_all_iff)
  qed
  have "publicly_backed e db' x" if x: "x \<in> set (rs_reports db')" "rt_state x = ''published''" for x
  proof -
    from x(1) consider "x = (if pending then r\<lparr>rt_current_version_id := Some (rb_report_version_id b)\<rparr> else r)"
      | "x \<in> set (rs_reports db)"
      using sr(1) by (auto simp: parts(3) write_report_Inr dest!: with_current_rows)
    then show ?thesis
    proof cases
      case 1
      with x(2) have "rt_state r = ''published''" by (simp split: if_splits)
      from saved_report_backed [OF parts(1,2,4,5,6) assms(2) draft this] 1 show ?thesis by simp
    next
      case 2
      with x(2) assms(2) have "publicly_backed e db x" by (simp add: reports_ok_def list_all_iff)
      with parts(5) show ?thesis by (rule extends_backed)
    qed
  qed
  with reps vers pubs show ?thesis by (simp add: reports_ok_def list_all_iff)
qed

section \<open>Histories\<close>

inductive report_step :: "report_env \<Rightarrow> report_db \<Rightarrow> report_db \<Rightarrow> bool" for e where
  draft: "save_draft e now b db = Inr db' \<Longrightarrow> report_step e db db'"
| published: "publish e now b db = Inr db' \<Longrightarrow> report_step e db db'"

lemma save_draft_Inr: "save_draft e now b db = Inr db' \<longleftrightarrow>
    rb_state b = RP_DRAFT \<and> persist_bundle e b None None False now db = Inr db'"
  by (auto simp: save_draft_def split: sum.splits)

lemma publish_Inr: "publish e now b db = Inr db' \<longleftrightarrow> rb_state b = RP_APPROVED \<and>
    (\<exists>m r. validate e b = Inr m \<and> render e b = Inr r \<and> persist_bundle e b (Some m) (Some r) True now db = Inr db')"
  by (auto simp: publish_def split: sum.splits)

lemma step_parts:
  assumes "report_step e db db'"
  obtains b m rd p now where "persist_bundle e b m rd p now db = Inr db'"
    "p \<Longrightarrow> \<exists>mm. m = Some mm \<and> vm_valid mm \<and> ec_valid (vm_coverage mm)" "\<not> p \<Longrightarrow> rb_state b = RP_DRAFT"
  using assms
proof cases
  case (draft now b)
  then show ?thesis by (intro that [of b None None False now]) (simp_all add: save_draft_Inr)
next
  case (published now b)
  then obtain m r where "validate e b = Inr m" "persist_bundle e b (Some m) (Some r) True now db = Inr db'"
    by (auto simp: publish_Inr)
  then show ?thesis by (intro that [of b "Some m" "Some r" True now]) (simp_all add: validate_Inr)
qed

lemma step_ok: "report_step e db db' \<Longrightarrow> reports_ok e db \<Longrightarrow> reports_ok e db'"
  by (elim step_parts) (rule persist_bundle_ok)

lemma step_extends: "report_step e db db' \<Longrightarrow> extends db db'"
  by (elim step_parts) (blast elim: persist_bundle_parts)

lemma steps_extend: "(report_step e)\<^sup>*\<^sup>* db db' \<Longrightarrow> extends db db'"
  by (induction rule: rtranclp_induct) (auto intro: step_extends extends_trans)

lemma steps_ok: "(report_step e)\<^sup>*\<^sup>* db db' \<Longrightarrow> reports_ok e db \<Longrightarrow> reports_ok e db'"
  by (induction rule: rtranclp_induct) (auto intro: step_ok)

definition no_reports :: "entity_db \<Rightarrow> evidence_db \<Rightarrow> report_db" where
  "no_reports c s = \<lparr>rs_reports = [], rs_versions = [], rs_entities = [], rs_hunts = [], rs_remediations = [],
     rs_detections = [], rs_publications = [], rs_model_runs = [], rs_catalogue = c, rs_store = s\<rparr>"

lemma no_reports_ok [simp]: "reports_ok e (no_reports c s)"
  by (simp add: reports_ok_def no_reports_def)

text \<open>C2. However drafts are saved and bundles published, every report a visitor can list was published with
  evidence: it has a publication date, its current version is stored, that version has a
  publication, and every publication carries the manifest of a validation that found the
  coverage valid.  Identifiers, public identifiers, slugs and version numbers stay unique.\<close>

theorem public_reports_validated:
  assumes "(report_step e)\<^sup>*\<^sup>* (no_reports c s) db" and "r \<in> set (public_reports db)"
  shows "publicly_backed e db r \<and> list_all validated (rs_publications db) \<and> unique_on rt_id (rs_reports db) \<and>
     unique_on rt_slug (rs_reports db) \<and> unique_on version_key (rs_versions db)"
  using steps_ok [OF assms(1) no_reports_ok] assms(2) by (auto simp: public_reports_def reports_ok_def list_all_iff)

lemma find_with_current: "find_row rt_id i (with_current pending j v rows) =
    map_option (\<lambda>r. if pending \<and> rt_id r = j then r\<lparr>rt_current_version_id := Some v\<rparr> else r) (find_row rt_id i rows)"
  by (induction rows) (auto simp: with_current_def)

text \<open>\<open>stays_public\<close> relates a public report to what a later state stores under its identifier.\<close>

definition stays_public :: "report_row \<Rightarrow> report_row \<Rightarrow> bool" where
  "stays_public r r' = (rt_state r' = ''published'' \<and> rt_first_published_at r' = rt_first_published_at r \<and>
     rt_public_id r' = rt_public_id r \<and> rt_severity r' = rt_severity r \<and> rt_confidence r' = rt_confidence r \<and>
     rt_report_type r' = rt_report_type r)"

lemma update_stays_public:
  "rt_state r = ''published'' \<Longrightarrow> rt_first_published_at r \<noteq> None \<Longrightarrow> stays_public r (update_report b p now r)"
  by (auto simp: stays_public_def update_report_def Let_def)

lemma bundle_keeps_public:
  assumes "persist_bundle e b m rd p now db = Inr db'" "unique_on rt_id (rs_reports db)"
    and r: "find_row rt_id i (rs_reports db) = Some r" "rt_state r = ''published''" "rt_first_published_at r \<noteq> None"
  shows "\<exists>r'. find_row rt_id i (rs_reports db') = Some r' \<and> stays_public r r'"
proof -
  obtain db1 r0 pending where sr: "save_report b p now db = Inr (db1, r0, pending)"
    and db': "rs_reports db' = with_current pending (rt_id r0) (rb_report_version_id b) (rs_reports db1)"
    using assms(1) by (blast elim: persist_bundle_parts)
  have db1: "rs_reports db1 = upsert rt_id (\<lambda>_ new. new) r0 (rs_reports db)"
    and r0: "r0 = (case existing_report b (rs_reports db) of None \<Rightarrow> new_report b p now | Some old \<Rightarrow> update_report b p now old)"
    using save_report_Inr [OF sr] by (auto simp: write_report_Inr)
  have "\<exists>x. find_row rt_id i (rs_reports db1) = Some x \<and> stays_public r x"
  proof (cases "i = rt_id r0")
    case False
    with r show ?thesis by (simp add: db1 reports.upsert_find stays_public_def)
  next
    case True
    have "r0 = update_report b p now r"
    proof (cases "existing_report b (rs_reports db)")
      case None
      with r0 True r(1) show ?thesis by (simp add: new_report_def existing_report_def split: option.splits)
    next
      case (Some old)
      then have "find_row rt_id (rt_id old) (rs_reports db) = Some old"
        using assms(2) by (blast intro: find_row_unique dest: existing_report_Some)
      moreover have "rt_id r0 = rt_id old" by (simp add: r0 Some update_report_def Let_def)
      ultimately show ?thesis using r0 Some True r(1) by simp
    qed
    with True r show ?thesis by (simp add: db1 reports.upsert_find update_stays_public split: option.splits)
  qed
  then obtain x where x: "find_row rt_id i (rs_reports db1) = Some x" "stays_public r x" by blast
  let ?x = "if pending \<and> rt_id x = rt_id r0 then x\<lparr>rt_current_version_id := Some (rb_report_version_id b)\<rparr> else x"
  have "find_row rt_id i (rs_reports db') = Some ?x" by (simp add: db' find_with_current x(1))
  moreover have "stays_public r ?x" using x(2) by (simp add: stays_public_def)
  ultimately show ?thesis by blast
qed

lemma public_dated: "reports_ok e db \<Longrightarrow> r \<in> set (rs_reports db) \<Longrightarrow> rt_state r = ''published'' \<Longrightarrow> rt_first_published_at r \<noteq> None"
  by (simp add: reports_ok_def list_all_iff publicly_backed_def)

lemma stays_public_trans: "stays_public a b \<Longrightarrow> stays_public b c \<Longrightarrow> stays_public a c"
  by (simp add: stays_public_def)

text \<open>C3. What has been published stays as it was: over any further drafts and publications a public report
  stays public under its identifiers with its first publication date (and its severity and
  confidence, which no later version updates), and versions, publications, hunts, remediations,
  detections, linked entities and evidence are only ever appended.\<close>

theorem publication_history:
  assumes "(report_step e)\<^sup>*\<^sup>* db db'" and "reports_ok e db"
    and "find_row rt_id i (rs_reports db) = Some r" and "rt_state r = ''published''"
  shows "extends db db' \<and> (\<exists>r'. find_row rt_id i (rs_reports db') = Some r' \<and> stays_public r r')"
  using assms(1)
proof (induction rule: rtranclp_induct)
  case base
  with assms(3,4) show ?case by (simp add: stays_public_def)
next
  case (step db1 db2)
  then obtain r1 where r1: "find_row rt_id i (rs_reports db1) = Some r1" "stays_public r r1" by blast
  have ok: "reports_ok e db1" using steps_ok [OF step(1) assms(2)] .
  then have "rt_first_published_at r1 \<noteq> None"
    using r1 find_row_Some [OF r1(1)] by (intro public_dated) (auto simp: stays_public_def)
  then have "\<exists>r2. find_row rt_id i (rs_reports db2) = Some r2 \<and> stays_public r1 r2"
    using step(2) ok r1 by (elim step_parts) (rule bundle_keeps_public, auto simp: reports_ok_def stays_public_def)
  with r1(2) step show ?case by (blast intro: step_extends extends_trans stays_public_trans)
qed

text \<open>A version that is already stored is published as it was stored: when a draft is published under its
  own version identifier, the public version keeps the draft's content, its status and its missing
  coverage and hashes.\<close>

theorem stored_version_published_unchanged:
  assumes "publish e now b db = Inr db'" and "find_row vs_id (rb_report_version_id b) (rs_versions db) = Some v"
  shows "find_row vs_id (rb_report_version_id b) (rs_versions db') = Some v \<and>
     (\<exists>r \<in> set (public_reports db'). rt_current_version_id r = Some (rb_report_version_id b))"
proof -
  from assms(1) obtain m rd where "persist_bundle e b (Some m) (Some rd) True now db = Inr db'" by (auto simp: publish_Inr)
  then obtain db1 r pending db2 where parts: "save_report b True now db = Inr (db1, r, pending)"
    "rs_reports db' = with_current pending (rt_id r) (rb_report_version_id b) (rs_reports db1)" "extends db db'"
    by (elim persist_bundle_parts) blast
  have r: "pending" "rt_state r = ''published''" "rs_reports db1 = upsert rt_id (\<lambda>_ new. new) r (rs_reports db)"
    using save_report_Inr [OF parts(1)]
    by (auto simp: write_report_Inr new_report_def update_report_def Let_def split: option.splits)
  have "find_row rt_id (rt_id r) (rs_reports db1) \<noteq> None \<and> the (find_row rt_id (rt_id r) (rs_reports db1)) = r"
    by (simp add: r(3) reports.upsert_find split: option.splits)
  then have "find_row rt_id (rt_id r) (rs_reports db') = Some (r\<lparr>rt_current_version_id := Some (rb_report_version_id b)\<rparr>)"
    using r(1) by (auto simp: parts(2) find_with_current)
  then have "r\<lparr>rt_current_version_id := Some (rb_report_version_id b)\<rparr> \<in> set (rs_reports db')"
    by (auto dest: find_row_Some)
  then have "\<exists>x \<in> set (public_reports db'). rt_current_version_id x = Some (rb_report_version_id b)"
    using r(2) by (auto simp: public_reports_def intro!: bexI [of _ "r\<lparr>rt_current_version_id := Some (rb_report_version_id b)\<rparr>"])
  moreover have "find_row vs_id (rb_report_version_id b) (rs_versions db') = Some v"
    using parts(3) assms(2) by (auto simp: extends_def prefix_def find_row_append)
  ultimately show ?thesis by blast
qed

section \<open>A concrete report\<close>

definition sample_env :: report_env where
  "sample_env = \<lparr>rn_casefold = lower, rn_yaml = \<lparr>ye_load = (\<lambda>_. None), ye_dump = (\<lambda>_. [])\<rparr>, rn_external = (\<lambda>_ _. False),
     rn_native_yara = None, rn_sha256 = (\<lambda>_. replicate 64 (CHR ''0'')), rn_stable_json = (\<lambda>_. ''{}''),
     rn_structured = (\<lambda>_. JObj []), rn_uuid5 = (\<lambda>n s. n @ ''/'' @ s), rn_version = ''1''\<rparr>"

definition sample_hunt :: "uuid \<Rightarrow> threat_hunt" where
  "sample_hunt v = \<lparr>th_hunt_id = ''h'' @ v, th_report_version_id = v, th_objective = ''find'', th_scope = ''all'',
     th_platforms = [], th_telemetry_requirements = [], th_lookback = ''7d'', th_hypothesis = ''h'', th_procedure = [''look''],
     th_expected_evidence = [], th_false_positives = [], th_escalation_criteria = [], th_validation_checklist = [],
     th_queries = [], th_typed_queries = [], th_execution_phases = [], th_pivot_guidance = [], th_forensic_artifacts = [],
     th_evidence_ids = [''e1''], th_detection_ids = [], th_source_references = []\<rparr>"

definition sample_remediation :: "uuid \<Rightarrow> remediation" where
  "sample_remediation v = \<lparr>rm_remediation_id = ''m'' @ v, rm_report_version_id = v, rm_immediate_containment = [],
     rm_exposure_reduction = [], rm_patching = [''patch''], rm_configuration_changes = [], rm_credential_actions = [],
     rm_blocking_limitations = [], rm_evidence_preservation = [], rm_recovery = [], rm_verification = [], rm_rollback = [],
     rm_evidence_ids = [''e1''], rm_references = [], rm_state = RP_DRAFT\<rparr>"

definition sample_bundle :: "uuid \<Rightarrow> int \<Rightarrow> report_state \<Rightarrow> report_bundle" where
  "sample_bundle v n st = \<lparr>rb_report_id = ''r'', rb_report_version_id = v, rb_public_id = ''p'', rb_slug = ''s'', rb_version = n,
     rb_report_type = ''t'', rb_headline = ''Alpha'', rb_headline_evidence_ids = [''e1''], rb_executive_summary = ''x'',
     rb_technical_analysis = ''a'', rb_evidence_summary = ''y'',
     rb_evidence = [\<lparr>rv_evidence_id = ''e1'', rv_evidence_type = RE_SOURCE_TEXT, rv_statement = ''alpha seen'',
       rv_source_document_id = None, rv_source_reference = None, rv_source_url = Some ''u'', rv_confidence = 1, rv_public_safe = True\<rparr>],
     rb_iocs = [], rb_vulnerabilities = [], rb_attack_mappings = [],
     rb_detections = [\<lparr>da_detection_id = ''d'' @ v, da_report_version_id = v, da_detection_type = DX_SPL, da_title = ''q'',
       da_content = ''search'', da_telemetry_requirements = [], da_assumptions = [], da_attack_techniques = [],
       da_evidence_ids = [''e1''], da_validation_tool = None, da_validation_result = None, da_artifact_hash = Some (replicate 64 (CHR ''0'')),
       da_state = RP_DRAFT\<rparr>],
     rb_hunt = Some (sample_hunt v), rb_remediation = Some (sample_remediation v), rb_historical_relationships = [],
     rb_timeline = [\<lparr>tv_occurred_at = 0, tv_label = ''l'', tv_description = ''d'', tv_evidence_ids = [''e1'']\<rparr>],
     rb_confidence = 1, rb_severity = LOW, rb_caveats = [''c''], rb_source_references = [], rb_state = st, rb_resurfaced = False,
     rb_generated_by = ''g'', rb_application_version = ''1'', rb_model_identifier = None, rb_prompt_version = None,
     rb_skill_versions = [], rb_system_prompt_hash = None, rb_skill_version_hashes = [], rb_triggering_run_id = None,
     rb_token_metadata = None, rb_cost_metadata = None, rb_supersedes_id = None\<rparr>"

definition empty_store :: evidence_db where
  "empty_store = \<lparr>db_runs = [], db_sources = [], db_history = [], db_source_runs = [], db_artifacts = [], db_documents = [],
     db_indicators = [], db_sightings = [], db_vulnerabilities = [], db_claims = [], db_evidence = []\<rparr>"

definition start :: report_db where
  "start = no_reports no_entities empty_store"

abbreviation sample_publication :: "pipeline_error + report_db" where
  "sample_publication \<equiv> publish sample_env 5 (sample_bundle ''1'' 1 RP_APPROVED) start"

text \<open>A draft of the next version after the publication.\<close>

lemma sample_run:
  "case sample_publication of Inl _ \<Rightarrow> False
   | Inr db \<Rightarrow> map rt_id (public_reports db) = [''r''] \<and> 0 < int (length (rs_publications db)) \<and>
       map_option rt_state (find_row rt_id ''r'' (rs_reports db)) = Some ''published'' \<and>
       ok (save_draft sample_env 9 (sample_bundle ''2'' 2 RP_DRAFT) db)"
  by code_simp

lemma sample_published:
  obtains db where "sample_publication = Inr db" "map rt_id (public_reports db) = [''r'']" "rs_publications db \<noteq> []"
    "map_option rt_state (find_row rt_id ''r'' (rs_reports db)) = Some ''published''"
    "ok (save_draft sample_env 9 (sample_bundle ''2'' 2 RP_DRAFT) db)"
  using sample_run by (cases sample_publication) auto

theorem public_reports_validated_witness:
  "\<exists>db r. sample_publication = Inr db \<and> public_reports db = [r] \<and> publicly_backed sample_env db r \<and>
     rs_publications db \<noteq> [] \<and> list_all validated (rs_publications db)"
proof -
  obtain db where db: "sample_publication = Inr db" "map rt_id (public_reports db) = [''r'']" "rs_publications db \<noteq> []"
    by (rule sample_published)
  then obtain r where r: "public_reports db = [r]" by (cases "public_reports db") auto
  have "(report_step sample_env)\<^sup>*\<^sup>* (no_reports no_entities empty_store) db"
    using db(1) unfolding start_def by (blast intro: report_step.published)
  then have "publicly_backed sample_env db r \<and> list_all validated (rs_publications db)"
    using public_reports_validated [of sample_env no_entities empty_store db r] r by simp
  with db r show ?thesis by blast
qed

theorem publication_history_witness:
  "\<exists>db1 db2 r r'. sample_publication = Inr db1 \<and> save_draft sample_env 9 (sample_bundle ''2'' 2 RP_DRAFT) db1 = Inr db2 \<and>
     find_row rt_id ''r'' (rs_reports db1) = Some r \<and> find_row rt_id ''r'' (rs_reports db2) = Some r' \<and>
     stays_public r r' \<and> extends db1 db2"
proof -
  obtain db1 where db1: "sample_publication = Inr db1" "map_option rt_state (find_row rt_id ''r'' (rs_reports db1)) = Some ''published''"
    "ok (save_draft sample_env 9 (sample_bundle ''2'' 2 RP_DRAFT) db1)"
    by (rule sample_published)
  then obtain db2 r where db2: "save_draft sample_env 9 (sample_bundle ''2'' 2 RP_DRAFT) db1 = Inr db2"
    "find_row rt_id ''r'' (rs_reports db1) = Some r" "rt_state r = ''published''"
    by (auto simp: ok_iff)
  have "report_step sample_env start db1" using db1(1) by (rule report_step.published)
  then have "reports_ok sample_env db1" by (rule step_ok) (simp add: start_def)
  moreover have "(report_step sample_env)\<^sup>*\<^sup>* db1 db2" using db2(1) by (blast intro: report_step.draft)
  ultimately obtain r' where "extends db1 db2" "find_row rt_id ''r'' (rs_reports db2) = Some r'" "stays_public r r'"
    using publication_history [of sample_env db1 db2 "''r''" r] db2(2,3) by blast
  with db1 db2 show ?thesis by blast
qed

lemma sample_draft_published:
  "case save_draft sample_env 5 (sample_bundle ''1'' 1 RP_DRAFT) start of Inl _ \<Rightarrow> False
   | Inr db \<Rightarrow> map (\<lambda>v. (vs_id v, vs_validation_status v, vs_source_coverage v = None)) (rs_versions db) = [(''1'', ''draft'', True)] \<and>
       ok (publish sample_env 9 (sample_bundle ''1'' 1 RP_APPROVED) db)"
  by code_simp

text \<open>The public version of the report is a draft without coverage.\<close>

theorem stored_version_published_unchanged_witness:
  "\<exists>db1 db2 v. save_draft sample_env 5 (sample_bundle ''1'' 1 RP_DRAFT) start = Inr db1 \<and>
     publish sample_env 9 (sample_bundle ''1'' 1 RP_APPROVED) db1 = Inr db2 \<and>
     find_row vs_id ''1'' (rs_versions db2) = Some v \<and> vs_validation_status v = ''draft'' \<and> vs_source_coverage v = None \<and>
     (\<exists>r \<in> set (public_reports db2). rt_current_version_id r = Some ''1'')"
proof -
  obtain db1 where db1: "save_draft sample_env 5 (sample_bundle ''1'' 1 RP_DRAFT) start = Inr db1"
    "map (\<lambda>v. (vs_id v, vs_validation_status v, vs_source_coverage v = None)) (rs_versions db1) = [(''1'', ''draft'', True)]"
    "ok (publish sample_env 9 (sample_bundle ''1'' 1 RP_APPROVED) db1)"
    using sample_draft_published by (cases "save_draft sample_env 5 (sample_bundle ''1'' 1 RP_DRAFT) start") auto
  then obtain v db2 where v: "rs_versions db1 = [v]" "vs_id v = ''1''" "vs_validation_status v = ''draft''" "vs_source_coverage v = None"
    and db2: "publish sample_env 9 (sample_bundle ''1'' 1 RP_APPROVED) db1 = Inr db2"
    by (auto simp: ok_iff)
  have id: "rb_report_version_id (sample_bundle ''1'' 1 RP_APPROVED) = ''1''" by (simp add: sample_bundle_def)
  have "find_row vs_id ''1'' (rs_versions db1) = Some v" using v by simp
  then have "find_row vs_id ''1'' (rs_versions db2) = Some v \<and>
      (\<exists>r \<in> set (public_reports db2). rt_current_version_id r = Some ''1'')"
    using stored_version_published_unchanged [OF db2, unfolded id] by blast
  with db1(1) db2 v show ?thesis by blast
qed

theorem markdown_hash_of_other_text_witness:
  "\<exists>r. render sample_env (sample_bundle ''1'' 1 RP_APPROVED) = Inr r \<and>
     ra_artifact_hash (rr_markdown r) = rn_sha256 sample_env (ra_content (rr_markdown r) @ [newline])"
proof -
  have "ok (render sample_env (sample_bundle ''1'' 1 RP_APPROVED))" by code_simp
  then obtain r where r: "render sample_env (sample_bundle ''1'' 1 RP_APPROVED) = Inr r" by (auto simp: ok_iff)
  have "strip (rn_sha256 sample_env s) = rn_sha256 sample_env s" for s
    by (simp add: sample_env_def strip_spaceless is_space_def code_def)
  with r show ?thesis using markdown_hash_of_other_text [OF r] by blast
qed

end
