(* ===== verification/Portal_Read.thy ===== *)
theory Portal_Read
  imports Report_Store
begin

text \<open>
  The public portal's reads: \<^verbatim>\<open>portal/repository.py\<close> (the published reports, filtered, ordered and
  paged by the database) and the report projections of \<^verbatim>\<open>portal/service.py\<close> with the query of
  \<^verbatim>\<open>portal/contracts.py\<close>.  Parameters: the case folding of \<^verbatim>\<open>ILIKE\<close> and of Python, the text of a
  JSON value, the contract parser of a stored bundle, and the order in which a Python set of texts is
  enumerated.
\<close>

record portal_env =
  po_ilower :: "string \<Rightarrow> string"
  po_casefold :: "string \<Rightarrow> string"
  po_json_string :: "json \<Rightarrow> string"
  po_parse :: "json \<Rightarrow> report_bundle option"
  po_set_order :: "string list \<Rightarrow> string list"
  po_str_datetime :: "instant \<Rightarrow> string"
  po_str_date :: "int \<Rightarrow> string"

section \<open>Queries\<close>

datatype change_state = CS_NEW | CS_UPDATED | CS_RESURFACED

datatype report_sort = BY_PRIORITY | BY_NEWEST | BY_CHANGED | BY_CONFIDENCE | BY_SOURCES

record portal_query =
  pq_search :: "string option"
  pq_severities :: "severity list"
  pq_confidence_min :: "rat option"
  pq_date_from :: "int option"
  pq_date_to :: "int option"
  pq_change_states :: "change_state list"
  pq_sort :: report_sort
  pq_page :: int
  pq_page_size :: int

definition clean_search :: "string option \<Rightarrow> string option" where
  "clean_search v = (case v of None \<Rightarrow> None | Some s \<Rightarrow> if strip s = [] then None else Some (strip s))"

definition PortalQuery :: "portal_query \<Rightarrow> portal_query result" where
  "PortalQuery q =
     (let s = clean_search (pq_search q) in
      rbind (check (case s of None \<Rightarrow> True | Some t \<Rightarrow> length t \<le> 200) ''search'') (\<lambda>_.
      rbind (optional_within 1 ''confidence_min'' (pq_confidence_min q)) (\<lambda>_.
      rbind (check (1 \<le> pq_page q \<and> pq_page q \<le> 10000) ''page'') (\<lambda>_.
      rbind (check (1 \<le> pq_page_size q \<and> pq_page_size q \<le> 100) ''page_size'') (\<lambda>_.
        case (pq_date_from q, pq_date_to q) of
          (Some a, Some b) \<Rightarrow> if b < a then Inl (ValueError ''date_from must not be after date_to'') else Inr (q\<lparr>pq_search := s\<rparr>)
        | _ \<Rightarrow> Inr (q\<lparr>pq_search := s\<rparr>))))))"

definition default_query :: portal_query where
  "default_query = \<lparr>pq_search = None, pq_severities = [], pq_confidence_min = None, pq_date_from = None, pq_date_to = None,
     pq_change_states = [], pq_sort = BY_PRIORITY, pq_page = 1, pq_page_size = 20\<rparr>"

section \<open>The published rows\<close>

type_synonym report_line = "report_row \<times> report_version_row"

definition base_rows :: "report_db \<Rightarrow> report_line list" where
  "base_rows db = concat (map (\<lambda>r. case rt_current_version_id r of None \<Rightarrow> []
       | Some i \<Rightarrow> map (Pair r) (filter (\<lambda>v. vs_id v = i) (rs_versions db)))
     (filter (\<lambda>r. rt_state r = ''published'') (rs_reports db)))"

text \<open>The pattern language of \<^verbatim>\<open>LIKE\<close>: a percent sign matches any text, an underscore any character
  and a backslash takes the next character literally.\<close>

fun like :: "string \<Rightarrow> string \<Rightarrow> bool" where
  "like [] s = (s = [])"
| "like (p # ps) s =
     (if p = CHR ''%'' then like ps s \<or> (case s of [] \<Rightarrow> False | c # cs \<Rightarrow> like (p # ps) cs)
      else case s of [] \<Rightarrow> False
        | c # cs \<Rightarrow> if p = CHR ''_'' then like ps cs
            else if p = backslash then (case ps of [] \<Rightarrow> False | q # qs \<Rightarrow> q = c \<and> like qs cs)
            else p = c \<and> like ps cs)"

definition ilike :: "portal_env \<Rightarrow> string \<Rightarrow> string \<Rightarrow> bool" where
  "ilike e term s = like (po_ilower e (''%'' @ strip term @ ''%'')) (po_ilower e s)"

definition matches_search :: "portal_env \<Rightarrow> string \<Rightarrow> report_line \<Rightarrow> bool" where
  "matches_search e term = (\<lambda>(r, v). ilike e term (rt_headline r) \<or> ilike e term (rt_slug r) \<or>
     ilike e term (rt_public_id r) \<or> ilike e term (po_json_string e (vs_structured_content v)))"

definition day_start :: "int \<Rightarrow> instant" where
  "day_start d = d * 86400000000"

definition last_microsecond :: "int \<Rightarrow> instant" where
  "last_microsecond d = day_start d + 86399999999"

definition in_change_state :: "report_row \<Rightarrow> change_state \<Rightarrow> bool" where
  "in_change_state r s = (case s of
       CS_RESURFACED \<Rightarrow> rt_resurfaced r
     | CS_NEW \<Rightarrow> rt_first_published_at r = Some (rt_last_updated_at r)
     | CS_UPDATED \<Rightarrow> rt_first_published_at r \<noteq> None \<and> rt_first_published_at r \<noteq> Some (rt_last_updated_at r) \<and> \<not> rt_resurfaced r)"

definition wanted :: "portal_env \<Rightarrow> portal_query \<Rightarrow> report_line \<Rightarrow> bool" where
  "wanted e q x = (let r = fst x in
     (case pq_search q of None \<Rightarrow> True | Some t \<Rightarrow> t = [] \<or> matches_search e t x) \<and>
     (pq_severities q = [] \<or> rt_severity r \<in> set (map severity_value (pq_severities q))) \<and>
     (case pq_confidence_min q of None \<Rightarrow> True | Some m \<Rightarrow> m \<le> rt_confidence r) \<and>
     (case pq_date_from q of None \<Rightarrow> True | Some d \<Rightarrow> day_start d \<le> rt_last_updated_at r) \<and>
     (case pq_date_to q of None \<Rightarrow> True | Some d \<Rightarrow> rt_last_updated_at r < last_microsecond d) \<and>
     (pq_change_states q = [] \<or> list_ex (in_change_state r) (pq_change_states q)))"

section \<open>Order and pages\<close>

text \<open>Descending orders put nulls first: in the key they count as larger than every value.  The source
  count is null when the stored bundle has no such list.\<close>

definition nulls_high :: "int option \<Rightarrow> int \<times> int" where
  "nulls_high v = (case v of None \<Rightarrow> (1, 0) | Some t \<Rightarrow> (0, t))"

definition stored_source_count :: "json \<Rightarrow> int option" where
  "stored_source_count v = (case v of JObj d \<Rightarrow> (case jget ''source_references'' d of JList xs \<Rightarrow> Some (int (length xs)) | _ \<Rightarrow> None)
     | _ \<Rightarrow> None)"

definition severity_rank :: "string \<Rightarrow> int" where
  "severity_rank s = (if s = ''critical'' then 4 else if s = ''high'' then 3 else if s = ''medium'' then 2 else 1)"

definition descending :: "int \<times> int \<Rightarrow> int \<times> int" where
  "descending k = (- fst k, - snd k)"

definition ordered :: "report_sort \<Rightarrow> report_line list \<Rightarrow> report_line list" where
  "ordered s rows = (case s of
       BY_NEWEST \<Rightarrow> rev (sort_key (\<lambda>(r, v). (nulls_high (rt_first_published_at r), rt_id r)) rows)
     | BY_CHANGED \<Rightarrow> rev (sort_key (\<lambda>(r, v). (rt_last_updated_at r, rt_id r)) rows)
     | BY_CONFIDENCE \<Rightarrow> sort_key (\<lambda>(r, v). (- rt_confidence r, - rt_last_updated_at r, rt_id r)) rows
     | BY_SOURCES \<Rightarrow> sort_key (\<lambda>(r, v). (descending (nulls_high (stored_source_count (vs_structured_content v))),
         - rt_last_updated_at r, rt_id r)) rows
     | BY_PRIORITY \<Rightarrow> sort_key (\<lambda>(r, v). (- severity_rank (rt_severity r), - rt_last_updated_at r, rt_id r)) rows)"

definition filtered_rows :: "portal_env \<Rightarrow> portal_query \<Rightarrow> report_db \<Rightarrow> report_line list" where
  "filtered_rows e q db = ordered (pq_sort q) (filter (wanted e q) (base_rows db))"

definition page_of :: "int \<Rightarrow> int \<Rightarrow> 'a list \<Rightarrow> 'a list" where
  "page_of page n xs = take (nat n) (drop (nat ((page - 1) * n)) xs)"

definition list_report_rows :: "portal_env \<Rightarrow> portal_query \<Rightarrow> report_db \<Rightarrow> report_line list \<times> int" where
  "list_report_rows e q db = (page_of (pq_page q) (pq_page_size q) (filtered_rows e q db),
     int (length (filter (wanted e q) (base_rows db))))"

definition get_report_row :: "string \<Rightarrow> report_db \<Rightarrow> report_line option" where
  "get_report_row identifier db =
     List.find (\<lambda>(r, v). rt_slug r = identifier \<or> rt_public_id r = identifier) (base_rows db)"

definition list_draft_rows :: "int \<Rightarrow> report_db \<Rightarrow> report_row list" where
  "list_draft_rows limit db = take (nat limit) (sort_key (\<lambda>r. (- rt_last_updated_at r, rt_id r))
     (filter (\<lambda>r. rt_state r \<noteq> ''published'') (rs_reports db)))"

section \<open>Projections\<close>

definition change_state_of :: "report_row \<Rightarrow> change_state" where
  "change_state_of r = (if rt_resurfaced r then CS_RESURFACED
     else if rt_first_published_at r = Some (rt_last_updated_at r) then CS_NEW else CS_UPDATED)"

definition source_count :: "report_bundle \<Rightarrow> nat" where
  "source_count b =
     (let keys = List.map_filter rv_source_document_id (rb_evidence b)
          @ List.map_filter (\<lambda>v. map_option rf_source_id (rv_source_reference v)) (rb_evidence b)
          @ map rf_source_id (rb_source_references b);
          n = length (dedup keys) in
      if n = 0 then length (rb_source_references b) else n)"

definition domain_source_map :: "(string \<times> string) list" where
  "domain_source_map = [(''cisa.gov'', ''CISA''), (''microsoft.com'', ''Microsoft Threat Intelligence''),
     (''paloaltonetworks.com'', ''Unit 42''), (''thedfirreport.com'', ''The DFIR Report''),
     (''bleepingcomputer.com'', ''BleepingComputer''), (''thehackernews.com'', ''The Hacker News''),
     (''krebsonsecurity.com'', ''Krebs on Security''), (''sentinelone.com'', ''SentinelLabs''),
     (''redcanary.com'', ''Red Canary''), (''rapid7.com'', ''Rapid7''), (''recordedfuture.com'', ''Recorded Future''),
     (''securityweek.com'', ''SecurityWeek''), (''isc.sans.edu'', ''SANS ISC''), (''ncsc.gov.uk'', ''UK NCSC''),
     (''zerodayinitiative.com'', ''Trend Micro ZDI''), (''socprime.com'', ''SOC Prime''), (''github.com/sigmahq'', ''SigmaHQ''),
     (''abuse.ch/urlhaus'', ''URLhaus''), (''abuse.ch/threatfox'', ''ThreatFox''), (''feodotracker'', ''Feodo Tracker''),
     (''qualys.com'', ''Qualys Security''), (''huntress.com'', ''Huntress''), (''darkreading.com'', ''Dark Reading''),
     (''nvd.nist.gov'', ''NIST NVD'')]"

definition add_name :: "(string \<Rightarrow> string) \<Rightarrow> string \<Rightarrow> string list \<Rightarrow> string list" where
  "add_name cf n names = (if cf n \<in> set (map cf names) then names else names @ [n])"

definition reference_name :: "(string \<Rightarrow> string) \<Rightarrow> string \<Rightarrow> string" where
  "reference_name cf name =
     (if contains ''dfir'' (cf name) then ''The DFIR Report''
      else if contains ''cisa'' (cf name)
      then (if contains ''known'' (cf name) \<or> contains ''kev'' (cf name) then ''CISA KEV'' else ''CISA'')
      else if contains ''microsoft'' (cf name) then ''Microsoft Threat Intelligence'' else name)"

definition names_of_references :: "(string \<Rightarrow> string) \<Rightarrow> source_reference list \<Rightarrow> string list \<Rightarrow> string list" where
  "names_of_references cf refs names = foldl (\<lambda>ns r. let n = strip (rf_name r) in
     if n = [] then ns else add_name cf (reference_name cf n) ns) names refs"

definition names_in :: "(string \<Rightarrow> string) \<Rightarrow> string \<Rightarrow> string list \<Rightarrow> string list" where
  "names_in cf s names = foldl (\<lambda>ns (d, n). if contains d s then add_name cf n ns else ns) names domain_source_map"

definition names_of_evidence :: "(string \<Rightarrow> string) \<Rightarrow> string list \<Rightarrow> report_evidence \<Rightarrow> string list" where
  "names_of_evidence cf names v =
     (let ns = (case rv_source_reference v of None \<Rightarrow> names
          | Some r \<Rightarrow> if strip (rf_name r) = [] then names else add_name cf (strip (rf_name r)) names) in
      case rv_source_url v of None \<Rightarrow> ns | Some u \<Rightarrow> names_in cf (cf u) ns)"

definition fallback_names :: "(string list \<times> string) list" where
  "fallback_names = [([''cisa''], ''CISA''), ([''dfir''], ''The DFIR Report''), ([''microsoft''], ''Microsoft Threat Intelligence''),
     ([''sentinellabs'', ''sentinelone''], ''SentinelLabs''), ([''unit 42'', ''unit42''], ''Unit 42''),
     ([''bleepingcomputer''], ''BleepingComputer''), ([''krebsonsecurity'', ''krebs''], ''Krebs on Security''),
     ([''hacker news''], ''The Hacker News''), ([''zdi'', ''zero day initiative''], ''Trend Micro ZDI''), ([''rapid7''], ''Rapid7'')]"

definition fallback_name :: "string \<Rightarrow> string" where
  "fallback_name s = (case List.find (\<lambda>(ks, n). list_ex (\<lambda>k. contains k s) ks) fallback_names of
       None \<Rightarrow> ''Threat Advisory'' | Some (ks, n) \<Rightarrow> n)"

definition source_names :: "(string \<Rightarrow> string) \<Rightarrow> report_bundle \<Rightarrow> string \<Rightarrow> string \<Rightarrow> string list" where
  "source_names cf b headline slug =
     (let refs = join '' '' (case rb_remediation b of None \<Rightarrow> [] | Some r \<Rightarrow> rm_references r);
          text = cf (headline @ '' '' @ slug @ '' '' @ rb_executive_summary b @ '' '' @ refs);
          names = names_in cf text (foldl (names_of_evidence cf) (names_of_references cf (rb_source_references b) []) (rb_evidence b)) in
      if names = [] then [fallback_name text] else names)"

definition product_names :: "portal_env \<Rightarrow> report_bundle \<Rightarrow> string list" where
  "product_names e b = sort_key (po_casefold e) (po_set_order e (dedup (concat (map (\<lambda>v.
     map (\<lambda>a. pr_vendor (af_product a) @ '' '' @ pr_product (af_product a)) (rw_affected_products v)) (rb_vulnerabilities b)))))"

definition entity_names :: "report_bundle \<Rightarrow> entity_type \<Rightarrow> string list" where
  "entity_names b t = sorted_unique (List.map_filter (\<lambda>h. let r = cr_target (rh_relationship h) in
     if entity_ref.er_entity_type r = t then Some (entity_ref.er_entity_id r) else None) (rb_historical_relationships b))"

record public_summary =
  ps_public_id :: string
  ps_slug :: string
  ps_headline :: string
  ps_report_type :: string
  ps_severity :: string
  ps_confidence :: rat
  ps_change_state :: change_state
  ps_first_published_at :: "instant option"
  ps_last_updated_at :: instant
  ps_primary_cves :: "string list"
  ps_products :: "string list"
  ps_actors :: "string list"
  ps_malware :: "string list"
  ps_attack_techniques :: "string list"
  ps_source_count :: nat
  ps_source_names :: "string list"
  ps_primary_source :: "string option"
  ps_hunt_available :: bool
  ps_remediation_available :: bool
  ps_detection_available :: bool
  ps_canonical_url :: string

definition head_option :: "'a list \<Rightarrow> 'a option" where
  "head_option xs = (case xs of [] \<Rightarrow> None | x # _ \<Rightarrow> Some x)"

definition summary_of :: "portal_env \<Rightarrow> report_row \<Rightarrow> report_bundle \<Rightarrow> public_summary" where
  "summary_of e r b =
     (let names = source_names (po_casefold e) b (rt_headline r) (rt_slug r) in
      \<lparr>ps_public_id = rt_public_id r, ps_slug = rt_slug r, ps_headline = rt_headline r, ps_report_type = rt_report_type r,
       ps_severity = rt_severity r, ps_confidence = rt_confidence r, ps_change_state = change_state_of r,
       ps_first_published_at = rt_first_published_at r, ps_last_updated_at = rt_last_updated_at r,
       ps_primary_cves = map rw_cve_id (rb_vulnerabilities b), ps_products = product_names e b,
       ps_actors = entity_names b ET_ACTOR, ps_malware = entity_names b ET_MALWARE,
       ps_attack_techniques = sorted_unique (map am_attack_id (rb_attack_mappings b)),
       ps_source_count = source_count b, ps_source_names = names, ps_primary_source = head_option names,
       ps_hunt_available = (rb_hunt b \<noteq> None), ps_remediation_available = (rb_remediation b \<noteq> None),
       ps_detection_available = (rb_detections b \<noteq> []), ps_canonical_url = ''/reports/'' @ rt_slug r\<rparr>)"

text \<open>A stored bundle that the contract refuses raises; the whole page is lost.\<close>

definition bundle_of :: "portal_env \<Rightarrow> report_version_row \<Rightarrow> report_bundle result" where
  "bundle_of e v = (case po_parse e (vs_structured_content v) of None \<Rightarrow> Inl (ValueError ''ReportBundle'') | Some b \<Rightarrow> Inr b)"

definition summary :: "portal_env \<Rightarrow> report_line \<Rightarrow> public_summary result" where
  "summary e x = rbind (bundle_of e (snd x)) (\<lambda>b. Inr (summary_of e (fst x) b))"

record public_detail =
  pl_summary :: public_summary
  pl_version :: int
  pl_bundle :: report_bundle
  pl_relationships :: "correlation_relationship list"
  pl_source_references :: "string list"

definition detail :: "portal_env \<Rightarrow> report_line \<Rightarrow> public_detail result" where
  "detail e x = rbind (bundle_of e (snd x)) (\<lambda>b. Inr
     \<lparr>pl_summary = summary_of e (fst x) b, pl_version = vs_version (snd x), pl_bundle = b,
      pl_relationships = map rh_relationship (rb_historical_relationships b),
      pl_source_references = map rf_canonical_url (rb_source_references b)\<rparr>)"

record report_page =
  pp_items :: "public_summary list"
  pp_page :: int
  pp_page_size :: int
  pp_total :: int
  pp_total_pages :: int

definition page_count :: "int \<Rightarrow> int \<Rightarrow> int" where
  "page_count rows n = (if rows = 0 then 0 else (rows + n - 1) div n)"

definition list_reports :: "portal_env \<Rightarrow> portal_query \<Rightarrow> report_db \<Rightarrow> report_page result" where
  "list_reports e q db = (case list_report_rows e q db of (rows, n_rows) \<Rightarrow>
     rbind (traverse (summary e) rows) (\<lambda>items. Inr \<lparr>pp_items = items, pp_page = pq_page q, pp_page_size = pq_page_size q,
       pp_total = n_rows, pp_total_pages = page_count n_rows (pq_page_size q)\<rparr>))"

definition get_report :: "portal_env \<Rightarrow> string \<Rightarrow> report_db \<Rightarrow> public_detail option result" where
  "get_report e identifier db = (case get_report_row identifier db of None \<Rightarrow> Inr None
     | Some x \<Rightarrow> rbind (detail e x) (\<lambda>d. Inr (Some d)))"

end
