(* ===== verification/Portal_Cves.thy ===== *)
theory Portal_Cves
  imports Portal_Read
begin

text \<open>
  The vulnerability index of the portal: \<^verbatim>\<open>PortalService.list_cves\<close> of \<^verbatim>\<open>portal/service.py\<close> with the
  query of \<^verbatim>\<open>portal/contracts.py\<close>.  The published reports are read page by page and their
  vulnerabilities merged into one dict of entries; a set of texts of an entry is a list, since every set is
  sorted before it is shown.
\<close>

section \<open>Queries\<close>

datatype cve_sort = CVE_PRIORITY | CVE_CVSS | CVE_EPSS | CVE_NEWEST | CVE_REPORTS

record cve_query =
  cq_search :: "string option"
  cq_severities :: "severity list"
  cq_known_exploited_only :: bool
  cq_min_cvss :: "rat option"
  cq_min_epss :: "rat option"
  cq_sort :: cve_sort
  cq_page :: int
  cq_page_size :: int

definition CVEQuery :: "cve_query \<Rightarrow> cve_query result" where
  "CVEQuery q =
     (let s = clean_search (cq_search q) in
      rbind (check (case s of None \<Rightarrow> True | Some t \<Rightarrow> length t \<le> 200) ''search'') (\<lambda>_.
      rbind (optional_within 10 ''min_cvss'' (cq_min_cvss q)) (\<lambda>_.
      rbind (optional_within 1 ''min_epss'' (cq_min_epss q)) (\<lambda>_.
      rbind (check (1 \<le> cq_page q \<and> cq_page q \<le> 10000) ''page'') (\<lambda>_.
      rbind (check (1 \<le> cq_page_size q \<and> cq_page_size q \<le> 100) ''page_size'') (\<lambda>_.
        Inr (q\<lparr>cq_search := s\<rparr>)))))))"

section \<open>Entries\<close>

record cve_entry =
  ce_summary :: string
  ce_cvss_score :: "rat option"
  ce_cvss_version :: "string option"
  ce_cvss_vector :: "string option"
  ce_epss_score :: "rat option"
  ce_epss_percentile :: "rat option"
  ce_known_exploited :: bool
  ce_cwe_ids :: "string list"
  ce_products :: "string list"
  ce_report_slugs :: "string list"
  ce_source_names :: "string list"
  ce_published_at :: "string option"
  ce_last_updated_at :: "string option"

definition cve_key :: "report_vulnerability \<Rightarrow> string" where
  "cve_key v = upper (strip (rw_cve_id v))"

definition new_entry :: "report_vulnerability \<Rightarrow> cve_entry" where
  "new_entry v = \<lparr>ce_summary = or_else (rw_summary v) (''Vulnerability record for '' @ cve_key v),
     ce_cvss_score = rw_cvss_score v, ce_cvss_version = rw_cvss_version v, ce_cvss_vector = rw_cvss_vector v,
     ce_epss_score = rw_epss_score v, ce_epss_percentile = rw_epss_percentile v,
     ce_known_exploited = (rw_known_exploited v = Some True), ce_cwe_ids = rw_cwe_ids v, ce_products = [],
     ce_report_slugs = [], ce_source_names = [], ce_published_at = None, ce_last_updated_at = None\<rparr>"

text \<open>\<^verbatim>\<open>str(x).split("T")[0]\<close>.\<close>

definition before_T :: "string \<Rightarrow> string" where
  "before_T s = takeWhile (\<lambda>c. c \<noteq> CHR ''T'') s"

definition published_text :: "portal_env \<Rightarrow> report_row \<Rightarrow> report_vulnerability \<Rightarrow> string option \<Rightarrow> string option" where
  "published_text e r v old = (case (rw_kev_date_added v, rt_first_published_at r) of
       (Some d, _) \<Rightarrow> Some (po_str_date e d)
     | (None, Some t) \<Rightarrow> if old = None \<or> old = Some [] then Some (before_T (po_str_datetime e t)) else old
     | (None, None) \<Rightarrow> old)"

definition note_report :: "portal_env \<Rightarrow> report_row \<Rightarrow> string list \<Rightarrow> report_vulnerability \<Rightarrow> cve_entry \<Rightarrow> cve_entry" where
  "note_report e r names v c = c\<lparr>
     ce_report_slugs := ce_report_slugs c @ [rt_slug r],
     ce_source_names := ce_source_names c @ names
       @ (if rw_known_exploited v = Some True \<or> rw_kev_date_added v \<noteq> None then [''CISA KEV''] else []),
     ce_published_at := published_text e r v (ce_published_at c),
     ce_last_updated_at := Some (before_T (po_str_datetime e (rt_last_updated_at r)))\<rparr>"

definition higher_score :: "rat option \<Rightarrow> rat option \<Rightarrow> bool" where
  "higher_score new old = (case new of None \<Rightarrow> False | Some x \<Rightarrow> (case old of None \<Rightarrow> True | Some y \<Rightarrow> y < x))"

definition note_scores :: "report_vulnerability \<Rightarrow> cve_entry \<Rightarrow> cve_entry" where
  "note_scores v c =
     (let c1 = (if higher_score (rw_cvss_score v) (ce_cvss_score c)
          then c\<lparr>ce_cvss_score := rw_cvss_score v, ce_cvss_version := rw_cvss_version v, ce_cvss_vector := rw_cvss_vector v\<rparr> else c) in
      if rw_epss_score v = None then c1
      else c1\<lparr>ce_epss_score := rw_epss_score v, ce_epss_percentile := rw_epss_percentile v\<rparr>)"

definition product_text :: "affected_product \<Rightarrow> string" where
  "product_text a = pr_vendor (af_product a) @ '' '' @ pr_product (af_product a)
     @ (case af_version_range a of None \<Rightarrow> [] | Some s \<Rightarrow> if s = [] then [] else '' ('' @ s @ '')'')"

definition note_claims :: "report_vulnerability \<Rightarrow> cve_entry \<Rightarrow> cve_entry" where
  "note_claims v c = c\<lparr>
     ce_known_exploited := (rw_known_exploited v = Some True \<or> ce_known_exploited c),
     ce_summary := (if length (ce_summary c) < length (rw_summary v) then rw_summary v else ce_summary c),
     ce_cwe_ids := ce_cwe_ids c @ rw_cwe_ids v,
     ce_products := ce_products c @ map product_text (rw_affected_products v)\<rparr>"

definition add_vulnerability ::
    "portal_env \<Rightarrow> report_row \<Rightarrow> string list \<Rightarrow> cve_entry dict \<Rightarrow> report_vulnerability \<Rightarrow> cve_entry dict" where
  "add_vulnerability e r names m v =
     (let c = (case dict_get (cve_key v) m of None \<Rightarrow> new_entry v | Some c \<Rightarrow> c) in
      dict_set (cve_key v) (note_claims v (note_scores v (note_report e r names v c))) m)"

definition add_report :: "portal_env \<Rightarrow> cve_entry dict \<Rightarrow> report_line \<Rightarrow> cve_entry dict result" where
  "add_report e m x = rbind (bundle_of e (snd x)) (\<lambda>b. Inr (foldl
     (add_vulnerability e (fst x) (source_names (po_casefold e) b (rt_headline (fst x)) (rt_slug (fst x)))) m (rb_vulnerabilities b)))"

section \<open>Reading the pages\<close>

definition cve_page_query :: "int \<Rightarrow> portal_query" where
  "cve_page_query page = default_query\<lparr>pq_page := page, pq_page_size := 100\<rparr>"

lemma page_query_bounded: "PortalQuery (cve_page_query page) = Inr q \<Longrightarrow> 1 \<le> page \<and> page \<le> 10000 \<and> q = cve_page_query page"
  by (auto simp: PortalQuery_def cve_page_query_def default_query_def clean_search_def rbind_Inr_iff check_def require_def
      split: if_splits)

function cve_pages :: "portal_env \<Rightarrow> report_db \<Rightarrow> int \<Rightarrow> cve_entry dict \<Rightarrow> cve_entry dict result" where
  "cve_pages e db page m =
     (case PortalQuery (cve_page_query page) of Inl err \<Rightarrow> Inl err
      | Inr q \<Rightarrow> (case list_report_rows e q db of (rows, n_rows) \<Rightarrow>
          (case fold_result (add_report e) m rows of Inl err \<Rightarrow> Inl err
           | Inr m' \<Rightarrow> if rows = [] \<or> int (length rows) < 100 \<or> n_rows \<le> page * 100 then Inr m'
               else cve_pages e db (page + 1) m')))"
  by pat_completeness auto

termination
  by (relation "measure (\<lambda>(e, db, page, m). nat (10001 - page))") (auto dest: page_query_bounded)

declare cve_pages.simps [simp del]

section \<open>Summaries\<close>

definition at_least :: "rat \<Rightarrow> rat option \<Rightarrow> bool" where
  "at_least x v = (case v of None \<Rightarrow> False | Some y \<Rightarrow> x \<le> y)"

definition cve_grade :: "bool \<Rightarrow> rat option \<Rightarrow> rat option \<Rightarrow> severity \<times> string \<times> string" where
  "cve_grade kev score epss =
     (if kev \<or> at_least 9 score \<or> at_least (1 / 2) epss
      then (CRITICAL, if kev then ''Active In-The-Wild Exploitation'' else ''Critical Severity'', ''danger'')
      else if at_least 7 score \<or> at_least (1 / 5) epss then (HIGH, ''High Severity Exposure'', ''warning'')
      else if at_least 4 score then (MEDIUM, ''Moderate Severity'', ''warning'')
      else if score \<noteq> None then (LOW, ''Low Severity'', ''success'')
      else (INFO, ''Telemetry Pending'', ''slate''))"

record cve_summary =
  cs_cve_id :: string
  cs_summary :: string
  cs_cvss_score :: "rat option"
  cs_cvss_version :: "string option"
  cs_cvss_vector :: "string option"
  cs_epss_score :: "rat option"
  cs_epss_percentile :: "rat option"
  cs_known_exploited :: bool
  cs_severity :: severity
  cs_badge_label :: string
  cs_badge_style :: string
  cs_cwe_ids :: "string list"
  cs_affected_products :: "string list"
  cs_report_count :: int
  cs_report_slugs :: "string list"
  cs_source_names :: "string list"
  cs_primary_source :: "string option"
  cs_published_at :: "string option"
  cs_last_updated_at :: "string option"
  cs_canonical_url :: string

definition cve_summary_of :: "string \<times> cve_entry \<Rightarrow> cve_summary" where
  "cve_summary_of = (\<lambda>(k, c).
     let names = sorted_unique (ce_source_names c); slugs = sorted_unique (ce_report_slugs c) in
     case cve_grade (ce_known_exploited c) (ce_cvss_score c) (ce_epss_score c) of (sev, label, style) \<Rightarrow>
     \<lparr>cs_cve_id = k, cs_summary = ce_summary c, cs_cvss_score = ce_cvss_score c, cs_cvss_version = ce_cvss_version c,
      cs_cvss_vector = ce_cvss_vector c, cs_epss_score = ce_epss_score c, cs_epss_percentile = ce_epss_percentile c,
      cs_known_exploited = ce_known_exploited c, cs_severity = sev, cs_badge_label = label, cs_badge_style = style,
      cs_cwe_ids = sorted_unique (ce_cwe_ids c), cs_affected_products = sorted_unique (ce_products c),
      cs_report_count = int (length slugs), cs_report_slugs = slugs, cs_source_names = names,
      cs_primary_source = head_option names, cs_published_at = ce_published_at c,
      cs_last_updated_at = ce_last_updated_at c, cs_canonical_url = ''/vulnerabilities/'' @ k\<rparr>)"

section \<open>Filters, order and page\<close>

definition cve_matches :: "portal_env \<Rightarrow> string \<Rightarrow> cve_summary \<Rightarrow> bool" where
  "cve_matches e s c = (let s' = po_casefold e s in
     contains s' (po_casefold e (cs_cve_id c)) \<or> contains s' (po_casefold e (cs_summary c)) \<or>
     list_ex (\<lambda>p. contains s' (po_casefold e p)) (cs_affected_products c) \<or>
     list_ex (\<lambda>w. contains s' (po_casefold e w)) (cs_cwe_ids c))"

definition cve_wanted :: "portal_env \<Rightarrow> cve_query \<Rightarrow> cve_summary \<Rightarrow> bool" where
  "cve_wanted e q c = (
     (case cq_search q of None \<Rightarrow> True | Some s \<Rightarrow> s = [] \<or> cve_matches e s c) \<and>
     (cq_severities q = [] \<or> cs_severity c \<in> set (cq_severities q)) \<and>
     (cq_known_exploited_only q \<longrightarrow> cs_known_exploited c) \<and>
     (case cq_min_cvss q of None \<Rightarrow> True | Some x \<Rightarrow> at_least x (cs_cvss_score c)) \<and>
     (case cq_min_epss q of None \<Rightarrow> True | Some x \<Rightarrow> at_least x (cs_epss_score c)))"

definition or_zero :: "rat option \<Rightarrow> rat" where
  "or_zero v = (case v of None \<Rightarrow> 0 | Some x \<Rightarrow> x)"

definition cve_ordered :: "cve_sort \<Rightarrow> cve_summary list \<Rightarrow> cve_summary list" where
  "cve_ordered s cs = (case s of
       CVE_CVSS \<Rightarrow> sort_key (\<lambda>c. (cs_cvss_score c = None, - or_zero (cs_cvss_score c), cs_cve_id c)) cs
     | CVE_EPSS \<Rightarrow> sort_key (\<lambda>c. (cs_epss_score c = None, - or_zero (cs_epss_score c), cs_cve_id c)) cs
     | CVE_REPORTS \<Rightarrow> sort_key (\<lambda>c. (- cs_report_count c, cs_cve_id c)) cs
     | CVE_NEWEST \<Rightarrow> rev (sort_key cs_cve_id (rev cs))
     | CVE_PRIORITY \<Rightarrow> sort_key (\<lambda>c. (\<not> cs_known_exploited c, - or_zero (cs_cvss_score c), - or_zero (cs_epss_score c), cs_cve_id c)) cs)"

record cve_page =
  cp_items :: "cve_summary list"
  cp_page :: int
  cp_page_size :: int
  cp_total :: int
  cp_total_pages :: int

text \<open>Without a database the index is empty.\<close>

definition cve_index :: "portal_env \<Rightarrow> report_db option \<Rightarrow> cve_summary list result" where
  "cve_index e db = rbind (case db of None \<Rightarrow> Inr [] | Some d \<Rightarrow> cve_pages e d 1 []) (\<lambda>m. Inr (map cve_summary_of m))"

definition list_cves :: "portal_env \<Rightarrow> cve_query \<Rightarrow> report_db option \<Rightarrow> cve_page result" where
  "list_cves e q db = rbind (cve_index e db) (\<lambda>cs.
     let shown = cve_ordered (cq_sort q) (filter (cve_wanted e q) cs); n_rows = int (length shown) in
     Inr \<lparr>cp_items = page_of (cq_page q) (cq_page_size q) shown, cp_page = cq_page q, cp_page_size = cq_page_size q,
       cp_total = n_rows, cp_total_pages = page_count n_rows (cq_page_size q)\<rparr>)"

end
