(* ===== verification/Portal_Detail.thy ===== *)
theory Portal_Detail
  imports Portal_Read
begin

text \<open>
  The single-report reads of \<^verbatim>\<open>portal/service.py\<close>: sections, related reports, drafts, detections and the
  evidence page with the analyst text it synthesises.
\<close>

section \<open>Sections, related reports and drafts\<close>

datatype section_content =
    S_Text string
  | S_Evidence "report_evidence list"
  | S_Iocs "report_ioc list"
  | S_Cves "report_vulnerability list"
  | S_Attack "technique_mapping list"
  | S_Detections "detection_artifact list"
  | S_Hunt threat_hunt
  | S_Remediation remediation
  | S_Relationships "correlation_relationship list"
  | S_Timeline "timeline_event list"
  | S_Confidence rat "string list"

definition detail_sections :: "public_detail \<Rightarrow> (string \<times> section_content option) list" where
  "detail_sections d = (let b = pl_bundle d in
     [(''executive-summary'', Some (S_Text (rb_executive_summary b))), (''technical-analysis'', Some (S_Text (rb_technical_analysis b))),
      (''evidence'', Some (S_Evidence (rb_evidence b))), (''iocs'', Some (S_Iocs (rb_iocs b))),
      (''cves'', Some (S_Cves (rb_vulnerabilities b))), (''attack'', Some (S_Attack (rb_attack_mappings b))),
      (''detections'', Some (S_Detections (rb_detections b))), (''hunt'', map_option S_Hunt (rb_hunt b)),
      (''remediation'', map_option S_Remediation (rb_remediation b)), (''relationships'', Some (S_Relationships (pl_relationships d))),
      (''timeline'', Some (S_Timeline (rb_timeline b))), (''confidence'', Some (S_Confidence (rb_confidence b) (rb_caveats b)))])"

definition on_report :: "portal_env \<Rightarrow> string \<Rightarrow> report_db \<Rightarrow> (public_detail \<Rightarrow> 'a option) \<Rightarrow> 'a option result" where
  "on_report e identifier db f = rbind (get_report e identifier db) (\<lambda>r. Inr (Option.bind r f))"

definition get_section :: "portal_env \<Rightarrow> string \<Rightarrow> string \<Rightarrow> report_db \<Rightarrow> section_content option result" where
  "get_section e identifier name db = on_report e identifier db (\<lambda>d. Option.bind (map_of (detail_sections d) name) id)"

definition get_detection_page ::
    "portal_env \<Rightarrow> string \<Rightarrow> report_db \<Rightarrow> (public_summary \<times> detection_artifact list) option result" where
  "get_detection_page e identifier db = on_report e identifier db (\<lambda>d. Some (pl_summary d, rb_detections (pl_bundle d)))"

definition related :: "portal_env \<Rightarrow> string \<Rightarrow> report_db \<Rightarrow> public_summary list result" where
  "related e entity_id db =
     rbind (PortalQuery (default_query\<lparr>pq_search := Some entity_id, pq_page_size := 100\<rparr>)) (\<lambda>q.
     rbind (list_reports e q db) (\<lambda>p. Inr (pp_items p)))"

record draft_line =
  dl_report_id :: uuid
  dl_public_id :: string
  dl_slug :: string
  dl_headline :: string
  dl_state :: string
  dl_last_updated_at :: instant

definition draft_line_of :: "report_row \<Rightarrow> draft_line" where
  "draft_line_of r = \<lparr>dl_report_id = rt_id r, dl_public_id = rt_public_id r, dl_slug = rt_slug r, dl_headline = rt_headline r,
     dl_state = rt_state r, dl_last_updated_at = rt_last_updated_at r\<rparr>"

definition list_drafts :: "int \<Rightarrow> report_db \<Rightarrow> draft_line list" where
  "list_drafts limit db = map draft_line_of (list_draft_rows (min limit 100) db)"

section \<open>The evidence page\<close>

definition mentions :: "string list \<Rightarrow> string \<Rightarrow> bool" where
  "mentions ks s = list_ex (\<lambda>k. contains k s) ks"

definition finding_prefixes :: "(string list \<times> string) list" where
  "finding_prefixes =
     [([''cve-'', ''vulnerability''], ''Documents concrete vulnerability exposure and exploitation context: ''),
      ([''powershell'', ''rundll32'', ''cmd.exe'', ''wscript'', ''mshta'', ''certutil'', ''process''],
       ''Establishes adversary living-off-the-land execution technique: ''),
      ([''beacon'', ''c2'', ''egress'', ''network'', ''connect'', ''dns'', ''http''],
       ''Identifies network communications and command-and-control infrastructure activity: ''),
      ([''ransomware'', ''encrypt'', ''extortion'', ''stealc'', ''amadey'', ''infostealer''],
       ''Substantiates post-exploitation payload deployment and objective execution: ''),
      ([''npm'', ''package'', ''supply chain'', ''repository'', ''github''],
       ''Validates upstream software supply chain tampering and payload delivery: '')]"

definition caveat_texts :: "(string list \<times> string) list" where
  "caveat_texts =
     [([''rundll32'', ''powershell'', ''cmd.exe''],
       ''Benign administrative automation or deployment tools (e.g. SCCM, maintenance scripts) may match this signature. Always correlate with parent process tree and execution command line arguments.''),
      ([''c2'', ''ip'', ''domain'', ''network''],
       ''Verify whether target IP/domain is hosted on shared cloud infrastructure or CDN before taking broad network isolation actions.''),
      ([''cve-''],
       ''Confirm that targeted software version is genuinely installed and exposed to untrusted network boundaries before confirming compromise.'')]"

definition pivot_groups :: "(string list \<times> string list) list" where
  "pivot_groups =
     [([''process'', ''rundll32'', ''powershell'', ''cmd'', ''execution''],
       [''Sysmon Event ID 1 (Process Creation)'', ''Windows Security Event ID 4688'', ''PowerShell ScriptBlock Logs (Event ID 4104)'']),
      ([''network'', ''c2'', ''ip'', ''domain'', ''dns'', ''url''],
       [''Network Connection Flow / Firewall Egress'', ''DNS Query Resolution Logs'']),
      ([''file'', ''drop'', ''path'', ''dll'', ''temp'', ''prefetch''],
       [''Sysmon Event ID 11 (File Creation)'', ''ShimCache / AppCompatCache'', ''Prefetch Directory Entries''])]"

definition first_mentioned :: "(string list \<times> string) list \<Rightarrow> string \<Rightarrow> string \<Rightarrow> string" where
  "first_mentioned table other s = (case List.find (\<lambda>(ks, _). mentions ks s) table of None \<Rightarrow> other | Some (_, t) \<Rightarrow> t)"

record analyst_summary =
  an_core_finding :: string
  an_hunt_relevance :: string
  an_triage_caveats :: string
  an_recommended_pivots :: "string list"

definition hunt_relevance :: "threat_hunt option \<Rightarrow> string" where
  "hunt_relevance h = (case h of
       Some t \<Rightarrow> if th_objective t = []
         then ''Serves as empirical ground truth for constructing retrospective SIEM/EDR detection queries and hypothesis testing.''
         else ''Directly substantiates the hunt objective ('' @ [CHR 0x27] @ th_objective t @ [CHR 0x27]
           @ '') and anchors baseline log queries to this specific behavioral pattern.''
     | None \<Rightarrow> ''Serves as empirical ground truth for constructing retrospective SIEM/EDR detection queries and hypothesis testing.'')"

definition synthesize_evidence_analyst_summary :: "report_evidence \<Rightarrow> public_detail \<Rightarrow> analyst_summary" where
  "synthesize_evidence_analyst_summary v d =
     (let s = rv_statement v; low = lower s;
          pivots = concat (map snd (filter (\<lambda>(ks, _). mentions ks low) pivot_groups)) in
      \<lparr>an_core_finding = first_mentioned finding_prefixes
         ''Verifiable public intelligence claim substantiating adversary behavior: '' low @ s,
       an_hunt_relevance = hunt_relevance (rb_hunt (pl_bundle d)),
       an_triage_caveats = first_mentioned caveat_texts
         ''Confirm host timestamp, user security context, and integrity of surrounding audit logs prior to escalation.'' low,
       an_recommended_pivots = (if pivots = []
         then [''EDR Endpoint Telemetry'', ''System Audit & Event Logs'', ''Network Boundary Traffic''] else pivots)\<rparr>)"

record evidence_detail =
  ev_evidence_id :: uuid
  ev_evidence_type :: report_evidence_type
  ev_statement :: string
  ev_source_reference :: "source_reference option"
  ev_source_url :: "string option"
  ev_confidence :: rat
  ev_report_slug :: string
  ev_report_headline :: string
  ev_analyst_summary :: analyst_summary

text \<open>The evidence shown for an identifier the report does not have.\<close>

definition stand_in :: "uuid \<Rightarrow> public_detail \<Rightarrow> report_evidence" where
  "stand_in i d = \<lparr>rv_evidence_id = i, rv_evidence_type = RE_SOURCE_TEXT,
     rv_statement = or_else (rb_executive_summary (pl_bundle d)) (''Evidence claim supporting '' @ ps_headline (pl_summary d)),
     rv_source_document_id = None, rv_source_reference = None, rv_source_url = None,
     rv_confidence = rb_confidence (pl_bundle d), rv_public_safe = True\<rparr>"

definition matching_evidence :: "(string \<Rightarrow> string option) \<Rightarrow> uuid \<Rightarrow> public_detail \<Rightarrow> report_evidence result" where
  "matching_evidence any_http_url i d = (case List.find (\<lambda>v. rv_evidence_id v = i) (rb_evidence (pl_bundle d)) of
       Some v \<Rightarrow> Inr v | None \<Rightarrow> ReportEvidence any_http_url (stand_in i d))"

definition evidence_url :: "report_evidence \<Rightarrow> string option" where
  "evidence_url v = (case rv_source_reference v of
       Some r \<Rightarrow> if rf_canonical_url r = [] then rv_source_url v else Some (rf_canonical_url r)
     | None \<Rightarrow> rv_source_url v)"

definition evidence_detail_of :: "report_evidence \<Rightarrow> public_detail \<Rightarrow> evidence_detail" where
  "evidence_detail_of v d = \<lparr>ev_evidence_id = rv_evidence_id v, ev_evidence_type = rv_evidence_type v, ev_statement = rv_statement v,
     ev_source_reference = rv_source_reference v, ev_source_url = evidence_url v, ev_confidence = rv_confidence v,
     ev_report_slug = ps_slug (pl_summary d), ev_report_headline = ps_headline (pl_summary d),
     ev_analyst_summary = synthesize_evidence_analyst_summary v d\<rparr>"

definition get_evidence_detail ::
    "(string \<Rightarrow> string option) \<Rightarrow> portal_env \<Rightarrow> string \<Rightarrow> uuid \<Rightarrow> report_db \<Rightarrow> evidence_detail option result" where
  "get_evidence_detail any_http_url e identifier i db = rbind (get_report e identifier db) (\<lambda>r. case r of
       None \<Rightarrow> Inr None
     | Some d \<Rightarrow> rbind (matching_evidence any_http_url i d) (\<lambda>v. Inr (Some (evidence_detail_of v d))))"

end
