(* ===== verification/Portal_Facts.thy ===== *)
theory Portal_Facts
  imports Portal_Cves Portal_Detail Publication_Facts
begin

text \<open>
  What the portal shows: exactly the published reports, each with its current version and behind a
  validated publication; pages that neither lose nor repeat a report; an index of vulnerabilities that
  gathers every published mention.
\<close>

section \<open>The rows are the published reports\<close>

lemma filter_unique: "unique_on f xs \<Longrightarrow> x \<in> set xs \<Longrightarrow> filter (\<lambda>y. f y = f x) xs = [x]"
  by (induction xs) (auto simp: unique_on_def filter_empty_conv image_iff)

lemma stored_row: "version_stored db i \<Longrightarrow> unique_on vs_id (rs_versions db) \<Longrightarrow>
    \<exists>v. vs_id v = i \<and> filter (\<lambda>v. vs_id v = i) (rs_versions db) = [v]"
  using filter_unique [of vs_id "rs_versions db"] by (auto simp: version_stored_def has_row_iff image_iff)

lemma concat_map_single: "(\<And>x. x \<in> set xs \<Longrightarrow> \<exists>y. f x = [y] \<and> g y = x) \<Longrightarrow> map g (concat (map f xs)) = xs"
proof (induction xs)
  case (Cons x xs)
  then obtain y where "f x = [y]" "g y = x" by (metis list.set_intros(1))
  with Cons show ?case by simp
qed simp

lemma base_rows_reports:
  assumes "reports_ok e db"
  shows "map fst (base_rows db) = filter (\<lambda>r. rt_state r = ''published'') (rs_reports db)"
proof -
  have "\<exists>y. (case rt_current_version_id r of None \<Rightarrow> []
        | Some i \<Rightarrow> map (Pair r) (filter (\<lambda>v. vs_id v = i) (rs_versions db))) = [y] \<and> fst y = r"
    if "r \<in> set (filter (\<lambda>r. rt_state r = ''published'') (rs_reports db))" for r
  proof -
    have "publicly_backed e db r" "unique_on vs_id (rs_versions db)"
      using that assms by (auto simp: reports_ok_def list_all_iff)
    then show ?thesis
      using stored_row by (fastforce simp: publicly_backed_def split: option.splits)
  qed
  then show ?thesis
    unfolding base_rows_def by (intro concat_map_single)
qed

lemma public_reports_mset: "mset (public_reports db) = mset (filter (\<lambda>r. rt_state r = ''published'') (rs_reports db))"
  by (simp add: public_reports_def)

lemma base_rows_version: "(r, v) \<in> set (base_rows db) \<Longrightarrow> r \<in> set (public_reports db) \<and> v \<in> set (rs_versions db) \<and>
    rt_current_version_id r = Some (vs_id v)"
  by (auto simp: base_rows_def public_reports_def split: option.splits)

lemma set_ordered [simp]: "set (ordered s rows) = set rows"
  by (simp add: ordered_def split: report_sort.split)

lemma length_ordered [simp]: "length (ordered s rows) = length rows"
  by (simp add: ordered_def split: report_sort.split)

lemma filtered_rows_set: "set (filtered_rows e q db) = {x \<in> set (base_rows db). wanted e q x}"
  by (auto simp: filtered_rows_def)

section \<open>Pages\<close>

lemma page_of_map [simp]: "page_of p n (map f xs) = map f (page_of p n xs)"
  by (simp add: page_of_def drop_map take_map)

lemma set_page_of: "set (page_of p n xs) \<subseteq> set xs"
  by (auto simp: page_of_def dest: in_set_takeD in_set_dropD)

lemma pages_take: "1 \<le> n \<Longrightarrow> concat (map (\<lambda>p. page_of p n xs) [1..int k]) = take (k * nat n) xs"
proof (induction k)
  case (Suc k)
  have "nat (int k * n) = k * nat n" using Suc.prems by (simp add: nat_mult_distrib)
  moreover have "take (nat n) (drop (k * nat n) xs) = drop (k * nat n) (take (Suc k * nat n) xs)"
    by (simp add: take_drop add.commute)
  moreover have "take (k * nat n) xs = take (k * nat n) (take (Suc k * nat n) xs)"
    by (simp add: min_def)
  moreover have "[1..int (Suc k)] = [1..int k] @ [int (Suc k)]"
    by (simp add: upto_rec2)
  ultimately show ?case
    using Suc append_take_drop_id [of "k * nat n" "take (Suc k * nat n) xs"] by (simp add: page_of_def)
qed simp

lemma page_count_enough: "1 \<le> n \<Longrightarrow> 0 \<le> rows \<Longrightarrow> rows \<le> page_count rows n * n \<and> 0 \<le> page_count rows n"
proof -
  assume a: "1 \<le> n" "0 \<le> rows"
  have "rows + n - 1 = n * ((rows + n - 1) div n) + (rows + n - 1) mod n" by simp
  moreover have "(rows + n - 1) mod n \<le> n - 1" using a pos_mod_bound [of n "rows + n - 1"] by linarith
  ultimately have "rows \<le> n * ((rows + n - 1) div n)" by linarith
  then have "rows \<le> ((rows + n - 1) div n) * n" by (simp only: mult.commute)
  with a show ?thesis by (simp add: page_count_def pos_imp_zdiv_nonneg_iff)
qed

lemma pages_partition: "1 \<le> n \<Longrightarrow> concat (map (\<lambda>p. page_of p n xs) [1..page_count (int (length xs)) n]) = xs"
proof -
  assume n: "1 \<le> n"
  have pc: "int (length xs) \<le> page_count (int (length xs)) n * n" "0 \<le> page_count (int (length xs)) n"
    using page_count_enough [OF n] by simp_all
  then have "length xs \<le> nat (page_count (int (length xs)) n * n)" by linarith
  then have "length xs \<le> nat (page_count (int (length xs)) n) * nat n"
    by (simp only: nat_mult_distrib [OF pc(2)])
  with pages_take [OF n, of xs "nat (page_count (int (length xs)) n)"] pc show ?thesis by simp
qed

lemma page_of_beyond: "1 \<le> n \<Longrightarrow> page_count (int (length xs)) n < p \<Longrightarrow> page_of p n xs = []"
proof -
  assume n: "1 \<le> n" "page_count (int (length xs)) n < p"
  then have "page_count (int (length xs)) n * n \<le> (p - 1) * n" by (intro mult_right_mono) auto
  with page_count_enough [OF n(1), of "int (length xs)"] have "int (length xs) \<le> (p - 1) * n" by linarith
  then have "length xs \<le> nat ((p - 1) * n)" by linarith
  then show ?thesis by (simp add: page_of_def)
qed

lemma filtered_rows_page [simp]: "filtered_rows e (q\<lparr>pq_page := p\<rparr>) db = filtered_rows e q db"
proof -
  have "wanted e (q\<lparr>pq_page := p\<rparr>) = wanted e q" by (rule ext) (simp add: wanted_def)
  then show ?thesis by (simp add: filtered_rows_def)
qed

lemma traverse_append: "traverse f (xs @ ys) = rbind (traverse f xs) (\<lambda>a. rbind (traverse f ys) (\<lambda>b. Inr (a @ b)))"
  by (induction xs) (auto simp: rbind_def split: sum.splits)

lemma traverse_page:
  assumes "traverse f xs = Inr ys"
  shows "traverse f (page_of p n xs) = Inr (page_of p n ys)"
proof -
  let ?k = "nat ((p - 1) * n)"
  from assms have l: "list_all2 (\<lambda>x y. f x = Inr y) xs ys" by (simp add: traverse_Inr_iff)
  then have "list_all2 (\<lambda>x y. f x = Inr y) (page_of p n xs) (page_of p n ys)"
    unfolding page_of_def by (intro list_all2_takeI list_all2_dropI)
  then show ?thesis by (simp add: traverse_Inr_iff)
qed

lemma list_report_rows_eq: "list_report_rows e q db =
    (page_of (pq_page q) (pq_page_size q) (filtered_rows e q db), int (length (filtered_rows e q db)))"
  by (simp add: list_report_rows_def filtered_rows_def)

lemma listed_row:
  assumes "list_reports pe q db = Inr page" "x \<in> set (pp_items page)"
  shows "\<exists>row \<in> set (base_rows db). wanted pe q row \<and> summary pe row = Inr x"
proof -
  let ?rows = "page_of (pq_page q) (pq_page_size q) (filtered_rows pe q db)"
  from assms obtain items where "traverse (summary pe) ?rows = Inr items" "x \<in> set items"
    by (auto simp: list_reports_def list_report_rows_eq rbind_Inr_iff)
  then obtain i where "i < length ?rows" "summary pe (?rows ! i) = Inr x"
    by (auto simp: traverse_Inr_iff list_all2_conv_all_nth in_set_conv_nth)
  then obtain row where "row \<in> set ?rows" "summary pe row = Inr x"
    using nth_mem by blast
  then show ?thesis using set_page_of [of "pq_page q" "pq_page_size q" "filtered_rows pe q db"]
    by (auto simp: filtered_rows_set)
qed

text \<open>C4. The portal shows the published reports and nothing else: after any history of drafts and
  publications the rows it reads are the public reports, each once, with its current version, which is
  stored and has a validated publication; and every summary on any page of any query is the
  projection of such a row that the query asks for.\<close>

theorem portal_shows_published_reports:
  assumes "(report_step e)\<^sup>*\<^sup>* (no_reports c s) db"
  shows "mset (map fst (base_rows db)) = mset (public_reports db) \<and>
    (\<forall>(r, v) \<in> set (base_rows db). rt_current_version_id r = Some (vs_id v) \<and> v \<in> set (rs_versions db) \<and> publicly_backed e db r) \<and>
    (\<forall>page. list_reports pe q db = Inr page \<longrightarrow> (\<forall>x \<in> set (pp_items page).
       \<exists>row \<in> set (base_rows db). wanted pe q row \<and> summary pe row = Inr x))"
proof -
  have ok: "reports_ok e db" using steps_ok [OF assms no_reports_ok] .
  then have "mset (map fst (base_rows db)) = mset (public_reports db)"
    by (simp add: base_rows_reports public_reports_mset)
  moreover have "rt_current_version_id r = Some (vs_id v) \<and> v \<in> set (rs_versions db) \<and> publicly_backed e db r"
    if "(r, v) \<in> set (base_rows db)" for r v
    using base_rows_version [OF that] ok by (auto simp: public_reports_def reports_ok_def list_all_iff)
  ultimately show ?thesis by (auto dest: listed_row)
qed

text \<open>C23. Pages neither lose nor repeat a report: when every stored version the query selects still
  reads as a bundle, the pages from the first to the last, put together, are the projections of all
  selected rows in their order, each page gives the right totals, and a page beyond the last is empty.\<close>

theorem report_pages_partition:
  assumes "1 \<le> pq_page_size q" and "traverse (summary e) (filtered_rows e q db) = Inr every"
  defines "last_page \<equiv> page_count (int (length every)) (pq_page_size q)"
  shows "\<exists>page. (\<forall>p. list_reports e (q\<lparr>pq_page := p\<rparr>) db = Inr (page p) \<and>
       pp_total (page p) = int (length every) \<and> pp_total_pages (page p) = last_page \<and> (last_page < p \<longrightarrow> pp_items (page p) = [])) \<and>
     concat (map (\<lambda>p. pp_items (page p)) [1..last_page]) = every"
proof -
  let ?n = "pq_page_size q"
  define page where "page p = \<lparr>pp_items = page_of p ?n every, pp_page = p, pp_page_size = ?n,
      pp_total = int (length every), pp_total_pages = last_page\<rparr>" for p
  have len: "length every = length (filtered_rows e q db)"
    using traverse_length [OF assms(2)] by simp
  have "list_reports e (q\<lparr>pq_page := p\<rparr>) db = Inr (page p)" for p
    using traverse_page [OF assms(2), of p ?n] by (simp add: list_reports_def list_report_rows_eq page_def last_page_def len)
  moreover have "last_page < p \<longrightarrow> pp_items (page p) = []" for p
    using page_of_beyond [OF assms(1), of every p] by (simp add: page_def last_page_def)
  moreover have "concat (map (\<lambda>p. pp_items (page p)) [1..last_page]) = every"
    using pages_partition [OF assms(1), of every] by (simp add: page_def last_page_def)
  ultimately show ?thesis by (intro exI [of _ page]) (simp add: page_def)
qed

section \<open>Change labels\<close>

text \<open>The filter on change states agrees with the label of a report, except that a resurfaced report
  whose last update is its first publication is also listed as new.\<close>

theorem change_filter_matches_label:
  assumes "rt_first_published_at r \<noteq> None"
  shows "in_change_state r s \<longleftrightarrow> s = change_state_of r \<or>
     s = CS_NEW \<and> rt_resurfaced r \<and> rt_first_published_at r = Some (rt_last_updated_at r)"
  using assms by (cases s) (auto simp: in_change_state_def change_state_of_def)

section \<open>Evidence pages\<close>

text \<open>Any identifier names evidence: for a report that is public, an identifier that none of its evidence
  has still yields an evidence page, whose statement is the executive summary and whose confidence is
  that of the report.\<close>

theorem unknown_evidence_fabricated:
  assumes "get_report e identifier db = Inr (Some d)" and "i \<notin> rv_evidence_id ` set (rb_evidence (pl_bundle d))"
    and "strip (rb_executive_summary (pl_bundle d)) \<noteq> []" and "0 \<le> rb_confidence (pl_bundle d) \<and> rb_confidence (pl_bundle d) \<le> 1"
  shows "\<exists>v. get_evidence_detail any_http_url e identifier i db = Inr (Some v) \<and> ev_evidence_id v = i \<and>
     ev_statement v = strip (rb_executive_summary (pl_bundle d)) \<and> ev_confidence v = rb_confidence (pl_bundle d)"
proof -
  have "List.find (\<lambda>v. rv_evidence_id v = i) (rb_evidence (pl_bundle d)) = None"
    using assms(2) by (auto simp: find_None_iff)
  then show ?thesis
    using assms by (auto simp: get_evidence_detail_def matching_evidence_def stand_in_def evidence_detail_of_def ReportEvidence_def
        or_else_def nonempty_text_def optional_url_def unit_interval_def check_def require_def)
qed

section \<open>The vulnerability index\<close>

text \<open>Every published mention of a vulnerability, in the order in which the reports are read.\<close>

type_synonym mention = "report_row \<times> string list \<times> report_vulnerability"

definition report_mentions :: "portal_env \<Rightarrow> report_line \<Rightarrow> mention list result" where
  "report_mentions e x = rbind (bundle_of e (snd x)) (\<lambda>b. Inr (map (\<lambda>v.
     (fst x, source_names (po_casefold e) b (rt_headline (fst x)) (rt_slug (fst x)), v)) (rb_vulnerabilities b)))"

definition all_mentions :: "portal_env \<Rightarrow> report_db \<Rightarrow> mention list result" where
  "all_mentions e db = rbind (traverse (report_mentions e) (ordered BY_PRIORITY (base_rows db))) (\<lambda>ms. Inr (concat ms))"

definition add_mention :: "portal_env \<Rightarrow> cve_entry dict \<Rightarrow> mention \<Rightarrow> cve_entry dict" where
  "add_mention e m = (\<lambda>(r, names, v). add_vulnerability e r names m v)"

lemma add_report_mentions: "add_report e m x = rbind (report_mentions e x) (\<lambda>ms. Inr (foldl (add_mention e) m ms))"
  by (simp add: add_report_def report_mentions_def add_mention_def rbind_def foldl_map split: sum.split)

lemma fold_add_report:
  "fold_result (add_report e) m rows = rbind (traverse (report_mentions e) rows) (\<lambda>ms. Inr (foldl (add_mention e) m (concat ms)))"
  by (induction rows arbitrary: m) (auto simp: add_report_mentions rbind_def split: sum.splits)

lemma wanted_default [simp]: "wanted e (cve_page_query p) x"
  by (simp add: wanted_def cve_page_query_def default_query_def)

lemma rows_default: "list_report_rows e (cve_page_query p) db =
    (page_of p 100 (ordered BY_PRIORITY (base_rows db)), int (length (base_rows db)))"
  by (simp add: list_report_rows_def filtered_rows_def) (simp add: cve_page_query_def default_query_def)

lemma page_query_ok: "1 \<le> p \<Longrightarrow> p \<le> 10000 \<Longrightarrow> PortalQuery (cve_page_query p) = Inr (cve_page_query p)"
  by (simp add: PortalQuery_def cve_page_query_def default_query_def clean_search_def optional_within_def check_def require_def)

lemma fold_result_append: "fold_result f s (xs @ ys) = rbind (fold_result f s xs) (\<lambda>s'. fold_result f s' ys)"
  by (induction xs arbitrary: s) (auto simp: rbind_def split: sum.splits)

lemma page_of_split: "1 \<le> p \<Longrightarrow> drop (nat ((p - 1) * 100)) xs = page_of p 100 xs @ drop (nat (p * 100)) xs"
proof -
  assume p: "1 \<le> p"
  then have "nat (p * 100) = 100 + nat ((p - 1) * 100)" by (simp add: nat_add_distrib [symmetric] algebra_simps)
  then show ?thesis by (metis append_take_drop_id drop_drop nat_numeral page_of_def)
qed

lemma last_page: "1 \<le> p \<Longrightarrow> page_of p 100 xs = [] \<or> int (length (page_of p 100 xs)) < 100 \<or> int (length xs) \<le> p * 100 \<Longrightarrow>
    drop (nat (p * 100)) xs = []"
proof -
  assume p: "1 \<le> p" and "page_of p 100 xs = [] \<or> int (length (page_of p 100 xs)) < 100 \<or> int (length xs) \<le> p * 100"
  then have "length (page_of p 100 xs) < 100 \<or> int (length xs) \<le> p * 100" by auto
  moreover have "length (page_of p 100 xs) = min 100 (length xs - nat ((p - 1) * 100))"
    by (simp add: page_of_def min.commute)
  ultimately show ?thesis using p by (auto simp: min_def split: if_splits)
qed

lemma cve_pages_fold:
  "1 \<le> p \<Longrightarrow> p \<le> 10000 \<Longrightarrow> length (base_rows db) \<le> 1000000 \<Longrightarrow>
     cve_pages e db p m = fold_result (add_report e) m (drop (nat ((p - 1) * 100)) (ordered BY_PRIORITY (base_rows db)))"
proof (induction e db p m rule: cve_pages.induct)
  case (1 e db p m)
  let ?xs = "ordered BY_PRIORITY (base_rows db)"
  let ?rest = "drop (nat ((p - 1) * 100)) ?xs"
  have fold: "fold_result (add_report e) m ?rest =
      rbind (fold_result (add_report e) m (page_of p 100 ?xs)) (\<lambda>m'. fold_result (add_report e) m' (drop (nat (p * 100)) ?xs))"
    by (simp only: page_of_split [OF 1(2)] fold_result_append)
  show ?case
  proof (cases "fold_result (add_report e) m (page_of p 100 ?xs)")
    case (Inl err)
    then show ?thesis
      using 1(2,3) by (subst cve_pages.simps) (simp only: fold page_query_ok [OF 1(2,3)] rows_default sum.case prod.case Inl rbind_simps)
  next
    case (Inr m')
    let ?stop = "page_of p 100 ?xs = [] \<or> int (length (page_of p 100 ?xs)) < 100 \<or> int (length (base_rows db)) \<le> p * 100"
    have step: "cve_pages e db p m = (if ?stop then Inr m' else cve_pages e db (p + 1) m')"
      using 1(2,3) by (subst cve_pages.simps) (simp only: page_query_ok [OF 1(2,3)] rows_default sum.case prod.case Inr)
    show ?thesis
    proof (cases ?stop)
      case True
      then have "drop (nat (p * 100)) ?xs = []" using last_page [OF 1(2), of ?xs] by simp
      with True show ?thesis by (simp only: step fold Inr rbind_simps fold_result.simps if_True if_False refl)
    next
      case False
      then have "p + 1 \<le> 10000" using 1(4) by linarith
      with 1(1) [OF page_query_ok [OF 1(2,3)] rows_default [symmetric] Inr False] 1(2,4) False
      have "cve_pages e db (p + 1) m' = fold_result (add_report e) m' (drop (nat (p * 100)) ?xs)" by simp
      with False show ?thesis by (simp only: step fold Inr rbind_simps fold_result.simps if_True if_False refl)
    qed
  qed
qed

lemma cve_index_mentions:
  assumes "length (base_rows db) \<le> 1000000"
  shows "cve_index e (Some db) = rbind (all_mentions e db) (\<lambda>ms. Inr (map cve_summary_of (foldl (add_mention e) [] ms)))"
  using assms by (simp add: cve_index_def cve_pages_fold fold_add_report all_mentions_def rbind_def split: sum.split)

text \<open>The entry of one vulnerability is the fold over its own mentions.\<close>

definition note_mention :: "portal_env \<Rightarrow> cve_entry \<Rightarrow> mention \<Rightarrow> cve_entry" where
  "note_mention e c = (\<lambda>(r, names, v). note_claims v (note_scores v (note_report e r names v c)))"

definition of_key :: "string \<Rightarrow> mention list \<Rightarrow> mention list" where
  "of_key k ms = filter (\<lambda>(r, names, v). cve_key v = k) ms"

definition entry_of :: "portal_env \<Rightarrow> mention list \<Rightarrow> cve_entry option" where
  "entry_of e ms = (case ms of [] \<Rightarrow> None | (r, names, v) # _ \<Rightarrow> Some (foldl (note_mention e) (new_entry v) ms))"

lemma entry_of_snoc: "entry_of e (ms @ [x]) = Some (note_mention e (case entry_of e ms of None \<Rightarrow> new_entry (snd (snd x)) | Some c \<Rightarrow> c) x)"
  by (cases ms) (auto simp: entry_of_def split: prod.split)

lemma add_mention_eq: "add_mention e m x = dict_set (cve_key (snd (snd x)))
    (note_mention e (case dict_get (cve_key (snd (snd x))) m of None \<Rightarrow> new_entry (snd (snd x)) | Some c \<Rightarrow> c) x) m"
  by (cases x) (simp add: add_mention_def add_vulnerability_def note_mention_def Let_def split: option.split)

lemma mentions_entry: "dict_get k (foldl (add_mention e) [] ms) = entry_of e (of_key k ms)"
proof (induction ms rule: rev_induct)
  case Nil
  show ?case by (simp add: dict_get_def of_key_def entry_of_def)
next
  case (snoc x ms)
  show ?case
  proof (cases "cve_key (snd (snd x)) = k")
    case True
    then have "of_key k (ms @ [x]) = of_key k ms @ [x]" by (cases x) (simp add: of_key_def)
    with True snoc show ?thesis by (simp add: add_mention_eq dict_get_set entry_of_snoc)
  next
    case False
    then have "of_key k (ms @ [x]) = of_key k ms" by (cases x) (simp add: of_key_def)
    with False snoc show ?thesis by (simp add: add_mention_eq dict_get_set)
  qed
qed

lemma mentions_distinct: "distinct (map fst (foldl (add_mention e) [] ms))"
  by (induction ms rule: rev_induct) (simp_all add: add_mention_eq distinct_dict_set)

section \<open>What an entry gathers\<close>

lemma note_mention_slugs: "ce_report_slugs (note_mention e c x) = ce_report_slugs c @ [rt_slug (fst x)]"
  by (simp add: note_mention_def note_claims_def note_scores_def note_report_def Let_def split: prod.split)

lemma note_mention_known: "ce_known_exploited (note_mention e c x) = (rw_known_exploited (snd (snd x)) = Some True \<or> ce_known_exploited c)"
  by (simp add: note_mention_def note_claims_def note_scores_def note_report_def Let_def split: prod.split)

lemma note_mention_score: "ce_cvss_score (note_mention e c x) =
    (if higher_score (rw_cvss_score (snd (snd x))) (ce_cvss_score c) then rw_cvss_score (snd (snd x)) else ce_cvss_score c)"
  by (simp add: note_mention_def note_claims_def note_scores_def note_report_def Let_def split: prod.split)

lemma fold_slugs: "ce_report_slugs (foldl (note_mention e) c ms) = ce_report_slugs c @ map (\<lambda>x. rt_slug (fst x)) ms"
  by (induction ms arbitrary: c) (simp_all add: note_mention_slugs)

lemma fold_known: "ce_known_exploited (foldl (note_mention e) c ms) \<longleftrightarrow>
    ce_known_exploited c \<or> (\<exists>x \<in> set ms. rw_known_exploited (snd (snd x)) = Some True)"
  by (induction ms arbitrary: c) (auto simp: note_mention_known)

text \<open>The highest of some scores, of which some may be missing.\<close>

definition highest :: "rat option \<Rightarrow> rat option set \<Rightarrow> bool" where
  "highest m xs = (case m of None \<Rightarrow> xs \<subseteq> {None} | Some x \<Rightarrow> Some x \<in> xs \<and> (\<forall>y. Some y \<in> xs \<longrightarrow> y \<le> x))"

lemma highest_insert: "highest m xs \<Longrightarrow> highest (if higher_score n m then n else m) (insert n xs)"
  by (auto simp: highest_def higher_score_def split: option.splits if_splits)

lemma fold_score: "highest (ce_cvss_score c) xs \<Longrightarrow>
    highest (ce_cvss_score (foldl (note_mention e) c ms)) (xs \<union> (\<lambda>x. rw_cvss_score (snd (snd x))) ` set ms)"
proof (induction ms arbitrary: c xs)
  case (Cons x ms)
  have "highest (ce_cvss_score (note_mention e c x)) (insert (rw_cvss_score (snd (snd x))) xs)"
    unfolding note_mention_score by (rule highest_insert [OF Cons.prems])
  from Cons.IH [OF this] show ?case by (simp add: Un_commute Un_left_commute insert_commute)
qed simp

lemma entry_gathers:
  assumes "entry_of e ms = Some c"
  shows "ce_report_slugs c = map (\<lambda>x. rt_slug (fst x)) ms"
    "ce_known_exploited c \<longleftrightarrow> (\<exists>x \<in> set ms. rw_known_exploited (snd (snd x)) = Some True)"
    "highest (ce_cvss_score c) ((\<lambda>x. rw_cvss_score (snd (snd x))) ` set ms)"
proof -
  from assms obtain r names v ms' where ms: "ms = (r, names, v) # ms'" and c: "c = foldl (note_mention e) (new_entry v) ms"
    by (auto simp: entry_of_def split: list.splits)
  show "ce_report_slugs c = map (\<lambda>x. rt_slug (fst x)) ms"
    by (simp add: c fold_slugs new_entry_def)
  show "ce_known_exploited c \<longleftrightarrow> (\<exists>x \<in> set ms. rw_known_exploited (snd (snd x)) = Some True)"
    unfolding c fold_known by (auto simp: new_entry_def ms)
  have "highest (ce_cvss_score (new_entry v)) {rw_cvss_score v}"
    by (simp add: new_entry_def highest_def split: option.split)
  from fold_score [OF this, of e ms] show "highest (ce_cvss_score c) ((\<lambda>x. rw_cvss_score (snd (snd x))) ` set ms)"
    by (simp add: c ms insert_absorb2)
qed

lemma cve_summary_parts: "cs_cve_id (cve_summary_of (k, c)) = k" "cs_report_slugs (cve_summary_of (k, c)) = sorted_unique (ce_report_slugs c)"
  "cs_report_count (cve_summary_of (k, c)) = int (length (sorted_unique (ce_report_slugs c)))"
  "cs_known_exploited (cve_summary_of (k, c)) = ce_known_exploited c" "cs_cvss_score (cve_summary_of (k, c)) = ce_cvss_score c"
  by (simp_all add: cve_summary_of_def Let_def split: prod.split)

text \<open>What the index must show of one vulnerability: the reports that mention it, whether one of them calls
  it exploited, and the highest score any of them gives.\<close>

definition gathers :: "mention list \<Rightarrow> cve_summary \<Rightarrow> bool" where
  "gathers ms c = (let own = of_key (cs_cve_id c) ms in
     cs_report_slugs c = sorted_unique (map (\<lambda>x. rt_slug (fst x)) own) \<and> cs_report_count c = int (length (cs_report_slugs c)) \<and>
     (cs_known_exploited c \<longleftrightarrow> (\<exists>x \<in> set own. rw_known_exploited (snd (snd x)) = Some True)) \<and>
     highest (cs_cvss_score c) ((\<lambda>x. rw_cvss_score (snd (snd x))) ` set own))"

text \<open>C6. The index of vulnerabilities reads every published report once, whatever the number of pages it
  takes, and shows exactly the vulnerabilities they mention, each once, with the reports that mention
  it, their number, whether one of them calls it exploited, and the highest score any of them gives.\<close>

theorem cve_index_gathers_mentions:
  assumes "length (base_rows db) \<le> 1000000" and "cve_index e (Some db) = Inr cs"
  shows "\<exists>ms. all_mentions e db = Inr ms \<and> distinct (map cs_cve_id cs) \<and>
     set (map cs_cve_id cs) = (\<lambda>x. cve_key (snd (snd x))) ` set ms \<and> list_all (gathers ms) cs"
proof -
  obtain ms where ms: "all_mentions e db = Inr ms" and cs: "cs = map cve_summary_of (foldl (add_mention e) [] ms)"
    using assms(2) by (auto simp: cve_index_mentions [OF assms(1)] rbind_Inr_iff)
  let ?d = "foldl (add_mention e) [] ms"
  have ids: "map cs_cve_id cs = map fst ?d"
    by (auto simp: cs comp_def cve_summary_parts)
  have get: "k \<in> fst ` set ?d \<longleftrightarrow> of_key k ms \<noteq> []" for k
    using mentions_entry [of k e ms] map_of_eq_None_iff [of ?d k] by (auto simp: dict_get_def entry_of_def split: list.splits)
  have "gathers ms (cve_summary_of (k, c))" if "(k, c) \<in> set ?d" for k c
  proof -
    have "dict_get k ?d = Some c"
      using that mentions_distinct by (simp add: dict_get_def)
    then have "entry_of e (of_key k ms) = Some c"
      by (simp add: mentions_entry)
    from entry_gathers [OF this] show ?thesis by (simp add: gathers_def Let_def cve_summary_parts)
  qed
  then have "list_all (gathers ms) cs" by (auto simp: cs list_all_iff)
  moreover have "k \<in> fst ` set ?d \<longleftrightarrow> k \<in> (\<lambda>x. cve_key (snd (snd x))) ` set ms" for k
    unfolding get by (force simp: of_key_def filter_empty_conv)
  ultimately show ?thesis
    using ms mentions_distinct [of e ms] by (auto simp: ids)
qed

section \<open>A concrete portal\<close>

definition sample_vulnerability :: report_vulnerability where
  "sample_vulnerability = \<lparr>rw_vulnerability_id = ''v1'', rw_cve_id = ''CVE-2024-1001'', rw_summary = ''flaw'', rw_cvss_score = Some 9,
     rw_cvss_version = None, rw_cvss_vector = None, rw_epss_score = None, rw_epss_percentile = None, rw_cwe_ids = [],
     rw_known_exploited = Some True, rw_exploitation_state = ''unknown'', rw_kev_date_added = None, rw_kev_due_date = None,
     rw_kev_required_action = None, rw_affected_products = [], rw_product_references = [], rw_evidence_ids = [''e1'']\<rparr>"

definition sample_portal :: portal_env where
  "sample_portal = \<lparr>po_ilower = lower, po_casefold = lower, po_json_string = (\<lambda>_. []),
     po_parse = (\<lambda>_. Some ((sample_bundle ''1'' 1 RP_APPROVED)\<lparr>rb_vulnerabilities := [sample_vulnerability]\<rparr>)),
     po_set_order = (\<lambda>xs. xs), po_str_datetime = int_str, po_str_date = int_str\<rparr>"

definition sample_row :: report_row where
  "sample_row = \<lparr>rt_id = ''r'', rt_public_id = ''p'', rt_slug = ''s'', rt_headline = ''Alpha'', rt_report_type = ''t'',
     rt_severity = ''low'', rt_confidence = 1, rt_state = ''published'', rt_first_published_at = Some 5,
     rt_last_updated_at = 5, rt_current_version_id = Some ''1'', rt_resurfaced = False\<rparr>"

definition sample_shown :: report_db where
  "sample_shown = start\<lparr>rs_reports := [sample_row], rs_versions := [new_version sample_env (sample_bundle ''1'' 1 RP_APPROVED) None None True ''r'']\<rparr>"

lemma sample_base: "\<exists>v. base_rows sample_shown = [(sample_row, v)]"
  by (simp add: base_rows_def sample_shown_def start_def sample_row_def new_version_def sample_bundle_def)

text \<open>Every stored content reads as a bundle there, so nothing raises.\<close>

lemma sample_summaries: "traverse (summary sample_portal) rows = Inr (map (\<lambda>x. projr (summary sample_portal x)) rows)"
  by (induction rows) (simp_all add: summary_def bundle_of_def sample_portal_def)

lemma ordered_single [simp]: "ordered s [x] = [x]"
  by (simp add: ordered_def split: report_sort.split)

lemma sample_mentions: "\<exists>names. all_mentions sample_portal sample_shown = Inr [(sample_row, names, sample_vulnerability)]"
  using sample_base by (auto simp: all_mentions_def report_mentions_def bundle_of_def sample_portal_def)

lemma sample_key: "cve_key sample_vulnerability = ''CVE-2024-1001''"
  by code_simp

theorem cve_index_gathers_mentions_witness:
  "\<exists>cs. cve_index sample_portal (Some sample_shown) = Inr cs \<and> set (map cs_cve_id cs) = {''CVE-2024-1001''} \<and>
     list_all (\<lambda>c. cs_report_slugs c = [''s''] \<and> cs_known_exploited c \<and> cs_cvss_score c = Some 9) cs"
proof -
  obtain v names where base: "base_rows sample_shown = [(sample_row, v)]"
    and ms: "all_mentions sample_portal sample_shown = Inr [(sample_row, names, sample_vulnerability)]"
    using sample_base sample_mentions by blast
  have small: "length (base_rows sample_shown) \<le> 1000000" by (simp add: base)
  from ms have "\<exists>cs. cve_index sample_portal (Some sample_shown) = Inr cs"
    by (simp add: cve_index_mentions [OF small])
  then obtain cs where cs: "cve_index sample_portal (Some sample_shown) = Inr cs" ..
  from cve_index_gathers_mentions [OF small cs] ms sample_key
  have ids: "set (map cs_cve_id cs) = {''CVE-2024-1001''}" and g: "list_all (gathers [(sample_row, names, sample_vulnerability)]) cs"
    by auto
  have "cs_report_slugs c = [''s''] \<and> cs_known_exploited c \<and> cs_cvss_score c = Some 9" if "c \<in> set cs" for c
  proof -
    have "cs_cve_id c \<in> set (map cs_cve_id cs)" using that by simp
    then have id: "cs_cve_id c = ''CVE-2024-1001''" unfolding ids by simp
    have gc: "gathers [(sample_row, names, sample_vulnerability)] c" using g that by (simp add: list_all_iff)
    have own1: "of_key (cs_cve_id c) [(sample_row, names, sample_vulnerability)] = [(sample_row, names, sample_vulnerability)]"
      by (simp add: of_key_def id sample_key)
    have own: "cs_report_slugs c = sorted_unique [rt_slug sample_row]"
      "cs_known_exploited c \<longleftrightarrow> rw_known_exploited sample_vulnerability = Some True"
      "highest (cs_cvss_score c) {rw_cvss_score sample_vulnerability}"
      using gc unfolding gathers_def own1 Let_def by simp_all
    have "rt_slug sample_row = ''s''" "rw_known_exploited sample_vulnerability = Some True" "rw_cvss_score sample_vulnerability = Some 9"
      by (simp_all add: sample_row_def sample_vulnerability_def)
    with own show ?thesis by (auto simp: sorted_unique_def highest_def split: option.splits)
  qed
  with cs ids show ?thesis by (auto simp: list_all_iff)
qed

theorem report_pages_partition_witness:
  "\<exists>page x. list_reports sample_portal (default_query\<lparr>pq_page := 1\<rparr>) sample_shown = Inr page \<and> pp_total page = 1 \<and>
     pp_items page = [x] \<and> ps_public_id x = ''p''"
proof -
  let ?rows = "filtered_rows sample_portal default_query sample_shown"
  obtain v where base: "base_rows sample_shown = [(sample_row, v)]" using sample_base by blast
  have "wanted sample_portal default_query (sample_row, v)" by (simp add: wanted_def default_query_def)
  then have rows: "?rows = [(sample_row, v)]" by (simp add: filtered_rows_def base)
  obtain x where x: "summary sample_portal (sample_row, v) = Inr x" "ps_public_id x = ''p''"
    by (simp add: summary_def bundle_of_def sample_portal_def summary_of_def Let_def sample_row_def)
  have every: "traverse (summary sample_portal) ?rows = Inr [x]" by (simp add: rows x(1))
  have size: "1 \<le> pq_page_size default_query" by (simp add: default_query_def)
  obtain page where page: "\<forall>p. list_reports sample_portal (default_query\<lparr>pq_page := p\<rparr>) sample_shown = Inr (page p) \<and> pp_total (page p) = 1"
    and items: "concat (map (\<lambda>p. pp_items (page p)) [1..page_count 1 (pq_page_size default_query)]) = [x]"
    using report_pages_partition [OF size every] by auto
  have "page_count 1 (pq_page_size default_query) = 1" by (simp add: page_count_def default_query_def)
  with items have "pp_items (page 1) = [x]" by simp
  with page x(2) show ?thesis by blast
qed

theorem portal_shows_published_reports_witness:
  "\<exists>db r v. sample_publication = Inr db \<and> public_reports db = [r] \<and> base_rows db = [(r, v)] \<and>
     rt_current_version_id r = Some (vs_id v) \<and> publicly_backed sample_env db r"
proof -
  obtain db where db: "sample_publication = Inr db" "map rt_id (public_reports db) = [''r'']"
    by (rule sample_published)
  then obtain r where r: "public_reports db = [r]" by (cases "public_reports db") auto
  have "(report_step sample_env)\<^sup>*\<^sup>* (no_reports no_entities empty_store) db"
    using db(1) unfolding start_def by (blast intro: report_step.published)
  note shown = portal_shows_published_reports [OF this, of sample_portal default_query]
  then have "mset (map fst (base_rows db)) = {#r#}" by (simp add: r)
  then have "map fst (base_rows db) = [r]" by (metis mset_single_iff_right)
  then obtain v where "base_rows db = [(r, v)]" by auto
  with shown db(1) r show ?thesis by auto
qed

end
