(* ===== verification/Portal_Entities.thy ===== *)
theory Portal_Entities
  imports Portal_Facts Correlation_Store
begin

text \<open>
  The public entities and relationships: \<^verbatim>\<open>portal/entity_repository.py\<close> with its projections in
  \<^verbatim>\<open>portal/service.py\<close> and \<^verbatim>\<open>portal/entity_contracts.py\<close>.  An entity is public when a version of a
  published report names it.
\<close>

section \<open>Published membership\<close>

definition published_membership :: "report_db \<Rightarrow> string \<Rightarrow> uuid \<Rightarrow> bool" where
  "published_membership db t i = list_ex (\<lambda>x. rx_entity_type x = t \<and> rx_entity_id x = i \<and>
     list_ex (\<lambda>v. vs_id v = rx_report_version_id x \<and>
       list_ex (\<lambda>r. rt_id r = vs_report_id v \<and> rt_state r = ''published'') (rs_reports db)) (rs_versions db)) (rs_entities db)"

section \<open>Entities\<close>

record public_entity =
  pn_entity_type :: entity_type
  pn_entity_id :: uuid
  pn_public_key :: string
  pn_display_name :: string
  pn_first_seen_at :: "instant option"
  pn_last_seen_at :: "instant option"
  pn_source_count :: int
  pn_vulnerability :: "(string \<times> fval option) list option"

definition plain_entity :: "entity_type \<Rightarrow> uuid \<Rightarrow> string \<Rightarrow> string \<Rightarrow> instant option \<Rightarrow> instant option \<Rightarrow> int \<Rightarrow> public_entity" where
  "plain_entity t i key name since latest n = \<lparr>pn_entity_type = t, pn_entity_id = i, pn_public_key = key, pn_display_name = name,
     pn_first_seen_at = since, pn_last_seen_at = latest, pn_source_count = n, pn_vulnerability = None\<rparr>"

definition field_instant :: "vulnerability_row \<Rightarrow> string \<Rightarrow> instant option" where
  "field_instant v k = (case map_of (vr_fields v) k of Some (FInstant t) \<Rightarrow> Some t | _ \<Rightarrow> None)"

definition vulnerability_projection :: "vulnerability_row \<Rightarrow> (string \<times> fval option) list" where
  "vulnerability_projection v = map (\<lambda>k. (k, if k = ''cwe_ids'' \<and> map_of (vr_fields v) k = None then Some (FTexts []) else map_of (vr_fields v) k))
     [''cvss_score'', ''cvss_version'', ''cvss_vector'', ''epss_score'', ''epss_percentile'', ''cwe_ids'', ''known_exploited'',
      ''exploitation_state'', ''kev_date_added'', ''kev_due_date'', ''kev_required_action'']"

definition indicator_entity :: "indicator_row \<Rightarrow> public_entity" where
  "indicator_entity r = plain_entity ET_INDICATOR (in_id r) (in_safe_display_value r) (in_safe_display_value r) (in_first_seen_at r) (in_last_seen_at r) 0"

definition vulnerability_entity :: "vulnerability_row \<Rightarrow> public_entity" where
  "vulnerability_entity r = (plain_entity ET_VULNERABILITY (vr_id r) (vr_cve_id r) (vr_cve_id r)
     (field_instant r ''published_at'') (field_instant r ''modified_at'') 0)\<lparr>pn_vulnerability := Some (vulnerability_projection r)\<rparr>"

definition product_entity :: "product_row \<Rightarrow> public_entity" where
  "product_entity r = plain_entity ET_PRODUCT (pd_id r)
     (pd_normalized_vendor r @ ''|'' @ pd_normalized_product r @ ''|'' @ pd_ecosystem r) (pd_vendor r @ '' '' @ pd_product r) None None 0"

definition technique_entity :: "technique_row \<Rightarrow> public_entity" where
  "technique_entity r = plain_entity ET_TECHNIQUE (tq_id r) (tq_attack_id r @ ''|'' @ tq_framework_version r) (tq_name r) None None 0"

definition actor_entity :: "actor_row \<Rightarrow> public_entity" where
  "actor_entity r = plain_entity ET_ACTOR (ac_id r) (ac_normalized_name r) (ac_canonical_name r) (ac_first_seen_at r) (ac_last_seen_at r) (ac_source_count r)"

definition malware_entity :: "malware_row \<Rightarrow> public_entity" where
  "malware_entity r = plain_entity ET_MALWARE (ma_id r) (ma_normalized_name r) (ma_canonical_name r) (ma_first_seen_at r) (ma_last_seen_at r) 0"

definition tool_entity :: "tool_row \<Rightarrow> public_entity" where
  "tool_entity r = plain_entity ET_TOOL (to_id r) (to_normalized_name r) (to_name r) (to_first_seen_at r) (to_last_seen_at r) 0"

definition campaign_name :: "campaign_row \<Rightarrow> string" where
  "campaign_name r = (case cp_name r of None \<Rightarrow> cp_stable_key r | Some n \<Rightarrow> or_else n (cp_stable_key r))"

definition campaign_entity :: "campaign_row \<Rightarrow> public_entity" where
  "campaign_entity r = plain_entity ET_CAMPAIGN (cp_id r) (cp_stable_key r) (campaign_name r) (cp_start_at r) (cp_end_at r) 0"

definition infrastructure_entity :: "infrastructure_row \<Rightarrow> public_entity" where
  "infrastructure_entity r = plain_entity ET_INFRASTRUCTURE (if_id r) (if_normalized_identifier r) (if_normalized_identifier r)
     (if_first_seen_at r) (if_last_seen_at r) 0"

text \<open>\<^verbatim>\<open>s.split("|", n)\<close>.\<close>

fun split_bars :: "nat \<Rightarrow> string \<Rightarrow> string list" where
  "split_bars 0 s = [s]"
| "split_bars (Suc n) s = (let a = takeWhile (\<lambda>c. c \<noteq> CHR ''|'') s in
     if a = s then [s] else a # split_bars n (drop (Suc (length a)) s))"

text \<open>The first row of a query, in table order.\<close>

definition select_entity :: "report_db \<Rightarrow> ('r \<Rightarrow> public_entity) \<Rightarrow> ('r \<Rightarrow> bool) \<Rightarrow> 'r list \<Rightarrow> public_entity option" where
  "select_entity db shown p rows = map_option shown (List.find (\<lambda>r. p r \<and>
     published_membership db (entity_type_value (pn_entity_type (shown r))) (pn_entity_id (shown r))) rows)"

definition entity_by_key :: "report_db \<Rightarrow> entity_type \<Rightarrow> string \<Rightarrow> public_entity option" where
  "entity_by_key db t identifier = (let c = rs_catalogue db; s = rs_store db in case t of
       ET_INDICATOR \<Rightarrow> select_entity db indicator_entity (\<lambda>r. in_public_visibility r \<and> in_safe_display_value r = identifier) (db_indicators s)
     | ET_VULNERABILITY \<Rightarrow> select_entity db vulnerability_entity (\<lambda>r. vr_cve_id r = upper identifier) (db_vulnerabilities s)
     | ET_PRODUCT \<Rightarrow> (case split_bars 2 identifier of
           [v, p, e] \<Rightarrow> select_entity db product_entity (\<lambda>r. pd_normalized_vendor r = v \<and> pd_normalized_product r = p \<and> pd_ecosystem r = e) (en_products c)
         | _ \<Rightarrow> None)
     | ET_TECHNIQUE \<Rightarrow> (case split_bars 1 identifier of
           [a, f] \<Rightarrow> select_entity db technique_entity (\<lambda>r. tq_attack_id r = a \<and> tq_framework_version r = f) (en_techniques c)
         | _ \<Rightarrow> None)
     | ET_ACTOR \<Rightarrow> select_entity db actor_entity (\<lambda>r. ac_normalized_name r = identifier) (en_actors c)
     | ET_MALWARE \<Rightarrow> select_entity db malware_entity (\<lambda>r. ma_normalized_name r = identifier) (en_malware c)
     | ET_TOOL \<Rightarrow> select_entity db tool_entity (\<lambda>r. to_normalized_name r = identifier) (en_tools c)
     | ET_CAMPAIGN \<Rightarrow> select_entity db campaign_entity (\<lambda>r. cp_stable_key r = identifier) (en_campaigns c)
     | ET_INFRASTRUCTURE \<Rightarrow> select_entity db infrastructure_entity (\<lambda>r. if_normalized_identifier r = identifier) (en_infrastructure c)
     | ET_REPORT \<Rightarrow> None)"

definition get_public_entity :: "report_db \<Rightarrow> string \<Rightarrow> string \<Rightarrow> public_entity option" where
  "get_public_entity db t identifier = Option.bind (parse_enum entity_type_value entity_type_members t) (\<lambda>k. entity_by_key db k identifier)"

definition entity_by_id :: "report_db \<Rightarrow> entity_type \<Rightarrow> uuid \<Rightarrow> public_entity option" where
  "entity_by_id db t i = (let c = rs_catalogue db; s = rs_store db in case t of
       ET_INDICATOR \<Rightarrow> select_entity db indicator_entity (\<lambda>r. in_id r = i) (db_indicators s)
     | ET_VULNERABILITY \<Rightarrow> select_entity db vulnerability_entity (\<lambda>r. vr_id r = i) (db_vulnerabilities s)
     | ET_PRODUCT \<Rightarrow> select_entity db product_entity (\<lambda>r. pd_id r = i) (en_products c)
     | ET_TECHNIQUE \<Rightarrow> select_entity db technique_entity (\<lambda>r. tq_id r = i) (en_techniques c)
     | ET_ACTOR \<Rightarrow> select_entity db actor_entity (\<lambda>r. ac_id r = i) (en_actors c)
     | ET_MALWARE \<Rightarrow> select_entity db malware_entity (\<lambda>r. ma_id r = i) (en_malware c)
     | ET_TOOL \<Rightarrow> select_entity db tool_entity (\<lambda>r. to_id r = i) (en_tools c)
     | ET_CAMPAIGN \<Rightarrow> select_entity db campaign_entity (\<lambda>r. cp_id r = i) (en_campaigns c)
     | ET_INFRASTRUCTURE \<Rightarrow> select_entity db infrastructure_entity (\<lambda>r. if_id r = i) (en_infrastructure c)
     | ET_REPORT \<Rightarrow> None)"

section \<open>Relationships\<close>

record public_relationship =
  pr_source_end :: public_entity
  pr_relationship :: correlation_relationship
  pr_target_end :: public_entity

definition endpoint_is :: "entity_type \<Rightarrow> uuid \<Rightarrow> entity_ref \<Rightarrow> bool" where
  "endpoint_is t i r = (entity_ref.er_entity_type r = t \<and> entity_ref.er_entity_id r = i)"

definition endpoint_member :: "report_db \<Rightarrow> entity_ref \<Rightarrow> bool" where
  "endpoint_member db r = published_membership db (entity_type_value (entity_ref.er_entity_type r)) (entity_ref.er_entity_id r)"

definition publishable :: "report_db \<Rightarrow> correlation_relationship \<Rightarrow> bool" where
  "publishable db r = (cr_active r \<and> cr_review_state r = RV_REVIEWED \<and> endpoint_member db (cr_source r) \<and> endpoint_member db (cr_target r))"

definition with_endpoints :: "report_db \<Rightarrow> correlation_relationship \<Rightarrow> public_relationship option" where
  "with_endpoints db r = (case (entity_by_id db (entity_ref.er_entity_type (cr_source r)) (entity_ref.er_entity_id (cr_source r)),
        entity_by_id db (entity_ref.er_entity_type (cr_target r)) (entity_ref.er_entity_id (cr_target r))) of
       (Some a, Some b) \<Rightarrow> Some \<lparr>pr_source_end = a, pr_relationship = r, pr_target_end = b\<rparr>
     | _ \<Rightarrow> None)"

definition shown_relationships :: "report_db \<Rightarrow> int \<Rightarrow> (correlation_relationship \<Rightarrow> bool) \<Rightarrow> correlation_relationship list
    \<Rightarrow> public_relationship list" where
  "shown_relationships db limit p rels = List.map_filter (with_endpoints db)
     (take (nat (min limit 100)) (sort_key cr_relationship_id (filter (\<lambda>r. publishable db r \<and> p r) rels)))"

definition public_entity_relationships :: "report_db \<Rightarrow> correlation_db \<Rightarrow> (string \<times> string) option \<Rightarrow> int
    \<Rightarrow> public_relationship list" where
  "public_entity_relationships db cdb about limit = (case about of
       None \<Rightarrow> shown_relationships db limit (\<lambda>_. True) (cd_relationships cdb)
     | Some (t, identifier) \<Rightarrow> (case get_public_entity db t identifier of
           None \<Rightarrow> []
         | Some x \<Rightarrow> shown_relationships db limit (\<lambda>r. endpoint_is (pn_entity_type x) (pn_entity_id x) (cr_source r) \<or>
             endpoint_is (pn_entity_type x) (pn_entity_id x) (cr_target r)) (cd_relationships cdb)))"

section \<open>What is shown is published\<close>

lemma select_entity_Some:
  assumes "select_entity db shown p rows = Some x"
  shows "\<exists>r \<in> set rows. p r \<and> x = shown r \<and> published_membership db (entity_type_value (pn_entity_type x)) (pn_entity_id x)"
  using assms by (auto simp: select_entity_def find_Some_iff)

lemma plain_entity_simps [simp]:
  "pn_entity_type (plain_entity t i key name since latest n) = t" "pn_entity_id (plain_entity t i key name since latest n) = i"
  "pn_public_key (plain_entity t i key name since latest n) = key"
  by (simp_all add: plain_entity_def)

lemmas entity_views = indicator_entity_def vulnerability_entity_def product_entity_def technique_entity_def actor_entity_def
  malware_entity_def tool_entity_def campaign_entity_def infrastructure_entity_def

lemma entity_by_key_published:
  "entity_by_key db t identifier = Some x \<Longrightarrow> pn_entity_type x = t \<and> published_membership db (entity_type_value t) (pn_entity_id x)"
  by (cases t) (auto simp: entity_by_key_def Let_def entity_views dest!: select_entity_Some split: list.splits)

lemma entity_by_id_published:
  "entity_by_id db t i = Some x \<Longrightarrow> pn_entity_type x = t \<and> pn_entity_id x = i \<and> published_membership db (entity_type_value t) i"
  by (cases t) (auto simp: entity_by_id_def Let_def entity_views dest!: select_entity_Some)

lemma set_map_filter_some: "y \<in> set (List.map_filter f xs) \<longleftrightarrow> (\<exists>x \<in> set xs. f x = Some y)"
  by (induction xs) (auto simp: List.map_filter_def)

lemma length_map_filter_le: "length (List.map_filter f xs) \<le> length xs"
  by (simp add: List.map_filter_def)


section \<open>Public keys\<close>

lemma find_sole:
  assumes "r \<in> set rows" "p r" and sole: "\<And>x. x \<in> set rows \<Longrightarrow> p x \<Longrightarrow> x = r"
  shows "List.find p rows = Some r"
proof (cases "List.find p rows")
  case None
  then show ?thesis using assms(1,2) by (simp add: find_None_iff)
next
  case (Some r')
  then have "r' \<in> set rows" "p r'" by (auto simp: find_Some_iff)
  then show ?thesis using Some sole by simp
qed

lemma select_unique:
  assumes "select_entity db shown p rows = Some x" "unique_on key rows"
    and "\<And>r r'. r \<in> set rows \<Longrightarrow> r' \<in> set rows \<Longrightarrow> x = shown r \<Longrightarrow> q r' \<longleftrightarrow> key r' = key r"
  shows "select_entity db shown q rows = Some x"
proof -
  obtain r where r: "r \<in> set rows" "x = shown r" "published_membership db (entity_type_value (pn_entity_type x)) (pn_entity_id x)"
    using select_entity_Some [OF assms(1)] by blast
  let ?p = "\<lambda>r. q r \<and> published_membership db (entity_type_value (pn_entity_type (shown r))) (pn_entity_id (shown r))"
  have "r' = r" if "r' \<in> set rows" "q r'" for r'
    using that r assms(2,3) by (auto simp: unique_on_def distinct_map inj_on_def)
  moreover have "?p r" using r assms(3) by auto
  ultimately have "List.find ?p rows = Some r"
    using find_sole [of r rows ?p] r(1) by blast
  then show ?thesis by (simp add: select_entity_def r(2))
qed

declare split_bars.simps(2) [simp del]

lemma split_bars_one: "CHR ''|'' \<notin> set a \<Longrightarrow> split_bars (Suc n) (a @ CHR ''|'' # s) = a # split_bars n s"
proof -
  assume "CHR ''|'' \<notin> set a"
  then have "takeWhile (\<lambda>c. c \<noteq> CHR ''|'') (a @ CHR ''|'' # s) = a" by (subst takeWhile_append2) auto
  then show ?thesis by (simp add: split_bars.simps(2) Let_def del: takeWhile_append)
qed

definition keys_clean :: "report_db \<Rightarrow> bool" where
  "keys_clean db = (list_all (\<lambda>r. upper (vr_cve_id r) = vr_cve_id r) (db_vulnerabilities (rs_store db)) \<and>
     list_all (\<lambda>r. CHR ''|'' \<notin> set (pd_normalized_vendor r @ pd_normalized_product r)) (en_products (rs_catalogue db)) \<and>
     list_all (\<lambda>r. CHR ''|'' \<notin> set (tq_attack_id r)) (en_techniques (rs_catalogue db)))"

text \<open>C25. A public key leads back to its entity: whatever endpoint of a relationship the portal shows, other
  than an indicator or an infrastructure, asking for its type and public key gives the same entity,
  when no vendor, product or technique identifier contains a bar.\<close>

theorem public_key_resolves:
  assumes "entities_ok (rs_catalogue db)" and "unique_on vr_cve_id (db_vulnerabilities (rs_store db))" and "keys_clean db"
    and "entity_by_id db t i = Some x" and "t \<notin> {ET_INDICATOR, ET_INFRASTRUCTURE}"
  shows "get_public_entity db (entity_type_value t) (pn_public_key x) = Some x"
proof -
  note ok = assms(1) [unfolded entities_ok_def] and clean = assms(3) [unfolded keys_clean_def list_all_iff]
  have "entity_by_key db t (pn_public_key x) = Some x"
  proof (cases t)
    case ET_VULNERABILITY
    then have sel: "select_entity db vulnerability_entity (\<lambda>r. vr_id r = i) (db_vulnerabilities (rs_store db)) = Some x"
      using assms(4) by (simp add: entity_by_id_def Let_def)
    have "select_entity db vulnerability_entity (\<lambda>r. vr_cve_id r = upper (pn_public_key x)) (db_vulnerabilities (rs_store db)) = Some x"
      by (rule select_unique [OF sel assms(2)]) (use clean in \<open>auto simp: vulnerability_entity_def\<close>)
    with ET_VULNERABILITY show ?thesis by (simp add: entity_by_key_def Let_def)
  next
    case ET_PRODUCT
    then have sel: "select_entity db product_entity (\<lambda>r. pd_id r = i) (en_products (rs_catalogue db)) = Some x"
      using assms(4) by (simp add: entity_by_id_def Let_def)
    have parts: "split_bars 2 (pn_public_key x) = [pd_normalized_vendor r, pd_normalized_product r, pd_ecosystem r]"
      if "r \<in> set (en_products (rs_catalogue db))" "x = product_entity r" for r
      using that clean by (simp add: product_entity_def split_bars_one numeral_2_eq_2)
    obtain r where r: "r \<in> set (en_products (rs_catalogue db))" "x = product_entity r" using select_entity_Some [OF sel] by blast
    have "unique_on product_key (en_products (rs_catalogue db))" using ok by simp
    then have "select_entity db product_entity (\<lambda>r'. product_key r' = product_key r) (en_products (rs_catalogue db)) = Some x"
      by (rule select_unique [OF sel]) (use parts [OF r] parts in \<open>auto simp: product_key_def\<close>)
    with ET_PRODUCT parts [OF r] show ?thesis by (simp add: entity_by_key_def Let_def product_key_def)
  next
    case ET_TECHNIQUE
    then have sel: "select_entity db technique_entity (\<lambda>r. tq_id r = i) (en_techniques (rs_catalogue db)) = Some x"
      using assms(4) by (simp add: entity_by_id_def Let_def)
    have parts: "split_bars 1 (pn_public_key x) = [tq_attack_id r, tq_framework_version r]"
      if "r \<in> set (en_techniques (rs_catalogue db))" "x = technique_entity r" for r
      using that clean by (simp add: technique_entity_def split_bars_one numeral_2_eq_2)
    obtain r where r: "r \<in> set (en_techniques (rs_catalogue db))" "x = technique_entity r" using select_entity_Some [OF sel] by blast
    have "unique_on technique_key (en_techniques (rs_catalogue db))" using ok by simp
    then have "select_entity db technique_entity (\<lambda>r'. technique_key r' = technique_key r) (en_techniques (rs_catalogue db)) = Some x"
      by (rule select_unique [OF sel]) (use parts [OF r] parts in \<open>auto simp: technique_key_def\<close>)
    with ET_TECHNIQUE parts [OF r] show ?thesis by (simp add: entity_by_key_def Let_def technique_key_def)
  next
    case ET_ACTOR
    then have sel: "select_entity db actor_entity (\<lambda>r. ac_id r = i) (en_actors (rs_catalogue db)) = Some x"
      using assms(4) by (simp add: entity_by_id_def Let_def)
    have "unique_on ac_normalized_name (en_actors (rs_catalogue db))" using ok by simp
    from select_unique [OF sel this, of "\<lambda>r. ac_normalized_name r = pn_public_key x"] ET_ACTOR show ?thesis
      by (simp add: entity_by_key_def Let_def actor_entity_def)
  next
    case ET_MALWARE
    then have sel: "select_entity db malware_entity (\<lambda>r. ma_id r = i) (en_malware (rs_catalogue db)) = Some x"
      using assms(4) by (simp add: entity_by_id_def Let_def)
    have "unique_on ma_normalized_name (en_malware (rs_catalogue db))" using ok by simp
    from select_unique [OF sel this, of "\<lambda>r. ma_normalized_name r = pn_public_key x"] ET_MALWARE show ?thesis
      by (simp add: entity_by_key_def Let_def malware_entity_def)
  next
    case ET_TOOL
    then have sel: "select_entity db tool_entity (\<lambda>r. to_id r = i) (en_tools (rs_catalogue db)) = Some x"
      using assms(4) by (simp add: entity_by_id_def Let_def)
    have "unique_on to_normalized_name (en_tools (rs_catalogue db))" using ok by simp
    from select_unique [OF sel this, of "\<lambda>r. to_normalized_name r = pn_public_key x"] ET_TOOL show ?thesis
      by (simp add: entity_by_key_def Let_def tool_entity_def)
  next
    case ET_CAMPAIGN
    then have sel: "select_entity db campaign_entity (\<lambda>r. cp_id r = i) (en_campaigns (rs_catalogue db)) = Some x"
      using assms(4) by (simp add: entity_by_id_def Let_def)
    have "unique_on cp_stable_key (en_campaigns (rs_catalogue db))" using ok by simp
    from select_unique [OF sel this, of "\<lambda>r. cp_stable_key r = pn_public_key x"] ET_CAMPAIGN show ?thesis
      by (simp add: entity_by_key_def Let_def campaign_entity_def)
  qed (use assms(4,5) in \<open>auto simp: entity_by_id_def\<close>)
  then show ?thesis by (simp add: get_public_entity_def entity_type.parse_value)
qed

section \<open>What leaks\<close>

text \<open>Membership asks for the state of the report, not of the version: what only a draft version of a public
  report names is public too.\<close>

lemma draft_entities_public:
  assumes "x \<in> set (rs_entities db)" and "v \<in> set (rs_versions db)" and "vs_id v = rx_report_version_id x"
    and "r \<in> set (rs_reports db)" and "rt_id r = vs_report_id v" and "rt_state r = ''published''"
  shows "published_membership db (rx_entity_type x) (rx_entity_id x)"
  using assms by (auto simp: published_membership_def list_ex_iff)

text \<open>An indicator that is not for the public is still shown as the endpoint of a relationship.\<close>

lemma hidden_indicator_shown:
  assumes "unique_on in_id (db_indicators (rs_store db))" and "r \<in> set (db_indicators (rs_store db))"
    and "published_membership db ''indicator'' (in_id r)" and "\<not> in_public_visibility r"
  shows "entity_by_id db ET_INDICATOR (in_id r) = Some (indicator_entity r)"
proof -
  have "List.find (\<lambda>r'. in_id r' = in_id r \<and> published_membership db ''indicator'' (in_id r')) (db_indicators (rs_store db)) = Some r"
    using assms(1-3) by (intro find_sole) (auto simp: unique_on_def distinct_map inj_on_def)
  then show ?thesis by (simp add: entity_by_id_def select_entity_def indicator_entity_def)
qed

section \<open>A concrete actor\<close>

definition sample_actor :: actor_row where
  "sample_actor = \<lparr>ac_id = ''a1'', ac_canonical_name = ''APT-1'', ac_normalized_name = ''apt-1'', ac_aliases = [],
     ac_attribution_state = ''unknown'', ac_description = None, ac_first_seen_at = Some 3, ac_last_seen_at = Some 4,
     ac_source_count = 1\<rparr>"

definition sample_named :: report_db where
  "sample_named = sample_shown\<lparr>rs_catalogue := no_entities\<lparr>en_actors := [sample_actor]\<rparr>,
     rs_entities := [\<lparr>rx_id = ''x'', rx_report_version_id = ''1'', rx_entity_type = ''actor'', rx_entity_id = ''a1'', rx_role = ''actor''\<rparr>]\<rparr>"

lemma sample_named_member: "published_membership sample_named ''actor'' ''a1''"
  by (simp add: published_membership_def sample_named_def sample_shown_def new_version_def sample_bundle_def sample_row_def)

lemma sample_actor_shown: "entity_by_id sample_named ET_ACTOR ''a1'' = Some (actor_entity sample_actor)"
  using sample_named_member
  by (simp add: entity_by_id_def select_entity_def actor_entity_def sample_named_def sample_actor_def)

theorem public_key_resolves_witness: "get_public_entity sample_named ''actor'' ''apt-1'' = Some (actor_entity sample_actor)"
proof -
  have "entities_ok (rs_catalogue sample_named)"
    by (simp add: sample_named_def entities_ok_def no_entities_def unique_on_def sample_actor_def attribution_states_def)
  moreover have "unique_on vr_cve_id (db_vulnerabilities (rs_store sample_named))" "keys_clean sample_named"
    by (simp_all add: keys_clean_def sample_named_def sample_shown_def start_def no_reports_def no_entities_def Publication_Facts.empty_store_def unique_on_def)
  ultimately have "get_public_entity sample_named (entity_type_value ET_ACTOR) (pn_public_key (actor_entity sample_actor)) =
      Some (actor_entity sample_actor)"
    by (rule public_key_resolves [OF _ _ _ sample_actor_shown]) simp
  then show ?thesis by (simp add: actor_entity_def sample_actor_def)
qed


end
