(* ===== verification/Candidate_Ledger.thy ===== *)
theory Candidate_Ledger
  imports Report_Store
begin

text \<open>
  The ledger of publication candidates: \<^verbatim>\<open>analyst/candidate_ledger.py\<close> over the table
  \<^verbatim>\<open>publication_candidate\<close> of \<^verbatim>\<open>db/models.py\<close>, with the record contract of
  \<^verbatim>\<open>analyst/contracts.py\<close>.  \<open>le_uuid5\<close> is UUIDv5 in the ledger's namespace and \<open>le_ellipsis\<close> the
  character U+2026.
\<close>

record ledger_env =
  le_uuid5 :: "string \<Rightarrow> uuid"
  le_ellipsis :: char

definition CANDIDATE_LIFECYCLE_STATES :: "string list" where
  "CANDIDATE_LIFECYCLE_STATES = [''identified'', ''researching'', ''blocked'', ''validated'', ''submitted'', ''published'', ''failed'']"

record candidate_entry =
  cd_candidate_id :: uuid
  cd_run_id :: uuid
  cd_event_identity :: string
  cd_event_type :: string
  cd_rank :: int
  cd_lifecycle :: string
  cd_evidence_ids :: "uuid list"
  cd_source_urls :: "string list"
  cd_enrichment_state :: string
  cd_validation_state :: string
  cd_publication_state :: string
  cd_published_public_id :: "string option"
  cd_failure_reason :: "string option"
  cd_retry_eligible :: bool
  cd_attempts :: int
  cd_report_id :: "uuid option"
  cd_report_version_id :: "uuid option"

definition at_most :: "nat \<Rightarrow> string \<Rightarrow> string result" where
  "at_most n s = (if length (strip s) \<le> n then Inr (strip s) else Inl (ValueError ''max_length''))"

definition optional_at_most :: "nat \<Rightarrow> string option \<Rightarrow> string option result" where
  "optional_at_most n v = (case v of None \<Rightarrow> Inr None | Some s \<Rightarrow> rbind (at_most n s) (\<lambda>t. Inr (Some t)))"

definition CandidateRecord :: "candidate_entry \<Rightarrow> candidate_entry result" where
  "CandidateRecord c =
     rbind (bounded_text 255 (cd_event_identity c)) (\<lambda>ev.
     rbind (bounded_text 64 (cd_event_type c)) (\<lambda>ty.
     rbind (check (1 \<le> cd_rank c) ''rank'') (\<lambda>_.
     rbind (bounded_text 32 (cd_lifecycle c)) (\<lambda>l.
     rbind (check (l \<in> set CANDIDATE_LIFECYCLE_STATES) ''lifecycle'') (\<lambda>_.
     rbind (at_most 64 (cd_enrichment_state c)) (\<lambda>es.
     rbind (at_most 64 (cd_validation_state c)) (\<lambda>vs.
     rbind (at_most 64 (cd_publication_state c)) (\<lambda>ps.
     rbind (optional_at_most 64 (cd_published_public_id c)) (\<lambda>pid.
     rbind (optional_at_most 1024 (cd_failure_reason c)) (\<lambda>why.
     rbind (check (0 \<le> cd_attempts c) ''attempts'') (\<lambda>_.
       Inr (c\<lparr>cd_event_identity := ev, cd_event_type := ty, cd_lifecycle := l, cd_source_urls := map strip (cd_source_urls c),
         cd_enrichment_state := es, cd_validation_state := vs, cd_publication_state := ps,
         cd_published_public_id := pid, cd_failure_reason := why\<rparr>))))))))))))"

section \<open>The table\<close>

record candidate_row =
  cw_record :: candidate_entry
  cw_created_at :: instant
  cw_updated_at :: instant

definition ledger_key :: "candidate_row \<Rightarrow> uuid \<times> string" where
  "ledger_key w = (cd_run_id (cw_record w), cd_event_identity (cw_record w))"

definition ledger_ident :: "candidate_row \<Rightarrow> uuid" where
  "ledger_ident w = cd_candidate_id (cw_record w)"

text \<open>The update sets every column but the identifiers and the creation time.\<close>

definition overwrite_candidate :: "candidate_row \<Rightarrow> candidate_row \<Rightarrow> candidate_row" where
  "overwrite_candidate old new = \<lparr>cw_record = (cw_record new)\<lparr>cd_candidate_id := cd_candidate_id (cw_record old),
       cd_run_id := cd_run_id (cw_record old), cd_event_identity := cd_event_identity (cw_record old)\<rparr>,
     cw_created_at = cw_created_at old, cw_updated_at = cw_updated_at new\<rparr>"

definition candidate_fits :: "candidate_entry \<Rightarrow> bool" where
  "candidate_fits c = (varchar 255 (cd_event_identity c) \<and> varchar 64 (cd_event_type c) \<and> pg_int (cd_rank c) \<and>
     varchar 32 (cd_lifecycle c) \<and> list_all pg_text (cd_source_urls c) \<and> varchar 64 (cd_enrichment_state c) \<and>
     varchar 64 (cd_validation_state c) \<and> varchar 64 (cd_publication_state c) \<and>
     nullable (varchar 1024) (cd_failure_reason c) \<and> nullable (varchar 64) (cd_published_public_id c) \<and> pg_int (cd_attempts c))"

definition candidate_checks :: "candidate_entry \<Rightarrow> bool" where
  "candidate_checks c = (cd_lifecycle c \<in> set CANDIDATE_LIFECYCLE_STATES \<and> 0 \<le> cd_attempts c)"

definition candidate_refs :: "report_db \<Rightarrow> candidate_entry \<Rightarrow> bool" where
  "candidate_refs db c = (has_row ir_id (cd_run_id c) (db_runs (rs_store db)) \<and>
     nullable (\<lambda>i. has_row rt_id i (rs_reports db)) (cd_report_id c) \<and>
     nullable (version_stored db) (cd_report_version_id c))"

section \<open>Operations\<close>

definition candidate_identity :: "ledger_env \<Rightarrow> uuid \<Rightarrow> string \<Rightarrow> uuid" where
  "candidate_identity e run_id event = le_uuid5 e (''candidate:'' @ run_id @ '':'' @ event)"

definition FAILURE_REASON_MAX_CHARS :: nat where
  "FAILURE_REASON_MAX_CHARS = 1024"

definition shortened_reason :: "ledger_env \<Rightarrow> string option \<Rightarrow> string option" where
  "shortened_reason e r = map_option (\<lambda>s. if FAILURE_REASON_MAX_CHARS < length s
     then take (FAILURE_REASON_MAX_CHARS - 1) s @ [le_ellipsis e] else s) r"

definition recorded :: "ledger_env \<Rightarrow> candidate_entry \<Rightarrow> candidate_entry" where
  "recorded e c = c\<lparr>cd_failure_reason := shortened_reason e (cd_failure_reason c)\<rparr>"

definition upsert_candidate_row :: "report_db \<Rightarrow> candidate_row \<Rightarrow> candidate_row list \<Rightarrow> store_error + candidate_row list" where
  "upsert_candidate_row db w rows =
     rbind (guard (candidate_fits (cw_record w)) DataError) (\<lambda>_.
     rbind (guard (candidate_checks (cw_record w)) IntegrityError) (\<lambda>_.
     rbind (upsert_checked ledger_ident ledger_key overwrite_candidate w rows) (\<lambda>rows'.
     rbind (guard (candidate_refs db (cw_record w)) IntegrityError) (\<lambda>_. Inr rows'))))"

definition ledger_upsert :: "ledger_env \<Rightarrow> report_db \<Rightarrow> instant \<Rightarrow> candidate_entry \<Rightarrow> candidate_row list \<Rightarrow> store_error + candidate_row list" where
  "ledger_upsert e db now c rows =
     (if cd_lifecycle c \<notin> set CANDIDATE_LIFECYCLE_STATES then Inl (BadValue ''unknown candidate lifecycle'')
      else if cd_candidate_id c \<noteq> candidate_identity e (cd_run_id c) (cd_event_identity c)
      then Inl (BadValue ''candidate_id must equal candidate_identity(run_id, event_identity)'')
      else upsert_candidate_row db \<lparr>cw_record = recorded e c,
             cw_created_at = now, cw_updated_at = now\<rparr> rows)"

definition of_run :: "uuid \<Rightarrow> candidate_row list \<Rightarrow> candidate_row list" where
  "of_run run_id rows = filter (\<lambda>w. cd_run_id (cw_record w) = run_id) rows"

definition list_for_run :: "uuid \<Rightarrow> string option \<Rightarrow> int \<Rightarrow> candidate_row list \<Rightarrow> candidate_row list" where
  "list_for_run run_id lifecycle limit rows =
     take (nat (max 1 (min limit 200))) (sort_key (\<lambda>w. (cd_rank (cw_record w), cd_candidate_id (cw_record w)))
       (filter (\<lambda>w. case lifecycle of None \<Rightarrow> True | Some l \<Rightarrow> cd_lifecycle (cw_record w) = l) (of_run run_id rows)))"

record ledger_summary =
  lm_run_id :: uuid
  lm_total :: int
  lm_counts :: "(string \<times> int) list"
  lm_retry_eligible :: int
  lm_published_ids :: "string list"

text \<open>One group for each lifecycle state that occurs, with its size and its retryable rows.\<close>

definition lifecycle_groups :: "candidate_row list \<Rightarrow> (string \<times> int \<times> int) list" where
  "lifecycle_groups rows = map (\<lambda>l. let own = filter (\<lambda>w. cd_lifecycle (cw_record w) = l) rows in
       (l, int (length own), int (length (filter (\<lambda>w. cd_retry_eligible (cw_record w)) own))))
     (sorted_unique (map (\<lambda>w. cd_lifecycle (cw_record w)) rows))"

definition ledger_summary_of :: "uuid \<Rightarrow> candidate_row list \<Rightarrow> ledger_summary" where
  "ledger_summary_of run_id rows =
     (let gs = lifecycle_groups (of_run run_id rows) in
      \<lparr>lm_run_id = run_id, lm_total = sum_list (map (\<lambda>(l, n, r). n) gs), lm_counts = map (\<lambda>(l, n, r). (l, n)) gs,
       lm_retry_eligible = sum_list (map (\<lambda>(l, n, r). r) gs),
       lm_published_ids = List.map_filter (\<lambda>w. cd_published_public_id (cw_record w))
         (sort_key (\<lambda>w. cd_rank (cw_record w)) (filter (\<lambda>w. cd_lifecycle (cw_record w) = ''published'') (of_run run_id rows)))\<rparr>)"

section \<open>What the ledger keeps\<close>

interpretation ledger: identified_table ledger_key overwrite_candidate ledger_ident
  by unfold_locales (auto simp: ledger_key_def ledger_ident_def overwrite_candidate_def)

definition ledger_ok :: "ledger_env \<Rightarrow> report_db \<Rightarrow> candidate_row list \<Rightarrow> bool" where
  "ledger_ok e db rows = (unique_on ledger_key rows \<and> unique_on ledger_ident rows \<and>
     list_all (\<lambda>w. candidate_checks (cw_record w) \<and> candidate_fits (cw_record w) \<and> candidate_refs db (cw_record w) \<and>
       cd_candidate_id (cw_record w) = candidate_identity e (cd_run_id (cw_record w)) (cd_event_identity (cw_record w))) rows)"

lemma recorded_simps [simp]:
  "cd_run_id (recorded e c) = cd_run_id c" "cd_event_identity (recorded e c) = cd_event_identity c"
  "cd_candidate_id (recorded e c) = cd_candidate_id c" "cd_lifecycle (recorded e c) = cd_lifecycle c"
  "cd_attempts (recorded e c) = cd_attempts c" "candidate_checks (recorded e c) = candidate_checks c"
  "candidate_refs db (recorded e c) = candidate_refs db c"
  by (simp_all add: recorded_def candidate_checks_def candidate_refs_def)

text \<open>A record that its contract has accepted is stored as it is: its reason is short enough.\<close>

lemma optional_at_most_short: "optional_at_most n v = Inr (Some s) \<Longrightarrow> length s \<le> n"
  by (auto simp: optional_at_most_def at_most_def rbind_Inr_iff split: option.splits if_splits)

lemma recorded_short: "nullable (\<lambda>s. length s \<le> 1024) (cd_failure_reason c) \<Longrightarrow> recorded e c = c"
  by (cases c) (auto simp: recorded_def shortened_reason_def FAILURE_REASON_MAX_CHARS_def nullable_def split: option.splits)

lemma recorded_accepted: "CandidateRecord c0 = Inr c \<Longrightarrow> recorded e c = c"
proof (rule recorded_short)
  assume "CandidateRecord c0 = Inr c"
  then obtain v where "optional_at_most 1024 v = Inr (cd_failure_reason c)"
    unfolding CandidateRecord_def rbind_Inr_iff by (elim exE conjE) auto
  then show "nullable (\<lambda>s. length s \<le> 1024) (cd_failure_reason c)"
    by (cases "cd_failure_reason c") (simp_all add: optional_at_most_short)
qed

lemma ledger_upsert_Inr:
  "ledger_upsert e db now c rows = Inr rows' \<longleftrightarrow>
     upsert_checked ledger_ident ledger_key overwrite_candidate
       \<lparr>cw_record = recorded e c, cw_created_at = now, cw_updated_at = now\<rparr> rows = Inr rows' \<and>
     candidate_fits (recorded e c) \<and> candidate_checks c \<and> candidate_refs db c \<and>
     cd_candidate_id c = candidate_identity e (cd_run_id c) (cd_event_identity c)"
  by (auto simp: ledger_upsert_def upsert_candidate_row_def rbind_Inr_iff candidate_checks_def)

lemma overwrite_same:
  "ledger_key old = ledger_key new \<Longrightarrow> ledger_ident old = ledger_ident new \<Longrightarrow>
     cw_record (overwrite_candidate old new) = cw_record new"
  by (cases "cw_record new") (auto simp: overwrite_candidate_def ledger_key_def ledger_ident_def)

lemma ledger_upsert_find:
  assumes "ledger_ok e db rows" and "ledger_upsert e db now c rows = Inr rows'"
  shows "\<exists>w. find_row ledger_key (cd_run_id c, cd_event_identity c) rows' = Some w \<and> cw_record w = recorded e c \<and> cw_updated_at w = now"
    and "k \<noteq> (cd_run_id c, cd_event_identity c) \<Longrightarrow> find_row ledger_key k rows' = find_row ledger_key k rows"
proof -
  let ?w = "\<lparr>cw_record = recorded e c, cw_created_at = now, cw_updated_at = now\<rparr>"
  have key: "ledger_key ?w = (cd_run_id c, cd_event_identity c)" by (simp add: ledger_key_def)
  have up: "rows' = upsert ledger_key overwrite_candidate ?w rows"
    using assms(2) ledger.checked_cases [of ?w rows rows'] by (simp add: ledger_upsert_Inr)
  show "k \<noteq> (cd_run_id c, cd_event_identity c) \<Longrightarrow> find_row ledger_key k rows' = find_row ledger_key k rows"
    by (simp add: up ledger.upsert_find key)
  show "\<exists>w. find_row ledger_key (cd_run_id c, cd_event_identity c) rows' = Some w \<and> cw_record w = recorded e c \<and> cw_updated_at w = now"
  proof (cases "find_row ledger_key (cd_run_id c, cd_event_identity c) rows")
    case None
    then show ?thesis by (simp add: up ledger.upsert_find key)
  next
    case (Some old)
    then have old: "old \<in> set rows" "ledger_key old = ledger_key ?w" by (auto simp: key dest: find_row_Some)
    then have "ledger_ident old = ledger_ident ?w"
      using assms by (auto simp: ledger_ok_def list_all_iff ledger_upsert_Inr ledger_ident_def ledger_key_def)
    from overwrite_same [OF old(2) this] Some show ?thesis
      by (simp add: up ledger.upsert_find key) (simp add: overwrite_candidate_def)
  qed
qed

text \<open>C22. The ledger holds one row for each event of a run, under the identifier computed from it, with a
  declared state, no negative attempts, texts its columns can hold and references that resolve;
  recording a candidate keeps it so, leaves every other event alone, and stores the candidate as it was
  given, only a reason of more than 1024 characters shortened.\<close>

theorem ledger_upsert_keeps:
  assumes "ledger_ok e db rows" and "ledger_upsert e db now c rows = Inr rows'"
  shows "ledger_ok e db rows' \<and>
     (\<exists>w. find_row ledger_key (cd_run_id c, cd_event_identity c) rows' = Some w \<and> cw_record w = recorded e c \<and> cw_updated_at w = now) \<and>
     (\<forall>k. k \<noteq> (cd_run_id c, cd_event_identity c) \<longrightarrow> find_row ledger_key k rows' = find_row ledger_key k rows)"
proof -
  have up: "unique_on ledger_key rows' \<and> unique_on ledger_ident rows'"
    using assms ledger.checked_unique by (auto simp: ledger_ok_def ledger_upsert_Inr)
  have "candidate_checks (cw_record x) \<and> candidate_fits (cw_record x) \<and> candidate_refs db (cw_record x) \<and>
      cd_candidate_id (cw_record x) = candidate_identity e (cd_run_id (cw_record x)) (cd_event_identity (cw_record x))"
    if x: "x \<in> set rows'" for x
  proof (cases "ledger_key x = (cd_run_id c, cd_event_identity c)")
    case True
    then have "find_row ledger_key (cd_run_id c, cd_event_identity c) rows' = Some x"
      using find_row_unique [of ledger_key rows' x] up x by simp
    with ledger_upsert_find(1) [OF assms] assms(2) show ?thesis by (auto simp: ledger_upsert_Inr)
  next
    case False
    have "find_row ledger_key (ledger_key x) rows' = Some x"
      using find_row_unique [of ledger_key rows' x] up x by simp
    then have "x \<in> set rows"
      using ledger_upsert_find(2) [OF assms False] find_row_Some by fastforce
    with assms(1) show ?thesis by (simp add: ledger_ok_def list_all_iff)
  qed
  with up show ?thesis
    using ledger_upsert_find [OF assms] by (simp add: ledger_ok_def list_all_iff)
qed

text \<open>Nothing keeps a published candidate published: a later record for the same event takes its state
  and its public identifier back.\<close>

lemma published_candidate_reopened:
  assumes "ledger_ok e db rows" and "find_row ledger_key k rows = Some w" and "cd_lifecycle (cw_record w) = ''published''"
    and "cd_failure_reason (cw_record w) = None"
  shows "\<exists>rows' w'. ledger_upsert e db now ((cw_record w)\<lparr>cd_lifecycle := ''identified'', cd_published_public_id := None\<rparr>) rows = Inr rows' \<and>
     find_row ledger_key k rows' = Some w' \<and> cd_lifecycle (cw_record w') = ''identified'' \<and> cd_published_public_id (cw_record w') = None"
proof -
  let ?c = "(cw_record w)\<lparr>cd_lifecycle := ''identified'', cd_published_public_id := None\<rparr>"
  have w: "w \<in> set rows" "k = (cd_run_id ?c, cd_event_identity ?c)" using find_row_Some [OF assms(2)] by (auto simp: ledger_key_def)
  have rec: "recorded e ?c = ?c" using assms(4) by (simp add: recorded_def shortened_reason_def)
  have row: "candidate_checks (cw_record w)" "candidate_fits (cw_record w)" "candidate_refs db (cw_record w)"
    "cd_candidate_id (cw_record w) = candidate_identity e (cd_run_id (cw_record w)) (cd_event_identity (cw_record w))"
    using assms(1) w(1) by (auto simp: ledger_ok_def list_all_iff)
  then have "candidate_checks ?c" "candidate_fits ?c" "candidate_refs db ?c"
    by (auto simp: candidate_checks_def candidate_fits_def candidate_refs_def CANDIDATE_LIFECYCLE_STATES_def varchar_def pg_text_def)
  moreover have "has_row ledger_key (ledger_key \<lparr>cw_record = ?c, cw_created_at = now, cw_updated_at = now\<rparr>) rows"
    using assms(2) w(2) by (simp add: has_row_find ledger_key_def)
  ultimately have "\<exists>rows'. ledger_upsert e db now ?c rows = Inr rows'"
    using row(4) by (simp add: ledger_upsert_Inr rec upsert_checked_def)
  then obtain rows' where r: "ledger_upsert e db now ?c rows = Inr rows'" ..
  from ledger_upsert_find(1) [OF assms(1) r] rec w(2) obtain w' where
    "find_row ledger_key k rows' = Some w'" "cw_record w' = ?c" by auto
  with r show ?thesis by auto
qed

section \<open>Accounting\<close>

lemma sum_by_value:
  assumes "finite K" "f ` set xs \<subseteq> K"
  shows "(\<Sum>k \<in> K. int (length (filter (\<lambda>x. f x = k \<and> p x) xs))) = int (length (filter p xs))"
  using assms(2)
proof (induction xs)
  case (Cons x xs)
  have "(\<Sum>k \<in> K. int (length (filter (\<lambda>x. f x = k \<and> p x) (x # xs))))
      = (\<Sum>k \<in> K. (if k = f x then (if p x then 1 else 0) else 0) + int (length (filter (\<lambda>x. f x = k \<and> p x) xs)))"
    by (rule sum.cong) auto
  also have "\<dots> = (if p x then 1 else 0) + int (length (filter p xs))"
    using Cons assms(1) by (simp add: sum.distrib sum.delta)
  finally show ?case by simp
qed simp

lemma groups_total:
  "sum_list (map (\<lambda>k. int (length (filter (\<lambda>x. f x = k \<and> p x) xs))) (sorted_unique (map f xs))) = int (length (filter p xs))"
  by (subst sum_list_distinct_conv_sum_set) (simp_all add: sum_by_value)

text \<open>The summary of a run accounts for all of its candidates: the total is the number of its rows, each
  state's count is the number of rows in that state and only states that occur are listed, and the
  retryable number counts the rows marked so.\<close>

theorem ledger_summary_accounts:
  "lm_total (ledger_summary_of run_id rows) = int (length (of_run run_id rows)) \<and>
   (\<forall>(l, n) \<in> set (lm_counts (ledger_summary_of run_id rows)).
      n = int (length (filter (\<lambda>w. cd_lifecycle (cw_record w) = l) (of_run run_id rows))) \<and> 0 < n) \<and>
   fst ` set (lm_counts (ledger_summary_of run_id rows)) = (\<lambda>w. cd_lifecycle (cw_record w)) ` set (of_run run_id rows) \<and>
   lm_retry_eligible (ledger_summary_of run_id rows) = int (length (filter (\<lambda>w. cd_retry_eligible (cw_record w)) (of_run run_id rows)))"
proof -
  let ?l = "\<lambda>w. cd_lifecycle (cw_record w)" and ?rows = "of_run run_id rows"
  have "lm_total (ledger_summary_of run_id rows) = int (length ?rows)"
    using groups_total [of ?l "\<lambda>_. True" ?rows] by (simp add: ledger_summary_of_def lifecycle_groups_def Let_def comp_def)
  moreover have "lm_retry_eligible (ledger_summary_of run_id rows) = int (length (filter (\<lambda>w. cd_retry_eligible (cw_record w)) ?rows))"
    using groups_total [of ?l "\<lambda>w. cd_retry_eligible (cw_record w)" ?rows]
    by (simp add: ledger_summary_of_def lifecycle_groups_def Let_def comp_def conj_commute)
  moreover have "lm_counts (ledger_summary_of run_id rows) =
      map (\<lambda>l. (l, int (length (filter (\<lambda>w. ?l w = l) ?rows)))) (sorted_unique (map ?l ?rows))"
    by (simp add: ledger_summary_of_def lifecycle_groups_def Let_def comp_def)
  ultimately show ?thesis by (auto simp: image_image filter_empty_conv)
qed

section \<open>A recorded candidate\<close>

definition ledger_run :: run_row where
  "ledger_run = \<lparr>ir_id = ''r'', ir_run_type = ''daily'', ir_idempotency_key = ''k'', ir_scheduled_for = None,
     ir_started_at = Some 0, ir_completed_at = Some 1, ir_status = RS_COMPLETED, ir_triggering_origin = ''o'',
     ir_application_version = ''1'', ir_configuration_hash = ''h'', ir_total_sources = 1, ir_successful_sources = 1,
     ir_failed_sources = 0, ir_new_documents = 1,
     ir_new_findings = 1, ir_error_summary = None\<rparr>"

definition ledger_reports :: report_db where
  "ledger_reports = \<lparr>rs_reports = [], rs_versions = [], rs_entities = [], rs_hunts = [], rs_remediations = [],
     rs_detections = [], rs_publications = [], rs_model_runs = [],
     rs_catalogue = \<lparr>en_actors = [], en_malware = [], en_tools = [], en_campaigns = [], en_infrastructure = [],
       en_products = [], en_techniques = []\<rparr>,
     rs_store = \<lparr>db_runs = [ledger_run], db_sources = [], db_history = [], db_source_runs = [], db_artifacts = [],
       db_documents = [], db_indicators = [], db_sightings = [], db_vulnerabilities = [], db_claims = [], db_evidence = []\<rparr>\<rparr>"

definition sample_ledger :: ledger_env where
  "sample_ledger = \<lparr>le_uuid5 = id, le_ellipsis = CHR ''.''\<rparr>"

definition sample_candidate :: "string \<Rightarrow> candidate_entry" where
  "sample_candidate state = \<lparr>cd_candidate_id = ''candidate:r:e'', cd_run_id = ''r'', cd_event_identity = ''e'', cd_event_type = ''t'',
     cd_rank = 1, cd_lifecycle = state, cd_evidence_ids = [], cd_source_urls = [], cd_enrichment_state = ''unknown'',
     cd_validation_state = ''not_run'', cd_publication_state = ''not_published'', cd_published_public_id = None,
     cd_failure_reason = None, cd_retry_eligible = True, cd_attempts = 0, cd_report_id = None, cd_report_version_id = None\<rparr>"

lemma sample_recorded:
  "map_sum id (map (\<lambda>w. cd_lifecycle (cw_record w)))
     (rbind (ledger_upsert sample_ledger ledger_reports 1 (sample_candidate ''identified'') [])
       (ledger_upsert sample_ledger ledger_reports 2 (sample_candidate ''blocked''))) = Inr [''blocked'']"
  by code_simp

theorem ledger_upsert_keeps_witness:
  "\<exists>rows1 rows2 w. ledger_upsert sample_ledger ledger_reports 1 (sample_candidate ''identified'') [] = Inr rows1 \<and>
     ledger_upsert sample_ledger ledger_reports 2 (sample_candidate ''blocked'') rows1 = Inr rows2 \<and>
     ledger_ok sample_ledger ledger_reports rows2 \<and> find_row ledger_key (''r'', ''e'') rows2 = Some w \<and>
     cw_record w = sample_candidate ''blocked''"
proof -
  obtain rows1 rows2 where r: "ledger_upsert sample_ledger ledger_reports 1 (sample_candidate ''identified'') [] = Inr rows1"
    "ledger_upsert sample_ledger ledger_reports 2 (sample_candidate ''blocked'') rows1 = Inr rows2"
    using sample_recorded by (cases "ledger_upsert sample_ledger ledger_reports 1 (sample_candidate ''identified'') []")
      (auto simp: map_sum_def split: sum.splits)
  have key: "(cd_run_id (sample_candidate ''blocked''), cd_event_identity (sample_candidate ''blocked'')) = (''r'', ''e'')"
    and same: "recorded sample_ledger (sample_candidate ''blocked'') = sample_candidate ''blocked''"
    by (simp_all add: sample_candidate_def recorded_def shortened_reason_def)
  have "ledger_ok sample_ledger ledger_reports []" by (simp add: ledger_ok_def)
  then have "ledger_ok sample_ledger ledger_reports rows1" using ledger_upsert_keeps r(1) by blast
  from ledger_upsert_keeps [OF this r(2)] r show ?thesis unfolding key same by blast
qed

end
