(* ===== verification/Analyst_Api.thy ===== *)
theory Analyst_Api
  imports Candidate_Ledger
begin

text \<open>
  The writing routes of \<^verbatim>\<open>analyst/routes.py\<close>: the submission of a report, which composes validation and
  the report store in one transaction, and the recording of a publication candidate.  A raised
  \<^verbatim>\<open>HTTPException\<close> is its status with its text; an exception no handler catches ends in a server
  error.
\<close>

datatype api_error = Http int string | Unhandled pipeline_error

record report_submission =
  sb_bundle :: report_bundle
  sb_publish :: bool

record submission_response =
  sp_report_id :: uuid
  sp_report_version_id :: uuid
  sp_state :: string
  sp_public_url :: "string option"
  sp_validation :: "validation_manifest option"

text \<open>The bundle as it is stored: publishing approves it.\<close>

definition submitted_bundle :: "report_submission \<Rightarrow> api_error + report_bundle" where
  "submitted_bundle s = (let b = sb_bundle s in
     if sb_publish s
     then (if rb_state b = RP_PUBLISHED then Inl (Http 422 ''published state is server-owned'') else Inr (b\<lparr>rb_state := RP_APPROVED\<rparr>))
     else if rb_state b \<noteq> RP_DRAFT then Inl (Http 422 ''draft submissions must use state=draft'') else Inr b)"

definition checked_manifest :: "report_env \<Rightarrow> bool \<Rightarrow> report_bundle \<Rightarrow> api_error + validation_manifest option" where
  "checked_manifest e publishing b =
     (if \<not> publishing then Inr None
      else (case validate e b of
          Inl (ValueError msg) \<Rightarrow> Inl (Http 422 msg) | Inl x \<Rightarrow> Inl (Unhandled (Refused x)) | Inr m \<Rightarrow> Inr (Some m)))"

definition conflicting_version :: "report_env \<Rightarrow> report_bundle \<Rightarrow> report_db \<Rightarrow> bool" where
  "conflicting_version e b db = (case find_row vs_id (rb_report_version_id b) (rs_versions db) of
       None \<Rightarrow> False | Some v \<Rightarrow> vs_structured_content v \<noteq> rn_structured e b)"

definition response_for :: "report_bundle \<Rightarrow> validation_manifest option \<Rightarrow> report_db \<Rightarrow> submission_response" where
  "response_for b m db = (let r = the (existing_report b (rs_reports db)) in
     \<lparr>sp_report_id = rt_id r, sp_report_version_id = rb_report_version_id b, sp_state = rt_state r,
      sp_public_url = (if rt_state r = ''published'' then Some (''/reports/'' @ rt_slug r) else None), sp_validation = m\<rparr>)"

definition submit_report :: "report_env \<Rightarrow> instant \<Rightarrow> report_submission \<Rightarrow> report_db \<Rightarrow> api_error + report_db \<times> submission_response" where
  "submit_report e now s db =
     rbind (submitted_bundle s) (\<lambda>b.
     rbind (checked_manifest e (sb_publish s) b) (\<lambda>m.
       if conflicting_version e b db then Inl (Http 409 ''report version ID already contains different content'')
       else (case (if sb_publish s then publish e now b db else save_draft e now b db) of
           Inl x \<Rightarrow> Inl (Unhandled x) | Inr db' \<Rightarrow> Inr (db', response_for b m db'))))"

definition upsert_candidate :: "ledger_env \<Rightarrow> report_db \<Rightarrow> instant \<Rightarrow> uuid \<Rightarrow> candidate_entry \<Rightarrow> candidate_row list
    \<Rightarrow> api_error + candidate_row list" where
  "upsert_candidate e db now candidate_id c rows =
     (let expected = candidate_identity e (cd_run_id c) (cd_event_identity c) in
      if candidate_id \<noteq> expected \<or> cd_candidate_id c \<noteq> expected
      then Inl (Http 422 ''candidate_id must equal candidate_identity(run_id, event_identity)'')
      else if \<not> has_row ir_id (cd_run_id c) (db_runs (rs_store db)) then Inl (Http 422 ''unknown ingestion run'')
      else (case ledger_upsert e db now c rows of Inl x \<Rightarrow> Inl (Unhandled (Store_Failed x)) | Inr rows' \<Rightarrow> Inr rows'))"

end
