(* ===== verification/Analyst_Facts.thy ===== *)
theory Analyst_Facts
  imports Analyst_Api Publication_Facts
begin

text \<open>
  Submitting reports through the analyst API: what is public was validated with exactly the content that is
  stored, and a version saved as a draft stays a draft.
\<close>

section \<open>Submissions\<close>

inductive submission_step :: "report_env \<Rightarrow> report_db \<Rightarrow> report_db \<Rightarrow> bool" for e where
  submission: "submit_report e now s db = Inr (db', r) \<Longrightarrow> submission_step e db db'"

lemma submit_report_Inr:
  "submit_report e now s db = Inr (db', r) \<longleftrightarrow> (\<exists>b m. submitted_bundle s = Inr b \<and> checked_manifest e (sb_publish s) b = Inr m \<and>
     \<not> conflicting_version e b db \<and> (if sb_publish s then publish e now b db else save_draft e now b db) = Inr db' \<and>
     r = response_for b m db')"
proof (cases "submitted_bundle s")
  case b: (Inr b)
  show ?thesis
  proof (cases "checked_manifest e (sb_publish s) b")
    case m: (Inr m)
    show ?thesis
      by (cases "if sb_publish s then publish e now b db else save_draft e now b db")
        (auto simp: submit_report_def b m)
  qed (auto simp: submit_report_def b)
qed (simp add: submit_report_def)

lemma submission_report_step: "submission_step e db db' \<Longrightarrow> report_step e db db'"
  by (auto simp: submission_step.simps submit_report_Inr intro: report_step.intros split: if_splits)

lemma submissions_report_steps: "(submission_step e)\<^sup>*\<^sup>* db db' \<Longrightarrow> (report_step e)\<^sup>*\<^sup>* db db'"
  by (rule rtranclp_mono [THEN predicate2D]) (auto intro: submission_report_step)

section \<open>Public content is validated content\<close>

definition content_validated :: "report_env \<Rightarrow> report_db \<Rightarrow> publication_row \<Rightarrow> bool" where
  "content_validated e db x = (\<exists>v \<in> set (rs_versions db). \<exists>b m. vs_id v = pu_report_version_id x \<and>
     vs_structured_content v = rn_structured e b \<and> rb_report_version_id b = vs_id v \<and> rb_state b = RP_APPROVED \<and>
     validate e b = Inr m \<and> pu_validation_manifest x = Some m)"

lemma content_validated_extends: "extends db db' \<Longrightarrow> content_validated e db x \<Longrightarrow> content_validated e db' x"
proof -
  assume "extends db db'" and c: "content_validated e db x"
  then have "set (rs_versions db) \<subseteq> set (rs_versions db')" by (auto simp: extends_def prefix_def)
  with c show ?thesis unfolding content_validated_def by blast
qed

lemma publish_validated:
  assumes "publish e now b db = Inr db'" "\<not> conflicting_version e b db" "list_all (content_validated e db) (rs_publications db)"
  shows "list_all (content_validated e db') (rs_publications db')"
proof -
  obtain m rd where v: "rb_state b = RP_APPROVED" "validate e b = Inr m" "persist_bundle e b (Some m) (Some rd) True now db = Inr db'"
    using assms(1) by (auto simp: publish_Inr)
  then obtain db1 r pending db2 where parts: "save_report b True now db = Inr (db1, r, pending)"
    "save_version e b (Some m) (Some rd) True (rt_id r) db1 = Inr db2" "rs_versions db' = rs_versions db2" "extends db db'"
    "published_row e b (Some m) db db'"
    by (elim persist_bundle_parts) auto
  have db1: "rs_versions db1 = rs_versions db" using save_report_Inr [OF parts(1)] by (cases db1) auto
  have "\<exists>w \<in> set (rs_versions db'). vs_id w = rb_report_version_id b \<and> vs_structured_content w = rn_structured e b"
  proof (cases "find_row vs_id (rb_report_version_id b) (rs_versions db)")
    case None
    then show ?thesis
      using save_version_Inr [OF parts(2)] by (auto simp: parts(3) db1 find_row_None new_version_def)
  next
    case (Some w)
    then have "vs_structured_content w = rn_structured e b" using assms(2) by (simp add: conflicting_version_def)
    moreover have "w \<in> set (rs_versions db')" "vs_id w = rb_report_version_id b"
      using find_row_Some [OF Some] parts(4) by (auto simp: extends_def prefix_def)
    ultimately show ?thesis by blast
  qed
  then have new: "content_validated e db' x" if "publication_for e b (Some m) x" for x
    using that v(1,2) by (force simp: content_validated_def publication_for_def)
  have "content_validated e db' x" if "x \<in> set (rs_publications db')" for x
  proof -
    from that parts(5) have "x \<in> set (rs_publications db) \<or> publication_for e b (Some m) x"
      by (auto simp: published_row_def)
    with new assms(3) content_validated_extends [OF parts(4)] show ?thesis by (auto simp: list_all_iff)
  qed
  then show ?thesis by (simp add: list_all_iff)
qed

lemma draft_publications: "save_draft e now b db = Inr db' \<Longrightarrow> rs_publications db' = rs_publications db \<and> extends db db'"
  by (auto simp: save_draft_Inr elim!: persist_bundle_parts)

lemma submission_validated:
  assumes "submission_step e db db'" "list_all (content_validated e db) (rs_publications db)"
  shows "list_all (content_validated e db') (rs_publications db')"
  using assms
proof (cases rule: submission_step.cases)
  case (submission now s r)
  then obtain b where "\<not> conflicting_version e b db"
    "(if sb_publish s then publish e now b db else save_draft e now b db) = Inr db'"
    by (auto simp: submit_report_Inr)
  then show ?thesis
    using assms(2) publish_validated [of e now b db db'] draft_publications [of e now b db db'] content_validated_extends [of db db' e]
    by (auto simp: list_all_iff split: if_splits)
qed

text \<open>C1. What the API made public was validated as it is stored: over any history of submissions every
  publication belongs to a stored version whose content is that of an approved bundle, under the same
  version identifier, which passed validation with the recorded manifest; and every public report has
  a current version with such a publication.\<close>

theorem submissions_publish_validated_content:
  assumes "(submission_step e)\<^sup>*\<^sup>* (no_reports c s) db"
  shows "list_all (content_validated e db) (rs_publications db) \<and>
    (\<forall>r \<in> set (public_reports db). \<exists>x \<in> set (rs_publications db). pu_id x = rn_uuid5 e (the (rt_current_version_id r)) ''publication'' \<and>
       content_validated e db x)"
proof -
  have all: "list_all (content_validated e db) (rs_publications db)"
    using assms
  proof (induction rule: rtranclp_induct)
    case base
    show ?case by (simp add: no_reports_def)
  qed (rule submission_validated)
  have "reports_ok e db" using steps_ok [OF submissions_report_steps [OF assms] no_reports_ok] .
  then have "publicly_backed e db r" if "r \<in> set (public_reports db)" for r
    using that by (simp add: reports_ok_def public_reports_def list_all_iff)
  then show ?thesis using all
    by (fastforce simp: publicly_backed_def has_row_iff list_all_iff split: option.splits)
qed

text \<open>C24. A version saved as a draft is never published under its own identifier: since the stored content
  contains the state, a submission that publishes other content under that identifier is refused with a
  conflict before anything is written.\<close>

theorem draft_version_not_published:
  assumes "find_row vs_id (rb_report_version_id (sb_bundle s)) (rs_versions db) = Some v"
    and "vs_structured_content v = rn_structured e d" and "rb_state d = RP_DRAFT"
    and "sb_publish s" and "rb_state (sb_bundle s) \<noteq> RP_PUBLISHED"
    and "validate e ((sb_bundle s)\<lparr>rb_state := RP_APPROVED\<rparr>) = Inr m"
    and "\<And>b b'. rn_structured e b = rn_structured e b' \<Longrightarrow> rb_state b = rb_state b'"
  shows "submit_report e now s db = Inl (Http 409 ''report version ID already contains different content'')"
proof -
  have "vs_structured_content v \<noteq> rn_structured e ((sb_bundle s)\<lparr>rb_state := RP_APPROVED\<rparr>)"
    using assms(2,3) assms(7) [of d "(sb_bundle s)\<lparr>rb_state := RP_APPROVED\<rparr>"] by auto
  then show ?thesis
    using assms(1,4,5,6) by (simp add: submit_report_def submitted_bundle_def checked_manifest_def conflicting_version_def)
qed

section \<open>Concrete submissions\<close>

text \<open>The stored content shows the state of the bundle.\<close>

definition stating_env :: report_env where
  "stating_env = sample_env\<lparr>rn_structured := \<lambda>b. JStr (report_state_value (rb_state b))\<rparr>"

lemma sample_submission:
  "case submit_report stating_env 5 \<lparr>sb_bundle = sample_bundle ''1'' 1 RP_DRAFT, sb_publish = True\<rparr> start of Inl _ \<Rightarrow> False
   | Inr (db, r) \<Rightarrow> map rt_id (public_reports db) = [''r''] \<and> sp_public_url r = Some ''/reports/s'' \<and> map pu_id (rs_publications db) = [''1/publication'']"
  by code_simp

theorem submissions_publish_validated_content_witness:
  "\<exists>db r x. submit_report stating_env 5 \<lparr>sb_bundle = sample_bundle ''1'' 1 RP_DRAFT, sb_publish = True\<rparr> start = Inr (db, r) \<and>
     rs_publications db = [x] \<and> public_reports db \<noteq> [] \<and> content_validated stating_env db x"
proof -
  obtain db r where s: "submit_report stating_env 5 \<lparr>sb_bundle = sample_bundle ''1'' 1 RP_DRAFT, sb_publish = True\<rparr> start = Inr (db, r)"
    and m: "map rt_id (public_reports db) = [''r'']" "map pu_id (rs_publications db) = [''1/publication'']"
    using sample_submission
    by (cases "submit_report stating_env 5 \<lparr>sb_bundle = sample_bundle ''1'' 1 RP_DRAFT, sb_publish = True\<rparr> start") auto
  have "(submission_step stating_env)\<^sup>*\<^sup>* (no_reports no_entities empty_store) db"
    using s unfolding start_def by (blast intro: submission_step.intros)
  from submissions_publish_validated_content [OF this] m s show ?thesis by (auto simp: list_all_iff)
qed

lemma sample_draft_submission:
  "case submit_report stating_env 5 \<lparr>sb_bundle = sample_bundle ''1'' 1 RP_DRAFT, sb_publish = False\<rparr> start of Inl _ \<Rightarrow> False
   | Inr (db, r) \<Rightarrow> map (\<lambda>v. (vs_id v, vs_structured_content v)) (rs_versions db) = [(''1'', JStr ''draft'')]"
  by code_simp

lemma sample_valid: "ok (validate stating_env (sample_bundle ''1'' 1 RP_APPROVED))"
  by code_simp

lemma report_state_value_inj: "report_state_value s = report_state_value s' \<Longrightarrow> s = s'"
  by (cases s; cases s') simp_all

theorem draft_version_not_published_witness:
  "\<exists>db r. submit_report stating_env 5 \<lparr>sb_bundle = sample_bundle ''1'' 1 RP_DRAFT, sb_publish = False\<rparr> start = Inr (db, r) \<and>
     submit_report stating_env 9 \<lparr>sb_bundle = sample_bundle ''1'' 1 RP_DRAFT, sb_publish = True\<rparr> db
       = Inl (Http 409 ''report version ID already contains different content'')"
proof -
  let ?b = "sample_bundle ''1'' 1 RP_DRAFT"
  obtain db r v where s: "submit_report stating_env 5 \<lparr>sb_bundle = ?b, sb_publish = False\<rparr> start = Inr (db, r)"
    and v: "rs_versions db = [v]" "vs_id v = ''1''" "vs_structured_content v = JStr ''draft''"
    using sample_draft_submission
    by (cases "submit_report stating_env 5 \<lparr>sb_bundle = ?b, sb_publish = False\<rparr> start") auto
  have b: "rb_report_version_id ?b = ''1''" "rb_state ?b = RP_DRAFT" "?b\<lparr>rb_state := RP_APPROVED\<rparr> = sample_bundle ''1'' 1 RP_APPROVED"
    by (simp_all add: sample_bundle_def)
  have stated: "rn_structured stating_env d = JStr (report_state_value (rb_state d))" for d
    by (simp add: stating_env_def)
  have "\<exists>m. validate stating_env (?b\<lparr>rb_state := RP_APPROVED\<rparr>) = Inr m"
    using sample_valid by (simp add: b ok_iff)
  then obtain m where m: "validate stating_env (?b\<lparr>rb_state := RP_APPROVED\<rparr>) = Inr m" ..
  have "submit_report stating_env 9 \<lparr>sb_bundle = ?b, sb_publish = True\<rparr> db
      = Inl (Http 409 ''report version ID already contains different content'')"
    by (rule draft_version_not_published [where v = v and d = ?b and m = m])
      (simp_all add: b(1,2) v m stated report_state_value_inj)
  with s show ?thesis by blast
qed

end
