(* ===== verification/Py_Base64.thy ===== *)
theory Py_Base64
  imports Hermes_Prelude
begin

text \<open>
  The URL-safe base64 of Python's \<^verbatim>\<open>base64\<close>: \<^verbatim>\<open>urlsafe_b64encode\<close>, and the lenient decoder behind
  \<^verbatim>\<open>urlsafe_b64decode\<close>, which skips what is outside the alphabet and stops at a complete padding.
  A byte is a character below 256.
\<close>

section \<open>The alphabet\<close>

definition urlsafe_char :: "int \<Rightarrow> char" where
  "urlsafe_char k = char_of (if k < 26 then k + 65 else if k < 52 then k + 71 else if k < 62 then k - 4
     else if k = 62 then 45 else 95)"

definition urlsafe_value :: "char \<Rightarrow> int option" where
  "urlsafe_value c = (let n = code c in
     if 65 \<le> n \<and> n \<le> 90 then Some (n - 65) else if 97 \<le> n \<and> n \<le> 122 then Some (n - 71)
     else if 48 \<le> n \<and> n \<le> 57 then Some (n + 4) else if n = 43 \<or> n = 45 then Some 62
     else if n = 47 \<or> n = 95 then Some 63 else None)"

section \<open>Encoding\<close>

fun b64_body :: "string \<Rightarrow> string" where
  "b64_body [] = []"
| "b64_body [x] = [urlsafe_char (code x div 4), urlsafe_char (code x mod 4 * 16)]"
| "b64_body [x, y] = [urlsafe_char (code x div 4), urlsafe_char (code x mod 4 * 16 + code y div 16), urlsafe_char (code y mod 16 * 4)]"
| "b64_body (x # y # z # bytes) = urlsafe_char (code x div 4) # urlsafe_char (code x mod 4 * 16 + code y div 16) #
     urlsafe_char (code y mod 16 * 4 + code z div 64) # urlsafe_char (code z mod 64) # b64_body bytes"

definition padding :: "string \<Rightarrow> string" where
  "padding s = replicate (nat ((- int (length s)) mod 4)) (CHR ''='')"

definition urlsafe_b64encode :: "string \<Rightarrow> string" where
  "urlsafe_b64encode bytes = b64_body bytes @ padding (b64_body bytes)"

section \<open>Decoding\<close>

text \<open>The decoder's position in the quadruple, the bits left over, and the padding seen.\<close>

fun a2b :: "int \<Rightarrow> int \<Rightarrow> int \<Rightarrow> string \<Rightarrow> string option" where
  "a2b q l p [] = (if q = 0 then Some [] else None)"
| "a2b q l p (c # s) =
     (if c = CHR ''='' then (if 2 \<le> q \<and> 4 \<le> q + (p + 1) then Some [] else a2b q l (if 2 \<le> q then p + 1 else p) s)
      else (case urlsafe_value c of None \<Rightarrow> a2b q l p s
        | Some v \<Rightarrow>
            if q = 0 then a2b 1 v 0 s
            else if q = 1 then map_option (Cons (char_of (l * 4 + v div 16))) (a2b 2 (v mod 16) 0 s)
            else if q = 2 then map_option (Cons (char_of (l * 16 + v div 4))) (a2b 3 (v mod 4) 0 s)
            else map_option (Cons (char_of (l * 64 + v))) (a2b 0 0 0 s)))"

text \<open>A text with a character outside ASCII is refused before decoding.\<close>

definition urlsafe_b64decode :: "string \<Rightarrow> string option" where
  "urlsafe_b64decode s = (if list_all (\<lambda>c. code c < 128) s then a2b 0 0 0 s else None)"

section \<open>The round trip\<close>

lemma char_of_code [simp]: "char_of (code c) = c"
  by (simp add: code_def)

lemma urlsafe_char_code: "0 \<le> k \<Longrightarrow> k < 64 \<Longrightarrow> code (urlsafe_char k) =
    (if k < 26 then k + 65 else if k < 52 then k + 71 else if k < 62 then k - 4 else if k = 62 then 45 else 95)"
  by (simp add: urlsafe_char_def code_char_of)

lemma urlsafe_value_char [simp]: "0 \<le> k \<Longrightarrow> k < 64 \<Longrightarrow> urlsafe_value (urlsafe_char k) = Some k"
  by (auto simp: urlsafe_value_def urlsafe_char_code Let_def)

lemma urlsafe_char_ascii: "0 \<le> k \<Longrightarrow> k < 64 \<Longrightarrow> code (urlsafe_char k) < 128 \<and> urlsafe_char k \<noteq> CHR ''=''"
proof -
  assume k: "0 \<le> k" "k < 64"
  have "urlsafe_char k \<noteq> CHR ''=''"
  proof
    assume "urlsafe_char k = CHR ''=''"
    then have "urlsafe_value (CHR ''='') = Some k" using k by (metis urlsafe_value_char)
    then show False by (simp add: urlsafe_value_def code_def)
  qed
  with k show ?thesis by (simp add: urlsafe_char_code)
qed

lemma code_range: "0 \<le> code c" "code c < 256"
  using code_less [of c] by simp_all

lemma split_below:
  fixes n :: int
  assumes "0 \<le> n" "n < 256"
  shows "0 \<le> n div 4 \<and> n div 4 < 64" "0 \<le> n div 16 \<and> n div 16 < 16" "0 \<le> n div 64 \<and> n div 64 < 4"
    "0 \<le> n mod 4 \<and> n mod 4 < 4" "0 \<le> n mod 16 \<and> n mod 16 < 16" "0 \<le> n mod 64 \<and> n mod 64 < 64"
proof -
  have "n \<le> 255" using assms by simp
  then show "0 \<le> n div 4 \<and> n div 4 < 64" "0 \<le> n div 16 \<and> n div 16 < 16" "0 \<le> n div 64 \<and> n div 64 < 4"
    using zdiv_mono1 [of n 255 4] zdiv_mono1 [of n 255 16] zdiv_mono1 [of n 255 64] assms(1)
    by (simp_all add: pos_imp_zdiv_nonneg_iff)
qed simp_all

lemmas split_byte = split_below [OF code_range]

lemma glued:
  "0 \<le> (i :: int) \<and> i < 4 \<Longrightarrow> 0 \<le> i * 16 \<and> i * 16 < 64" "0 \<le> (i :: int) \<and> i < 16 \<Longrightarrow> 0 \<le> i * 4 \<and> i * 4 < 64"
  "0 \<le> (i :: int) \<and> i < 4 \<Longrightarrow> 0 \<le> j \<and> j < 16 \<Longrightarrow> 0 \<le> i * 16 + j \<and> i * 16 + j < 64"
  "0 \<le> (i :: int) \<and> i < 16 \<Longrightarrow> 0 \<le> j \<and> j < 4 \<Longrightarrow> 0 \<le> i * 4 + j \<and> i * 4 + j < 64"
  by linarith+

lemma sextets:
  "0 \<le> code x div 4 \<and> code x div 4 < 64" "0 \<le> code x mod 64 \<and> code x mod 64 < 64"
  "0 \<le> code x mod 4 * 16 \<and> code x mod 4 * 16 < 64" "0 \<le> code x mod 16 * 4 \<and> code x mod 16 * 4 < 64"
  "0 \<le> code x mod 4 * 16 + code y div 16 \<and> code x mod 4 * 16 + code y div 16 < 64"
  "0 \<le> code x mod 16 * 4 + code y div 64 \<and> code x mod 16 * 4 + code y div 64 < 64"
  by (rule split_byte glued split_byte)+

lemma unglue: "0 \<le> c \<Longrightarrow> c < k \<Longrightarrow> (b * k + c) div k = (b :: int) \<and> (b * k + c) mod k = c"
  by simp

lemma octets:
  "code x div 4 * 4 + (code x mod 4 * 16 + code y div 16) div 16 = code x"
  "(code x mod 4 * 16 + code y div 16) mod 16 * 16 + (code y mod 16 * 4 + code z div 64) div 4 = code y"
  "(code y mod 16 * 4 + code z div 64) mod 4 * 64 + code z mod 64 = code z"
  using unglue [of "code y div 16" 16 "code x mod 4"] unglue [of "code z div 64" 4 "code y mod 16"] split_byte [of y] split_byte [of z]
  by simp_all

lemma octets_short:
  "code x div 4 * 4 + (code x mod 4 * 16) div 16 = code x"
  "(code x mod 4 * 16 + code y div 16) mod 16 * 16 + (code y mod 16 * 4) div 4 = code y"
  using unglue [of "code y div 16" 16 "code x mod 4"] split_byte [of y] by simp_all

lemma a2b_char: "0 \<le> k \<Longrightarrow> k < 64 \<Longrightarrow> a2b q l p (urlsafe_char k # s) =
    (if q = 0 then a2b 1 k 0 s
     else if q = 1 then map_option (Cons (char_of (l * 4 + k div 16))) (a2b 2 (k mod 16) 0 s)
     else if q = 2 then map_option (Cons (char_of (l * 16 + k div 4))) (a2b 3 (k mod 4) 0 s)
     else map_option (Cons (char_of (l * 64 + k))) (a2b 0 0 0 s))"
  by (simp add: urlsafe_char_ascii)

lemmas sextet_bounds = sextets [THEN conjunct1] sextets [THEN conjunct2]

lemma quadruple:
  assumes "0 \<le> k" "k < 64" "0 \<le> l" "l < 64" "0 \<le> m" "m < 64" "0 \<le> n" "n < 64"
  shows "a2b 0 0 0 (urlsafe_char k # urlsafe_char l # urlsafe_char m # urlsafe_char n # s) =
    map_option (\<lambda>t. char_of (k * 4 + l div 16) # char_of (l mod 16 * 16 + m div 4) # char_of (m mod 4 * 64 + n) # t) (a2b 0 0 0 s)"
  using assms by (simp add: a2b_char option.map_comp comp_def del: a2b.simps(2))

lemma short_quadruple:
  assumes "0 \<le> k" "k < 64" "0 \<le> l" "l < 64"
  shows "a2b 0 0 0 [urlsafe_char k, urlsafe_char l, CHR ''='', CHR ''=''] = Some [char_of (k * 4 + l div 16)]"
  using assms by (simp add: a2b_char del: a2b.simps(2)) simp

lemma long_quadruple:
  assumes "0 \<le> k" "k < 64" "0 \<le> l" "l < 64" "0 \<le> m" "m < 64"
  shows "a2b 0 0 0 [urlsafe_char k, urlsafe_char l, urlsafe_char m, CHR ''=''] =
    Some [char_of (k * 4 + l div 16), char_of (l mod 16 * 16 + m div 4)]"
  using assms by (simp add: a2b_char del: a2b.simps(2)) simp

lemma minus_mod_four: "(- int (n + 4)) mod 4 = (- int n) mod 4"
  by presburger

lemma three_more: "length (x # y # z # bytes) mod 3 = length bytes mod 3"
proof -
  have "length (x # y # z # bytes) = length bytes + 3" by simp
  then show ?thesis by (metis mod_add_self2)
qed

lemma length_body: "(- int (length (b64_body bytes))) mod 4 = (if length bytes mod 3 = 1 then 2 else if length bytes mod 3 = 2 then 1 else 0)"
proof (induction bytes rule: b64_body.induct)
  case (4 x y z bytes)
  have "length (b64_body (x # y # z # bytes)) = length (b64_body bytes) + 4" by simp
  note this three_more [of x y z bytes]
  with 4 show ?case by (simp only: minus_mod_four)
qed simp_all

lemma padding_body: "padding (b64_body bytes) =
    (if length bytes mod 3 = 1 then ''=='' else if length bytes mod 3 = 2 then ''='' else [])"
  by (simp add: padding_def length_body numeral_2_eq_2)

lemma a2b_body: "a2b 0 0 0 (b64_body bytes @ (if length bytes mod 3 = 1 then ''=='' else if length bytes mod 3 = 2 then ''='' else [])) = Some bytes"
proof (induction bytes rule: b64_body.induct)
  case (2 x)
  have "a2b 0 0 0 [urlsafe_char (code x div 4), urlsafe_char (code x mod 4 * 16), CHR ''='', CHR ''=''] = Some [x]"
    by (simp only: short_quadruple sextet_bounds octets_short char_of_code)
  then show ?case by simp
next
  case (3 x y)
  have "a2b 0 0 0 [urlsafe_char (code x div 4), urlsafe_char (code x mod 4 * 16 + code y div 16), urlsafe_char (code y mod 16 * 4), CHR ''=''] = Some [x, y]"
    by (simp only: long_quadruple sextet_bounds octets(1) octets_short(2) char_of_code)
  then show ?case by simp
next
  case (4 x y z bytes)
  note three_more [of x y z bytes]
  with 4 show ?case
    by (simp only: b64_body.simps append_Cons quadruple sextet_bounds octets char_of_code option.map)
qed simp

lemma body_ascii: "c \<in> set (b64_body bytes) \<Longrightarrow> code c < 128 \<and> c \<noteq> CHR ''=''"
proof (induction bytes rule: b64_body.induct)
  case (4 x y z bytes)
  then show ?case by (auto simp only: b64_body.simps list.set insert_iff urlsafe_char_ascii sextet_bounds)
qed (auto simp only: b64_body.simps list.set insert_iff empty_iff urlsafe_char_ascii sextet_bounds)

lemma rstrip_padding: "rstrip_by (\<lambda>c. c = CHR ''='') (urlsafe_b64encode bytes) = b64_body bytes"
proof -
  let ?p = "\<lambda>c. c = CHR ''=''"
  have "dropWhile ?p (rev (padding (b64_body bytes)) @ rev (b64_body bytes)) = dropWhile ?p (rev (b64_body bytes))"
    by (rule dropWhile_append2) (simp add: padding_def)
  also have "\<dots> = rev (b64_body bytes)"
  proof (cases "b64_body bytes" rule: rev_cases)
    case (snoc xs c)
    then have "c \<noteq> CHR ''=''" using body_ascii [of c bytes] by simp
    with snoc show ?thesis by simp
  qed simp
  finally show ?thesis by (simp add: rstrip_by_def urlsafe_b64encode_def)
qed

lemma decode_encode:
  "urlsafe_b64decode (rstrip_by (\<lambda>c. c = CHR ''='') (urlsafe_b64encode bytes) @
     padding (rstrip_by (\<lambda>c. c = CHR ''='') (urlsafe_b64encode bytes))) = Some bytes"
  using body_ascii [of _ bytes] a2b_body [of bytes]
  by (auto simp: rstrip_padding urlsafe_b64decode_def padding_body list_all_iff code_def)

end
