(* ===== verification/Corpus_Query.thy ===== *)
theory Corpus_Query
  imports Portal_Entities Py_Base64 Analyst_Api Py_Regex
begin

text \<open>
  The private corpus an analyst reads: the query contract of \<^verbatim>\<open>analyst/contracts.py\<close>, the keyset
  cursors, filters and projections of \<^verbatim>\<open>analyst/corpus_repository.py\<close>, and the route
  \<^verbatim>\<open>/corpus/{resource}\<close> of \<^verbatim>\<open>analyst/routes.py\<close>.  The \<^verbatim>\<open>json\<close>, \<^verbatim>\<open>datetime\<close> and \<^verbatim>\<open>uuid\<close> codecs
  and the database's case folding are parameters.
\<close>

section \<open>Resources and queries\<close>

datatype corpus_resource = CQ_CVES | CQ_IOCS | CQ_PRODUCTS | CQ_ACTORS | CQ_MALWARE | CQ_TOOLS | CQ_CAMPAIGNS | CQ_TECHNIQUES
  | CQ_URLS | CQ_EVIDENCE | CQ_RELATIONSHIPS | CQ_CONTRADICTIONS

fun corpus_resource_value :: "corpus_resource \<Rightarrow> string" where
  "corpus_resource_value CQ_CVES = ''cves''"
| "corpus_resource_value CQ_IOCS = ''iocs''"
| "corpus_resource_value CQ_PRODUCTS = ''products''"
| "corpus_resource_value CQ_ACTORS = ''actors''"
| "corpus_resource_value CQ_MALWARE = ''malware''"
| "corpus_resource_value CQ_TOOLS = ''tools''"
| "corpus_resource_value CQ_CAMPAIGNS = ''campaigns''"
| "corpus_resource_value CQ_TECHNIQUES = ''techniques''"
| "corpus_resource_value CQ_URLS = ''urls''"
| "corpus_resource_value CQ_EVIDENCE = ''evidence''"
| "corpus_resource_value CQ_RELATIONSHIPS = ''relationships''"
| "corpus_resource_value CQ_CONTRADICTIONS = ''contradictions''"

definition corpus_resource_members :: "corpus_resource list" where
  "corpus_resource_members = [CQ_CVES, CQ_IOCS, CQ_PRODUCTS, CQ_ACTORS, CQ_MALWARE, CQ_TOOLS, CQ_CAMPAIGNS, CQ_TECHNIQUES,
     CQ_URLS, CQ_EVIDENCE, CQ_RELATIONSHIPS, CQ_CONTRADICTIONS]"

interpretation corpus_resource: str_enum corpus_resource_value corpus_resource_members
proof
  show "e \<in> set corpus_resource_members" for e by (cases e) (simp_all add: corpus_resource_members_def)
  show "distinct (map corpus_resource_value corpus_resource_members)" by code_simp
qed

record corpus_query =
  cq_limit :: int
  cq_cursor :: "string option"
  cq_search :: "string option"
  cq_record_status :: "string option"
  cq_review_state :: "review_state option"
  cq_published :: "bool option"
  cq_entity_type :: "entity_type option"
  cq_entity_id :: "uuid option"
  cq_source_id :: "string option"
  cq_cve_id :: "string option"
  cq_indicator_type :: "string option"
  cq_value :: "string option"
  cq_vendor :: "string option"
  cq_product :: "string option"
  cq_ecosystem :: "string option"
  cq_attack_id :: "string option"
  cq_framework_version :: "string option"
  cq_relationship_type :: "string option"

definition clean_filter :: "string option \<Rightarrow> string option" where
  "clean_filter v = Option.bind v (\<lambda>s. if strip s = [] then None else Some (strip s))"

definition cleaned_query :: "corpus_query \<Rightarrow> corpus_query" where
  "cleaned_query q = q\<lparr>cq_search := clean_filter (cq_search q), cq_source_id := clean_filter (cq_source_id q),
     cq_cve_id := clean_filter (cq_cve_id q), cq_indicator_type := clean_filter (cq_indicator_type q),
     cq_value := clean_filter (cq_value q), cq_vendor := clean_filter (cq_vendor q), cq_product := clean_filter (cq_product q),
     cq_ecosystem := clean_filter (cq_ecosystem q), cq_attack_id := clean_filter (cq_attack_id q),
     cq_framework_version := clean_filter (cq_framework_version q), cq_relationship_type := clean_filter (cq_relationship_type q)\<rparr>"

definition chars_at_most :: "nat \<Rightarrow> string option \<Rightarrow> bool" where
  "chars_at_most n v = (case v of None \<Rightarrow> True | Some s \<Rightarrow> length s \<le> n)"

definition lengths_fit :: "corpus_query \<Rightarrow> bool" where
  "lengths_fit q = (1 \<le> cq_limit q \<and> cq_limit q \<le> 100 \<and> chars_at_most 512 (cq_cursor q) \<and> chars_at_most 200 (cq_search q) \<and>
     chars_at_most 128 (cq_source_id q) \<and> chars_at_most 32 (cq_cve_id q) \<and> chars_at_most 64 (cq_indicator_type q) \<and> chars_at_most 1024 (cq_value q) \<and>
     chars_at_most 255 (cq_vendor q) \<and> chars_at_most 255 (cq_product q) \<and> chars_at_most 128 (cq_ecosystem q) \<and> chars_at_most 32 (cq_attack_id q) \<and>
     chars_at_most 32 (cq_framework_version q) \<and> chars_at_most 128 (cq_relationship_type q))"

definition filters_fit :: "corpus_query \<Rightarrow> bool" where
  "filters_fit q = (lengths_fit q \<and> (case cq_record_status q of None \<Rightarrow> True | Some s \<Rightarrow> s \<in> set record_status_values) \<and>
     (cq_entity_type q = None \<longleftrightarrow> cq_entity_id q = None))"

text \<open>\<^verbatim>\<open>CorpusQuery(...)\<close>: \<open>None\<close> is a validation error.\<close>

definition CorpusQuery :: "corpus_query \<Rightarrow> corpus_query option" where
  "CorpusQuery q = (let c = cleaned_query q in
     if filters_fit c then Some (c\<lparr>cq_cve_id := map_option upper (cq_cve_id c), cq_attack_id := map_option upper (cq_attack_id c)\<rparr>)
     else None)"

definition allowed_filters :: "corpus_resource \<Rightarrow> string list" where
  "allowed_filters r = [''limit'', ''cursor'', ''search'', ''record_status''] @ (case r of
       CQ_CVES \<Rightarrow> [''published'', ''cve_id'']
     | CQ_IOCS \<Rightarrow> [''published'', ''indicator_type'', ''value'']
     | CQ_PRODUCTS \<Rightarrow> [''published'', ''vendor'', ''product'', ''ecosystem'']
     | CQ_TECHNIQUES \<Rightarrow> [''published'', ''attack_id'', ''framework_version'']
     | CQ_URLS \<Rightarrow> [''published'', ''source_id'']
     | CQ_EVIDENCE \<Rightarrow> [''published'', ''entity_type'', ''entity_id'', ''source_id'']
     | CQ_RELATIONSHIPS \<Rightarrow> [''published'', ''review_state'', ''entity_type'', ''entity_id'', ''relationship_type'']
     | CQ_CONTRADICTIONS \<Rightarrow> [''review_state'', ''entity_type'', ''entity_id'']
     | _ \<Rightarrow> [''published''])"

text \<open>The names of the fields that hold a value.\<close>

definition given_filters :: "corpus_query \<Rightarrow> string list" where
  "given_filters q = map fst (filter snd [(''limit'', True), (''cursor'', cq_cursor q \<noteq> None), (''search'', cq_search q \<noteq> None),
     (''record_status'', cq_record_status q \<noteq> None), (''review_state'', cq_review_state q \<noteq> None),
     (''published'', cq_published q \<noteq> None), (''entity_type'', cq_entity_type q \<noteq> None), (''entity_id'', cq_entity_id q \<noteq> None),
     (''source_id'', cq_source_id q \<noteq> None), (''cve_id'', cq_cve_id q \<noteq> None), (''indicator_type'', cq_indicator_type q \<noteq> None),
     (''value'', cq_value q \<noteq> None), (''vendor'', cq_vendor q \<noteq> None), (''product'', cq_product q \<noteq> None),
     (''ecosystem'', cq_ecosystem q \<noteq> None), (''attack_id'', cq_attack_id q \<noteq> None),
     (''framework_version'', cq_framework_version q \<noteq> None), (''relationship_type'', cq_relationship_type q \<noteq> None)])"

datatype corpus_error = Corpus_Http int string | Corpus_Attribute_Error

definition validate_for :: "corpus_resource \<Rightarrow> corpus_query \<Rightarrow> corpus_error + unit" where
  "validate_for r q = (let unsupported = sorted_unique (filter (\<lambda>f. f \<notin> set (allowed_filters r)) (given_filters q)) in
     require (unsupported = []) (Corpus_Http 422 (''filters are not supported for '' @ corpus_resource_value r @ '': '' @
       join '', '' unsupported)))"

section \<open>Cursors\<close>

record corpus_env =
  qe_ilower :: "string \<Rightarrow> string"
  qe_casefold :: "string \<Rightarrow> string"
  qe_dumps :: "(string \<times> string) list \<Rightarrow> string"
  qe_loads :: "string \<Rightarrow> json option"
  qe_iso :: "instant \<Rightarrow> string"
  qe_datetime :: "string \<Rightarrow> (instant \<times> bool) option"
  qe_uuid :: "string \<Rightarrow> uuid option"

text \<open>A row with the columns every table has.\<close>

record 'r audited =
  au_id :: uuid
  au_record_status :: string
  au_created_at :: instant
  au_updated_at :: instant
  au_row :: 'r

definition strip_equals :: "string \<Rightarrow> string" where
  "strip_equals s = rstrip_by (\<lambda>c. c = CHR ''='') s"

definition encode_cursor :: "corpus_env \<Rightarrow> corpus_resource \<Rightarrow> 'r audited \<Rightarrow> string" where
  "encode_cursor e r row = strip_equals (urlsafe_b64encode (qe_dumps e
     [(''resource'', corpus_resource_value r), (''updated_at'', qe_iso e (au_updated_at row)), (''id'', au_id row)]))"

definition cursor_payload :: "corpus_env \<Rightarrow> corpus_resource \<Rightarrow> json dict \<Rightarrow> (instant \<times> bool \<times> uuid) option" where
  "cursor_payload e r d = (if jget ''resource'' d \<noteq> JStr (corpus_resource_value r) then None
     else Option.bind (dict_get ''updated_at'' d) (\<lambda>u. Option.bind (qe_datetime e (py_str u)) (\<lambda>(t, aware).
       Option.bind (dict_get ''id'' d) (\<lambda>i. Option.bind (qe_uuid e (py_str i)) (\<lambda>key. Some (t, aware, key))))))"

text \<open>The \<^verbatim>\<open>AttributeError\<close> of a payload that is not an object is not among the exceptions caught.\<close>

definition decode_cursor :: "corpus_env \<Rightarrow> string option \<Rightarrow> corpus_resource \<Rightarrow> corpus_error + (instant \<times> uuid) option" where
  "decode_cursor e cursor r = (case cursor of None \<Rightarrow> Inr None
     | Some s \<Rightarrow> (case Option.bind (urlsafe_b64decode (s @ padding s)) (qe_loads e) of
           None \<Rightarrow> Inl (Corpus_Http 422 ''cursor is invalid or expired'')
         | Some v \<Rightarrow> (case as_obj v of
               None \<Rightarrow> Inl Corpus_Attribute_Error
             | Some d \<Rightarrow> (case cursor_payload e r d of
                   None \<Rightarrow> Inl (Corpus_Http 422 ''cursor is invalid or expired'')
                 | Some (t, aware, i) \<Rightarrow> if aware then Inr (Some (t, i))
                     else Inl (Corpus_Http 422 ''cursor timestamp must include timezone'')))))"

section \<open>Keyset pages\<close>

definition audit_key :: "'r audited \<Rightarrow> int \<times> uuid" where
  "audit_key r = (- au_updated_at r, au_id r)"

definition after_cursor :: "(instant \<times> uuid) option \<Rightarrow> 'r audited \<Rightarrow> bool" where
  "after_cursor c r = (case c of None \<Rightarrow> True
     | Some (t, i) \<Rightarrow> au_updated_at r < t \<or> (au_updated_at r = t \<and> i < au_id r))"

definition keyset_rows :: "int \<Rightarrow> ('r audited \<Rightarrow> bool) \<Rightarrow> (instant \<times> uuid) option \<Rightarrow> 'r audited list \<Rightarrow> 'r audited list" where
  "keyset_rows limit p c rows = take (nat (limit + 1)) (sort_key audit_key (filter (\<lambda>r. p r \<and> after_cursor c r) rows))"

record corpus_provenance =
  cv_source_document_ids :: "uuid list"
  cv_evidence_claim_ids :: "uuid list"
  cv_provider_result_ids :: "uuid list"
  cv_source_urls :: "string list"
  cv_first_seen_at :: "instant option"
  cv_last_seen_at :: "instant option"

definition no_provenance :: corpus_provenance where
  "no_provenance = \<lparr>cv_source_document_ids = [], cv_evidence_claim_ids = [], cv_provider_result_ids = [], cv_source_urls = [],
     cv_first_seen_at = None, cv_last_seen_at = None\<rparr>"

record corpus_claim =
  qc_source_document_id :: uuid
  qc_claim_type :: string
  qc_subject_entity_type :: string
  qc_subject_entity_id :: "uuid option"
  qc_predicate :: string
  qc_object_entity_type :: "string option"
  qc_object_entity_id :: "uuid option"
  qc_object_literal :: "string option"
  qc_evidence_text :: string
  qc_start_offset :: int
  qc_end_offset :: int
  qc_extraction_origin :: string
  qc_confidence :: rat

record affected_line =
  af_id :: uuid
  af_product_id :: uuid
  af_vulnerability_id :: uuid
  af_version_range :: "string option"
  af_cpe :: "string option"
  af_affected_status :: string
  af_confidence :: rat
  af_remediation_available :: "bool option"

record corpus_relationship =
  qr_relationship :: correlation_relationship
  qr_analyst_run_id :: "uuid option"

record corpus_contradiction =
  qx_row :: contradiction_row
  qx_supersedes_id :: "uuid option"

datatype corpus_content =
    CVE_View string "(string \<times> fval option) list"
  | IOC_View indicator_type string indicator_validation_state bool "instant option" "instant option"
  | Product_View string string string "string option" "json dict" "affected_line list"
  | Actor_View actor_row
  | Malware_View malware_row
  | Tool_View tool_row
  | Campaign_View campaign_row
  | Technique_View technique_row
  | URL_View string string string "instant option" instant string document_type string "uuid option"
  | Evidence_View corpus_claim string string
  | Relationship_View corpus_relationship
  | Contradiction_View corpus_contradiction

record corpus_item =
  ci_id :: uuid
  ci_record_status :: string
  ci_created_at :: instant
  ci_updated_at :: instant
  ci_provenance :: corpus_provenance
  ci_content :: corpus_content

definition corpus_base :: "'r audited \<Rightarrow> corpus_provenance \<Rightarrow> corpus_content \<Rightarrow> corpus_item" where
  "corpus_base r p x = \<lparr>ci_id = au_id r, ci_record_status = au_record_status r, ci_created_at = au_created_at r,
     ci_updated_at = au_updated_at r, ci_provenance = p, ci_content = x\<rparr>"

record corpus_page =
  cg_resource :: corpus_resource
  cg_items :: "corpus_item list"
  cg_limit :: int
  cg_returned :: int
  cg_has_more :: bool
  cg_next_cursor :: "string option"
  cg_query_timeout_ms :: int

definition corpus_page_of :: "corpus_env \<Rightarrow> corpus_resource \<Rightarrow> corpus_query \<Rightarrow> 'r audited list \<Rightarrow> corpus_item list \<Rightarrow> corpus_page" where
  "corpus_page_of e r q rows items = (let visible = take (nat (cq_limit q)) rows; more = cq_limit q < int (length rows) in
     \<lparr>cg_resource = r, cg_items = take (nat (cq_limit q)) items, cg_limit = cq_limit q,
      cg_returned = min (int (length items)) (cq_limit q), cg_has_more = more,
      cg_next_cursor = (if more then Some (encode_cursor e r (last visible)) else None), cg_query_timeout_ms = 2500\<rparr>)"

text \<open>A listing reads one row more than it shows; \<open>item\<close> is told which rows are shown.\<close>

definition listing :: "corpus_env \<Rightarrow> corpus_resource \<Rightarrow> corpus_query \<Rightarrow> ('r audited \<Rightarrow> bool) \<Rightarrow> 'r audited list
    \<Rightarrow> (uuid list \<Rightarrow> 'r audited \<Rightarrow> corpus_item) \<Rightarrow> corpus_error + corpus_page" where
  "listing e r q p rows item = rbind (decode_cursor e (cq_cursor q) r) (\<lambda>c.
     let found = keyset_rows (cq_limit q) p c rows; ids = map au_id (take (nat (cq_limit q)) found) in
     Inr (corpus_page_of e r q found (map (item ids) found)))"

section \<open>The tables\<close>

record provenance_link =
  pk_id :: uuid
  pk_entity_type :: string
  pk_entity_id :: uuid
  pk_source_document_id :: "uuid option"
  pk_evidence_claim_id :: "uuid option"
  pk_provider_result_id :: "uuid option"
  pk_supporting_urls :: "string list"
  pk_first_seen_at :: "instant option"
  pk_last_seen_at :: "instant option"

record relationship_link =
  qv_id :: uuid
  qv_relationship_id :: uuid
  qv_source_document_id :: "uuid option"
  qv_evidence_claim_id :: "uuid option"
  qv_provider_result_id :: "uuid option"

record corpus_db =
  cb_vulnerabilities :: "vulnerability_row audited list"
  cb_indicators :: "indicator_row audited list"
  cb_products :: "product_row audited list"
  cb_affected :: "affected_line list"
  cb_actors :: "actor_row audited list"
  cb_malware :: "malware_row audited list"
  cb_tools :: "tool_row audited list"
  cb_campaigns :: "campaign_row audited list"
  cb_techniques :: "technique_row audited list"
  cb_documents :: "source_document audited list"
  cb_claims :: "corpus_claim audited list"
  cb_relationships :: "corpus_relationship audited list"
  cb_relationship_links :: "relationship_link list"
  cb_contradictions :: "corpus_contradiction audited list"
  cb_links :: "provenance_link list"
  cb_reports :: report_db

section \<open>Provenance\<close>

definition extreme_of :: "(instant \<Rightarrow> instant \<Rightarrow> instant) \<Rightarrow> instant option list \<Rightarrow> instant option" where
  "extreme_of f ts = (case List.map_filter id ts of [] \<Rightarrow> None | t # rest \<Rightarrow> Some (foldl f t rest))"

definition url_of :: "corpus_db \<Rightarrow> uuid \<Rightarrow> string option" where
  "url_of db i = map_option (\<lambda>d. sd_canonical_url (au_row d)) (List.find (\<lambda>d. au_id d = i) (cb_documents db))"

definition provenance_of :: "corpus_db \<Rightarrow> string \<Rightarrow> uuid list \<Rightarrow> uuid \<Rightarrow> corpus_provenance" where
  "provenance_of db t ids i = (if i \<notin> set ids then no_provenance
     else (let links = filter (\<lambda>l. pk_entity_type l = t \<and> pk_entity_id l = i) (cb_links db) in
       \<lparr>cv_source_document_ids = sorted_unique (List.map_filter pk_source_document_id links),
        cv_evidence_claim_ids = sorted_unique (List.map_filter pk_evidence_claim_id links),
        cv_provider_result_ids = sorted_unique (List.map_filter pk_provider_result_id links),
        cv_source_urls = sorted_unique (List.map_filter (\<lambda>l. Option.bind (pk_source_document_id l) (url_of db)) links @
          concat (map pk_supporting_urls links)),
        cv_first_seen_at = extreme_of min (map pk_first_seen_at links),
        cv_last_seen_at = extreme_of max (map pk_last_seen_at links)\<rparr>))"

section \<open>Filters\<close>

definition given :: "'a option \<Rightarrow> ('a \<Rightarrow> bool) \<Rightarrow> bool" where
  "given v p = (case v of None \<Rightarrow> True | Some x \<Rightarrow> p x)"

definition prefix_search :: "corpus_env \<Rightarrow> corpus_query \<Rightarrow> string option list \<Rightarrow> bool" where
  "prefix_search e q columns = given (cq_search q) (\<lambda>term. list_ex (\<lambda>column. case column of None \<Rightarrow> False
     | Some s \<Rightarrow> like (qe_ilower e (term @ ''%'')) (qe_ilower e s)) columns)"

definition member_filter :: "corpus_db \<Rightarrow> corpus_query \<Rightarrow> string \<Rightarrow> uuid \<Rightarrow> bool" where
  "member_filter db q t i = given (cq_published q) (\<lambda>wanted. published_membership (cb_reports db) t i = wanted)"

definition common_filter :: "corpus_env \<Rightarrow> corpus_db \<Rightarrow> corpus_query \<Rightarrow> string \<Rightarrow> ('r \<Rightarrow> string option list) \<Rightarrow> 'r audited \<Rightarrow> bool" where
  "common_filter e db q t columns r = (given (cq_record_status q) (\<lambda>s. au_record_status r = s) \<and>
     given (cq_entity_id q) (\<lambda>i. au_id r = i) \<and> prefix_search e q (columns (au_row r)) \<and> member_filter db q t (au_id r))"

definition text_field :: "fval option \<Rightarrow> string option" where
  "text_field v = (case v of Some (FText s) \<Rightarrow> Some s | _ \<Rightarrow> None)"

definition cve_filter :: "corpus_env \<Rightarrow> corpus_db \<Rightarrow> corpus_query \<Rightarrow> vulnerability_row audited \<Rightarrow> bool" where
  "cve_filter e db q r = (common_filter e db q ''vulnerability'' (\<lambda>v. [Some (vr_cve_id v), text_field (map_of (vr_fields v) ''description'')]) r \<and>
        given (cq_cve_id q) (\<lambda>c. vr_cve_id (au_row r) = c))"

definition corpus_cves :: "corpus_env \<Rightarrow> corpus_db \<Rightarrow> corpus_query \<Rightarrow> corpus_error + corpus_page" where
  "corpus_cves e db q = listing e CQ_CVES q
     (cve_filter e db q)
     (cb_vulnerabilities db)
     (\<lambda>ids r. corpus_base r (provenance_of db ''vulnerability'' ids (au_id r)) (CVE_View (vr_cve_id (au_row r))
        (map (\<lambda>k. (k, map_of (vr_fields (au_row r)) k)) [''description'', ''published_at'', ''modified_at'', ''cvss_score'',
           ''epss_score'', ''known_exploited'', ''exploitation_state''])))"

definition ioc_filter :: "corpus_env \<Rightarrow> corpus_db \<Rightarrow> corpus_query \<Rightarrow> indicator_row audited \<Rightarrow> bool" where
  "ioc_filter e db q r = (common_filter e db q ''indicator'' (\<lambda>v. [Some (in_safe_display_value v)]) r \<and>
        given (cq_indicator_type q) (\<lambda>t. indicator_type_value (in_indicator_type (au_row r)) = t) \<and>
        given (cq_value q) (\<lambda>v. in_safe_display_value (au_row r) = v))"

definition corpus_iocs :: "corpus_env \<Rightarrow> corpus_db \<Rightarrow> corpus_query \<Rightarrow> corpus_error + corpus_page" where
  "corpus_iocs e db q = listing e CQ_IOCS q
     (ioc_filter e db q)
     (cb_indicators db)
     (\<lambda>ids r. let v = au_row r in corpus_base r (provenance_of db ''indicator'' ids (au_id r)) (IOC_View (in_indicator_type v)
        (in_safe_display_value v) (in_validation_state v) (in_public_visibility v) (in_first_seen_at v) (in_last_seen_at v)))"

definition product_filter :: "corpus_env \<Rightarrow> corpus_db \<Rightarrow> corpus_query \<Rightarrow> product_row audited \<Rightarrow> bool" where
  "product_filter e db q r = (common_filter e db q ''product'' (\<lambda>v. [Some (pd_vendor v), Some (pd_product v)]) r \<and>
        given (cq_vendor q) (\<lambda>v. pd_normalized_vendor (au_row r) = qe_casefold e v) \<and>
        given (cq_product q) (\<lambda>v. pd_normalized_product (au_row r) = qe_casefold e v) \<and>
        given (cq_ecosystem q) (\<lambda>v. pd_ecosystem (au_row r) = v))"

definition corpus_products :: "corpus_env \<Rightarrow> corpus_db \<Rightarrow> corpus_query \<Rightarrow> corpus_error + corpus_page" where
  "corpus_products e db q = listing e CQ_PRODUCTS q
     (product_filter e db q)
     (cb_products db)
     (\<lambda>ids r. let v = au_row r in corpus_base r (provenance_of db ''product'' ids (au_id r)) (Product_View (pd_vendor v)
        (pd_product v) (pd_ecosystem v) (pd_product_type v) (pd_canonical_identifiers v)
        (if au_id r \<in> set ids then sort_key af_id (filter (\<lambda>a. af_product_id a = au_id r) (cb_affected db)) else [])))"

definition simple_entities :: "corpus_env \<Rightarrow> corpus_db \<Rightarrow> corpus_query \<Rightarrow> corpus_resource \<Rightarrow> string \<Rightarrow> ('r \<Rightarrow> string option list)
    \<Rightarrow> ('r \<Rightarrow> corpus_content) \<Rightarrow> 'r audited list \<Rightarrow> corpus_error + corpus_page" where
  "simple_entities e db q r t columns view rows = listing e r q (common_filter e db q t columns) rows
     (\<lambda>ids row. corpus_base row (provenance_of db t ids (au_id row)) (view (au_row row)))"

definition technique_filter :: "corpus_env \<Rightarrow> corpus_db \<Rightarrow> corpus_query \<Rightarrow> technique_row audited \<Rightarrow> bool" where
  "technique_filter e db q r = (common_filter e db q ''technique'' (\<lambda>v. [Some (tq_attack_id v), Some (tq_name v)]) r \<and>
        given (cq_attack_id q) (\<lambda>a. tq_attack_id (au_row r) = a) \<and>
        given (cq_framework_version q) (\<lambda>f. tq_framework_version (au_row r) = f))"

definition corpus_techniques :: "corpus_env \<Rightarrow> corpus_db \<Rightarrow> corpus_query \<Rightarrow> corpus_error + corpus_page" where
  "corpus_techniques e db q = listing e CQ_TECHNIQUES q
     (technique_filter e db q)
     (cb_techniques db)
     (\<lambda>ids r. corpus_base r (provenance_of db ''technique'' ids (au_id r)) (Technique_View (au_row r)))"

definition dated_filter :: "corpus_query \<Rightarrow> source_document \<Rightarrow> bool" where
  "dated_filter q d = (given (cq_source_id q) (\<lambda>s. sd_source_id d = s) \<and>
     given (cq_published q) (\<lambda>wanted. (sd_published_at d \<noteq> None) = wanted))"

definition url_filter :: "corpus_env \<Rightarrow> corpus_query \<Rightarrow> source_document audited \<Rightarrow> bool" where
  "url_filter e q r = (given (cq_record_status q) (\<lambda>s. au_record_status r = s) \<and> dated_filter q (au_row r) \<and>
        prefix_search e q [Some (sd_canonical_url (au_row r)), Some (sd_title (au_row r))])"

definition corpus_urls :: "corpus_env \<Rightarrow> corpus_db \<Rightarrow> corpus_query \<Rightarrow> corpus_error + corpus_page" where
  "corpus_urls e db q = listing e CQ_URLS q
     (url_filter e q)
     (cb_documents db)
     (\<lambda>ids r. let d = au_row r in corpus_base r
        (no_provenance\<lparr>cv_source_document_ids := [au_id r], cv_source_urls := [sd_canonical_url d],
           cv_first_seen_at := sd_published_at d, cv_last_seen_at := Some (sd_retrieved_at d)\<rparr>)
        (URL_View (sd_source_id d) (sd_canonical_url d) (sd_title d) (sd_published_at d) (sd_retrieved_at d) (sd_content_type d)
           (sd_document_type d) (sd_normalized_content_hash d) (sd_supersedes_id d)))"

section \<open>Evidence\<close>

definition secret_re :: re where
  "secret_re = seqs [Grp 1 (alts [ilit ''password'', ilit ''secret'', ilit ''token'',
       Seq (ilit ''api'') (Seq (opt (Chr (one_of ''_-''))) (ilit ''key'')), ilit ''authorization'',
       Seq (ilit ''private'') (Seq (opt (Chr (one_of ''_-''))) (ilit ''key''))]),
     star (Chr is_space), Chr (one_of '':=''), star (Chr is_space), Grp 2 (plus1 (Chr (\<lambda>c. \<not> is_space c \<and> c \<noteq> CHR '','' \<and> c \<noteq> CHR '';'')))]"

fun redact_from :: "nat \<Rightarrow> string \<Rightarrow> found list \<Rightarrow> string" where
  "redact_from i s [] = s"
| "redact_from i s (m # ms) = take (fd_start m - i) s @ (case group 1 m of None \<Rightarrow> [] | Some g \<Rightarrow> g) @ ''=[REDACTED]'' @
     redact_from (fd_end m) (drop (fd_end m - i) s) ms"

definition redact :: "string \<Rightarrow> string" where
  "redact s = redact_from 0 s (finditer secret_re s)"

definition with_row :: "'r audited \<Rightarrow> 's \<Rightarrow> 's audited" where
  "with_row r x = \<lparr>au_id = au_id r, au_record_status = au_record_status r, au_created_at = au_created_at r,
     au_updated_at = au_updated_at r, au_row = x\<rparr>"

definition claims_with_documents :: "corpus_db \<Rightarrow> (corpus_claim \<times> uuid \<times> source_document) audited list" where
  "claims_with_documents db = concat (map (\<lambda>c. map (\<lambda>d. with_row c (au_row c, au_id d, au_row d))
     (filter (\<lambda>d. au_id d = qc_source_document_id (au_row c)) (cb_documents db))) (cb_claims db))"

definition evidence_filter :: "corpus_env \<Rightarrow> corpus_query \<Rightarrow> (corpus_claim \<times> uuid \<times> source_document) audited \<Rightarrow> bool" where
  "evidence_filter e q r = (case au_row r of (c, i, d) \<Rightarrow> given (cq_record_status q) (\<lambda>s. au_record_status r = s) \<and> dated_filter q d \<and>
        given (cq_entity_type q) (\<lambda>t. qc_subject_entity_type c = entity_type_value t) \<and>
        given (cq_entity_id q) (\<lambda>x. qc_subject_entity_id c = Some x) \<and> prefix_search e q [Some (qc_evidence_text c)])"

definition corpus_evidence :: "corpus_env \<Rightarrow> corpus_db \<Rightarrow> corpus_query \<Rightarrow> corpus_error + corpus_page" where
  "corpus_evidence e db q = listing e CQ_EVIDENCE q
     (evidence_filter e q)
     (claims_with_documents db)
     (\<lambda>ids r. case au_row r of (c, i, d) \<Rightarrow> corpus_base r
        (no_provenance\<lparr>cv_source_document_ids := [i], cv_evidence_claim_ids := [au_id r], cv_source_urls := [sd_canonical_url d],
           cv_first_seen_at := sd_published_at d, cv_last_seen_at := Some (sd_retrieved_at d)\<rparr>)
        (Evidence_View (c\<lparr>qc_object_literal := map_option redact (qc_object_literal c), qc_evidence_text := redact (qc_evidence_text c)\<rparr>)
           (sd_source_id d) (sd_canonical_url d)))"

section \<open>Relationships and contradictions\<close>

definition end_matches :: "corpus_query \<Rightarrow> entity_ref \<Rightarrow> bool" where
  "end_matches q x = (cq_entity_type q = Some (entity_ref.er_entity_type x) \<and> cq_entity_id q = Some (entity_ref.er_entity_id x))"

definition relationship_filter :: "corpus_env \<Rightarrow> corpus_db \<Rightarrow> corpus_query \<Rightarrow> corpus_relationship audited \<Rightarrow> bool" where
  "relationship_filter e db q r = (let x = qr_relationship (au_row r) in
     given (cq_record_status q) (\<lambda>s. au_record_status r = s) \<and> given (cq_review_state q) (\<lambda>s. cr_review_state x = s) \<and>
     given (cq_relationship_type q) (\<lambda>t. cr_relationship_type x = t) \<and>
     prefix_search e q [Some (cr_relationship_type x), Some (cr_origin_rule x)] \<and>
     (cq_entity_type q \<noteq> None \<and> cq_entity_id q \<noteq> None \<longrightarrow> end_matches q (cr_source x) \<or> end_matches q (cr_target x)) \<and>
     given (cq_published q) (\<lambda>wanted. (endpoint_member (cb_reports db) (cr_source x) \<and> endpoint_member (cb_reports db) (cr_target x)) = wanted))"

definition relationship_sources :: "corpus_db \<Rightarrow> uuid list \<Rightarrow> uuid \<Rightarrow> relationship_link list" where
  "relationship_sources db ids i = (if i \<in> set ids then filter (\<lambda>l. qv_relationship_id l = i) (cb_relationship_links db) else [])"

definition corpus_relationships :: "corpus_env \<Rightarrow> corpus_db \<Rightarrow> corpus_query \<Rightarrow> corpus_error + corpus_page" where
  "corpus_relationships e db q = listing e CQ_RELATIONSHIPS q (relationship_filter e db q) (cb_relationships db)
     (\<lambda>ids r. let links = relationship_sources db ids (au_id r); documents = sorted_unique (List.map_filter qv_source_document_id links);
           claims = sorted_unique (List.map_filter qv_evidence_claim_id links);
           results = sorted_unique (List.map_filter qv_provider_result_id links); x = au_row r in
        corpus_base r (no_provenance\<lparr>cv_source_document_ids := documents, cv_evidence_claim_ids := claims,
             cv_provider_result_ids := results, cv_source_urls := sort (List.map_filter (url_of db) documents)\<rparr>)
          (Relationship_View (x\<lparr>qr_relationship := (qr_relationship x)\<lparr>cr_evidence_ids := sorted_unique (documents @ claims @ results)\<rparr>\<rparr>)))"

definition contradiction_filter :: "corpus_query \<Rightarrow> corpus_contradiction audited \<Rightarrow> bool" where
  "contradiction_filter q r = (let x = xw_evidence (qx_row (au_row r)) in
     (case cq_entity_type q of None \<Rightarrow> True | Some t \<Rightarrow> entity_ref.er_entity_type (cx_subject x) = t \<and>
        given (cq_entity_id q) (\<lambda>i. entity_ref.er_entity_id (cx_subject x) = i)) \<and>
     given (cq_review_state q) (\<lambda>s. xw_review_state (qx_row (au_row r)) = review_state_value s))"

definition contradiction_wanted :: "corpus_env \<Rightarrow> corpus_query \<Rightarrow> corpus_contradiction audited \<Rightarrow> bool" where
  "contradiction_wanted e q r = (let x = xw_evidence (qx_row (au_row r)) in
     given (cq_record_status q) (\<lambda>s. au_record_status r = s) \<and> prefix_search e q [Some (cx_claim_key x)] \<and>
     given (cq_entity_type q) (\<lambda>t. entity_ref.er_entity_type (cx_subject x) = t) \<and>
     given (cq_entity_id q) (\<lambda>i. entity_ref.er_entity_id (cx_subject x) = i) \<and>
     given (cq_review_state q) (\<lambda>s. xw_review_state (qx_row (au_row r)) = review_state_value s))"

definition contradiction_item :: "corpus_env \<Rightarrow> corpus_contradiction audited \<Rightarrow> corpus_item" where
  "contradiction_item e r = (let ids = List.map_filter (qe_uuid e) (cx_evidence_ids (xw_evidence (qx_row (au_row r)))); x = au_row r in
     corpus_base r (no_provenance\<lparr>cv_evidence_claim_ids := ids\<rparr>)
       (Contradiction_View (x\<lparr>qx_row := (qx_row x)\<lparr>xw_evidence := (xw_evidence (qx_row x))\<lparr>cx_evidence_ids := ids\<rparr>\<rparr>\<rparr>)))"

text \<open>The rows found are filtered a second time.\<close>

definition corpus_contradictions :: "corpus_env \<Rightarrow> corpus_db \<Rightarrow> corpus_query \<Rightarrow> corpus_error + corpus_page" where
  "corpus_contradictions e db q = rbind (decode_cursor e (cq_cursor q) CQ_CONTRADICTIONS) (\<lambda>c.
     let found = keyset_rows (cq_limit q) (contradiction_wanted e q) c (cb_contradictions db) in
     Inr (corpus_page_of e CQ_CONTRADICTIONS q found (map (contradiction_item e) (filter (contradiction_filter q) found))))"

definition actor_columns :: "actor_row \<Rightarrow> string option list" where
  "actor_columns v = [Some (ac_canonical_name v), Some (ac_normalized_name v)]"

definition malware_columns :: "malware_row \<Rightarrow> string option list" where
  "malware_columns v = [Some (ma_canonical_name v), Some (ma_normalized_name v)]"

definition tool_columns :: "tool_row \<Rightarrow> string option list" where
  "tool_columns v = [Some (to_name v), Some (to_normalized_name v)]"

definition campaign_columns :: "campaign_row \<Rightarrow> string option list" where
  "campaign_columns v = [cp_name v, Some (cp_stable_key v)]"

section \<open>The repository and its route\<close>

definition corpus_query_for :: "corpus_env \<Rightarrow> corpus_db \<Rightarrow> corpus_resource \<Rightarrow> corpus_query \<Rightarrow> corpus_error + corpus_page" where
  "corpus_query_for e db r q = (case r of
       CQ_CVES \<Rightarrow> corpus_cves e db q
     | CQ_IOCS \<Rightarrow> corpus_iocs e db q
     | CQ_PRODUCTS \<Rightarrow> corpus_products e db q
     | CQ_ACTORS \<Rightarrow> simple_entities e db q CQ_ACTORS ''actor'' actor_columns Actor_View (cb_actors db)
     | CQ_MALWARE \<Rightarrow> simple_entities e db q CQ_MALWARE ''malware'' malware_columns Malware_View (cb_malware db)
     | CQ_TOOLS \<Rightarrow> simple_entities e db q CQ_TOOLS ''tool'' tool_columns Tool_View (cb_tools db)
     | CQ_CAMPAIGNS \<Rightarrow> simple_entities e db q CQ_CAMPAIGNS ''campaign'' campaign_columns Campaign_View (cb_campaigns db)
     | CQ_TECHNIQUES \<Rightarrow> corpus_techniques e db q
     | CQ_URLS \<Rightarrow> corpus_urls e db q
     | CQ_EVIDENCE \<Rightarrow> corpus_evidence e db q
     | CQ_RELATIONSHIPS \<Rightarrow> corpus_relationships e db q
     | CQ_CONTRADICTIONS \<Rightarrow> corpus_contradictions e db q)"

text \<open>The route bounds the parameters as they arrive, the contract as they are cleaned: either refusal is a 422.  A missing
  database is a 503.\<close>

definition analyst_corpus :: "corpus_env \<Rightarrow> corpus_db option \<Rightarrow> corpus_resource \<Rightarrow> corpus_query \<Rightarrow> corpus_error + corpus_page" where
  "analyst_corpus e db r q = (case (if lengths_fit q then CorpusQuery q else None) of
       None \<Rightarrow> Inl (Corpus_Http 422 ''invalid query'')
     | Some c \<Rightarrow> rbind (validate_for r c) (\<lambda>_. case db of None \<Rightarrow> Inl (Corpus_Http 503 ''database is not configured'')
         | Some x \<Rightarrow> corpus_query_for e x r c))"

end
