(* ===== verification/Corpus_Facts.thy ===== *)
theory Corpus_Facts
  imports Corpus_Query
begin

text \<open>
  A cursor reads back, and following \<^verbatim>\<open>next_cursor\<close> from the first page lists every row a query matches
  exactly once, whatever the page size.
\<close>

section \<open>Cursors\<close>

text \<open>What \<^verbatim>\<open>json\<close>, \<^verbatim>\<open>datetime.isoformat\<close> and \<^verbatim>\<open>uuid\<close> promise: an aware instant reads back from its
  text, and an object of texts with distinct keys from its dump.\<close>

definition codec_laws :: "corpus_env \<Rightarrow> bool" where
  "codec_laws e = ((\<forall>t. qe_datetime e (qe_iso e t) = Some (t, True)) \<and>
     (\<forall>kvs. distinct (map fst kvs) \<longrightarrow> qe_loads e (qe_dumps e kvs) = Some (JObj (map (\<lambda>(k, v). (k, JStr v)) kvs))))"

lemma urlsafe_roundtrip: "urlsafe_b64decode (strip_equals (urlsafe_b64encode s) @ padding (strip_equals (urlsafe_b64encode s))) = Some s"
  by (simp add: strip_equals_def decode_encode)

lemma cursor_reads_back:
  assumes "codec_laws e" and "qe_uuid e (au_id row) = Some (au_id row)"
  shows "decode_cursor e (Some (encode_cursor e r row)) r' =
    (if r' = r then Inr (Some (au_updated_at row, au_id row)) else Inl (Corpus_Http 422 ''cursor is invalid or expired''))"
proof -
  let ?d = "[(''resource'', corpus_resource_value r), (''updated_at'', qe_iso e (au_updated_at row)), (''id'', au_id row)]"
  let ?json = "[(''resource'', JStr (corpus_resource_value r)), (''updated_at'', JStr (qe_iso e (au_updated_at row))), (''id'', JStr (au_id row))]"
  have loads: "qe_loads e (qe_dumps e ?d) = Some (JObj ?json)"
    using assms(1) by (simp add: codec_laws_def)
  have "cursor_payload e r' ?json = (if r' = r then Some (au_updated_at row, True, au_id row) else None)"
    using assms by (auto simp: cursor_payload_def jget_def dict_get_def codec_laws_def corpus_resource.value_inj)
  then show ?thesis
    by (simp add: decode_cursor_def encode_cursor_def urlsafe_roundtrip loads)
qed

text \<open>A cursor reads back: decoded for its own resource, the cursor written after a row is that row's time and
  identifier; for another resource it is refused as invalid.\<close>

theorem cursor_roundtrip:
  assumes "codec_laws e" and "qe_uuid e (au_id row) = Some (au_id row)"
  shows "decode_cursor e (Some (encode_cursor e r row)) r' =
    (if r' = r then Inr (Some (au_updated_at row, au_id row)) else Inl (Corpus_Http 422 ''cursor is invalid or expired''))"
  using assms by (rule cursor_reads_back)

text \<open>A payload that is not an object escapes the handler.\<close>

lemma odd_payload_escapes:
  assumes "qe_loads e bytes = Some v" and "as_obj v = None"
  shows "decode_cursor e (Some (strip_equals (urlsafe_b64encode bytes))) r = Inl Corpus_Attribute_Error"
  using assms by (simp add: decode_cursor_def urlsafe_roundtrip)

section \<open>Following the cursor\<close>

text \<open>A reader that follows \<^verbatim>\<open>next_cursor\<close>; the fuel bounds the number of pages, and running out of it or an error is
  \<open>None\<close>.\<close>

fun corpus_walk :: "nat \<Rightarrow> (corpus_query \<Rightarrow> corpus_error + corpus_page) \<Rightarrow> corpus_query \<Rightarrow> corpus_item list option" where
  "corpus_walk 0 ask q = None"
| "corpus_walk (Suc n) ask q = (case ask q of Inl _ \<Rightarrow> None
     | Inr g \<Rightarrow> (case cg_next_cursor g of None \<Rightarrow> Some (cg_items g)
         | Some c \<Rightarrow> map_option (\<lambda>xs. cg_items g @ xs) (corpus_walk n ask (q\<lparr>cq_cursor := Some c\<rparr>))))"

definition in_order :: "('r audited \<Rightarrow> bool) \<Rightarrow> 'r audited list \<Rightarrow> 'r audited list" where
  "in_order p rows = sort_key audit_key (filter p rows)"

lemma after_cursor_key: "after_cursor (Some (au_updated_at x, au_id x)) r \<longleftrightarrow> audit_key x < audit_key r"
  by (auto simp: after_cursor_def audit_key_def less_prod_def)

lemma audit_key_inj: "distinct (map au_id rows) \<Longrightarrow> distinct (map audit_key rows)"
  by (auto simp: distinct_map audit_key_def inj_on_def)

lemma in_order_strict:
  assumes "distinct (map au_id rows)"
  shows "sorted_wrt (\<lambda>x y. audit_key x < audit_key y) (in_order p rows)"
proof -
  have "distinct (map audit_key (filter p rows))"
    using audit_key_inj [OF assms] by (simp add: distinct_map_filter)
  then have "distinct (map audit_key (in_order p rows))"
    by (simp add: in_order_def distinct_map)
  moreover have "sorted (map audit_key (in_order p rows))" by (simp add: in_order_def)
  ultimately have "sorted_wrt (<) (map audit_key (in_order p rows))" by (simp add: strict_sorted_iff)
  then show ?thesis by (simp add: sorted_wrt_map)
qed

lemma strict_filter:
  "sorted_wrt (\<lambda>x y. key x < (key y :: 'k :: linorder)) (ys @ x # zs) \<Longrightarrow> filter (\<lambda>r. key x < key r) (ys @ x # zs) = zs"
  by (auto simp: sorted_wrt_append filter_empty_conv filter_id_conv)

lemma after_last:
  assumes "distinct (map au_id rows)" and "in_order p rows = ys @ x # zs"
  shows "in_order (\<lambda>r. p r \<and> after_cursor (Some (au_updated_at x, au_id x)) r) rows = zs"
proof -
  have "in_order (\<lambda>r. p r \<and> after_cursor (Some (au_updated_at x, au_id x)) r) rows =
      filter (after_cursor (Some (au_updated_at x, au_id x))) (in_order p rows)"
    by (simp add: in_order_def filter_sort conj_commute)
  also have "\<dots> = filter (\<lambda>r. audit_key x < audit_key r) (ys @ x # zs)"
    unfolding assms(2) by (rule filter_cong) (simp_all add: after_cursor_key)
  also have "\<dots> = zs" using in_order_strict [OF assms(1), of p] unfolding assms(2) by (rule strict_filter)
  finally show ?thesis .
qed

text \<open>Going on from a row that follows the cursor is going on from the row.\<close>

lemma after_chain:
  assumes "after_cursor c x"
  shows "(p r \<and> after_cursor c r) \<and> after_cursor (Some (au_updated_at x, au_id x)) r \<longleftrightarrow>
    p r \<and> after_cursor (Some (au_updated_at x, au_id x)) r"
  using assms by (cases c) (auto simp: after_cursor_def)

lemma walk_listing:
  assumes ask: "\<And>c. ask (q\<lparr>cq_cursor := c\<rparr>) = listing e r (q\<lparr>cq_cursor := c\<rparr>) p rows item"
    and read: "\<And>x. x \<in> set rows \<Longrightarrow> decode_cursor e (Some (encode_cursor e r x)) r = Inr (Some (au_updated_at x, au_id x))"
    and rows: "distinct (map au_id rows)" and limit: "1 \<le> cq_limit q" and items: "\<And>ids x. ci_id (item ids x) = au_id x"
    and start: "decode_cursor e cursor r = Inr c"
    and fuel: "length (in_order (\<lambda>x. p x \<and> after_cursor c x) rows) < n"
  shows "\<exists>xs. corpus_walk n ask (q\<lparr>cq_cursor := cursor\<rparr>) = Some xs \<and>
    map ci_id xs = map au_id (in_order (\<lambda>x. p x \<and> after_cursor c x) rows)"
  using start fuel
proof (induction n arbitrary: cursor c)
  case (Suc n)
  let ?xs = "in_order (\<lambda>x. p x \<and> after_cursor c x) rows" and ?l = "nat (cq_limit q)"
  let ?found = "take (Suc ?l) ?xs"
  have l: "0 < ?l" "nat (cq_limit q + 1) = Suc ?l" using limit by simp_all
  have found: "keyset_rows (cq_limit q) p c rows = ?found" by (simp add: keyset_rows_def in_order_def l(2))
  let ?item = "item (map au_id (take ?l ?found))"
  have page: "ask (q\<lparr>cq_cursor := cursor\<rparr>) = Inr (corpus_page_of e r (q\<lparr>cq_cursor := cursor\<rparr>) ?found (map ?item ?found))"
    using Suc.prems(1) by (simp add: ask listing_def found Let_def)
  have ids: "map ci_id (map ?item ys) = map au_id ys" for ys by (simp add: items)
  show ?case
  proof (cases "length ?xs \<le> ?l")
    case True
    then have "take (Suc ?l) ?xs = ?xs" by simp
    moreover have "\<not> cq_limit q < int (length ?xs)" using True limit by (simp add: le_nat_iff not_less)
    ultimately show ?thesis using True page ids [of ?xs] by (auto simp: corpus_page_of_def Let_def)
  next
    case False
    let ?x = "?xs ! (?l - 1)"
    have split: "?xs = take (?l - 1) ?xs @ ?x # drop ?l ?xs" using False l(1) id_take_nth_drop [of "?l - 1" ?xs] by simp
    have x: "?x \<in> set ?xs" using False l(1) by simp
    then have x': "?x \<in> set rows" "after_cursor c ?x" by (auto simp: in_order_def)
    have "take ?l ?xs \<noteq> []" "length (take ?l ?xs) = ?l" using False l(1) by auto
    moreover have "?l - 1 < ?l" using l(1) by simp
    ultimately have "last (take ?l ?xs) = ?x" by (simp only: last_conv_nth nth_take not_False_eq_True)
    then have "last (take ?l ?found) = ?x" by simp
    moreover have "cq_limit q < int (length ?found)" using False l(1) by auto
    ultimately have next_cursor: "cg_next_cursor (corpus_page_of e r (q\<lparr>cq_cursor := cursor\<rparr>) ?found (map ?item ?found)) = Some (encode_cursor e r ?x)"
      "cg_items (corpus_page_of e r (q\<lparr>cq_cursor := cursor\<rparr>) ?found (map ?item ?found)) = map ?item (take ?l ?xs)"
      by (simp_all add: corpus_page_of_def Let_def take_map)
    let ?c = "Some (au_updated_at ?x, au_id ?x)"
    have rest: "in_order (\<lambda>y. p y \<and> after_cursor ?c y) rows = drop ?l ?xs"
      using after_last [OF rows split] by (simp only: after_chain [OF x'(2)])
    have "length (in_order (\<lambda>y. p y \<and> after_cursor ?c y) rows) < n" unfolding rest using Suc.prems(2) False l(1) by simp
    from Suc.IH [OF read [OF x'(1)] this] obtain ys
      where ys: "corpus_walk n ask (q\<lparr>cq_cursor := Some (encode_cursor e r ?x)\<rparr>) = Some ys" "map ci_id ys = map au_id (drop ?l ?xs)"
      unfolding rest by blast
    have "q\<lparr>cq_cursor := cursor\<rparr>\<lparr>cq_cursor := k\<rparr> = q\<lparr>cq_cursor := k\<rparr>" for k by simp
    then have "corpus_walk (Suc n) ask (q\<lparr>cq_cursor := cursor\<rparr>) = Some (map ?item (take ?l ?xs) @ ys)"
      by (simp only: corpus_walk.simps page next_cursor sum.case option.case ys(1) option.map)
    moreover have "map ci_id (map ?item (take ?l ?xs) @ ys) = map au_id ?xs"
      by (simp only: map_append ids ys(2)) (simp flip: map_append)
    ultimately show ?thesis by (intro exI conjI)
  qed
qed simp

section \<open>The corpus\<close>

text \<open>Identifiers are unique in a table and read back from their text.\<close>

definition table_ok :: "corpus_env \<Rightarrow> 'r audited list \<Rightarrow> bool" where
  "table_ok e rows = (distinct (map au_id rows) \<and> list_all (\<lambda>r. qe_uuid e (au_id r) = Some (au_id r)) rows)"

definition corpus_ok :: "corpus_env \<Rightarrow> corpus_db \<Rightarrow> bool" where
  "corpus_ok e db = (table_ok e (cb_vulnerabilities db) \<and> table_ok e (cb_indicators db) \<and> table_ok e (cb_products db) \<and>
     table_ok e (cb_actors db) \<and> table_ok e (cb_malware db) \<and> table_ok e (cb_tools db) \<and> table_ok e (cb_campaigns db) \<and>
     table_ok e (cb_techniques db) \<and> table_ok e (cb_documents db) \<and> table_ok e (cb_claims db) \<and>
     table_ok e (cb_relationships db) \<and> table_ok e (cb_contradictions db))"

text \<open>The identifiers of the rows a query matches, latest first.\<close>

definition matching_ids :: "('r audited \<Rightarrow> bool) \<Rightarrow> 'r audited list \<Rightarrow> uuid list" where
  "matching_ids p rows = map au_id (in_order p rows)"

definition corpus_matching :: "corpus_env \<Rightarrow> corpus_db \<Rightarrow> corpus_resource \<Rightarrow> corpus_query \<Rightarrow> uuid list" where
  "corpus_matching e db r q = (case r of
       CQ_CVES \<Rightarrow> matching_ids (cve_filter e db q) (cb_vulnerabilities db)
     | CQ_IOCS \<Rightarrow> matching_ids (ioc_filter e db q) (cb_indicators db)
     | CQ_PRODUCTS \<Rightarrow> matching_ids (product_filter e db q) (cb_products db)
     | CQ_ACTORS \<Rightarrow> matching_ids (common_filter e db q ''actor'' actor_columns) (cb_actors db)
     | CQ_MALWARE \<Rightarrow> matching_ids (common_filter e db q ''malware'' malware_columns) (cb_malware db)
     | CQ_TOOLS \<Rightarrow> matching_ids (common_filter e db q ''tool'' tool_columns) (cb_tools db)
     | CQ_CAMPAIGNS \<Rightarrow> matching_ids (common_filter e db q ''campaign'' campaign_columns) (cb_campaigns db)
     | CQ_TECHNIQUES \<Rightarrow> matching_ids (technique_filter e db q) (cb_techniques db)
     | CQ_URLS \<Rightarrow> matching_ids (url_filter e q) (cb_documents db)
     | CQ_EVIDENCE \<Rightarrow> matching_ids (evidence_filter e q) (claims_with_documents db)
     | CQ_RELATIONSHIPS \<Rightarrow> matching_ids (relationship_filter e db q) (cb_relationships db)
     | CQ_CONTRADICTIONS \<Rightarrow> matching_ids (contradiction_wanted e q) (cb_contradictions db))"

lemma ci_id_base [simp]: "ci_id (corpus_base r p x) = au_id r" "ci_id (contradiction_item e r') = au_id r'"
  by (simp_all add: corpus_base_def contradiction_item_def Let_def)

lemma filters_ignore_cursor [simp]:
  "common_filter e db (q\<lparr>cq_cursor := c\<rparr>) t columns = common_filter e db q t columns"
  "cve_filter e db (q\<lparr>cq_cursor := c\<rparr>) = cve_filter e db q" "ioc_filter e db (q\<lparr>cq_cursor := c\<rparr>) = ioc_filter e db q"
  "product_filter e db (q\<lparr>cq_cursor := c\<rparr>) = product_filter e db q"
  "technique_filter e db (q\<lparr>cq_cursor := c\<rparr>) = technique_filter e db q" "url_filter e (q\<lparr>cq_cursor := c\<rparr>) = url_filter e q"
  "evidence_filter e (q\<lparr>cq_cursor := c\<rparr>) = evidence_filter e q"
  "relationship_filter e db (q\<lparr>cq_cursor := c\<rparr>) = relationship_filter e db q"
  "contradiction_wanted e (q\<lparr>cq_cursor := c\<rparr>) = contradiction_wanted e q"
  by (simp_all add: fun_eq_iff common_filter_def cve_filter_def ioc_filter_def product_filter_def technique_filter_def url_filter_def
      evidence_filter_def relationship_filter_def contradiction_wanted_def prefix_search_def member_filter_def dated_filter_def
      end_matches_def)

text \<open>Filtering the contradictions a second time drops nothing.\<close>

lemma wanted_filter: "contradiction_wanted e q r \<Longrightarrow> contradiction_filter q r"
  by (auto simp: contradiction_wanted_def contradiction_filter_def Let_def given_def split: option.splits)

lemma contradictions_listing:
  "corpus_contradictions e db q = listing e CQ_CONTRADICTIONS q (contradiction_wanted e q) (cb_contradictions db) (\<lambda>_. contradiction_item e)"
proof -
  have "filter (contradiction_filter q) (keyset_rows l (contradiction_wanted e q) c rows) = keyset_rows l (contradiction_wanted e q) c rows" for l c rows
    by (auto simp: keyset_rows_def filter_id_conv intro: wanted_filter dest!: in_set_takeD)
  then show ?thesis
    by (simp add: corpus_contradictions_def listing_def Let_def)
qed

lemma walk_table:
  assumes laws: "codec_laws e" and ok: "table_ok e rows" and limit: "1 \<le> cq_limit q" and new: "cq_cursor q = None"
    and ask: "\<And>c. ask (q\<lparr>cq_cursor := c\<rparr>) = listing e r (q\<lparr>cq_cursor := c\<rparr>) p rows item"
    and items: "\<And>ids x. ci_id (item ids x) = au_id x" and fuel: "length (matching_ids p rows) < n"
  shows "\<exists>xs. corpus_walk n ask q = Some xs \<and> map ci_id xs = matching_ids p rows \<and> distinct (map ci_id xs)"
proof -
  have "decode_cursor e (Some (encode_cursor e r x)) r = Inr (Some (au_updated_at x, au_id x))" if "x \<in> set rows" for x
    using cursor_reads_back [OF laws, of x r r] ok that by (simp add: table_ok_def list_all_iff)
  moreover have "decode_cursor e None r = Inr None" by (simp add: decode_cursor_def)
  ultimately have "\<exists>xs. corpus_walk n ask (q\<lparr>cq_cursor := None\<rparr>) = Some xs \<and> map ci_id xs = map au_id (in_order (\<lambda>x. p x \<and> after_cursor None x) rows)"
    using ask limit items fuel ok by (intro walk_listing) (simp_all add: matching_ids_def table_ok_def after_cursor_def)
  moreover have "q\<lparr>cq_cursor := None\<rparr> = q" using new by simp
  moreover have "distinct (matching_ids p rows)"
    using ok by (simp add: matching_ids_def in_order_def table_ok_def distinct_map distinct_map_filter inj_on_def)
  ultimately show ?thesis by (auto simp: matching_ids_def after_cursor_def)
qed

lemma claims_ok:
  assumes "table_ok e (cb_claims db)" and "table_ok e (cb_documents db)"
  shows "table_ok e (claims_with_documents db)"
proof -
  let ?docs = "\<lambda>c :: corpus_claim audited. filter (\<lambda>d. au_id d = qc_source_document_id (au_row c)) (cb_documents db)"
  have one: "length (?docs c) \<le> 1" for c
  proof -
    have "distinct (map au_id (?docs c))" using assms(2) by (simp add: table_ok_def distinct_map_filter)
    moreover have "set (map au_id (?docs c)) \<subseteq> {qc_source_document_id (au_row c)}" by auto
    ultimately have "length (map au_id (?docs c)) \<le> card {qc_source_document_id (au_row c)}"
      by (metis card_mono distinct_card finite.emptyI finite_insert)
    then show ?thesis by simp
  qed
  have ids: "map au_id (map (\<lambda>d. with_row c (au_row c, au_id d, au_row d)) (?docs c)) = (if ?docs c = [] then [] else [au_id c])" for c
    using one [of c] by (cases "?docs c") (auto simp: with_row_def)
  have "distinct (concat (map (\<lambda>c. if ?docs c = [] then [] else [au_id c]) cs))" if "distinct (map au_id cs)" for cs :: "corpus_claim audited list"
    using that by (induction cs) auto
  then have "distinct (map au_id (claims_with_documents db))"
    using assms(1) by (simp add: claims_with_documents_def map_concat comp_def ids [unfolded map_map comp_def] table_ok_def)
  then show ?thesis using assms(1) by (auto simp: table_ok_def claims_with_documents_def with_row_def list_all_iff)
qed

text \<open>C19. The private corpus can be read whole: from a query without a cursor, following \<^verbatim>\<open>next_cursor\<close> ends within as many
  pages as there are matching rows and one more, with no error, and lists every row of the resource that matches the
  query exactly once, latest first, whatever the page size.\<close>

theorem corpus_walk_complete:
  assumes "codec_laws e" and "corpus_ok e db" and "1 \<le> cq_limit q" and "cq_cursor q = None"
    and "length (corpus_matching e db r q) < n"
  shows "\<exists>xs. corpus_walk n (corpus_query_for e db r) q = Some xs \<and> map ci_id xs = corpus_matching e db r q \<and> distinct (map ci_id xs)"
proof -
  note walk = walk_table [OF assms(1) _ assms(3,4)]
  note ok = assms(2) [unfolded corpus_ok_def]
  note views = corpus_query_for_def corpus_cves_def corpus_iocs_def corpus_products_def simple_entities_def corpus_techniques_def
    corpus_urls_def corpus_evidence_def corpus_relationships_def contradictions_listing
  show ?thesis
  proof (cases r)
    case CQ_EVIDENCE
    have "table_ok e (claims_with_documents db)" using ok claims_ok by blast
    from walk [OF this] CQ_EVIDENCE assms(5) show ?thesis
      by (simp add: corpus_matching_def views Let_def split: prod.splits)
  qed (use assms(5) ok in \<open>simp add: corpus_matching_def; intro walk; simp add: views Let_def\<close>)+
qed

section \<open>What redaction leaves\<close>

text \<open>The value redacted ends at the first blank, so the credentials behind an authentication scheme stay.\<close>

lemma bearer_left_visible: "redact ''token: Bearer k1'' = ''token=[REDACTED] k1''"
  by code_simp

section \<open>A concrete corpus\<close>

text \<open>A codec that marks every character.\<close>

definition marked :: "string \<Rightarrow> string" where
  "marked s = concat (map (\<lambda>c. [CHR ''m'', c]) s) @ ''e''"

fun unmark :: "string \<Rightarrow> string \<times> string" where
  "unmark (c # d # s) = (if c = CHR ''m'' then (let (t, rest) = unmark s in (d # t, rest)) else ([], d # s))"
| "unmark (c # []) = ([], [])"
| "unmark [] = ([], [])"

lemma unmark_marked [simp]: "unmark (marked s @ rest) = (s, rest)"
proof (induction s)
  case Nil
  then show ?case by (cases rest) (simp_all add: marked_def)
next
  case (Cons c s)
  have "marked (c # s) @ rest = CHR ''m'' # c # marked s @ rest" by (simp add: marked_def)
  with Cons show ?case by simp
qed

fun unmark_pairs :: "nat \<Rightarrow> string \<Rightarrow> (string \<times> json) list" where
  "unmark_pairs 0 s = []"
| "unmark_pairs (Suc n) s = (let (k, s1) = unmark s; (v, s2) = unmark s1 in (k, JStr v) # unmark_pairs n s2)"

definition marked_pairs :: "(string \<times> string) list \<Rightarrow> string" where
  "marked_pairs kvs = concat (map (\<lambda>(k, v). marked k @ marked v) kvs)"

lemma unmark_marked_pairs: "unmark_pairs (length kvs) (marked_pairs kvs) = map (\<lambda>(k, v). (k, JStr v)) kvs"
  by (induction kvs) (auto simp: marked_pairs_def)

definition count_text :: "nat \<Rightarrow> string" where
  "count_text n = replicate n (CHR ''i'')"

definition sample_codec :: corpus_env where
  "sample_codec = \<lparr>qe_ilower = lower, qe_casefold = lower,
     qe_dumps = (\<lambda>kvs. marked (count_text (length kvs)) @ marked_pairs kvs),
     qe_loads = (\<lambda>s. let (n, rest) = unmark s in Some (JObj (unmark_pairs (length n) rest))),
     qe_iso = (\<lambda>t. (if 0 \<le> t then ''p'' else ''n'') @ count_text (nat (abs t))),
     qe_datetime = (\<lambda>s. Some ((if take 1 s = ''p'' then int (length s) - 1 else 1 - int (length s)), True)),
     qe_uuid = Some\<rparr>"

lemma sample_codec_laws: "codec_laws sample_codec"
  by (auto simp: codec_laws_def sample_codec_def count_text_def unmark_marked_pairs)

theorem cursor_roundtrip_witness:
  "decode_cursor sample_codec (Some (encode_cursor sample_codec CQ_ACTORS
     \<lparr>au_id = ''a1'', au_record_status = ''active'', au_created_at = 1, au_updated_at = 7, au_row = sample_actor\<rparr>)) CQ_ACTORS =
   Inr (Some (7, ''a1''))"
  by (subst cursor_roundtrip [OF sample_codec_laws]) (simp_all add: sample_codec_def)

definition actor_named :: "uuid \<Rightarrow> instant \<Rightarrow> actor_row audited" where
  "actor_named i t = \<lparr>au_id = i, au_record_status = ''active'', au_created_at = 1, au_updated_at = t,
     au_row = sample_actor\<lparr>ac_id := i\<rparr>\<rparr>"

definition sample_corpus :: corpus_db where
  "sample_corpus = \<lparr>cb_vulnerabilities = [], cb_indicators = [], cb_products = [], cb_affected = [],
     cb_actors = [actor_named ''a1'' 5, actor_named ''a2'' 9, actor_named ''a3'' 5], cb_malware = [], cb_tools = [], cb_campaigns = [],
     cb_techniques = [], cb_documents = [], cb_claims = [], cb_relationships = [], cb_relationship_links = [],
     cb_contradictions = [], cb_links = [], cb_reports = sample_named\<rparr>"

definition plain_query :: "int \<Rightarrow> corpus_query" where
  "plain_query n = \<lparr>cq_limit = n, cq_cursor = None, cq_search = None, cq_record_status = None, cq_review_state = None,
     cq_published = None, cq_entity_type = None, cq_entity_id = None, cq_source_id = None, cq_cve_id = None,
     cq_indicator_type = None, cq_value = None, cq_vendor = None, cq_product = None, cq_ecosystem = None, cq_attack_id = None,
     cq_framework_version = None, cq_relationship_type = None\<rparr>"

lemma sample_actor_ids: "matching_ids (\<lambda>_. True) (cb_actors sample_corpus) = [''a2'', ''a1'', ''a3'']"
  by (simp add: matching_ids_def in_order_def sample_corpus_def actor_named_def audit_key_def less_eq_prod_def)

theorem corpus_walk_complete_witness:
  "\<exists>xs. corpus_walk 4 (corpus_query_for sample_codec sample_corpus CQ_ACTORS) (plain_query 1) = Some xs \<and>
     map ci_id xs = [''a2'', ''a1'', ''a3'']"
proof -
  have ok: "corpus_ok sample_codec sample_corpus"
    by (simp add: corpus_ok_def table_ok_def sample_corpus_def sample_codec_def actor_named_def)
  have all: "common_filter sample_codec sample_corpus (plain_query 1) ''actor'' actor_columns = (\<lambda>_. True)"
    by (simp add: fun_eq_iff common_filter_def given_def prefix_search_def member_filter_def plain_query_def)
  have ids: "corpus_matching sample_codec sample_corpus CQ_ACTORS (plain_query 1) = [''a2'', ''a1'', ''a3'']"
    by (simp add: corpus_matching_def all sample_actor_ids)
  have "1 \<le> cq_limit (plain_query 1)" "cq_cursor (plain_query 1) = None" by (simp_all add: plain_query_def)
  from corpus_walk_complete [OF sample_codec_laws ok this, of CQ_ACTORS 4, unfolded ids] show ?thesis by auto
qed

end
