(* ===== verification/Collection_Trigger.thy ===== *)
theory Collection_Trigger
  imports Daily_Pipeline
begin

text \<open>
  \<^verbatim>\<open>ops/collection_trigger.py\<close>: manually requested collections.  The manager keeps the triggers of its
  process and their running tasks; a task runs the daily pipeline once with a fresh ingestion
  service.  The event loop is the step relation \<open>trigger_step\<close>: a submission, the start of a queued
  task, its end with what the pipeline returned or raised, and the callback that forgets the task.
\<close>

datatype trigger_status = TQ_QUEUED | TQ_RUNNING | TQ_LOCK_BUSY | TQ_COMPLETED | TQ_FAILED

record trigger =
  tg_trigger_id :: uuid
  tg_run_id :: uuid
  tg_idempotency_key :: string
  tg_total_sources :: int
  tg_status :: trigger_status
  tg_queued_at :: instant
  tg_started_at :: "instant option"
  tg_completed_at :: "instant option"
  tg_successful_sources :: int
  tg_failed_sources :: int
  tg_error_summary :: "string option"

record manager =
  mg_triggers :: "trigger list"
  mg_tasks :: "uuid list"

definition new_manager :: manager where
  "new_manager = \<lparr>mg_triggers = [], mg_tasks = []\<rparr>"

definition manual_key :: "uuid \<Rightarrow> string" where
  "manual_key i = ''manual:'' @ i"

definition new_trigger :: "pipeline_env \<Rightarrow> uuid \<Rightarrow> source_config list \<Rightarrow> instant \<Rightarrow> trigger" where
  "new_trigger e i sources now = \<lparr>tg_trigger_id = i, tg_run_id = run_id_of e (manual_key i), tg_idempotency_key = manual_key i,
     tg_total_sources = int (length sources), tg_status = TQ_QUEUED, tg_queued_at = now, tg_started_at = None,
     tg_completed_at = None, tg_successful_sources = 0, tg_failed_sources = 0, tg_error_summary = None\<rparr>"

definition submit :: "pipeline_env \<Rightarrow> uuid \<Rightarrow> source_config list \<Rightarrow> instant \<Rightarrow> manager \<Rightarrow> manager \<times> trigger" where
  "submit e i sources now m = (let t = new_trigger e i sources now in
     (\<lparr>mg_triggers = mg_triggers m @ [t], mg_tasks = mg_tasks m @ [i]\<rparr>, t))"

definition get_trigger :: "uuid \<Rightarrow> manager \<Rightarrow> trigger option" where
  "get_trigger i m = List.find (\<lambda>t. tg_trigger_id t = i) (mg_triggers m)"

text \<open>The two halves of \<^verbatim>\<open>_execute\<close>, before and after the pipeline.\<close>

definition started :: "instant \<Rightarrow> trigger \<Rightarrow> trigger" where
  "started now t = t\<lparr>tg_status := TQ_RUNNING, tg_started_at := Some now\<rparr>"

definition finished :: "instant \<Rightarrow> 'x + daily_result \<Rightarrow> trigger \<Rightarrow> trigger" where
  "finished now outcome t = (case outcome of
       Inl _ \<Rightarrow> t\<lparr>tg_status := TQ_FAILED, tg_error_summary := Some ''collection failed before completion'', tg_completed_at := Some now\<rparr>
     | Inr r \<Rightarrow>
         if \<not> dr_acquired_lock r
         then t\<lparr>tg_completed_at := Some now, tg_status := TQ_LOCK_BUSY,
                tg_error_summary := Some ''another collection is already in progress''\<rparr>
         else t\<lparr>tg_completed_at := Some now, tg_status := (if dr_run_status r = Some RS_COMPLETED then TQ_COMPLETED else TQ_FAILED),
                tg_successful_sources := dr_successful_sources r, tg_failed_sources := dr_failed_sources r,
                tg_error_summary := dr_error_summary r\<rparr>)"

definition change_trigger :: "uuid \<Rightarrow> (trigger \<Rightarrow> trigger) \<Rightarrow> manager \<Rightarrow> manager" where
  "change_trigger i f m = m\<lparr>mg_triggers := map (\<lambda>t. if tg_trigger_id t = i then f t else t) (mg_triggers m)\<rparr>"

text \<open>What the task runs: a pipeline of its own, whose ingestion service has no validators yet.\<close>

definition manual_run :: "pipeline_env \<Rightarrow> bool \<Rightarrow> intel_db \<Rightarrow> source_config list \<Rightarrow> instant \<Rightarrow> uuid
    \<Rightarrow> intel_db \<times> (pipeline_exn + daily_result)" where
  "manual_run e locked db sources now i =
     (case pipeline_run_once e locked \<lparr>pl_validators = [], pl_db = db\<rparr> sources now (Some (manual_key i)) of
        (s, r) \<Rightarrow> (pl_db s, r))"

text \<open>The state of the process and of the database it writes.  A queued task starts once; other processes
  may change the database and hold the lock at any time (\<open>elsewhere\<close>).\<close>

inductive trigger_step :: "pipeline_env \<Rightarrow> source_config list \<Rightarrow> manager \<times> intel_db \<Rightarrow> manager \<times> intel_db \<Rightarrow> bool"
  for e sources where
  submitted: "get_trigger i m = None \<Longrightarrow> trigger_step e sources (m, db) (fst (submit e i sources now m), db)"
| start: "get_trigger i m = Some t \<Longrightarrow> i \<in> set (mg_tasks m) \<Longrightarrow> tg_status t = TQ_QUEUED \<Longrightarrow>
    trigger_step e sources (m, db) (change_trigger i (started now) m, db)"
| finish: "get_trigger i m = Some t \<Longrightarrow> i \<in> set (mg_tasks m) \<Longrightarrow> tg_status t = TQ_RUNNING \<Longrightarrow>
    manual_run e locked db sources now i = (db', outcome) \<Longrightarrow>
    trigger_step e sources (m, db) (change_trigger i (finished later outcome) m, db')"
| forget: "get_trigger i m = Some t \<Longrightarrow> tg_status t \<notin> {TQ_QUEUED, TQ_RUNNING} \<Longrightarrow>
    trigger_step e sources (m, db) (m\<lparr>mg_tasks := removeAll i (mg_tasks m)\<rparr>, db)"
| elsewhere: "trigger_step e sources (m, db) (m, db')"

end
