(* ===== verification/Trigger_Facts.thy ===== *)
theory Trigger_Facts
  imports Collection_Trigger Pipeline_Facts
begin

text \<open>
  The life of a manual collection: a trigger is queued, runs and ends; its fields agree with its state, and
  an ended trigger stays as it is.
\<close>

section \<open>Well-formed managers\<close>

definition trigger_ok :: "pipeline_env \<Rightarrow> source_config list \<Rightarrow> uuid list \<Rightarrow> trigger \<Rightarrow> bool" where
  "trigger_ok e sources tasks t = (tg_idempotency_key t = manual_key (tg_trigger_id t) \<and>
     tg_run_id t = run_id_of e (manual_key (tg_trigger_id t)) \<and> tg_total_sources t = int (length sources) \<and>
     (tg_status t = TQ_QUEUED \<longrightarrow> tg_started_at t = None \<and> tg_trigger_id t \<in> set tasks) \<and>
     (tg_status t = TQ_RUNNING \<longrightarrow> tg_trigger_id t \<in> set tasks) \<and>
     (tg_status t \<noteq> TQ_QUEUED \<longrightarrow> tg_started_at t \<noteq> None) \<and>
     (tg_completed_at t = None \<longleftrightarrow> tg_status t \<in> {TQ_QUEUED, TQ_RUNNING}) \<and>
     (tg_status t = TQ_LOCK_BUSY \<longrightarrow> tg_error_summary t = Some ''another collection is already in progress'') \<and>
     (tg_status t \<notin> {TQ_COMPLETED, TQ_FAILED} \<longrightarrow> tg_successful_sources t = 0 \<and> tg_failed_sources t = 0))"

definition manager_ok :: "pipeline_env \<Rightarrow> source_config list \<Rightarrow> manager \<Rightarrow> bool" where
  "manager_ok e sources m = (distinct (map tg_trigger_id (mg_triggers m)) \<and>
     list_all (trigger_ok e sources (mg_tasks m)) (mg_triggers m) \<and> set (mg_tasks m) \<subseteq> tg_trigger_id ` set (mg_triggers m))"

lemma new_manager_ok [simp]: "manager_ok e sources new_manager"
  by (simp add: manager_ok_def new_manager_def)

lemma get_trigger_None: "get_trigger i m = None \<longleftrightarrow> i \<notin> tg_trigger_id ` set (mg_triggers m)"
  by (auto simp: get_trigger_def find_None_iff)

lemma get_trigger_Some: "distinct (map tg_trigger_id (mg_triggers m)) \<Longrightarrow>
    get_trigger i m = Some t \<longleftrightarrow> t \<in> set (mg_triggers m) \<and> tg_trigger_id t = i"
proof -
  have "distinct (map tg_trigger_id ts) \<Longrightarrow> List.find (\<lambda>t. tg_trigger_id t = i) ts = Some t \<longleftrightarrow> t \<in> set ts \<and> tg_trigger_id t = i" for ts
    by (induction ts) auto
  then show "distinct (map tg_trigger_id (mg_triggers m)) \<Longrightarrow> ?thesis" by (simp add: get_trigger_def)
qed

lemma manager_unique: "manager_ok e sources m \<Longrightarrow> get_trigger i m = Some t \<Longrightarrow> u \<in> set (mg_triggers m) \<Longrightarrow> tg_trigger_id u = i \<Longrightarrow> u = t"
  using get_trigger_Some [of m i u] by (simp add: manager_ok_def)

lemma change_ids: "(\<And>t. tg_trigger_id (f t) = tg_trigger_id t) \<Longrightarrow>
    map tg_trigger_id (mg_triggers (change_trigger i f m)) = map tg_trigger_id (mg_triggers m)"
  by (simp add: change_trigger_def)

lemma change_ok:
  assumes "manager_ok e sources m" "\<And>t. tg_trigger_id (f t) = tg_trigger_id t"
    and "\<And>t. get_trigger i m = Some t \<Longrightarrow> trigger_ok e sources (mg_tasks m) t \<Longrightarrow> trigger_ok e sources (mg_tasks m) (f t)"
  shows "manager_ok e sources (change_trigger i f m)"
proof -
  note ids = change_ids [OF assms(2), where i = i and m = m]
  have "trigger_ok e sources (mg_tasks m) x" if "x \<in> set (mg_triggers (change_trigger i f m))" for x
  proof -
    from that obtain u where u: "u \<in> set (mg_triggers m)" "x = (if tg_trigger_id u = i then f u else u)"
      by (auto simp: change_trigger_def)
    have "trigger_ok e sources (mg_tasks m) u" using assms(1) u(1) by (simp add: manager_ok_def list_all_iff)
    moreover have "get_trigger i m = Some u" if "tg_trigger_id u = i"
      using assms(1) u(1) that get_trigger_Some [of m i u] by (simp add: manager_ok_def)
    ultimately show ?thesis using assms(3) [of u] u(2) by simp
  qed
  moreover have "mg_tasks (change_trigger i f m) = mg_tasks m" by (simp add: change_trigger_def)
  moreover have "tg_trigger_id ` set (mg_triggers (change_trigger i f m)) = tg_trigger_id ` set (mg_triggers m)"
    using arg_cong [OF ids, of set] by simp
  ultimately show ?thesis using assms(1) ids by (simp add: manager_ok_def list_all_iff)
qed

lemma change_other: "j \<noteq> i \<Longrightarrow> (\<And>t. tg_trigger_id (f t) = tg_trigger_id t) \<Longrightarrow> get_trigger i (change_trigger j f m) = get_trigger i m"
proof -
  assume a: "j \<noteq> i" "\<And>t. tg_trigger_id (f t) = tg_trigger_id t"
  have "List.find (\<lambda>t. tg_trigger_id t = i) (map (\<lambda>t. if tg_trigger_id t = j then f t else t) ts) = List.find (\<lambda>t. tg_trigger_id t = i) ts" for ts
    using a by (induction ts) auto
  then show ?thesis by (simp add: get_trigger_def change_trigger_def)
qed

lemma find_snoc: "List.find p xs = Some x \<Longrightarrow> List.find p (xs @ ys) = Some x"
  by (induction xs) (auto split: if_splits)

lemma started_simps [simp]: "tg_trigger_id (started now t) = tg_trigger_id t"
  by (simp add: started_def)

lemma finished_simps [simp]: "tg_trigger_id (finished now r t) = tg_trigger_id t"
  by (simp add: finished_def split: sum.split)

lemma trigger_step_ok: "trigger_step e sources s s' \<Longrightarrow> manager_ok e sources (fst s) \<Longrightarrow> manager_ok e sources (fst s')"
proof (induction rule: trigger_step.induct)
  case (submitted i m db now)
  then show ?case
    by (auto simp: get_trigger_None manager_ok_def list_all_iff trigger_ok_def submit_def new_trigger_def Let_def image_iff)
next
  case (start i m t db now)
  then show ?case by (auto intro!: change_ok simp: trigger_ok_def started_def)
next
  case (finish i m t locked db now db' outcome later)
  then show ?case by (auto intro!: change_ok simp: trigger_ok_def finished_def split: sum.split)
next
  case (forget i m t db)
  have "trigger_ok e sources (removeAll i (mg_tasks m)) u" if "u \<in> set (mg_triggers m)" for u
    using forget that manager_unique [of e sources m i t u]
    by (cases "tg_trigger_id u = i") (auto simp: manager_ok_def list_all_iff trigger_ok_def)
  with forget show ?case by (auto simp: manager_ok_def list_all_iff)
qed simp

text \<open>Ended triggers are left alone.\<close>

definition ended :: "trigger \<Rightarrow> bool" where
  "ended t = (tg_status t \<notin> {TQ_QUEUED, TQ_RUNNING})"

lemma trigger_step_ended:
  "trigger_step e sources s s' \<Longrightarrow> get_trigger i (fst s) = Some t \<Longrightarrow> ended t \<Longrightarrow> get_trigger i (fst s') = Some t"
proof (induction rule: trigger_step.induct)
  case (submitted j m db now)
  then show ?case by (simp add: submit_def Let_def get_trigger_def find_snoc)
next
  case (start j m u db now)
  then have "j \<noteq> i" by (auto simp: ended_def)
  with start show ?case by (simp add: change_other)
next
  case (finish j m u locked db now db' outcome later)
  then have "j \<noteq> i" by (auto simp: ended_def)
  with finish show ?case by (simp add: change_other)
qed (auto simp: get_trigger_def)


section \<open>A trigger that finds the lock taken\<close>

abbreviation busy_env :: pipeline_env where
  "busy_env \<equiv> demo_pipeline (Raises NetworkError)"

definition queued_manager :: manager where
  "queued_manager = fst (submit busy_env ''t'' [] 1 new_manager)"

definition running_manager :: manager where
  "running_manager = change_trigger ''t'' (started 2) queued_manager"

definition busy_manager :: manager where
  "busy_manager = change_trigger ''t'' (finished 3 (Inr lock_not_acquired :: pipeline_exn + daily_result)) running_manager"

abbreviation busy_db :: intel_db where
  "busy_db \<equiv> pl_db (demo_state [])"

lemma busy_states:
  "get_trigger ''t'' new_manager = None"
  "map_option tg_status (get_trigger ''t'' queued_manager) = Some TQ_QUEUED" "''t'' \<in> set (mg_tasks queued_manager)"
  "map_option tg_status (get_trigger ''t'' running_manager) = Some TQ_RUNNING" "''t'' \<in> set (mg_tasks running_manager)"
  "map_option tg_status (get_trigger ''t'' busy_manager) = Some TQ_LOCK_BUSY"
  by code_simp+

lemma busy_run: "manual_run e True db sources now i = (db, Inr lock_not_acquired)"
  by (simp add: manual_run_def pipeline_run_once_def Let_def)

lemma busy_steps:
  "trigger_step busy_env [] (new_manager, busy_db) (queued_manager, busy_db)"
  "trigger_step busy_env [] (queued_manager, busy_db) (running_manager, busy_db)"
  "trigger_step busy_env [] (running_manager, busy_db) (busy_manager, busy_db)"
  "trigger_step busy_env [] (busy_manager, busy_db) (busy_manager\<lparr>mg_tasks := removeAll ''t'' (mg_tasks busy_manager)\<rparr>, busy_db)"
  using busy_states trigger_step.submitted [of "''t''" new_manager busy_env "[]" busy_db 1]
    trigger_step.start [of "''t''" queued_manager _ busy_env "[]" busy_db 2]
    trigger_step.finish [OF _ _ _ busy_run, of "''t''" running_manager _ busy_env "[]" busy_db 3]
    trigger_step.forget [of "''t''" busy_manager _ busy_env "[]" busy_db]
  unfolding queued_manager_def [symmetric] running_manager_def [symmetric] busy_manager_def [symmetric] by auto


end
