(* ===== verification/Spec2Isabelle.thy ===== *)
theory Spec2Isabelle
  imports Contract_Facts Scoring Http_Facts Provider_Facts Enrichment_Facts
    Vulnerability_Fields Extraction_Export Correlation_Store Ingestion_Facts Pipeline_Facts
    Scheduler_Facts Rule_Facts Entity_Facts Publication_Facts Portal_Facts Portal_Entities
    Analyst_Facts Corpus_Facts Trigger_Facts
begin

text \<open>
  A verification development for Hermes CTI (\<^verbatim>\<open>src/src/hermes_cti\<close>), an agent that collects public threat
  intelligence, extracts and enriches indicators and vulnerabilities, correlates them with its history,
  generates detections, and publishes validated reports on a portal.

  \<^bold>\<open>The program and its parts.\<close>  A scheduler (\<^verbatim>\<open>db/scheduler.py\<close>) or a manual trigger
  (\<^verbatim>\<open>ops/collection_trigger.py\<close>) starts the daily pipeline (\<^verbatim>\<open>db/pipeline.py\<close>) under a database lock.  The
  pipeline collects the registered sources (\<^verbatim>\<open>ingestion/service.py\<close>) through the HTTP client
  (\<^verbatim>\<open>ingestion/http_client.py\<close>), turns payloads into documents (\<^verbatim>\<open>ingestion/normalization.py\<close>), stores them and
  what is extracted from them (\<^verbatim>\<open>extraction/pipeline.py\<close>, \<^verbatim>\<open>db/repositories.py\<close>) in one transaction, and then
  enriches the run's vulnerabilities (\<^verbatim>\<open>enrichment/\<close>), one transaction each.  Correlation
  (\<^verbatim>\<open>correlation/\<close>) compares a new finding with history.  An analyst submits report bundles through the API
  (\<^verbatim>\<open>analyst/routes.py\<close>); they are validated, rendered and stored (\<^verbatim>\<open>reporting/\<close>), and the portal
  (\<^verbatim>\<open>portal/\<close>) shows what is published.

  \<^bold>\<open>Theories and code.\<close>  Each theory names the files it models; a definition has the name of the function or
  class it translates, lower case for the data of a contract and capitalised for its construction.
  \<^item> Foundations: \<open>Hermes_Prelude\<close> (texts, dictionaries, errors as sums, rounding, instants as microseconds),
    \<open>Py_Values\<close> (dynamic JSON values), \<open>Py_Regex\<close> with \<open>Regex_Complete\<close> (the backtracking matcher of \<^verbatim>\<open>re\<close>, sound and
    complete), \<open>Py_Net\<close> (addresses and URLs), \<open>Sql_Table\<close> with \<open>Version_Chain\<close> (tables as row lists, upserts, versions),
    \<open>Vocabulary\<close> and \<open>Contracts\<close> with \<open>Contract_Facts\<close> (\<^verbatim>\<open>models/contracts.py\<close>).
  \<^item> Collection: \<open>Http_Client\<close>, \<open>Http_Facts\<close>, \<open>Html_Text\<close>, \<open>Normalization\<close>, \<open>Normalization_Facts\<close>, \<open>Ingestion\<close>,
    \<open>Ingestion_Facts\<close>.
  \<^item> Extraction: \<open>Ioc_Extraction\<close>, \<open>Extraction_Facts\<close>, \<open>Extraction_Export\<close>.
  \<^item> Enrichment: \<open>Providers\<close>, \<open>Provider_Facts\<close>, \<open>Enrichment\<close>, \<open>Enrichment_Facts\<close>, \<open>Scoring\<close>, \<open>Vulnerability_Fields\<close>.
  \<^item> Correlation: \<open>Correlation\<close>, \<open>Correlation_Facts\<close>, \<open>Correlation_Store\<close>.
  \<^item> Storage and runs: \<open>Lifecycle\<close>, \<open>Run_Store\<close>, \<open>Run_Store_Facts\<close>, \<open>Finding_Facts\<close>, \<open>Enrichment_Store\<close>, \<open>Entity_Store\<close>,
    \<open>Entity_Facts\<close>, \<open>Daily_Pipeline\<close>, \<open>Pipeline_Facts\<close>, \<open>Scheduler_Facts\<close>, \<open>Collection_Trigger\<close>, \<open>Trigger_Facts\<close>.
  \<^item> Detections: \<open>Query_Text\<close> (quoting and its reader), \<open>Detections\<close>, \<open>Detection_Facts\<close>, \<open>Rule_Generator\<close>, \<open>Rule_Facts\<close>.
  \<^item> Reports: \<open>Report_Contracts\<close>, \<open>Report_Validation\<close>, \<open>Report_Render\<close>, \<open>Report_Facts\<close>, \<open>Report_Store\<close>,
    \<open>Publication_Facts\<close>, \<open>Candidate_Ledger\<close>, \<open>Analyst_Api\<close>, \<open>Analyst_Facts\<close>.
  \<^item> Private corpus: \<open>Py_Base64\<close>, \<open>Corpus_Query\<close>, \<open>Corpus_Facts\<close>.
  \<^item> Portal: \<open>Portal_Read\<close>, \<open>Portal_Cves\<close>, \<open>Portal_Detail\<close>, \<open>Portal_Entities\<close>, \<open>Portal_Facts\<close>.

  \<^bold>\<open>Conventions.\<close>  A Python exception is the left value of a sum; an operation on state returns the new state.  A
  database is a record of row lists; a statement checks the columns, keys and foreign keys of its
  table (\<^verbatim>\<open>db/models.py\<close>) and a violated constraint is a left value, on which the caller's transaction leaves the old
  database.  PostgreSQL is taken at its documented behaviour: texts without NUL, \<^verbatim>\<open>VARCHAR\<close> bounds, NULLs distinct in
  unique keys, nulls first in descending orders; the session of SQLAlchemy does not flush by
  itself.  Floats are exact rationals, texts are Latin-1, instants are UTC microseconds.  Whatever is not the
  program's own (transport, clocks, randomness, JSON, XML, YAML and HTML parsers, pydantic's URL
  type, SHA and UUIDv5, external tools) is an argument of the definitions; where a property needs its
  documented behaviour, that is a named hypothesis, shown satisfiable by the property's witness.

  \<^bold>\<open>Interfaces.\<close>  A locale states what one part relies on in another, and is interpreted on the definitions of
  the part that provides it: \<open>str_enum\<close> (vocabularies), \<open>normaliser\<close> (identifiers), \<open>keyed_table\<close> with
  \<open>identified_table\<close>, \<open>entity_table\<close> and \<open>versioned_table\<close> (tables), \<open>retry_step\<close> (the HTTP loop),
  \<open>enrichment_provider\<close> (the service's providers), \<open>schedule_zone\<close> (the scheduler's time zone), \<open>item_syntax\<close> with
  \<open>literal_quoting\<close> (generated queries).

  \<^bold>\<open>What the lemmas show.\<close>
  \<^item> Reports: the portal shows exactly the published reports, each with a current version behind a
    validated publication, and over any history of submissions the published content is what was
    validated; what is stored is only ever extended and a published report stays published; the portal
    fragment reads back as one text node per field; pages neither lose nor repeat reports and the
    vulnerability index gathers every mention; entities and relationships are shown only when published and
    reviewed; following the cursors of the private corpus lists every matching row once.
  \<^item> Runs: one daily transaction keeps the evidence store well formed and persisting a collection twice
    changes nothing; every source is accounted for and sources do not influence each other; the
    scheduled instants that are served are characterised exactly; a manual trigger is queued, runs and
    ends.  Two ways in which a failing run loses evidence are proved.
  \<^item> HTTP: a fetch ends within its attempt budget, keeps to the response policy and raises classified errors.
  \<^item> Extraction: evidence spans lie in the document they name, selection is sound and complete, the CSV
    export reads back.
  \<^item> Enrichment: the service accounts for every provider, merging keeps conflicts, canonical fields are
    selected deterministically, cooldowns are not re-armed and dispatches are spaced, the score is
    monotone.
  \<^item> Correlation: relationships are exactly the shared identifiers, contradictions are complete, the result
    does not depend on the order of history, model proposals cannot attribute an actor without evidence.
  \<^item> Detections: generated rules and queries read back as what was specified; the exact losses and the
    injection in one generator are part of the statements.

  \<^bold>\<open>Termination, fuel and bounds.\<close>  Loops are structural or have a measure (the retry loop by the attempts left, the
  reading of the vulnerability index by the pages left below the query's limit of 10,000); the matcher of regular expressions
  counts its repetitions by the length of the text.  The index theorem is for at most 1,000,000
  published reports: beyond that the code's own page limit raises.  The reader of the private corpus takes as
  fuel a number of pages; one more than the matching rows is proved to be enough.

  \<^bold>\<open>Not modelled.\<close>  HTTP routing, authentication, rate limits, page rendering and static files (\<^verbatim>\<open>api/\<close>,
  \<^verbatim>\<open>portal/routes.py\<close>, the reading routes of \<^verbatim>\<open>analyst/routes.py\<close>), the command line (\<^verbatim>\<open>cli/\<close>), settings, logging, database
  sessions, readiness and query plans are glue around the modelled parts or pure input and
  output.  The prose of \<^verbatim>\<open>enrichment/cve_analysis.py\<close>, \<^verbatim>\<open>enrichment/ioc_analysis.py\<close> and \<^verbatim>\<open>playbooks/hunt_playbook.py\<close> is text with
  interpolated values.  \<^verbatim>\<open>publisher/\<close> (static site, STIX export, notifications), \<^verbatim>\<open>ingestion/rss_parser.py\<close>,
  \<^verbatim>\<open>ingestion/enrichment.py\<close> and \<^verbatim>\<open>analysis/\<close> serve the older command line, outside the daily pipeline.    Concurrency inside one
  collection is modelled by the proof that sources do not influence each other; between
  processes only the advisory lock and the interleaving of triggers are modelled, and one index or page is read from one
  state of the database.
\<close>

end
